(* ===== verification/Py_Values.thy ===== *)
theory Py_Values
  imports Complex_Main "HOL-Library.Sublist"
begin

text \<open>
  The prelude: the Python values every component of the backend handles, and the generic lemmas
  about them.

  \<^item> Instants are integers: microseconds since the epoch, the resolution of Python's
    \<^verbatim>\<open>datetime\<close>; \<open>seconds\<close> is \<^verbatim>\<open>dt.timedelta(seconds=n)\<close>.
  \<^item> Python's \<^verbatim>\<open>float\<close> is modelled by \<open>rat\<close>: the arithmetic is exact, IEEE rounding is
    not modelled. \<open>py_round\<close> is \<^verbatim>\<open>round(x, n)\<close> (half to even).
  \<^item> Text is \<open>string\<close>, read as ASCII; the case and whitespace operations are those of
    Python's \<^verbatim>\<open>str\<close> on ASCII text.
  \<^item> JSON columns and payloads are values of the datatype \<open>json\<close>; an object is an association
    list in insertion order.
  \<^item> A database table is the list of its rows. \<open>row_find\<close> is a lookup by primary key,
    \<open>row_put\<close> the write-back of one changed row.
\<close>

section \<open>Collections of rewrite rules\<close>

named_theorems py_simps \<open>evaluation of the Python value operations\<close>
named_theorems row_simps \<open>reads of a table after a write\<close>

section \<open>Identifiers and time\<close>

type_synonym uuid = string
type_synonym instant = int

definition seconds :: "int \<Rightarrow> int" where
  "seconds n = n * 1000000"

definition total_seconds :: "int \<Rightarrow> rat" where
  "total_seconds d = of_int d / 1000000"

lemma seconds_mono [simp]: "seconds a \<le> seconds b \<longleftrightarrow> a \<le> b"
  by (simp add: seconds_def)

lemma seconds_less [simp]: "seconds a < seconds b \<longleftrightarrow> a < b"
  by (simp add: seconds_def)

lemma seconds_pos [simp]: "0 < seconds a \<longleftrightarrow> 0 < a"
  by (simp add: seconds_def)

lemma seconds_nonneg [simp]: "0 \<le> seconds a \<longleftrightarrow> 0 \<le> a"
  by (simp add: seconds_def)

definition clamp :: "'a::linorder \<Rightarrow> 'a \<Rightarrow> 'a \<Rightarrow> 'a" where
  "clamp lo hi x = max lo (min x hi)"

lemma clamp_bounds: "lo \<le> hi \<Longrightarrow> lo \<le> clamp lo hi x \<and> clamp lo hi x \<le> hi"
  by (auto simp: clamp_def)

lemma clamp_lower [simp]: "lo \<le> clamp lo hi x"
  by (simp add: clamp_def)

lemma clamp_upper [simp]: "lo \<le> hi \<Longrightarrow> clamp lo hi x \<le> hi"
  by (simp add: clamp_def)

lemma clamp_id [simp]: "lo \<le> x \<Longrightarrow> x \<le> hi \<Longrightarrow> clamp lo hi x = x"
  by (simp add: clamp_def)

section \<open>Numbers\<close>

definition round_half_even :: "rat \<Rightarrow> int" where
  "round_half_even q =
     (let f = \<lfloor>q\<rfloor>; d = q - of_int f
      in if d < 1 / 2 then f else if d > 1 / 2 then f + 1 else if even f then f else f + 1)"

definition py_round :: "nat \<Rightarrow> rat \<Rightarrow> rat" where
  "py_round n q = of_int (round_half_even (q * 10 ^ n)) / 10 ^ n"

lemma round_half_even_of_int [simp]: "round_half_even (of_int k) = k"
  by (simp add: round_half_even_def)

lemma round_half_even_near: "\<bar>of_int (round_half_even q) - q\<bar> \<le> 1 / 2"
proof -
  have "of_int \<lfloor>q\<rfloor> \<le> q" "q < of_int \<lfloor>q\<rfloor> + 1"
    by linarith+
  then show ?thesis
    by (simp add: round_half_even_def Let_def abs_le_iff)
qed

lemma round_half_even_mono:
  assumes "p \<le> q"
  shows "round_half_even p \<le> round_half_even q"
proof (cases "\<lfloor>p\<rfloor> = \<lfloor>q\<rfloor>")
  case True
  then show ?thesis
    using assms by (auto simp: round_half_even_def Let_def)
next
  case False
  with assms have "\<lfloor>p\<rfloor> + 1 \<le> \<lfloor>q\<rfloor>"
    using floor_mono [OF assms] by linarith
  moreover have "round_half_even p \<le> \<lfloor>p\<rfloor> + 1" "\<lfloor>q\<rfloor> \<le> round_half_even q"
    by (auto simp: round_half_even_def Let_def)
  ultimately show ?thesis by linarith
qed

lemma py_round_mono: "p \<le> q \<Longrightarrow> py_round n p \<le> py_round n q"
  by (simp add: py_round_def divide_right_mono round_half_even_mono mult_right_mono)

lemma py_round_of_int [simp]: "py_round n (of_int k) = of_int k"
proof -
  have "of_int k * (10::rat) ^ n = of_int (k * 10 ^ n)" by simp
  then show ?thesis
    unfolding py_round_def by (simp only: round_half_even_of_int) simp
qed

lemma py_round_0 [simp]: "py_round n 0 = 0"
  using py_round_of_int [of n 0] by simp

lemma py_round_1 [simp]: "py_round n 1 = 1"
  using py_round_of_int [of n 1] by simp

lemma py_round_unit: "0 \<le> q \<Longrightarrow> q \<le> 1 \<Longrightarrow> 0 \<le> py_round n q \<and> py_round n q \<le> 1"
  using py_round_mono [of 0 q n] py_round_mono [of q 1 n] by simp

text \<open>\<^verbatim>\<open>numerator / denominator if denominator else 0.0\<close>, the rate helper several modules repeat.\<close>

definition rate_or_zero :: "int \<Rightarrow> int \<Rightarrow> rat" where
  "rate_or_zero num den = (if den = 0 then 0 else of_int num / of_int den)"

lemma rate_or_zero_unit:
  "0 \<le> num \<Longrightarrow> num \<le> den \<Longrightarrow> 0 \<le> rate_or_zero num den \<and> rate_or_zero num den \<le> 1"
  by (auto simp: rate_or_zero_def divide_le_eq)

section \<open>Text\<close>

definition is_space :: "char \<Rightarrow> bool" where
  "is_space c \<longleftrightarrow> (let n = (of_char c :: nat) in n = 32 \<or> (9 \<le> n \<and> n \<le> 13) \<or> (28 \<le> n \<and> n \<le> 31))"

definition strip :: "string \<Rightarrow> string" where
  "strip s = rev (dropWhile is_space (rev (dropWhile is_space s)))"

definition lower_char :: "char \<Rightarrow> char" where
  "lower_char c = (let n = (of_char c :: nat) in if 65 \<le> n \<and> n \<le> 90 then char_of (n + 32) else c)"

definition lower :: "string \<Rightarrow> string" where
  "lower s = map lower_char s"

fun contains :: "string \<Rightarrow> string \<Rightarrow> bool" where
  "contains sub [] = (sub = [])"
| "contains sub (c # s) = (prefix sub (c # s) \<or> contains sub s)"

fun join :: "string \<Rightarrow> string list \<Rightarrow> string" where
  "join sep [] = []"
| "join sep [s] = s"
| "join sep (s # t # ts) = s @ sep @ join sep (t # ts)"

text \<open>\<^verbatim>\<open>s.split()\<close>: the maximal runs of non-space characters.\<close>

fun split_acc :: "string \<Rightarrow> string \<Rightarrow> string list" where
  "split_acc w [] = (if w = [] then [] else [rev w])"
| "split_acc w (c # s) =
     (if is_space c then (if w = [] then split_acc [] s else rev w # split_acc [] s)
      else split_acc (c # w) s)"

definition split_ws :: "string \<Rightarrow> string list" where
  "split_ws s = split_acc [] s"

lemma split_acc_nonempty: "\<forall>t \<in> set (split_acc w s). t \<noteq> []"
proof (induction s arbitrary: w)
  case Nil
  then show ?case by simp
next
  case (Cons c s)
  from Cons [of "[]"] Cons [of "c # w"] show ?case by simp
qed

lemma contains_iff_sublist: "contains sub s \<longleftrightarrow> sublist sub s"
proof (induction s)
  case Nil
  then show ?case by simp
next
  case (Cons c s)
  then show ?case by (simp add: sublist_Cons_right)
qed

lemma strip_Nil [simp]: "strip [] = []"
  by (simp add: strip_def)

lemma length_strip: "length (strip s) \<le> length s"
proof -
  have "length (strip s) \<le> length (rev (dropWhile is_space s))"
    unfolding strip_def length_rev by (metis length_dropWhile_le length_rev)
  also have "\<dots> \<le> length s"
    unfolding length_rev by (rule length_dropWhile_le)
  finally show ?thesis .
qed

text \<open>\<^verbatim>\<open>list(dict.fromkeys(xs))\<close>: the first occurrence of each element, in order.\<close>

fun fromkeys :: "'a list \<Rightarrow> 'a list" where
  "fromkeys [] = []"
| "fromkeys (x # xs) = x # filter (\<lambda>y. y \<noteq> x) (fromkeys xs)"

lemma set_fromkeys [simp]: "set (fromkeys xs) = set xs"
  by (induction xs) auto

lemma distinct_fromkeys [simp]: "distinct (fromkeys xs)"
  by (induction xs) auto

lemma fromkeys_id: "distinct xs \<Longrightarrow> fromkeys xs = xs"
  by (induction xs) (auto simp: filter_id_conv)

lemma fromkeys_eq_Nil [simp]: "fromkeys xs = [] \<longleftrightarrow> xs = []"
  by (cases xs) auto

lemma length_fromkeys: "length (fromkeys xs) \<le> length xs"
proof (induction xs)
  case (Cons x xs)
  have "length (filter (\<lambda>y. y \<noteq> x) (fromkeys xs)) \<le> length (fromkeys xs)"
    by (rule length_filter_le)
  also note Cons
  finally show ?case by simp
qed simp

text \<open>\<^verbatim>\<open>str(n)\<close> of an integer.\<close>

fun show_nat :: "nat \<Rightarrow> string" where
  "show_nat n = (if n < 10 then [char_of (48 + n)] else show_nat (n div 10) @ [char_of (48 + n mod 10)])"

declare show_nat.simps [simp del]

definition show_int :: "int \<Rightarrow> string" where
  "show_int k = (if k < 0 then CHR ''-'' # show_nat (nat (- k)) else show_nat (nat k))"

fun read_nat :: "nat \<Rightarrow> string \<Rightarrow> nat" where
  "read_nat acc [] = acc"
| "read_nat acc (c # s) = read_nat (acc * 10 + (of_char c - 48)) s"

lemma read_nat_append: "read_nat acc (s @ t) = read_nat (read_nat acc s) t"
  by (induction s arbitrary: acc) auto

lemma read_show_nat: "read_nat 0 (show_nat n) = n"
proof (induction n rule: show_nat.induct)
  case (1 n)
  show ?case
  proof (cases "n < 10")
    case True
    then show ?thesis by (subst show_nat.simps) (simp add: of_char_of take_bit_eq_mod)
  next
    case False
    with 1 show ?thesis
      by (subst show_nat.simps) (simp add: read_nat_append of_char_of take_bit_eq_mod)
  qed
qed

lemma show_nat_inject [simp]: "show_nat m = show_nat n \<longleftrightarrow> m = n"
  by (metis read_show_nat)

section \<open>JSON values\<close>

datatype json =
    JNull
  | JBool bool
  | JInt int
  | JFloat rat
  | JStr string
  | JArr "json list"
  | JObj "(string \<times> json) list"

text \<open>\<^verbatim>\<open>bool(value)\<close>.\<close>

fun truthy :: "json \<Rightarrow> bool" where
  "truthy JNull = False"
| "truthy (JBool b) = b"
| "truthy (JInt k) = (k \<noteq> 0)"
| "truthy (JFloat q) = (q \<noteq> 0)"
| "truthy (JStr s) = (s \<noteq> [])"
| "truthy (JArr xs) = (xs \<noteq> [])"
| "truthy (JObj kvs) = (kvs \<noteq> [])"

text \<open>\<^verbatim>\<open>d.get(key)\<close> on a value already known to be a dict; a missing key gives \<^verbatim>\<open>None\<close>.\<close>

fun dict_items :: "json \<Rightarrow> (string \<times> json) list" where
  "dict_items (JObj kvs) = kvs"
| "dict_items _ = []"

definition jget :: "json \<Rightarrow> string \<Rightarrow> json" where
  "jget d k = (case map_of (dict_items d) k of None \<Rightarrow> JNull | Some v \<Rightarrow> v)"

fun is_dict :: "json \<Rightarrow> bool" where
  "is_dict (JObj _) = True"
| "is_dict _ = False"

text \<open>\<^verbatim>\<open>value if isinstance(value, dict) else {}\<close>.\<close>

definition as_dict :: "json \<Rightarrow> json" where
  "as_dict j = (if is_dict j then j else JObj [])"

text \<open>\<^verbatim>\<open>{**a, **b}\<close> on dicts: the right one wins.\<close>

definition dict_merge :: "json \<Rightarrow> json \<Rightarrow> json" where
  "dict_merge a b =
     JObj (map (\<lambda>(k, v). (k, case map_of (dict_items b) k of None \<Rightarrow> v | Some w \<Rightarrow> w)) (dict_items a)
           @ filter (\<lambda>(k, v). k \<notin> fst ` set (dict_items a)) (dict_items b))"

text \<open>\<^verbatim>\<open>d[k] = v\<close> on a copy of a dict.\<close>

definition dict_set :: "string \<Rightarrow> json \<Rightarrow> json \<Rightarrow> json" where
  "dict_set k v d = dict_merge d (JObj [(k, v)])"

lemma jget_dict_set: "jget (dict_set k v d) k' = (if k' = k then v else jget d k')"
proof -
  have "map_of (map (\<lambda>(a, b). (a, case if a = k then Some v else None of None \<Rightarrow> b | Some w \<Rightarrow> w)) xs) k' =
      (case map_of xs k' of None \<Rightarrow> None | Some b \<Rightarrow> Some (if k' = k then v else b))" for xs :: "(string \<times> json) list"
    by (induction xs) auto
  then show ?thesis
    by (auto simp: dict_set_def dict_merge_def jget_def map_add_def map_of_eq_None_iff
        split: option.split) (force simp: image_iff dest: map_of_SomeD)+
qed

lemma is_dict_set [simp]: "is_dict (dict_set k v d)"
  by (simp add: dict_set_def dict_merge_def)

lemma as_dict_is_dict [simp]: "is_dict (as_dict j)"
  by (simp add: as_dict_def)

lemma jget_as_dict: "jget (as_dict j) k = (if is_dict j then jget j k else JNull)"
  by (cases j) (auto simp: as_dict_def jget_def)

lemma jget_empty [simp]: "jget (JObj []) k = JNull"
  by (simp add: jget_def)

definition opt_json :: "('a \<Rightarrow> json) \<Rightarrow> 'a option \<Rightarrow> json" where
  "opt_json f x = (case x of None \<Rightarrow> JNull | Some a \<Rightarrow> f a)"

text \<open>
  \<^verbatim>\<open>str(value)\<close>: a string is itself, a container prints the \<^verbatim>\<open>repr\<close> of its items. A float prints its
  decimal digits (at most 17 after the point; exact for a value with a short decimal expansion).
\<close>

fun float_digits :: "nat \<Rightarrow> rat \<Rightarrow> string" where
  "float_digits 0 q = []"
| "float_digits (Suc n) q =
     (if q = 0 then [] else char_of (48 + nat \<lfloor>q * 10\<rfloor>) # float_digits n (q * 10 - of_int \<lfloor>q * 10\<rfloor>))"

definition show_float :: "rat \<Rightarrow> string" where
  "show_float q =
     (let a = \<bar>q\<bar>; d = float_digits 17 (a - of_int \<lfloor>a\<rfloor>)
      in (if q < 0 then ''-'' else []) @ show_int \<lfloor>a\<rfloor> @ ''.'' @ (if d = [] then ''0'' else d))"

definition repr_str :: "string \<Rightarrow> string" where
  "repr_str s =
     (let q = (if CHR 0x27 \<in> set s \<and> CHR 0x22 \<notin> set s then CHR 0x22 else CHR 0x27);
          esc = (\<lambda>c. if c = q \<or> c = CHR 0x5C then [CHR 0x5C, c]
                     else if c = CHR 0x0A then [CHR 0x5C, CHR ''n'']
                     else if c = CHR 0x0D then [CHR 0x5C, CHR ''r'']
                     else if c = CHR 0x09 then [CHR 0x5C, CHR ''t''] else [c])
      in q # concat (map esc s) @ [q])"

fun py_repr :: "json \<Rightarrow> string" where
  "py_repr JNull = ''None''"
| "py_repr (JBool b) = (if b then ''True'' else ''False'')"
| "py_repr (JInt k) = show_int k"
| "py_repr (JFloat q) = show_float q"
| "py_repr (JStr s) = repr_str s"
| "py_repr (JArr xs) = ''['' @ join '', '' (map py_repr xs) @ '']''"
| "py_repr (JObj kvs) = ''{'' @ join '', '' (map (\<lambda>(k, v). repr_str k @ '': '' @ py_repr v) kvs) @ ''}''"

fun py_str :: "json \<Rightarrow> string" where
  "py_str (JStr s) = s"
| "py_str j = py_repr j"

text \<open>
  \<^verbatim>\<open>int(value)\<close>: a float truncates towards zero, a string must be a signed decimal numeral (digit
  grouping with underscores is left out); \<^verbatim>\<open>None\<close> here is the \<^verbatim>\<open>TypeError\<close> or \<^verbatim>\<open>ValueError\<close>.
\<close>

definition py_trunc :: "rat \<Rightarrow> int" where
  "py_trunc q = (if q < 0 then \<lceil>q\<rceil> else \<lfloor>q\<rfloor>)"

definition is_digit :: "char \<Rightarrow> bool" where
  "is_digit c \<longleftrightarrow> 48 \<le> (of_char c :: nat) \<and> (of_char c :: nat) \<le> 57"

definition parse_int :: "string \<Rightarrow> int option" where
  "parse_int s =
     (let t = strip s;
          neg = (t \<noteq> [] \<and> hd t = CHR ''-'');
          ds = (if t \<noteq> [] \<and> hd t \<in> {CHR ''-'', CHR ''+''} then tl t else t)
      in if ds = [] \<or> \<not> list_all is_digit ds then None
         else Some (if neg then - int (read_nat 0 ds) else int (read_nat 0 ds)))"

fun py_int :: "json \<Rightarrow> int option" where
  "py_int (JInt k) = Some k"
| "py_int (JFloat q) = Some (py_trunc q)"
| "py_int (JBool b) = Some (if b then 1 else 0)"
| "py_int (JStr s) = parse_int s"
| "py_int _ = None"

text \<open>\<^verbatim>\<open>int(value or d)\<close>.\<close>

definition int_or :: "json \<Rightarrow> int \<Rightarrow> int option" where
  "int_or v d = (if truthy v then py_int v else Some d)"

section \<open>Tables\<close>

definition row_find :: "('r \<Rightarrow> 'k) \<Rightarrow> 'k \<Rightarrow> 'r list \<Rightarrow> 'r option" where
  "row_find key k rows = find (\<lambda>r. key r = k) rows"

definition row_put :: "('r \<Rightarrow> 'k) \<Rightarrow> 'r \<Rightarrow> 'r list \<Rightarrow> 'r list" where
  "row_put key r rows = map (\<lambda>x. if key x = key r then r else x) rows"

lemma row_find_SomeD: "row_find key k rows = Some r \<Longrightarrow> r \<in> set rows \<and> key r = k"
  by (auto simp: row_find_def find_Some_iff)

lemma row_find_None [row_simps]: "row_find key k rows = None \<longleftrightarrow> k \<notin> key ` set rows"
  by (auto simp: row_find_def find_None_iff)

lemma row_find_member:
  "distinct (map key rows) \<Longrightarrow> r \<in> set rows \<Longrightarrow> row_find key (key r) rows = Some r"
  by (induction rows) (auto simp: row_find_def)

lemma row_find_Some_iff:
  "distinct (map key rows) \<Longrightarrow> row_find key k rows = Some r \<longleftrightarrow> r \<in> set rows \<and> key r = k"
  using row_find_member [of key rows r] by (auto dest: row_find_SomeD)

lemma row_find_append [row_simps]:
  "row_find key k (xs @ ys) = (case row_find key k xs of None \<Rightarrow> row_find key k ys | Some r \<Rightarrow> Some r)"
  by (induction xs) (auto simp: row_find_def)

lemma distinct_key_eq:
  "distinct (map f xs) \<Longrightarrow> x \<in> set xs \<Longrightarrow> y \<in> set xs \<Longrightarrow> f x = f y \<Longrightarrow> x = y"
  by (auto simp: distinct_map dest: inj_onD)

lemma find_SomeD: "find P xs = Some x \<Longrightarrow> x \<in> set xs \<and> P x"
  by (induction xs) (auto split: if_splits)

lemma find_snoc: "find P xs = None \<Longrightarrow> P x \<Longrightarrow> find P (xs @ [x]) = Some x"
  by (induction xs) (auto split: if_splits)

lemma map_key_row_put [row_simps]: "map key (row_put key r rows) = map key rows"
  by (auto simp: row_put_def)

lemma length_row_put [row_simps]: "length (row_put key r rows) = length rows"
  by (simp add: row_put_def)

lemma set_row_put_subset: "set (row_put key r rows) \<subseteq> insert r (set rows)"
  by (auto simp: row_put_def)

lemma in_set_row_put:
  "x \<in> set (row_put key r rows) \<longleftrightarrow>
     (x = r \<and> key r \<in> key ` set rows) \<or> (x \<in> set rows \<and> key x \<noteq> key r)"
  by (auto simp: row_put_def image_iff intro: sym)

lemma row_find_put_same [row_simps]:
  "key r \<in> key ` set rows \<Longrightarrow> row_find key (key r) (row_put key r rows) = Some r"
  by (induction rows) (auto simp: row_find_def row_put_def)

lemma row_find_put_other [row_simps]:
  "k \<noteq> key r \<Longrightarrow> row_find key k (row_put key r rows) = row_find key k rows"
  by (induction rows) (auto simp: row_find_def row_put_def)

lemma row_find_put:
  "row_find key k (row_put key r rows) =
     (if k = key r then map_option (\<lambda>_. r) (row_find key k rows) else row_find key k rows)"
  by (induction rows) (auto simp: row_find_def row_put_def)

lemma row_find_map:
  "(\<And>x. key (f x) = key x) \<Longrightarrow> row_find key k (map f rows) = map_option f (row_find key k rows)"
  by (induction rows) (auto simp: row_find_def)

lemma row_put_fresh: "key r \<notin> key ` set rows \<Longrightarrow> row_put key r rows = rows"
  by (induction rows) (auto simp: row_put_def)

lemma sum_row_put:
  fixes w :: "'r \<Rightarrow> nat"
  assumes "distinct (map key rows)" and "r \<in> set rows" and "key r' = key r"
  shows "sum_list (map w (row_put key r' rows)) + w r = sum_list (map w rows) + w r'"
  using assms
proof (induction rows)
  case Nil
  then show ?case by simp
next
  case (Cons x xs)
  show ?case
  proof (cases "x = r")
    case True
    with Cons.prems have "key r' \<notin> key ` set xs" by simp
    with True Cons.prems(3) show ?thesis
      using row_put_fresh [of key r' xs] by (simp add: row_put_def)
  next
    case False
    with Cons.prems have r: "r \<in> set xs" by simp
    with Cons.prems have "key x \<noteq> key r'" by auto
    with Cons.IH [OF _ r] Cons.prems show ?thesis by (simp add: row_put_def)
  qed
qed

text \<open>
  A write-back that keeps an injective column of the row distinct from the others keeps the
  column distinct in the table.
\<close>

lemma distinct_map_row_put:
  assumes "distinct (map key rows)" and "distinct (map f rows)"
    and "\<And>x. x \<in> set rows \<Longrightarrow> key x \<noteq> key r \<Longrightarrow> f x \<noteq> f r"
  shows "distinct (map f (row_put key r rows))"
  using assms
proof (induction rows)
  case Nil
  then show ?case by (simp add: row_put_def)
next
  case (Cons y ys)
  show ?case
  proof (cases "key y = key r")
    case True
    then have same: "row_put key r ys = ys"
      using Cons.prems(1) by (auto simp: row_put_def intro!: map_idI) (metis image_eqI)
    have "f r \<notin> f ` set ys"
    proof
      assume "f r \<in> f ` set ys"
      then obtain x where x: "x \<in> set ys" "f x = f r" by auto
      with Cons.prems(1) True have "key x \<noteq> key r" by (metis image_eqI distinct.simps(2) list.simps(9) list.set_map)
      with x Cons.prems(3) [of x] show False by simp
    qed
    with True same Cons.prems(2) show ?thesis
      by (simp add: row_put_def)
  next
    case False
    have "f y \<notin> f ` set (row_put key r ys)"
      using Cons.prems False by (auto simp: in_set_row_put)
    with False Cons show ?thesis
      by (auto simp: row_put_def)
  qed
qed

section \<open>Results that may be an error\<close>

definition bind_res :: "'e + 'a \<Rightarrow> ('a \<Rightarrow> 'e + 'b) \<Rightarrow> 'e + 'b" where
  "bind_res m f = (case m of Inl e \<Rightarrow> Inl e | Inr a \<Rightarrow> f a)"

lemma bind_res_Inl [simp]: "bind_res (Inl e) f = Inl e"
  and bind_res_Inr [simp]: "bind_res (Inr a) f = f a"
  by (simp_all add: bind_res_def)

lemma bind_res_eq_Inr: "bind_res m f = Inr b \<longleftrightarrow> (\<exists>a. m = Inr a \<and> f a = Inr b)"
  by (auto simp: bind_res_def split: sum.splits)

definition require :: "'e \<Rightarrow> bool \<Rightarrow> 'e + unit" where
  "require e b = (if b then Inr () else Inl e)"

lemma require_eq_Inr [simp]: "require e b = Inr u \<longleftrightarrow> b"
  and require_eq_Inl [simp]: "require e b = Inl e' \<longleftrightarrow> \<not> b \<and> e' = e"
  by (auto simp: require_def)

definition of_option :: "'e \<Rightarrow> 'a option \<Rightarrow> 'e + 'a" where
  "of_option e x = (case x of None \<Rightarrow> Inl e | Some a \<Rightarrow> Inr a)"

lemma of_option_eq_Inr [simp]: "of_option e x = Inr a \<longleftrightarrow> x = Some a"
  and of_option_eq_Inl [simp]: "of_option e x = Inl e' \<longleftrightarrow> x = None \<and> e' = e"
  by (auto simp: of_option_def split: option.splits)

end
