(* ===== verification/Contracts.thy ===== *)
theory Contracts
  imports Py_Values
begin

text \<open>
  The interfaces the components share. Every service of the backend is a set of commands over the
  database: a command either raises, and its transaction is rolled back, or commits a new state.
  \<open>run_commands\<close> is a sequence of such commands.

  \<^item> \<open>guarded_system\<close>: the commands keep an invariant; then every run keeps it.
  \<^item> \<open>lifecycle\<close>: in addition every row has a status that moves along the edges of a fixed
    graph; then a run follows paths of the graph and a status without outgoing edge is final.
  \<^item> \<open>audited_system\<close>: in addition the commands only append to a log; then the log of any run
    extends the log it started from.
  \<^item> \<open>authorisation\<close>: a policy evaluation that lists the reasons for a refusal, and the guard that
    raises exactly when there is one.
\<close>

fun run_commands :: "('c \<Rightarrow> 's \<Rightarrow> 'e + 's) \<Rightarrow> 'c list \<Rightarrow> 's \<Rightarrow> 's" where
  "run_commands step [] s = s"
| "run_commands step (c # cs) s = run_commands step cs (case step c s of Inl _ \<Rightarrow> s | Inr t \<Rightarrow> t)"

text \<open>What the environment supplies with a command (fresh identifiers, a clock) may have to be admissible.\<close>

fun admissible_run ::
  "('c \<Rightarrow> 's \<Rightarrow> 'e + 's) \<Rightarrow> ('c \<Rightarrow> 's \<Rightarrow> bool) \<Rightarrow> 'c list \<Rightarrow> 's \<Rightarrow> bool" where
  "admissible_run step adm [] s = True"
| "admissible_run step adm (c # cs) s =
     (adm c s \<and> admissible_run step adm cs (case step c s of Inl _ \<Rightarrow> s | Inr t \<Rightarrow> t))"

lemma run_commands_append:
  "run_commands step (cs @ ds) s = run_commands step ds (run_commands step cs s)"
  by (induction cs arbitrary: s) auto

text \<open>When nothing is asked of the environment every run is admissible.\<close>

lemma always_admissible: "admissible_run step (\<lambda>_ _. True) cs s"
  by (induction cs arbitrary: s) auto

section \<open>How a table evolves\<close>

text \<open>The old rows evolve in place and new rows are added behind them.\<close>

definition extends :: "('r \<Rightarrow> 'r \<Rightarrow> bool) \<Rightarrow> 'r list \<Rightarrow> 'r list \<Rightarrow> bool" where
  "extends R xs ys \<longleftrightarrow> (\<exists>xs' zs. ys = xs' @ zs \<and> list_all2 R xs xs')"

lemma extendsI: "list_all2 R xs xs' \<Longrightarrow> extends R xs (xs' @ zs)"
  by (auto simp: extends_def)

lemma extends_same: "list_all2 R xs ys \<Longrightarrow> extends R xs ys"
  using extendsI [of R xs ys "[]"] by simp

lemma extends_refl: "(\<And>x. R x x) \<Longrightarrow> extends R xs xs"
  by (intro extends_same) (simp add: list_all2_refl)

lemma extends_trans:
  assumes "\<And>x y z. R x y \<Longrightarrow> R y z \<Longrightarrow> R x z" and "extends R xs ys" and "extends R ys zs"
  shows "extends R xs zs"
proof -
  obtain xs' us where y: "ys = xs' @ us" "list_all2 R xs xs'" using assms(2) by (auto simp: extends_def)
  obtain ys' vs where z: "zs = ys' @ vs" "list_all2 R ys ys'" using assms(3) by (auto simp: extends_def)
  from z(2) y(1) obtain xs'' us' where s: "ys' = xs'' @ us'" "list_all2 R xs' xs''"
    by (auto simp: list_all2_append1)
  have "list_all2 R xs xs''" by (rule list_all2_trans [OF _ y(2) s(2)]) (rule assms(1))
  then have "extends R xs (xs'' @ us' @ vs)" by (rule extendsI)
  then show ?thesis by (simp add: z(1) s(1))
qed

lemma extends_find:
  assumes "extends R xs ys" and "\<And>x y. R x y \<Longrightarrow> key y = key x" and "row_find key k xs = Some x"
  shows "\<exists>y. row_find key k ys = Some y \<and> R x y"
proof -
  obtain xs' zs where y: "ys = xs' @ zs" "list_all2 R xs xs'" using assms(1) by (auto simp: extends_def)
  from y(2) assms(3) have "\<exists>y. row_find key k xs' = Some y \<and> R x y"
    by (induction rule: list_all2_induct) (auto simp: row_find_def assms(2) split: if_splits)
  then show ?thesis by (auto simp: y(1) row_find_append)
qed

lemma list_all2_map_rightI: "(\<And>x. x \<in> set xs \<Longrightarrow> R x (f x)) \<Longrightarrow> list_all2 R xs (map f xs)"
  by (induction xs) auto

lemma row_put_moves:
  assumes "distinct (map key rows)" and "r \<in> set rows" and "key r' = key r" and "R r r'" and "\<And>x. R x x"
  shows "list_all2 R rows (row_put key r' rows)"
  unfolding row_put_def
proof (rule list_all2_map_rightI)
  fix x assume x: "x \<in> set rows"
  have "x = r" if "key x = key r'"
    by (rule distinct_key_eq [OF assms(1) x assms(2)]) (simp add: that assms(3))
  with assms(4,5) show "R x (if key x = key r' then r' else x)" by auto
qed

section \<open>Systems of commands\<close>

locale guarded_system =
  fixes step :: "'c \<Rightarrow> 's \<Rightarrow> 'e + 's"
    and adm :: "'c \<Rightarrow> 's \<Rightarrow> bool"
    and inv :: "'s \<Rightarrow> bool"
  assumes step_inv: "inv s \<Longrightarrow> adm c s \<Longrightarrow> step c s = Inr t \<Longrightarrow> inv t"
begin

lemma run_inv:
  "inv s \<Longrightarrow> admissible_run step adm cs s \<Longrightarrow> inv (run_commands step cs s)"
proof (induction cs arbitrary: s)
  case Nil
  then show ?case by simp
next
  case (Cons c cs)
  then show ?case
    by (cases "step c s") (auto intro: step_inv)
qed

end

locale lifecycle = guarded_system step adm inv
  for step :: "'c \<Rightarrow> 's \<Rightarrow> 'e + 's" and adm inv +
  fixes status :: "'k \<Rightarrow> 's \<Rightarrow> 'st option"
    and edge :: "'st \<Rightarrow> 'st \<Rightarrow> bool"
  assumes step_edge:
    "inv s \<Longrightarrow> adm c s \<Longrightarrow> step c s = Inr t \<Longrightarrow> status k s = Some a \<Longrightarrow>
     \<exists>b. status k t = Some b \<and> edge\<^sup>*\<^sup>* a b"
begin

lemma run_path:
  assumes "inv s" and "admissible_run step adm cs s" and "status k s = Some a"
  shows "\<exists>b. status k (run_commands step cs s) = Some b \<and> edge\<^sup>*\<^sup>* a b"
  using assms
proof (induction cs arbitrary: s a)
  case Nil
  then show ?case by simp
next
  case (Cons c cs)
  show ?case
  proof (cases "step c s")
    case (Inl e)
    with Cons show ?thesis by simp
  next
    case (Inr t)
    from Cons.prems Inr obtain b where b: "status k t = Some b" "edge\<^sup>*\<^sup>* a b"
      using step_edge by fastforce
    from Cons.prems Inr have "inv t" and "admissible_run step adm cs t"
      by (auto intro: step_inv)
    from Cons.IH [OF this b(1)] b(2) Inr show ?thesis
      by (auto intro: rtranclp_trans)
  qed
qed

lemma final_status:
  assumes "inv s" and "admissible_run step adm cs s" and "status k s = Some a"
    and final: "\<And>b. \<not> edge a b"
  shows "status k (run_commands step cs s) = Some a"
proof -
  obtain b where "status k (run_commands step cs s) = Some b" and "edge\<^sup>*\<^sup>* a b"
    using run_path [OF assms(1-3)] by blast
  moreover from \<open>edge\<^sup>*\<^sup>* a b\<close> final have "b = a"
    by (auto elim: converse_rtranclpE)
  ultimately show ?thesis by simp
qed

end

locale audited_system = guarded_system step adm inv
  for step :: "'c \<Rightarrow> 's \<Rightarrow> 'e + 's" and adm inv +
  fixes log :: "'s \<Rightarrow> 'ev list"
  assumes step_log: "inv s \<Longrightarrow> adm c s \<Longrightarrow> step c s = Inr t \<Longrightarrow> prefix (log s) (log t)"
begin

lemma run_log:
  "inv s \<Longrightarrow> admissible_run step adm cs s \<Longrightarrow> prefix (log s) (log (run_commands step cs s))"
proof (induction cs arbitrary: s)
  case Nil
  then show ?case by simp
next
  case (Cons c cs)
  show ?case
  proof (cases "step c s")
    case (Inl e)
    with Cons show ?thesis by simp
  next
    case (Inr t)
    with Cons.prems have "inv t" and "admissible_run step adm cs t" and "prefix (log s) (log t)"
      by (auto intro: step_inv step_log)
    with Cons.IH [of t] Inr show ?thesis
      by (auto intro: prefix_order.trans)
  qed
qed

end

locale authorisation =
  fixes reasons :: "'p \<Rightarrow> 'signer \<Rightarrow> 'reason list"
    and guard :: "'p \<Rightarrow> 'signer \<Rightarrow> 'e + 'ev"
  assumes guard_iff: "(\<exists>ev. guard p sg = Inr ev) \<longleftrightarrow> reasons p sg = []"
begin

lemma refused_iff: "(\<exists>e. guard p sg = Inl e) \<longleftrightarrow> reasons p sg \<noteq> []"
  using guard_iff [of p sg] by (cases "guard p sg") auto

lemma passed: "guard p sg = Inr ev \<Longrightarrow> reasons p sg = []"
  using guard_iff by blast

text \<open>A command that runs its body only after the guard commits only what an authorised signer asked for.\<close>

lemma guarded_command:
  "bind_res (guard p sg) (\<lambda>_. body) = Inr t \<Longrightarrow> reasons p sg = [] \<and> body = Inr t"
  by (auto simp: bind_res_eq_Inr dest: passed)

lemma refused_command:
  "reasons p sg \<noteq> [] \<Longrightarrow> \<exists>e. bind_res (guard p sg) body = Inl e"
  using refused_iff by (metis bind_res_Inl)

end

end
