(* ===== verification/Operator_Policies.thy ===== *)
theory Operator_Policies
  imports Contracts
begin

text \<open>
  Who may do what: \<^verbatim>\<open>services/agent_approval_policy.py\<close> (agent checkpoints, evidence import),
  \<^verbatim>\<open>services/release_approval_policy.py\<close> (release decisions) and the \<^verbatim>\<open>SignerIdentity\<close> of
  \<^verbatim>\<open>services/operator_identity.py\<close> both rest on. A refusal carries a list of reasons; the
  reasons are constructors that hold what the message interpolates. Both guards are instances of the
  \<open>authorisation\<close> contract.
\<close>

section \<open>Signer identities\<close>

record signer_identity =
  subject_id :: string
  display_name :: string
  role :: "string option"
  identity_provider :: string
  auth_source :: string
  identity_verified :: bool
  ticket_reference :: "string option"

definition identity_to_json :: "signer_identity \<Rightarrow> json" where
  "identity_to_json i = JObj
     [(''subject_id'', JStr (subject_id i)),
      (''display_name'', JStr (display_name i)),
      (''role'', opt_json JStr (role i)),
      (''identity_provider'', JStr (identity_provider i)),
      (''auth_source'', JStr (auth_source i)),
      (''identity_verified'', JBool (identity_verified i)),
      (''ticket_reference'', opt_json JStr (ticket_reference i))]"

definition str_or :: "json \<Rightarrow> string \<Rightarrow> string" where
  "str_or v d = (if truthy v then py_str v else d)"

definition str_or_none :: "json \<Rightarrow> string option" where
  "str_or_none v = (if truthy v then Some (py_str v) else None)"

definition identity_from_json :: "json \<Rightarrow> signer_identity" where
  "identity_from_json p =
     \<lparr>subject_id = str_or (jget p ''subject_id'') ''unknown-job-requester'',
      display_name = str_or (jget p ''display_name'') ''Unknown job requester'',
      role = str_or_none (jget p ''role''),
      identity_provider = str_or (jget p ''identity_provider'') ''unknown'',
      auth_source = str_or (jget p ''auth_source'') ''unknown'',
      identity_verified = truthy (jget p ''identity_verified''),
      ticket_reference = str_or_none (jget p ''ticket_reference'')\<rparr>"

text \<open>
  The identities the services build: every text is non-empty, and an absent role or ticket is
  \<^verbatim>\<open>None\<close> rather than empty.
\<close>

definition identity_wf :: "signer_identity \<Rightarrow> bool" where
  "identity_wf i \<longleftrightarrow>
     subject_id i \<noteq> [] \<and> display_name i \<noteq> [] \<and> identity_provider i \<noteq> [] \<and> auth_source i \<noteq> [] \<and>
     role i \<noteq> Some [] \<and> ticket_reference i \<noteq> Some []"

lemma identity_json_roundtrip: "identity_wf i \<Longrightarrow> identity_from_json (identity_to_json i) = i"
  by (cases i)
    (auto simp: identity_wf_def identity_from_json_def identity_to_json_def jget_def str_or_def
      str_or_none_def opt_json_def split: option.splits)

text \<open>\<^verbatim>\<open>_role_key\<close>: roles are compared without regard to case and spacing.\<close>

definition role_key :: "string option \<Rightarrow> string option" where
  "role_key r =
     (case r of None \<Rightarrow> None
      | Some s \<Rightarrow> let n = lower (join '' '' (split_ws (strip s))) in if n = [] then None else Some n)"

section \<open>Agent checkpoints\<close>

datatype checkpoint_operation = Op_Decide | Op_Revoke | Op_Resume

record checkpoint_policy =
  cpol_version :: string
  cpol_checkpoint_id :: string
  cpol_allowed_roles :: "string list"
  cpol_resume_roles :: "string list"
  cpol_requires_verified :: bool
  cpol_separation_of_duties :: bool
  cpol_expires_in :: int

definition AGENT_CONTROL_POLICY_VERSION :: string where
  "AGENT_CONTROL_POLICY_VERSION = ''agent-control-approval-rbac-v1''"

definition DEFAULT_AGENT_APPROVER_ROLES :: "string list" where
  "DEFAULT_AGENT_APPROVER_ROLES =
     [''Release Manager'', ''ML Ops Lead'', ''SRE Lead'', ''Model Governance'', ''Admin'']"

definition DEFAULT_AGENT_RESUMER_ROLES :: "string list" where
  "DEFAULT_AGENT_RESUMER_ROLES = [''Release Manager'', ''ML Ops Lead'', ''SRE Lead'', ''Admin'']"

definition AGENT_EVIDENCE_IMPORT_ROLES :: "string list" where
  "AGENT_EVIDENCE_IMPORT_ROLES = [''ML Ops Lead'', ''SRE Lead'', ''Model Governance'', ''Admin'']"

definition policy_to_json :: "checkpoint_policy \<Rightarrow> json" where
  "policy_to_json p = JObj
     [(''policy_version'', JStr (cpol_version p)),
      (''checkpoint_id'', JStr (cpol_checkpoint_id p)),
      (''allowed_roles'', JArr (map JStr (cpol_allowed_roles p))),
      (''resume_roles'', JArr (map JStr (cpol_resume_roles p))),
      (''requires_verified_identity'', JBool (cpol_requires_verified p)),
      (''separation_of_duties'', JBool (cpol_separation_of_duties p)),
      (''expires_in_seconds'', JInt (cpol_expires_in p))]"

definition roles_of :: "json \<Rightarrow> string list \<Rightarrow> string list" where
  "roles_of v dflt =
     (case v of
        JArr xs \<Rightarrow>
          let rs = fromkeys (filter (\<lambda>s. s \<noteq> []) (map (\<lambda>x. strip (py_str x)) (take 20 xs)))
          in if rs = [] then dflt else rs
      | _ \<Rightarrow> dflt)"

definition bool_of :: "json \<Rightarrow> bool \<Rightarrow> bool" where
  "bool_of v dflt = (case v of JBool b \<Rightarrow> b | _ \<Rightarrow> dflt)"

definition bounded_expiry :: "json \<Rightarrow> int" where
  "bounded_expiry v =
     (case v of JInt k \<Rightarrow> clamp 60 604800 k | JFloat q \<Rightarrow> clamp 60 604800 (py_trunc q) | _ \<Rightarrow> 3600)"

definition resolve_checkpoint_policy :: "json \<Rightarrow> string \<Rightarrow> checkpoint_policy" where
  "resolve_checkpoint_policy contract cid =
     (let defaults = as_dict (jget contract ''approval_policy'');
          policies = as_dict (jget contract ''approval_policies'');
          override = as_dict (jget policies cid);
          merged = dict_merge defaults override
      in \<lparr>cpol_version = AGENT_CONTROL_POLICY_VERSION,
          cpol_checkpoint_id = cid,
          cpol_allowed_roles = roles_of (jget merged ''allowed_roles'') DEFAULT_AGENT_APPROVER_ROLES,
          cpol_resume_roles = roles_of (jget merged ''resume_roles'') DEFAULT_AGENT_RESUMER_ROLES,
          cpol_requires_verified = bool_of (jget merged ''requires_verified_identity'') True,
          cpol_separation_of_duties = bool_of (jget merged ''separation_of_duties'') True,
          cpol_expires_in = bounded_expiry (jget merged ''expires_in_seconds'')\<rparr>)"

datatype policy_error =
    Policy_Missing_Checkpoint_Id
  | Checkpoint_Policy_Denied "policy_reason list"
  | Import_Policy_Denied "policy_reason list"
  | Release_Policy_Denied "policy_reason list"
and policy_reason =
    Requires_Verified_Identity
  | Requires_Role "string list"
  | Requires_Other_Operator

definition checkpoint_policy_from_json :: "json \<Rightarrow> policy_error + checkpoint_policy" where
  "checkpoint_policy_from_json p =
     (let cid = strip (str_or (jget p ''checkpoint_id'') [])
      in if cid = [] then Inl Policy_Missing_Checkpoint_Id
         else Inr
           \<lparr>cpol_version = str_or (jget p ''policy_version'') AGENT_CONTROL_POLICY_VERSION,
            cpol_checkpoint_id = cid,
            cpol_allowed_roles = roles_of (jget p ''allowed_roles'') DEFAULT_AGENT_APPROVER_ROLES,
            cpol_resume_roles = roles_of (jget p ''resume_roles'') DEFAULT_AGENT_RESUMER_ROLES,
            cpol_requires_verified = bool_of (jget p ''requires_verified_identity'') True,
            cpol_separation_of_duties = bool_of (jget p ''separation_of_duties'') True,
            cpol_expires_in = bounded_expiry (jget p ''expires_in_seconds'')\<rparr>)"

record policy_evaluation =
  ev_allowed :: bool
  ev_allowed_roles :: "string list"
  ev_signer_role :: "string option"
  ev_identity_verified :: bool
  ev_signer_subject_id :: string
  ev_reasons :: "policy_reason list"

definition evaluate_checkpoint_policy ::
  "checkpoint_policy \<Rightarrow> checkpoint_operation \<Rightarrow> string \<Rightarrow> signer_identity \<Rightarrow> policy_evaluation" where
  "evaluate_checkpoint_policy p operation requester sg =
     (let roles = (if operation = Op_Resume then cpol_resume_roles p else cpol_allowed_roles p);
          key = role_key (role sg);
          reasons =
            (if cpol_requires_verified p \<and> \<not> identity_verified sg then [Requires_Verified_Identity] else []) @
            (if key = None \<or> key \<notin> set (map (\<lambda>r. role_key (Some r)) roles) then [Requires_Role roles] else []) @
            (if operation = Op_Decide \<and> cpol_separation_of_duties p \<and> subject_id sg = requester
             then [Requires_Other_Operator] else [])
      in \<lparr>ev_allowed = (reasons = []), ev_allowed_roles = roles, ev_signer_role = role sg,
          ev_identity_verified = identity_verified sg, ev_signer_subject_id = subject_id sg,
          ev_reasons = reasons\<rparr>)"

definition assert_checkpoint_operation ::
  "checkpoint_policy \<Rightarrow> checkpoint_operation \<Rightarrow> string \<Rightarrow> signer_identity \<Rightarrow>
   policy_error + policy_evaluation" where
  "assert_checkpoint_operation p operation requester sg =
     (let ev = evaluate_checkpoint_policy p operation requester sg
      in if ev_allowed ev then Inr ev else Inl (Checkpoint_Policy_Denied (ev_reasons ev)))"

definition import_reasons :: "signer_identity \<Rightarrow> policy_reason list" where
  "import_reasons sg =
     (if \<not> identity_verified sg then [Requires_Verified_Identity] else []) @
     (if role_key (role sg) = None \<or>
         role_key (role sg) \<notin> set (map (\<lambda>r. role_key (Some r)) AGENT_EVIDENCE_IMPORT_ROLES)
      then [Requires_Role AGENT_EVIDENCE_IMPORT_ROLES] else [])"

definition assert_evidence_import :: "signer_identity \<Rightarrow> policy_error + unit" where
  "assert_evidence_import sg =
     (if import_reasons sg = [] then Inr () else Inl (Import_Policy_Denied (import_reasons sg)))"

section \<open>Release decisions\<close>

datatype release_verb = APPROVE_RELEASE | REJECT_RELEASE | REQUEST_CHANGES

record release_policy_spec =
  rspec_allowed_roles :: "string list"
  rspec_requires_verified :: bool
  rspec_allow_missing_role :: bool

definition APPROVER_ROLES :: "string list" where
  "APPROVER_ROLES = [''Release Manager'', ''ML Ops Lead'', ''Model Governance'', ''Admin'']"

definition CHANGE_REQUEST_ROLES :: "string list" where
  "CHANGE_REQUEST_ROLES = APPROVER_ROLES @ [''ML Engineer'', ''QA Lead'', ''SRE Lead'']"

fun DECISION_POLICY :: "release_verb \<Rightarrow> release_policy_spec" where
  "DECISION_POLICY APPROVE_RELEASE =
     \<lparr>rspec_allowed_roles = APPROVER_ROLES, rspec_requires_verified = True, rspec_allow_missing_role = False\<rparr>"
| "DECISION_POLICY REJECT_RELEASE =
     \<lparr>rspec_allowed_roles = APPROVER_ROLES, rspec_requires_verified = True, rspec_allow_missing_role = False\<rparr>"
| "DECISION_POLICY REQUEST_CHANGES =
     \<lparr>rspec_allowed_roles = CHANGE_REQUEST_ROLES, rspec_requires_verified = False, rspec_allow_missing_role = True\<rparr>"

definition allowed_role_keys :: "string list \<Rightarrow> string list" where
  "allowed_role_keys rs = map (\<lambda>r. case role_key (Some r) of None \<Rightarrow> [] | Some k \<Rightarrow> k) rs"

definition evaluate_release_policy :: "release_verb \<Rightarrow> signer_identity \<Rightarrow> policy_evaluation" where
  "evaluate_release_policy decision sg =
     (let spec = DECISION_POLICY decision;
          key = role_key (role sg);
          reasons =
            (if rspec_requires_verified spec \<and> \<not> identity_verified sg then [Requires_Verified_Identity] else []) @
            (case key of
               None \<Rightarrow> if \<not> rspec_allow_missing_role spec then [Requires_Role (rspec_allowed_roles spec)] else []
             | Some k \<Rightarrow> if k \<notin> set (allowed_role_keys (rspec_allowed_roles spec))
                         then [Requires_Role (rspec_allowed_roles spec)] else [])
      in \<lparr>ev_allowed = (reasons = []), ev_allowed_roles = rspec_allowed_roles spec,
          ev_signer_role = role sg, ev_identity_verified = identity_verified sg,
          ev_signer_subject_id = subject_id sg, ev_reasons = reasons\<rparr>)"

definition release_permissions :: "signer_identity \<Rightarrow> (release_verb \<times> policy_evaluation) list" where
  "release_permissions sg =
     map (\<lambda>d. (d, evaluate_release_policy d sg)) [APPROVE_RELEASE, REJECT_RELEASE, REQUEST_CHANGES]"

definition assert_release_decision ::
  "release_verb \<Rightarrow> signer_identity \<Rightarrow> policy_error + policy_evaluation" where
  "assert_release_decision decision sg =
     (let ev = evaluate_release_policy decision sg
      in if ev_allowed ev then Inr ev else Inl (Release_Policy_Denied (ev_reasons ev)))"

section \<open>The authorisation contract\<close>

lemma evaluate_checkpoint_allowed [simp]:
  "ev_allowed (evaluate_checkpoint_policy p op rq sg) \<longleftrightarrow> ev_reasons (evaluate_checkpoint_policy p op rq sg) = []"
  by (simp add: evaluate_checkpoint_policy_def Let_def)

lemma evaluate_release_allowed [simp]:
  "ev_allowed (evaluate_release_policy d sg) \<longleftrightarrow> ev_reasons (evaluate_release_policy d sg) = []"
  by (simp add: evaluate_release_policy_def Let_def)

interpretation checkpoint_auth: authorisation
  "\<lambda>(p, op, rq) sg. ev_reasons (evaluate_checkpoint_policy p op rq sg)"
  "\<lambda>(p, op, rq) sg. assert_checkpoint_operation p op rq sg"
  by unfold_locales (auto simp: assert_checkpoint_operation_def Let_def split: if_splits)

interpretation release_auth: authorisation
  "\<lambda>d sg. ev_reasons (evaluate_release_policy d sg)" assert_release_decision
  by unfold_locales (auto simp: assert_release_decision_def Let_def split: if_splits)

interpretation import_auth: authorisation
  "\<lambda>(_::unit) sg. import_reasons sg" "\<lambda>_ sg. assert_evidence_import sg"
  by unfold_locales (auto simp: assert_evidence_import_def split: if_splits)

section \<open>Role keys\<close>

lemma is_space_lower [simp]: "is_space (lower_char c) = is_space c"
proof -
  have "of_char (char_of (n + 32) :: char) = n + 32" if "65 \<le> n" "n \<le> 90" for n :: nat
    using that by (simp add: of_char_of take_bit_eq_mod)
  then show ?thesis
    by (auto simp: is_space_def lower_char_def Let_def)
qed

lemma lower_char_idem [simp]: "lower_char (lower_char c) = lower_char c"
proof -
  have "of_char (char_of (n + 32) :: char) = n + 32" if "65 \<le> n" "n \<le> 90" for n :: nat
    using that by (simp add: of_char_of take_bit_eq_mod)
  then show ?thesis
    by (auto simp: lower_char_def Let_def)
qed

lemma lower_append [simp]: "lower (s @ t) = lower s @ lower t"
  by (simp add: lower_def)

lemma lower_eq_Nil [simp]: "lower s = [] \<longleftrightarrow> s = []"
  by (simp add: lower_def)

lemma lower_idem [simp]: "lower (lower s) = lower s"
  by (simp add: lower_def)

lemma strip_lower: "strip (lower s) = lower (strip s)"
  by (simp add: strip_def lower_def dropWhile_map rev_map o_def)

lemma split_acc_lower: "split_acc (lower w) (lower s) = map lower (split_acc w s)"
proof (induction s arbitrary: w)
  case Nil
  then show ?case by (simp add: lower_def rev_map)
next
  case (Cons c s)
  from Cons [of "[]"] Cons [of "c # w"] show ?case by (auto simp: lower_def rev_map)
qed

lemma split_ws_lower: "split_ws (lower s) = map lower (split_ws s)"
  using split_acc_lower [of "[]" s] by (simp add: split_ws_def lower_def)

lemma lower_join: "lower (join '' '' ws) = join '' '' (map lower ws)"
  by (induction "'' ''" ws rule: join.induct) (auto simp: lower_def lower_char_def)

lemma role_key_lower [simp]: "role_key (Some (lower s)) = role_key (Some s)"
  by (simp add: role_key_def strip_lower split_ws_lower lower_join [symmetric])

text \<open>A word is a non-empty run of non-space characters; splitting the join of words gives them back.\<close>

definition is_word :: "string \<Rightarrow> bool" where
  "is_word w \<longleftrightarrow> w \<noteq> [] \<and> (\<forall>c \<in> set w. \<not> is_space c)"

lemma split_acc_words: "\<forall>c \<in> set w. \<not> is_space c \<Longrightarrow> \<forall>x \<in> set (split_acc w s). is_word x"
proof (induction s arbitrary: w)
  case Nil
  then show ?case by (auto simp: is_word_def)
next
  case (Cons c s)
  from Cons.prems Cons.IH [of "[]"] Cons.IH [of "c # w"] show ?case by (auto simp: is_word_def)
qed

lemma split_acc_app:
  "\<forall>c \<in> set u. \<not> is_space c \<Longrightarrow> split_acc w (u @ s) = split_acc (rev u @ w) s"
  by (induction u arbitrary: w) auto

lemma is_space_blank [simp]: "is_space CHR '' ''"
  by (simp add: is_space_def)

lemma split_join: "\<forall>w \<in> set ws. is_word w \<Longrightarrow> split_ws (join '' '' ws) = ws"
proof (induction "'' ''" ws rule: join.induct)
  case 1
  then show ?case by (simp add: split_ws_def)
next
  case (2 w)
  then show ?case
    using split_acc_app [of w "[]" "[]"] by (simp add: split_ws_def is_word_def)
next
  case (3 w v ws)
  then show ?case
    using split_acc_app [of w "[]" "'' '' @ join '' '' (v # ws)"]
    by (simp add: split_ws_def is_word_def)
qed

lemma dropWhile_head: "\<forall>c. xs \<noteq> [] \<longrightarrow> \<not> P (hd xs) \<Longrightarrow> dropWhile P xs = xs"
  by (cases xs) auto

lemma hd_join: "\<forall>w \<in> set ws. is_word w \<Longrightarrow> ws \<noteq> [] \<Longrightarrow> join '' '' ws \<noteq> [] \<and> \<not> is_space (hd (join '' '' ws))"
  by (induction "'' ''" ws rule: join.induct) (auto simp: is_word_def hd_append)

lemma last_join: "\<forall>w \<in> set ws. is_word w \<Longrightarrow> ws \<noteq> [] \<Longrightarrow> \<not> is_space (last (join '' '' ws))"
proof (induction "'' ''" ws rule: join.induct)
  case (3 w v ws)
  then have "join '' '' (v # ws) \<noteq> []"
    using hd_join [of "v # ws"] by simp
  with 3 show ?case by simp
qed (auto simp: is_word_def)

lemma strip_join: "\<forall>w \<in> set ws. is_word w \<Longrightarrow> strip (join '' '' ws) = join '' '' ws"
proof (cases "ws = []")
  case False
  assume *: "\<forall>w \<in> set ws. is_word w"
  with False have "dropWhile is_space (join '' '' ws) = join '' '' ws"
    by (intro dropWhile_head) (simp add: hd_join)
  moreover from * False have "dropWhile is_space (rev (join '' '' ws)) = rev (join '' '' ws)"
    by (intro dropWhile_head) (simp add: last_join hd_rev hd_join)
  ultimately show ?thesis by (simp add: strip_def)
qed simp

lemma words_of_split: "\<forall>w \<in> set (split_ws s). is_word w"
  using split_acc_words [of "[]" s] by (simp add: split_ws_def)

lemma role_key_normal: "role_key (Some (join '' '' (split_ws (strip s)))) = role_key (Some s)"
  by (simp add: role_key_def words_of_split strip_join split_join)

lemma role_key_idem [simp]: "role_key (role_key r) = role_key r"
proof (cases r)
  case None
  then show ?thesis by (simp add: role_key_def)
next
  case (Some s)
  show ?thesis
  proof (cases "role_key r")
    case None
    then show ?thesis by (simp add: role_key_def)
  next
    case (Some k)
    with \<open>r = Some s\<close> have "k = lower (join '' '' (split_ws (strip s)))"
      by (auto simp: role_key_def Let_def split: if_splits)
    with \<open>r = Some s\<close> Some show ?thesis
      by (simp add: role_key_normal)
  qed
qed

section \<open>Stored policies\<close>

lemma dropWhile_idem' [simp]: "dropWhile P (dropWhile P xs) = dropWhile P xs"
  by (induction xs) auto

lemma strip_ends: "strip s \<noteq> [] \<Longrightarrow> \<not> is_space (hd (strip s)) \<and> \<not> is_space (last (strip s))"
proof -
  assume ne: "strip s \<noteq> []"
  define u where "u = dropWhile is_space s"
  define v where "v = dropWhile is_space (rev u)"
  have strip: "strip s = rev v"
    by (simp add: strip_def u_def v_def)
  with ne have v: "v \<noteq> []" by simp
  then have last: "\<not> is_space (hd v)"
    unfolding v_def by (rule hd_dropWhile)
  obtain w where "rev u = w @ v"
    unfolding v_def by (metis takeWhile_dropWhile_id)
  then have u: "u = rev v @ rev w"
    by (metis rev_append rev_rev_ident)
  with v have "u \<noteq> []" by simp
  then have "\<not> is_space (hd u)"
    unfolding u_def by (rule hd_dropWhile)
  with u v have "\<not> is_space (hd (rev v))" by simp
  with last v strip show ?thesis by (simp add: last_rev)
qed

lemma strip_idem [simp]: "strip (strip s) = strip s"
proof (cases "strip s = []")
  case False
  then have "dropWhile is_space (strip s) = strip s"
    and "dropWhile is_space (rev (strip s)) = rev (strip s)"
    using strip_ends [of s] by (auto intro!: dropWhile_head simp: hd_rev)
  then show ?thesis by (simp add: strip_def [of "strip s"])
qed simp

definition roles_wf :: "string list \<Rightarrow> bool" where
  "roles_wf rs \<longleftrightarrow> rs \<noteq> [] \<and> length rs \<le> 20 \<and> distinct rs \<and> (\<forall>r \<in> set rs. r \<noteq> [] \<and> strip r = r)"

lemma default_roles_wf [simp]:
  "roles_wf DEFAULT_AGENT_APPROVER_ROLES" "roles_wf DEFAULT_AGENT_RESUMER_ROLES"
  by code_simp+

lemma roles_of_wf: "roles_wf dflt \<Longrightarrow> roles_wf (roles_of v dflt)"
proof (cases v)
  case (JArr xs)
  assume d: "roles_wf dflt"
  let ?ys = "filter (\<lambda>s. s \<noteq> []) (map (\<lambda>x. strip (py_str x)) (take 20 xs))"
  have "length (fromkeys ?ys) \<le> length ?ys"
    by (rule length_fromkeys)
  also have "\<dots> \<le> length (map (\<lambda>x. strip (py_str x)) (take 20 xs))"
    by (rule length_filter_le)
  finally have "length (fromkeys ?ys) \<le> 20" by simp
  with JArr d show ?thesis
    by (auto simp: roles_of_def roles_wf_def Let_def)
qed (simp_all add: roles_of_def)

lemma roles_of_strings: "roles_wf rs \<Longrightarrow> roles_of (JArr (map JStr rs)) dflt = rs"
proof -
  assume wf: "roles_wf rs"
  then have "map (strip \<circ> (py_str \<circ> JStr)) rs = rs"
    by (auto simp: roles_wf_def intro!: map_idI)
  with wf show ?thesis
    by (auto simp: roles_of_def roles_wf_def Let_def take_map fromkeys_id filter_id_conv o_def)
qed

lemma bounded_expiry_range: "60 \<le> bounded_expiry v \<and> bounded_expiry v \<le> 604800"
  by (auto simp: bounded_expiry_def split: json.splits)

lemma bounded_expiry_int: "60 \<le> k \<Longrightarrow> k \<le> 604800 \<Longrightarrow> bounded_expiry (JInt k) = k"
  by (simp add: bounded_expiry_def)

definition policy_wf :: "checkpoint_policy \<Rightarrow> bool" where
  "policy_wf p \<longleftrightarrow>
     cpol_version p \<noteq> [] \<and> cpol_checkpoint_id p \<noteq> [] \<and> strip (cpol_checkpoint_id p) = cpol_checkpoint_id p \<and>
     roles_wf (cpol_allowed_roles p) \<and> roles_wf (cpol_resume_roles p) \<and>
     60 \<le> cpol_expires_in p \<and> cpol_expires_in p \<le> 604800"

lemma policy_json_roundtrip:
  assumes "policy_wf p"
  shows "checkpoint_policy_from_json (policy_to_json p) = Inr p"
  using assms
  by (cases p)
    (simp add: checkpoint_policy_from_json_def policy_to_json_def policy_wf_def jget_def str_or_def
      roles_of_strings bool_of_def bounded_expiry_int Let_def)

lemma resolve_policy_wf:
  "strip cid = cid \<Longrightarrow> cid \<noteq> [] \<Longrightarrow> policy_wf (resolve_checkpoint_policy contract cid)"
  using bounded_expiry_range
  by (simp add: policy_wf_def resolve_checkpoint_policy_def AGENT_CONTROL_POLICY_VERSION_def
      roles_of_wf Let_def)

section \<open>Properties\<close>

text \<open>
  C40. The policy resolved from an agent contract when a checkpoint is requested survives being
  stored as JSON: reading it back for a decision or a resume gives exactly the policy that was
  resolved, and it is well-formed (at least one role for each operation, an expiry between a minute
  and a week), whatever the contract says.
\<close>

theorem stored_policy_is_resolved_policy:
  assumes "strip cid = cid" and "cid \<noteq> []"
  shows "checkpoint_policy_from_json (policy_to_json (resolve_checkpoint_policy contract cid))
           = Inr (resolve_checkpoint_policy contract cid)
       \<and> policy_wf (resolve_checkpoint_policy contract cid)"
  using assms by (simp add: policy_json_roundtrip resolve_policy_wf)

theorem stored_policy_witness:
  "checkpoint_policy_from_json (policy_to_json (resolve_checkpoint_policy
       (JObj [(''approval_policy'', JObj [(''allowed_roles'', JArr [JStr '' SRE Lead '']),
                                          (''expires_in_seconds'', JInt 5)])]) ''cp-1''))
     = Inr \<lparr>cpol_version = AGENT_CONTROL_POLICY_VERSION, cpol_checkpoint_id = ''cp-1'',
            cpol_allowed_roles = [''SRE Lead''], cpol_resume_roles = DEFAULT_AGENT_RESUMER_ROLES,
            cpol_requires_verified = True, cpol_separation_of_duties = True, cpol_expires_in = 60\<rparr>"
proof -
  let ?c = "JObj [(''approval_policy'', JObj [(''allowed_roles'', JArr [JStr '' SRE Lead '']),
                                              (''expires_in_seconds'', JInt 5)])]"
  have cid: "strip ''cp-1'' = ''cp-1''" "''cp-1'' \<noteq> []" by code_simp+
  have "resolve_checkpoint_policy ?c ''cp-1'' =
    \<lparr>cpol_version = AGENT_CONTROL_POLICY_VERSION, cpol_checkpoint_id = ''cp-1'',
     cpol_allowed_roles = [''SRE Lead''], cpol_resume_roles = DEFAULT_AGENT_RESUMER_ROLES,
     cpol_requires_verified = True, cpol_separation_of_duties = True, cpol_expires_in = 60\<rparr>"
    by code_simp
  with stored_policy_is_resolved_policy [OF cid, of ?c] show ?thesis by simp
qed

text \<open>
  Only an authorised operator gets a checkpoint operation past its guard: when the guard of an
  operation on a checkpoint does not raise, the signer's role is one of the roles the policy grants
  for that operation (up to case and spacing), the identity is verified where the policy asks for
  it, and a decision under separation of duties is not taken by the requester.
\<close>

theorem checkpoint_guard_sound:
  assumes "assert_checkpoint_operation p op requester sg = Inr ev"
  shows "(cpol_requires_verified p \<longrightarrow> identity_verified sg)
       \<and> (\<exists>r \<in> set (if op = Op_Resume then cpol_resume_roles p else cpol_allowed_roles p).
             role_key (role sg) = role_key (Some r) \<and> role_key (role sg) \<noteq> None)
       \<and> (op = Op_Decide \<and> cpol_separation_of_duties p \<longrightarrow> subject_id sg \<noteq> requester)"
proof -
  from checkpoint_auth.passed [of "(p, op, requester)" sg ev] assms
  have "ev_reasons (evaluate_checkpoint_policy p op requester sg) = []" by simp
  then show ?thesis
    by (auto simp: evaluate_checkpoint_policy_def Let_def split: if_splits)
qed

theorem checkpoint_guard_witness:
  "\<exists>ev. assert_checkpoint_operation
          (resolve_checkpoint_policy (JObj []) ''cp-1'') Op_Decide ''alice''
          \<lparr>subject_id = ''bob'', display_name = ''Bob'', role = Some ''sre  lead'',
           identity_provider = ''idp'', auth_source = ''jwt'', identity_verified = True,
           ticket_reference = None\<rparr> = Inr ev
      \<and> ''bob'' \<noteq> ''alice''"
proof -
  let ?p = "resolve_checkpoint_policy (JObj []) ''cp-1''"
  let ?s = "\<lparr>subject_id = ''bob'', display_name = ''Bob'', role = Some ''sre  lead'',
             identity_provider = ''idp'', auth_source = ''jwt'', identity_verified = True,
             ticket_reference = None\<rparr>"
  have "assert_checkpoint_operation ?p Op_Decide ''alice'' ?s =
        Inr (evaluate_checkpoint_policy ?p Op_Decide ''alice'' ?s)"
    by code_simp
  from this checkpoint_guard_sound [OF this] show ?thesis by auto
qed

text \<open>
  The release policy is the same for every spelling of a role: an operator whose role differs
  only in letter case and in the spaces around and between its words gets the same verdict on every
  decision, and whoever may approve a release may also reject it and request changes.
\<close>

theorem release_policy_normalised_and_nested:
  "ev_reasons (evaluate_release_policy d (sg\<lparr>role := Some (lower s)\<rparr>))
     = ev_reasons (evaluate_release_policy d (sg\<lparr>role := Some s\<rparr>))
 \<and> ev_reasons (evaluate_release_policy d (sg\<lparr>role := Some (join '' '' (split_ws (strip s)))\<rparr>))
     = ev_reasons (evaluate_release_policy d (sg\<lparr>role := Some s\<rparr>))
 \<and> ev_allowed (evaluate_release_policy APPROVE_RELEASE sg) = ev_allowed (evaluate_release_policy REJECT_RELEASE sg)
 \<and> (ev_allowed (evaluate_release_policy APPROVE_RELEASE sg) \<and> ev_allowed (evaluate_release_policy REQUEST_CHANGES sg))
     = ev_allowed (evaluate_release_policy APPROVE_RELEASE sg)"
proof (intro conjI)
  show "ev_reasons (evaluate_release_policy d (sg\<lparr>role := Some (lower s)\<rparr>))
      = ev_reasons (evaluate_release_policy d (sg\<lparr>role := Some s\<rparr>))"
    by (simp add: evaluate_release_policy_def Let_def)
  show "ev_reasons (evaluate_release_policy d (sg\<lparr>role := Some (join '' '' (split_ws (strip s)))\<rparr>))
      = ev_reasons (evaluate_release_policy d (sg\<lparr>role := Some s\<rparr>))"
    by (simp add: evaluate_release_policy_def Let_def role_key_normal)
  show "ev_allowed (evaluate_release_policy APPROVE_RELEASE sg) = ev_allowed (evaluate_release_policy REJECT_RELEASE sg)"
    by (simp add: evaluate_release_policy_def Let_def)
  have "ev_reasons (evaluate_release_policy REQUEST_CHANGES sg) = []"
    if "ev_reasons (evaluate_release_policy APPROVE_RELEASE sg) = []"
    using that
    by (auto simp: evaluate_release_policy_def Let_def CHANGE_REQUEST_ROLES_def allowed_role_keys_def
        split: option.splits if_splits)
  then show "(ev_allowed (evaluate_release_policy APPROVE_RELEASE sg) \<and> ev_allowed (evaluate_release_policy REQUEST_CHANGES sg))
     = ev_allowed (evaluate_release_policy APPROVE_RELEASE sg)"
    by auto
qed

end
