(* ===== verification/Agent_Jobs.thy ===== *)
theory Agent_Jobs
  imports Operator_Policies "HOL-Library.Product_Lexorder"
begin

text \<open>
  The durable job queue of \<^verbatim>\<open>services/agent_jobs.py\<close>: rows of \<^verbatim>\<open>agent_execution_jobs\<close> and
  \<^verbatim>\<open>agent_worker_states\<close>, and the transactions that enqueue, claim, heartbeat, run, retry, dead-letter
  and requeue a job. Each transaction is one function from the tables it sees to the tables it
  commits. \<^verbatim>\<open>process_claimed_agent_job\<close> commits twice, before and after it runs the job, so it is
  two transactions here, \<open>begin_agent_job\<close> and \<open>finish_agent_job\<close>, between which other workers
  may act; \<open>process_claimed_agent_job\<close> is their composition.

  The environment supplies the clock (\<open>now\<close>), the fresh identifiers (\<open>uuid4\<close>), the rows other
  transactions hold locked (\<open>locked\<close>, which \<^verbatim>\<open>skip_locked\<close> passes over), what the job's handler
  did (\<open>job_outcome\<close>), and the first eight bytes of SHA-256 (\<open>dg\<close>).
\<close>

section \<open>Rows\<close>

datatype job_type =
    Resume_Checkpoint
  | Checkpoint_Reconciliation
  | Traffic_Evidence_Import
  | Model_Validation_Campaign
  | Trust_Source_Sync
  | Oidc_Session_Cleanup
  | Operational_Observability_Cycle
  | Operational_Alert_Delivery

datatype job_status = Queued | Leased | Running | Completed | Failed | Cancelled

record job =
  job_id :: uuid
  job_kind :: job_type
  job_status :: job_status
  job_dedupe_key :: string
  job_payload :: json
  job_requested_by :: json
  job_benchmark_run_id :: "uuid option"
  job_benchmark_result_id :: "uuid option"
  job_checkpoint_record_id :: "uuid option"
  job_priority :: int
  job_available_at :: instant
  job_lease_owner :: "string option"
  job_lease_token :: "string option"
  job_lease_expires_at :: "instant option"
  job_last_heartbeat_at :: "instant option"
  job_heartbeat_count :: int
  job_attempt_count :: int
  job_max_attempts :: int
  job_started_at :: "instant option"
  job_completed_at :: "instant option"
  job_last_error :: "string option"
  job_result :: "json option"
  job_dead_lettered_at :: "instant option"
  job_dead_letter_reason :: "string option"
  job_requeue_count :: int
  job_last_requeued_at :: "instant option"
  job_last_requeued_by :: "json option"
  job_created_at :: instant

datatype worker_status = Online | Stopped

record worker =
  wk_id :: string
  wk_status :: worker_status
  wk_started_at :: instant
  wk_last_seen_at :: instant
  wk_current_job_id :: "uuid option"
  wk_processed_count :: int
  wk_completed_count :: int
  wk_failed_count :: int
  wk_metadata :: json

record queue_db =
  q_jobs :: "job list"
  q_workers :: "worker list"

datatype job_error =
    Worker_Id_Required
  | Worker_Not_Registered
  | Job_Not_Found
  | Lease_Token_Invalid
  | Cannot_Heartbeat_From job_status
  | Not_Held_By_This_Lease
  | Requeue_Reason_Required
  | Cannot_Requeue_From job_status
  | Maintenance_Identity_Required
  | Verified_Identity_Required
  | Schedule_Key_Invalid
  | Integrity_Violation
  | Retry_Policy_Malformed

definition DEFAULT_LEASE_SECONDS :: int where
  "DEFAULT_LEASE_SECONDS = 300"

definition MAX_LEASE_SECONDS :: int where
  "MAX_LEASE_SECONDS = 900"

definition bounded_lease :: "int \<Rightarrow> int" where
  "bounded_lease lease_seconds = clamp 5 MAX_LEASE_SECONDS lease_seconds"

abbreviation job_find :: "uuid \<Rightarrow> job list \<Rightarrow> job option" where
  "job_find \<equiv> row_find job_id"

abbreviation job_put :: "job \<Rightarrow> job list \<Rightarrow> job list" where
  "job_put \<equiv> row_put job_id"

section \<open>Recovery, claiming and heartbeats\<close>

definition mark_dead_letter :: "string \<Rightarrow> instant \<Rightarrow> job \<Rightarrow> job" where
  "mark_dead_letter reason now j =
     j\<lparr>job_status := Failed, job_completed_at := Some now, job_lease_expires_at := None,
       job_lease_token := None, job_dead_lettered_at := Some now,
       job_dead_letter_reason := Some (take 4000 reason)\<rparr>"

definition lease_expired :: "instant \<Rightarrow> job \<Rightarrow> bool" where
  "lease_expired now j \<longleftrightarrow>
     job_status j \<in> {Leased, Running} \<and>
     (case job_lease_expires_at j of None \<Rightarrow> False | Some t \<Rightarrow> t \<le> now)"

definition EXPIRED_MESSAGE :: string where
  "EXPIRED_MESSAGE = ''Worker lease expired before completion.''"

definition recover_expired_lease :: "instant \<Rightarrow> job \<Rightarrow> job" where
  "recover_expired_lease now j =
     (let j1 = j\<lparr>job_last_error := Some EXPIRED_MESSAGE, job_lease_owner := None,
                job_lease_token := None, job_lease_expires_at := None\<rparr>
      in if job_max_attempts j1 \<le> job_attempt_count j1 then mark_dead_letter EXPIRED_MESSAGE now j1
         else j1\<lparr>job_status := Queued, job_available_at := now\<rparr>)"

definition recover_expired_leases :: "instant \<Rightarrow> uuid list \<Rightarrow> job list \<Rightarrow> job list" where
  "recover_expired_leases now locked jobs =
     map (\<lambda>j. if lease_expired now j \<and> job_id j \<notin> set locked then recover_expired_lease now j else j) jobs"

definition claimable :: "instant \<Rightarrow> uuid list \<Rightarrow> job \<Rightarrow> bool" where
  "claimable now locked j \<longleftrightarrow>
     job_status j = Queued \<and> job_available_at j \<le> now \<and>
     job_attempt_count j < job_max_attempts j \<and> job_id j \<notin> set locked"

definition claim_order :: "job \<Rightarrow> int \<times> instant \<times> instant" where
  "claim_order j = (job_priority j, job_available_at j, job_created_at j)"

definition lease_job :: "string \<Rightarrow> int \<Rightarrow> instant \<Rightarrow> string \<Rightarrow> job \<Rightarrow> job" where
  "lease_job worker_id lease_seconds now token j =
     j\<lparr>job_status := Leased, job_lease_owner := Some (take 160 worker_id),
       job_lease_token := Some token,
       job_lease_expires_at := Some (now + seconds (bounded_lease lease_seconds)),
       job_last_heartbeat_at := Some now, job_heartbeat_count := 1,
       job_attempt_count := job_attempt_count j + 1,
       job_started_at := (case job_started_at j of None \<Rightarrow> Some now | Some t \<Rightarrow> Some t),
       job_last_error := None\<rparr>"

definition claim_agent_job ::
  "string \<Rightarrow> int \<Rightarrow> instant \<Rightarrow> uuid list \<Rightarrow> string \<Rightarrow> queue_db \<Rightarrow> job_error + queue_db \<times> job option" where
  "claim_agent_job worker_id lease_seconds now locked token db =
     (let worker = strip worker_id in
      if worker = [] then Inl Worker_Id_Required
      else
        let jobs = recover_expired_leases now locked (q_jobs db);
            candidates = filter (claimable now locked) jobs
        in if candidates = [] then Inr (db\<lparr>q_jobs := jobs\<rparr>, None)
           else let j = lease_job worker lease_seconds now token (arg_min_list claim_order candidates)
                in Inr (db\<lparr>q_jobs := job_put j jobs\<rparr>, Some j))"

definition heartbeat_agent_job ::
  "uuid \<Rightarrow> string \<Rightarrow> int \<Rightarrow> instant \<Rightarrow> queue_db \<Rightarrow> job_error + queue_db \<times> job" where
  "heartbeat_agent_job jid token lease_seconds now db =
     (case job_find jid (q_jobs db) of
        None \<Rightarrow> Inl Lease_Token_Invalid
      | Some j \<Rightarrow>
          if job_lease_token j \<noteq> Some token then Inl Lease_Token_Invalid
          else if job_status j \<notin> {Leased, Running} then Inl (Cannot_Heartbeat_From (job_status j))
          else let j' = j\<lparr>job_lease_expires_at := Some (now + seconds (bounded_lease lease_seconds)),
                          job_last_heartbeat_at := Some now,
                          job_heartbeat_count := job_heartbeat_count j + 1\<rparr>
               in Inr (db\<lparr>q_jobs := job_put j' (q_jobs db)\<rparr>, j'))"

section \<open>Running a claimed job\<close>

text \<open>What \<^verbatim>\<open>_execute_job\<close> did: a result, a \<^verbatim>\<open>DomainValidationError\<close>, or another exception.\<close>

datatype job_outcome = Outcome_Result json | Outcome_Domain_Error string | Outcome_Error string

definition deterministic_jitter :: "(string \<Rightarrow> nat) \<Rightarrow> string \<Rightarrow> int \<Rightarrow> int" where
  "deterministic_jitter dg key maximum =
     (if maximum \<le> 0 then 0 else int (dg key) mod (maximum + 1))"

definition default_retry_delay :: "job \<Rightarrow> int" where
  "default_retry_delay j = min 60 (2 ^ nat (job_attempt_count j))"

text \<open>\<^verbatim>\<open>trust_source_scheduler.retry_delay_seconds\<close>; \<open>None\<close> when a policy entry is not a number.\<close>

definition trust_source_retry_delay :: "(string \<Rightarrow> nat) \<Rightarrow> job \<Rightarrow> int option" where
  "trust_source_retry_delay dg j =
     (let policy = jget (job_payload j) ''retry_policy'' in
      if \<not> is_dict policy then Some (default_retry_delay j)
      else
        case int_or (jget policy ''base_seconds'') 1 of None \<Rightarrow> None | Some b \<Rightarrow>
        let base = clamp 1 3600 b in
        case int_or (jget policy ''max_seconds'') base of None \<Rightarrow> None | Some m \<Rightarrow>
        let maximum = max base (min m 3600) in
        case int_or (jget policy ''jitter_seconds'') 0 of None \<Rightarrow> None | Some t \<Rightarrow>
        let jitter = clamp 0 maximum t;
            delay = min maximum (base * 2 ^ nat (max 0 (job_attempt_count j - 1)));
            key = job_id j @ '':'' @ show_int (job_attempt_count j)
        in Some (min maximum (delay + deterministic_jitter dg key jitter)))"

definition retry_delay_seconds :: "(string \<Rightarrow> nat) \<Rightarrow> job \<Rightarrow> int option" where
  "retry_delay_seconds dg j =
     (if job_kind j = Trust_Source_Sync then trust_source_retry_delay dg j
      else Some (default_retry_delay j))"

definition begin_agent_job :: "uuid \<Rightarrow> string \<Rightarrow> queue_db \<Rightarrow> job_error + queue_db \<times> job" where
  "begin_agent_job jid token db =
     (case job_find jid (q_jobs db) of
        None \<Rightarrow> Inl Job_Not_Found
      | Some j \<Rightarrow>
          if job_lease_token j \<noteq> Some token \<or> job_status j \<noteq> Leased then Inl Not_Held_By_This_Lease
          else let j' = j\<lparr>job_status := Running\<rparr>
               in Inr (db\<lparr>q_jobs := job_put j' (q_jobs db)\<rparr>, j'))"

definition complete_job :: "json \<Rightarrow> instant \<Rightarrow> job \<Rightarrow> job" where
  "complete_job result now j =
     j\<lparr>job_status := Completed, job_result := Some result, job_completed_at := Some now,
       job_lease_expires_at := None, job_lease_token := None\<rparr>"

definition fail_job :: "(string \<Rightarrow> nat) \<Rightarrow> bool \<Rightarrow> string \<Rightarrow> instant \<Rightarrow> job \<Rightarrow> job option" where
  "fail_job dg domain_error msg now j =
     (let j1 = j\<lparr>job_last_error := Some (take 4000 msg), job_lease_expires_at := None\<rparr> in
      if domain_error \<or> job_max_attempts j1 \<le> job_attempt_count j1
      then Some (mark_dead_letter (if take 4000 msg = [] then ''Agent job failed.'' else take 4000 msg) now j1)
      else map_option
             (\<lambda>delay. j1\<lparr>job_status := Queued, job_available_at := now + seconds delay,
                         job_lease_owner := None, job_lease_token := None\<rparr>)
             (retry_delay_seconds dg j1))"

definition finish_agent_job ::
  "(string \<Rightarrow> nat) \<Rightarrow> uuid \<Rightarrow> job_outcome \<Rightarrow> instant \<Rightarrow> queue_db \<Rightarrow> job_error + queue_db \<times> job" where
  "finish_agent_job dg jid outcome now db =
     (case job_find jid (q_jobs db) of
        None \<Rightarrow> Inl Job_Not_Found
      | Some j \<Rightarrow>
          (case (case outcome of
                   Outcome_Result result \<Rightarrow> Some (complete_job result now j)
                 | Outcome_Domain_Error msg \<Rightarrow> fail_job dg True msg now j
                 | Outcome_Error msg \<Rightarrow> fail_job dg False msg now j) of
             None \<Rightarrow> Inl Retry_Policy_Malformed
           | Some j' \<Rightarrow> Inr (db\<lparr>q_jobs := job_put j' (q_jobs db)\<rparr>, j')))"

text \<open>
  The two commits of \<^verbatim>\<open>process_claimed_agent_job\<close> in a row. An error after the first commit leaves
  the committed rows behind, so the tables are returned beside the result.
\<close>

definition process_claimed_agent_job ::
  "(string \<Rightarrow> nat) \<Rightarrow> (job \<Rightarrow> job_outcome) \<Rightarrow> uuid \<Rightarrow> string \<Rightarrow> instant \<Rightarrow> queue_db \<Rightarrow>
   queue_db \<times> (job_error + job)" where
  "process_claimed_agent_job dg execute jid token now db =
     (case begin_agent_job jid token db of
        Inl e \<Rightarrow> (db, Inl e)
      | Inr (db1, j) \<Rightarrow>
          (case finish_agent_job dg jid (execute j) now db1 of
             Inl e \<Rightarrow> (db1, Inl e)
           | Inr (db2, j2) \<Rightarrow> (db2, Inr j2)))"

definition run_agent_worker_once ::
  "(string \<Rightarrow> nat) \<Rightarrow> (job \<Rightarrow> job_outcome) \<Rightarrow> string \<Rightarrow> int \<Rightarrow> instant \<Rightarrow> uuid list \<Rightarrow> string \<Rightarrow>
   instant \<Rightarrow> queue_db \<Rightarrow> queue_db \<times> (job_error + job option)" where
  "run_agent_worker_once dg execute worker_id lease_seconds now locked token done_at db =
     (case claim_agent_job worker_id lease_seconds now locked token db of
        Inl e \<Rightarrow> (db, Inl e)
      | Inr (db1, None) \<Rightarrow> (db1, Inr None)
      | Inr (db1, Some j) \<Rightarrow>
          (case job_lease_token j of
             None \<Rightarrow> (db1, Inr (Some j))
           | Some tok \<Rightarrow>
               (case process_claimed_agent_job dg execute (job_id j) tok done_at db1 of
                  (db2, Inl e) \<Rightarrow> (db2, Inl e)
                | (db2, Inr j2) \<Rightarrow> (db2, Inr (Some j2)))))"

section \<open>Maintenance\<close>

definition MAINTENANCE_ROLES :: "string list" where
  "MAINTENANCE_ROLES = [''release manager'', ''ml ops lead'', ''sre lead'', ''admin'', ''system worker'']"

definition maintenance_identity :: "signer_identity \<Rightarrow> bool" where
  "maintenance_identity i \<longleftrightarrow>
     identity_verified i \<and>
     lower (strip (case role i of None \<Rightarrow> [] | Some r \<Rightarrow> r)) \<in> set MAINTENANCE_ROLES"

definition system_worker_identity :: "string \<Rightarrow> signer_identity" where
  "system_worker_identity worker_id =
     (let normalized = (if strip worker_id = [] then ''model-atlas-worker'' else strip worker_id)
      in \<lparr>subject_id = normalized, display_name = normalized, role = Some ''System Worker'',
          identity_provider = ''model-atlas-worker'', auth_source = ''durable_job_lease'',
          identity_verified = True, ticket_reference = None\<rparr>)"

definition requeued_job :: "string \<Rightarrow> signer_identity \<Rightarrow> int option \<Rightarrow> instant \<Rightarrow> job \<Rightarrow> job" where
  "requeued_job reason signer max_attempts now j =
     j\<lparr>job_status := Queued, job_available_at := now, job_lease_owner := None,
       job_lease_token := None, job_lease_expires_at := None,
       job_last_heartbeat_at := None, job_heartbeat_count := 0,
       job_attempt_count := 0, job_completed_at := None, job_result := None,
       job_last_error := None, job_requeue_count := job_requeue_count j + 1,
       job_last_requeued_at := Some now,
       job_last_requeued_by :=
         Some (dict_merge (identity_to_json signer) (JObj [(''reason'', JStr (take 1000 reason))])),
       job_max_attempts :=
         (case max_attempts of None \<Rightarrow> job_max_attempts j | Some m \<Rightarrow> clamp 1 10 m)\<rparr>"

definition requeue_agent_job ::
  "uuid \<Rightarrow> string \<Rightarrow> signer_identity \<Rightarrow> int option \<Rightarrow> instant \<Rightarrow> queue_db \<Rightarrow> job_error + queue_db \<times> job" where
  "requeue_agent_job jid reason signer max_attempts now db =
     (if \<not> maintenance_identity signer then Inl Maintenance_Identity_Required
      else if strip reason = [] then Inl Requeue_Reason_Required
      else case job_find jid (q_jobs db) of
             None \<Rightarrow> Inl Job_Not_Found
           | Some j \<Rightarrow>
               if job_status j \<noteq> Failed then Inl (Cannot_Requeue_From (job_status j))
               else let j' = requeued_job (strip reason) signer max_attempts now j
                    in Inr (db\<lparr>q_jobs := job_put j' (q_jobs db)\<rparr>, j'))"

section \<open>Enqueueing\<close>

record job_request =
  rq_kind :: job_type
  rq_dedupe_key :: string
  rq_payload :: json
  rq_signer :: signer_identity
  rq_priority :: int
  rq_benchmark_run_id :: "uuid option"
  rq_benchmark_result_id :: "uuid option"
  rq_checkpoint_record_id :: "uuid option"
  rq_max_attempts :: int

definition new_job :: "job_request \<Rightarrow> instant \<Rightarrow> uuid \<Rightarrow> job" where
  "new_job r now jid =
     \<lparr>job_id = jid, job_kind = rq_kind r, job_status = Queued, job_dedupe_key = rq_dedupe_key r,
      job_payload = rq_payload r, job_requested_by = identity_to_json (rq_signer r),
      job_benchmark_run_id = rq_benchmark_run_id r, job_benchmark_result_id = rq_benchmark_result_id r,
      job_checkpoint_record_id = rq_checkpoint_record_id r, job_priority = rq_priority r,
      job_available_at = now, job_lease_owner = None, job_lease_token = None,
      job_lease_expires_at = None, job_last_heartbeat_at = None, job_heartbeat_count = 0,
      job_attempt_count = 0, job_max_attempts = rq_max_attempts r, job_started_at = None,
      job_completed_at = None, job_last_error = None, job_result = None,
      job_dead_lettered_at = None, job_dead_letter_reason = None, job_requeue_count = 0,
      job_last_requeued_at = None, job_last_requeued_by = None, job_created_at = now\<rparr>"

text \<open>
  \<^verbatim>\<open>_enqueue_job\<close>: the existence query runs on the snapshot \<open>seen\<close>, the insert is checked at
  commit against the current rows \<open>db\<close>, which a concurrent enqueuer may have changed; a violated
  uniqueness constraint rolls back and looks the key up again, and the error stands when the clash
  was not on the key (or the row breaks \<^verbatim>\<open>max_attempts > 0\<close>).
\<close>

definition find_dedupe :: "string \<Rightarrow> job list \<Rightarrow> job option" where
  "find_dedupe key jobs = find (\<lambda>j. job_dedupe_key j = key) jobs"

definition enqueue_job ::
  "job_request \<Rightarrow> instant \<Rightarrow> uuid \<Rightarrow> queue_db \<Rightarrow> queue_db \<Rightarrow> job_error + queue_db \<times> job" where
  "enqueue_job r now jid seen db =
     (case find_dedupe (rq_dedupe_key r) (q_jobs seen) of
        Some existing \<Rightarrow> Inr (db, existing)
      | None \<Rightarrow>
          if find_dedupe (rq_dedupe_key r) (q_jobs db) = None \<and> job_find jid (q_jobs db) = None
             \<and> 0 < rq_max_attempts r
          then Inr (db\<lparr>q_jobs := q_jobs db @ [new_job r now jid]\<rparr>, new_job r now jid)
          else of_option Integrity_Violation
                 (map_option (Pair db) (find_dedupe (rq_dedupe_key r) (q_jobs db))))"

definition valid_schedule_key :: "string \<Rightarrow> bool" where
  "valid_schedule_key key \<longleftrightarrow> strip key \<noteq> [] \<and> length (strip key) \<le> 120"

definition plain_request ::
  "job_type \<Rightarrow> string \<Rightarrow> json \<Rightarrow> signer_identity \<Rightarrow> int \<Rightarrow> int \<Rightarrow> job_request" where
  "plain_request kind key payload signer priority attempts =
     \<lparr>rq_kind = kind, rq_dedupe_key = key, rq_payload = payload, rq_signer = signer,
      rq_priority = priority, rq_benchmark_run_id = None, rq_benchmark_result_id = None,
      rq_checkpoint_record_id = None, rq_max_attempts = attempts\<rparr>"

definition enqueue_checkpoint_reconciliation_job ::
  "string \<Rightarrow> signer_identity \<Rightarrow> instant \<Rightarrow> uuid \<Rightarrow> queue_db \<Rightarrow> queue_db \<Rightarrow> job_error + queue_db \<times> job" where
  "enqueue_checkpoint_reconciliation_job key signer now jid seen db =
     (if \<not> maintenance_identity signer then Inl Maintenance_Identity_Required
      else if \<not> valid_schedule_key key then Inl Schedule_Key_Invalid
      else enqueue_job
             (plain_request Checkpoint_Reconciliation (''reconcile:'' @ strip key)
                (JObj [(''schema_version'', JStr ''agent-durable-job-v1''),
                       (''schedule_key'', JStr (strip key))]) signer 10 3)
             now jid seen db)"

definition enqueue_traffic_evidence_job ::
  "string \<Rightarrow> string \<Rightarrow> json \<Rightarrow> signer_identity \<Rightarrow> instant \<Rightarrow> uuid \<Rightarrow> queue_db \<Rightarrow> queue_db \<Rightarrow>
   job_error + queue_db \<times> job" where
  "enqueue_traffic_evidence_job source_system batch_id payload signer now jid seen db =
     (if \<not> identity_verified signer then Inl Verified_Identity_Required
      else enqueue_job
             (plain_request Traffic_Evidence_Import (''traffic:'' @ source_system @ '':'' @ batch_id)
                payload signer 40 2)
             now jid seen db)"

definition enqueue_oidc_session_cleanup_job ::
  "string \<Rightarrow> signer_identity \<Rightarrow> int \<Rightarrow> int \<Rightarrow> string \<Rightarrow> instant \<Rightarrow> uuid \<Rightarrow> queue_db \<Rightarrow> queue_db \<Rightarrow>
   job_error + queue_db \<times> job" where
  "enqueue_oidc_session_cleanup_job key signer retention_days batch_size reason now jid seen db =
     enqueue_job
       (plain_request Oidc_Session_Cleanup (''oidc-session-cleanup:'' @ key)
          (JObj [(''schema_version'', JStr ''oidc-session-cleanup-job-v1''),
                 (''retention_days'', JInt (clamp 1 3650 retention_days)),
                 (''batch_size'', JInt (clamp 1 1000 batch_size)),
                 (''reason'', JStr (take 160 reason)),
                 (''schedule_key'', JStr key)]) signer 30 3)
       now jid seen db"

definition enqueue_observability_cycle_job ::
  "string \<Rightarrow> signer_identity \<Rightarrow> string \<Rightarrow> instant \<Rightarrow> uuid \<Rightarrow> queue_db \<Rightarrow> queue_db \<Rightarrow>
   job_error + queue_db \<times> job" where
  "enqueue_observability_cycle_job key signer reason now jid seen db =
     (if \<not> maintenance_identity signer then Inl Maintenance_Identity_Required
      else if \<not> valid_schedule_key key then Inl Schedule_Key_Invalid
      else enqueue_job
             (plain_request Operational_Observability_Cycle
                (''operational-observability:'' @ strip key)
                (JObj [(''schema_version'', JStr ''operational-observability-job-v1''),
                       (''schedule_key'', JStr (strip key)),
                       (''reason'', JStr (take 160 reason))]) signer 15 3)
             now jid seen db)"

section \<open>Workers\<close>

abbreviation worker_find :: "string \<Rightarrow> worker list \<Rightarrow> worker option" where
  "worker_find \<equiv> row_find wk_id"

definition register_agent_worker ::
  "string \<Rightarrow> json \<Rightarrow> instant \<Rightarrow> queue_db \<Rightarrow> job_error + queue_db \<times> worker" where
  "register_agent_worker worker_id metadata now db =
     (let wid = strip worker_id in
      if wid = [] then Inl Worker_Id_Required
      else case worker_find wid (q_workers db) of
             None \<Rightarrow>
               (let w = \<lparr>wk_id = take 160 wid, wk_status = Online, wk_started_at = now,
                         wk_last_seen_at = now, wk_current_job_id = None, wk_processed_count = 0,
                         wk_completed_count = 0, wk_failed_count = 0,
                         wk_metadata = (if truthy metadata then metadata else JObj [])\<rparr>
                in if worker_find (take 160 wid) (q_workers db) \<noteq> None then Inl Integrity_Violation
                   else Inr (db\<lparr>q_workers := q_workers db @ [w]\<rparr>, w))
           | Some w0 \<Rightarrow>
               (let w = w0\<lparr>wk_status := Online, wk_started_at := now, wk_last_seen_at := now,
                           wk_current_job_id := None,
                           wk_metadata := (if truthy metadata then metadata else wk_metadata w0)\<rparr>
                in Inr (db\<lparr>q_workers := row_put wk_id w (q_workers db)\<rparr>, w)))"

definition heartbeat_agent_worker ::
  "string \<Rightarrow> uuid option \<Rightarrow> instant \<Rightarrow> queue_db \<Rightarrow> job_error + queue_db \<times> worker" where
  "heartbeat_agent_worker worker_id current now db =
     (case worker_find worker_id (q_workers db) of
        None \<Rightarrow> Inl Worker_Not_Registered
      | Some w0 \<Rightarrow>
          (let w = w0\<lparr>wk_status := Online, wk_last_seen_at := now, wk_current_job_id := current\<rparr>
           in Inr (db\<lparr>q_workers := row_put wk_id w (q_workers db)\<rparr>, w)))"

definition record_agent_worker_outcome ::
  "string \<Rightarrow> job_status \<Rightarrow> instant \<Rightarrow> queue_db \<Rightarrow> job_error + queue_db \<times> worker" where
  "record_agent_worker_outcome worker_id status now db =
     (case worker_find worker_id (q_workers db) of
        None \<Rightarrow> Inl Worker_Not_Registered
      | Some w0 \<Rightarrow>
          (let w = w0\<lparr>wk_last_seen_at := now, wk_current_job_id := None,
                      wk_processed_count := wk_processed_count w0 + 1,
                      wk_completed_count := wk_completed_count w0 + (if status = Completed then 1 else 0),
                      wk_failed_count := wk_failed_count w0 + (if status = Failed then 1 else 0)\<rparr>
           in Inr (db\<lparr>q_workers := row_put wk_id w (q_workers db)\<rparr>, w)))"

definition mark_agent_worker_stopped ::
  "string \<Rightarrow> instant \<Rightarrow> queue_db \<Rightarrow> queue_db \<times> worker option" where
  "mark_agent_worker_stopped worker_id now db =
     (case worker_find worker_id (q_workers db) of
        None \<Rightarrow> (db, None)
      | Some w0 \<Rightarrow>
          (let w = w0\<lparr>wk_status := Stopped, wk_last_seen_at := now, wk_current_job_id := None\<rparr>
           in (db\<lparr>q_workers := row_put wk_id w (q_workers db)\<rparr>, Some w)))"

section \<open>The overview\<close>

datatype queue_health = Healthy | Degraded | Blocked | Idle

datatype worker_view = View_Online | View_Offline | View_Stopped

record queue_overview =
  qo_health :: queue_health
  qo_total :: nat
  qo_status_counts :: "(job_status \<times> nat) list"
  qo_type_counts :: "(job_type \<times> nat) list"
  qo_queue_depth :: nat
  qo_retrying :: nat
  qo_active_leases :: nat
  qo_expired_leases :: nat
  qo_dead_letters :: nat
  qo_oldest_queued_age :: "rat option"
  qo_completed_24h :: nat
  qo_failed_24h :: nat
  qo_success_rate_24h :: "rat option"
  qo_average_queue_latency_ms :: "rat option"
  qo_average_duration_ms :: "rat option"
  qo_online_workers :: nat
  qo_workers :: "(worker \<times> worker_view) list"

definition count_if :: "('a \<Rightarrow> bool) \<Rightarrow> 'a list \<Rightarrow> nat" where
  "count_if P xs = length (filter P xs)"

definition average3 :: "rat list \<Rightarrow> rat option" where
  "average3 xs = (if xs = [] then None else Some (py_round 3 (sum_list xs / of_nat (length xs))))"

definition worker_view_at :: "int \<Rightarrow> instant \<Rightarrow> worker \<Rightarrow> worker_view" where
  "worker_view_at offline_seconds now w =
     (if wk_status w = Online \<and> now - seconds (max 10 offline_seconds) \<le> wk_last_seen_at w then View_Online
      else if wk_status w = Stopped then View_Stopped else View_Offline)"

fun option_pairs :: "('a option \<times> 'b option) list \<Rightarrow> ('a \<times> 'b) list" where
  "option_pairs [] = []"
| "option_pairs ((Some a, Some b) # ps) = (a, b) # option_pairs ps"
| "option_pairs (_ # ps) = option_pairs ps"

definition get_agent_job_overview :: "int \<Rightarrow> instant \<Rightarrow> queue_db \<Rightarrow> queue_overview" where
  "get_agent_job_overview offline_seconds now db =
     (let jobs = q_jobs db;
          status_counts = map (\<lambda>s. (s, count_if (\<lambda>j. job_status j = s) jobs))
            [Queued, Leased, Running, Completed, Failed, Cancelled];
          type_counts = map (\<lambda>k. (k, count_if (\<lambda>j. job_kind j = k) jobs))
            [Resume_Checkpoint, Checkpoint_Reconciliation, Traffic_Evidence_Import,
             Model_Validation_Campaign, Trust_Source_Sync, Oidc_Session_Cleanup,
             Operational_Observability_Cycle, Operational_Alert_Delivery];
          queued = filter (\<lambda>j. job_status j = Queued) jobs;
          active = filter (\<lambda>j. job_status j \<in> {Leased, Running}) jobs;
          recent = filter (\<lambda>j. case job_completed_at j of None \<Rightarrow> False
                              | Some t \<Rightarrow> now - seconds 86400 \<le> t) jobs;
          completed = count_if (\<lambda>j. job_status j = Completed) recent;
          failed = count_if (\<lambda>j. job_status j = Failed) recent;
          latencies = map (\<lambda>(a, b). total_seconds (a - b) * 1000)
            (option_pairs (map (\<lambda>j. (job_started_at j, Some (job_created_at j))) jobs));
          durations = map (\<lambda>(a, b). total_seconds (a - b) * 1000)
            (option_pairs (map (\<lambda>j. (job_completed_at j, job_started_at j)) recent));
          views = map (\<lambda>w. (w, worker_view_at offline_seconds now w)) (q_workers db);
          online = count_if (\<lambda>(w, v). v = View_Online) views;
          expired = count_if (lease_expired now) active;
          dead = count_if (\<lambda>j. job_status j = Failed) jobs
      in \<lparr>qo_health =
            (if expired \<noteq> 0 \<or> dead \<noteq> 0 then Degraded
             else if queued \<noteq> [] \<and> online = 0 then Blocked
             else if jobs = [] then Idle else Healthy),
          qo_total = length jobs, qo_status_counts = status_counts, qo_type_counts = type_counts,
          qo_queue_depth = length queued,
          qo_retrying = count_if (\<lambda>j. 0 < job_attempt_count j \<or> 0 < job_requeue_count j) queued,
          qo_active_leases = length active, qo_expired_leases = expired, qo_dead_letters = dead,
          qo_oldest_queued_age =
            (if queued = [] then None
             else Some (py_round 3 (max 0 (total_seconds
                    (now - foldr min (map job_created_at (tl queued)) (job_created_at (hd queued))))))),
          qo_completed_24h = completed, qo_failed_24h = failed,
          qo_success_rate_24h =
            (if recent = [] then None
             else Some (py_round 4 (of_nat completed / of_nat (length recent)))),
          qo_average_queue_latency_ms = average3 latencies,
          qo_average_duration_ms = average3 durations,
          qo_online_workers = online, qo_workers = views\<rparr>)"

definition list_agent_jobs ::
  "job_status option \<Rightarrow> job_type option \<Rightarrow> nat \<Rightarrow> nat \<Rightarrow> queue_db \<Rightarrow> job list" where
  "list_agent_jobs status kind limit offset db =
     take limit (drop offset (sort_key (\<lambda>j. - job_created_at j)
       (filter (\<lambda>j. (status = None \<or> status = Some (job_status j)) \<and>
                    (kind = None \<or> kind = Some (job_kind j))) (q_jobs db))))"

end
