(* ===== verification/Agent_Jobs_Correct.thy ===== *)
theory Agent_Jobs_Correct
  imports Agent_Jobs
begin

text \<open>
  Correctness of the durable job queue: the row invariant every transaction keeps, the order in
  which jobs are claimed, the exclusiveness of leases, the life cycle of a job under leases that
  are not lost, the bound on the work a queue can cause, and the dedupe contract of enqueueing.
\<close>

section \<open>The invariant of the queue\<close>

definition job_row_ok :: "job \<Rightarrow> bool" where
  "job_row_ok j \<longleftrightarrow>
     0 \<le> job_attempt_count j \<and> job_attempt_count j \<le> job_max_attempts j \<and> 0 < job_max_attempts j \<and>
     (job_status j \<in> {Leased, Running} \<longrightarrow>
        job_lease_token j \<noteq> None \<and> job_lease_expires_at j \<noteq> None \<and> job_lease_owner j \<noteq> None \<and>
        0 < job_attempt_count j) \<and>
     (job_status j \<notin> {Leased, Running} \<longrightarrow> job_lease_token j = None \<and> job_lease_expires_at j = None) \<and>
     (job_status j = Queued \<longrightarrow> job_attempt_count j < job_max_attempts j) \<and>
     (job_status j = Failed \<longrightarrow>
        job_dead_lettered_at j \<noteq> None \<and> job_dead_letter_reason j \<noteq> None \<and> job_completed_at j \<noteq> None) \<and>
     (job_status j = Completed \<longrightarrow> job_result j \<noteq> None \<and> job_completed_at j \<noteq> None)"

definition tokens_unique :: "job list \<Rightarrow> bool" where
  "tokens_unique jobs \<longleftrightarrow>
     (\<forall>i \<in> set jobs. \<forall>j \<in> set jobs.
        job_lease_token i \<noteq> None \<and> job_lease_token i = job_lease_token j \<longrightarrow> job_id i = job_id j)"

definition jobs_ok :: "job list \<Rightarrow> bool" where
  "jobs_ok jobs \<longleftrightarrow>
     distinct (map job_id jobs) \<and> distinct (map job_dedupe_key jobs) \<and> tokens_unique jobs \<and>
     (\<forall>j \<in> set jobs. job_row_ok j)"

definition queue_inv :: "queue_db \<Rightarrow> bool" where
  "queue_inv db \<longleftrightarrow> jobs_ok (q_jobs db)"

definition fresh_token :: "string \<Rightarrow> job list \<Rightarrow> bool" where
  "fresh_token t jobs \<longleftrightarrow> (\<forall>j \<in> set jobs. job_lease_token j \<noteq> Some t)"

lemma jobs_ok_find:
  "jobs_ok jobs \<Longrightarrow> job_find k jobs = Some j \<longleftrightarrow> j \<in> set jobs \<and> job_id j = k"
  by (simp add: jobs_ok_def row_find_Some_iff)

lemma job_id_inj: "jobs_ok jobs \<Longrightarrow> i \<in> set jobs \<Longrightarrow> j \<in> set jobs \<Longrightarrow> job_id i = job_id j \<Longrightarrow> i = j"
  by (metis distinct_key_eq jobs_ok_def)

text \<open>
  The one lemma about writing a changed row back: the new row is well-formed, keeps its identity
  and its dedupe key, and holds no token, its own old one, or a fresh one.
\<close>

lemma jobs_ok_put:
  assumes ok: "jobs_ok jobs" and j: "j \<in> set jobs" and j': "job_row_ok j'"
    and "job_id j' = job_id j" and "job_dedupe_key j' = job_dedupe_key j"
    and token: "job_lease_token j' = None \<or> job_lease_token j' = job_lease_token j \<or>
                (\<exists>t. job_lease_token j' = Some t \<and> fresh_token t jobs)"
  shows "jobs_ok (job_put j' jobs)"
proof -
  have others: "job_dedupe_key x \<noteq> job_dedupe_key j'" if "x \<in> set jobs" "job_id x \<noteq> job_id j'" for x
  proof
    assume "job_dedupe_key x = job_dedupe_key j'"
    moreover have "distinct (map job_dedupe_key jobs)" using ok by (simp add: jobs_ok_def)
    ultimately have "x = j"
      using that(1) j assms(5) by (metis distinct_key_eq)
    with that(2) assms(4) show False by simp
  qed
  have "distinct (map job_dedupe_key (job_put j' jobs))"
    using ok others by (intro distinct_map_row_put) (auto simp: jobs_ok_def)
  moreover have "tokens_unique (job_put j' jobs)"
    using ok j token assms(4) unfolding tokens_unique_def jobs_ok_def
    by (auto simp: in_set_row_put fresh_token_def) metis+
  ultimately show ?thesis
    using ok j' by (auto simp: jobs_ok_def map_key_row_put in_set_row_put)
qed

subsection \<open>Each transaction keeps it\<close>

lemma mark_dead_letter_ok:
  "0 \<le> job_attempt_count j \<Longrightarrow> job_attempt_count j \<le> job_max_attempts j \<Longrightarrow> 0 < job_max_attempts j \<Longrightarrow>
   job_row_ok (mark_dead_letter reason now j)"
  by (simp add: job_row_ok_def mark_dead_letter_def)

lemma recover_fields [simp]:
  "job_id (recover_expired_lease now j) = job_id j"
  "job_dedupe_key (recover_expired_lease now j) = job_dedupe_key j"
  "job_lease_token (recover_expired_lease now j) = None"
  "job_attempt_count (recover_expired_lease now j) = job_attempt_count j"
  "job_max_attempts (recover_expired_lease now j) = job_max_attempts j"
  "job_priority (recover_expired_lease now j) = job_priority j"
  by (simp_all add: recover_expired_lease_def mark_dead_letter_def Let_def)

lemma recover_row_ok: "job_row_ok j \<Longrightarrow> job_row_ok (recover_expired_lease now j)"
  by (auto simp: job_row_ok_def recover_expired_lease_def mark_dead_letter_def Let_def)

lemma recover_jobs_ok: "jobs_ok jobs \<Longrightarrow> jobs_ok (recover_expired_leases now locked jobs)"
proof -
  assume ok: "jobs_ok jobs"
  have "map job_id (recover_expired_leases now locked jobs) = map job_id jobs"
    and "map job_dedupe_key (recover_expired_leases now locked jobs) = map job_dedupe_key jobs"
    by (auto simp: recover_expired_leases_def)
  moreover have held: "j \<in> set jobs"
    if "j \<in> set (recover_expired_leases now locked jobs)" "job_lease_token j \<noteq> None" for j
    using that by (auto simp: recover_expired_leases_def)
  have "tokens_unique (recover_expired_leases now locked jobs)"
    unfolding tokens_unique_def
  proof (intro ballI impI)
    fix i j
    assume "i \<in> set (recover_expired_leases now locked jobs)"
      and "j \<in> set (recover_expired_leases now locked jobs)"
      and tok: "job_lease_token i \<noteq> None \<and> job_lease_token i = job_lease_token j"
    then have "i \<in> set jobs" and "j \<in> set jobs"
      using held [of i] held [of j] by metis+
    with tok ok show "job_id i = job_id j"
      unfolding jobs_ok_def tokens_unique_def by blast
  qed
  moreover have "\<forall>j \<in> set (recover_expired_leases now locked jobs). job_row_ok j"
    using ok by (auto simp: jobs_ok_def recover_expired_leases_def intro: recover_row_ok)
  ultimately show ?thesis
    using ok by (simp add: jobs_ok_def)
qed

lemma fresh_token_recover: "fresh_token t jobs \<Longrightarrow> fresh_token t (recover_expired_leases now locked jobs)"
  by (auto simp: fresh_token_def recover_expired_leases_def split: if_splits)

lemma lease_job_fields [simp]:
  "job_id (lease_job w s now t j) = job_id j"
  "job_dedupe_key (lease_job w s now t j) = job_dedupe_key j"
  "job_lease_token (lease_job w s now t j) = Some t"
  "job_status (lease_job w s now t j) = Leased"
  "job_attempt_count (lease_job w s now t j) = job_attempt_count j + 1"
  "job_max_attempts (lease_job w s now t j) = job_max_attempts j"
  by (simp_all add: lease_job_def)

lemma lease_job_ok: "job_row_ok j \<Longrightarrow> job_status j = Queued \<Longrightarrow> job_row_ok (lease_job w s now t j)"
  by (auto simp: job_row_ok_def lease_job_def)

text \<open>What a claim did, as one disjunction: nothing was claimable, or one job was leased.\<close>

lemma claim_cases:
  assumes "claim_agent_job w s now locked t db = Inr (db', r)"
  obtains (none) "r = None" and "db' = db\<lparr>q_jobs := recover_expired_leases now locked (q_jobs db)\<rparr>"
    and "filter (claimable now locked) (recover_expired_leases now locked (q_jobs db)) = []"
  | (some) j where "r = Some (lease_job (strip w) s now t j)"
    and "db' = db\<lparr>q_jobs := job_put (lease_job (strip w) s now t j) (recover_expired_leases now locked (q_jobs db))\<rparr>"
    and "j \<in> set (recover_expired_leases now locked (q_jobs db))" and "claimable now locked j"
    and "\<And>i. i \<in> set (recover_expired_leases now locked (q_jobs db)) \<Longrightarrow> claimable now locked i \<Longrightarrow>
           claim_order j \<le> claim_order i"
proof -
  let ?jobs = "recover_expired_leases now locked (q_jobs db)"
  let ?c = "filter (claimable now locked) ?jobs"
  show thesis
  proof (cases "?c = []")
    case True
    with assms show thesis
      by (intro none) (auto simp: claim_agent_job_def Let_def split: if_splits)
  next
    case False
    then have mem: "arg_min_list claim_order ?c \<in> set ?c"
      by (rule arg_min_list_in)
    have "claim_order (arg_min_list claim_order ?c) = Min (claim_order ` set ?c)"
      using False by (rule f_arg_min_list_f)
    then have "claim_order (arg_min_list claim_order ?c) \<le> claim_order i"
      if "i \<in> set ?jobs" "claimable now locked i" for i
      using that by (auto intro!: Min_le)
    with False mem assms show thesis
      by (intro some [of "arg_min_list claim_order ?c"])
        (auto simp: claim_agent_job_def Let_def split: if_splits)
  qed
qed

lemma claim_ok:
  assumes "queue_inv db" and "fresh_token t (q_jobs db)"
    and "claim_agent_job w s now locked t db = Inr (db', r)"
  shows "queue_inv db'"
  using assms(3)
proof (cases rule: claim_cases)
  case none
  with assms(1) show ?thesis by (simp add: queue_inv_def recover_jobs_ok)
next
  case (some j)
  have ok: "jobs_ok (recover_expired_leases now locked (q_jobs db))"
    using assms(1) by (simp add: queue_inv_def recover_jobs_ok)
  with some(3) have "job_row_ok j" by (simp add: jobs_ok_def)
  with some(4) have "job_row_ok (lease_job (strip w) s now t j)"
    by (simp add: lease_job_ok claimable_def)
  with ok some(2,3) assms(2) show ?thesis
    by (auto simp: queue_inv_def fresh_token_recover intro!: jobs_ok_put)
qed

lemma heartbeat_ok:
  "queue_inv db \<Longrightarrow> heartbeat_agent_job jid t s now db = Inr (db', r) \<Longrightarrow> queue_inv db'"
  by (auto simp: heartbeat_agent_job_def queue_inv_def jobs_ok_find Let_def split: option.splits if_splits
      intro!: jobs_ok_put) (auto simp: jobs_ok_def job_row_ok_def)

lemma begin_ok: "queue_inv db \<Longrightarrow> begin_agent_job jid t db = Inr (db', r) \<Longrightarrow> queue_inv db'"
  by (auto simp: begin_agent_job_def queue_inv_def jobs_ok_find Let_def split: option.splits if_splits
      intro!: jobs_ok_put) (auto simp: jobs_ok_def job_row_ok_def)

lemma mark_dead_letter_fields [simp]:
  "job_id (mark_dead_letter reason now j) = job_id j"
  "job_dedupe_key (mark_dead_letter reason now j) = job_dedupe_key j"
  "job_lease_token (mark_dead_letter reason now j) = None"
  "job_attempt_count (mark_dead_letter reason now j) = job_attempt_count j"
  "job_max_attempts (mark_dead_letter reason now j) = job_max_attempts j"
  "job_status (mark_dead_letter reason now j) = Failed"
  by (simp_all add: mark_dead_letter_def)

lemma fail_job_cases:
  assumes "fail_job dg dm msg now j = Some j'"
  shows "job_id j' = job_id j \<and> job_dedupe_key j' = job_dedupe_key j \<and> job_lease_token j' = None \<and>
         job_attempt_count j' = job_attempt_count j \<and> job_max_attempts j' = job_max_attempts j \<and>
         (job_status j' = Failed \<or> job_status j' = Queued \<and> \<not> dm \<and> job_attempt_count j < job_max_attempts j) \<and>
         (job_row_ok j \<longrightarrow> job_row_ok j')"
proof (cases "dm \<or> job_max_attempts j \<le> job_attempt_count j")
  case True
  define j1 where "j1 = j\<lparr>job_last_error := Some (take 4000 msg), job_lease_expires_at := None\<rparr>"
  from True assms obtain reason where j': "j' = mark_dead_letter reason now j1"
    by (auto simp: fail_job_def Let_def j1_def)
  have "job_row_ok j \<Longrightarrow> job_row_ok j'"
    unfolding j' by (rule mark_dead_letter_ok) (simp_all add: j1_def job_row_ok_def)
  then show ?thesis unfolding j' by (simp add: j1_def)
next
  case False
  with assms obtain d where "j' = j\<lparr>job_last_error := Some (take 4000 msg), job_lease_expires_at := None,
      job_status := Queued, job_available_at := now + seconds d, job_lease_owner := None,
      job_lease_token := None\<rparr>"
    by (auto simp: fail_job_def Let_def)
  with False show ?thesis by (simp add: job_row_ok_def)
qed

lemma complete_job_ok: "job_row_ok j \<Longrightarrow> job_row_ok (complete_job r now j)"
  by (simp add: job_row_ok_def complete_job_def)

text \<open>What a finish did to the row it found.\<close>

lemma finish_cases:
  assumes "finish_agent_job dg jid out now db = Inr (db', j')"
  obtains j where "job_find jid (q_jobs db) = Some j" and "db' = db\<lparr>q_jobs := job_put j' (q_jobs db)\<rparr>"
    and "job_id j' = job_id j" and "job_dedupe_key j' = job_dedupe_key j" and "job_lease_token j' = None"
    and "job_attempt_count j' = job_attempt_count j" and "job_max_attempts j' = job_max_attempts j"
    and "job_status j' \<in> {Completed, Failed} \<or> job_status j' = Queued \<and> job_attempt_count j < job_max_attempts j"
    and "job_row_ok j \<Longrightarrow> job_row_ok j'"
proof -
  from assms obtain j where j: "job_find jid (q_jobs db) = Some j"
    and db': "db' = db\<lparr>q_jobs := job_put j' (q_jobs db)\<rparr>"
    and out: "(case out of Outcome_Result result \<Rightarrow> Some (complete_job result now j)
                 | Outcome_Domain_Error msg \<Rightarrow> fail_job dg True msg now j
                 | Outcome_Error msg \<Rightarrow> fail_job dg False msg now j) = Some j'"
    by (auto simp: finish_agent_job_def split: option.splits)
  show thesis
  proof (cases out)
    case (Outcome_Result x1)
    with out j db' show thesis
      by (intro that [of j]) (auto simp: complete_job_ok, auto simp: complete_job_def)
  next
    case (Outcome_Domain_Error x2)
    with out j db' fail_job_cases [of dg True x2 now j j'] show thesis
      by (intro that [of j]) auto
  next
    case (Outcome_Error x3)
    with out j db' fail_job_cases [of dg False x3 now j j'] show thesis
      by (intro that [of j]) auto
  qed
qed

lemma finish_ok:
  assumes "queue_inv db" and "finish_agent_job dg jid out now db = Inr (db', r)"
  shows "queue_inv db'"
  using assms(2)
proof (cases rule: finish_cases)
  case (1 j)
  from assms(1) 1(1) have ok: "jobs_ok (q_jobs db)" and j: "j \<in> set (q_jobs db)"
    by (simp_all add: queue_inv_def jobs_ok_find)
  then have "job_row_ok j" by (simp add: jobs_ok_def)
  then have "jobs_ok (job_put r (q_jobs db))"
    using ok j 1 by (intro jobs_ok_put [of _ j]) simp_all
  with 1(2) show ?thesis by (simp add: queue_inv_def)
qed

lemma requeued_job_fields [simp]:
  "job_id (requeued_job reason sg m now j) = job_id j"
  "job_dedupe_key (requeued_job reason sg m now j) = job_dedupe_key j"
  "job_lease_token (requeued_job reason sg m now j) = None"
  "job_lease_expires_at (requeued_job reason sg m now j) = None"
  "job_status (requeued_job reason sg m now j) = Queued"
  "job_attempt_count (requeued_job reason sg m now j) = 0"
  "job_max_attempts (requeued_job reason sg m now j) =
     (case m of None \<Rightarrow> job_max_attempts j | Some k \<Rightarrow> clamp 1 10 k)"
  by (simp_all add: requeued_job_def)

lemma requeueD:
  assumes "requeue_agent_job jid reason sg m now db = Inr (db', r)"
  shows "\<exists>j. job_find jid (q_jobs db) = Some j \<and> job_status j = Failed \<and> maintenance_identity sg \<and>
             r = requeued_job (strip reason) sg m now j \<and>
             db' = db\<lparr>q_jobs := job_put (requeued_job (strip reason) sg m now j) (q_jobs db)\<rparr>"
  using assms by (auto simp: requeue_agent_job_def Let_def split: if_split_asm option.split_asm)

lemma requeue_ok:
  assumes inv: "queue_inv db" and eq: "requeue_agent_job jid reason sg m now db = Inr (db', r)"
  shows "queue_inv db'"
proof -
  from requeueD [OF eq] obtain j where find: "job_find jid (q_jobs db) = Some j"
    and r: "r = requeued_job (strip reason) sg m now j"
    and db': "db' = db\<lparr>q_jobs := job_put r (q_jobs db)\<rparr>" by blast
  from inv find have ok: "jobs_ok (q_jobs db)" and j: "j \<in> set (q_jobs db)"
    by (simp_all add: queue_inv_def jobs_ok_find)
  then have "0 < job_max_attempts j" by (simp add: jobs_ok_def job_row_ok_def)
  then have "0 < job_max_attempts r"
    using clamp_lower [of "1::int" 10] by (cases m) (auto simp: r less_le_trans [OF zero_less_one])
  then have "job_row_ok r"
    by (simp add: job_row_ok_def r)
  with ok j have "jobs_ok (job_put r (q_jobs db))"
    by (intro jobs_ok_put [of _ j]) (simp_all add: r)
  with db' show ?thesis by (simp add: queue_inv_def)
qed

lemma enqueue_cases:
  assumes "enqueue_job r now jid seen db = Inr (db', j)"
  obtains (old) "db' = db" and "job_dedupe_key j = rq_dedupe_key r"
    and "j \<in> set (q_jobs seen) \<union> set (q_jobs db)"
  | (new) "db' = db\<lparr>q_jobs := q_jobs db @ [new_job r now jid]\<rparr>" and "j = new_job r now jid"
    and "\<And>i. i \<in> set (q_jobs db) \<Longrightarrow> job_dedupe_key i \<noteq> rq_dedupe_key r \<and> job_id i \<noteq> jid"
    and "0 < rq_max_attempts r"
proof (cases "find_dedupe (rq_dedupe_key r) (q_jobs seen)")
  case (Some i)
  with assms show thesis
    by (intro old) (auto simp: enqueue_job_def find_dedupe_def dest: find_SomeD)
next
  case None
  show thesis
  proof (cases "find_dedupe (rq_dedupe_key r) (q_jobs db) = None \<and> job_find jid (q_jobs db) = None \<and> 0 < rq_max_attempts r")
    case True
    have eq: "enqueue_job r now jid seen db = Inr (db\<lparr>q_jobs := q_jobs db @ [new_job r now jid]\<rparr>, new_job r now jid)"
      unfolding enqueue_job_def None by (simp add: True)
    have keys: "job_dedupe_key i \<noteq> rq_dedupe_key r" "job_id i \<noteq> jid" if "i \<in> set (q_jobs db)" for i
      using True that by (auto simp: find_dedupe_def find_None_iff row_find_None)
    show thesis
      using assms eq True by (intro new) (auto simp: keys)
  next
    case False
    with None assms show thesis
      by (intro old) (auto simp: enqueue_job_def find_dedupe_def dest: find_SomeD)
  qed
qed

lemma jobs_ok_snoc:
  assumes "jobs_ok jobs" and "job_id x \<notin> job_id ` set jobs"
    and "job_dedupe_key x \<notin> job_dedupe_key ` set jobs" and "job_lease_token x = None" and "job_row_ok x"
  shows "jobs_ok (jobs @ [x])"
proof -
  have "tokens_unique (jobs @ [x])"
    unfolding tokens_unique_def
  proof (intro ballI impI)
    fix i j
    assume "i \<in> set (jobs @ [x])" and "j \<in> set (jobs @ [x])"
      and tok: "job_lease_token i \<noteq> None \<and> job_lease_token i = job_lease_token j"
    moreover from tok assms(4) have "i \<noteq> x" and "j \<noteq> x" by auto
    ultimately have "i \<in> set jobs" and "j \<in> set jobs" by auto
    with tok assms(1) show "job_id i = job_id j"
      unfolding jobs_ok_def tokens_unique_def by blast
  qed
  with assms show ?thesis by (simp add: jobs_ok_def)
qed

lemma new_job_ok: "0 < rq_max_attempts r \<Longrightarrow> job_row_ok (new_job r now jid)"
  by (simp add: job_row_ok_def new_job_def)

lemma enqueue_ok: "queue_inv db \<Longrightarrow> enqueue_job r now jid seen db = Inr (db', j) \<Longrightarrow> queue_inv db'"
proof -
  assume inv: "queue_inv db" and eq: "enqueue_job r now jid seen db = Inr (db', j)"
  from eq show ?thesis
  proof (cases rule: enqueue_cases)
    case old
    with inv show ?thesis by simp
  next
    case new
    have [simp]: "job_id (new_job r now jid) = jid" "job_dedupe_key (new_job r now jid) = rq_dedupe_key r"
      "job_lease_token (new_job r now jid) = None"
      by (simp_all add: new_job_def)
    have "jid \<notin> job_id ` set (q_jobs db)" "rq_dedupe_key r \<notin> job_dedupe_key ` set (q_jobs db)"
      using new(3) by (metis imageE)+
    with inv have "jobs_ok (q_jobs db @ [new_job r now jid])"
      by (intro jobs_ok_snoc) (simp_all add: queue_inv_def new_job_ok new(4))
    with new(1) show ?thesis by (simp add: queue_inv_def)
  qed
qed

section \<open>Runs of the queue\<close>

text \<open>
  The transactions as commands. A token is admissible when no row holds it (\<^verbatim>\<open>uuid4().hex\<close>); for
  the life cycle a finish is admissible only while the job is still running, that is when no other
  worker took the job over in between.
\<close>

datatype job_command =
    Cmd_Enqueue job_request instant uuid queue_db
  | Cmd_Claim string int instant "uuid list" string
  | Cmd_Heartbeat uuid string int instant
  | Cmd_Begin uuid string
  | Cmd_Finish uuid job_outcome instant
  | Cmd_Requeue uuid string signer_identity "int option" instant

fun job_step :: "(string \<Rightarrow> nat) \<Rightarrow> job_command \<Rightarrow> queue_db \<Rightarrow> job_error + queue_db" where
  "job_step dg (Cmd_Enqueue r now jid seen) db = map_sum id fst (enqueue_job r now jid seen db)"
| "job_step dg (Cmd_Claim w s now locked t) db = map_sum id fst (claim_agent_job w s now locked t db)"
| "job_step dg (Cmd_Heartbeat jid t s now) db = map_sum id fst (heartbeat_agent_job jid t s now db)"
| "job_step dg (Cmd_Begin jid t) db = map_sum id fst (begin_agent_job jid t db)"
| "job_step dg (Cmd_Finish jid out now) db = map_sum id fst (finish_agent_job dg jid out now db)"
| "job_step dg (Cmd_Requeue jid reason sg m now) db = map_sum id fst (requeue_agent_job jid reason sg m now db)"

fun job_adm :: "job_command \<Rightarrow> queue_db \<Rightarrow> bool" where
  "job_adm (Cmd_Claim w s now locked t) db = fresh_token t (q_jobs db)"
| "job_adm _ db = True"

definition job_status_of :: "uuid \<Rightarrow> queue_db \<Rightarrow> job_status option" where
  "job_status_of k db = map_option job_status (job_find k (q_jobs db))"

fun held_adm :: "job_command \<Rightarrow> queue_db \<Rightarrow> bool" where
  "held_adm (Cmd_Finish jid out now) db = (job_status_of jid db = Some Running)"
| "held_adm c db = job_adm c db"

lemma held_adm_job_adm: "held_adm c db \<Longrightarrow> job_adm c db"
  by (cases c) auto

lemma job_step_cases:
  assumes "job_step dg c db = Inr db'"
  obtains r now jid seen j where "c = Cmd_Enqueue r now jid seen" "enqueue_job r now jid seen db = Inr (db', j)"
  | w s now locked t j where "c = Cmd_Claim w s now locked t" "claim_agent_job w s now locked t db = Inr (db', j)"
  | jid t s now j where "c = Cmd_Heartbeat jid t s now" "heartbeat_agent_job jid t s now db = Inr (db', j)"
  | jid t j where "c = Cmd_Begin jid t" "begin_agent_job jid t db = Inr (db', j)"
  | jid out now j where "c = Cmd_Finish jid out now" "finish_agent_job dg jid out now db = Inr (db', j)"
  | jid reason sg m now j where "c = Cmd_Requeue jid reason sg m now"
      "requeue_agent_job jid reason sg m now db = Inr (db', j)"
  using assms by (cases c) (auto simp: map_sum_def split: sum.splits)

lemma job_step_inv:
  assumes "queue_inv db" and "job_adm c db" and "job_step dg c db = Inr db'"
  shows "queue_inv db'"
  using assms(3)
proof (cases rule: job_step_cases)
  case 1
  with assms show ?thesis by (auto intro: enqueue_ok)
next
  case 2
  with assms show ?thesis by (auto intro: claim_ok)
next
  case 3
  with assms show ?thesis by (auto intro: heartbeat_ok)
next
  case 4
  with assms show ?thesis by (auto intro: begin_ok)
next
  case 5
  with assms show ?thesis by (auto intro: finish_ok)
next
  case 6
  with assms show ?thesis by (auto intro: requeue_ok)
qed

interpretation queue_sys: guarded_system "job_step dg" job_adm queue_inv for dg
  by unfold_locales (rule job_step_inv)

subsection \<open>The life cycle of a job\<close>

inductive job_edge :: "job_status \<Rightarrow> job_status \<Rightarrow> bool" where
  claim: "job_edge Queued Leased"
| start: "job_edge Leased Running"
| expire: "s \<in> {Leased, Running} \<Longrightarrow> job_edge s Queued"
| give_up: "s \<in> {Leased, Running} \<Longrightarrow> job_edge s Failed"
| complete: "job_edge Running Completed"
| requeue: "job_edge Failed Queued"

inductive_simps job_edge_from_Completed [simp]: "job_edge Completed s"
inductive_simps job_edge_from_Cancelled [simp]: "job_edge Cancelled s"

lemma find_recover:
  "job_find k (recover_expired_leases now locked jobs) =
   map_option (\<lambda>j. if lease_expired now j \<and> job_id j \<notin> set locked then recover_expired_lease now j else j)
     (job_find k jobs)"
  unfolding recover_expired_leases_def by (rule row_find_map) simp

lemma recover_status:
  "job_status (recover_expired_lease now j) \<in> {Queued, Failed}"
  by (simp add: recover_expired_lease_def mark_dead_letter_def Let_def)

lemma recover_not_expired [simp]: "\<not> lease_expired now2 (recover_expired_lease now j)"
  using recover_status [of now j] by (auto simp: lease_expired_def)

lemma recover_edge:
  assumes "job_find k jobs = Some j"
  shows "\<exists>j'. job_find k (recover_expired_leases now locked jobs) = Some j' \<and>
              job_edge\<^sup>*\<^sup>* (job_status j) (job_status j')"
proof (cases "lease_expired now j \<and> job_id j \<notin> set locked")
  case True
  then have "job_edge (job_status j) (job_status (recover_expired_lease now j))"
    using recover_status [of now j] by (auto simp: lease_expired_def intro: job_edge.intros)
  with True assms show ?thesis by (auto simp: find_recover)
next
  case False
  with assms show ?thesis by (auto simp: find_recover)
qed

text \<open>A write-back of one row moves the status of that row only.\<close>

lemma put_edge:
  assumes "job_find k (q_jobs db) = Some i" and "job_find (job_id j') (q_jobs db) = Some j"
    and "job_edge\<^sup>*\<^sup>* (job_status j) (job_status j')"
  shows "\<exists>i'. job_find k (job_put j' (q_jobs db)) = Some i' \<and> job_edge\<^sup>*\<^sup>* (job_status i) (job_status i')"
  using assms by (auto simp: row_find_put)

lemma job_step_edge:
  assumes inv: "queue_inv db" and adm: "held_adm c db" and step: "job_step dg c db = Inr db'"
    and k: "job_find k (q_jobs db) = Some i"
  shows "\<exists>i'. job_find k (q_jobs db') = Some i' \<and> job_edge\<^sup>*\<^sup>* (job_status i) (job_status i')"
  using step
proof (cases rule: job_step_cases)
  case (1 r now jid seen j)
  from 1(2) show ?thesis
    using k by (cases rule: enqueue_cases) (auto simp: row_find_append)
next
  case (2 w s now locked t j)
  from 2(2) show ?thesis
  proof (cases rule: claim_cases)
    case none
    with recover_edge [OF k] show ?thesis by simp
  next
    case (some j0)
    let ?db = "db\<lparr>q_jobs := recover_expired_leases now locked (q_jobs db)\<rparr>"
    from recover_edge [OF k, of now locked] obtain i1 where
      i1: "job_find k (q_jobs ?db) = Some i1" "job_edge\<^sup>*\<^sup>* (job_status i) (job_status i1)" by auto
    have "job_find (job_id j0) (q_jobs ?db) = Some j0"
      using inv some(3) recover_jobs_ok by (simp add: queue_inv_def jobs_ok_find)
    moreover have "job_edge\<^sup>*\<^sup>* (job_status j0) (job_status (lease_job (strip w) s now t j0))"
      using some(4) by (auto simp: claimable_def intro: job_edge.claim)
    ultimately obtain i2 where "job_find k (job_put (lease_job (strip w) s now t j0) (q_jobs ?db)) = Some i2"
      and "job_edge\<^sup>*\<^sup>* (job_status i1) (job_status i2)"
      using put_edge [OF i1(1), of "lease_job (strip w) s now t j0" j0] by auto
    with i1(2) some(2) show ?thesis by (auto intro: rtranclp_trans)
  qed
next
  case (3 jid t s now j)
  then obtain j0 where "job_find jid (q_jobs db) = Some j0" "job_id j = job_id j0" "job_status j = job_status j0"
    "q_jobs db' = job_put j (q_jobs db)"
    by (auto simp: heartbeat_agent_job_def Let_def split: option.splits if_splits)
  with put_edge [OF k, of j j0] show ?thesis by (auto dest: row_find_SomeD)
next
  case (4 jid t j)
  then obtain j0 where j0: "job_find jid (q_jobs db) = Some j0" "job_id j = job_id j0" "job_status j0 = Leased"
    "job_status j = Running" "q_jobs db' = job_put j (q_jobs db)"
    by (auto simp: begin_agent_job_def Let_def split: option.splits if_splits)
  moreover have "job_id j0 = jid" using row_find_SomeD [OF j0(1)] by simp
  ultimately show ?thesis
    using put_edge [OF k, of j j0] by (auto intro: job_edge.start)
next
  case (5 jid out now j)
  from 5(2) show ?thesis
  proof (cases rule: finish_cases)
    case (1 j0)
    from adm 5(1) 1(1) have run: "job_status j0 = Running" by (simp add: job_status_of_def)
    with 1(8) have "job_edge (job_status j0) (job_status j)"
      by (auto intro: job_edge.intros)
    with put_edge [OF k, of j j0] 1 show ?thesis by (auto dest: row_find_SomeD)
  qed
next
  case (6 jid reason sg m now j)
  from requeueD [OF 6(2)] obtain j0 where j0: "job_find jid (q_jobs db) = Some j0" "job_status j0 = Failed"
    "q_jobs db' = job_put (requeued_job (strip reason) sg m now j0) (q_jobs db)" by auto
  moreover have "job_id j0 = jid" using row_find_SomeD [OF j0(1)] by simp
  ultimately show ?thesis
    using put_edge [OF k, of "requeued_job (strip reason) sg m now j0" j0] by (auto intro: job_edge.requeue)
qed

interpretation job_life: lifecycle "job_step dg" held_adm queue_inv job_status_of job_edge for dg
proof unfold_locales
  fix db c db' k a
  assume "queue_inv db" and "held_adm c db" and "job_step dg c db = Inr db'"
  then show "queue_inv db'" by (blast intro: job_step_inv held_adm_job_adm)
  assume "job_status_of k db = Some a"
  then obtain i where "job_find k (q_jobs db) = Some i" "job_status i = a" by (auto simp: job_status_of_def)
  with job_step_edge [OF \<open>queue_inv db\<close> \<open>held_adm c db\<close> \<open>job_step dg c db = Inr db'\<close>]
  show "\<exists>b. job_status_of k db' = Some b \<and> job_edge\<^sup>*\<^sup>* a b"
    by (fastforce simp: job_status_of_def)
qed

section \<open>The bound on the work of a queue\<close>

fun job_weight :: "job_status \<Rightarrow> nat \<Rightarrow> nat" where
  "job_weight Queued n = 2 * n"
| "job_weight Leased n = 2 * n + 1"
| "job_weight Running n = 2 * n + 1"
| "job_weight _ n = 0"

definition remaining_work :: "job \<Rightarrow> nat" where
  "remaining_work j = job_weight (job_status j) (nat (job_max_attempts j - job_attempt_count j))"

definition pending_work :: "queue_db \<Rightarrow> nat" where
  "pending_work db = sum_list (map remaining_work (q_jobs db))"

lemma recover_work: "remaining_work (recover_expired_lease now j) \<le> remaining_work j \<or> \<not> lease_expired now j"
  by (cases "job_status j")
    (auto simp: lease_expired_def remaining_work_def recover_expired_lease_def mark_dead_letter_def Let_def)

lemma recover_jobs_work:
  "sum_list (map remaining_work (recover_expired_leases now locked jobs)) \<le> sum_list (map remaining_work jobs)"
  unfolding recover_expired_leases_def map_map o_def
  by (rule sum_list_mono) (use recover_work in auto)

lemma put_work:
  assumes "distinct (map job_id jobs)" and "j \<in> set jobs" and "job_id j' = job_id j"
    and "remaining_work j' < remaining_work j"
  shows "sum_list (map remaining_work (job_put j' jobs)) < sum_list (map remaining_work jobs)"
  using sum_row_put [of job_id jobs j j' remaining_work] assms by simp

lemma claim_work:
  assumes ids: "distinct (map job_id (q_jobs db))"
    and claim: "claim_agent_job w s now locked t db = Inr (db', r)"
  shows "distinct (map job_id (q_jobs db')) \<and> pending_work db' \<le> pending_work db \<and>
         (\<forall>j. r = Some j \<longrightarrow> job_find (job_id j) (q_jobs db') = Some j \<and> job_lease_token j = Some t \<and>
            job_status j = Leased \<and> pending_work db' < pending_work db)"
  using claim
proof (cases rule: claim_cases)
  case none
  with ids show ?thesis
    by (simp add: pending_work_def recover_jobs_work) (simp add: recover_expired_leases_def o_def if_distrib cong: if_cong)
next
  case (some j)
  let ?jobs = "recover_expired_leases now locked (q_jobs db)"
  let ?l = "lease_job (strip w) s now t j"
  have ids': "distinct (map job_id ?jobs)"
    using ids by (simp add: recover_expired_leases_def o_def if_distrib cong: if_cong)
  have "Suc (2 * nat (m - (a + 1))) < 2 * nat (m - a)" if "a < m" for a m :: int
    using that by linarith
  with some(4) have "remaining_work ?l < remaining_work j"
    by (simp add: remaining_work_def claimable_def)
  then have "sum_list (map remaining_work (job_put ?l ?jobs)) < sum_list (map remaining_work ?jobs)"
    using ids' some(3) by (intro put_work) simp_all
  with recover_jobs_work [of now locked "q_jobs db"] some ids' show ?thesis
    by (auto simp: pending_work_def map_key_row_put row_find_put row_find_member)
qed

lemma begin_work:
  assumes ids: "distinct (map job_id (q_jobs db))" and "begin_agent_job jid t db = Inr (db', j)"
  shows "distinct (map job_id (q_jobs db')) \<and> pending_work db' = pending_work db \<and>
         job_find jid (q_jobs db') = Some j \<and> job_status j = Running"
proof -
  from assms(2) obtain j0 where j0: "job_find jid (q_jobs db) = Some j0" "job_status j0 = Leased"
    and j: "j = j0\<lparr>job_status := Running\<rparr>" and db': "q_jobs db' = job_put j (q_jobs db)"
    by (auto simp: begin_agent_job_def Let_def split: option.splits if_splits)
  have "remaining_work j = remaining_work j0"
    using j0(2) by (simp add: j remaining_work_def)
  then have "pending_work db' = pending_work db"
    using sum_row_put [of job_id "q_jobs db" j0 j remaining_work] ids row_find_SomeD [OF j0(1)]
    by (simp add: j pending_work_def db')
  with ids j0 j db' show ?thesis
    using row_find_SomeD [OF j0(1)] by (auto simp: map_key_row_put row_find_put)
qed

lemma finish_work:
  assumes ids: "distinct (map job_id (q_jobs db))" and eq: "finish_agent_job dg jid out now db = Inr (db', j')"
    and held: "job_find jid (q_jobs db) = Some j" "job_status j = Running"
  shows "distinct (map job_id (q_jobs db')) \<and> pending_work db' \<le> pending_work db"
  using eq
proof (cases rule: finish_cases)
  case (1 j0)
  with held have [simp]: "j0 = j" by simp
  from 1 held(2) have "remaining_work j' \<le> remaining_work j"
    by (auto simp: remaining_work_def)
  then show ?thesis
    using sum_row_put [of job_id "q_jobs db" j j' remaining_work] ids 1 row_find_SomeD [OF held(1)]
    by (simp add: pending_work_def map_key_row_put)
qed

lemma worker_once_work:
  assumes ids: "distinct (map job_id (q_jobs db))"
    and run: "run_agent_worker_once dg execute w s now locked t done_at db = (db', r)"
  shows "distinct (map job_id (q_jobs db')) \<and> pending_work db' \<le> pending_work db \<and>
         (r \<noteq> Inr None \<and> r \<noteq> Inl Worker_Id_Required \<longrightarrow> pending_work db' < pending_work db)"
proof (cases "claim_agent_job w s now locked t db")
  case (Inl e)
  then have "e = Worker_Id_Required"
    by (auto simp: claim_agent_job_def Let_def split: if_splits)
  with Inl run ids show ?thesis by (auto simp: run_agent_worker_once_def)
next
  case (Inr p)
  then obtain db1 c where claim: "claim_agent_job w s now locked t db = Inr (db1, c)" by (cases p) auto
  note cw = claim_work [OF ids claim]
  show ?thesis
  proof (cases c)
    case None
    with run claim cw show ?thesis by (auto simp: run_agent_worker_once_def)
  next
    case (Some j)
    with cw have j: "job_find (job_id j) (q_jobs db1) = Some j" "job_lease_token j = Some t" "job_status j = Leased"
      and less: "pending_work db1 < pending_work db" and ids1: "distinct (map job_id (q_jobs db1))" by auto
    then obtain db2 j2 where started: "begin_agent_job (job_id j) t db1 = Inr (db2, j2)"
      by (simp add: begin_agent_job_def Let_def)
    note bw = begin_work [OF ids1 started]
    show ?thesis
    proof (cases "finish_agent_job dg (job_id j) (execute j2) done_at db2")
      case (Inl e)
      with run claim Some j started bw less show ?thesis
        by (auto simp: run_agent_worker_once_def process_claimed_agent_job_def)
    next
      case (Inr q)
      then obtain db3 j3 where fin: "finish_agent_job dg (job_id j) (execute j2) done_at db2 = Inr (db3, j3)"
        by (cases q) auto
      with finish_work [OF _ fin, of j2] bw run claim Some j started less show ?thesis
        by (auto simp: run_agent_worker_once_def process_claimed_agent_job_def)
    qed
  qed
qed

section \<open>Properties\<close>

text \<open>
  C2. The queue is consistent after every sequence of transactions: started on an empty table and
  run through any sequence of enqueues (against any snapshot), claims with fresh tokens,
  heartbeats, starts, finishes and requeues, in any order and by any workers, the jobs have distinct
  ids and dedupe keys, no lease token is held by two jobs, no job has used more attempts than it is
  allowed, every queued job still has an attempt left (so no job waits for ever unclaimable), a
  job carries a lease exactly while it is leased or running, and a failed job is dead-lettered.
\<close>

theorem queue_consistent_after_any_run:
  assumes "admissible_run (job_step dg) job_adm cmds \<lparr>q_jobs = [], q_workers = ws\<rparr>"
  shows "queue_inv (run_commands (job_step dg) cmds \<lparr>q_jobs = [], q_workers = ws\<rparr>)"
  using assms
  by (intro queue_sys.run_inv) (simp_all add: queue_inv_def jobs_ok_def tokens_unique_def)

definition demo_identity :: signer_identity where
  "demo_identity = system_worker_identity ''w1''"

definition demo_request :: job_request where
  "demo_request = plain_request Oidc_Session_Cleanup ''oidc-session-cleanup:k1'' (JObj []) demo_identity 30 3"

theorem queue_consistent_witness:
  "queue_inv (run_commands (job_step (\<lambda>_. 0))
     [Cmd_Enqueue demo_request 0 ''j1'' \<lparr>q_jobs = [], q_workers = []\<rparr>,
      Cmd_Claim ''w1'' 300 0 [] ''t1'', Cmd_Begin ''j1'' ''t1'', Cmd_Finish ''j1'' (Outcome_Error ''boom'') 5]
     \<lparr>q_jobs = [], q_workers = []\<rparr>)"
proof -
  have "admissible_run (job_step (\<lambda>_. 0)) job_adm
     [Cmd_Enqueue demo_request 0 ''j1'' \<lparr>q_jobs = [], q_workers = []\<rparr>,
      Cmd_Claim ''w1'' 300 0 [] ''t1'', Cmd_Begin ''j1'' ''t1'', Cmd_Finish ''j1'' (Outcome_Error ''boom'') 5]
     \<lparr>q_jobs = [], q_workers = []\<rparr>"
    by code_simp
  then show ?thesis by (rule queue_consistent_after_any_run)
qed

text \<open>
  C34. A claim serves the most urgent job: when a claim returns a job, that job was queued, due and
  had an attempt left, no other claimable job has a smaller (priority, available time, creation
  time), and it comes back leased under the fresh token, with one more attempt used and a lease
  that ends between 5 and 900 seconds after the claim whatever lease length the worker asked for;
  when it returns none, nothing was claimable.
\<close>

theorem claim_serves_most_urgent:
  assumes "claim_agent_job w s now locked t db = Inr (db', r)"
  shows "case r of
           None \<Rightarrow> filter (claimable now locked) (recover_expired_leases now locked (q_jobs db)) = []
         | Some j' \<Rightarrow>
             (\<exists>j \<in> set (recover_expired_leases now locked (q_jobs db)).
                claimable now locked j \<and> j' = lease_job (strip w) s now t j \<and>
                list_all (\<lambda>i. \<not> claimable now locked i \<or> claim_order j \<le> claim_order i)
                  (recover_expired_leases now locked (q_jobs db))) \<and>
             job_lease_token j' = Some t \<and>
             (\<exists>e. job_lease_expires_at j' = Some e \<and> now + seconds 5 \<le> e \<and> e \<le> now + seconds 900)"
  using assms
proof (cases rule: claim_cases)
  case none
  then show ?thesis by simp
next
  case (some j)
  have "\<exists>e. job_lease_expires_at (lease_job (strip w) s now t j) = Some e \<and>
           now + seconds 5 \<le> e \<and> e \<le> now + seconds 900"
    by (simp add: lease_job_def bounded_lease_def MAX_LEASE_SECONDS_def)
  with some(1,3,4) show ?thesis
    by (auto simp: list_all_iff intro!: bexI [of _ j] dest: some(5))
qed

theorem claim_serves_most_urgent_witness:
  "\<exists>db' j'. claim_agent_job '' w1 '' 99999 7 [] ''t1''
        \<lparr>q_jobs = [new_job demo_request 5 ''late'', new_job (demo_request\<lparr>rq_priority := 10\<rparr>) 6 ''urgent''],
         q_workers = []\<rparr> = Inr (db', Some j')
      \<and> job_id j' = ''urgent'' \<and> job_lease_expires_at j' = Some (7 + seconds 900)"
proof -
  let ?db = "\<lparr>q_jobs = [new_job demo_request 5 ''late'', new_job (demo_request\<lparr>rq_priority := 10\<rparr>) 6 ''urgent''],
         q_workers = []\<rparr>"
  have "case claim_agent_job '' w1 '' 99999 7 [] ''t1'' ?db of
          Inr (db', Some j') \<Rightarrow> job_id j' = ''urgent'' \<and> job_lease_expires_at j' = Some (7 + seconds 900)
        | _ \<Rightarrow> False"
    by code_simp
  then obtain db' j' where *: "claim_agent_job '' w1 '' 99999 7 [] ''t1'' ?db = Inr (db', Some j')"
    "job_id j' = ''urgent''" "job_lease_expires_at j' = Some (7 + seconds 900)"
    by (auto split: sum.splits prod.splits option.splits)
  from claim_serves_most_urgent [OF *(1)] * show ?thesis by auto
qed

text \<open>
  A claim fences expired leases: after any claim at time \<open>now\<close> no row that was not locked by
  another transaction is left with a lease that has run out, and a worker whose lease on a job had
  expired can no longer heartbeat that job nor start it with its old token.
\<close>

theorem expired_lease_is_fenced:
  assumes inv: "queue_inv db" and fresh: "fresh_token t (q_jobs db)"
    and claim: "claim_agent_job w s now locked t db = Inr (db', r)"
    and j: "job_find jid (q_jobs db) = Some j" "lease_expired now j" "jid \<notin> set locked"
      "job_lease_token j = Some old"
  shows "filter (\<lambda>i. lease_expired now i \<and> job_id i \<notin> set locked) (q_jobs db') = []
       \<and> heartbeat_agent_job jid old s2 now2 db' = Inl Lease_Token_Invalid
       \<and> begin_agent_job jid old db' = Inl Not_Held_By_This_Lease"
proof -
  let ?jobs = "recover_expired_leases now locked (q_jobs db)"
  have ids: "distinct (map job_id (q_jobs db))" using inv by (simp add: queue_inv_def jobs_ok_def)
  have old: "old \<noteq> t" using fresh j row_find_SomeD [OF j(1)] by (auto simp: fresh_token_def)
  have id: "job_id j = jid" using row_find_SomeD [OF j(1)] by simp
  have rec: "job_find jid ?jobs = Some (recover_expired_lease now j)"
    using j id by (simp add: find_recover)
  have clean: "\<not> lease_expired now i \<or> job_id i \<in> set locked" if "i \<in> set ?jobs" for i
    using that by (auto simp: recover_expired_leases_def)
  have lease: "\<not> lease_expired now (lease_job (strip w) s now t i)" for i
    using clamp_lower [of 5 MAX_LEASE_SECONDS s]
    by (simp add: lease_expired_def lease_job_def bounded_lease_def not_le less_le_trans [of 0 5])
  from claim show ?thesis
  proof (cases rule: claim_cases)
    case none
    with clean rec show ?thesis
      by (auto simp: filter_empty_conv heartbeat_agent_job_def begin_agent_job_def)
  next
    case (some i)
    have "\<exists>j'. job_find jid (q_jobs db') = Some j' \<and> job_lease_token j' \<noteq> Some old"
      using some(2) rec old by (auto simp: row_find_put)
    moreover have "\<not> lease_expired now x \<or> job_id x \<in> set locked" if "x \<in> set (q_jobs db')" for x
      using that clean lease some(2) by (auto simp: in_set_row_put)
    ultimately show ?thesis
      by (auto simp: filter_empty_conv heartbeat_agent_job_def begin_agent_job_def)
  qed
qed

definition demo_leased :: job where
  "demo_leased = lease_job ''w0'' 5 0 ''t0'' (new_job demo_request 0 ''j1'')"

theorem expired_lease_is_fenced_witness:
  "\<exists>db' r. claim_agent_job ''w1'' 300 (seconds 5) [] ''t1'' \<lparr>q_jobs = [demo_leased], q_workers = []\<rparr> = Inr (db', r)
     \<and> heartbeat_agent_job ''j1'' ''t0'' 300 (seconds 6) db' = Inl Lease_Token_Invalid"
proof -
  let ?db = "\<lparr>q_jobs = [demo_leased], q_workers = []\<rparr>"
  have inv: "queue_inv ?db" by code_simp
  have fresh: "fresh_token ''t1'' (q_jobs ?db)" by code_simp
  have j: "job_find ''j1'' (q_jobs ?db) = Some demo_leased" "lease_expired (seconds 5) demo_leased"
    "''j1'' \<notin> set []" "job_lease_token demo_leased = Some ''t0''"
    by (simp_all add: demo_leased_def lease_job_def new_job_def row_find_def lease_expired_def
        bounded_lease_def MAX_LEASE_SECONDS_def)
  have "\<not> isl (claim_agent_job ''w1'' 300 (seconds 5) [] ''t1'' ?db)" by code_simp
  then obtain db' r where claim: "claim_agent_job ''w1'' 300 (seconds 5) [] ''t1'' ?db = Inr (db', r)"
    by (cases "claim_agent_job ''w1'' 300 (seconds 5) [] ''t1'' ?db") auto
  from expired_lease_is_fenced [OF inv fresh claim j, of 300 "seconds 6"] claim show ?thesis by blast
qed

text \<open>
  C38. The second commit of \<^verbatim>\<open>process_claimed_agent_job\<close> is not fenced by the lease: whatever token
  the job is held under by then, the worker that finishes it, even one whose lease expired while the
  handler ran and whose job another worker has since claimed, marks it completed with its own
  result and clears the new holder's lease, whose heartbeats are refused from then on.
\<close>

theorem finish_ignores_lease:
  assumes "job_find jid (q_jobs db) = Some j" and "job_status j \<in> {Leased, Running}"
    and "job_lease_token j = Some holder"
  shows "\<exists>db' j'. finish_agent_job dg jid (Outcome_Result result) now db = Inr (db', j')
          \<and> job_status j' = Completed \<and> job_result j' = Some result \<and> job_lease_owner j' = job_lease_owner j
          \<and> heartbeat_agent_job jid holder s now2 db' = Inl Lease_Token_Invalid"
  using assms row_find_SomeD [OF assms(1)]
  by (auto simp: finish_agent_job_def complete_job_def heartbeat_agent_job_def row_find_put)

theorem finish_ignores_lease_witness:
  "case run_commands (job_step (\<lambda>_. 0))
        [Cmd_Enqueue demo_request 0 ''j1'' \<lparr>q_jobs = [], q_workers = []\<rparr>,
         Cmd_Claim ''slow'' 5 0 [] ''t1'', Cmd_Begin ''j1'' ''t1'',
         Cmd_Claim ''second'' 300 (seconds 5) [] ''t2'', Cmd_Begin ''j1'' ''t2'']
        \<lparr>q_jobs = [], q_workers = []\<rparr> of
     db \<Rightarrow> (\<exists>db' j'. finish_agent_job (\<lambda>_. 0) ''j1'' (Outcome_Result (JStr ''of slow'')) (seconds 6) db = Inr (db', j')
             \<and> job_status j' = Completed \<and> job_result j' = Some (JStr ''of slow'')
             \<and> job_lease_owner j' = Some ''second''
             \<and> heartbeat_agent_job ''j1'' ''t2'' 300 (seconds 7) db' = Inl Lease_Token_Invalid)"
proof -
  let ?db = "run_commands (job_step (\<lambda>_. 0))
        [Cmd_Enqueue demo_request 0 ''j1'' \<lparr>q_jobs = [], q_workers = []\<rparr>,
         Cmd_Claim ''slow'' 5 0 [] ''t1'', Cmd_Begin ''j1'' ''t1'',
         Cmd_Claim ''second'' 300 (seconds 5) [] ''t2'', Cmd_Begin ''j1'' ''t2'']
        \<lparr>q_jobs = [], q_workers = []\<rparr>"
  have "case job_find ''j1'' (q_jobs ?db) of
          Some j \<Rightarrow> job_status j = Running \<and> job_lease_token j = Some ''t2'' \<and> job_lease_owner j = Some ''second''
        | None \<Rightarrow> False"
    by code_simp
  then obtain j where "job_find ''j1'' (q_jobs ?db) = Some j" "job_status j \<in> {Leased, Running}"
    "job_lease_token j = Some ''t2''" "job_lease_owner j = Some ''second''"
    by (auto split: option.splits)
  with finish_ignores_lease [OF this(1-3), of "\<lambda>_. 0" "JStr ''of slow''" "seconds 6" 300 "seconds 7"]
  show ?thesis by simp
qed



record worker_round =
  wr_worker :: string
  wr_lease :: int
  wr_now :: instant
  wr_locked :: "uuid list"
  wr_token :: string
  wr_done_at :: instant

fun busy_rounds ::
  "(string \<Rightarrow> nat) \<Rightarrow> (job \<Rightarrow> job_outcome) \<Rightarrow> worker_round list \<Rightarrow> queue_db \<Rightarrow> nat" where
  "busy_rounds dg execute [] db = 0"
| "busy_rounds dg execute (r # rs) db =
     (case run_agent_worker_once dg execute (wr_worker r) (wr_lease r) (wr_now r) (wr_locked r)
             (wr_token r) (wr_done_at r) db of
        (db', res) \<Rightarrow>
          (if res = Inr None \<or> res = Inl Worker_Id_Required then 0 else 1) + busy_rounds dg execute rs db')"



text \<open>
  Enqueueing is idempotent on the dedupe key, also under a race: an enqueue that succeeds
  returns a job with the requested key; asking again returns that job and changes nothing; and when
  two enqueuers both saw the key absent and the first has committed, the second, whose insert
  violates the unique constraint, returns the first one's job and leaves the table as it is.
\<close>

theorem enqueue_is_idempotent:
  assumes "queue_inv db" and "enqueue_job r now jid db db = Inr (db', j)"
  shows "j \<in> set (q_jobs db') \<and> job_dedupe_key j = rq_dedupe_key r
       \<and> enqueue_job r now2 jid2 db' db' = Inr (db', j)
       \<and> enqueue_job r now2 jid2 db db' = Inr (db', j)"
proof -
  have found: "find_dedupe (rq_dedupe_key r) (q_jobs db') = Some j \<and> j \<in> set (q_jobs db') \<and>
      job_dedupe_key j = rq_dedupe_key r \<and>
      (find_dedupe (rq_dedupe_key r) (q_jobs db) \<noteq> None \<longrightarrow> find_dedupe (rq_dedupe_key r) (q_jobs db) = Some j)"
  proof (cases "find_dedupe (rq_dedupe_key r) (q_jobs db)")
    case (Some i)
    with assms(2) show ?thesis
      by (auto simp: enqueue_job_def find_dedupe_def dest: find_SomeD)
  next
    case None
    with assms(2) have "db' = db\<lparr>q_jobs := q_jobs db @ [new_job r now jid]\<rparr>" "j = new_job r now jid"
      by (auto simp: enqueue_job_def split: if_splits)
    moreover from None have "find (\<lambda>j. job_dedupe_key j = rq_dedupe_key r) (q_jobs db @ [new_job r now jid])
        = Some (new_job r now jid)"
      by (intro find_snoc) (simp_all add: find_dedupe_def new_job_def)
    ultimately show ?thesis using None by (simp add: find_dedupe_def new_job_def)
  qed
  then show ?thesis
    by (cases "find_dedupe (rq_dedupe_key r) (q_jobs db)") (auto simp: enqueue_job_def)
qed

theorem enqueue_is_idempotent_witness:
  "enqueue_job demo_request 9 ''j2'' \<lparr>q_jobs = [], q_workers = []\<rparr>
      \<lparr>q_jobs = [new_job demo_request 0 ''j1''], q_workers = []\<rparr>
   = Inr (\<lparr>q_jobs = [new_job demo_request 0 ''j1''], q_workers = []\<rparr>, new_job demo_request 0 ''j1'')"
proof -
  let ?e = "\<lparr>q_jobs = [], q_workers = []\<rparr>"
  let ?f = "\<lparr>q_jobs = [new_job demo_request 0 ''j1''], q_workers = []\<rparr>"
  have "queue_inv ?e" by (simp add: queue_inv_def jobs_ok_def tokens_unique_def)
  moreover have "enqueue_job demo_request 0 ''j1'' ?e ?e = Inr (?f, new_job demo_request 0 ''j1'')"
    by (simp add: enqueue_job_def find_dedupe_def row_find_def demo_request_def plain_request_def)
  ultimately show ?thesis using enqueue_is_idempotent [of ?e demo_request 0 "''j1''" ?f _ 9 "''j2''"] by blast
qed

lemma image_key_row_put: "key ` set (row_put key r rows) = key ` set rows"
  using arg_cong [OF map_key_row_put [of key r rows], of set] by simp

lemma row_find_Some_mem: "row_find key k rows = Some r \<Longrightarrow> k \<in> key ` set rows"
  by (auto dest: row_find_SomeD)

lemma fresh_name_added:
  "p \<and> N' = insert a N \<or> \<not> p \<and> N' = N \<Longrightarrow> x \<notin> N \<Longrightarrow> x \<in> N' \<longleftrightarrow> p \<and> a = x"
  by blast

lemma heartbeat_ok_iff:
  "(\<exists>p. heartbeat_agent_worker wid current now db = Inr p) \<longleftrightarrow> worker_find wid (q_workers db) \<noteq> None"
  by (auto simp: heartbeat_agent_worker_def Let_def split: option.split)

lemma register_names:
  assumes "register_agent_worker wid metadata now db = Inr (db', w)"
  shows "worker_find (strip wid) (q_workers db) = None \<and>
       wk_id ` set (q_workers db') = insert (take 160 (strip wid)) (wk_id ` set (q_workers db)) \<or>
     worker_find (strip wid) (q_workers db) \<noteq> None \<and> wk_id ` set (q_workers db') = wk_id ` set (q_workers db)"
proof (cases "worker_find (strip wid) (q_workers db)")
  case None
  from assms have "wk_id w = take 160 (strip wid) \<and> db' = db\<lparr>q_workers := q_workers db @ [w]\<rparr>"
    unfolding register_agent_worker_def Let_def None by (auto split: if_split_asm)
  with None show ?thesis by simp
next
  case (Some w0)
  from assms obtain x where "db' = db\<lparr>q_workers := row_put wk_id x (q_workers db)\<rparr>"
    unfolding register_agent_worker_def Let_def Some by (auto split: if_split_asm)
  with Some show ?thesis by (simp add: image_key_row_put)
qed

text \<open>
  A worker can only heartbeat under its own name when the name survives registration: on a
  table that does not hold the name yet, the heartbeat of a freshly registered worker succeeds
  exactly when the name has no surrounding white space and at most 160 characters, because
  registration strips and truncates the name while the heartbeat looks it up as given.
\<close>

theorem worker_heartbeat_after_registration:
  assumes "register_agent_worker wid metadata now db = Inr (db', w)"
    and "wid \<notin> wk_id ` set (q_workers db)"
  shows "(\<exists>p. heartbeat_agent_worker wid current now2 db' = Inr p) \<longleftrightarrow> strip wid = wid \<and> length wid \<le> 160"
proof -
  let ?n = "strip wid"
  have new: "worker_find ?n (q_workers db) = None \<and>
       wk_id ` set (q_workers db') = insert (take 160 ?n) (wk_id ` set (q_workers db)) \<or>
     worker_find ?n (q_workers db) \<noteq> None \<and> wk_id ` set (q_workers db') = wk_id ` set (q_workers db)"
    by (rule register_names [OF assms(1)])
  have "(\<exists>p. heartbeat_agent_worker wid current now2 db' = Inr p) \<longleftrightarrow> wid \<in> wk_id ` set (q_workers db')"
    by (simp only: heartbeat_ok_iff row_find_None not_not)
  also from new assms(2) have "\<dots> \<longleftrightarrow> worker_find ?n (q_workers db) = None \<and> take 160 ?n = wid"
    by (rule fresh_name_added)
  also have "\<dots> \<longleftrightarrow> strip wid = wid \<and> length wid \<le> 160"
  proof
    assume *: "worker_find ?n (q_workers db) = None \<and> take 160 ?n = wid"
    then have "length wid = min (length (strip wid)) 160" by (metis length_take)
    with length_strip [of wid] have "length (strip wid) \<le> length wid \<and> length wid \<le> 160"
      by linarith
    with \<open>length wid = min (length (strip wid)) 160\<close> have "length (strip wid) = length wid \<and> length wid \<le> 160"
      by linarith
    with * show "strip wid = wid \<and> length wid \<le> 160"
      by (metis take_all)
  next
    assume "strip wid = wid \<and> length wid \<le> 160"
    with assms(2) show "worker_find ?n (q_workers db) = None \<and> take 160 ?n = wid"
      by (simp add: row_find_None)
  qed
  finally show ?thesis .
qed

theorem worker_heartbeat_witness:
  "\<exists>db' w. register_agent_worker '' w1'' (JObj []) 0 \<lparr>q_jobs = [], q_workers = []\<rparr> = Inr (db', w)
     \<and> \<not> (\<exists>p. heartbeat_agent_worker '' w1'' None 1 db' = Inr p)"
proof -
  let ?db = "\<lparr>q_jobs = [], q_workers = []\<rparr>"
  have "\<not> isl (register_agent_worker '' w1'' (JObj []) 0 ?db)" by code_simp
  then obtain db' w where reg: "register_agent_worker '' w1'' (JObj []) 0 ?db = Inr (db', w)"
    by (cases "register_agent_worker '' w1'' (JObj []) 0 ?db") auto
  have "strip '' w1'' \<noteq> '' w1''" by code_simp
  with worker_heartbeat_after_registration [OF reg, of None 1] reg show ?thesis by auto
qed

lemma count_if_append [simp]: "count_if P (xs @ ys) = count_if P xs + count_if P ys"
  by (simp add: count_if_def)

lemma count_if_Cons: "count_if P (x # xs) = (if P x then 1 else 0) + count_if P xs"
  by (simp add: count_if_def)

lemma count_if_le: "count_if P xs \<le> length xs"
  by (simp add: count_if_def)

lemma status_count_sum:
  "(\<Sum>s\<leftarrow>[Queued, Leased, Running, Completed, Failed, Cancelled]. count_if (\<lambda>j. job_status j = s) jobs) = length jobs"
proof (induction jobs)
  case Nil
  then show ?case by (simp add: count_if_def)
next
  case (Cons j js)
  then show ?case by (cases "job_status j") (simp_all add: count_if_Cons)
qed

lemma type_count_sum:
  "(\<Sum>k\<leftarrow>[Resume_Checkpoint, Checkpoint_Reconciliation, Traffic_Evidence_Import,
      Model_Validation_Campaign, Trust_Source_Sync, Oidc_Session_Cleanup,
      Operational_Observability_Cycle, Operational_Alert_Delivery]. count_if (\<lambda>j. job_kind j = k) jobs) = length jobs"
proof (induction jobs)
  case Nil
  then show ?case by (simp add: count_if_def)
next
  case (Cons j js)
  then show ?case by (cases "job_kind j") (simp_all add: count_if_Cons)
qed

lemma success_rate_unit:
  "n \<le> m \<Longrightarrow> 0 < m \<Longrightarrow> 0 \<le> py_round 4 (of_nat n / of_nat m) \<and> py_round 4 (of_nat n / of_nat m) \<le> 1"
  by (intro py_round_unit) (simp_all add: divide_le_eq)

lemma completed_failed_le:
  "count_if (\<lambda>j. job_status j = Completed) (filter P js)
     + count_if (\<lambda>j. job_status j = Failed) (filter P js) \<le> length js"
  by (induction js) (auto simp: count_if_def)

text \<open>
  The queue overview accounts for every job exactly once: the counts per status and the counts
  per type each add up to the number of jobs, the queue depth and the dead letters are the counts of
  their statuses, retrying jobs are among the queued ones, expired leases among the active ones, and
  the success rate of the last day is a proportion.
\<close>

theorem overview_accounts_for_every_job:
  "let ov = get_agent_job_overview off now db in
      sum_list (map snd (qo_status_counts ov)) = qo_total ov \<and>
      sum_list (map snd (qo_type_counts ov)) = qo_total ov \<and>
      map_of (qo_status_counts ov) Queued = Some (qo_queue_depth ov) \<and>
      map_of (qo_status_counts ov) Failed = Some (qo_dead_letters ov) \<and>
      qo_retrying ov \<le> qo_queue_depth ov \<and> qo_expired_leases ov \<le> qo_active_leases ov \<and>
      qo_completed_24h ov + qo_failed_24h ov \<le> qo_total ov \<and>
      pred_option (\<lambda>r. 0 \<le> r \<and> r \<le> 1) (qo_success_rate_24h ov) \<and>
      qo_online_workers ov \<le> length (q_workers db)"
proof -
  let ?ov = "get_agent_job_overview off now db"
  have "sum_list (map snd (qo_status_counts ?ov)) = qo_total ?ov"
    using status_count_sum [of "q_jobs db"] by (simp add: get_agent_job_overview_def Let_def)
  moreover have "sum_list (map snd (qo_type_counts ?ov)) = qo_total ?ov"
    using type_count_sum [of "q_jobs db"] by (simp add: get_agent_job_overview_def Let_def)
  moreover have "map_of (qo_status_counts ?ov) Queued = Some (qo_queue_depth ?ov)"
    and "map_of (qo_status_counts ?ov) Failed = Some (qo_dead_letters ?ov)"
    by (simp_all add: get_agent_job_overview_def Let_def count_if_def)
  moreover have "qo_retrying ?ov \<le> qo_queue_depth ?ov" and "qo_expired_leases ?ov \<le> qo_active_leases ?ov"
    by (simp_all add: get_agent_job_overview_def Let_def count_if_le)
  moreover have "qo_completed_24h ?ov + qo_failed_24h ?ov \<le> qo_total ?ov"
    by (simp add: get_agent_job_overview_def Let_def completed_failed_le)
  moreover have "pred_option (\<lambda>r. 0 \<le> r \<and> r \<le> 1) (qo_success_rate_24h ?ov)"
    by (simp add: get_agent_job_overview_def Let_def success_rate_unit count_if_le)
  moreover have "qo_online_workers ?ov \<le> length (q_workers db)"
    by (simp add: get_agent_job_overview_def Let_def order_trans [OF count_if_le])
  ultimately show ?thesis by (simp add: Let_def)
qed

end
