(* ===== verification/Py_Stats.thy ===== *)
theory Py_Stats
  imports Py_Values "HOL-Library.Multiset"
begin

text \<open>
  The statistics the metric modules share: means, medians, nearest-rank percentiles, the population
  standard deviation and \<^verbatim>\<open>math.isclose\<close>, on exact rationals, and the readers of numbers in JSON
  traces. The square root of \<^verbatim>\<open>statistics.pstdev\<close> is the argument \<open>fsqrt\<close>.

  The locale \<open>percentile_family\<close> states what a client of a percentile function relies on: a value for
  every nonempty sample, inside the range of the sample up to a monotone rounding, and monotone in
  the percentage. Each percentile function of the code interprets it.
\<close>

definition mean :: "rat list \<Rightarrow> rat option" where
  "mean xs = (if xs = [] then None else Some (sum_list xs / of_nat (length xs)))"

definition median :: "rat list \<Rightarrow> rat option" where
  "median xs =
     (let s = sort xs; n = length s in
      if n = 0 then None
      else if odd n then Some (s ! (n div 2))
      else Some ((s ! (n div 2 - 1) + s ! (n div 2)) / 2))"

definition rank_index :: "rat \<Rightarrow> nat \<Rightarrow> nat" where
  "rank_index p n = nat (max 0 (min (int n - 1) (\<lceil>p * of_nat n\<rceil> - 1)))"

definition percentile :: "rat \<Rightarrow> rat list \<Rightarrow> rat option" where
  "percentile p xs = (if xs = [] then None else Some (sort xs ! rank_index p (length xs)))"

definition variance :: "rat list \<Rightarrow> rat" where
  "variance xs =
     (let m = sum_list xs / of_nat (length xs)
      in sum_list (map (\<lambda>x. (x - m) * (x - m)) xs) / of_nat (length xs))"

definition pstdev :: "(rat \<Rightarrow> rat) \<Rightarrow> rat list \<Rightarrow> rat" where
  "pstdev fsqrt xs = fsqrt (variance xs)"

definition isclose :: "rat \<Rightarrow> rat \<Rightarrow> bool" where
  "isclose a b \<longleftrightarrow> a = b \<or> \<bar>a - b\<bar> \<le> max (max \<bar>a\<bar> \<bar>b\<bar> / 10 ^ 9) (1 / 10 ^ 9)"

lemma isclose_sym: "isclose a b = isclose b a"
  by (auto simp: isclose_def abs_minus_commute max.commute)

section \<open>Percentiles\<close>

lemma rank_index_less: "0 < n \<Longrightarrow> rank_index p n < n"
  by (simp add: rank_index_def)

lemma rank_index_mono:
  assumes "p \<le> q"
  shows "rank_index p n \<le> rank_index q n"
proof -
  from assms have "p * of_nat n \<le> q * of_nat n" by (simp add: mult_right_mono)
  then have "\<lceil>p * of_nat n\<rceil> \<le> \<lceil>q * of_nat n\<rceil>" by (rule ceiling_mono)
  then show ?thesis by (simp add: rank_index_def nat_mono)
qed

locale percentile_family =
  fixes stat :: "rat \<Rightarrow> rat list \<Rightarrow> rat option"
    and rnd :: "rat \<Rightarrow> rat"
  assumes stat_None: "stat p xs = None \<longleftrightarrow> xs = []"
    and stat_value: "stat p xs = Some v \<Longrightarrow> \<exists>x \<in> set xs. v = rnd x"
    and stat_mono: "p \<le> q \<Longrightarrow> stat p xs = Some v \<Longrightarrow> stat q xs = Some w \<Longrightarrow> v \<le> w"
    and rnd_mono: "x \<le> y \<Longrightarrow> rnd x \<le> rnd y"
begin

lemma stat_range:
  assumes "stat p xs = Some v" and "\<forall>x \<in> set xs. lo \<le> x \<and> x \<le> hi"
  shows "rnd lo \<le> v \<and> v \<le> rnd hi"
  using stat_value [OF assms(1)] assms(2) rnd_mono by blast

lemma stat_chain:
  assumes "p \<le> q" and "q \<le> r" and "xs \<noteq> []"
  obtains u v w where "stat p xs = Some u" "stat q xs = Some v" "stat r xs = Some w" "u \<le> v" "v \<le> w"
  using assms stat_mono stat_None by (metis option.exhaust)

end

lemma percentile_member: "percentile p xs = Some v \<Longrightarrow> v \<in> set xs"
  using rank_index_less [of "length xs" p] nth_mem [of "rank_index p (length xs)" "sort xs"]
  by (auto simp: percentile_def split: if_split_asm)

lemma percentile_mono:
  assumes "p \<le> q" and "percentile p xs = Some v" and "percentile q xs = Some w"
  shows "v \<le> w"
proof -
  from assms(2) have "xs \<noteq> []" by (auto simp: percentile_def)
  then have "sort xs ! rank_index p (length xs) \<le> sort xs ! rank_index q (length xs)"
    using rank_index_mono [OF assms(1)] rank_index_less [of "length xs" q]
    by (intro sorted_nth_mono) simp_all
  with assms(2,3) \<open>xs \<noteq> []\<close> show ?thesis by (simp add: percentile_def)
qed

interpretation plain_percentile: percentile_family percentile "\<lambda>x. x"
proof
  show "percentile p xs = None \<longleftrightarrow> xs = []" for p xs
    by (simp add: percentile_def)
  show "\<exists>x \<in> set xs. v = x" if "percentile p xs = Some v" for p xs v
    using percentile_member [OF that] by blast
qed (auto dest: percentile_mono)

lemma sum_list_bounds:
  fixes xs :: "rat list"
  assumes "\<forall>x \<in> set xs. lo \<le> x \<and> x \<le> hi"
  shows "of_nat (length xs) * lo \<le> sum_list xs \<and> sum_list xs \<le> of_nat (length xs) * hi"
  using assms by (induction xs) (auto simp: algebra_simps add_mono)

lemma mean_range:
  assumes "mean xs = Some v" and "\<forall>x \<in> set xs. lo \<le> x \<and> x \<le> hi"
  shows "lo \<le> v \<and> v \<le> hi"
proof -
  from assms(1) have "0 < (of_nat (length xs) :: rat)" "v = sum_list xs / of_nat (length xs)"
    by (auto simp: mean_def split: if_split_asm)
  with sum_list_bounds [OF assms(2)] show ?thesis
    by (simp add: pos_le_divide_eq pos_divide_le_eq mult.commute)
qed

section \<open>Numbers in traces\<close>

text \<open>\<^verbatim>\<open>isinstance(v, int | float)\<close>, which holds of Booleans; and the same without Booleans.\<close>

fun number_or_bool :: "json \<Rightarrow> rat option" where
  "number_or_bool (JInt k) = Some (of_int k)"
| "number_or_bool (JFloat q) = Some q"
| "number_or_bool (JBool b) = Some (if b then 1 else 0)"
| "number_or_bool _ = None"

fun number :: "json \<Rightarrow> rat option" where
  "number (JInt k) = Some (of_int k)"
| "number (JFloat q) = Some q"
| "number _ = None"

definition count_where :: "('a \<Rightarrow> bool) \<Rightarrow> 'a list \<Rightarrow> int" where
  "count_where P xs = int (length (filter P xs))"

lemma count_where_bounds: "0 \<le> count_where P xs \<and> count_where P xs \<le> int (length xs)"
  by (simp add: count_where_def)

text \<open>\<^verbatim>\<open>sum(int(t.get(k) or 0) for t in ts)\<close>; \<open>None\<close> when some value is not an integer.\<close>

definition ints_of :: "string \<Rightarrow> json list \<Rightarrow> int list option" where
  "ints_of k ts = those (map (\<lambda>t. int_or (jget t k) 0) ts)"

definition sum_key :: "string \<Rightarrow> json list \<Rightarrow> int option" where
  "sum_key k ts = map_option sum_list (ints_of k ts)"

text \<open>
  \<^verbatim>\<open>float(value)\<close>: of text, a signed decimal numeral with an optional fraction (exponents, infinities
  and digit grouping are left out).
\<close>

definition parse_float :: "string \<Rightarrow> rat option" where
  "parse_float s =
     (let t = strip s;
          neg = (t \<noteq> [] \<and> hd t = CHR ''-'');
          u = (if t \<noteq> [] \<and> hd t \<in> {CHR ''-'', CHR ''+''} then tl t else t);
          whole = takeWhile is_digit u;
          rest = dropWhile is_digit u;
          frac = (if rest \<noteq> [] \<and> hd rest = CHR ''.'' then tl rest else [])
      in if (rest \<noteq> [] \<and> hd rest \<noteq> CHR ''.'') \<or> \<not> list_all is_digit frac \<or> (whole = [] \<and> frac = []) then None
         else let v = of_nat (read_nat 0 whole) + of_nat (read_nat 0 frac) / 10 ^ length frac
              in Some (if neg then - v else v))"

fun py_float :: "json \<Rightarrow> rat option" where
  "py_float (JInt k) = Some (of_int k)"
| "py_float (JFloat q) = Some q"
| "py_float (JBool b) = Some (if b then 1 else 0)"
| "py_float (JStr s) = parse_float s"
| "py_float _ = None"

definition float_or_zero :: "json \<Rightarrow> rat option" where
  "float_or_zero v = (if truthy v then py_float v else Some 0)"

end
