(* ===== verification/Canonical_Json.thy ===== *)
theory Canonical_Json
  imports Py_Values "HOL-Library.List_Lexorder" "HOL-Library.Char_ord" "HOL-Library.Multiset"
begin

text \<open>
  \<^verbatim>\<open>canonical_json\<close> and \<^verbatim>\<open>stable_hash\<close> of \<^verbatim>\<open>services/deployment_gate/evidence.py\<close>: the text that is
  hashed into every decision, baseline, revision and snapshot hash. Object keys are sorted at every
  level (\<open>sort_keys\<close>), by the code point order of Python's \<^verbatim>\<open>str\<close>. SHA-256 is the argument \<open>sha\<close>.
\<close>

definition hex_digit :: "nat \<Rightarrow> char" where
  "hex_digit n = char_of (if n < 10 then 48 + n else 87 + n)"

definition json_escape :: "char \<Rightarrow> string" where
  "json_escape c =
     (let n = (of_char c :: nat) in
      if n = 34 then [CHR 0x5C, CHR 0x22]
      else if n = 92 then [CHR 0x5C, CHR 0x5C]
      else if n = 10 then [CHR 0x5C, CHR ''n'']
      else if n = 13 then [CHR 0x5C, CHR ''r'']
      else if n = 9 then [CHR 0x5C, CHR ''t'']
      else if n = 12 then [CHR 0x5C, CHR ''f'']
      else if n = 8 then [CHR 0x5C, CHR ''b'']
      else if n < 32 then [CHR 0x5C, CHR ''u'', CHR ''0'', CHR ''0'', hex_digit (n div 16), hex_digit (n mod 16)]
      else [c])"

definition json_string :: "string \<Rightarrow> string" where
  "json_string s = CHR 0x22 # concat (map json_escape s) @ [CHR 0x22]"

definition json_member :: "string \<times> string \<Rightarrow> string" where
  "json_member kv = json_string (fst kv) @ '':'' @ snd kv"

fun canonical_json :: "json \<Rightarrow> string" where
  "canonical_json JNull = ''null''"
| "canonical_json (JBool b) = (if b then ''true'' else ''false'')"
| "canonical_json (JInt k) = show_int k"
| "canonical_json (JFloat q) = show_float q"
| "canonical_json (JStr s) = json_string s"
| "canonical_json (JArr xs) = ''['' @ join '','' (map canonical_json xs) @ '']''"
| "canonical_json (JObj kvs) =
     ''{'' @ join '','' (map json_member (sort_key fst (map (\<lambda>(k, v). (k, canonical_json v)) kvs))) @ ''}''"

definition stable_hash :: "(string \<Rightarrow> string) \<Rightarrow> json \<Rightarrow> string" where
  "stable_hash sha j = sha (canonical_json j)"

text \<open>Two JSON values that differ only in the order of the members of objects, at any depth.\<close>

inductive same_json :: "json \<Rightarrow> json \<Rightarrow> bool" where
  same_refl: "same_json j j"
| same_array: "list_all2 same_json xs ys \<Longrightarrow> same_json (JArr xs) (JArr ys)"
| same_members: "map fst kvs = map fst kws \<Longrightarrow> list_all2 same_json (map snd kvs) (map snd kws) \<Longrightarrow>
     same_json (JObj kvs) (JObj kws)"
| same_order: "mset kvs = mset kws \<Longrightarrow> distinct (map fst kvs) \<Longrightarrow> same_json (JObj kvs) (JObj kws)"
| same_trans: "same_json a b \<Longrightarrow> same_json b c \<Longrightarrow> same_json a c"

lemma sort_key_eq_of_mset:
  assumes "mset xs = mset ys" and "distinct (map f xs)"
  shows "sort_key f xs = sort_key f ys"
  using assms by (intro sort_key_inj_key_eq) (simp_all add: distinct_map)

lemma map_members_zip: "map (\<lambda>(k, v). (k, f v)) kvs = zip (map fst kvs) (map f (map snd kvs))"
  by (induction kvs) auto

lemma list_all2_map_eq: "list_all2 (\<lambda>x y. P x y \<and> f x = f y) xs ys \<Longrightarrow> map f xs = map f ys"
  by (induction rule: list_all2_induct) auto

text \<open>
  The hashed text does not depend on the order in which an object's members were inserted, at any
  depth of the value: two values equal up to member order have the same canonical text, hence the
  same \<^verbatim>\<open>stable_hash\<close>, so a snapshot that is written and read back hashes to the same value.
\<close>

theorem stable_hash_ignores_member_order:
  assumes "same_json a b"
  shows "canonical_json a = canonical_json b \<and> stable_hash sha a = stable_hash sha b"
proof -
  from assms have "canonical_json a = canonical_json b"
  proof (induction rule: same_json.induct)
    case (same_array xs ys)
    then have "map canonical_json xs = map canonical_json ys"
      by (intro list_all2_map_eq) simp
    then show ?case by simp
  next
    case (same_members kvs kws)
    from same_members(2) have "map canonical_json (map snd kvs) = map canonical_json (map snd kws)"
      by (rule list_all2_map_eq)
    with same_members(1) show ?case by (simp only: canonical_json.simps map_members_zip)
  next
    case (same_order kvs kws)
    let ?f = "\<lambda>(k, v). (k, canonical_json v)"
    have "mset (map ?f kvs) = mset (map ?f kws)" using same_order(1) by simp
    moreover have "map fst (map ?f kvs) = map fst kvs" by (induction kvs) auto
    then have "distinct (map fst (map ?f kvs))" using same_order(2) by (simp only:)
    ultimately have "sort_key fst (map ?f kvs) = sort_key fst (map ?f kws)"
      by (rule sort_key_eq_of_mset)
    then show ?case by (simp only: canonical_json.simps)
  qed auto
  then show ?thesis by (simp add: stable_hash_def)
qed

theorem stable_hash_member_order_witness:
  "stable_hash (\<lambda>s. s) (JObj [(''b'', JInt 1), (''a'', JArr [JNull, JBool True])]) =
   stable_hash (\<lambda>s. s) (JObj [(''a'', JArr [JNull, JBool True]), (''b'', JInt 1)])"
proof -
  have "same_json (JObj [(''b'', JInt 1), (''a'', JArr [JNull, JBool True])])
                  (JObj [(''a'', JArr [JNull, JBool True]), (''b'', JInt 1)])"
    by (rule same_order) simp_all
  from stable_hash_ignores_member_order [OF this] show ?thesis by blast
qed

end
