(* ===== verification/Evidence_Rows.thy ===== *)
theory Evidence_Rows
  imports Canonical_Json "HOL-Library.Product_Lexorder"
begin

text \<open>
  The evidence tables of \<^verbatim>\<open>app/models/evaluation.py\<close> and \<^verbatim>\<open>app/models/catalog.py\<close> that the
  deployment gate and the Agent control plane read: evaluation cases, benchmark runs, benchmark results, inference metrics,
  deployment configurations, suites and policies, with the columns they use. A nullable JSON
  column is a \<open>json\<close> value, \<open>JNull\<close> when it is NULL. Also the small Python operations on
  sets, counters and identifiers that the gate, the trust summary and the readiness report share.
\<close>

section \<open>Rows\<close>

datatype criticality = Critical | Standard | Exploratory

record eval_case =
  ec_id :: uuid
  ec_suite_id :: uuid
  ec_external_id :: string
  ec_category :: string
  ec_title :: string
  ec_input_payload :: json
  ec_expected_output :: json
  ec_reference_context :: json
  ec_expected_tool_schema :: json
  ec_criticality :: criticality
  ec_is_active :: bool
  ec_data_source :: string

record bench_run =
  rn_id :: uuid
  rn_config_id :: "uuid option"
  rn_suite_id :: "uuid option"
  rn_prompt_id :: uuid
  rn_status :: string
  rn_runtime_name :: string
  rn_runtime_version :: "string option"
  rn_dataset_version :: string
  rn_runtime_config :: json
  rn_data_source :: string
  rn_parent_id :: "uuid option"
  rn_root_id :: "uuid option"
  rn_revision :: int
  rn_revision_reason :: "string option"
  rn_revision_hash :: "string option"

record bench_result =
  br_id :: uuid
  br_run_id :: uuid
  br_case_id :: "uuid option"
  br_parent_id :: "uuid option"
  br_root_id :: "uuid option"
  br_revision :: int
  br_revision_hash :: "string option"
  br_sample_id :: string
  br_quality :: "rat option"
  br_exact_match :: "bool option"
  br_json_valid :: bool
  br_tool_call_valid :: bool
  br_groundedness :: "rat option"
  br_faithfulness :: "rat option"
  br_human_label :: "string option"
  br_error_type :: "string option"
  br_normalized_output :: "string option"
  br_metadata :: json
  br_data_source :: string
  br_created_at :: instant
  br_raw_output :: "string option"

record inf_metric =
  im_run_id :: uuid
  im_sample_id :: string
  im_ttft_ms :: rat
  im_latency_ms :: rat
  im_tokens_per_second :: rat
  im_vram_mb :: "rat option"
  im_oom :: bool
  im_data_source :: string
  im_prompt_tokens :: int
  im_completion_tokens :: int
  im_gpu_util :: "rat option"
  im_cpu_util :: "rat option"
  im_peak_memory_mb :: "rat option"
  im_retry_count :: int

record dep_config =
  dc_id :: uuid
  dc_workload_id :: uuid
  dc_runtime_config :: json
  dc_configuration_hash :: string
  dc_prompt_bundle :: json

record eval_suite =
  es_id :: uuid
  es_workload_id :: uuid
  es_suite_hash :: string

record evidence_db =
  e_configs :: "dep_config list"
  e_suites :: "eval_suite list"
  e_cases :: "eval_case list"
  e_runs :: "bench_run list"
  e_results :: "bench_result list"
  e_metrics :: "inf_metric list"

text \<open>A nullable text column used as a condition: NULL and the empty string are false.\<close>

definition text_set :: "string option \<Rightarrow> bool" where
  "text_set t \<longleftrightarrow> t \<noteq> None \<and> t \<noteq> Some []"

definition text_or_empty :: "string option \<Rightarrow> string" where
  "text_or_empty t = (case t of None \<Rightarrow> [] | Some s \<Rightarrow> s)"

text \<open>\<^verbatim>\<open>sorted(set(xs))\<close>, and a \<^verbatim>\<open>Counter\<close> read as a dict in insertion order.\<close>

definition sorted_set :: "string list \<Rightarrow> string list" where
  "sorted_set xs = sort (fromkeys xs)"

definition counter :: "string list \<Rightarrow> (string \<times> nat) list" where
  "counter xs = map (\<lambda>k. (k, count_list xs k)) (fromkeys xs)"

lemma set_sorted_set [simp]: "set (sorted_set xs) = set xs"
  by (simp add: sorted_set_def)

lemma sum_count_list_filter:
  "x \<notin> set ks \<Longrightarrow> (\<Sum>k\<leftarrow>ks. count_list (x # xs) k) = (\<Sum>k\<leftarrow>ks. count_list xs k)"
  by (induction ks) auto

lemma counter_total: "sum_list (map snd (counter xs)) = length xs"
proof -
  have "(\<Sum>k\<leftarrow>ks. count_list xs k) = length xs" if "distinct ks" and "set xs \<subseteq> set ks" for ks
    using that
  proof (induction xs)
    case Nil
    then show ?case by simp
  next
    case (Cons x xs)
    then obtain as bs where "ks = as @ x # bs" using split_list by fastforce
    with Cons show ?case by (simp add: sum_count_list_filter del: count_list.simps) simp
  qed
  from this [of "fromkeys xs"] show ?thesis by (simp add: counter_def comp_def)
qed

section \<open>Identifiers in JSON\<close>

text \<open>
  \<^verbatim>\<open>UUID(str(value))\<close>: an optional \<^verbatim>\<open>urn:\<close> or \<^verbatim>\<open>uuid:\<close> prefix, braces and hyphens are dropped, 32
  hexadecimal digits remain, and the value prints in the 8-4-4-4-12 form.
\<close>

function remove_sub :: "string \<Rightarrow> string \<Rightarrow> string" where
  "remove_sub w [] = []"
| "remove_sub w (c # s) =
     (if w \<noteq> [] \<and> prefix w (c # s) then remove_sub w (drop (length w) (c # s)) else c # remove_sub w s)"
  by pat_completeness auto
termination
  by (relation "measure (\<lambda>(w, s). length s)") (auto simp: Suc_le_eq)

definition is_hex :: "char \<Rightarrow> bool" where
  "is_hex c \<longleftrightarrow> is_digit c \<or> (let n = (of_char (lower_char c) :: nat) in 97 \<le> n \<and> n \<le> 102)"

definition strip_chars :: "char list \<Rightarrow> string \<Rightarrow> string" where
  "strip_chars cs s = rev (dropWhile (\<lambda>c. c \<in> set cs) (rev (dropWhile (\<lambda>c. c \<in> set cs) s)))"

definition parse_uuid :: "string \<Rightarrow> uuid option" where
  "parse_uuid s =
     (let h = lower (filter (\<lambda>c. c \<noteq> CHR ''-'')
                (strip_chars [CHR 0x7B, CHR 0x7D] (remove_sub ''uuid:'' (remove_sub ''urn:'' s))))
      in if length h = 32 \<and> list_all is_hex h
         then Some (take 8 h @ ''-'' @ take 4 (drop 8 h) @ ''-'' @ take 4 (drop 12 h) @ ''-''
                    @ take 4 (drop 16 h) @ ''-'' @ drop 20 h)
         else None)"

text \<open>\<^verbatim>\<open>_uuid_values\<close>: the entries of a JSON list that are identifiers; anything else gives the empty list.\<close>

fun uuid_values :: "json \<Rightarrow> uuid list" where
  "uuid_values (JArr xs) = List.map_filter (\<lambda>v. parse_uuid (py_str v)) xs"
| "uuid_values _ = []"

lemma uuid_values_of_ids:
  "\<forall>i \<in> set ids. parse_uuid i = Some i \<Longrightarrow> uuid_values (JArr (map JStr ids)) = ids"
  by (induction ids) (auto simp: List.map_filter_def)

end
