(* ===== verification/Runtime_Reliability.thy ===== *)
theory Runtime_Reliability
  imports Py_Stats Evidence_Rows
begin

text \<open>
  \<^verbatim>\<open>services/runtime_reliability.py\<close>: the trace attached to every benchmark trial, the summary of
  a list of traces, and the comparison of two benchmark runs. A trace is the JSON object the code
  stores in the result's metadata; conversions that raise in Python (\<^verbatim>\<open>int(value)\<close> of a value that is
  no number) make the summary \<open>None\<close>.
\<close>

definition RUNTIME_RELIABILITY_TRACE_VERSION :: string where
  "RUNTIME_RELIABILITY_TRACE_VERSION = ''runtime-reliability-trace-v1''"

section \<open>Traces\<close>

record adapter_result =
  ar_ttft_ms :: rat
  ar_latency_ms :: rat
  ar_tokens_per_second :: rat
  ar_prompt_tokens :: int
  ar_completion_tokens :: int
  ar_vram_mb :: "rat option"
  ar_peak_memory_mb :: "rat option"
  ar_oom :: bool
  ar_error_type :: "string option"
  ar_metadata :: json

datatype trial_status = Trial_Oom | Trial_Timeout | Trial_Error | Trial_Success

fun trial_status_value :: "trial_status \<Rightarrow> string" where
  "trial_status_value Trial_Oom = ''oom''"
| "trial_status_value Trial_Timeout = ''timeout''"
| "trial_status_value Trial_Error = ''error''"
| "trial_status_value Trial_Success = ''success''"

definition trial_status :: "adapter_result \<Rightarrow> int \<Rightarrow> trial_status" where
  "trial_status r case_timeout_ms =
     (let e = lower (text_or_empty (ar_error_type r)) in
      if ar_oom r \<or> contains ''out_of_memory'' e \<or> e = ''oom'' then Trial_Oom
      else if contains ''timeout'' e \<or> of_int case_timeout_ms < ar_latency_ms r then Trial_Timeout
      else if text_set (ar_error_type r) then Trial_Error
      else Trial_Success)"

definition reliability_profile :: "eval_case \<Rightarrow> json" where
  "reliability_profile c = as_dict (jget (as_dict (ec_input_payload c)) ''reliability'')"

definition number_default :: "json \<Rightarrow> rat \<Rightarrow> rat" where
  "number_default v fallback = (case number v of None \<Rightarrow> fallback | Some q \<Rightarrow> q)"

record trial_params =
  tp_trial_index :: int
  tp_total_trials :: int
  tp_concurrency :: int
  tp_case_timeout_ms :: int
  tp_context_window :: int
  tp_seed :: "int option"
  tp_run_id :: "string option"

definition trial_trace :: "eval_case \<Rightarrow> adapter_result \<Rightarrow> trial_params \<Rightarrow> json" where
  "trial_trace c r p =
     (let profile = reliability_profile c;
          context_tokens = number_default (jget profile ''context_tokens'') (of_int (ar_prompt_tokens r));
          ratio = (if 0 < tp_context_window p then context_tokens / of_int (tp_context_window p) else 0);
          status = trial_status r (tp_case_timeout_ms p);
          message = jget (ar_metadata r) ''reliability_error_message''
      in JObj
            [(''schema_version'', JStr RUNTIME_RELIABILITY_TRACE_VERSION),
             (''benchmark_run_id'', opt_json JStr (tp_run_id p)),
             (''external_case_id'', JStr (ec_external_id c)),
             (''trial_index'', JInt (tp_trial_index p)),
             (''total_trials'', JInt (tp_total_trials p)),
             (''concurrency'', JInt (tp_concurrency p)),
             (''case_timeout_ms'', JInt (tp_case_timeout_ms p)),
             (''status'', JStr (trial_status_value status)),
             (''successful'', JBool (status = Trial_Success)),
             (''within_timeout'', JBool (status \<noteq> Trial_Timeout)),
             (''ttft_ms'', JFloat (py_round 3 (ar_ttft_ms r))),
             (''end_to_end_latency_ms'', JFloat (py_round 3 (ar_latency_ms r))),
             (''tokens_per_second'', JFloat (py_round 3 (ar_tokens_per_second r))),
             (''prompt_tokens'', JInt (ar_prompt_tokens r)),
             (''completion_tokens'', JInt (ar_completion_tokens r)),
             (''gpu_vram_used_mb'', opt_json JFloat (ar_vram_mb r)),
             (''peak_memory_mb'', opt_json JFloat (ar_peak_memory_mb r)),
             (''oom_occurred'', JBool (ar_oom r)),
             (''error_type'', opt_json JStr (ar_error_type r)),
             (''error_message'', if truthy message then JStr (py_str message) else JNull),
             (''seed'', opt_json JInt (tp_seed p)),
             (''context_tokens'', JFloat (py_round 3 context_tokens)),
             (''context_window_tokens'', JInt (tp_context_window p)),
             (''context_utilization_ratio'', JFloat (py_round 4 ratio)),
             (''context_stress'',
               case map_of (dict_items profile) ''context_stress'' of
                 None \<Rightarrow> JBool (8 / 10 \<le> ratio) | Some v \<Rightarrow> JBool (truthy v))])"

definition attach_runtime_reliability :: "eval_case \<Rightarrow> adapter_result \<Rightarrow> trial_params \<Rightarrow> adapter_result" where
  "attach_runtime_reliability c r p =
     r\<lparr>ar_metadata := dict_merge (ar_metadata r) (JObj [(''runtime_reliability'', trial_trace c r p)])\<rparr>"

definition reliability_trace :: "json \<Rightarrow> json option" where
  "reliability_trace metadata =
     (let t = jget (as_dict metadata) ''runtime_reliability'' in if is_dict t then Some t else None)"

section \<open>Summaries\<close>

record reliability_summary =
  rs_case_count :: nat
  rs_trial_count :: int
  rs_expected_trials :: int
  rs_success_count :: int
  rs_timeout_count :: int
  rs_oom_count :: int
  rs_error_count :: int
  rs_success_rate :: "rat option"
  rs_timeout_rate :: "rat option"
  rs_oom_rate :: "rat option"
  rs_error_rate :: "rat option"
  rs_p50_latency :: "rat option"
  rs_p95_latency :: "rat option"
  rs_p99_latency :: "rat option"
  rs_p50_ttft :: "rat option"
  rs_p95_ttft :: "rat option"
  rs_mean_tokens_per_second :: "rat option"
  rs_latency_variation :: "rat option"
  rs_trial_coverage :: "rat option"
  rs_min_trials :: nat
  rs_max_trials :: nat
  rs_stress_count :: int
  rs_stress_success_rate :: "rat option"
  rs_trace_versions :: "string list"

definition empty_reliability_summary :: reliability_summary where
  "empty_reliability_summary =
     \<lparr>rs_case_count = 0, rs_trial_count = 0, rs_expected_trials = 0, rs_success_count = 0,
      rs_timeout_count = 0, rs_oom_count = 0, rs_error_count = 0, rs_success_rate = None,
      rs_timeout_rate = None, rs_oom_rate = None, rs_error_rate = None, rs_p50_latency = None,
      rs_p95_latency = None, rs_p99_latency = None, rs_p50_ttft = None, rs_p95_ttft = None,
      rs_mean_tokens_per_second = None, rs_latency_variation = None, rs_trial_coverage = None,
      rs_min_trials = 0, rs_max_trials = 0, rs_stress_count = 0, rs_stress_success_rate = None,
      rs_trace_versions = []\<rparr>"

definition rate4 :: "int \<Rightarrow> int \<Rightarrow> rat" where
  "rate4 num den = (if den \<noteq> 0 then py_round 4 (of_int num / of_int den) else 0)"

definition rounded_percentile :: "rat \<Rightarrow> rat list \<Rightarrow> rat option" where
  "rounded_percentile p xs = map_option (py_round 3) (percentile p xs)"

definition rounded_mean :: "rat list \<Rightarrow> rat option" where
  "rounded_mean xs = map_option (py_round 3) (mean xs)"

definition round_optional :: "nat \<Rightarrow> rat option \<Rightarrow> rat option" where
  "round_optional digits v = map_option (py_round digits) v"

definition trial_group_key :: "json \<Rightarrow> string" where
  "trial_group_key t =
     (let part = (\<lambda>k d. py_str (if truthy (jget t k) then jget t k else JStr d)) in
      join '':'' [part ''benchmark_run_id'' ''unscoped'', part ''external_case_id'' ''unknown''])"

definition numeric_values :: "json list \<Rightarrow> string \<Rightarrow> rat list" where
  "numeric_values ts k = List.map_filter (\<lambda>t. number (jget t k)) ts"

text \<open>\<^verbatim>\<open>t.get(key, default)\<close>: the default only replaces a missing key, not a null.\<close>

definition jget_or :: "json \<Rightarrow> string \<Rightarrow> json \<Rightarrow> json" where
  "jget_or t k d = (case map_of (dict_items t) k of None \<Rightarrow> d | Some v \<Rightarrow> v)"

definition status_text :: "json \<Rightarrow> string" where
  "status_text t = py_str (jget_or t ''status'' (JStr ''error''))"

definition valid_reliability_traces :: "json list \<Rightarrow> json list" where
  "valid_reliability_traces traces =
     filter (\<lambda>t. jget t ''schema_version'' = JStr RUNTIME_RELIABILITY_TRACE_VERSION) traces"

definition first_trace_per_group :: "json list \<Rightarrow> json list" where
  "first_trace_per_group ts =
     map (\<lambda>g. hd (filter (\<lambda>t. trial_group_key t = g) ts)) (fromkeys (map trial_group_key ts))"

definition expected_trials :: "json list \<Rightarrow> int option" where
  "expected_trials ts =
     map_option (\<lambda>ns. sum_list (map (\<lambda>n. max n 1) ns))
       (those (map (\<lambda>t. int_or (jget t ''total_trials'') 1) (first_trace_per_group ts)))"

definition group_latencies :: "json list \<Rightarrow> rat list list" where
  "group_latencies ts =
     map (\<lambda>g. numeric_values (filter (\<lambda>t. trial_group_key t = g) ts) ''end_to_end_latency_ms'')
       (fromkeys (map trial_group_key
         (filter (\<lambda>t. number (jget t ''end_to_end_latency_ms'') \<noteq> None) ts)))"

definition case_variations :: "(rat \<Rightarrow> rat) \<Rightarrow> json list \<Rightarrow> rat list" where
  "case_variations fsqrt ts =
     List.map_filter
       (\<lambda>ls. case mean ls of
               Some m \<Rightarrow> if 1 < length ls \<and> 0 < m then Some (pstdev fsqrt ls / m) else None
             | None \<Rightarrow> None)
       (group_latencies ts)"

definition observed_counts :: "json list \<Rightarrow> int list \<Rightarrow> nat list" where
  "observed_counts ts indices =
     map (\<lambda>g. length (fromkeys (map snd (filter (\<lambda>(t, i). trial_group_key t = g) (zip ts indices)))))
       (fromkeys (map trial_group_key ts))"

definition reliability_summary_of :: "(rat \<Rightarrow> rat) \<Rightarrow> json list \<Rightarrow> int list \<Rightarrow> int \<Rightarrow> reliability_summary" where
  "reliability_summary_of fsqrt ts indices expected =
     (let cnt = (\<lambda>s. count_where (\<lambda>t. status_text t = s) ts);
          trials = int (length ts);
          observed = observed_counts ts indices;
          latencies = numeric_values ts ''end_to_end_latency_ms'';
          ttfts = numeric_values ts ''ttft_ms'';
          throughputs = List.map_filter (\<lambda>t. number_or_bool (jget t ''tokens_per_second''))
            (filter (\<lambda>t. jget t ''status'' = JStr ''success'') ts);
          stress = filter (\<lambda>t. truthy (jget t ''context_stress'')) ts
      in \<lparr>rs_case_count =
           length (fromkeys (map (\<lambda>t. py_str (jget_or t ''external_case_id'' (JStr ''unknown''))) ts)),
         rs_trial_count = trials,
         rs_expected_trials = expected,
         rs_success_count = cnt ''success'',
         rs_timeout_count = cnt ''timeout'',
         rs_oom_count = cnt ''oom'',
         rs_error_count = cnt ''error'',
         rs_success_rate = Some (rate4 (cnt ''success'') trials),
         rs_timeout_rate = Some (rate4 (cnt ''timeout'') trials),
         rs_oom_rate = Some (rate4 (cnt ''oom'') trials),
         rs_error_rate = Some (rate4 (cnt ''error'') trials),
         rs_p50_latency = rounded_percentile (1 / 2) latencies,
         rs_p95_latency = rounded_percentile (95 / 100) latencies,
         rs_p99_latency = rounded_percentile (99 / 100) latencies,
         rs_p50_ttft = rounded_percentile (1 / 2) ttfts,
         rs_p95_ttft = rounded_percentile (95 / 100) ttfts,
         rs_mean_tokens_per_second = rounded_mean throughputs,
         rs_latency_variation = round_optional 4 (mean (case_variations fsqrt ts)),
         rs_trial_coverage = Some (rate4 trials expected),
         rs_min_trials = foldr min (tl observed) (hd observed),
         rs_max_trials = foldr max (tl observed) (hd observed),
         rs_stress_count = int (length stress),
         rs_stress_success_rate =
           (if stress = [] then None
            else Some (rate4 (count_where (\<lambda>t. jget t ''status'' = JStr ''success'') stress)
                         (int (length stress)))),
         rs_trace_versions = [RUNTIME_RELIABILITY_TRACE_VERSION]\<rparr>)"

definition summarize_reliability_traces ::
  "(rat \<Rightarrow> rat) \<Rightarrow> json list \<Rightarrow> reliability_summary option" where
  "summarize_reliability_traces fsqrt traces =
     (let ts = valid_reliability_traces traces in
      if ts = [] then Some empty_reliability_summary
      else
        case (ints_of ''trial_index'' ts, expected_trials ts) of
          (Some indices, Some expected) \<Rightarrow> Some (reliability_summary_of fsqrt ts indices expected)
        | _ \<Rightarrow> None)"

section \<open>Comparison of two runs\<close>

datatype comparison_winner = Insufficient_Evidence | Left_Wins string | Right_Wins string | Tie

definition ranking :: "(bool \<times> (reliability_summary \<Rightarrow> rat option) \<times> string) list" where
  "ranking =
     [(True, rs_success_rate, ''higher trial success rate''),
      (False, rs_timeout_rate, ''lower timeout rate''),
      (False, rs_oom_rate, ''lower OOM rate''),
      (False, rs_p99_latency, ''lower P99 latency''),
      (False, rs_latency_variation, ''more stable repeated-trial latency''),
      (True, rs_mean_tokens_per_second, ''higher mean throughput'')]"

fun rank_step ::
  "(bool \<times> (reliability_summary \<Rightarrow> rat option) \<times> string) list \<Rightarrow> reliability_summary \<Rightarrow>
   reliability_summary \<Rightarrow> comparison_winner" where
  "rank_step [] l r = Tie"
| "rank_step ((higher, key, reason) # ks) l r =
     (case (key l, key r) of
        (Some a, Some b) \<Rightarrow>
          if isclose a b then rank_step ks l r
          else if (if higher then a > b else a < b) then Left_Wins reason
          else Right_Wins reason
      | _ \<Rightarrow> rank_step ks l r)"

definition select_comparison_winner :: "reliability_summary \<Rightarrow> reliability_summary \<Rightarrow> comparison_winner" where
  "select_comparison_winner l r =
     (if rs_trial_count l = 0 \<or> rs_trial_count r = 0 then Insufficient_Evidence
      else rank_step ranking l r)"

definition delta :: "rat option \<Rightarrow> rat option \<Rightarrow> rat option" where
  "delta right left =
     (case (right, left) of (Some a, Some b) \<Rightarrow> Some (py_round 4 (a - b)) | _ \<Rightarrow> None)"

record run_reliability =
  rr_run_id :: uuid
  rr_config_id :: "uuid option"
  rr_suite_id :: "uuid option"
  rr_runtime_name :: string
  rr_runtime_version :: "string option"
  rr_dataset_version :: string
  rr_summary :: reliability_summary

datatype comparison_error = Run_Not_Found | Different_Suites | Malformed_Trace

definition run_reliability_summary ::
  "(rat \<Rightarrow> rat) \<Rightarrow> evidence_db \<Rightarrow> uuid \<Rightarrow> comparison_error + run_reliability" where
  "run_reliability_summary fsqrt db i =
     (case row_find rn_id i (e_runs db) of
        None \<Rightarrow> Inl Run_Not_Found
      | Some run \<Rightarrow>
          (case summarize_reliability_traces fsqrt
                  (List.map_filter (\<lambda>r. reliability_trace (br_metadata r))
                    (filter (\<lambda>r. br_run_id r = rn_id run) (e_results db))) of
             None \<Rightarrow> Inl Malformed_Trace
           | Some s \<Rightarrow> Inr \<lparr>rr_run_id = rn_id run, rr_config_id = rn_config_id run,
                           rr_suite_id = rn_suite_id run, rr_runtime_name = rn_runtime_name run,
                           rr_runtime_version = rn_runtime_version run,
                           rr_dataset_version = rn_dataset_version run, rr_summary = s\<rparr>))"

record run_comparison =
  cp_left :: run_reliability
  cp_right :: run_reliability
  cp_deltas :: "(string \<times> rat option) list"
  cp_winner :: comparison_winner
  cp_recommended :: "uuid option"

definition compare_runtime_reliability_runs ::
  "(rat \<Rightarrow> rat) \<Rightarrow> evidence_db \<Rightarrow> uuid \<Rightarrow> uuid \<Rightarrow> comparison_error + run_comparison" where
  "compare_runtime_reliability_runs fsqrt db left_id right_id =
     bind_res (run_reliability_summary fsqrt db left_id) (\<lambda>left.
     bind_res (run_reliability_summary fsqrt db right_id) (\<lambda>right.
       if rr_suite_id left \<noteq> rr_suite_id right then Inl Different_Suites
       else
         let l = rr_summary left; r = rr_summary right; w = select_comparison_winner l r
         in Inr \<lparr>cp_left = left, cp_right = right,
                 cp_deltas =
                   [(''success_rate'', delta (rs_success_rate r) (rs_success_rate l)),
                    (''timeout_rate'', delta (rs_timeout_rate r) (rs_timeout_rate l)),
                    (''oom_rate'', delta (rs_oom_rate r) (rs_oom_rate l)),
                    (''p99_end_to_end_latency_ms'', delta (rs_p99_latency r) (rs_p99_latency l)),
                    (''latency_variation_coefficient'',
                      delta (rs_latency_variation r) (rs_latency_variation l)),
                    (''mean_tokens_per_second'',
                      delta (rs_mean_tokens_per_second r) (rs_mean_tokens_per_second l))],
                 cp_winner = w,
                 cp_recommended =
                   (case w of Left_Wins _ \<Rightarrow> Some (rr_run_id left)
                    | Right_Wins _ \<Rightarrow> Some (rr_run_id right) | _ \<Rightarrow> None)\<rparr>))"

end
