(* ===== verification/Runtime_Reliability_Correct.thy ===== *)
theory Runtime_Reliability_Correct
  imports Runtime_Reliability
begin

text \<open>
  Properties of the runtime reliability summary and of the comparison of two runs. The rounded
  percentile of this module is a second instance of the \<open>percentile_family\<close> contract.
\<close>

interpretation rounded_percentiles: percentile_family rounded_percentile "py_round 3"
proof
  show "rounded_percentile p xs = None \<longleftrightarrow> xs = []" for p xs
    by (simp add: rounded_percentile_def plain_percentile.stat_None)
  show "\<exists>x \<in> set xs. v = py_round 3 x" if "rounded_percentile p xs = Some v" for p xs v
    using that percentile_member by (auto simp: rounded_percentile_def)
  show "v \<le> w" if "p \<le> q" "rounded_percentile p xs = Some v" "rounded_percentile q xs = Some w" for p q xs v w
    using that percentile_mono [of p q xs] by (auto simp: rounded_percentile_def py_round_mono)
  show "py_round 3 x \<le> py_round 3 y" if "x \<le> y" for x y
    using that by (rule py_round_mono)
qed

lemma rate4_unit: "0 \<le> a \<Longrightarrow> a \<le> b \<Longrightarrow> rate4 a b \<in> {0..1}"
  by (auto simp: rate4_def py_round_unit divide_le_eq)

lemma rate4_count [simp]:
  "0 \<le> rate4 (count_where P ts) (int (length ts))" "rate4 (count_where P ts) (int (length ts)) \<le> 1"
  using count_where_bounds [of P ts] rate4_unit [of "count_where P ts" "int (length ts)"] by auto

lemma foldr_min_le: "x \<in> set (y # ys) \<Longrightarrow> foldr min ys y \<le> (x :: nat)"
  by (induction ys) (auto simp: min_def)

lemma foldr_max_ge: "x \<in> set (y # ys) \<Longrightarrow> (x :: nat) \<le> foldr max ys y"
  by (induction ys) (auto simp: max_def)

lemma min_le_max: "xs \<noteq> [] \<Longrightarrow> foldr min (tl xs) (hd xs) \<le> foldr max (tl xs) (hd xs :: nat)"
  by (cases xs) (auto intro: order_trans [OF foldr_min_le foldr_max_ge])

lemma status_counts_le:
  "count_where (\<lambda>t. f t = ''success'') ts + count_where (\<lambda>t. f t = ''timeout'') ts
     + count_where (\<lambda>t. f t = ''oom'') ts + count_where (\<lambda>t. f t = ''error'') ts \<le> int (length ts)"
  by (induction ts) (auto simp: count_where_def)

lemma status_counts_eq:
  "(\<And>t. t \<in> set ts \<Longrightarrow> f t \<in> {''success'', ''timeout'', ''oom'', ''error''}) \<Longrightarrow>
   count_where (\<lambda>t. f t = ''success'') ts + count_where (\<lambda>t. f t = ''timeout'') ts
     + count_where (\<lambda>t. f t = ''oom'') ts + count_where (\<lambda>t. f t = ''error'') ts = int (length ts)"
  by (induction ts) (auto simp: count_where_def)

lemma summary_cases:
  assumes "summarize_reliability_traces fsqrt traces = Some s" and "0 < rs_trial_count s"
  obtains indices expected where "valid_reliability_traces traces \<noteq> []"
    and "s = reliability_summary_of fsqrt (valid_reliability_traces traces) indices expected"
  using assms
  by (auto simp: summarize_reliability_traces_def Let_def empty_reliability_summary_def
      split: if_split_asm option.splits)

text \<open>
  The reliability summary is consistent: success, timeout, out-of-memory and error rates and
  the context stress rate are proportions, the four status counts do not exceed the trials, the
  reported latency percentiles are present together and ordered, the least number of trials per case does not
  exceed the greatest.
\<close>

theorem reliability_summary_consistent:
  assumes "summarize_reliability_traces fsqrt traces = Some s" and "0 < rs_trial_count s"
  shows "rs_success_count s + rs_timeout_count s + rs_oom_count s + rs_error_count s \<le> rs_trial_count s
    \<and> (\<forall>rate \<in> {rs_success_rate s, rs_timeout_rate s, rs_oom_rate s, rs_error_rate s}.
          \<exists>q \<in> {0..1}. rate = Some q)
    \<and> pred_option (\<lambda>q. q \<in> {0..1}) (rs_stress_success_rate s)
    \<and> (rs_p50_latency s = None \<and> rs_p95_latency s = None \<and> rs_p99_latency s = None
       \<or> (\<exists>a b c. rs_p50_latency s = Some a \<and> rs_p95_latency s = Some b \<and> rs_p99_latency s = Some c
            \<and> a \<le> b \<and> b \<le> c))
    \<and> rs_min_trials s \<le> rs_max_trials s"
proof -
  let ?ts = "valid_reliability_traces traces"
  obtain indices expected where ts: "?ts \<noteq> []" and s: "s = reliability_summary_of fsqrt ?ts indices expected"
    using assms by (rule summary_cases)
  note [simp] = reliability_summary_of_def Let_def
  have "rs_p50_latency s = None \<and> rs_p95_latency s = None \<and> rs_p99_latency s = None
       \<or> (\<exists>a b c. rs_p50_latency s = Some a \<and> rs_p95_latency s = Some b \<and> rs_p99_latency s = Some c
            \<and> a \<le> b \<and> b \<le> c)"
  proof (cases "numeric_values ?ts ''end_to_end_latency_ms'' = []")
    case True
    then show ?thesis by (simp add: s rounded_percentiles.stat_None)
  next
    case False
    have "(1 / 2 :: rat) \<le> 95 / 100" "(95 / 100 :: rat) \<le> 99 / 100" by simp_all
    from rounded_percentiles.stat_chain [OF this False] obtain u v w where
      "rounded_percentile (1 / 2) (numeric_values ?ts ''end_to_end_latency_ms'') = Some u"
      "rounded_percentile (95 / 100) (numeric_values ?ts ''end_to_end_latency_ms'') = Some v"
      "rounded_percentile (99 / 100) (numeric_values ?ts ''end_to_end_latency_ms'') = Some w" "u \<le> v" "v \<le> w" .
    then show ?thesis by (simp add: s)
  qed
  moreover have "observed_counts ?ts indices \<noteq> []" using ts by (simp add: observed_counts_def)
  then have "rs_min_trials s \<le> rs_max_trials s" by (simp add: s min_le_max)
  moreover have "rs_success_count s + rs_timeout_count s + rs_oom_count s + rs_error_count s \<le> rs_trial_count s"
    using status_counts_le [of status_text ?ts] by (simp add: s)
  moreover have "\<forall>rate \<in> {rs_success_rate s, rs_timeout_rate s, rs_oom_rate s, rs_error_rate s}.
          \<exists>q \<in> {0..1}. rate = Some q"
    by (simp add: s)
  moreover have "pred_option (\<lambda>q. q \<in> {0..1}) (rs_stress_success_rate s)"
    by (simp add: s)
  ultimately show ?thesis by blast
qed

definition demo_case :: eval_case where
  "demo_case =
     \<lparr>ec_id = ''c1'', ec_suite_id = ''suite'', ec_external_id = ''case-1'', ec_category = ''general'',
      ec_title = ''Case'', ec_input_payload = JObj [], ec_expected_output = JNull,
      ec_reference_context = JNull, ec_expected_tool_schema = JNull, ec_criticality = Critical,
      ec_is_active = True, ec_data_source = ''local_authored''\<rparr>"

definition demo_trial :: "rat \<Rightarrow> adapter_result" where
  "demo_trial ms =
     \<lparr>ar_ttft_ms = 10, ar_latency_ms = ms, ar_tokens_per_second = 5, ar_prompt_tokens = 7,
      ar_completion_tokens = 9, ar_vram_mb = None, ar_peak_memory_mb = None, ar_oom = False,
      ar_error_type = None, ar_metadata = JObj []\<rparr>"

definition demo_params :: "int \<Rightarrow> trial_params" where
  "demo_params i =
     \<lparr>tp_trial_index = i, tp_total_trials = 2, tp_concurrency = 1, tp_case_timeout_ms = 100,
      tp_context_window = 4096, tp_seed = None, tp_run_id = Some ''run''\<rparr>"

definition demo_traces :: "json list" where
  "demo_traces = [trial_trace demo_case (demo_trial 50) (demo_params 0),
                  trial_trace demo_case (demo_trial 500) (demo_params 1)]"

theorem reliability_summary_witness:
  "\<exists>s. summarize_reliability_traces (\<lambda>x. x) demo_traces = Some s \<and> rs_timeout_count s = 1 \<and>
     rs_success_count s + rs_timeout_count s + rs_oom_count s + rs_error_count s \<le> 2"
proof -
  have "map_option rs_trial_count (summarize_reliability_traces (\<lambda>x. x) demo_traces) = Some 2"
      "map_option rs_timeout_count (summarize_reliability_traces (\<lambda>x. x) demo_traces) = Some 1"
    by code_simp+
  then obtain s where s: "summarize_reliability_traces (\<lambda>x. x) demo_traces = Some s"
    "rs_trial_count s = 2" "rs_timeout_count s = 1" by auto
  with reliability_summary_consistent [OF s(1)] show ?thesis by auto
qed

lemma jget_dict_merge: "jget (dict_merge a (JObj [(k, v)])) k = v"
proof -
  have "map_of (map (\<lambda>(k', w). (k', case map_of [(k, v)] k' of None \<Rightarrow> w | Some u \<Rightarrow> u)) xs) k =
      (case map_of xs k of None \<Rightarrow> None | Some _ \<Rightarrow> Some v)" for xs
    by (induction xs) auto
  then show ?thesis
    by (cases "map_of (dict_items a) k")
       (auto simp: dict_merge_def jget_def map_add_def map_of_eq_None_iff split: option.splits)
qed

lemma attached_trace: "reliability_trace (ar_metadata (attach_runtime_reliability c r p)) = Some (trial_trace c r p)"
proof -
  have "is_dict (trial_trace c r p)" by (simp add: trial_trace_def Let_def)
  moreover have "is_dict (dict_merge a b)" for a b by (simp add: dict_merge_def)
  ultimately show ?thesis
    by (simp add: reliability_trace_def attach_runtime_reliability_def jget_as_dict jget_dict_merge)
qed

lemma trial_trace_fields:
  "jget (trial_trace c r p) ''schema_version'' = JStr RUNTIME_RELIABILITY_TRACE_VERSION"
  "jget (trial_trace c r p) ''trial_index'' = JInt (tp_trial_index p)"
  "jget (trial_trace c r p) ''total_trials'' = JInt (tp_total_trials p)"
  "status_text (trial_trace c r p) = trial_status_value (trial_status r (tp_case_timeout_ms p))"
  by (simp_all add: trial_trace_def Let_def jget_def status_text_def jget_or_def)

lemma those_Some: "(\<And>x. x \<in> set xs \<Longrightarrow> f x \<noteq> None) \<Longrightarrow> \<exists>ys. those (map f xs) = Some ys"
proof (induction xs)
  case (Cons x xs)
  then obtain ys y where "those (map f xs) = Some ys" "f x = Some y" by fastforce
  then show ?case by simp
qed simp

lemma int_or_JInt: "\<exists>y. int_or (JInt k) d = Some y"
  by (simp add: int_or_def)

lemma first_trace_subset: "set (first_trace_per_group ts) \<subseteq> set ts"
proof -
  have "hd (filter (\<lambda>t. trial_group_key t = g) ts) \<in> set ts" if "g \<in> trial_group_key ` set ts" for g
    using that hd_in_set [of "filter (\<lambda>t. trial_group_key t = g) ts"] by (auto simp: filter_empty_conv)
  then show ?thesis by (auto simp: first_trace_per_group_def)
qed

lemma status_value_inj [simp]: "trial_status_value a = trial_status_value b \<longleftrightarrow> a = b"
  by (cases a; cases b) simp_all

lemma count_where_map: "count_where P (map f xs) = count_where (\<lambda>x. P (f x)) xs"
  by (induction xs) (simp_all add: count_where_def)

definition attached_traces :: "(eval_case \<times> adapter_result \<times> trial_params) list \<Rightarrow> json list" where
  "attached_traces trials =
     List.map_filter (\<lambda>(c, r, p). reliability_trace (ar_metadata (attach_runtime_reliability c r p))) trials"

lemma attached_traces_eq: "attached_traces trials = map (\<lambda>(c, r, p). trial_trace c r p) trials"
  by (induction trials) (auto simp: attached_traces_def List.map_filter_def attached_trace)

lemma attached_summary:
  assumes "trials \<noteq> []"
  shows "\<exists>indices expected. summarize_reliability_traces fsqrt (attached_traces trials) =
     Some (reliability_summary_of fsqrt (attached_traces trials) indices expected)"
proof -
  let ?ts = "attached_traces trials"
  have fields: "jget t ''schema_version'' = JStr RUNTIME_RELIABILITY_TRACE_VERSION"
    "int_or (jget t ''trial_index'') 0 \<noteq> None" "int_or (jget t ''total_trials'') 1 \<noteq> None"
    if "t \<in> set ?ts" for t
    using that by (auto simp: attached_traces_eq trial_trace_fields int_or_JInt)
  have valid: "valid_reliability_traces ?ts = ?ts"
    using fields(1) by (simp add: valid_reliability_traces_def)
  obtain indices where "ints_of ''trial_index'' ?ts = Some indices"
    using those_Some [of ?ts "\<lambda>t. int_or (jget t ''trial_index'') 0"] fields(2) unfolding ints_of_def by blast
  moreover obtain ns where "those (map (\<lambda>t. int_or (jget t ''total_trials'') 1) (first_trace_per_group ?ts)) = Some ns"
    using those_Some [of "first_trace_per_group ?ts" "\<lambda>t. int_or (jget t ''total_trials'') 1"] fields(3)
      first_trace_subset [of ?ts] by blast
  moreover have "?ts \<noteq> []" using assms by (simp add: attached_traces_eq)
  ultimately show ?thesis
    by (intro exI [of _ indices] exI [of _ "\<Sum>n\<leftarrow>ns. max n 1"])
       (simp add: summarize_reliability_traces_def Let_def valid expected_trials_def)
qed

lemma attached_status_count:
  "count_where (\<lambda>t. status_text t = trial_status_value st) (attached_traces trials)
     = count_where (\<lambda>(c, r, p). trial_status r (tp_case_timeout_ms p) = st) trials"
  by (simp add: attached_traces_eq count_where_map case_prod_unfold trial_trace_fields)

text \<open>
  Every trial is counted under the status it ended with: summarising the traces attached to any
  list of trials never fails, counts every trial once, and counts as many trials under each status as
  ended with it; timeouts include every trial slower than the case timeout.
\<close>

theorem attached_trials_are_counted:
  assumes "trials \<noteq> []"
  shows "\<exists>s. summarize_reliability_traces fsqrt (attached_traces trials) = Some s
    \<and> rs_trial_count s = int (length trials)
    \<and> rs_success_count s = count_where (\<lambda>(c, r, p). trial_status r (tp_case_timeout_ms p) = Trial_Success) trials
    \<and> rs_timeout_count s = count_where (\<lambda>(c, r, p). trial_status r (tp_case_timeout_ms p) = Trial_Timeout) trials
    \<and> rs_oom_count s = count_where (\<lambda>(c, r, p). trial_status r (tp_case_timeout_ms p) = Trial_Oom) trials
    \<and> rs_success_count s + rs_timeout_count s + rs_oom_count s + rs_error_count s = rs_trial_count s"
proof -
  obtain indices expected where *: "summarize_reliability_traces fsqrt (attached_traces trials) =
     Some (reliability_summary_of fsqrt (attached_traces trials) indices expected)"
    using attached_summary [OF assms] by blast
  let ?s = "reliability_summary_of fsqrt (attached_traces trials) indices expected"
  have len: "length (attached_traces trials) = length trials" by (simp add: attached_traces_eq)
  have "status_text t \<in> {''success'', ''timeout'', ''oom'', ''error''}" if "t \<in> set (attached_traces trials)" for t
  proof -
    from that obtain c r p where "t = trial_trace c r p"
      by (auto simp: attached_traces_eq)
    then show ?thesis
      by (cases "trial_status r (tp_case_timeout_ms p)") (simp_all add: trial_trace_fields)
  qed
  note sum = status_counts_eq [of "attached_traces trials" status_text, OF this]
  show ?thesis
    using * sum len attached_status_count [of Trial_Success trials] attached_status_count [of Trial_Timeout trials]
      attached_status_count [of Trial_Oom trials]
    by (simp add: reliability_summary_of_def Let_def)
qed

theorem attached_trials_witness:
  "\<exists>s. summarize_reliability_traces (\<lambda>x. x)
         (attached_traces [(demo_case, demo_trial 50, demo_params 0), (demo_case, demo_trial 500, demo_params 1)]) = Some s
     \<and> rs_trial_count s = 2"
  using attached_trials_are_counted
    [of "[(demo_case, demo_trial 50, demo_params 0), (demo_case, demo_trial 500, demo_params 1)]" "\<lambda>x. x"]
  by auto

section \<open>Comparison\<close>

fun swap_winner :: "comparison_winner \<Rightarrow> comparison_winner" where
  "swap_winner (Left_Wins reason) = Right_Wins reason"
| "swap_winner (Right_Wins reason) = Left_Wins reason"
| "swap_winner w = w"

lemma rank_step_swap: "rank_step ks r l = swap_winner (rank_step ks l r)"
proof (induction ks l r rule: rank_step.induct)
  case (2 higher key reason ks l r)
  show ?case
  proof (cases "\<exists>a b. key l = Some a \<and> key r = Some b")
    case True
    then obtain a b where ab: "key l = Some a" "key r = Some b" by blast
    show ?thesis
    proof (cases "isclose a b")
      case True
      with 2 ab show ?thesis by (simp add: isclose_sym [of b a])
    next
      case False
      then have "a \<noteq> b" by (auto simp: isclose_def)
      with False ab show ?thesis by (auto simp: isclose_sym [of b a])
    qed
  next
    case False
    with 2 show ?thesis by (cases "key l"; cases "key r") simp_all
  qed
qed simp

lemma select_winner_swap: "select_comparison_winner r l = swap_winner (select_comparison_winner l r)"
  by (auto simp: select_comparison_winner_def rank_step_swap [of _ r l])

text \<open>
  The comparison of two runs does not depend on which one is called left: swapping the
  arguments swaps the winner, for the same reason, and recommends the same run; a comparison fails
  in one order exactly when it fails in the other.
\<close>

theorem comparison_is_symmetric:
  "(case (compare_runtime_reliability_runs fsqrt db a b, compare_runtime_reliability_runs fsqrt db b a) of
      (Inr c, Inr d) \<Rightarrow> cp_winner d = swap_winner (cp_winner c) \<and> cp_recommended d = cp_recommended c
                     \<and> cp_left d = cp_right c \<and> cp_right d = cp_left c
    | (Inl _, Inl _) \<Rightarrow> True
    | _ \<Rightarrow> False)"
proof (cases "run_reliability_summary fsqrt db a"; cases "run_reliability_summary fsqrt db b")
  fix x y
  assume x: "run_reliability_summary fsqrt db a = Inr x" and y: "run_reliability_summary fsqrt db b = Inr y"
  show ?thesis
    by (cases "select_comparison_winner (rr_summary x) (rr_summary y)")
       (simp_all add: compare_runtime_reliability_runs_def x y Let_def
          select_winner_swap [of "rr_summary y" "rr_summary x"])
qed (simp_all add: compare_runtime_reliability_runs_def)

end
