(* ===== verification/Evidence_Trust.thy ===== *)
theory Evidence_Trust
  imports Evidence_Rows
begin

text \<open>
  \<^verbatim>\<open>services/evidence_trust.py\<close>: where a benchmark result comes from (its source tier), who scored it
  (its score tier), and the summary of a list of results that decides the trust status of a gate's
  evidence. The correctness lemmas follow the definitions.
\<close>

section \<open>Tiers\<close>

datatype source_tier =
    Synthetic_Demo
  | Local_Authored
  | Production_Captured
  | Production_Captured_Unverified
  | External_Benchmark
  | Unknown_Source

fun source_value :: "source_tier \<Rightarrow> string" where
  "source_value Synthetic_Demo = ''synthetic_demo''"
| "source_value Local_Authored = ''local_authored''"
| "source_value Production_Captured = ''production_captured''"
| "source_value Production_Captured_Unverified = ''production_captured_unverified''"
| "source_value External_Benchmark = ''external_benchmark''"
| "source_value Unknown_Source = ''unknown''"

datatype score_tier =
    Heuristic
  | Candidate_Judge_Label
  | Applied_Judge_Label
  | Human_Reviewed
  | Unknown_Score

fun score_value :: "score_tier \<Rightarrow> string" where
  "score_value Heuristic = ''heuristic''"
| "score_value Candidate_Judge_Label = ''candidate_judge_label''"
| "score_value Applied_Judge_Label = ''applied_judge_label''"
| "score_value Human_Reviewed = ''human_reviewed''"
| "score_value Unknown_Score = ''unknown''"

record trust_thresholds =
  min_applied_rate_local :: rat
  min_critical_reviewed_local :: nat
  min_production_results :: nat
  min_applied_rate_production :: rat
  min_critical_rate_production :: rat

datatype trust_status =
    Trust_Unknown
  | Synthetic_Only
  | Needs_Judge_Review
  | Local_Demo_Ready
  | Production_Evidence_Ready

fun trust_status_value :: "trust_status \<Rightarrow> string" where
  "trust_status_value Trust_Unknown = ''unknown''"
| "trust_status_value Synthetic_Only = ''synthetic_only''"
| "trust_status_value Needs_Judge_Review = ''needs_judge_review''"
| "trust_status_value Local_Demo_Ready = ''local_demo_ready''"
| "trust_status_value Production_Evidence_Ready = ''production_evidence_ready''"

datatype production_readiness = Production_Ready | Readiness_Unknown | Not_Production_Ready

fun readiness_value :: "production_readiness \<Rightarrow> string" where
  "readiness_value Production_Ready = ''production_ready''"
| "readiness_value Readiness_Unknown = ''unknown''"
| "readiness_value Not_Production_Ready = ''not_production_ready''"

record trust_summary =
  ts_source_distribution :: "(string \<times> nat) list"
  ts_score_distribution :: "(string \<times> nat) list"
  ts_total :: nat
  ts_synthetic :: nat
  ts_local :: nat
  ts_production :: nat
  ts_unverified :: nat
  ts_external :: nat
  ts_unknown_source :: nat
  ts_heuristic :: nat
  ts_candidate :: nat
  ts_applied :: nat
  ts_human :: nat
  ts_unknown_score :: nat
  ts_critical :: nat
  ts_critical_reviewed :: nat
  ts_applied_rate :: rat
  ts_critical_rate :: rat
  ts_status :: trust_status
  ts_readiness :: production_readiness
  ts_reasons :: "string list"
  ts_limitations :: "string list"

definition EVIDENCE_TRUST_VERSION :: string where
  "EVIDENCE_TRUST_VERSION = ''evidence-trust-v1''"

section \<open>Classification of one result\<close>

definition source_of_value :: "string \<Rightarrow> source_tier option" where
  "source_of_value v =
     find (\<lambda>t. source_value t = v)
       [Synthetic_Demo, Local_Authored, Production_Captured, Production_Captured_Unverified,
        External_Benchmark, Unknown_Source]"

definition normalize_source_tier :: "string \<Rightarrow> source_tier" where
  "normalize_source_tier v =
     (let n = lower (strip v);
          m = (if n = ''captured_local'' \<or> n = ''local_actual_runtime'' then source_value Local_Authored else n)
      in case source_of_value m of None \<Rightarrow> Unknown_Source | Some t \<Rightarrow> t)"

definition str_or_empty :: "json \<Rightarrow> string" where
  "str_or_empty v = (if truthy v then py_str v else [])"

definition has_explicit_human_review :: "json \<Rightarrow> json \<Rightarrow> bool" where
  "has_explicit_human_review metadata judge_label =
     (let human_review = as_dict (jget metadata ''human_review'');
          review = as_dict (jget metadata ''review'');
          source = lower (strip (str_or_empty (jget judge_label ''source'')))
      in jget metadata ''human_reviewed'' = JBool True
         \<or> jget human_review ''reviewed'' = JBool True \<or> jget human_review ''applied'' = JBool True
         \<or> jget review ''human_reviewed'' = JBool True \<or> jget review ''reviewer_type'' = JStr ''human''
         \<or> (jget judge_label ''applied'' = JBool True \<and>
            (jget judge_label ''human_reviewed'' = JBool True
             \<or> jget judge_label ''reviewer_type'' = JStr ''human''
             \<or> source \<in> set [''human'', ''human_review'', ''human_reviewer'', ''manual_review''])))"

definition candidate_judge_labels :: "eval_case option \<Rightarrow> json" where
  "candidate_judge_labels c =
     (case c of None \<Rightarrow> JObj []
      | Some ec \<Rightarrow> as_dict (jget (as_dict (ec_reference_context ec)) ''judge_labels''))"

definition classify_score_tier :: "bench_result \<Rightarrow> eval_case option \<Rightarrow> score_tier" where
  "classify_score_tier r c =
     (let metadata = as_dict (br_metadata r);
          judge_label = as_dict (jget metadata ''judge_label'');
          scorer = as_dict (jget metadata ''scorer'')
      in if has_explicit_human_review metadata judge_label then Human_Reviewed
         else if jget judge_label ''applied'' = JBool True then Applied_Judge_Label
         else if truthy (candidate_judge_labels c) then Candidate_Judge_Label
         else if list_ex truthy
                   [jget scorer ''scorer_id'', jget scorer ''scorer_version'', jget scorer ''version'',
                    jget metadata ''scorer_id'', jget metadata ''scorer_version'']
              then Heuristic
         else Unknown_Score)"

text \<open>The source tier after the check against the runs with a verified capture receipt, if any is given.\<close>

definition effective_source_tier :: "uuid list option \<Rightarrow> bench_result \<Rightarrow> source_tier" where
  "effective_source_tier verified r =
     (let t = normalize_source_tier (br_data_source r) in
      if t = Production_Captured \<and>
         (case verified of None \<Rightarrow> False | Some ids \<Rightarrow> br_run_id r \<notin> set ids)
      then Production_Captured_Unverified else t)"

section \<open>The summary\<close>

record trust_counts =
  tc_sources :: "source_tier list"
  tc_scores :: "score_tier list"
  tc_critical :: nat
  tc_reviewed :: nat

definition count_result ::
  "uuid list option \<Rightarrow> (uuid \<times> eval_case) list \<Rightarrow> bench_result \<Rightarrow> trust_counts \<Rightarrow> trust_counts" where
  "count_result verified case_map r tc =
     (let c = map_of case_map (br_id r);
          score = classify_score_tier r c;
          critical = (case c of None \<Rightarrow> False | Some ec \<Rightarrow> ec_criticality ec = Critical)
      in \<lparr>tc_sources = tc_sources tc @ [effective_source_tier verified r],
          tc_scores = tc_scores tc @ [score],
          tc_critical = tc_critical tc + (if critical then 1 else 0),
          tc_reviewed = tc_reviewed tc
            + (if critical \<and> score \<in> {Applied_Judge_Label, Human_Reviewed} then 1 else 0)\<rparr>)"

definition trust_counts_of ::
  "uuid list option \<Rightarrow> (uuid \<times> eval_case) list \<Rightarrow> bench_result list \<Rightarrow> trust_counts" where
  "trust_counts_of verified case_map results =
     fold (count_result verified case_map) results
       \<lparr>tc_sources = [], tc_scores = [], tc_critical = 0, tc_reviewed = 0\<rparr>"

abbreviation n_source :: "trust_counts \<Rightarrow> source_tier \<Rightarrow> nat" where
  "n_source tc t \<equiv> count_list (tc_sources tc) t"

abbreviation n_score :: "trust_counts \<Rightarrow> score_tier \<Rightarrow> nat" where
  "n_score tc t \<equiv> count_list (tc_scores tc) t"

definition trust_status_of :: "trust_thresholds \<Rightarrow> trust_counts \<Rightarrow> nat \<Rightarrow> rat \<Rightarrow> rat \<Rightarrow> trust_status" where
  "trust_status_of th tc cnt applied_rate critical_rate =
     (let production_review_ready =
            (min_applied_rate_production th \<le> applied_rate \<and>
             (tc_critical tc = 0 \<or> min_critical_rate_production th \<le> critical_rate));
          local_review_ready =
            (min_applied_rate_local th \<le> applied_rate \<and>
             (tc_critical tc = 0 \<or> min_critical_reviewed_local th \<le> tc_reviewed tc))
      in if cnt = 0 \<or> n_source tc Unknown_Source = cnt then Trust_Unknown
         else if n_source tc Synthetic_Demo = cnt then Synthetic_Only
         else if min_production_results th \<le> n_source tc Production_Captured \<and> production_review_ready
              then Production_Evidence_Ready
         else if \<not> local_review_ready then Needs_Judge_Review
         else if n_source tc Local_Authored \<noteq> 0 \<or> n_source tc Production_Captured \<noteq> 0 then Local_Demo_Ready
         else Trust_Unknown)"

definition when_msg :: "bool \<Rightarrow> string \<Rightarrow> string list" where
  "when_msg b m = (if b then [m] else [])"

fun trust_reason :: "trust_status \<Rightarrow> string" where
  "trust_reason Trust_Unknown =
     ''Evidence trust could not be established from the available provenance.''"
| "trust_reason Synthetic_Only =
     ''All selected benchmark results use synthetic demonstration evidence.''"
| "trust_reason Needs_Judge_Review =
     ''The selected evidence does not meet the minimum judge-review coverage.''"
| "trust_reason Local_Demo_Ready =
     ''Locally authored evidence meets the minimum review coverage for a reproducible demo.''"
| "trust_reason Production_Evidence_Ready =
     ''Production-captured evidence and review coverage meet the configured thresholds.''"

definition explain_summary ::
  "trust_thresholds \<Rightarrow> trust_counts \<Rightarrow> nat \<Rightarrow> rat \<Rightarrow> rat \<Rightarrow> trust_status \<Rightarrow> string list \<times> string list" where
  "explain_summary th tc cnt applied_rate critical_rate status =
     ([trust_reason status],
      fromkeys
       (when_msg (cnt = 0) ''No benchmark results are available for trust classification.''
        @ when_msg (n_source tc Unknown_Source \<noteq> 0)
            ''Some results have an unknown or legacy evidence source.''
        @ when_msg (n_source tc Production_Captured_Unverified \<noteq> 0)
            ''Some production-labeled results do not have an active signed capture receipt.''
        @ when_msg (n_source tc Synthetic_Demo \<noteq> 0)
            ''Synthetic evidence cannot establish production readiness.''
        @ (if n_source tc Production_Captured = 0 then [''Production-captured evidence is missing.'']
           else when_msg (n_source tc Production_Captured < min_production_results th)
                  ''Production-captured result count is below the configured production threshold.'')
        @ when_msg (applied_rate < min_applied_rate_local th)
            ''Applied or human-reviewed label coverage is below the local-demo threshold.''
        @ (if tc_critical tc \<noteq> 0 \<and> tc_reviewed tc = 0
           then [''Critical cases exist, but none have an applied or human-reviewed label.'']
           else when_msg (tc_critical tc \<noteq> 0 \<and> critical_rate < min_critical_rate_production th)
                  ''Critical-case review coverage is below the production threshold.'')
        @ when_msg (n_source tc External_Benchmark \<noteq> 0 \<and> n_source tc Local_Authored = 0
                    \<and> n_source tc Production_Captured = 0)
            ''External benchmark evidence alone does not establish workload-specific readiness.''
        @ when_msg (n_score tc Heuristic = cnt \<and> cnt \<noteq> 0)
            ''All result scores are heuristic and require judge review before release.''))"

definition readiness_of :: "trust_status \<Rightarrow> production_readiness" where
  "readiness_of st =
     (if st = Production_Evidence_Ready then Production_Ready
      else if st = Trust_Unknown then Readiness_Unknown else Not_Production_Ready)"

definition sorted_items :: "(string \<times> nat) list \<Rightarrow> (string \<times> nat) list" where
  "sorted_items kvs = sort_key fst kvs"

definition summarize_evidence_trust ::
  "trust_thresholds \<Rightarrow> uuid list option \<Rightarrow> bench_result list \<Rightarrow> (uuid \<times> eval_case) list \<Rightarrow> trust_summary" where
  "summarize_evidence_trust th verified results case_map =
     (let tc = trust_counts_of verified case_map results;
          cnt = length results;
          applied_rate = rate_or_zero (int (n_score tc Applied_Judge_Label + n_score tc Human_Reviewed)) (int cnt);
          critical_rate = rate_or_zero (int (tc_reviewed tc)) (int (tc_critical tc));
          status = trust_status_of th tc cnt applied_rate critical_rate;
          expl = explain_summary th tc cnt applied_rate critical_rate status
      in \<lparr>ts_source_distribution = sorted_items (counter (map source_value (tc_sources tc))),
          ts_score_distribution = sorted_items (counter (map score_value (tc_scores tc))),
          ts_total = cnt,
          ts_synthetic = n_source tc Synthetic_Demo,
          ts_local = n_source tc Local_Authored,
          ts_production = n_source tc Production_Captured,
          ts_unverified = n_source tc Production_Captured_Unverified,
          ts_external = n_source tc External_Benchmark,
          ts_unknown_source = n_source tc Unknown_Source,
          ts_heuristic = n_score tc Heuristic,
          ts_candidate = n_score tc Candidate_Judge_Label,
          ts_applied = n_score tc Applied_Judge_Label,
          ts_human = n_score tc Human_Reviewed,
          ts_unknown_score = n_score tc Unknown_Score,
          ts_critical = tc_critical tc,
          ts_critical_reviewed = tc_reviewed tc,
          ts_applied_rate = py_round 4 applied_rate,
          ts_critical_rate = py_round 4 critical_rate,
          ts_status = status,
          ts_readiness = readiness_of status,
          ts_reasons = fst expl,
          ts_limitations = snd expl\<rparr>)"

definition trust_to_dict :: "trust_summary \<Rightarrow> json" where
  "trust_to_dict t =
     (let n = (\<lambda>k. JInt (int k)); counts = (\<lambda>kvs. JObj (map (\<lambda>(k, v). (k, n v)) kvs));
          texts = (\<lambda>xs. JArr (map JStr xs))
      in JObj
       [(''source_distribution'', counts (ts_source_distribution t)),
        (''score_distribution'', counts (ts_score_distribution t)),
        (''total_result_count'', n (ts_total t)),
        (''synthetic_demo_count'', n (ts_synthetic t)),
        (''local_authored_count'', n (ts_local t)),
        (''production_captured_count'', n (ts_production t)),
        (''unverified_production_captured_count'', n (ts_unverified t)),
        (''external_benchmark_count'', n (ts_external t)),
        (''unknown_source_count'', n (ts_unknown_source t)),
        (''heuristic_only_count'', n (ts_heuristic t)),
        (''candidate_judge_label_count'', n (ts_candidate t)),
        (''applied_judge_label_count'', n (ts_applied t)),
        (''human_reviewed_count'', n (ts_human t)),
        (''unknown_score_count'', n (ts_unknown_score t)),
        (''critical_result_count'', n (ts_critical t)),
        (''critical_reviewed_count'', n (ts_critical_reviewed t)),
        (''applied_judge_label_rate'', JFloat (ts_applied_rate t)),
        (''critical_review_coverage_rate'', JFloat (ts_critical_rate t)),
        (''trust_status'', JStr (trust_status_value (ts_status t))),
        (''production_readiness'', JStr (readiness_value (ts_readiness t))),
        (''reasons'', texts (ts_reasons t)),
        (''limitations'', texts (ts_limitations t))])"

text \<open>
  The recomputation for a stored gate: it reads every result of the runs named by the gate's
  snapshot. \<open>verified\<close> is the answer of the supply-chain registry for these runs.
\<close>

definition summarize_gate_evidence_trust ::
  "trust_thresholds \<Rightarrow> (uuid list \<Rightarrow> uuid list) \<Rightarrow> evidence_db \<Rightarrow> json \<Rightarrow> trust_summary" where
  "summarize_gate_evidence_trust th verified db gate_snapshot =
     (let run_ids = uuid_values (jget (as_dict gate_snapshot) ''benchmark_run_ids'') in
      if run_ids = [] then summarize_evidence_trust th None [] []
      else
        let results = filter (\<lambda>r. br_run_id r \<in> set run_ids) (e_results db);
            case_map = List.map_filter
              (\<lambda>r. case br_case_id r of None \<Rightarrow> None
                   | Some c \<Rightarrow> map_option (Pair (br_id r)) (row_find ec_id c (e_cases db))) results
        in summarize_evidence_trust th (Some (verified run_ids)) results case_map)"

end
