(* ===== verification/Gate_Evidence.thy ===== *)
theory Gate_Evidence
  imports Evidence_Trust
begin

text \<open>
  \<^verbatim>\<open>services/deployment_gate/evidence.py\<close>: which runs, results and metrics count as the evidence of a
  deployment configuration on a suite (\<open>collect_evidence\<close>), which revision of a result counts
  (\<open>latest_result_revisions\<close>), the revision manifest and hash that detect later changes, and
  the snapshot stored with a gate.
\<close>

definition CALCULATION_VERSION :: string where
  "CALCULATION_VERSION = ''deployment-gate-sprint-5d-v1''"

definition GATE_EVIDENCE_SCHEMA_VERSION :: string where
  "GATE_EVIDENCE_SCHEMA_VERSION = ''gate-evidence-snapshot-v8''"

definition SYNTHETIC_SOURCE :: string where
  "SYNTHETIC_SOURCE = ''synthetic_demo''"

definition TOOL_FAULT_DATA_SOURCE :: string where
  "TOOL_FAULT_DATA_SOURCE = ''tool_fault_fixture_diagnostic''"

definition KNOWN_ADAPTER_VERSIONS :: "(string \<times> string) list" where
  "KNOWN_ADAPTER_VERSIONS = [(''mock'', ''mock-adapter-v6''), (''openai_compatible'', ''openai-compatible-v7'')]"

text \<open>The request fields that identify a configuration; a required key that is missing is a \<^verbatim>\<open>KeyError\<close>.\<close>

definition item :: "json \<Rightarrow> string \<Rightarrow> json option" where
  "item d k = map_of (dict_items d) k"

definition or_empty_dict :: "json \<Rightarrow> json" where
  "or_empty_dict v = (if truthy v then v else JObj [])"

definition deployment_configuration_hash :: "(string \<Rightarrow> string) \<Rightarrow> json \<Rightarrow> string option" where
  "deployment_configuration_hash sha payload =
     (case map (item payload) [''workload_profile_id'', ''hardware_profile_id'', ''model_artifact_id'',
                               ''runtime_name'', ''context_length'', ''concurrency_target''] of
        [Some workload, Some hardware, Some artifact, Some runtime, Some context, Some concurrency] \<Rightarrow>
          Some (stable_hash sha (JObj
            [(''workload_profile_id'', JStr (py_str workload)),
             (''hardware_profile_id'', JStr (py_str hardware)),
             (''model_artifact_id'', JStr (py_str artifact)),
             (''runtime_name'', runtime),
             (''runtime_version'', jget payload ''runtime_version''),
             (''runtime_config_json'', or_empty_dict (jget payload ''runtime_config_json'')),
             (''context_length'', context),
             (''generation_config_json'', or_empty_dict (jget payload ''generation_config_json'')),
             (''prompt_bundle_json'', or_empty_dict (jget payload ''prompt_bundle_json'')),
             (''output_schema_version'', jget payload ''output_schema_version''),
             (''tool_schema_version'', jget payload ''tool_schema_version''),
             (''retrieval_config_json'', jget payload ''retrieval_config_json''),
             (''concurrency_target'', concurrency)]))
      | _ \<Rightarrow> None)"

section \<open>The evidence bundle\<close>

record evidence_bundle =
  bn_config :: dep_config
  bn_suite :: eval_suite
  bn_active_cases :: "eval_case list"
  bn_runs :: "bench_run list"
  bn_results :: "bench_result list"
  bn_metrics :: "inf_metric list"
  bn_source_distribution :: "(string \<times> nat) list"
  bn_case_map :: "(uuid \<times> eval_case) list"

definition has_real_evidence :: "evidence_bundle \<Rightarrow> bool" where
  "has_real_evidence b \<longleftrightarrow>
     list_ex (\<lambda>r. case map_of (bn_case_map b) (br_id r) of
                    None \<Rightarrow> False
                  | Some c \<Rightarrow> ec_data_source c \<noteq> SYNTHETIC_SOURCE \<and> br_data_source r \<noteq> SYNTHETIC_SOURCE)
       (bn_results b)"

definition only_synthetic_evidence :: "evidence_bundle \<Rightarrow> bool" where
  "only_synthetic_evidence b \<longleftrightarrow> 0 < length (bn_results b) \<and> \<not> has_real_evidence b"

definition mandatory_evidence_missing :: "evidence_bundle \<Rightarrow> bool" where
  "mandatory_evidence_missing b \<longleftrightarrow>
     length (bn_active_cases b) = 0 \<or> length (bn_runs b) = 0 \<or> length (bn_results b) = 0"

definition root_id :: "bench_result \<Rightarrow> uuid" where
  "root_id r = (case br_root_id r of None \<Rightarrow> br_id r | Some i \<Rightarrow> i)"

definition effective_revision :: "bench_result \<Rightarrow> int" where
  "effective_revision r = max 1 (if br_revision r = 0 then 1 else br_revision r)"

text \<open>
  The creation time is compared as ISO text in the code; for UTC instants of years 1000 to 9999 that
  order is the order of the instants.
\<close>

definition revision_sort_key :: "bench_result \<Rightarrow> int \<times> instant \<times> string" where
  "revision_sort_key r = (effective_revision r, br_created_at r, br_id r)"

definition latest_step :: "bench_result \<Rightarrow> (uuid \<times> bench_result) list \<Rightarrow> (uuid \<times> bench_result) list" where
  "latest_step r latest =
     (case map_of latest (root_id r) of
        None \<Rightarrow> latest @ [(root_id r, r)]
      | Some current \<Rightarrow>
          if revision_sort_key current < revision_sort_key r
          then map (\<lambda>(k, c). (k, if k = root_id r then r else c)) latest
          else latest)"

definition latest_result_revisions :: "bench_result list \<Rightarrow> bench_result list" where
  "latest_result_revisions results =
     sort_key (\<lambda>r. (br_sample_id r, br_id r)) (map snd (fold latest_step results []))"

definition collect_evidence :: "evidence_db \<Rightarrow> dep_config \<Rightarrow> eval_suite \<Rightarrow> evidence_bundle" where
  "collect_evidence db cfg suite =
     (let active = filter (\<lambda>c. ec_suite_id c = es_id suite \<and> ec_is_active c) (e_cases db);
          active_ids = map ec_id active;
          candidate_runs = filter
            (\<lambda>r. rn_config_id r = Some (dc_id cfg) \<and> rn_suite_id r = Some (es_id suite) \<and>
                 rn_status r = ''completed'' \<and> rn_data_source r \<noteq> TOOL_FAULT_DATA_SOURCE) (e_runs db);
          run_ids = map rn_id candidate_runs;
          candidates = filter
            (\<lambda>r. br_run_id r \<in> set run_ids \<and>
                 (case br_case_id r of None \<Rightarrow> False | Some c \<Rightarrow> c \<in> set active_ids)) (e_results db);
          results = latest_result_revisions candidates;
          selected = map br_run_id results;
          runs = filter (\<lambda>r. rn_id r \<in> set selected) candidate_runs;
          metrics = filter
            (\<lambda>m. (im_run_id m, im_sample_id m) \<in> set (map (\<lambda>r. (br_run_id r, br_sample_id r)) results))
            (e_metrics db)
      in \<lparr>bn_config = cfg, bn_suite = suite, bn_active_cases = active, bn_runs = runs,
          bn_results = results, bn_metrics = metrics,
          bn_source_distribution =
            counter (map (\<lambda>c. ''case:'' @ ec_data_source c) active
                     @ map (\<lambda>r. ''run:'' @ rn_data_source r) runs
                     @ map (\<lambda>r. ''result:'' @ br_data_source r) results
                     @ map (\<lambda>m. ''metric:'' @ im_data_source m) metrics),
          bn_case_map = List.map_filter
            (\<lambda>r. case br_case_id r of None \<Rightarrow> None
                 | Some c \<Rightarrow> map_option (Pair (br_id r)) (row_find ec_id c active)) results\<rparr>)"

section \<open>The revision manifest\<close>

definition opt_str :: "string option \<Rightarrow> json" where
  "opt_str x = opt_json JStr x"

definition result_revision_hash :: "(string \<Rightarrow> string) \<Rightarrow> bench_result \<Rightarrow> string" where
  "result_revision_hash sha r =
     stable_hash sha (JObj
       [(''benchmark_result_id'', JStr (br_id r)),
        (''benchmark_run_id'', JStr (br_run_id r)),
        (''evaluation_case_id'', opt_str (br_case_id r)),
        (''sample_id'', JStr (br_sample_id r)),
        (''scores'', JObj
          [(''quality_score'', opt_json JFloat (br_quality r)),
           (''exact_match'', opt_json JBool (br_exact_match r)),
           (''json_valid'', JBool (br_json_valid r)),
           (''tool_call_valid'', JBool (br_tool_call_valid r)),
           (''groundedness_score'', opt_json JFloat (br_groundedness r)),
           (''faithfulness_score'', opt_json JFloat (br_faithfulness r)),
           (''error_type'', opt_str (br_error_type r))]),
        (''normalized_output'', opt_str (br_normalized_output r)),
        (''metadata'', or_empty_dict (br_metadata r)),
        (''data_source'', JStr (br_data_source r))])"

definition manifest_entry :: "(string \<Rightarrow> string) \<Rightarrow> bench_result \<Rightarrow> json" where
  "manifest_entry sha r =
     JObj
       [(''benchmark_result_id'', JStr (br_id r)),
        (''benchmark_run_id'', JStr (br_run_id r)),
        (''root_benchmark_result_id'', JStr (root_id r)),
        (''parent_benchmark_result_id'', opt_str (br_parent_id r)),
        (''revision_number'', JInt (effective_revision r)),
        (''sample_id'', JStr (br_sample_id r)),
        (''evidence_revision_hash'',
          JStr (if text_set (br_revision_hash r) then text_or_empty (br_revision_hash r)
                else result_revision_hash sha r))]"

definition evidence_revision_manifest :: "(string \<Rightarrow> string) \<Rightarrow> evidence_bundle \<Rightarrow> json" where
  "evidence_revision_manifest sha b = JArr (map (manifest_entry sha) (bn_results b))"

definition evidence_revision_hash :: "(string \<Rightarrow> string) \<Rightarrow> evidence_bundle \<Rightarrow> string" where
  "evidence_revision_hash sha b = stable_hash sha (evidence_revision_manifest sha b)"

section \<open>Versions named in the snapshot\<close>

definition set_text :: "json \<Rightarrow> string list" where
  "set_text v = (if truthy v then [py_str v] else [])"

definition metadata_of :: "bench_result \<Rightarrow> json" where
  "metadata_of r = as_dict (br_metadata r)"

definition trace_of :: "string \<Rightarrow> bench_result \<Rightarrow> json" where
  "trace_of k r = as_dict (jget (metadata_of r) k)"

definition py_or :: "json \<Rightarrow> json \<Rightarrow> json" where
  "py_or a b = (if truthy a then a else b)"

definition scorer_versions :: "evidence_bundle \<Rightarrow> string list \<times> string list" where
  "scorer_versions b =
     (let scorer = trace_of ''scorer'' in
      (sorted_set (concat (map (\<lambda>r.
           set_text (py_or (jget (scorer r) ''registry_version'') (jget (scorer r) ''version''))) (bn_results b))),
       sorted_set (concat (map (\<lambda>r.
           set_text (py_or (jget (scorer r) ''scorer_version'') (jget (scorer r) ''version''))) (bn_results b)))))"

definition adapter_version :: "json \<Rightarrow> json \<Rightarrow> string list" where
  "adapter_version descriptor adapter_name =
     (if truthy (jget descriptor ''adapter_version'') then [py_str (jget descriptor ''adapter_version'')]
      else case map_of KNOWN_ADAPTER_VERSIONS (py_str adapter_name) of None \<Rightarrow> [] | Some v \<Rightarrow> [v])"

definition adapter_versions :: "evidence_bundle \<Rightarrow> string list" where
  "adapter_versions b =
     sorted_set
       (concat (map (\<lambda>r. let c = as_dict (rn_runtime_config r) in
                  adapter_version (as_dict (jget c ''adapter_descriptor'')) (jget c ''adapter_name'')) (bn_runs b))
        @ concat (map (\<lambda>r. let m = metadata_of r in
                  adapter_version (as_dict (jget m ''adapter_descriptor''))
                    (py_or (jget m ''adapter_name'') (jget m ''adapter''))) (bn_results b)))"

definition trace_versions :: "string \<Rightarrow> string \<Rightarrow> evidence_bundle \<Rightarrow> string list" where
  "trace_versions trace k b =
     sorted_set (concat (map (\<lambda>r. set_text (jget (trace_of trace r) k)) (bn_results b)))"

definition tool_execution_versions :: "evidence_bundle \<Rightarrow> string list \<times> string list" where
  "tool_execution_versions b =
     (trace_versions ''tool_execution'' ''registry_version'' b,
      trace_versions ''tool_execution'' ''schema_version'' b)"

definition rag_execution_versions :: "evidence_bundle \<Rightarrow> string list \<times> string list \<times> string list" where
  "rag_execution_versions b =
     (let retrieval = (\<lambda>r. as_dict (jget (trace_of ''rag_evaluation'' r) ''retrieval'')) in
      (sorted_set (concat (map (\<lambda>r. set_text (jget (retrieval r) ''corpus_version'')) (bn_results b))),
       sorted_set (concat (map (\<lambda>r. set_text (jget (retrieval r) ''retriever_version'')) (bn_results b))),
       trace_versions ''rag_evaluation'' ''schema_version'' b))"

definition runtime_reliability_versions :: "evidence_bundle \<Rightarrow> string list" where
  "runtime_reliability_versions b = trace_versions ''runtime_reliability'' ''schema_version'' b"

definition agent_runtime_versions :: "evidence_bundle \<Rightarrow> string list" where
  "agent_runtime_versions b =
     sorted_set (concat (map (\<lambda>r.
        set_text (jget (as_dict (jget (as_dict (rn_runtime_config r)) ''agent_runtime_descriptor'')) ''runtime_version''))
        (bn_runs b)))"

definition evidence_snapshot ::
  "(string \<Rightarrow> string) \<Rightarrow> evidence_bundle \<Rightarrow> trust_summary \<Rightarrow> (string \<times> json) list" where
  "evidence_snapshot sha b trust =
     (let texts = (\<lambda>xs. JArr (map JStr xs)); n = (\<lambda>k. JInt (int k));
          agent = (\<lambda>k. texts (trace_versions ''agent_execution'' k b));
          manifest = evidence_revision_manifest sha b
      in [(''schema_version'', JStr GATE_EVIDENCE_SCHEMA_VERSION),
          (''benchmark_run_ids'', texts (map rn_id (bn_runs b))),
          (''evidence_revision_hash'', JStr (stable_hash sha manifest)),
          (''evidence_revision_manifest'', manifest),
          (''result_count'', n (length (bn_results b))),
          (''metric_count'', n (length (bn_metrics b))),
          (''active_case_count'', n (length (bn_active_cases b))),
          (''metric_calculation_version'', JStr CALCULATION_VERSION),
          (''evidence_trust_version'', JStr EVIDENCE_TRUST_VERSION),
          (''scorer_registry_versions'', texts (fst (scorer_versions b))),
          (''scorer_versions'', texts (snd (scorer_versions b))),
          (''adapter_versions'', texts (adapter_versions b)),
          (''tool_registry_versions'', texts (fst (tool_execution_versions b))),
          (''tool_execution_versions'', texts (snd (tool_execution_versions b))),
          (''rag_corpus_versions'', texts (fst (rag_execution_versions b))),
          (''retriever_versions'', texts (fst (snd (rag_execution_versions b)))),
          (''rag_evaluation_versions'', texts (snd (snd (rag_execution_versions b)))),
          (''runtime_reliability_versions'', texts (runtime_reliability_versions b)),
          (''agent_runtime_versions'', texts (agent_runtime_versions b)),
          (''agent_execution_versions'', agent ''schema_version''),
          (''operational_memory_registry_versions'', agent ''memory_registry_version''),
          (''agent_observation_versions'', agent ''observation_schema_version''),
          (''agent_recovery_policy_versions'', agent ''recovery_policy_version''),
          (''agent_approval_policy_versions'', agent ''approval_policy_version''),
          (''evidence_trust'', trust_to_dict trust),
          (''source_data_source_distribution'',
            JObj (map (\<lambda>(k, v). (k, n v)) (bn_source_distribution b))),
          (''configuration_hash'', JStr (dc_configuration_hash (bn_config b))),
          (''suite_hash'', JStr (es_suite_hash (bn_suite b)))])"

end
