(* ===== verification/Gate_Metrics.thy ===== *)
theory Gate_Metrics
  imports Runtime_Reliability Gate_Evidence "HOL-Library.Monad_Syntax"
begin

text \<open>
  \<^verbatim>\<open>services/deployment_gate/metrics.py\<close> and \<^verbatim>\<open>summarize_agent_traces\<close> of
  \<^verbatim>\<open>services/agent_execution/evidence.py\<close>: the metrics a policy rule can name, computed from an
  evidence bundle, and the test whether a critical case failed. A conversion that raises in Python
  (\<^verbatim>\<open>int\<close> of a value that is no number, iterating over a number) is \<open>None\<close>. A schema version that
  is no text counts as unsupported (Python raises when it is a list or an object).
\<close>

record calc_metric =
  cm_value :: "rat option"
  cm_sample_size :: int
  cm_details :: json

type_synonym metrics = "(string \<times> calc_metric) list"

section \<open>Reading a result\<close>

definition case_for_result :: "evidence_bundle \<Rightarrow> bench_result \<Rightarrow> eval_case option" where
  "case_for_result b r = map_of (bn_case_map b) (br_id r)"

definition is_json_case :: "eval_case option \<Rightarrow> bool" where
  "is_json_case c =
     (case c of None \<Rightarrow> False
      | Some e \<Rightarrow> contains ''json'' (lower (ec_category e)) \<or> ec_expected_output e \<noteq> JNull)"

definition is_tool_case :: "eval_case option \<Rightarrow> bool" where
  "is_tool_case c =
     (case c of None \<Rightarrow> False
      | Some e \<Rightarrow> contains ''tool'' (lower (ec_category e)) \<or> ec_expected_tool_schema e \<noteq> JNull)"

definition result_trace :: "string \<Rightarrow> bench_result \<Rightarrow> json option" where
  "result_trace k r =
     (let t = jget (as_dict (br_metadata r)) k in if is_dict t then Some t else None)"

definition tool_trace :: "bench_result \<Rightarrow> json option" where
  "tool_trace r = result_trace ''tool_execution'' r"

definition rag_trace :: "bench_result \<Rightarrow> json option" where
  "rag_trace r = result_trace ''rag_evaluation'' r"

definition runtime_trace :: "bench_result \<Rightarrow> json option" where
  "runtime_trace r = reliability_trace (br_metadata r)"

definition agent_trace :: "bench_result \<Rightarrow> json option" where
  "agent_trace r = result_trace ''agent_execution'' r"

definition metric_value :: "json \<Rightarrow> string \<Rightarrow> rat" where
  "metric_value t k = (case number (jget t k) of None \<Rightarrow> 0 | Some q \<Rightarrow> q)"

definition rag_retrieval_recall :: "json \<Rightarrow> rat" where
  "rag_retrieval_recall t =
     (let v = jget t ''retrieval'' in if is_dict v then metric_value v ''retrieval_recall'' else 0)"

definition below :: "rat option \<Rightarrow> rat \<Rightarrow> bool" where
  "below v q \<longleftrightarrow> (case v of None \<Rightarrow> False | Some x \<Rightarrow> x < q)"

section \<open>Critical failures\<close>

text \<open>The part of the test that cannot raise, up to the agent trace; and the ground truth test after it.\<close>

definition fails_before_agent :: "bool \<Rightarrow> bench_result \<Rightarrow> eval_case \<Rightarrow> bool" where
  "fails_before_agent check_tool_flag r e \<longleftrightarrow>
     text_set (br_error_type r)
     \<or> br_exact_match r = Some False
     \<or> contains ''fail'' (lower (text_or_empty (br_human_label r)))
     \<or> below (br_quality r) (8 / 10)
     \<or> (is_json_case (Some e) \<and> \<not> br_json_valid r)
     \<or> (check_tool_flag \<and> is_tool_case (Some e) \<and> \<not> br_tool_call_valid r)
     \<or> (case tool_trace r of None \<Rightarrow> False
        | Some t \<Rightarrow> \<not> truthy (jget t ''call_valid'') \<or> \<not> truthy (jget t ''successful''))
     \<or> (case rag_trace r of None \<Rightarrow> False
        | Some t \<Rightarrow> \<not> truthy (jget t ''successful'') \<or> rag_retrieval_recall t < 1
                    \<or> metric_value t ''citation_precision'' < 1 \<or> 0 < metric_value t ''unsupported_claim_rate'')
     \<or> (case runtime_trace r of None \<Rightarrow> False | Some t \<Rightarrow> jget t ''status'' \<noteq> JStr ''success'')"

definition fails_grounding :: "bench_result \<Rightarrow> eval_case \<Rightarrow> bool" where
  "fails_grounding r e \<longleftrightarrow>
     contains ''ground'' (lower (ec_category e)) \<and>
     (below (br_groundedness r) (8 / 10) \<or> below (br_faithfulness r) (8 / 10))"

definition is_critical_failure :: "bool \<Rightarrow> bench_result \<Rightarrow> eval_case option \<Rightarrow> bool option" where
  "is_critical_failure check_tool_flag r c =
     (case c of
        None \<Rightarrow> Some False
      | Some e \<Rightarrow>
          if ec_criticality e \<noteq> Critical then Some False
          else if fails_before_agent check_tool_flag r e then Some True
          else
            (case agent_trace r of
               None \<Rightarrow> Some (fails_grounding r e)
             | Some t \<Rightarrow>
                 if \<not> truthy (jget t ''successful'') \<or> \<not> truthy (jget t ''plan_valid'') then Some True
                 else map_option (\<lambda>n. 0 < n \<or> fails_grounding r e)
                        (int_or (jget t ''policy_violation_count'') 0)))"

text \<open>A trace that is the empty object counts as absent where the code tests its truth value.\<close>

definition truthy_trace :: "json option \<Rightarrow> json option" where
  "truthy_trace t = (case t of None \<Rightarrow> None | Some v \<Rightarrow> if truthy v then Some v else None)"

definition trace_field :: "json option \<Rightarrow> string \<Rightarrow> json" where
  "trace_field t k = (case truthy_trace t of None \<Rightarrow> JNull | Some v \<Rightarrow> jget v k)"

definition trace_count :: "json option \<Rightarrow> string \<Rightarrow> int option" where
  "trace_count t k = (case truthy_trace t of None \<Rightarrow> Some 0 | Some v \<Rightarrow> int_or (jget v k) 0)"

record critical_outcome =
  co_case :: eval_case
  co_result :: bench_result
  co_failed :: bool
  co_fields :: "(string \<times> json) list"

definition critical_outcome_of :: "evidence_bundle \<Rightarrow> bench_result \<Rightarrow> eval_case \<Rightarrow> critical_outcome option" where
  "critical_outcome_of b r e =
     do {
       failed \<leftarrow> is_critical_failure True r (Some e);
       replans \<leftarrow> trace_count (agent_trace r) ''replan_count'';
       pending \<leftarrow> trace_count (agent_trace r) ''pending_checkpoint_count'';
       Some \<lparr>co_case = e, co_result = r, co_failed = failed,
             co_fields =
               [(''case_id'', JStr (ec_id e)),
                (''external_case_id'', JStr (ec_external_id e)),
                (''title'', JStr (ec_title e)),
                (''category'', JStr (ec_category e)),
                (''benchmark_run_id'', JStr (br_run_id r)),
                (''sample_id'', JStr (br_sample_id r)),
                (''status'', JStr (if failed then ''fail'' else ''pass'')),
                (''quality_score'', opt_json JFloat (br_quality r)),
                (''error_type'', opt_json JStr (br_error_type r)),
                (''data_source'', JStr (br_data_source r)),
                (''tool_execution_status'', trace_field (tool_trace r) ''status''),
                (''rag_evaluation_status'', trace_field (rag_trace r) ''status''),
                (''runtime_reliability_status'', trace_field (runtime_trace r) ''status''),
                (''agent_execution_status'', trace_field (agent_trace r) ''status''),
                (''agent_halt_reason'', trace_field (agent_trace r) ''halt_reason''),
                (''agent_replan_count'', JInt replans),
                (''agent_pending_approval_count'', JInt pending)]\<rparr>
     }"

definition critical_results :: "evidence_bundle \<Rightarrow> (bench_result \<times> eval_case) list" where
  "critical_results b =
     List.map_filter
       (\<lambda>r. case case_for_result b r of
              None \<Rightarrow> None
            | Some e \<Rightarrow> if ec_criticality e = Critical then Some (r, e) else None) (bn_results b)"

definition critical_case_outcomes :: "evidence_bundle \<Rightarrow> critical_outcome list option" where
  "critical_case_outcomes b = those (map (\<lambda>(r, e). critical_outcome_of b r e) (critical_results b))"

section \<open>Agent traces\<close>

definition SUPPORTED_AGENT_TRACE_VERSIONS :: "string list" where
  "SUPPORTED_AGENT_TRACE_VERSIONS = [''agent-execution-trace-v1'', ''agent-execution-trace-v2'']"

record agent_summary =
  as_case_count :: int
  as_successful_cases :: int
  as_failed_cases :: int
  as_total_steps :: int
  as_successful_steps :: int
  as_failed_steps :: int
  as_task_success_rate :: "rat option"
  as_plan_validity_rate :: "rat option"
  as_step_success_rate :: "rat option"
  as_action_sequence_accuracy :: "rat option"
  as_policy_violation_rate :: "rat option"
  as_final_response_rate :: "rat option"
  as_memory_provenance_rate :: "rat option"
  as_retried_tools :: int
  as_recovered_tools :: int
  as_tool_retry_recovery_rate :: "rat option"
  as_replan_cases :: int
  as_replans :: int
  as_successful_replans :: int
  as_replan_success_rate :: "rat option"
  as_live_replans :: int
  as_live_model_calls :: int
  as_live_prompt_tokens :: int
  as_live_completion_tokens :: int
  as_live_latency_ms :: rat
  as_live_cost_usd :: rat
  as_recovery_steps :: int
  as_successful_recovery_steps :: int
  as_recovery_step_success_rate :: "rat option"
  as_checkpoints :: int
  as_approved_checkpoints :: int
  as_denied_checkpoints :: int
  as_pending_checkpoints :: int
  as_approval_compliance_rate :: "rat option"
  as_approval_provenance_rate :: "rat option"
  as_pending_approval_rate :: "rat option"
  as_observation_coverage_rate :: "rat option"
  as_unrecovered_failure_rate :: "rat option"
  as_halted_cases :: int
  as_average_steps :: "rat option"
  as_versions :: "(string \<times> string list) list"

definition agent_version_keys :: "(string \<times> string) list" where
  "agent_version_keys =
     [(''memory_registry_versions'', ''memory_registry_version''),
      (''tool_registry_versions'', ''tool_registry_version''),
      (''corpus_versions'', ''corpus_version''),
      (''retriever_versions'', ''retriever_version''),
      (''observation_versions'', ''observation_schema_version''),
      (''recovery_policy_versions'', ''recovery_policy_version''),
      (''approval_policy_versions'', ''approval_policy_version''),
      (''trace_versions'', ''schema_version'')]"

definition empty_agent_summary :: agent_summary where
  "empty_agent_summary =
     \<lparr>as_case_count = 0, as_successful_cases = 0, as_failed_cases = 0, as_total_steps = 0,
      as_successful_steps = 0, as_failed_steps = 0, as_task_success_rate = None,
      as_plan_validity_rate = None, as_step_success_rate = None, as_action_sequence_accuracy = None,
      as_policy_violation_rate = None, as_final_response_rate = None, as_memory_provenance_rate = None,
      as_retried_tools = 0, as_recovered_tools = 0, as_tool_retry_recovery_rate = None,
      as_replan_cases = 0, as_replans = 0, as_successful_replans = 0, as_replan_success_rate = None,
      as_live_replans = 0, as_live_model_calls = 0, as_live_prompt_tokens = 0,
      as_live_completion_tokens = 0, as_live_latency_ms = 0, as_live_cost_usd = 0,
      as_recovery_steps = 0, as_successful_recovery_steps = 0, as_recovery_step_success_rate = None,
      as_checkpoints = 0, as_approved_checkpoints = 0, as_denied_checkpoints = 0,
      as_pending_checkpoints = 0, as_approval_compliance_rate = None, as_approval_provenance_rate = None,
      as_pending_approval_rate = None, as_observation_coverage_rate = None,
      as_unrecovered_failure_rate = None, as_halted_cases = 0, as_average_steps = None,
      as_versions = map (\<lambda>(n, _). (n, [])) agent_version_keys\<rparr>"

definition rate_opt :: "int \<Rightarrow> int \<Rightarrow> rat option" where
  "rate_opt num den = (if den \<noteq> 0 then Some (py_round 4 (of_int num / of_int den)) else None)"

definition count_positive :: "string \<Rightarrow> json list \<Rightarrow> int option" where
  "count_positive k ts = map_option (\<lambda>ns. count_where (\<lambda>n. 0 < n) ns) (ints_of k ts)"

definition sum_floats :: "string \<Rightarrow> json list \<Rightarrow> rat option" where
  "sum_floats k ts = map_option sum_list (those (map (\<lambda>t. float_or_zero (jget t k)) ts))"

definition count_truthy :: "string \<Rightarrow> json list \<Rightarrow> int" where
  "count_truthy k ts = count_where (\<lambda>t. truthy (jget t k)) ts"

definition summarize_agent_traces :: "json list \<Rightarrow> agent_summary option" where
  "summarize_agent_traces traces =
     (let ts = filter (\<lambda>t. jget t ''schema_version'' \<in> JStr ` set SUPPORTED_AGENT_TRACE_VERSIONS) traces;
          cases = int (length ts)
      in if ts = [] then Some empty_agent_summary
      else do {
        steps \<leftarrow> sum_key ''step_count'' ts;
        ok_steps \<leftarrow> sum_key ''successful_step_count'' ts;
        memory_actions \<leftarrow> sum_key ''memory_action_count'' ts;
        memory_provenance \<leftarrow> sum_key ''memory_provenance_count'' ts;
        retried \<leftarrow> sum_key ''retried_tool_count'' ts;
        recovered \<leftarrow> sum_key ''recovered_tool_count'' ts;
        replans \<leftarrow> sum_key ''replan_count'' ts;
        ok_replans \<leftarrow> sum_key ''successful_replan_count'' ts;
        live \<leftarrow> sum_key ''live_replan_count'' ts;
        calls \<leftarrow> sum_key ''live_replan_model_call_count'' ts;
        recovery \<leftarrow> sum_key ''recovery_step_count'' ts;
        ok_recovery \<leftarrow> sum_key ''successful_recovery_step_count'' ts;
        checkpoints \<leftarrow> sum_key ''approval_checkpoint_count'' ts;
        approved \<leftarrow> sum_key ''approved_checkpoint_count'' ts;
        denied \<leftarrow> sum_key ''denied_checkpoint_count'' ts;
        pending \<leftarrow> sum_key ''pending_checkpoint_count'' ts;
        provenance \<leftarrow> sum_key ''approval_provenance_count'' ts;
        observations \<leftarrow> sum_key ''observation_count'' ts;
        unrecovered \<leftarrow> count_positive ''unrecovered_failure_count'' ts;
        violations \<leftarrow> count_positive ''policy_violation_count'' ts;
        replan_cases \<leftarrow> count_positive ''replan_count'' ts;
        prompt_tokens \<leftarrow> sum_key ''live_replan_prompt_tokens'' ts;
        completion_tokens \<leftarrow> sum_key ''live_replan_completion_tokens'' ts;
        latency \<leftarrow> sum_floats ''live_replan_latency_ms'' ts;
        cost \<leftarrow> sum_floats ''live_replan_estimated_cost_usd'' ts;
        Some
         \<lparr>as_case_count = cases, as_successful_cases = count_truthy ''successful'' ts,
          as_failed_cases = count_where (\<lambda>t. \<not> truthy (jget t ''successful'')) ts,
          as_total_steps = steps, as_successful_steps = ok_steps, as_failed_steps = steps - ok_steps,
          as_task_success_rate = rate_opt (count_truthy ''successful'' ts) cases,
          as_plan_validity_rate = rate_opt (count_truthy ''plan_valid'' ts) cases,
          as_step_success_rate = rate_opt ok_steps steps,
          as_action_sequence_accuracy = rate_opt (count_truthy ''sequence_match'' ts) cases,
          as_policy_violation_rate = rate_opt violations cases,
          as_final_response_rate = rate_opt (count_truthy ''final_response_present'' ts) cases,
          as_memory_provenance_rate = rate_opt memory_provenance memory_actions,
          as_retried_tools = retried, as_recovered_tools = recovered,
          as_tool_retry_recovery_rate = rate_opt recovered retried,
          as_replan_cases = replan_cases, as_replans = replans, as_successful_replans = ok_replans,
          as_replan_success_rate = rate_opt ok_replans replans,
          as_live_replans = live, as_live_model_calls = calls,
          as_live_prompt_tokens = prompt_tokens, as_live_completion_tokens = completion_tokens,
          as_live_latency_ms = py_round 3 latency, as_live_cost_usd = py_round 8 cost,
          as_recovery_steps = recovery, as_successful_recovery_steps = ok_recovery,
          as_recovery_step_success_rate = rate_opt ok_recovery recovery,
          as_checkpoints = checkpoints, as_approved_checkpoints = approved,
          as_denied_checkpoints = denied, as_pending_checkpoints = pending,
          as_approval_compliance_rate = rate_opt approved checkpoints,
          as_approval_provenance_rate = rate_opt provenance checkpoints,
          as_pending_approval_rate = rate_opt pending checkpoints,
          as_observation_coverage_rate = rate_opt observations steps,
          as_unrecovered_failure_rate = rate_opt unrecovered cases,
          as_halted_cases = count_truthy ''halt_reason'' ts,
          as_average_steps = Some (py_round 3 (of_int steps / of_int cases)),
          as_versions = map (\<lambda>(n, k). (n, sorted_set (concat (map (\<lambda>t. set_text (jget t k)) ts))))
                          agent_version_keys\<rparr>
      })"

section \<open>The metrics of a bundle\<close>

text \<open>\<^verbatim>\<open>for step in value\<close>: an object iterates over its keys, a text over its characters; a number does not iterate.\<close>

fun iter_items :: "json \<Rightarrow> json list option" where
  "iter_items (JArr xs) = Some xs"
| "iter_items (JObj kvs) = Some (map (\<lambda>(k, _). JStr k) kvs)"
| "iter_items (JStr s) = Some (map (\<lambda>c. JStr [c]) s)"
| "iter_items _ = None"

definition tool_steps_of :: "json list \<Rightarrow> json list option" where
  "tool_steps_of traces =
     map_option (\<lambda>ls. filter is_dict (concat ls))
       (those (map (\<lambda>t. iter_items (jget_or t ''steps'' (JArr []))) traces))"

definition metric :: "rat option \<Rightarrow> int \<Rightarrow> (string \<times> json) list \<Rightarrow> calc_metric" where
  "metric v n details = \<lparr>cm_value = v, cm_sample_size = n, cm_details = JObj details\<rparr>"

text \<open>\<^verbatim>\<open>sum(1 for x in xs if p(x)) / len(xs) if xs else None\<close>.\<close>

definition share :: "('a \<Rightarrow> bool) \<Rightarrow> 'a list \<Rightarrow> rat option" where
  "share P xs = (if xs = [] then None else Some (of_int (count_where P xs) / of_nat (length xs)))"

definition share_metric :: "('a \<Rightarrow> bool) \<Rightarrow> 'a list \<Rightarrow> (string \<times> json) list \<Rightarrow> calc_metric" where
  "share_metric P xs details = metric (share P xs) (int (length xs)) details"

definition mean_metric :: "rat list \<Rightarrow> (string \<times> json) list \<Rightarrow> calc_metric" where
  "mean_metric xs details = metric (mean xs) (int (length xs)) details"

definition percentile_metric :: "rat \<Rightarrow> rat list \<Rightarrow> calc_metric" where
  "percentile_metric p xs = metric (percentile p xs) (int (length xs)) []"

definition case_ids :: "(bench_result \<Rightarrow> bool) \<Rightarrow> evidence_bundle \<Rightarrow> uuid list" where
  "case_ids P b = fromkeys (List.map_filter br_case_id (filter P (bn_results b)))"

definition tool_metrics :: "evidence_bundle \<Rightarrow> metrics option" where
  "tool_metrics b =
     (let results = filter (\<lambda>r. is_tool_case (case_for_result b r)) (bn_results b);
          traces = List.map_filter (\<lambda>r. truthy_trace (tool_trace r)) results;
          ok = (\<lambda>s. jget s ''execution_status'' = JStr ''success'')
      in do {
        steps \<leftarrow> tool_steps_of traces;
        retries \<leftarrow> those (map (\<lambda>s. int_or (jget s ''retry_count'') 0) steps);
        let retried = map fst (filter (\<lambda>(s, n). 0 < n) (zip steps retries));
        Some
          [(''tool_call_validity_rate'', share_metric br_tool_call_valid results []),
           (''tool_selection_accuracy'', share_metric (\<lambda>s. truthy (jget s ''selection_valid'')) steps []),
           (''tool_argument_validity_rate'', share_metric (\<lambda>s. truthy (jget s ''arguments_valid'')) steps []),
           (''tool_execution_success_rate'',
             share_metric ok steps [(''failed_tool_calls'', JInt (count_where (\<lambda>s. \<not> ok s) steps))]),
           (''tool_sequence_success_rate'', share_metric (\<lambda>t. truthy (jget t ''sequence_match'')) traces []),
           (''tool_retry_recovery_rate'',
             share_metric (\<lambda>s. truthy (jget s ''recovered'')) retried
               [(''retried_tool_calls'', JInt (int (length retried)))])]
      })"

definition rag_metrics :: "evidence_bundle \<Rightarrow> metrics option" where
  "rag_metrics b =
     (let traces = List.map_filter (\<lambda>r. truthy_trace (rag_trace r)) (bn_results b);
          values = (\<lambda>k. map (\<lambda>t. metric_value t k) traces)
      in do {
        unsupported \<leftarrow> sum_key ''unsupported_claim_count'' traces;
        Some
          [(''rag_retrieval_recall'', mean_metric (map rag_retrieval_recall traces) []),
           (''rag_citation_precision'', mean_metric (values ''citation_precision'') []),
           (''rag_citation_recall'', mean_metric (values ''citation_recall'') []),
           (''rag_groundedness_score'', mean_metric (values ''groundedness_score'') []),
           (''rag_unsupported_claim_rate'',
             mean_metric (values ''unsupported_claim_rate'') [(''unsupported_claim_count'', JInt unsupported)])]
      })"

definition reliability_metrics :: "(rat \<Rightarrow> rat) \<Rightarrow> evidence_bundle \<Rightarrow> metrics option" where
  "reliability_metrics fsqrt b =
     map_option
       (\<lambda>s. let n = rs_trial_count s in
         [(''reliability_success_rate'',
            metric (rs_success_rate s) n [(''success_count'', JInt (rs_success_count s)),
                                          (''expected_trial_count'', JInt (rs_expected_trials s))]),
          (''reliability_timeout_rate'',
            metric (rs_timeout_rate s) n [(''timeout_count'', JInt (rs_timeout_count s))]),
          (''reliability_oom_rate'', metric (rs_oom_rate s) n [(''oom_count'', JInt (rs_oom_count s))]),
          (''p99_end_to_end_latency_ms'', metric (rs_p99_latency s) n []),
          (''latency_variation_coefficient'', metric (rs_latency_variation s) n []),
          (''trial_coverage_rate'',
            metric (rs_trial_coverage s) n [(''expected_trial_count'', JInt (rs_expected_trials s))]),
          (''context_stress_success_rate'', metric (rs_stress_success_rate s) (rs_stress_count s) [])])
       (summarize_reliability_traces fsqrt
          (List.map_filter (\<lambda>r. truthy_trace (runtime_trace r)) (bn_results b)))"

definition agent_metrics :: "evidence_bundle \<Rightarrow> metrics option" where
  "agent_metrics b =
     (let traces = List.map_filter (\<lambda>r. truthy_trace (agent_trace r)) (bn_results b) in
      do {
        s \<leftarrow> summarize_agent_traces traces;
        memory_actions \<leftarrow> sum_key ''memory_action_count'' traces;
        let n = as_case_count s;
        let k = (\<lambda>key v. [(key, JInt v)]);
        Some
          [(''agent_task_success_rate'',
             metric (as_task_success_rate s) n
               (k ''successful_case_count'' (as_successful_cases s) @ k ''failed_case_count'' (as_failed_cases s))),
           (''agent_plan_validity_rate'', metric (as_plan_validity_rate s) n []),
           (''agent_step_success_rate'',
             metric (as_step_success_rate s) (as_total_steps s) (k ''failed_step_count'' (as_failed_steps s))),
           (''agent_action_sequence_accuracy'', metric (as_action_sequence_accuracy s) n []),
           (''agent_policy_violation_rate'', metric (as_policy_violation_rate s) n []),
           (''agent_final_response_rate'', metric (as_final_response_rate s) n []),
           (''agent_memory_provenance_rate'', metric (as_memory_provenance_rate s) memory_actions []),
           (''agent_tool_retry_recovery_rate'',
             metric (as_tool_retry_recovery_rate s) (as_retried_tools s)
               (k ''recovered_tool_count'' (as_recovered_tools s))),
           (''agent_replan_success_rate'',
             metric (as_replan_success_rate s) (as_replans s)
               (k ''successful_replan_count'' (as_successful_replans s))),
           (''agent_recovery_step_success_rate'',
             metric (as_recovery_step_success_rate s) (as_recovery_steps s)
               (k ''successful_recovery_step_count'' (as_successful_recovery_steps s))),
           (''agent_approval_compliance_rate'',
             metric (as_approval_compliance_rate s) (as_checkpoints s)
               (k ''approved_checkpoint_count'' (as_approved_checkpoints s)
                @ k ''denied_checkpoint_count'' (as_denied_checkpoints s))),
           (''agent_approval_provenance_rate'', metric (as_approval_provenance_rate s) (as_checkpoints s) []),
           (''agent_pending_approval_rate'',
             metric (as_pending_approval_rate s) (as_checkpoints s)
               (k ''pending_checkpoint_count'' (as_pending_checkpoints s))),
           (''agent_observation_coverage_rate'', metric (as_observation_coverage_rate s) (as_total_steps s) []),
           (''agent_unrecovered_failure_rate'', metric (as_unrecovered_failure_rate s) n [])]
      })"

definition quality_metrics :: "evidence_bundle \<Rightarrow> metrics" where
  "quality_metrics b =
     (let json_results = filter (\<lambda>r. is_json_case (case_for_result b r)) (bn_results b) in
      [(''mean_quality_score'', mean_metric (List.map_filter br_quality (bn_results b)) []),
       (''json_validity_rate'', share_metric br_json_valid json_results [])])"

definition tail_metrics :: "evidence_bundle \<Rightarrow> metrics option" where
  "tail_metrics b =
     (let ms = bn_metrics b;
          lats = map im_latency_ms ms;
          non_synthetic = (\<lambda>r. br_data_source r \<noteq> SYNTHETIC_SOURCE \<and>
            (case case_for_result b r of None \<Rightarrow> False | Some e \<Rightarrow> ec_data_source e \<noteq> SYNTHETIC_SOURCE));
          critical = (\<lambda>r. case case_for_result b r of None \<Rightarrow> False | Some e \<Rightarrow> ec_criticality e = Critical);
          real_ids = int (length (case_ids non_synthetic b));
          critical_ids = int (length (case_ids critical b))
      in do {
        failures \<leftarrow> those (map (\<lambda>(r, e). is_critical_failure True r (Some e)) (critical_results b));
        Some
          [(''groundedness_score'', mean_metric (List.map_filter br_groundedness (bn_results b)) []),
           (''faithfulness_score'', mean_metric (List.map_filter br_faithfulness (bn_results b)) []),
           (''critical_case_failure_rate'',
             share_metric (\<lambda>f. f) failures [(''failed_critical_cases'', JInt (count_where (\<lambda>f. f) failures))]),
           (''p50_end_to_end_latency_ms'', metric (median lats) (int (length lats)) []),
           (''p95_end_to_end_latency_ms'', percentile_metric (95 / 100) lats),
           (''p95_ttft_ms'', percentile_metric (95 / 100) (map im_ttft_ms ms)),
           (''mean_tokens_per_second'', mean_metric (map im_tokens_per_second ms) []),
           (''p95_gpu_vram_used_mb'', percentile_metric (95 / 100) (List.map_filter im_vram_mb ms)),
           (''oom_rate'', share_metric im_oom ms []),
           (''real_case_count'', metric (Some (of_int real_ids)) real_ids []),
           (''critical_case_count'', metric (Some (of_int critical_ids)) critical_ids [])]
      })"

definition calculate_metrics :: "(rat \<Rightarrow> rat) \<Rightarrow> evidence_bundle \<Rightarrow> metrics option" where
  "calculate_metrics fsqrt b =
     do {
       tools \<leftarrow> tool_metrics b;
       rag \<leftarrow> rag_metrics b;
       runtime \<leftarrow> reliability_metrics fsqrt b;
       agent \<leftarrow> agent_metrics b;
       rest \<leftarrow> tail_metrics b;
       Some (quality_metrics b @ tools @ rag @ runtime @ agent @ rest)
     }"

definition scorecard_entry :: "calc_metric \<Rightarrow> json" where
  "scorecard_entry m =
     JObj [(''value'', opt_json JFloat (cm_value m)), (''sample_size'', JInt (cm_sample_size m)),
           (''details'', cm_details m)]"

definition metrics_to_scorecard :: "metrics \<Rightarrow> json" where
  "metrics_to_scorecard ms = JObj (map (\<lambda>(k, m). (k, scorecard_entry m)) ms)"

end
