(* ===== verification/Release_Rows.thy ===== *)
theory Release_Rows
  imports Gate_Metrics Operator_Policies
begin

text \<open>
  The tables the gate, the baselines and the release decisions write (\<^verbatim>\<open>app/models/evaluation.py\<close>,
  \<^verbatim>\<open>app/models/release.py\<close>), and the lineage log of \<^verbatim>\<open>services/experiment_lineage.py\<close> that each of them
  appends to. The closed vocabularies are those of the tables' check constraints. The surrogate key of
  an action row is left out: actions are identified by their unique \<^verbatim>\<open>dedupe_key\<close>.
\<close>

section \<open>Rows\<close>

datatype verdict = Approved | Conditional | Gate_Blocked | Insufficient

fun verdict_value :: "verdict \<Rightarrow> string" where
  "verdict_value Approved = ''APPROVED''"
| "verdict_value Conditional = ''CONDITIONAL''"
| "verdict_value Gate_Blocked = ''BLOCKED''"
| "verdict_value Insufficient = ''INSUFFICIENT_EVIDENCE''"

datatype gate_status = Gate_Draft | Gate_Completed | Gate_Failed | Gate_Stale

fun gate_status_value :: "gate_status \<Rightarrow> string" where
  "gate_status_value Gate_Draft = ''draft''"
| "gate_status_value Gate_Completed = ''completed''"
| "gate_status_value Gate_Failed = ''failed''"
| "gate_status_value Gate_Stale = ''stale''"

datatype rule_operator = Op_Gte | Op_Lte | Op_Eq | Op_Gt | Op_Lt

fun operator_value :: "rule_operator \<Rightarrow> string" where
  "operator_value Op_Gte = ''gte''"
| "operator_value Op_Lte = ''lte''"
| "operator_value Op_Eq = ''eq''"
| "operator_value Op_Gt = ''gt''"
| "operator_value Op_Lt = ''lt''"

datatype severity = Blocker | Warning

fun severity_value :: "severity \<Rightarrow> string" where
  "severity_value Blocker = ''blocker''"
| "severity_value Warning = ''warning''"

datatype rule_status = Rule_Pass | Rule_Fail | Rule_Insufficient

fun rule_status_value :: "rule_status \<Rightarrow> string" where
  "rule_status_value Rule_Pass = ''pass''"
| "rule_status_value Rule_Fail = ''fail''"
| "rule_status_value Rule_Insufficient = ''insufficient''"

record accept_policy =
  ap_id :: uuid
  ap_workload_id :: uuid
  ap_policy_hash :: string
  ap_allow_conditional :: bool

record policy_rule =
  pr_id :: uuid
  pr_policy_id :: uuid
  pr_metric_key :: string
  pr_name :: string
  pr_operator :: rule_operator
  pr_threshold :: rat
  pr_severity :: severity
  pr_min_sample :: "int option"
  pr_required :: bool
  pr_enabled :: bool
  pr_message :: string

record gate =
  gt_id :: uuid
  gt_config_id :: uuid
  gt_suite_id :: uuid
  gt_policy_id :: uuid
  gt_baseline_gate_id :: "uuid option"
  gt_status :: gate_status
  gt_verdict :: verdict
  gt_snapshot :: json
  gt_scorecard :: json
  gt_summary :: string
  gt_decision_hash :: string
  gt_revision_hash :: "string option"
  gt_stale_at :: "instant option"
  gt_stale_reason :: "string option"
  gt_superseded_by :: "uuid option"
  gt_evaluated_at :: instant

record rule_result =
  rl_gate_id :: uuid
  rl_rule_id :: uuid
  rl_value :: "rat option"
  rl_sample_size :: int
  rl_status :: rule_status
  rl_severity :: severity
  rl_details :: json

datatype baseline_state = Base_Active | Base_Superseded | Base_Archived

record baseline =
  bl_id :: uuid
  bl_config_id :: uuid
  bl_suite_id :: uuid
  bl_policy_id :: uuid
  bl_gate_id :: uuid
  bl_promoted_at :: instant
  bl_promoted_by :: "string option"
  bl_reason :: "string option"
  bl_hash :: string
  bl_status :: baseline_state
  bl_superseded_at :: "instant option"
  bl_superseded_by :: "uuid option"
  bl_notes :: "string option"

fun decision_value :: "release_verb \<Rightarrow> string" where
  "decision_value APPROVE_RELEASE = ''APPROVE_RELEASE''"
| "decision_value REJECT_RELEASE = ''REJECT_RELEASE''"
| "decision_value REQUEST_CHANGES = ''REQUEST_CHANGES''"

datatype readiness_status = Ready | Ready_To_Promote | Needs_Review | Blocked_Readiness | Insufficient_Readiness

fun readiness_status_value :: "readiness_status \<Rightarrow> string" where
  "readiness_status_value Ready = ''READY''"
| "readiness_status_value Ready_To_Promote = ''READY_TO_PROMOTE''"
| "readiness_status_value Needs_Review = ''NEEDS_REVIEW''"
| "readiness_status_value Blocked_Readiness = ''BLOCKED''"
| "readiness_status_value Insufficient_Readiness = ''INSUFFICIENT_EVIDENCE''"

record release_decision =
  rd_id :: uuid
  rd_gate_id :: uuid
  rd_config_id :: uuid
  rd_suite_id :: uuid
  rd_policy_id :: uuid
  rd_decision :: release_verb
  rd_readiness :: readiness_status
  rd_decided_at :: instant
  rd_decided_by :: string
  rd_signer :: json
  rd_identity_verified :: bool
  rd_signature_hash :: string
  rd_signature_statement :: string
  rd_approval_policy :: json
  rd_reason :: string
  rd_notes :: "string option"
  rd_snapshot_hash :: string
  rd_snapshot :: json
  rd_decision_hash :: string
  rd_replaces :: "uuid option"

datatype action_kind = Stale_Detected | Review_Requested | Acknowledged | Revoked | Replaced

fun action_value :: "action_kind \<Rightarrow> string" where
  "action_value Stale_Detected = ''stale_detected''"
| "action_value Review_Requested = ''review_requested''"
| "action_value Acknowledged = ''acknowledged''"
| "action_value Revoked = ''revoked''"
| "action_value Replaced = ''replaced''"

record release_action =
  ra_decision_id :: uuid
  ra_type :: action_kind
  ra_dedupe_key :: string
  ra_actor :: json
  ra_reason :: string
  ra_source_gate_id :: "uuid option"
  ra_replacement_id :: "uuid option"
  ra_metadata :: json
  ra_occurred_at :: instant

datatype event_kind = Gate_Completed_Event | Baseline_Promoted_Event | Baseline_Superseded_Event | Decision_Signed_Event

record lineage_event =
  le_type :: event_kind
  le_primary_id :: uuid
  le_time :: instant
  le_key :: string
  le_config_id :: uuid
  le_suite_id :: uuid
  le_policy_id :: uuid
  le_prompt_id :: "uuid option"
  le_gate_id :: uuid
  le_baseline_id :: "uuid option"
  le_decision_id :: "uuid option"
  le_status :: string
  le_summary :: string
  le_metadata :: json

record gate_db =
  g_evidence :: evidence_db
  g_policies :: "accept_policy list"
  g_rules :: "policy_rule list"
  g_gates :: "gate list"
  g_rule_results :: "rule_result list"
  g_baselines :: "baseline list"
  g_decisions :: "release_decision list"
  g_actions :: "release_action list"
  g_lineage :: "lineage_event list"

datatype gate_error =
    Missing string
  | Tool_Fault_Fixture
  | Workloads_Differ
  | Policy_Workload_Mismatch
  | Baseline_Scope_Mismatch
  | Malformed_Evidence
  | Only_Completed_Promotable
  | Only_Approved_Promotable
  | Duplicate_Id
  | Operation_Reason_Required
  | Same_Gate_Replacement
  | Replacement_Scope_Mismatch
  | Already_Replaced
  | Readiness_Required
  | Policy_Refused policy_error
  | Operator_Required
  | Replaced_Is_Final
  | Not_An_Approval
  | Already_Revoked
  | No_Review_Required

section \<open>The lineage log\<close>

definition id_part :: "string \<Rightarrow> uuid option \<Rightarrow> string" where
  "id_part label v = label @ '':'' @ (case v of None \<Rightarrow> ''none'' | Some i \<Rightarrow> i)"

definition lineage_key :: "uuid \<Rightarrow> uuid \<Rightarrow> uuid \<Rightarrow> uuid option \<Rightarrow> string" where
  "lineage_key cfg suite policy prompt =
     join ''|'' [id_part ''deployment'' (Some cfg), id_part ''suite'' (Some suite),
               id_part ''policy'' (Some policy), id_part ''prompt'' prompt]"

text \<open>\<^verbatim>\<open>_record_lineage_event\<close>: one event per kind and entity; a second recording finds the first.\<close>

definition record_lineage_event :: "lineage_event \<Rightarrow> lineage_event list \<Rightarrow> lineage_event list" where
  "record_lineage_event e evs =
     (if list_ex (\<lambda>x. le_type x = le_type e \<and> le_primary_id x = le_primary_id e) evs then evs else evs @ [e])"

text \<open>The run identifiers of a gate's snapshot, and the prompt versions of these runs.\<close>

definition snapshot_run_ids :: "gate option \<Rightarrow> json" where
  "snapshot_run_ids g =
     (case g of None \<Rightarrow> JArr [] | Some x \<Rightarrow> jget_or (or_empty_dict (gt_snapshot x)) ''benchmark_run_ids'' (JArr []))"

definition prompt_ids_for_run_ids :: "evidence_db \<Rightarrow> json \<Rightarrow> uuid list" where
  "prompt_ids_for_run_ids db run_ids =
     (case run_ids of
        JArr ids \<Rightarrow> fromkeys (map rn_prompt_id (filter (\<lambda>r. JStr (rn_id r) \<in> set ids) (e_runs db)))
      | _ \<Rightarrow> [])"

definition single_prompt :: "uuid list \<Rightarrow> uuid option" where
  "single_prompt ids = (case ids of [p] \<Rightarrow> Some p | _ \<Rightarrow> None)"

abbreviation gate_find :: "uuid \<Rightarrow> gate list \<Rightarrow> gate option" where
  "gate_find \<equiv> row_find gt_id"

definition gate_event :: "gate_db \<Rightarrow> gate \<Rightarrow> lineage_event" where
  "gate_event db g =
     (let prompts = prompt_ids_for_run_ids (g_evidence db) (snapshot_run_ids (Some g)) in
      \<lparr>le_type = Gate_Completed_Event, le_primary_id = gt_id g, le_time = gt_evaluated_at g,
       le_key = lineage_key (gt_config_id g) (gt_suite_id g) (gt_policy_id g) (single_prompt prompts),
       le_config_id = gt_config_id g, le_suite_id = gt_suite_id g, le_policy_id = gt_policy_id g,
       le_prompt_id = single_prompt prompts, le_gate_id = gt_id g, le_baseline_id = None,
       le_decision_id = None, le_status = ''recorded'',
       le_summary = ''Gate evaluation '' @ take 8 (gt_id g) @ '' returned '' @ verdict_value (gt_verdict g) @ ''.'',
       le_metadata = JObj
         [(''verdict'', JStr (verdict_value (gt_verdict g))),
          (''decision_hash'', JStr (gt_decision_hash g)),
          (''baseline_gate_evaluation_id'', opt_str (gt_baseline_gate_id g)),
          (''benchmark_run_ids'', snapshot_run_ids (Some g)),
          (''prompt_version_ids'', JArr (map JStr prompts))]\<rparr>)"

definition baseline_event :: "gate_db \<Rightarrow> baseline \<Rightarrow> lineage_event" where
  "baseline_event db b =
     (let prompts = prompt_ids_for_run_ids (g_evidence db)
            (snapshot_run_ids (gate_find (bl_gate_id b) (g_gates db))) in
      \<lparr>le_type = Baseline_Promoted_Event, le_primary_id = bl_id b, le_time = bl_promoted_at b,
       le_key = lineage_key (bl_config_id b) (bl_suite_id b) (bl_policy_id b) (single_prompt prompts),
       le_config_id = bl_config_id b, le_suite_id = bl_suite_id b, le_policy_id = bl_policy_id b,
       le_prompt_id = single_prompt prompts, le_gate_id = bl_gate_id b, le_baseline_id = Some (bl_id b),
       le_decision_id = None, le_status = ''recorded'',
       le_summary = ''Gate '' @ take 8 (bl_gate_id b) @ '' was promoted as baseline.'',
       le_metadata = JObj
         [(''baseline_hash'', JStr (bl_hash b)), (''promoted_by'', opt_str (bl_promoted_by b)),
          (''promotion_reason'', opt_str (bl_reason b)),
          (''prompt_version_ids'', JArr (map JStr prompts))]\<rparr>)"

definition superseded_event :: "baseline \<Rightarrow> instant \<Rightarrow> lineage_event" where
  "superseded_event b updated_at =
     \<lparr>le_type = Baseline_Superseded_Event, le_primary_id = bl_id b,
      le_time = (case bl_superseded_at b of None \<Rightarrow> updated_at | Some t \<Rightarrow> t),
      le_key = lineage_key (bl_config_id b) (bl_suite_id b) (bl_policy_id b) None,
      le_config_id = bl_config_id b, le_suite_id = bl_suite_id b, le_policy_id = bl_policy_id b,
      le_prompt_id = None, le_gate_id = bl_gate_id b, le_baseline_id = Some (bl_id b),
      le_decision_id = None, le_status = ''superseded'',
      le_summary = ''Baseline '' @ take 8 (bl_id b) @ '' was superseded.'',
      le_metadata = JObj [(''baseline_hash'', JStr (bl_hash b)),
                          (''superseded_by_baseline_id'', opt_str (bl_superseded_by b))]\<rparr>"

definition decision_event :: "gate_db \<Rightarrow> release_decision \<Rightarrow> lineage_event" where
  "decision_event db d =
     (let prompts = prompt_ids_for_run_ids (g_evidence db)
            (snapshot_run_ids (gate_find (rd_gate_id d) (g_gates db))) in
      \<lparr>le_type = Decision_Signed_Event, le_primary_id = rd_id d, le_time = rd_decided_at d,
       le_key = lineage_key (rd_config_id d) (rd_suite_id d) (rd_policy_id d) (single_prompt prompts),
       le_config_id = rd_config_id d, le_suite_id = rd_suite_id d, le_policy_id = rd_policy_id d,
       le_prompt_id = single_prompt prompts, le_gate_id = rd_gate_id d, le_baseline_id = None,
       le_decision_id = Some (rd_id d), le_status = ''recorded'',
       le_summary = ''Release decision '' @ take 8 (rd_id d) @ '' signed '' @ decision_value (rd_decision d) @ ''.'',
       le_metadata = JObj
         [(''decision'', JStr (decision_value (rd_decision d))),
          (''release_readiness_status'', JStr (readiness_status_value (rd_readiness d))),
          (''decided_by'', JStr (rd_decided_by d)),
          (''identity_verified'', JBool (rd_identity_verified d)),
          (''signer_identity'', rd_signer d), (''approval_policy'', rd_approval_policy d),
          (''decision_hash'', JStr (rd_decision_hash d)), (''signature_hash'', JStr (rd_signature_hash d)),
          (''snapshot_hash'', JStr (rd_snapshot_hash d)),
          (''prompt_version_ids'', JArr (map JStr prompts))]\<rparr>)"

lemma record_lineage_prefix: "prefix evs (record_lineage_event e evs)"
  by (simp add: record_lineage_event_def)

lemma record_lineage_member:
  "\<exists>x \<in> set (record_lineage_event e evs). le_type x = le_type e \<and> le_primary_id x = le_primary_id e"
  by (auto simp: record_lineage_event_def list_ex_iff)

end
