(* ===== verification/Deployment_Gate.thy ===== *)
theory Deployment_Gate
  imports Release_Rows
begin

text \<open>
  The deployment gate (\<^verbatim>\<open>services/deployment_gate/policy.py\<close>, \<^verbatim>\<open>regression.py\<close>, \<^verbatim>\<open>evaluator.py\<close>,
  \<^verbatim>\<open>baselines.py\<close>, \<^verbatim>\<open>staleness.py\<close>, \<^verbatim>\<open>preflight.py\<close>): the evaluation of policy rules against the metrics,
  the verdict and its explanation, the creation of a gate evaluation with the staleness it causes, and
  the promotion of baselines. Each service call is one function from the tables to the tables it
  commits.

  The environment supplies the clock, fresh identifiers, SHA-256 (\<open>sha\<close>), the square root of
  \<^verbatim>\<open>pstdev\<close> (\<open>fsqrt\<close>), and the runs for which the supply-chain registry holds a verified capture
  receipt (\<open>verified\<close>, the answer of \<^verbatim>\<open>verified_production_run_ids\<close>, a component not modelled here).
\<close>

record gate_env =
  env_sha :: "string \<Rightarrow> string"
  env_sqrt :: "rat \<Rightarrow> rat"
  env_thresholds :: trust_thresholds
  env_verified :: "uuid list \<Rightarrow> uuid list"

section \<open>Policy rules\<close>

record evaluated_rule =
  er_rule :: policy_rule
  er_value :: "rat option"
  er_sample_size :: int
  er_status :: rule_status
  er_details :: json

fun compare_op :: "rat \<Rightarrow> rule_operator \<Rightarrow> rat \<Rightarrow> bool" where
  "compare_op v Op_Gte t = (v \<ge> t)"
| "compare_op v Op_Lte t = (v \<le> t)"
| "compare_op v Op_Eq t = (v = t)"
| "compare_op v Op_Gt t = (v > t)"
| "compare_op v Op_Lt t = (v < t)"

definition evaluate_rule :: "metrics \<Rightarrow> policy_rule \<Rightarrow> evaluated_rule" where
  "evaluate_rule ms rule =
     (let missing =
        \<lparr>er_rule = rule, er_value = None, er_sample_size = 0, er_status = Rule_Insufficient,
         er_details = JObj [(''reason'', JStr ''Required metric was not available.''),
                            (''required'', JBool (pr_required rule))]\<rparr>
      in case map_of ms (pr_metric_key rule) of
           None \<Rightarrow> missing
         | Some m \<Rightarrow>
             (case cm_value m of
                None \<Rightarrow> missing
              | Some v \<Rightarrow>
                  if (case pr_min_sample rule of None \<Rightarrow> False | Some n \<Rightarrow> cm_sample_size m < n)
                  then \<lparr>er_rule = rule, er_value = Some v, er_sample_size = cm_sample_size m,
                        er_status = Rule_Insufficient,
                        er_details = JObj [(''reason'', JStr ''Minimum sample size was not met.''),
                                           (''minimum_sample_size'', opt_json JInt (pr_min_sample rule))]\<rparr>
                  else let ok = compare_op v (pr_operator rule) (pr_threshold rule) in
                       \<lparr>er_rule = rule, er_value = Some v, er_sample_size = cm_sample_size m,
                        er_status = (if ok then Rule_Pass else Rule_Fail),
                        er_details = dict_merge
                          (JObj [(''operator'', JStr (operator_value (pr_operator rule))),
                                 (''threshold_value'', JFloat (pr_threshold rule)),
                                 (''message_on_fail'', if ok then JNull else JStr (pr_message rule))])
                          (cm_details m)\<rparr>))"

definition evaluate_policy_rules :: "policy_rule list \<Rightarrow> metrics \<Rightarrow> evaluated_rule list" where
  "evaluate_policy_rules rules ms = map (evaluate_rule ms) (filter pr_enabled rules)"

section \<open>Regression against the baseline\<close>

definition dict_put :: "'k \<Rightarrow> 'v \<Rightarrow> ('k \<times> 'v) list \<Rightarrow> ('k \<times> 'v) list" where
  "dict_put k v kvs =
     (if k \<in> fst ` set kvs then map (\<lambda>(l, w). (l, if l = k then v else w)) kvs else kvs @ [(k, v)])"

text \<open>\<^verbatim>\<open>scorecard.get(key, {}).get("value")\<close>; \<open>None\<close> when the entry is not an object.\<close>

definition scorecard_value :: "json \<Rightarrow> string \<Rightarrow> json option" where
  "scorecard_value sc k =
     (let e = jget_or sc k (JObj []) in if is_dict e then Some (jget e ''value'') else None)"

text \<open>\<^verbatim>\<open>current - baseline if both are not None else None\<close>; the outer \<open>None\<close> is the \<^verbatim>\<open>TypeError\<close> of a non-number.\<close>

definition minus_value :: "rat option \<Rightarrow> json \<Rightarrow> rat option option" where
  "minus_value current base =
     (case current of
        None \<Rightarrow> Some None
      | Some c \<Rightarrow> if base = JNull then Some None
                  else map_option (\<lambda>b. Some (c - b)) (number_or_bool base))"

definition regression_metric :: "metrics \<Rightarrow> json \<Rightarrow> string \<Rightarrow> calc_metric option" where
  "regression_metric ms sc k =
     do {
       m \<leftarrow> map_of ms k;
       base \<leftarrow> scorecard_value sc k;
       d \<leftarrow> minus_value (cm_value m) base;
       Some (metric d (if d = None then 0 else cm_sample_size m) [(''baseline_value'', base)])
     }"

definition no_baseline_metric :: calc_metric where
  "no_baseline_metric = metric None 0 [(''reason'', JStr ''No baseline gate evaluation was provided.'')]"

definition apply_baseline_regressions :: "metrics \<Rightarrow> json \<Rightarrow> metrics option" where
  "apply_baseline_regressions ms sc =
     (if \<not> truthy sc
      then Some (dict_put ''latency_regression_vs_baseline'' no_baseline_metric
                  (dict_put ''quality_regression_vs_baseline'' no_baseline_metric ms))
      else do {
        q \<leftarrow> regression_metric ms sc ''mean_quality_score'';
        l \<leftarrow> regression_metric ms sc ''p95_end_to_end_latency_ms'';
        Some (dict_put ''latency_regression_vs_baseline'' l
               (dict_put ''quality_regression_vs_baseline'' q ms))
      })"

section \<open>The verdict\<close>

definition required_insufficient :: "evaluated_rule list \<Rightarrow> bool" where
  "required_insufficient rules \<longleftrightarrow> list_ex (\<lambda>r. pr_required (er_rule r) \<and> er_status r = Rule_Insufficient) rules"

definition failed_with :: "severity \<Rightarrow> evaluated_rule \<Rightarrow> bool" where
  "failed_with s r \<longleftrightarrow> er_status r = Rule_Fail \<and> pr_severity (er_rule r) = s"

definition resolve_verdict ::
  "bool \<Rightarrow> bool \<Rightarrow> bool \<Rightarrow> evaluated_rule list \<Rightarrow> bool \<Rightarrow> bool \<Rightarrow> verdict" where
  "resolve_verdict missing synthetic_only insufficient rules critical_failure allow_conditional =
     (if missing \<or> synthetic_only \<or> insufficient then Insufficient
      else if list_ex (failed_with Blocker) rules then Gate_Blocked
      else if critical_failure then Gate_Blocked
      else if list_ex (failed_with Warning) rules
           then if allow_conditional then Conditional else Gate_Blocked
      else Approved)"

definition rule_action :: "evaluated_rule \<Rightarrow> string list" where
  "rule_action r =
     (case er_status r of
        Rule_Pass \<Rightarrow> []
      | Rule_Fail \<Rightarrow> [pr_message (er_rule r)]
      | Rule_Insufficient \<Rightarrow> [''Collect enough evidence for '' @ pr_metric_key (er_rule r) @ ''.''])"

definition gate_next_actions ::
  "verdict \<Rightarrow> bool \<Rightarrow> evaluated_rule list \<Rightarrow> critical_outcome list \<Rightarrow> trust_summary \<Rightarrow> string list" where
  "gate_next_actions v synthetic_only rules critical_failures trust =
     fromkeys
       (when_msg synthetic_only ''Replace synthetic_demo evaluation cases with real captured benchmark cases.''
        @ concat (map rule_action rules)
        @ when_msg (critical_failures \<noteq> []) ''Inspect and fix failed critical evaluation cases before approval.''
        @ when_msg (ts_status trust = Needs_Judge_Review)
            ''Apply judge labels to meet local evidence review coverage.''
        @ when_msg (ts_readiness trust \<noteq> Production_Ready)
            ''Collect reviewed production-captured evidence for production readiness.''
        @ when_msg (v = Approved)
            ''Promote this gate evaluation as the deployment baseline if operationally ready.'')"

definition action_href :: "string \<Rightarrow> string" where
  "action_href action =
     (let n = lower action in
      if contains ''judge'' n \<or> contains ''critical'' n then ''/judge-labels''
      else if contains ''baseline'' n then ''/deployment-baselines''
      else if contains ''production'' n \<or> contains ''evidence'' n then ''/benchmark-executions/new''
      else ''/deployment-gates'')"

definition rule_blockers :: "evaluated_rule list \<Rightarrow> json list" where
  "rule_blockers rules =
     map (\<lambda>r. JObj
        [(''code'', JStr (''policy_rule_'' @ rule_status_value (er_status r))),
         (''title'', JStr (pr_name (er_rule r))),
         (''detail'', JStr (pr_message (er_rule r))),
         (''severity'', JStr (if pr_severity (er_rule r) = Blocker then ''blocking'' else ''warning'')),
         (''sample_ids'', JArr [])])
       (filter (\<lambda>r. er_status r \<noteq> Rule_Pass \<and> pr_severity (er_rule r) = Blocker) rules)"

definition critical_blockers :: "critical_outcome list \<Rightarrow> json list" where
  "critical_blockers failures =
     map (\<lambda>c. JObj
        [(''code'', JStr ''critical_case_failure''),
         (''title'', JStr (if ec_title (co_case c) = [] then ''Critical case failed'' else ec_title (co_case c))),
         (''detail'', JStr ''A critical evaluation case failed and requires review.''),
         (''severity'', JStr ''blocking''),
         (''sample_ids'', JArr [JStr (br_sample_id (co_result c))])]) failures"

definition decision_explanation ::
  "verdict \<Rightarrow> string \<Rightarrow> evaluated_rule list \<Rightarrow> critical_outcome list \<Rightarrow> trust_summary \<Rightarrow> string list \<Rightarrow> json" where
  "decision_explanation v summary rules failures trust next_actions =
     JObj
       [(''summary'', JStr summary),
        (''verdict'', JStr (verdict_value v)),
        (''blockers'', JArr (rule_blockers rules @ critical_blockers failures)),
        (''warnings'', JArr
          (map (\<lambda>r. JObj [(''code'', JStr ''policy_warning''), (''title'', JStr (pr_name (er_rule r))),
                          (''detail'', JStr (pr_message (er_rule r))), (''severity'', JStr ''warning'')])
             (filter (failed_with Warning) rules)
           @ map (\<lambda>l. JObj [(''code'', JStr ''evidence_trust_limitation''),
                            (''title'', JStr ''Evidence trust limitation''), (''detail'', JStr l),
                            (''severity'', JStr ''warning'')]) (ts_limitations trust))),
        (''next_actions'', JArr
          (map (\<lambda>(i, a). JObj [(''code'', JStr (''next_action_'' @ show_nat i)), (''title'', JStr a),
                               (''description'', JStr a), (''href'', JStr (action_href a))])
             (zip [1..<Suc (length next_actions)] next_actions)))]"

definition decision_summary ::
  "verdict \<Rightarrow> bool \<Rightarrow> bool \<Rightarrow> evaluated_rule list \<Rightarrow> critical_outcome list \<Rightarrow> string" where
  "decision_summary v synthetic_only missing rules failures =
     (case v of
        Approved \<Rightarrow> ''APPROVED: all required policy rules passed with sufficient non-synthetic evidence.''
      | Insufficient \<Rightarrow> ''INSUFFICIENT_EVIDENCE: '' @
          join ''; ''
            (when_msg synthetic_only ''available evidence is not backed by non-synthetic evaluation cases''
             @ when_msg missing ''mandatory benchmark evidence is missing''
             @ when_msg (required_insufficient rules) ''one or more required policy metrics are insufficient'')
      | Gate_Blocked \<Rightarrow> ''BLOCKED: '' @ show_nat (length (filter (failed_with Blocker) rules))
          @ '' blocker rule(s) failed and '' @ show_nat (length failures)
          @ '' critical case failure(s) were detected.''
      | Conditional \<Rightarrow> ''CONDITIONAL: blocker rules passed, but ''
          @ show_nat (length (filter (failed_with Warning) rules)) @ '' warning rule(s) require review.'')"

section \<open>Baselines\<close>

definition baseline_in_scope :: "uuid \<Rightarrow> uuid \<Rightarrow> uuid \<Rightarrow> baseline \<Rightarrow> bool" where
  "baseline_in_scope cfg suite policy b \<longleftrightarrow>
     bl_config_id b = cfg \<and> bl_suite_id b = suite \<and> bl_policy_id b = policy"

definition active_baselines_for_scope :: "gate_db \<Rightarrow> uuid \<Rightarrow> uuid \<Rightarrow> uuid \<Rightarrow> baseline list" where
  "active_baselines_for_scope db cfg suite policy =
     sort_key (\<lambda>b. - bl_promoted_at b)
       (filter (\<lambda>b. baseline_in_scope cfg suite policy b \<and> bl_status b = Base_Active) (g_baselines db))"

definition get_active_baseline_gate :: "gate_db \<Rightarrow> uuid \<Rightarrow> uuid \<Rightarrow> uuid \<Rightarrow> gate option" where
  "get_active_baseline_gate db cfg suite policy =
     (case active_baselines_for_scope db cfg suite policy of
        [] \<Rightarrow> None
      | b # _ \<Rightarrow> gate_find (bl_gate_id b) (g_gates db))"

definition baseline_hash :: "(string \<Rightarrow> string) \<Rightarrow> gate \<Rightarrow> string" where
  "baseline_hash sha g =
     (let snapshot = or_empty_dict (gt_snapshot g) in
      stable_hash sha (JObj
        [(''gate_evaluation_id'', JStr (gt_id g)),
         (''decision_hash'', JStr (gt_decision_hash g)),
         (''deployment_configuration_id'', JStr (gt_config_id g)),
         (''evaluation_suite_id'', JStr (gt_suite_id g)),
         (''acceptance_policy_id'', JStr (gt_policy_id g)),
         (''configuration_hash'', jget snapshot ''configuration_hash''),
         (''suite_hash'', jget snapshot ''suite_hash''),
         (''policy_hash'', jget snapshot ''policy_hash''),
         (''scorecard_metrics'', jget_or (or_empty_dict (gt_scorecard g)) ''metrics'' (JObj [])),
         (''verdict'', JStr (verdict_value (gt_verdict g)))]))"

record promotion_request =
  pq_gate_id :: uuid
  pq_promoted_by :: "string option"
  pq_reason :: "string option"
  pq_notes :: "string option"

definition supersede_baseline :: "uuid \<Rightarrow> instant \<Rightarrow> baseline \<Rightarrow> baseline" where
  "supersede_baseline new_id now b =
     b\<lparr>bl_status := Base_Superseded, bl_superseded_at := Some now, bl_superseded_by := Some new_id\<rparr>"

definition promote_gate_evaluation_as_baseline ::
  "gate_env \<Rightarrow> promotion_request \<Rightarrow> instant \<Rightarrow> uuid \<Rightarrow> gate_db \<Rightarrow> gate_error + gate_db \<times> baseline" where
  "promote_gate_evaluation_as_baseline env q now new_id db =
     (case gate_find (pq_gate_id q) (g_gates db) of
        None \<Rightarrow> Inl (Missing ''gate_evaluation'')
      | Some g \<Rightarrow>
          if gt_status g \<noteq> Gate_Completed then Inl Only_Completed_Promotable
          else if gt_verdict g \<noteq> Approved then Inl Only_Approved_Promotable
          else if new_id \<in> bl_id ` set (g_baselines db) then Inl Duplicate_Id
          else
            let previous = active_baselines_for_scope db (gt_config_id g) (gt_suite_id g) (gt_policy_id g);
                b = \<lparr>bl_id = new_id, bl_config_id = gt_config_id g, bl_suite_id = gt_suite_id g,
                     bl_policy_id = gt_policy_id g, bl_gate_id = gt_id g, bl_promoted_at = now,
                     bl_promoted_by = pq_promoted_by q, bl_reason = pq_reason q,
                     bl_hash = baseline_hash (env_sha env) g, bl_status = Base_Active,
                     bl_superseded_at = None, bl_superseded_by = None, bl_notes = pq_notes q\<rparr>;
                superseded = map (supersede_baseline new_id now) previous;
                lineage = fold (\<lambda>p. record_lineage_event (superseded_event p now)) superseded
                            (record_lineage_event (baseline_event db b) (g_lineage db))
            in Inr (db\<lparr>g_baselines := fold (row_put bl_id) superseded (g_baselines db @ [b]),
                       g_lineage := lineage\<rparr>, b))"

definition list_deployment_baselines ::
  "bool \<Rightarrow> uuid option \<Rightarrow> uuid option \<Rightarrow> uuid option \<Rightarrow> nat \<Rightarrow> nat \<Rightarrow> gate_db \<Rightarrow> baseline list" where
  "list_deployment_baselines active_only cfg suite policy limit offset db =
     take limit (drop offset (sort_key (\<lambda>b. - bl_promoted_at b)
       (filter (\<lambda>b. (active_only \<longrightarrow> bl_status b = Base_Active)
                 \<and> (cfg = None \<or> cfg = Some (bl_config_id b)) \<and> (suite = None \<or> suite = Some (bl_suite_id b))
                 \<and> (policy = None \<or> policy = Some (bl_policy_id b))) (g_baselines db))))"

section \<open>Staleness\<close>

text \<open>\<^verbatim>\<open>_add_release_action\<close> of \<^verbatim>\<open>services/release_decisions.py\<close>: a blank reason raises.\<close>

definition add_release_action :: "release_action \<Rightarrow> gate_db \<Rightarrow> gate_error + gate_db" where
  "add_release_action a db =
     (let reason = strip (ra_reason a) in
      if reason = [] then Inl Operation_Reason_Required
      else Inr (db\<lparr>g_actions := g_actions db @ [a\<lparr>ra_reason := reason\<rparr>]\<rparr>))"

definition RELEASE_OPERATION_VERSION :: string where
  "RELEASE_OPERATION_VERSION = ''release-decision-operations-v1''"

definition stale_reconciler :: signer_identity where
  "stale_reconciler =
     \<lparr>subject_id = ''gate-staleness-reconciler'', display_name = ''Gate Staleness Reconciler'',
      role = Some ''System Worker'', identity_provider = ''model-atlas'',
      auth_source = ''gate_evidence_reconciliation'', identity_verified = True, ticket_reference = None\<rparr>"

definition stale_dedupe_key :: "release_decision \<Rightarrow> gate \<Rightarrow> string" where
  "stale_dedupe_key d g = ''stale:'' @ rd_id d @ '':'' @ gt_id g"

definition stale_action :: "gate \<Rightarrow> string \<Rightarrow> instant \<Rightarrow> release_decision \<Rightarrow> release_action" where
  "stale_action g reason now d =
     \<lparr>ra_decision_id = rd_id d, ra_type = Stale_Detected, ra_dedupe_key = stale_dedupe_key d g,
      ra_actor = identity_to_json stale_reconciler, ra_reason = reason,
      ra_source_gate_id = Some (gt_id g), ra_replacement_id = None,
      ra_metadata = JObj [(''schema_version'', JStr RELEASE_OPERATION_VERSION),
                          (''gate_status'', JStr (gate_status_value (gt_status g))),
                          (''evidence_revision_hash'', opt_str (gt_revision_hash g))],
      ra_occurred_at = now\<rparr>"

fun record_stale_actions ::
  "gate \<Rightarrow> string \<Rightarrow> instant \<Rightarrow> release_decision list \<Rightarrow> gate_db \<Rightarrow> gate_error + gate_db" where
  "record_stale_actions g reason now [] db = Inr db"
| "record_stale_actions g reason now (d # ds) db =
     (if stale_dedupe_key d g \<in> ra_dedupe_key ` set (g_actions db)
      then record_stale_actions g reason now ds db
      else bind_res (add_release_action (stale_action g reason now d) db)
             (record_stale_actions g reason now ds))"

definition record_stale_release_actions ::
  "gate \<Rightarrow> string \<Rightarrow> instant \<Rightarrow> gate_db \<Rightarrow> gate_error + gate_db" where
  "record_stale_release_actions g reason now db =
     record_stale_actions g reason now
       (filter (\<lambda>d. rd_gate_id d = gt_id g \<and> rd_decision d = APPROVE_RELEASE) (g_decisions db)) db"

definition current_scope_evidence_revision_hash :: "gate_env \<Rightarrow> evidence_db \<Rightarrow> uuid \<Rightarrow> uuid \<Rightarrow> string" where
  "current_scope_evidence_revision_hash env db cfg suite =
     (case (row_find dc_id cfg (e_configs db), row_find es_id suite (e_suites db)) of
        (Some c, Some s) \<Rightarrow> evidence_revision_hash (env_sha env) (collect_evidence db c s)
      | _ \<Rightarrow> [])"

definition frozen_hash :: "gate \<Rightarrow> string" where
  "frozen_hash g =
     (if text_set (gt_revision_hash g) then text_or_empty (gt_revision_hash g)
      else str_or_empty (jget (or_empty_dict (gt_snapshot g)) ''evidence_revision_hash''))"

definition goes_stale :: "uuid \<Rightarrow> uuid \<Rightarrow> string \<Rightarrow> uuid option \<Rightarrow> gate \<Rightarrow> bool" where
  "goes_stale cfg suite hash excluded g \<longleftrightarrow>
     gt_config_id g = cfg \<and> gt_suite_id g = suite \<and> gt_status g = Gate_Completed \<and>
     (case excluded of None \<Rightarrow> True | Some i \<Rightarrow> gt_id g \<noteq> i) \<and> frozen_hash g \<noteq> hash"

definition mark_stale :: "instant \<Rightarrow> string \<Rightarrow> gate \<Rightarrow> gate" where
  "mark_stale now reason g = g\<lparr>gt_status := Gate_Stale, gt_stale_at := Some now, gt_stale_reason := Some reason\<rparr>"

fun record_all_stale :: "gate list \<Rightarrow> string \<Rightarrow> instant \<Rightarrow> gate_db \<Rightarrow> gate_error + gate_db" where
  "record_all_stale [] reason now db = Inr db"
| "record_all_stale (g # gs) reason now db =
     bind_res (record_stale_release_actions g reason now db) (record_all_stale gs reason now)"

text \<open>The answer holds the gates that went stale, as written.\<close>

definition mark_scope_gates_stale ::
  "gate_env \<Rightarrow> uuid \<Rightarrow> uuid \<Rightarrow> string option \<Rightarrow> string \<Rightarrow> instant \<Rightarrow> uuid option \<Rightarrow> gate_db \<Rightarrow>
   gate_error + gate_db \<times> gate list" where
  "mark_scope_gates_stale env cfg suite current reason now excluded db =
     (let hash = (if text_set current then text_or_empty current
                  else current_scope_evidence_revision_hash env (g_evidence db) cfg suite);
          st = goes_stale cfg suite hash excluded;
          stale = map (mark_stale now reason) (filter st (g_gates db));
          db1 = db\<lparr>g_gates := map (\<lambda>g. if st g then mark_stale now reason g else g) (g_gates db)\<rparr>
      in bind_res (record_all_stale stale reason now db1) (\<lambda>db2. Inr (db2, stale)))"

definition supersede_stale_gates :: "gate \<Rightarrow> gate_db \<Rightarrow> gate_db" where
  "supersede_stale_gates new db =
     db\<lparr>g_gates := map (\<lambda>g. if gt_config_id g = gt_config_id new \<and> gt_suite_id g = gt_suite_id new
                               \<and> gt_status g = Gate_Stale \<and> gt_superseded_by g = None
                            then g\<lparr>gt_superseded_by := Some (gt_id new)\<rparr> else g) (g_gates db)\<rparr>"

definition RECONCILE_REASON :: string where
  "RECONCILE_REASON =
     ''Evidence revisions changed after this Gate evaluation. A new Gate evaluation is required.''"

fun mark_scopes_stale ::
  "gate_env \<Rightarrow> instant \<Rightarrow> (uuid \<times> uuid) list \<Rightarrow> gate_db \<Rightarrow> gate_error + gate_db \<times> nat" where
  "mark_scopes_stale env now [] db = Inr (db, 0)"
| "mark_scopes_stale env now ((cfg, suite) # scopes) db =
     bind_res (mark_scope_gates_stale env cfg suite None RECONCILE_REASON now None db) (\<lambda>(db1, stale).
     bind_res (mark_scopes_stale env now scopes db1) (\<lambda>(db2, n). Inr (db2, length stale + n)))"

record staleness_report =
  sr_scanned :: nat
  sr_stale :: nat
  sr_scopes :: nat
  sr_at :: instant

definition reconcile_all_gate_staleness ::
  "gate_env \<Rightarrow> instant \<Rightarrow> gate_db \<Rightarrow> gate_error + gate_db \<times> staleness_report" where
  "reconcile_all_gate_staleness env now db =
     (let gates = filter (\<lambda>g. gt_status g = Gate_Completed) (g_gates db);
          scopes = fromkeys (map (\<lambda>g. (gt_config_id g, gt_suite_id g)) gates)
      in bind_res (mark_scopes_stale env now scopes db) (\<lambda>(db1, n).
           Inr (db1, \<lparr>sr_scanned = length gates, sr_stale = n, sr_scopes = length scopes, sr_at = now\<rparr>)))"

definition get_gate_evaluation ::
  "gate_env \<Rightarrow> instant \<Rightarrow> uuid \<Rightarrow> gate_db \<Rightarrow> gate_db \<times> (gate_error + gate)" where
  "get_gate_evaluation env now i db =
     (case reconcile_all_gate_staleness env now db of
        Inl e \<Rightarrow> (db, Inl e)
      | Inr (db1, _) \<Rightarrow> (db1, of_option (Missing ''gate_evaluation'') (gate_find i (g_gates db1))))"

definition list_gate_evaluations ::
  "gate_env \<Rightarrow> instant \<Rightarrow> nat \<Rightarrow> nat \<Rightarrow> gate_db \<Rightarrow> gate_db \<times> (gate_error + gate list)" where
  "list_gate_evaluations env now limit offset db =
     (case reconcile_all_gate_staleness env now db of
        Inl e \<Rightarrow> (db, Inl e)
      | Inr (db1, _) \<Rightarrow> (db1, Inr (take limit (drop offset (rev (g_gates db1))))))"

section \<open>Creating a gate evaluation\<close>

record gate_request =
  gq_config_id :: uuid
  gq_suite_id :: uuid
  gq_policy_id :: uuid
  gq_baseline_gate_id :: "uuid option"

definition required_row :: "string \<Rightarrow> ('r \<Rightarrow> uuid) \<Rightarrow> uuid \<Rightarrow> 'r list \<Rightarrow> gate_error + 'r" where
  "required_row label key i rows = of_option (Missing label) (row_find key i rows)"

definition baseline_matches :: "gate \<Rightarrow> uuid \<Rightarrow> uuid \<Rightarrow> uuid \<Rightarrow> bool" where
  "baseline_matches g cfg suite policy \<longleftrightarrow>
     gt_config_id g = cfg \<and> gt_suite_id g = suite \<and> gt_policy_id g = policy"

definition resolve_baseline :: "gate_db \<Rightarrow> gate_request \<Rightarrow> gate_error + gate option" where
  "resolve_baseline db q =
     (case gq_baseline_gate_id q of
        Some i \<Rightarrow> bind_res (required_row ''baseline_gate_evaluation'' gt_id i (g_gates db)) (\<lambda>g. Inr (Some g))
      | None \<Rightarrow> Inr (get_active_baseline_gate db (gq_config_id q) (gq_suite_id q) (gq_policy_id q)))"

definition policy_rules :: "gate_db \<Rightarrow> uuid \<Rightarrow> policy_rule list" where
  "policy_rules db policy = filter (\<lambda>r. pr_policy_id r = policy \<and> pr_enabled r) (g_rules db)"

definition validate_gate_request ::
  "gate_db \<Rightarrow> gate_request \<Rightarrow> gate_error + dep_config \<times> eval_suite \<times> accept_policy \<times> gate option" where
  "validate_gate_request db q =
     bind_res (required_row ''deployment_configuration'' dc_id (gq_config_id q) (e_configs (g_evidence db))) (\<lambda>cfg.
     if jget (or_empty_dict (dc_runtime_config cfg)) ''tool_fault_scenario'' \<noteq> JNull then Inl Tool_Fault_Fixture else
     bind_res (required_row ''evaluation_suite'' es_id (gq_suite_id q) (e_suites (g_evidence db))) (\<lambda>suite.
     bind_res (required_row ''acceptance_policy'' ap_id (gq_policy_id q) (g_policies db)) (\<lambda>policy.
     if dc_workload_id cfg \<noteq> es_workload_id suite then Inl Workloads_Differ
     else if ap_workload_id policy \<noteq> dc_workload_id cfg then Inl Policy_Workload_Mismatch else
     bind_res (resolve_baseline db q) (\<lambda>base.
     if (case base of None \<Rightarrow> False
         | Some g \<Rightarrow> \<not> baseline_matches g (dc_id cfg) (es_id suite) (ap_id policy))
     then Inl Baseline_Scope_Mismatch
     else Inr (cfg, suite, policy, base)))))"

text \<open>Everything the evaluation derives from the evidence, before anything is written.\<close>

record gate_findings =
  gf_bundle :: evidence_bundle
  gf_metrics :: metrics
  gf_rules :: "evaluated_rule list"
  gf_outcomes :: "critical_outcome list"
  gf_trust :: trust_summary
  gf_verdict :: verdict

definition gate_findings_of ::
  "gate_env \<Rightarrow> gate_db \<Rightarrow> dep_config \<Rightarrow> eval_suite \<Rightarrow> accept_policy \<Rightarrow> gate option \<Rightarrow> gate_findings option" where
  "gate_findings_of env db cfg suite policy base =
     (let b = collect_evidence (g_evidence db) cfg suite;
          sc = (case base of None \<Rightarrow> JNull | Some g \<Rightarrow> jget (gt_scorecard g) ''metrics'')
      in do {
        ms0 \<leftarrow> calculate_metrics (env_sqrt env) b;
        ms \<leftarrow> apply_baseline_regressions ms0 sc;
        let rules = evaluate_policy_rules (policy_rules db (ap_id policy)) ms;
        outs \<leftarrow> critical_case_outcomes b;
        let trust = summarize_evidence_trust (env_thresholds env)
              (Some (env_verified env (map rn_id (bn_runs b)))) (bn_results b) (bn_case_map b);
        Some \<lparr>gf_bundle = b, gf_metrics = ms, gf_rules = rules, gf_outcomes = outs, gf_trust = trust,
              gf_verdict = resolve_verdict (mandatory_evidence_missing b) (only_synthetic_evidence b)
                (required_insufficient rules) rules (list_ex co_failed outs) (ap_allow_conditional policy)\<rparr>
      })"

definition gate_snapshot :: "gate_env \<Rightarrow> accept_policy \<Rightarrow> gate option \<Rightarrow> gate_findings \<Rightarrow> json" where
  "gate_snapshot env policy base f =
     JObj (evidence_snapshot (env_sha env) (gf_bundle f) (gf_trust f)
       @ [(''policy_hash'', JStr (ap_policy_hash policy)),
          (''policy_engine_version'', JStr ''gate-policy-v1'')]
       @ (case base of None \<Rightarrow> []
          | Some g \<Rightarrow> [(''baseline_gate_evaluation_id'', JStr (gt_id g)),
                      (''baseline_decision_hash'', JStr (gt_decision_hash g))]))"

definition rule_result_json :: "evaluated_rule \<Rightarrow> json" where
  "rule_result_json r =
     JObj [(''rule_id'', JStr (pr_id (er_rule r))), (''rule_name'', JStr (pr_name (er_rule r))),
           (''metric_key'', JStr (pr_metric_key (er_rule r))),
           (''metric_value'', opt_json JFloat (er_value r)), (''sample_size'', JInt (er_sample_size r)),
           (''status'', JStr (rule_status_value (er_status r))),
           (''severity'', JStr (severity_value (pr_severity (er_rule r)))), (''details'', er_details r)]"

definition metric_json :: "metrics \<Rightarrow> string \<Rightarrow> json" where
  "metric_json ms k = (case map_of ms k of None \<Rightarrow> JNull | Some m \<Rightarrow> opt_json JFloat (cm_value m))"

definition gate_scorecard :: "gate option \<Rightarrow> gate_findings \<Rightarrow> json" where
  "gate_scorecard base f =
     (let b = gf_bundle f; rules = gf_rules f; v = gf_verdict f; synth = only_synthetic_evidence b;
          failures = filter co_failed (gf_outcomes f);
          actions = gate_next_actions v synth rules failures (gf_trust f);
          summary = decision_summary v synth (mandatory_evidence_missing b) rules failures
      in JObj
        [(''metrics'', metrics_to_scorecard (gf_metrics f)),
         (''rule_results'', JArr (map rule_result_json rules)),
         (''critical_case_outcomes'', JArr (map (\<lambda>c. JObj (co_fields c)) (gf_outcomes f))),
         (''baseline_comparison'', JObj
           [(''baseline_gate_evaluation_id'', opt_json (\<lambda>g. JStr (gt_id g)) base),
            (''quality_regression_vs_baseline'', metric_json (gf_metrics f) ''quality_regression_vs_baseline''),
            (''latency_regression_vs_baseline'', metric_json (gf_metrics f) ''latency_regression_vs_baseline'')]),
         (''next_actions'', JArr (map JStr actions)),
         (''evidence_trust'', trust_to_dict (gf_trust f)),
         (''decision_explanation'', decision_explanation v summary rules failures (gf_trust f) actions),
         (''synthetic_data_warning'',
           if synth then JStr ''synthetic_demo evaluation cases may demonstrate the UI, but they cannot approve deployment.''
           else JNull)])"

definition gate_row ::
  "gate_env \<Rightarrow> dep_config \<Rightarrow> eval_suite \<Rightarrow> accept_policy \<Rightarrow> gate option \<Rightarrow> gate_findings \<Rightarrow>
   instant \<Rightarrow> uuid \<Rightarrow> gate" where
  "gate_row env cfg suite policy base f now new_id =
     (let snapshot = gate_snapshot env policy base f; scorecard = gate_scorecard base f in
      \<lparr>gt_id = new_id, gt_config_id = dc_id cfg, gt_suite_id = es_id suite, gt_policy_id = ap_id policy,
       gt_baseline_gate_id = map_option gt_id base, gt_status = Gate_Completed, gt_verdict = gf_verdict f,
       gt_snapshot = snapshot, gt_scorecard = scorecard,
       gt_summary = decision_summary (gf_verdict f) (only_synthetic_evidence (gf_bundle f))
         (mandatory_evidence_missing (gf_bundle f)) (gf_rules f) (filter co_failed (gf_outcomes f)),
       gt_decision_hash = stable_hash (env_sha env) (JObj
         [(''deployment_configuration_id'', JStr (dc_id cfg)),
          (''evaluation_suite_id'', JStr (es_id suite)),
          (''acceptance_policy_id'', JStr (ap_id policy)),
          (''baseline_gate_evaluation_id'', opt_json (\<lambda>g. JStr (gt_id g)) base),
          (''evidence_snapshot'', snapshot), (''scorecard'', scorecard),
          (''verdict'', JStr (verdict_value (gf_verdict f)))]),
       gt_revision_hash = Some (py_str (jget snapshot ''evidence_revision_hash'')),
       gt_stale_at = None, gt_stale_reason = None, gt_superseded_by = None, gt_evaluated_at = now\<rparr>)"

definition NEWER_GATE_REASON :: string where
  "NEWER_GATE_REASON = ''A newer Gate evaluation captured a different evidence revision.''"

definition rule_result_row :: "uuid \<Rightarrow> evaluated_rule \<Rightarrow> rule_result" where
  "rule_result_row gate_id r =
     \<lparr>rl_gate_id = gate_id, rl_rule_id = pr_id (er_rule r), rl_value = er_value r,
      rl_sample_size = er_sample_size r, rl_status = er_status r,
      rl_severity = pr_severity (er_rule r), rl_details = er_details r\<rparr>"

definition store_gate :: "gate_env \<Rightarrow> gate \<Rightarrow> evaluated_rule list \<Rightarrow> instant \<Rightarrow> gate_db \<Rightarrow> gate_error + gate_db" where
  "store_gate env g rules now db =
     bind_res (mark_scope_gates_stale env (gt_config_id g) (gt_suite_id g) (gt_revision_hash g)
                 NEWER_GATE_REASON now None db) (\<lambda>(db1, _).
     if gt_id g \<in> gt_id ` set (g_gates db1) then Inl Duplicate_Id
     else
       let db2 = supersede_stale_gates g (db1\<lparr>g_gates := g_gates db1 @ [g]\<rparr>)
       in Inr (db2\<lparr>g_lineage := record_lineage_event (gate_event db2 g) (g_lineage db2),
                   g_rule_results := g_rule_results db2 @ map (rule_result_row (gt_id g)) rules\<rparr>))"

definition create_gate_evaluation ::
  "gate_env \<Rightarrow> gate_request \<Rightarrow> instant \<Rightarrow> uuid \<Rightarrow> gate_db \<Rightarrow> gate_db \<times> (gate_error + gate)" where
  "create_gate_evaluation env q now new_id db =
     (case validate_gate_request db q of
        Inl e \<Rightarrow> (db, Inl e)
      | Inr (cfg, suite, policy, base) \<Rightarrow>
          (case gate_findings_of env db cfg suite policy base of
             None \<Rightarrow> (db, Inl Malformed_Evidence)
           | Some f \<Rightarrow>
               (case store_gate env (gate_row env cfg suite policy base f now new_id) (gf_rules f) now db of
                  Inl e \<Rightarrow> (db, Inl e)
                | Inr db1 \<Rightarrow> get_gate_evaluation env now new_id db1)))"

section \<open>Preflight\<close>

record preflight =
  pf_active_cases :: nat
  pf_critical_cases :: nat
  pf_rule_count :: nat
  pf_blocking_rules :: nat
  pf_warning_rules :: nat
  pf_runs :: nat
  pf_results :: nat
  pf_metrics :: nat
  pf_trust :: trust_summary
  pf_baseline :: "(gate \<times> string) option"
  pf_constraints :: "string list"
  pf_blockers :: "string list"
  pf_warnings :: "string list"
  pf_can_evaluate :: bool

definition NO_RESULTS_BLOCKER :: string where
  "NO_RESULTS_BLOCKER = ''Matching completed runs do not contain active-case results.''"

definition blocking_preconditions ::
  "dep_config \<Rightarrow> eval_suite \<Rightarrow> accept_policy \<Rightarrow> nat \<Rightarrow> nat \<Rightarrow> nat \<Rightarrow> string list" where
  "blocking_preconditions cfg suite policy active_cases completed_runs results =
     when_msg (dc_workload_id cfg \<noteq> es_workload_id suite)
       ''Deployment configuration and evaluation suite workloads differ.''
     @ when_msg (ap_workload_id policy \<noteq> dc_workload_id cfg)
         ''Acceptance policy workload does not match the configuration.''
     @ when_msg (active_cases = 0) ''The evaluation suite has no active cases.''
     @ (if completed_runs = 0
        then [''No completed benchmark run matches this configuration and suite.'']
        else when_msg (results = 0) NO_RESULTS_BLOCKER)"

definition expected_constraints :: "trust_status \<Rightarrow> string list \<Rightarrow> string list" where
  "expected_constraints st limitations =
     fromkeys
       ((case st of
           Local_Demo_Ready \<Rightarrow> [''This evidence can support a local demo decision but not production readiness.'']
         | Synthetic_Only \<Rightarrow> [''Synthetic evidence cannot authorize a deployment release.'']
         | Needs_Judge_Review \<Rightarrow> [''Judge review coverage must improve before release sign-off.'']
         | Trust_Unknown \<Rightarrow> [''Evidence provenance is insufficient for a readiness claim.'']
         | Production_Evidence_Ready \<Rightarrow> []) @ limitations)"

definition prompt_version :: "json \<Rightarrow> string option" where
  "prompt_version bundle =
     map_option py_str
       (find truthy (map (jget (as_dict bundle)) [''version'', ''version_label'', ''prompt_version'']))"

definition build_gate_preflight :: "gate_env \<Rightarrow> gate_request \<Rightarrow> gate_db \<Rightarrow> gate_error + preflight" where
  "build_gate_preflight env q db =
     bind_res (required_row ''deployment_configuration'' dc_id (gq_config_id q) (e_configs (g_evidence db))) (\<lambda>cfg.
     bind_res (required_row ''evaluation_suite'' es_id (gq_suite_id q) (e_suites (g_evidence db))) (\<lambda>suite.
     bind_res (required_row ''acceptance_policy'' ap_id (gq_policy_id q) (g_policies db)) (\<lambda>policy.
     bind_res (resolve_baseline db q) (\<lambda>base.
       let rules = policy_rules db (ap_id policy);
           b = collect_evidence (g_evidence db) cfg suite;
           trust = summarize_evidence_trust (env_thresholds env)
             (Some (env_verified env (map rn_id (bn_runs b)))) (bn_results b) (bn_case_map b);
           blockers = blocking_preconditions cfg suite policy (length (bn_active_cases b))
               (length (bn_runs b)) (length (bn_results b))
             @ when_msg (case base of None \<Rightarrow> False
                         | Some g \<Rightarrow> \<not> baseline_matches g (dc_id cfg) (es_id suite) (ap_id policy))
                 ''The selected baseline does not match the requested gate scope.'';
           source = (if gq_baseline_gate_id q \<noteq> None then ''explicit'' else ''active_scope_baseline'')
       in Inr
         \<lparr>pf_active_cases = length (bn_active_cases b),
          pf_critical_cases = length (filter (\<lambda>c. ec_criticality c = Critical) (bn_active_cases b)),
          pf_rule_count = length rules,
          pf_blocking_rules = length (filter (\<lambda>r. pr_severity r = Blocker) rules),
          pf_warning_rules = length (filter (\<lambda>r. pr_severity r = Warning) rules),
          pf_runs = length (bn_runs b), pf_results = length (bn_results b),
          pf_metrics = length (bn_metrics b), pf_trust = trust,
          pf_baseline = map_option (\<lambda>g. (g, source)) base,
          pf_constraints = expected_constraints (ts_status trust) (ts_limitations trust),
          pf_blockers = fromkeys blockers,
          pf_warnings = fromkeys
            (ts_limitations trust
             @ when_msg (rules = []) ''The acceptance policy has no enabled rules.''
             @ when_msg (bn_metrics b = []) ''No inference metrics are available for policy evaluation.''
             @ when_msg (base = None)
                 ''No active or explicit baseline is available for regression comparison.''),
          pf_can_evaluate = (blockers = [])\<rparr>))))"

end
