(* ===== verification/Py_Time.thy ===== *)
theory Py_Time
  imports Py_Values
begin

text \<open>
  The timestamps the services write: \<^verbatim>\<open>datetime.isoformat()\<close>, its JSON value, and the clock cut to whole
  seconds (\<^verbatim>\<open>replace(microsecond=0)\<close>).
\<close>

definition pad :: "nat \<Rightarrow> nat \<Rightarrow> string" where
  "pad w n = (let s = show_nat n in replicate (w - length s) (CHR ''0'') @ s)"

text \<open>Year, month and day of a day number counted from 1970-01-01 (proleptic Gregorian calendar).\<close>

definition civil :: "int \<Rightarrow> int \<times> int \<times> int" where
  "civil days =
     (let z = days + 719468;
          era = z div 146097;
          doe = z mod 146097;
          yoe = (doe - doe div 1460 + doe div 36524 - doe div 146096) div 365;
          doy = doe - (365 * yoe + yoe div 4 - yoe div 100);
          mp = (5 * doy + 2) div 153;
          d = doy - (153 * mp + 2) div 5 + 1;
          m = (if mp < 10 then mp + 3 else mp - 9)
      in (yoe + era * 400 + (if m \<le> 2 then 1 else 0), m, d))"

text \<open>\<^verbatim>\<open>datetime.isoformat()\<close> of a UTC instant; \<open>zone\<close> is \<^verbatim>\<open>+00:00\<close>, or \<^verbatim>\<open>Z\<close> in Pydantic's JSON.\<close>

definition isoformat :: "string \<Rightarrow> instant \<Rightarrow> string" where
  "isoformat zone t =
     (let day = 86400 * 1000000; (y, m, d) = civil (t div day); us = t mod day;
          s = us div 1000000; f = us mod 1000000;
          p = (\<lambda>w k. pad w (nat k))
      in p 4 y @ ''-'' @ p 2 m @ ''-'' @ p 2 d @ ''T'' @ p 2 (s div 3600) @ '':'' @ p 2 (s div 60 mod 60)
         @ '':'' @ p 2 (s mod 60) @ (if f = 0 then [] else ''.'' @ p 6 f) @ zone)"

definition iso :: "instant \<Rightarrow> json" where
  "iso t = JStr (isoformat ''+00:00'' t)"

definition whole_seconds :: "instant \<Rightarrow> instant" where
  "whole_seconds t = seconds (t div 1000000)"

lemma whole_seconds_le: "whole_seconds t \<le> t"
  by (simp add: whole_seconds_def seconds_def)

lemma whole_seconds_mono: "s \<le> t \<Longrightarrow> whole_seconds s \<le> whole_seconds t"
  by (simp add: whole_seconds_def zdiv_mono1)

lemma whole_seconds_idem [simp]: "whole_seconds (whole_seconds t) = whole_seconds t"
  by (simp add: whole_seconds_def seconds_def)

lemma whole_seconds_seconds [simp]: "whole_seconds (seconds n) = seconds n"
  by (simp add: whole_seconds_def seconds_def)

end
