(* ===== verification/Release_Readiness.thy ===== *)
theory Release_Readiness
  imports Deployment_Gate Py_Time
begin

text \<open>
  \<^verbatim>\<open>services/release_readiness.py\<close>: the readiness of a gate evaluation for release, computed from the
  gate row, the active baseline of its scope, the recomputed evidence trust, and the reports of
  judge labels, prompt regressions and lineage. Of the last three (separate read-only modules) the
  decision uses two counts; they and their printed sections are the argument \<open>views\<close>.
\<close>

record readiness_views =
  rv_needs_review :: nat
  rv_risk_rows :: nat
  rv_judge :: json
  rv_prompt :: json
  rv_lineage :: json

section \<open>Sections of the snapshot\<close>

definition count_status :: "json \<Rightarrow> string \<Rightarrow> int option" where
  "count_status rows status =
     (case rows of
        JArr xs \<Rightarrow> if list_all is_dict xs
                   then Some (count_where (\<lambda>x. jget x ''status'' = JStr status) xs) else None
      | _ \<Rightarrow> None)"

definition int_items :: "json \<Rightarrow> (string \<times> json) list option" where
  "int_items d = those (map (\<lambda>(k, v). map_option (\<lambda>n. (k, JInt n)) (py_int v)) (dict_items d))"

definition gate_summary :: "gate \<Rightarrow> json option" where
  "gate_summary g =
     (let scorecard = or_empty_dict (gt_scorecard g);
          rules = jget_or scorecard ''rule_results'' (JArr []);
          outcomes = jget_or scorecard ''critical_case_outcomes'' (JArr []);
          snapshot = or_empty_dict (gt_snapshot g);
          time = (\<lambda>t. JStr (isoformat ''Z'' t))
      in do {
        passed \<leftarrow> count_status rules ''pass'';
        failed \<leftarrow> count_status rules ''fail'';
        insufficient \<leftarrow> count_status rules ''insufficient'';
        critical \<leftarrow> count_status outcomes ''fail'';
        metric_count \<leftarrow> int_or (jget snapshot ''metric_count'') 0;
        result_count \<leftarrow> int_or (jget snapshot ''result_count'') 0;
        sources \<leftarrow> int_items (or_empty_dict (jget snapshot ''source_data_source_distribution''));
        Some (JObj
          [(''gate_evaluation_id'', JStr (gt_id g)),
           (''status'', JStr (gate_status_value (gt_status g))),
           (''verdict'', JStr (verdict_value (gt_verdict g))),
           (''decision_hash'', JStr (gt_decision_hash g)),
           (''decision_summary'', JStr (gt_summary g)),
           (''evaluated_at'', time (gt_evaluated_at g)),
           (''passed_rule_count'', JInt passed), (''failed_rule_count'', JInt failed),
           (''insufficient_rule_count'', JInt insufficient), (''critical_failure_count'', JInt critical),
           (''benchmark_run_ids'',
             JArr (map JStr (uuid_values (jget_or snapshot ''benchmark_run_ids'' (JArr []))))),
           (''metric_count'', JInt metric_count), (''result_count'', JInt result_count),
           (''source_distribution'', JObj sources),
           (''evidence_revision_hash'', if frozen_hash g = [] then JNull else JStr (frozen_hash g)),
           (''stale_at'', opt_json time (gt_stale_at g)),
           (''stale_reason'', opt_str (gt_stale_reason g)),
           (''superseded_by_gate_evaluation_id'', opt_str (gt_superseded_by g))])
      })"

datatype baseline_relation = Not_Promoted | Active_Source | Different_Active_Baseline

fun relation_value :: "baseline_relation \<Rightarrow> string" where
  "relation_value Not_Promoted = ''not_promoted''"
| "relation_value Active_Source = ''active_source''"
| "relation_value Different_Active_Baseline = ''different_active_baseline''"

definition active_baseline_of :: "gate_db \<Rightarrow> gate \<Rightarrow> baseline option" where
  "active_baseline_of db g =
     (case list_deployment_baselines True (Some (gt_config_id g)) (Some (gt_suite_id g))
             (Some (gt_policy_id g)) 1 0 db of [] \<Rightarrow> None | b # _ \<Rightarrow> Some b)"

definition baseline_relation :: "baseline option \<Rightarrow> gate \<Rightarrow> baseline_relation" where
  "baseline_relation active g =
     (case active of None \<Rightarrow> Not_Promoted
      | Some b \<Rightarrow> if bl_gate_id b = gt_id g then Active_Source else Different_Active_Baseline)"

definition baseline_summary :: "baseline option \<Rightarrow> gate \<Rightarrow> json" where
  "baseline_summary active g =
     JObj [(''active_baseline_id'', opt_json (\<lambda>b. JStr (bl_id b)) active),
           (''active_baseline_gate_evaluation_id'', opt_json (\<lambda>b. JStr (bl_gate_id b)) active),
           (''gate_is_active_baseline'', JBool (baseline_relation active g = Active_Source)),
           (''baseline_status'', JStr (relation_value (baseline_relation active g))),
           (''baseline_hash'', opt_json (\<lambda>b. JStr (bl_hash b)) active),
           (''promoted_at'', opt_json (\<lambda>b. JStr (isoformat ''Z'' (bl_promoted_at b))) active)]"

section \<open>The decision\<close>

definition readiness_status_of ::
  "gate \<Rightarrow> bool \<Rightarrow> nat \<Rightarrow> nat \<Rightarrow> trust_summary \<Rightarrow> readiness_status \<times> string list \<times> string list" where
  "readiness_status_of g is_active needs_review risk_rows trust =
     (if gt_status g = Gate_Stale
      then (Blocked_Readiness, [],
            [if text_set (gt_stale_reason g) then text_or_empty (gt_stale_reason g)
             else ''Gate evidence is stale and requires a new evaluation.''])
      else if gt_verdict g = Insufficient
      then (Insufficient_Readiness, [], [''Gate verdict is INSUFFICIENT_EVIDENCE.''])
      else if ts_status trust = Synthetic_Only
      then (Insufficient_Readiness, [], [''Evidence trust is SYNTHETIC_ONLY.''])
      else if gt_verdict g = Gate_Blocked
      then (Blocked_Readiness, [], [''Gate verdict is BLOCKED.''])
      else
        let untrusted = (ts_status trust = Needs_Judge_Review \<or> ts_status trust = Trust_Unknown);
            review =
              when_msg (gt_verdict g = Conditional) ''Gate verdict is CONDITIONAL.''
              @ (if untrusted then ts_reasons trust else [])
              @ when_msg (\<not> is_active) ''Gate evaluation is not the active deployment baseline.''
              @ when_msg (needs_review \<noteq> 0) (show_nat needs_review @ '' judge-label row(s) need review.'')
              @ when_msg (risk_rows \<noteq> 0) (show_nat risk_rows @ '' prompt regression row(s) have risk flags.'');
            good =
              when_msg (gt_verdict g = Approved) ''Gate verdict is APPROVED.''
              @ when_msg is_active ''Gate evaluation is the active deployment baseline.''
              @ when_msg (needs_review = 0) ''Judge calibration has no pending review rows.''
              @ when_msg (risk_rows = 0) ''Prompt regression report has no risk rows.''
        in (if gt_verdict g = Conditional \<or> untrusted \<or> needs_review \<noteq> 0 \<or> risk_rows \<noteq> 0 then Needs_Review
            else if is_active then Ready else Ready_To_Promote, good, review))"

definition production_readiness_of ::
  "readiness_status \<Rightarrow> bool \<Rightarrow> nat \<Rightarrow> nat \<Rightarrow> trust_summary \<Rightarrow> production_readiness" where
  "production_readiness_of status is_active needs_review risk_rows trust =
     (if ts_status trust = Trust_Unknown then Readiness_Unknown
      else if status = Ready \<and> ts_status trust = Production_Evidence_Ready \<and> is_active
              \<and> needs_review = 0 \<and> risk_rows = 0 then Production_Ready
      else Not_Production_Ready)"

definition text_items :: "json \<Rightarrow> string list" where
  "text_items v = (case v of JArr xs \<Rightarrow> map py_str xs | _ \<Rightarrow> [])"

definition readiness_next_actions ::
  "gate \<Rightarrow> baseline_relation \<Rightarrow> nat \<Rightarrow> nat \<Rightarrow> readiness_status \<Rightarrow> trust_summary \<Rightarrow> string list" where
  "readiness_next_actions g relation needs_review risk_rows status trust =
     fromkeys
       (when_msg (gt_status g = Gate_Stale) ''Run a new Deployment Gate against the latest evidence revision.''
        @ text_items (jget (or_empty_dict (gt_scorecard g)) ''next_actions'')
        @ when_msg (status = Ready_To_Promote) ''Promote the approved gate evaluation as the active baseline.''
        @ when_msg (relation = Different_Active_Baseline)
            ''Review why a different gate evaluation is currently active baseline.''
        @ when_msg (needs_review \<noteq> 0) ''Resolve pending judge-label review rows before release sign-off.''
        @ when_msg (risk_rows \<noteq> 0) ''Review prompt regression risk flags and rerun evidence if needed.''
        @ (case ts_status trust of
             Synthetic_Only \<Rightarrow> [''Replace synthetic evidence with locally authored evaluation results.'']
           | Needs_Judge_Review \<Rightarrow> [''Apply judge labels to meet the configured evidence coverage threshold.'']
           | Trust_Unknown \<Rightarrow> [''Add canonical source and score provenance to the benchmark results.'']
           | Local_Demo_Ready \<Rightarrow> [''Collect reviewed production-captured evidence before production release.'']
           | Production_Evidence_Ready \<Rightarrow> []))"

definition release_summary :: "readiness_status \<Rightarrow> production_readiness \<Rightarrow> gate \<Rightarrow> trust_summary \<Rightarrow> string" where
  "release_summary status production g trust =
     (case status of
        Ready \<Rightarrow>
          if production = Production_Ready
          then ''Production-ready: release controls and production evidence requirements pass.''
          else if ts_status trust = Local_Demo_Ready
          then ''Release-ready for a reproducible local demonstration, but not production-ready.''
          else ''Release-ready: the gate is approved, promoted, and no review risks are open.''
      | Ready_To_Promote \<Rightarrow> ''Approved but not yet promoted as the active deployment baseline.''
      | Needs_Review \<Rightarrow> ''Gate evidence is usable, but review items remain before release sign-off.''
      | Blocked_Readiness \<Rightarrow>
          if gt_status g = Gate_Stale
          then ''Release is blocked because the Gate evidence revision is stale.''
          else ''Release is blocked by the Deployment Gate verdict.''
      | Insufficient_Readiness \<Rightarrow>
          ''Release cannot proceed because evidence is insufficient: '' @ gt_summary g)"

record readiness_snapshot =
  sn_status :: readiness_status
  sn_production :: production_readiness
  sn_gate :: gate
  sn_json :: json

definition latest_gate :: "gate list \<Rightarrow> gate option" where
  "latest_gate gs =
     (case sort_key (\<lambda>g. - gt_evaluated_at g) (rev gs) of [] \<Rightarrow> None | g # _ \<Rightarrow> Some g)"

definition build_release_readiness_snapshot ::
  "gate_env \<Rightarrow> (gate \<Rightarrow> readiness_views) \<Rightarrow> instant \<Rightarrow> uuid option \<Rightarrow> gate_db \<Rightarrow> gate_error + readiness_snapshot" where
  "build_release_readiness_snapshot env views now gate_id db =
     bind_res (of_option (Missing ''gate_evaluation'')
                (case gate_id of None \<Rightarrow> latest_gate (g_gates db) | Some i \<Rightarrow> gate_find i (g_gates db))) (\<lambda>g.
     bind_res (of_option Malformed_Evidence (gate_summary g)) (\<lambda>summary.
       let active = active_baseline_of db g;
           relation = baseline_relation active g;
           is_active = (relation = Active_Source);
           trust = summarize_gate_evidence_trust (env_thresholds env) (env_verified env)
             (g_evidence db) (gt_snapshot g);
           v = views g;
           (status, good, review) = readiness_status_of g is_active (rv_needs_review v) (rv_risk_rows v) trust;
           production = production_readiness_of status is_active (rv_needs_review v) (rv_risk_rows v) trust;
           texts = (\<lambda>xs. JArr (map JStr xs))
       in Inr \<lparr>sn_status = status, sn_production = production, sn_gate = g,
               sn_json = JObj
                 [(''schema_version'', JStr ''release-readiness-snapshot-v2''),
                  (''evidence_trust_version'', JStr EVIDENCE_TRUST_VERSION),
                  (''generated_at'', JStr (isoformat ''Z'' now)),
                  (''status'', JStr (readiness_status_value status)),
                  (''production_readiness'', JStr (readiness_value production)),
                  (''release_summary'', JStr (release_summary status production g trust)),
                  (''deployment_configuration_id'', JStr (gt_config_id g)),
                  (''evaluation_suite_id'', JStr (gt_suite_id g)),
                  (''acceptance_policy_id'', JStr (gt_policy_id g)),
                  (''readiness_reasons'', texts good),
                  (''review_reasons'', texts review),
                  (''next_actions'', texts (readiness_next_actions g relation (rv_needs_review v)
                     (rv_risk_rows v) status trust)),
                  (''evidence_trust'', trust_to_dict trust),
                  (''gate'', summary),
                  (''baseline'', baseline_summary active g),
                  (''judge_calibration'', rv_judge v),
                  (''prompt_regression'', rv_prompt v),
                  (''lineage'', rv_lineage v)]\<rparr>))"

text \<open>\<^verbatim>\<open>_weighted_average\<close> of the judge section.\<close>

definition weighted_average :: "(rat option \<times> int) list \<Rightarrow> rat option" where
  "weighted_average values =
     (let kept = List.map_filter (\<lambda>(v, w). case v of None \<Rightarrow> None
                                   | Some x \<Rightarrow> if w \<le> 0 then None else Some (x, w)) values;
          den = sum_list (map snd kept)
      in if den = 0 then None
         else Some (sum_list (map (\<lambda>(x, w). x * of_int w) kept) / of_int den))"

end
