(* ===== verification/Release_Decisions.thy ===== *)
theory Release_Decisions
  imports Release_Readiness
begin

text \<open>
  \<^verbatim>\<open>services/release_decisions.py\<close>, with \<^verbatim>\<open>build_signer_identity\<close> of \<^verbatim>\<open>services/operator_identity.py\<close>:
  signing a release decision over a frozen readiness snapshot, the operations on a signed decision
  (request a review, acknowledge it, revoke), replacement by a later decision, and the comparison of
  the frozen snapshot with the current one. The operational status of a decision is not stored: it is
  read from its action log.
\<close>

section \<open>Signing\<close>

record decision_request =
  dq_gate_id :: uuid
  dq_decision :: release_verb
  dq_decided_by :: string
  dq_signer_id :: "string option"
  dq_signer_role :: "string option"
  dq_identity_provider :: "string option"
  dq_ticket :: "string option"
  dq_statement :: "string option"
  dq_reason :: string
  dq_notes :: "string option"
  dq_replaces :: "uuid option"

definition normalized_text :: "string option \<Rightarrow> string option" where
  "normalized_text t =
     (case t of None \<Rightarrow> None | Some s \<Rightarrow> if strip s = [] then None else Some (strip s))"

text \<open>\<open>trusted\<close> is the identity the transport has verified (OIDC session, JWT or proxy headers), if any.\<close>

definition build_signer_identity :: "signer_identity option \<Rightarrow> decision_request \<Rightarrow> signer_identity" where
  "build_signer_identity trusted q =
     (case trusted of
        Some t \<Rightarrow> t\<lparr>role := (if text_set (role t) then role t else normalized_text (dq_signer_role q)),
                     ticket_reference := normalized_text (dq_ticket q)\<rparr>
      | None \<Rightarrow>
          (let name = strip (dq_decided_by q);
               opt = (\<lambda>t d. case normalized_text t of None \<Rightarrow> d | Some s \<Rightarrow> s)
           in \<lparr>subject_id = opt (dq_signer_id q) name, display_name = name,
               role = normalized_text (dq_signer_role q),
               identity_provider = opt (dq_identity_provider q) ''local-ui'',
               auth_source = ''self_attested'', identity_verified = False,
               ticket_reference = normalized_text (dq_ticket q)\<rparr>))"

definition release_reason_text :: "release_verb \<Rightarrow> policy_reason \<Rightarrow> string" where
  "release_reason_text d r =
     (case r of
        Requires_Verified_Identity \<Rightarrow> decision_value d @ '' requires verified operator identity.''
      | Requires_Role rs \<Rightarrow> decision_value d @ '' requires one of these roles: '' @ join '', '' rs @ ''.''
      | Requires_Other_Operator \<Rightarrow> [])"

definition evaluation_json :: "release_verb \<Rightarrow> policy_evaluation \<Rightarrow> json" where
  "evaluation_json d ev =
     JObj [(''policy_version'', JStr ''release-approval-rbac-v1''),
           (''decision'', JStr (decision_value d)),
           (''allowed'', JBool (ev_allowed ev)),
           (''requires_verified_identity'', JBool (rspec_requires_verified (DECISION_POLICY d))),
           (''allowed_roles'', JArr (map JStr (ev_allowed_roles ev))),
           (''signer_role'', opt_str (ev_signer_role ev)),
           (''identity_verified'', JBool (ev_identity_verified ev)),
           (''reasons'', JArr (map (\<lambda>r. JStr (release_reason_text d r)) (ev_reasons ev)))]"

definition signature_statement :: "decision_request \<Rightarrow> string" where
  "signature_statement q =
     (case normalized_text (dq_statement q) of
        Some s \<Rightarrow> s
      | None \<Rightarrow> ''I reviewed the frozen readiness snapshot and accept responsibility for this release decision.'')"

definition signature_hash ::
  "(string \<Rightarrow> string) \<Rightarrow> decision_request \<Rightarrow> signer_identity \<Rightarrow> string \<Rightarrow> readiness_status \<Rightarrow> gate \<Rightarrow>
   instant \<Rightarrow> string \<Rightarrow> string" where
  "signature_hash sha q sg snapshot_hash status g now statement =
     stable_hash sha (JObj
       [(''version'', JStr ''release-signature-v1''),
        (''gate_evaluation_id'', JStr (gt_id g)),
        (''gate_decision_hash'', JStr (gt_decision_hash g)),
        (''snapshot_hash'', JStr snapshot_hash),
        (''release_readiness_status'', JStr (readiness_status_value status)),
        (''decision'', JStr (decision_value (dq_decision q))),
        (''decided_at'', JStr (isoformat ''+00:00'' now)),
        (''signer_identity'', identity_to_json sg),
        (''signature_statement'', JStr statement),
        (''decision_reason'', JStr (strip (dq_reason q))),
        (''notes'', opt_str (normalized_text (dq_notes q))),
        (''replaces_release_decision_id'', opt_str (dq_replaces q))])"

definition decision_hash ::
  "(string \<Rightarrow> string) \<Rightarrow> decision_request \<Rightarrow> string \<Rightarrow> string \<Rightarrow> signer_identity \<Rightarrow> json \<Rightarrow>
   readiness_status \<Rightarrow> gate \<Rightarrow> instant \<Rightarrow> string" where
  "decision_hash sha q snapshot_hash sig_hash sg policy status g now =
     stable_hash sha (JObj
       [(''version'', JStr ''release-decision-v1''),
        (''gate_evaluation_id'', JStr (gt_id g)),
        (''deployment_configuration_id'', JStr (gt_config_id g)),
        (''evaluation_suite_id'', JStr (gt_suite_id g)),
        (''acceptance_policy_id'', JStr (gt_policy_id g)),
        (''gate_decision_hash'', JStr (gt_decision_hash g)),
        (''release_readiness_status'', JStr (readiness_status_value status)),
        (''snapshot_hash'', JStr snapshot_hash),
        (''signature_hash'', JStr sig_hash),
        (''signer_identity'', identity_to_json sg),
        (''approval_policy'', policy),
        (''decision'', JStr (decision_value (dq_decision q))),
        (''decided_at'', JStr (isoformat ''+00:00'' now)),
        (''decision_reason'', JStr (strip (dq_reason q))),
        (''notes'', opt_str (normalized_text (dq_notes q))),
        (''replaces_release_decision_id'', opt_str (dq_replaces q))])"

section \<open>The operational status of a decision\<close>

datatype operational_status = Op_Replaced | Op_Revoked | Op_Needs_Review | Op_Active | Op_Recorded

fun operational_value :: "operational_status \<Rightarrow> string" where
  "operational_value Op_Replaced = ''replaced''"
| "operational_value Op_Revoked = ''revoked''"
| "operational_value Op_Needs_Review = ''needs_review''"
| "operational_value Op_Active = ''active''"
| "operational_value Op_Recorded = ''recorded''"

definition list_release_decision_actions :: "uuid \<Rightarrow> gate_db \<Rightarrow> release_action list" where
  "list_release_decision_actions i db =
     sort_key ra_occurred_at (filter (\<lambda>a. ra_decision_id a = i) (g_actions db))"

definition latest_of :: "action_kind \<Rightarrow> release_action list \<Rightarrow> instant option" where
  "latest_of k actions =
     (case map ra_occurred_at (filter (\<lambda>a. ra_type a = k) actions) of
        [] \<Rightarrow> None | t # ts \<Rightarrow> Some (foldr max ts t))"

definition unresolved_review :: "release_action list \<Rightarrow> bool" where
  "unresolved_review actions =
     (case latest_of Review_Requested actions of
        None \<Rightarrow> False
      | Some t \<Rightarrow> (case latest_of Acknowledged actions of None \<Rightarrow> True | Some a \<Rightarrow> a < t))"

record decision_view =
  dv_status :: operational_status
  dv_stale_warning :: bool
  dv_action_count :: nat
  dv_latest_action_at :: "instant option"

definition stale_warning :: "gate_db \<Rightarrow> release_decision \<Rightarrow> bool" where
  "stale_warning db d \<longleftrightarrow>
     (case gate_find (rd_gate_id d) (g_gates db) of None \<Rightarrow> False | Some g \<Rightarrow> gt_status g = Gate_Stale)
     \<or> Stale_Detected \<in> ra_type ` set (list_release_decision_actions (rd_id d) db)"

definition operational_status_of :: "gate_db \<Rightarrow> release_decision \<Rightarrow> operational_status" where
  "operational_status_of db d =
     (let actions = list_release_decision_actions (rd_id d) db; types = map ra_type actions in
      if Replaced \<in> set types then Op_Replaced
      else if Revoked \<in> set types then Op_Revoked
      else if rd_decision d = APPROVE_RELEASE \<and> stale_warning db d \<or> unresolved_review actions
           then Op_Needs_Review
      else if rd_decision d = APPROVE_RELEASE then Op_Active
      else Op_Recorded)"

definition release_decision_read :: "gate_db \<Rightarrow> release_decision \<Rightarrow> decision_view" where
  "release_decision_read db d =
     (let actions = list_release_decision_actions (rd_id d) db in
      \<lparr>dv_status = operational_status_of db d, dv_stale_warning = stale_warning db d,
       dv_action_count = length actions,
       dv_latest_action_at = (if actions = [] then None else Some (ra_occurred_at (last actions)))\<rparr>)"

abbreviation decision_find :: "uuid \<Rightarrow> release_decision list \<Rightarrow> release_decision option" where
  "decision_find \<equiv> row_find rd_id"

section \<open>Creating a decision\<close>

definition validated_replaced_decision ::
  "gate_db \<Rightarrow> uuid option \<Rightarrow> gate \<Rightarrow> gate_error + release_decision option" where
  "validated_replaced_decision db replacement_id g =
     (case replacement_id of
        None \<Rightarrow> Inr None
      | Some i \<Rightarrow>
          (case decision_find i (g_decisions db) of
             None \<Rightarrow> Inl (Missing ''release_decision'')
           | Some d \<Rightarrow>
               if rd_gate_id d = gt_id g then Inl Same_Gate_Replacement
               else if rd_config_id d \<noteq> gt_config_id g \<or> rd_suite_id d \<noteq> gt_suite_id g
                       \<or> rd_policy_id d \<noteq> gt_policy_id g then Inl Replacement_Scope_Mismatch
               else if operational_status_of db d = Op_Replaced then Inl Already_Replaced
               else Inr (Some d)))"

definition decision_row ::
  "gate_env \<Rightarrow> decision_request \<Rightarrow> readiness_snapshot \<Rightarrow> signer_identity \<Rightarrow> policy_evaluation \<Rightarrow>
   release_decision option \<Rightarrow> instant \<Rightarrow> uuid \<Rightarrow> release_decision" where
  "decision_row env q sn sg ev replaced now new_id =
     (let sha = env_sha env; g = sn_gate sn; snapshot_hash = stable_hash sha (sn_json sn);
          policy = evaluation_json (dq_decision q) ev; statement = signature_statement q;
          sig = signature_hash sha q sg snapshot_hash (sn_status sn) g now statement
      in \<lparr>rd_id = new_id, rd_gate_id = gt_id g, rd_config_id = gt_config_id g,
          rd_suite_id = gt_suite_id g, rd_policy_id = gt_policy_id g, rd_decision = dq_decision q,
          rd_readiness = sn_status sn, rd_decided_at = now, rd_decided_by = display_name sg,
          rd_signer = identity_to_json sg, rd_identity_verified = identity_verified sg,
          rd_signature_hash = sig, rd_signature_statement = statement, rd_approval_policy = policy,
          rd_reason = strip (dq_reason q), rd_notes = normalized_text (dq_notes q),
          rd_snapshot_hash = snapshot_hash, rd_snapshot = sn_json sn,
          rd_decision_hash =
            decision_hash sha q snapshot_hash sig sg policy (sn_status sn) g now,
          rd_replaces = map_option rd_id replaced\<rparr>)"

definition replaced_action ::
  "release_decision \<Rightarrow> release_decision \<Rightarrow> decision_request \<Rightarrow> signer_identity \<Rightarrow> instant \<Rightarrow> release_action" where
  "replaced_action old new q sg now =
     \<lparr>ra_decision_id = rd_id old, ra_type = Replaced,
      ra_dedupe_key = ''replacement:'' @ rd_id old @ '':'' @ rd_id new,
      ra_actor = identity_to_json sg, ra_reason = strip (dq_reason q),
      ra_source_gate_id = Some (rd_gate_id new), ra_replacement_id = Some (rd_id new),
      ra_metadata = JObj [(''schema_version'', JStr RELEASE_OPERATION_VERSION),
                          (''replacement_decision'', JStr (decision_value (dq_decision q))),
                          (''replacement_gate_evaluation_id'', JStr (rd_gate_id new))],
      ra_occurred_at = now\<rparr>"

definition create_release_decision ::
  "gate_env \<Rightarrow> (gate \<Rightarrow> readiness_views) \<Rightarrow> signer_identity option \<Rightarrow> decision_request \<Rightarrow> instant \<Rightarrow> uuid \<Rightarrow>
   gate_db \<Rightarrow> gate_error + gate_db \<times> release_decision" where
  "create_release_decision env views trusted q now new_id db =
     (case gate_find (dq_gate_id q) (g_gates db) of
        None \<Rightarrow> Inl (Missing ''gate_evaluation'')
      | Some g \<Rightarrow>
        bind_res (validated_replaced_decision db (dq_replaces q) g) (\<lambda>replaced.
        bind_res (build_release_readiness_snapshot env views now (Some (dq_gate_id q)) db) (\<lambda>sn.
        if dq_decision q = APPROVE_RELEASE \<and> sn_status sn \<notin> {Ready, Ready_To_Promote}
        then Inl Readiness_Required
        else
          let sg = build_signer_identity trusted q in
          case assert_release_decision (dq_decision q) sg of
            Inl e \<Rightarrow> Inl (Policy_Refused e)
          | Inr ev \<Rightarrow>
              let d = decision_row env q sn sg ev replaced now new_id in
              if new_id \<in> rd_id ` set (g_decisions db)
                 \<or> rd_decision_hash d \<in> rd_decision_hash ` set (g_decisions db)
              then Inl Duplicate_Id
              else
                bind_res
                  (case replaced of
                     None \<Rightarrow> Inr (db\<lparr>g_decisions := g_decisions db @ [d]\<rparr>)
                   | Some old \<Rightarrow> add_release_action (replaced_action old d q sg now)
                                   (db\<lparr>g_decisions := g_decisions db @ [d]\<rparr>))
                  (\<lambda>db1. Inr (db1\<lparr>g_lineage := record_lineage_event (decision_event db1 d) (g_lineage db1)\<rparr>, d)))))"

section \<open>Operations on a decision\<close>

definition RELEASE_REVIEW_ROLES :: "string list" where
  "RELEASE_REVIEW_ROLES =
     [''release manager'', ''ml ops lead'', ''model governance'', ''admin'', ''qa lead'', ''sre lead'']"

definition RELEASE_REVOKE_ROLES :: "string list" where
  "RELEASE_REVOKE_ROLES = [''release manager'', ''ml ops lead'', ''model governance'', ''admin'']"

definition operation_reasons :: "action_kind \<Rightarrow> signer_identity \<Rightarrow> string list" where
  "operation_reasons k sg =
     when_msg (\<not> identity_verified sg \<or>
         lower (strip (text_or_empty (role sg)))
           \<notin> set (if k = Revoked then RELEASE_REVOKE_ROLES else RELEASE_REVIEW_ROLES))
       ''release decision operation requires a verified authorized operator''"

definition assert_release_operation :: "action_kind \<Rightarrow> signer_identity \<Rightarrow> gate_error + unit" where
  "assert_release_operation k sg =
     (if operation_reasons k sg = [] then Inr () else Inl Operator_Required)"

interpretation operation_auth: authorisation operation_reasons assert_release_operation
  by unfold_locales (simp add: assert_release_operation_def)

datatype manual_operation = Request_Review | Acknowledge | Revoke

fun operation_kind :: "manual_operation \<Rightarrow> action_kind" where
  "operation_kind Request_Review = Review_Requested"
| "operation_kind Acknowledge = Acknowledged"
| "operation_kind Revoke = Revoked"

definition manual_action ::
  "manual_operation \<Rightarrow> string \<Rightarrow> signer_identity \<Rightarrow> instant \<Rightarrow> uuid \<Rightarrow> operational_status \<Rightarrow>
   release_decision \<Rightarrow> release_action" where
  "manual_action op reason sg now fresh before d =
     \<lparr>ra_decision_id = rd_id d, ra_type = operation_kind op,
      ra_dedupe_key = ''manual:'' @ rd_id d @ '':'' @ action_value (operation_kind op) @ '':'' @ fresh,
      ra_actor = identity_to_json sg, ra_reason = strip reason,
      ra_source_gate_id = Some (rd_gate_id d), ra_replacement_id = None,
      ra_metadata = JObj [(''schema_version'', JStr RELEASE_OPERATION_VERSION),
                          (''operational_status_before'', JStr (operational_value before))],
      ra_occurred_at = now\<rparr>"

definition create_release_decision_action ::
  "uuid \<Rightarrow> manual_operation \<Rightarrow> string \<Rightarrow> signer_identity \<Rightarrow> instant \<Rightarrow> uuid \<Rightarrow> gate_db \<Rightarrow> gate_error + gate_db" where
  "create_release_decision_action i op reason sg now fresh db =
     (case decision_find i (g_decisions db) of
        None \<Rightarrow> Inl (Missing ''release_decision'')
      | Some d \<Rightarrow>
        bind_res (assert_release_operation (operation_kind op) sg) (\<lambda>_.
          let current = operational_status_of db d; a = manual_action op reason sg now fresh current d in
          if current = Op_Replaced then Inl Replaced_Is_Final
          else if op = Revoke \<and> rd_decision d \<noteq> APPROVE_RELEASE then Inl Not_An_Approval
          else if op = Revoke \<and> current = Op_Revoked then Inl Already_Revoked
          else if op = Acknowledge \<and> current \<noteq> Op_Needs_Review then Inl No_Review_Required
          else if ra_dedupe_key a \<in> ra_dedupe_key ` set (g_actions db) then Inl Duplicate_Id
          else add_release_action a db))"

section \<open>Comparing snapshots\<close>

datatype diff_status = Diff_Added | Diff_Removed | Diff_Changed

record snapshot_diff =
  sd_path :: string
  sd_status :: diff_status
  sd_frozen :: "json option"
  sd_current :: "json option"

definition child_path :: "string \<Rightarrow> string \<Rightarrow> string" where
  "child_path path k = (if path = [] then k else path @ ''.'' @ k)"

definition index_path :: "string \<Rightarrow> nat \<Rightarrow> string" where
  "index_path path i = path @ ''['' @ show_nat i @ '']''"

definition IGNORED_PATHS :: "string list" where
  "IGNORED_PATHS = [''generated_at'']"

text \<open>
  Python's \<^verbatim>\<open>==\<close> on the values that are left when both are not objects or both not lists: an integer
  equals the float of the same value, a Boolean equals 0 or 1.
\<close>

fun py_equal :: "json \<Rightarrow> json \<Rightarrow> bool" where
  "py_equal (JStr a) (JStr b) = (a = b)"
| "py_equal JNull JNull = True"
| "py_equal a b = (case (number_or_bool a, number_or_bool b) of (Some x, Some y) \<Rightarrow> x = y | _ \<Rightarrow> False)"

definition diff :: "string \<Rightarrow> diff_status \<Rightarrow> json option \<Rightarrow> json option \<Rightarrow> snapshot_diff" where
  "diff path st frozen current = \<lparr>sd_path = path, sd_status = st, sd_frozen = frozen, sd_current = current\<rparr>"

text \<open>\<open>fuel\<close> bounds the depth of the values compared; \<open>collect_snapshot_diffs\<close> gives as much as needed.\<close>

fun collect_diffs :: "nat \<Rightarrow> json \<Rightarrow> json \<Rightarrow> string \<Rightarrow> snapshot_diff list" where
  "collect_diffs 0 a b path = []"
| "collect_diffs (Suc n) a b path =
     (if path \<in> set IGNORED_PATHS then []
      else case (a, b) of
        (JObj xs, JObj ys) \<Rightarrow>
          concat (map (\<lambda>k.
            case (map_of xs k, map_of ys k) of
              (None, v) \<Rightarrow> [diff (child_path path k) Diff_Added None v]
            | (v, None) \<Rightarrow> [diff (child_path path k) Diff_Removed v None]
            | (Some v, Some w) \<Rightarrow> collect_diffs n v w (child_path path k))
            (sorted_set (map fst xs @ map fst ys)))
      | (JArr xs, JArr ys) \<Rightarrow>
          let shared = min (length xs) (length ys) in
          concat (map (\<lambda>i. collect_diffs n (xs ! i) (ys ! i) (index_path path i)) [0..<shared])
          @ map (\<lambda>i. diff (index_path path i) Diff_Added None (Some (ys ! i))) [shared..<length ys]
          @ map (\<lambda>i. diff (index_path path i) Diff_Removed (Some (xs ! i)) None) [shared..<length xs]
      | _ \<Rightarrow> if py_equal a b then []
             else [diff (if path = [] then ''$'' else path) Diff_Changed (Some a) (Some b)])"

definition collect_snapshot_diffs :: "json \<Rightarrow> json \<Rightarrow> snapshot_diff list" where
  "collect_snapshot_diffs frozen current = collect_diffs (Suc (size frozen)) frozen current []"

record snapshot_diff_report =
  dr_frozen_hash :: string
  dr_current_hash :: string
  dr_changed :: bool
  dr_count :: nat
  dr_truncated :: bool
  dr_diffs :: "snapshot_diff list"

definition build_release_decision_snapshot_diff ::
  "gate_env \<Rightarrow> (gate \<Rightarrow> readiness_views) \<Rightarrow> instant \<Rightarrow> uuid \<Rightarrow> gate_db \<Rightarrow> gate_error + snapshot_diff_report" where
  "build_release_decision_snapshot_diff env views now i db =
     (case decision_find i (g_decisions db) of
        None \<Rightarrow> Inl (Missing ''release_decision'')
      | Some d \<Rightarrow>
        bind_res (build_release_readiness_snapshot env views now (Some (rd_gate_id d)) db) (\<lambda>sn.
          let diffs = collect_snapshot_diffs (or_empty_dict (rd_snapshot d)) (sn_json sn)
          in Inr \<lparr>dr_frozen_hash = rd_snapshot_hash d,
                  dr_current_hash = stable_hash (env_sha env) (sn_json sn),
                  dr_changed = (diffs \<noteq> []), dr_count = length diffs,
                  dr_truncated = (200 < length diffs), dr_diffs = take 200 diffs\<rparr>))"

definition list_release_decisions :: "uuid option \<Rightarrow> nat \<Rightarrow> nat \<Rightarrow> gate_db \<Rightarrow> release_decision list" where
  "list_release_decisions gate_id limit offset db =
     take limit (drop offset (sort_key (\<lambda>d. - rd_decided_at d)
       (rev (filter (\<lambda>d. gate_id = None \<or> gate_id = Some (rd_gate_id d)) (g_decisions db)))))"

section \<open>The release system\<close>

text \<open>
  The commands of the gate, baseline and release services on the shared tables. \<open>Evidence_Changes\<close> is
  what every other component may do: write the evidence tables.
\<close>

datatype release_command =
    Evidence_Changes evidence_db
  | Create_Gate gate_request instant uuid
  | Promote promotion_request instant uuid
  | Reconcile instant
  | Decide "signer_identity option" decision_request instant uuid
  | Operate uuid manual_operation string signer_identity instant uuid

definition of_pair :: "'s \<times> ('e + 'a) \<Rightarrow> 's \<Rightarrow> 'e + 's" where
  "of_pair p s = (case snd p of Inl e \<Rightarrow> Inl e | Inr _ \<Rightarrow> Inr (fst p))"

fun release_step ::
  "gate_env \<Rightarrow> (gate \<Rightarrow> readiness_views) \<Rightarrow> release_command \<Rightarrow> gate_db \<Rightarrow> gate_error + gate_db" where
  "release_step env views (Evidence_Changes e) db = Inr (db\<lparr>g_evidence := e\<rparr>)"
| "release_step env views (Create_Gate q now i) db = of_pair (create_gate_evaluation env q now i db) db"
| "release_step env views (Promote q now i) db =
     map_sum (\<lambda>e. e) fst (promote_gate_evaluation_as_baseline env q now i db)"
| "release_step env views (Reconcile now) db =
     map_sum (\<lambda>e. e) fst (reconcile_all_gate_staleness env now db)"
| "release_step env views (Decide trusted q now i) db =
     map_sum (\<lambda>e. e) fst (create_release_decision env views trusted q now i db)"
| "release_step env views (Operate i op reason sg now fresh) db =
     create_release_decision_action i op reason sg now fresh db"

end
