(* ===== verification/Gate_Evidence_Correct.thy ===== *)
theory Gate_Evidence_Correct
  imports Gate_Evidence
begin

text \<open>
  Properties of the evidence collection: the dictionary loop keeps, for each lineage of revisions,
  the latest one; the bundle holds only evidence in scope, and it is consistent with itself.
\<close>

definition latest_ok :: "bench_result list \<Rightarrow> (uuid \<times> bench_result) list \<Rightarrow> bool" where
  "latest_ok rs latest \<longleftrightarrow>
     distinct (map fst latest) \<and>
     (\<forall>(k, c) \<in> set latest. root_id c = k \<and> c \<in> set rs) \<and>
     (\<forall>r \<in> set rs. \<exists>c. map_of latest (root_id r) = Some c \<and> revision_sort_key r \<le> revision_sort_key c)"

lemma latest_ok_Nil: "latest_ok [] []"
  by (simp add: latest_ok_def)

lemma map_of_map_replace:
  "map_of (map (\<lambda>(k, c). (k, if k = a then r else c)) xs) k' =
     (case map_of xs k' of None \<Rightarrow> None | Some c \<Rightarrow> Some (if k' = a then r else c))"
  by (induction xs) auto

lemma map_fst_map_replace: "map fst (map (\<lambda>(k, c). (k, if k = a then r else c)) xs) = map fst xs"
  by (induction xs) auto

lemma latest_ok_step:
  assumes ok: "latest_ok rs latest"
  shows "latest_ok (rs @ [r]) (latest_step r latest)"
proof (cases "map_of latest (root_id r)")
  case None
  then have fresh: "root_id r \<notin> fst ` set latest" by (simp add: map_of_eq_None_iff)
  have "\<exists>c. map_of (latest @ [(root_id r, r)]) (root_id q) = Some c \<and> revision_sort_key q \<le> revision_sort_key c"
    if q: "q \<in> set (rs @ [r])" for q
  proof (cases "q = r")
    case True
    with None show ?thesis by (simp add: map_add_def)
  next
    case False
    with q ok obtain c where c: "map_of latest (root_id q) = Some c" "revision_sort_key q \<le> revision_sort_key c"
      by (auto simp: latest_ok_def)
    with None have "root_id q \<noteq> root_id r" by auto
    with c show ?thesis by (simp add: map_add_def)
  qed
  moreover from ok fresh have "distinct (map fst (latest @ [(root_id r, r)]))"
    and "\<forall>(k, c) \<in> set (latest @ [(root_id r, r)]). root_id c = k \<and> c \<in> set (rs @ [r])"
    by (auto simp: latest_ok_def)
  ultimately show ?thesis
    using None by (simp add: latest_step_def latest_ok_def)
next
  case (Some cur)
  let ?upd = "map (\<lambda>(k, c). (k, if k = root_id r then r else c)) latest"
  show ?thesis
  proof (cases "revision_sort_key cur < revision_sort_key r")
    case True
    have "\<exists>c. map_of ?upd (root_id q) = Some c \<and> revision_sort_key q \<le> revision_sort_key c"
      if q: "q \<in> set (rs @ [r])" for q
    proof (cases "root_id q = root_id r")
      case same: True
      have "revision_sort_key q \<le> revision_sort_key r"
      proof (cases "q = r")
        case False
        with q ok obtain c where c: "map_of latest (root_id q) = Some c" "revision_sort_key q \<le> revision_sort_key c"
          by (auto simp: latest_ok_def)
        with same Some have "c = cur" by simp
        with c True show ?thesis by simp
      qed simp
      with same Some show ?thesis by (simp add: map_of_map_replace)
    next
      case False
      with q ok obtain c where "map_of latest (root_id q) = Some c" "revision_sort_key q \<le> revision_sort_key c"
        by (auto simp: latest_ok_def)
      with False show ?thesis by (simp add: map_of_map_replace)
    qed
    moreover have "distinct (map fst ?upd)"
      using ok by (simp only: map_fst_map_replace latest_ok_def)
    moreover have "\<forall>(k, c) \<in> set ?upd. root_id c = k \<and> c \<in> set (rs @ [r])"
      using ok by (fastforce simp: latest_ok_def)
    ultimately show ?thesis using Some True by (simp only: latest_step_def latest_ok_def option.case if_True) blast
  next
    case False
    with ok Some show ?thesis
      by (auto simp: latest_step_def latest_ok_def)
  qed
qed

lemma latest_ok_fold: "latest_ok rs0 latest \<Longrightarrow> latest_ok (rs0 @ rs) (fold latest_step rs latest)"
proof (induction rs arbitrary: rs0 latest)
  case (Cons r rs)
  from Cons.IH [OF latest_ok_step [OF Cons.prems, of r]] show ?case by simp
qed simp

lemma latest_ok_all: "latest_ok rs (fold latest_step rs [])"
  using latest_ok_fold [OF latest_ok_Nil, of rs] by simp

lemma latest_set:
  "c \<in> set (latest_result_revisions rs) \<longleftrightarrow> map_of (fold latest_step rs []) (root_id c) = Some c"
proof
  let ?l = "fold latest_step rs []"
  assume "c \<in> set (latest_result_revisions rs)"
  then obtain k where k: "(k, c) \<in> set ?l" by (auto simp: latest_result_revisions_def)
  with latest_ok_all [of rs] have "root_id c = k" "distinct (map fst ?l)" by (auto simp: latest_ok_def)
  with k show "map_of ?l (root_id c) = Some c" by simp
next
  assume "map_of (fold latest_step rs []) (root_id c) = Some c"
  then have "(root_id c, c) \<in> set (fold latest_step rs [])" by (rule map_of_SomeD)
  then show "c \<in> set (latest_result_revisions rs)" by (force simp: latest_result_revisions_def)
qed

lemma latest_subset: "set (latest_result_revisions rs) \<subseteq> set rs"
proof
  fix c
  assume "c \<in> set (latest_result_revisions rs)"
  then have "(root_id c, c) \<in> set (fold latest_step rs [])"
    by (simp add: latest_set map_of_SomeD)
  with latest_ok_all [of rs] show "c \<in> set rs" by (auto simp: latest_ok_def)
qed

lemma latest_roots: "root_id ` set (latest_result_revisions rs) = root_id ` set rs"
proof
  show "root_id ` set (latest_result_revisions rs) \<subseteq> root_id ` set rs"
    using latest_subset by blast
  show "root_id ` set rs \<subseteq> root_id ` set (latest_result_revisions rs)"
  proof
    fix k
    assume "k \<in> root_id ` set rs"
    then obtain r where r: "r \<in> set rs" "k = root_id r" by blast
    with latest_ok_all [of rs] obtain c where c: "map_of (fold latest_step rs []) k = Some c"
      by (auto simp: latest_ok_def)
    with latest_ok_all [of rs] have "root_id c = k"
      by (auto simp: latest_ok_def dest: map_of_SomeD)
    with c show "k \<in> root_id ` set (latest_result_revisions rs)"
      using latest_set [of c rs] by force
  qed
qed

lemma latest_distinct_roots: "distinct (map root_id (latest_result_revisions rs))"
proof -
  let ?l = "fold latest_step rs []"
  have "map root_id (map snd ?l) = map fst ?l"
    using latest_ok_all [of rs] by (auto simp: latest_ok_def intro!: map_cong)
  moreover have "distinct (map fst ?l)" using latest_ok_all [of rs] by (simp add: latest_ok_def)
  ultimately have "distinct (map root_id (map snd ?l))" by (simp only:)
  moreover have "mset (map root_id (latest_result_revisions rs)) = mset (map root_id (map snd ?l))"
    by (simp only: latest_result_revisions_def mset_map mset_sort)
  ultimately show ?thesis by (metis mset_eq_imp_distinct_iff)
qed

lemma latest_eq_Nil [simp]: "latest_result_revisions rs = [] \<longleftrightarrow> rs = []"
  using latest_roots [of rs] by (metis image_is_empty set_empty)

text \<open>
  Revisions: of the results of one lineage (the same root result) the gate counts exactly one,
  the one that no other revision of the lineage exceeds in revision number, then creation time,
  then identifier; every lineage is represented, and the order is by sample and identifier.
\<close>

theorem latest_revision_per_lineage:
  assumes "r \<in> set rs"
  shows "(\<exists>!c. c \<in> set (latest_result_revisions rs) \<and> root_id c = root_id r)
    \<and> (\<exists>c. c \<in> set (latest_result_revisions rs) \<and> root_id c = root_id r \<and> c \<in> set rs
            \<and> revision_sort_key r \<le> revision_sort_key c)
    \<and> sorted (map (\<lambda>r. (br_sample_id r, br_id r)) (latest_result_revisions rs))"
proof -
  from assms latest_ok_all [of rs] obtain b where
    b: "map_of (fold latest_step rs []) (root_id r) = Some b" "revision_sort_key r \<le> revision_sort_key b"
    by (auto simp: latest_ok_def)
  with latest_ok_all [of rs] have rb: "root_id b = root_id r"
    by (auto simp: latest_ok_def dest: map_of_SomeD)
  have iff: "c \<in> set (latest_result_revisions rs) \<and> root_id c = root_id r \<longleftrightarrow> c = b" for c
    using b rb by (auto simp: latest_set)
  have "\<exists>!c. c \<in> set (latest_result_revisions rs) \<and> root_id c = root_id r"
    unfolding iff by blast
  moreover have "b \<in> set (latest_result_revisions rs) \<and> root_id b = root_id r \<and> b \<in> set rs
      \<and> revision_sort_key r \<le> revision_sort_key b"
    using iff [of b] b latest_subset [of rs] by auto
  moreover have "sorted (map (\<lambda>r. (br_sample_id r, br_id r)) (latest_result_revisions rs))"
    by (simp add: latest_result_revisions_def)
  ultimately show ?thesis by blast
qed

definition demo_revision :: "uuid \<Rightarrow> uuid option \<Rightarrow> int \<Rightarrow> bench_result" where
  "demo_revision i base number =
     \<lparr>br_id = i, br_run_id = ''run'', br_case_id = Some ''case'', br_parent_id = base, br_root_id = base,
      br_revision = number, br_revision_hash = None, br_sample_id = ''s'', br_quality = Some 1,
      br_exact_match = None, br_json_valid = True, br_tool_call_valid = True,
      br_groundedness = None, br_faithfulness = None, br_human_label = None, br_error_type = None,
      br_normalized_output = None, br_metadata = JNull,
      br_data_source = ''local_authored'', br_created_at = 0, br_raw_output = None\<rparr>"

theorem latest_revision_witness:
  "latest_result_revisions [demo_revision ''b'' (Some ''a'') 2, demo_revision ''a'' None 1]
     = [demo_revision ''b'' (Some ''a'') 2]
   \<and> (\<exists>!c. c \<in> set (latest_result_revisions [demo_revision ''b'' (Some ''a'') 2, demo_revision ''a'' None 1])
         \<and> root_id c = ''a'')"
proof -
  let ?rs = "[demo_revision ''b'' (Some ''a'') 2, demo_revision ''a'' None 1]"
  have "latest_result_revisions ?rs = [demo_revision ''b'' (Some ''a'') 2]"
    by code_simp
  moreover have "root_id (demo_revision ''a'' None 1) = ''a''" by code_simp
  with latest_revision_per_lineage [of "demo_revision ''a'' None 1" ?rs]
  have "\<exists>!c. c \<in> set (latest_result_revisions ?rs) \<and> root_id c = ''a''" by simp
  ultimately show ?thesis by blast
qed

section \<open>The bundle\<close>

definition run_in_scope :: "dep_config \<Rightarrow> eval_suite \<Rightarrow> bench_run \<Rightarrow> bool" where
  "run_in_scope cfg suite r \<longleftrightarrow>
     rn_config_id r = Some (dc_id cfg) \<and> rn_suite_id r = Some (es_id suite) \<and>
     rn_status r = ''completed'' \<and> rn_data_source r \<noteq> TOOL_FAULT_DATA_SOURCE"

definition case_in_scope :: "eval_suite \<Rightarrow> eval_case \<Rightarrow> bool" where
  "case_in_scope suite c \<longleftrightarrow> ec_suite_id c = es_id suite \<and> ec_is_active c"

definition scope_results :: "evidence_db \<Rightarrow> dep_config \<Rightarrow> eval_suite \<Rightarrow> bench_result list" where
  "scope_results db cfg suite =
     filter (\<lambda>r. br_run_id r \<in> rn_id ` {run \<in> set (e_runs db). run_in_scope cfg suite run} \<and>
                 (\<exists>c. c \<in> set (e_cases db) \<and> case_in_scope suite c \<and> br_case_id r = Some (ec_id c)))
       (e_results db)"

lemma case_in_scope_eta: "case_in_scope suite = (\<lambda>c. ec_suite_id c = es_id suite \<and> ec_is_active c)"
  by (simp add: fun_eq_iff case_in_scope_def)

lemma case_member: "(case x of None \<Rightarrow> False | Some c \<Rightarrow> c \<in> S) \<longleftrightarrow> (\<exists>c \<in> S. x = Some c)"
  by (cases x) auto

lemma bundle_results: "bn_results (collect_evidence db cfg suite) = latest_result_revisions (scope_results db cfg suite)"
proof -
  have run: "br_run_id r \<in> set (map rn_id (filter (\<lambda>r. rn_config_id r = Some (dc_id cfg) \<and>
         rn_suite_id r = Some (es_id suite) \<and> rn_status r = ''completed'' \<and>
         rn_data_source r \<noteq> TOOL_FAULT_DATA_SOURCE) (e_runs db)))
     \<longleftrightarrow> br_run_id r \<in> rn_id ` {run \<in> set (e_runs db). run_in_scope cfg suite run}" for r
    by (simp add: run_in_scope_def)
  have eval: "(case br_case_id r of None \<Rightarrow> False | Some c \<Rightarrow>
       c \<in> set (map ec_id (filter (\<lambda>c. ec_suite_id c = es_id suite \<and> ec_is_active c) (e_cases db))))
     \<longleftrightarrow> (\<exists>c. c \<in> set (e_cases db) \<and> case_in_scope suite c \<and> br_case_id r = Some (ec_id c))" for r
    unfolding case_member by (auto simp: case_in_scope_def)
  show ?thesis
    unfolding collect_evidence_def Let_def evidence_bundle.select_convs scope_results_def run eval ..
qed

lemma bundle_runs:
  "bn_runs (collect_evidence db cfg suite) =
     filter (\<lambda>r. run_in_scope cfg suite r \<and> rn_id r \<in> br_run_id ` set (bn_results (collect_evidence db cfg suite)))
       (e_runs db)"
  by (auto simp: collect_evidence_def Let_def run_in_scope_def filter_filter intro!: filter_cong)

lemma bundle_cases:
  "bn_active_cases (collect_evidence db cfg suite) = filter (case_in_scope suite) (e_cases db)"
  by (simp only: collect_evidence_def Let_def evidence_bundle.select_convs case_in_scope_eta)

lemma bundle_result_in_scope:
  "set (bn_results (collect_evidence db cfg suite)) \<subseteq> set (scope_results db cfg suite)"
  unfolding bundle_results by (rule latest_subset)

lemma map_filter_total: "(\<And>x. x \<in> set xs \<Longrightarrow> f x \<noteq> None) \<Longrightarrow> map fst (List.map_filter f xs) = map (fst \<circ> the \<circ> f) xs"
  by (induction xs) (auto simp: List.map_filter_def)

lemma bundle_case_map:
  "map fst (bn_case_map (collect_evidence db cfg suite)) = map br_id (bn_results (collect_evidence db cfg suite))"
proof -
  let ?rs = "bn_results (collect_evidence db cfg suite)"
  let ?active = "filter (case_in_scope suite) (e_cases db)"
  let ?f = "\<lambda>r. case br_case_id r of None \<Rightarrow> None | Some c \<Rightarrow> map_option (Pair (br_id r)) (row_find ec_id c ?active)"
  have f: "bn_case_map (collect_evidence db cfg suite) = List.map_filter ?f ?rs"
    by (simp only: collect_evidence_def Let_def evidence_bundle.select_convs case_in_scope_eta)
  have some: "\<exists>c. ?f r = Some (br_id r, c)" if "r \<in> set ?rs" for r
  proof -
    from that bundle_result_in_scope have "r \<in> set (scope_results db cfg suite)" by blast
    then obtain c where c: "c \<in> set ?active" "br_case_id r = Some (ec_id c)"
      by (auto simp: scope_results_def)
    then obtain d where "row_find ec_id (ec_id c) ?active = Some d"
      using row_find_None [of ec_id "ec_id c" ?active] by fastforce
    with c show ?thesis by simp
  qed
  then have "map fst (List.map_filter ?f ?rs) = map (fst \<circ> the \<circ> ?f) ?rs"
    by (intro map_filter_total) (metis option.discI)
  also have "\<dots> = map br_id ?rs"
  proof (rule map_cong [OF refl])
    fix r
    assume "r \<in> set ?rs"
    with some obtain c where "?f r = Some (br_id r, c)" by blast
    then show "(fst \<circ> the \<circ> ?f) r = br_id r" by (simp only: o_apply option.sel fst_conv)
  qed
  finally show ?thesis using f by simp
qed

text \<open>
  The evidence of a gate is in scope and consistent: the results are the latest revisions of
  the results that a completed, non-fault-injected run of this configuration on this suite produced
  for an active case of the suite; the runs are exactly those with a counted result; every result
  has its case; and evidence is mandatory-missing exactly when there is no result.
\<close>

theorem collected_evidence_in_scope:
  "let b = collect_evidence db cfg suite in
     bn_results b = latest_result_revisions (scope_results db cfg suite)
     \<and> rn_id ` set (bn_runs b) = br_run_id ` set (bn_results b)
     \<and> set (bn_runs b) \<subseteq> {run \<in> set (e_runs db). run_in_scope cfg suite run}
     \<and> map fst (bn_case_map b) = map br_id (bn_results b)
     \<and> (mandatory_evidence_missing b \<longleftrightarrow> bn_results b = [])
     \<and> sum_list (map snd (bn_source_distribution b))
         = length (bn_active_cases b) + length (bn_runs b) + length (bn_results b) + length (bn_metrics b)"
proof -
  let ?b = "collect_evidence db cfg suite"
  have runs: "rn_id ` set (bn_runs ?b) = br_run_id ` set (bn_results ?b)"
  proof
    show "rn_id ` set (bn_runs ?b) \<subseteq> br_run_id ` set (bn_results ?b)"
      unfolding bundle_runs by auto
    show "br_run_id ` set (bn_results ?b) \<subseteq> rn_id ` set (bn_runs ?b)"
    proof
      fix k
      assume "k \<in> br_run_id ` set (bn_results ?b)"
      then obtain r where r: "r \<in> set (bn_results ?b)" "k = br_run_id r" by blast
      with bundle_result_in_scope have "r \<in> set (scope_results db cfg suite)" by blast
      then have "k \<in> rn_id ` {run \<in> set (e_runs db). run_in_scope cfg suite run}"
        using r(2) by (simp add: scope_results_def)
      then obtain run where "run \<in> set (e_runs db)" "run_in_scope cfg suite run" "k = rn_id run" by blast
      with r have "run \<in> set (bn_runs ?b)" unfolding bundle_runs by auto
      with \<open>k = rn_id run\<close> show "k \<in> rn_id ` set (bn_runs ?b)" by blast
    qed
  qed
  have active: "bn_results ?b = []" if "bn_active_cases ?b = []"
  proof -
    from that have "scope_results db cfg suite = []"
      by (auto simp: bundle_cases filter_empty_conv scope_results_def)
    then show ?thesis by (simp add: bundle_results)
  qed
  have missing: "mandatory_evidence_missing ?b \<longleftrightarrow> bn_results ?b = []"
    using runs active by (auto simp: mandatory_evidence_missing_def)
  have sub: "set (bn_runs ?b) \<subseteq> {run \<in> set (e_runs db). run_in_scope cfg suite run}"
    unfolding bundle_runs by auto
  have dist: "sum_list (map snd (bn_source_distribution ?b))
      = length (bn_active_cases ?b) + length (bn_runs ?b) + length (bn_results ?b) + length (bn_metrics ?b)"
    by (simp add: collect_evidence_def Let_def counter_total)
  show ?thesis
    using bundle_results runs sub bundle_case_map missing dist by (simp only: Let_def)
qed

end
