(* ===== verification/Gate_Metrics_Correct.thy ===== *)
theory Gate_Metrics_Correct
  imports Gate_Metrics Gate_Evidence_Correct
begin

text \<open>
  Properties of the metrics: the validity rates are proportions that exist exactly when there is
  a sample, the failure rate agrees with the list of critical outcomes, the latency percentiles are
  ordered, and the count of real cases agrees with the test for real evidence.
\<close>

definition unit_metric :: "calc_metric \<Rightarrow> bool" where
  "unit_metric m \<longleftrightarrow>
     (cm_sample_size m = 0 \<and> cm_value m = None) \<or>
     (0 < cm_sample_size m \<and> (\<exists>q. cm_value m = Some q \<and> 0 \<le> q \<and> q \<le> 1))"

lemma unit_share_metric [simp]: "unit_metric (share_metric P xs d)"
proof -
  have "0 \<le> count_where P xs" "count_where P xs \<le> int (length xs)"
    using count_where_bounds [of P xs] by auto
  then show ?thesis
    by (auto simp: unit_metric_def share_metric_def metric_def share_def divide_le_eq zero_le_divide_iff)
qed

lemma metric_fields [simp]:
  "cm_value (metric v n d) = v" "cm_sample_size (metric v n d) = n" "cm_details (metric v n d) = JObj d"
  by (simp_all add: metric_def)

lemma calculate_metrics_parts:
  assumes "calculate_metrics fsqrt b = Some ms"
  obtains tools rag runtime agent rest where
    "tool_metrics b = Some tools" "rag_metrics b = Some rag" "reliability_metrics fsqrt b = Some runtime"
    "agent_metrics b = Some agent" "tail_metrics b = Some rest"
    "ms = quality_metrics b @ tools @ rag @ runtime @ agent @ rest"
  using assms by (auto simp: calculate_metrics_def bind_eq_Some_conv)

definition tool_keys :: "string list" where
  "tool_keys =
     [''tool_call_validity_rate'', ''tool_selection_accuracy'', ''tool_argument_validity_rate'',
      ''tool_execution_success_rate'', ''tool_sequence_success_rate'', ''tool_retry_recovery_rate'']"

definition early_keys :: "string list" where
  "early_keys = [''mean_quality_score'', ''json_validity_rate'']"

definition rag_keys :: "string list" where
  "rag_keys = [''rag_retrieval_recall'', ''rag_citation_precision'', ''rag_citation_recall'',
     ''rag_groundedness_score'', ''rag_unsupported_claim_rate'']"

definition runtime_keys :: "string list" where
  "runtime_keys = [''reliability_success_rate'', ''reliability_timeout_rate'', ''reliability_oom_rate'',
     ''p99_end_to_end_latency_ms'', ''latency_variation_coefficient'', ''trial_coverage_rate'',
     ''context_stress_success_rate'']"

definition agent_keys :: "string list" where
  "agent_keys = [''agent_task_success_rate'', ''agent_plan_validity_rate'', ''agent_step_success_rate'',
     ''agent_action_sequence_accuracy'', ''agent_policy_violation_rate'', ''agent_final_response_rate'',
     ''agent_memory_provenance_rate'', ''agent_tool_retry_recovery_rate'', ''agent_replan_success_rate'',
     ''agent_recovery_step_success_rate'', ''agent_approval_compliance_rate'',
     ''agent_approval_provenance_rate'', ''agent_pending_approval_rate'',
     ''agent_observation_coverage_rate'', ''agent_unrecovered_failure_rate'']"

definition tail_keys :: "string list" where
  "tail_keys = [''groundedness_score'', ''faithfulness_score'', ''critical_case_failure_rate'',
     ''p50_end_to_end_latency_ms'', ''p95_end_to_end_latency_ms'', ''p95_ttft_ms'',
     ''mean_tokens_per_second'', ''p95_gpu_vram_used_mb'', ''oom_rate'', ''real_case_count'',
     ''critical_case_count'']"

lemmas key_defs = tool_keys_def early_keys_def rag_keys_def runtime_keys_def agent_keys_def tail_keys_def

lemma group_keys:
  "map fst (quality_metrics b) = early_keys"
  "tool_metrics b = Some tools \<Longrightarrow> map fst tools = tool_keys"
  "rag_metrics b = Some rag \<Longrightarrow> map fst rag = rag_keys"
  "reliability_metrics fsqrt b = Some runtime \<Longrightarrow> map fst runtime = runtime_keys"
  "agent_metrics b = Some agent \<Longrightarrow> map fst agent = agent_keys"
  "tail_metrics b = Some rest \<Longrightarrow> map fst rest = tail_keys"
  by (auto simp: quality_metrics_def tool_metrics_def rag_metrics_def reliability_metrics_def
      agent_metrics_def tail_metrics_def key_defs bind_eq_Some_conv Let_def)

lemma map_of_notin: "k \<notin> set (map fst xs) \<Longrightarrow> map_of xs k = None"
  by (simp add: map_of_eq_None_iff)

lemma metrics_lookup:
  assumes "calculate_metrics fsqrt b = Some ms"
  shows "map fst ms = early_keys @ tool_keys @ rag_keys @ runtime_keys @ agent_keys @ tail_keys"
    and "k \<in> set early_keys \<Longrightarrow> map_of ms k = map_of (quality_metrics b) k"
    and "k \<in> set tool_keys \<Longrightarrow> map_of ms k = map_of (the (tool_metrics b)) k"
    and "k \<in> set tail_keys \<Longrightarrow> map_of ms k = map_of (the (tail_metrics b)) k"
    and "tool_metrics b \<noteq> None" and "tail_metrics b \<noteq> None"
proof -
  from assms obtain tools rag runtime agent rest where p:
    "tool_metrics b = Some tools" "rag_metrics b = Some rag" "reliability_metrics fsqrt b = Some runtime"
    "agent_metrics b = Some agent" "tail_metrics b = Some rest"
    and ms: "ms = quality_metrics b @ tools @ rag @ runtime @ agent @ rest"
    by (rule calculate_metrics_parts)
  note keys = group_keys(1) [of b] group_keys(2) [OF p(1)] group_keys(3) [OF p(2)]
    group_keys(4) [OF p(3)] group_keys(5) [OF p(4)] group_keys(6) [OF p(5)]
  have d: "distinct (early_keys @ tool_keys @ rag_keys @ runtime_keys @ agent_keys @ tail_keys)"
    by code_simp
  have app: "map_of (xs @ ys) k = map_of ys k" if "k \<notin> set (map fst xs)"
    for xs ys :: metrics and k
    using that by (simp add: map_add_def map_of_notin split: option.split)
  have app': "map_of (xs @ ys) k = map_of xs k" if "k \<notin> set (map fst ys)"
    for xs ys :: metrics and k
    using that by (simp add: map_add_def map_of_notin split: option.split)
  show "tool_metrics b \<noteq> None" "tail_metrics b \<noteq> None" by (simp_all add: p)
  show "map fst ms = early_keys @ tool_keys @ rag_keys @ runtime_keys @ agent_keys @ tail_keys"
    by (simp add: ms keys)
  show "map_of ms k = map_of (quality_metrics b) k" if "k \<in> set early_keys"
    unfolding ms by (rule app') (use d that in \<open>auto simp: keys\<close>)
  show "map_of ms k = map_of (the (tail_metrics b)) k" if k: "k \<in> set tail_keys"
    unfolding ms append_assoc [symmetric] p(5) option.sel by (rule app) (use d k in \<open>auto simp: keys\<close>)
  show "map_of ms k = map_of (the (tool_metrics b)) k" if k: "k \<in> set tool_keys"
  proof -
    have "map_of ms k = map_of (tools @ rag @ runtime @ agent @ rest) k"
      unfolding ms by (rule app) (use d k in \<open>auto simp: keys\<close>)
    also have "\<dots> = map_of tools k" by (rule app') (use d k in \<open>auto simp: keys\<close>)
    finally show ?thesis by (simp add: p)
  qed
qed

definition rate_keys :: "string list" where
  "rate_keys = [''json_validity_rate''] @ tool_keys @ [''critical_case_failure_rate'', ''oom_rate'']"

lemma tool_units: "tool_metrics b = Some tools \<Longrightarrow> k \<in> set tool_keys \<Longrightarrow> \<exists>m. map_of tools k = Some m \<and> unit_metric m"
  by (auto simp: tool_metrics_def tool_keys_def bind_eq_Some_conv Let_def)

text \<open>
  The validity rates of the gate (JSON, tool calls, critical failures, out of memory) are all
  reported, each is a proportion, and each has a value exactly when its sample is not empty: an
  empty sample never looks like a perfect or a zero rate. No metric is reported twice.
\<close>

theorem validity_rates_are_proportions:
  assumes "calculate_metrics fsqrt b = Some ms" and "k \<in> set rate_keys"
  shows "(\<exists>m. map_of ms k = Some m \<and> unit_metric m) \<and> distinct (map fst ms)"
proof -
  note l = metrics_lookup [OF assms(1)]
  obtain tools rest where p: "tool_metrics b = Some tools" "tail_metrics b = Some rest"
    using l(5,6) by blast
  have "distinct (map fst ms)" unfolding l(1) by code_simp
  moreover from assms(2) consider "k = ''json_validity_rate''" | "k \<in> set tool_keys"
    | "k \<in> {''critical_case_failure_rate'', ''oom_rate''}"
    by (auto simp: rate_keys_def)
  then have "\<exists>m. map_of ms k = Some m \<and> unit_metric m"
  proof cases
    case 1
    then show ?thesis using l(2) [of k] by (simp add: early_keys_def quality_metrics_def Let_def)
  next
    case 2
    then show ?thesis using l(3) tool_units [OF p(1)] p by simp
  next
    case 3
    then have "k \<in> set tail_keys" by (auto simp: tail_keys_def)
    with l(4) p 3 show ?thesis by (auto simp: tail_metrics_def bind_eq_Some_conv Let_def)
  qed
  ultimately show ?thesis by blast
qed

lemma those_list_all2: "those (map f xs) = Some ys \<Longrightarrow> list_all2 (\<lambda>x y. f x = Some y) xs ys"
  by (induction xs arbitrary: ys) (auto split: option.splits)

lemma list_all2_eq_map: "list_all2 (\<lambda>x y. g y = h x) xs ys \<Longrightarrow> map g ys = map h xs"
  by (induction rule: list_all2_induct) auto

lemma outcome_failed: "critical_outcome_of b r e = Some c \<Longrightarrow> is_critical_failure True r (Some e) = Some (co_failed c)"
  by (auto simp: critical_outcome_of_def bind_eq_Some_conv)

lemma failures_of_outcomes:
  assumes "critical_case_outcomes b = Some outs"
    and "those (map (\<lambda>(r, e). is_critical_failure True r (Some e)) (critical_results b)) = Some fs"
  shows "fs = map co_failed outs"
proof -
  let ?xs = "critical_results b"
  have 1: "list_all2 (\<lambda>x c. critical_outcome_of b (fst x) (snd x) = Some c) ?xs outs"
    using those_list_all2 [OF assms(1) [unfolded critical_case_outcomes_def]] by (simp add: case_prod_unfold)
  have 2: "list_all2 (\<lambda>x f. is_critical_failure True (fst x) (Some (snd x)) = Some f) ?xs fs"
    using those_list_all2 [OF assms(2)] by (simp add: case_prod_unfold)
  from 1 have "list_all2 (\<lambda>x c. Some (co_failed c) = is_critical_failure True (fst x) (Some (snd x))) ?xs outs"
    by (rule list_all2_mono) (simp add: outcome_failed)
  then have "map (\<lambda>c. Some (co_failed c)) outs = map (\<lambda>x. is_critical_failure True (fst x) (Some (snd x))) ?xs"
    by (rule list_all2_eq_map)
  moreover from 2 have "list_all2 (\<lambda>x f. Some f = is_critical_failure True (fst x) (Some (snd x))) ?xs fs"
    by (rule list_all2_mono) simp
  then have "map Some fs = map (\<lambda>x. is_critical_failure True (fst x) (Some (snd x))) ?xs"
    by (rule list_all2_eq_map)
  ultimately have "map Some fs = map Some (map co_failed outs)" by (simp add: comp_def)
  then show ?thesis by (metis inj_map_eq_map inj_Some)
qed

lemma count_where_id_map: "count_where (\<lambda>f. f) (map g xs) = count_where g xs"
  by (induction xs) (simp_all add: count_where_def)

lemma real_ids_iff:
  fixes db cfg suite
  defines "b \<equiv> collect_evidence db cfg suite"
  shows "case_ids (\<lambda>r. br_data_source r \<noteq> SYNTHETIC_SOURCE \<and>
            (case case_for_result b r of None \<Rightarrow> False | Some e \<Rightarrow> ec_data_source e \<noteq> SYNTHETIC_SOURCE)) b \<noteq> []
     \<longleftrightarrow> has_real_evidence b"
proof -
  have id: "br_case_id r \<noteq> None" if "r \<in> set (bn_results b)" for r
    using that bundle_result_in_scope [of db cfg suite] by (auto simp: b_def scope_results_def)
  have some: "List.map_filter f xs = [] \<longleftrightarrow> xs = []" if "\<And>r. r \<in> set xs \<Longrightarrow> f r \<noteq> None" for f :: "bench_result \<Rightarrow> uuid option" and xs
    using that by (cases xs) (auto simp: List.map_filter_def)
  have "case_ids P b \<noteq> [] \<longleftrightarrow> list_ex P (bn_results b)" for P
    unfolding case_ids_def fromkeys_eq_Nil
    by (subst some) (auto simp: id filter_empty_conv list_ex_iff)
  then show ?thesis
    unfolding has_real_evidence_def case_for_result_def
    by (simp add: list_ex_iff) (intro bex_cong refl, simp split: option.splits, blast)
qed

text \<open>
  The metrics agree with the facts the verdict is built from: the critical failure rate is the
  failed share of the critical outcomes listed in the scorecard (absent when none is listed), and
  the count of real cases is positive exactly when the bundle has real, non-synthetic evidence.
\<close>

theorem metrics_agree_with_outcomes:
  assumes "calculate_metrics fsqrt (collect_evidence db cfg suite) = Some ms"
    and "critical_case_outcomes (collect_evidence db cfg suite) = Some outs"
  shows "map_of ms ''critical_case_failure_rate''
      = Some (share_metric co_failed outs [(''failed_critical_cases'', JInt (count_where co_failed outs))])
    \<and> (\<exists>m. map_of ms ''real_case_count'' = Some m \<and> cm_value m = Some (of_int (cm_sample_size m)) \<and>
         (0 < cm_sample_size m \<longleftrightarrow> has_real_evidence (collect_evidence db cfg suite)))"
proof -
  let ?b = "collect_evidence db cfg suite"
  note l = metrics_lookup [OF assms(1)]
  obtain rest where p: "tail_metrics ?b = Some rest" using l(6) by blast
  from p obtain fs where
    fs: "those (map (\<lambda>(r, e). is_critical_failure True r (Some e)) (critical_results ?b)) = Some fs"
    by (auto simp: tail_metrics_def bind_eq_Some_conv Let_def)
  note f = failures_of_outcomes [OF assms(2) fs]
  have "map_of ms ''critical_case_failure_rate''
      = Some (share_metric (\<lambda>f. f) fs [(''failed_critical_cases'', JInt (count_where (\<lambda>f. f) fs))])"
    using p fs l(4) [of "''critical_case_failure_rate''"]
    by (auto simp: tail_metrics_def tail_keys_def bind_eq_Some_conv Let_def)
  moreover have "share_metric (\<lambda>f. f) fs d = share_metric co_failed outs d" for d
    by (simp add: f share_metric_def share_def count_where_id_map)
  moreover have "\<exists>m. map_of ms ''real_case_count'' = Some m \<and> cm_value m = Some (of_int (cm_sample_size m)) \<and>
         (0 < cm_sample_size m \<longleftrightarrow> has_real_evidence ?b)"
    using p fs l(4) [of "''real_case_count''"] real_ids_iff [of db cfg suite]
    by (auto simp: tail_metrics_def tail_keys_def bind_eq_Some_conv Let_def)
  ultimately show ?thesis by (simp add: f count_where_id_map)
qed

section \<open>A concrete evidence store\<close>

definition demo_eval_case :: eval_case where
  "demo_eval_case =
     \<lparr>ec_id = ''c1'', ec_suite_id = ''suite'', ec_external_id = ''case-1'', ec_category = ''json_output'',
      ec_title = ''Case'', ec_input_payload = JObj [], ec_expected_output = JNull,
      ec_reference_context = JNull, ec_expected_tool_schema = JNull, ec_criticality = Critical,
      ec_is_active = True, ec_data_source = ''local_authored''\<rparr>"

definition demo_run :: bench_run where
  "demo_run =
     \<lparr>rn_id = ''11111111-1111-1111-1111-111111111111'', rn_config_id = Some ''config'',
      rn_suite_id = Some ''suite'', rn_prompt_id = ''prompt'', rn_status = ''completed'', rn_runtime_name = ''mock'',
      rn_runtime_version = None, rn_dataset_version = ''v1'', rn_runtime_config = JObj [],
      rn_data_source = ''local_authored'', rn_parent_id = None, rn_root_id = None, rn_revision = 1,
      rn_revision_reason = None, rn_revision_hash = None\<rparr>"

definition demo_bench_result :: "rat \<Rightarrow> bench_result" where
  "demo_bench_result quality =
     \<lparr>br_id = ''b1'', br_run_id = rn_id demo_run, br_case_id = Some ''c1'', br_parent_id = None,
      br_root_id = None, br_revision = 1, br_revision_hash = None, br_sample_id = ''s1'',
      br_quality = Some quality, br_exact_match = Some True, br_json_valid = True,
      br_tool_call_valid = False, br_groundedness = None, br_faithfulness = None,
      br_human_label = None, br_error_type = None, br_normalized_output = None,
      br_metadata = JObj [(''judge_label'', JObj [(''applied'', JBool True)])],
      br_data_source = ''local_authored'', br_created_at = 0, br_raw_output = None\<rparr>"

definition demo_inf_metric :: inf_metric where
  "demo_inf_metric =
     \<lparr>im_run_id = rn_id demo_run, im_sample_id = ''s1'', im_ttft_ms = 10, im_latency_ms = 50,
      im_tokens_per_second = 20, im_vram_mb = None, im_oom = False, im_data_source = ''local_authored'',
      im_prompt_tokens = 0, im_completion_tokens = 0, im_gpu_util = None, im_cpu_util = None,
      im_peak_memory_mb = None, im_retry_count = 0\<rparr>"

definition demo_config :: dep_config where
  "demo_config =
     \<lparr>dc_id = ''config'', dc_workload_id = ''workload'', dc_runtime_config = JObj [],
      dc_configuration_hash = ''h'', dc_prompt_bundle = JObj []\<rparr>"

definition demo_suite :: eval_suite where
  "demo_suite = \<lparr>es_id = ''suite'', es_workload_id = ''workload'', es_suite_hash = ''h''\<rparr>"

definition demo_evidence :: "rat \<Rightarrow> evidence_db" where
  "demo_evidence quality =
     \<lparr>e_configs = [demo_config], e_suites = [demo_suite], e_cases = [demo_eval_case],
      e_runs = [demo_run], e_results = [demo_bench_result quality], e_metrics = [demo_inf_metric]\<rparr>"

lemma demo_metrics:
  "map_option (\<lambda>ms. map_of ms ''json_validity_rate'')
     (calculate_metrics (\<lambda>x. x) (collect_evidence (demo_evidence 1) demo_config demo_suite))
   = Some (Some (metric (Some 1) 1 []))"
  by code_simp

lemma demo_outcomes:
  "map_option (map co_failed) (critical_case_outcomes (collect_evidence (demo_evidence 1) demo_config demo_suite))
     = Some [False]"
  by code_simp

theorem validity_rates_witness:
  "\<exists>ms. calculate_metrics (\<lambda>x. x) (collect_evidence (demo_evidence 1) demo_config demo_suite) = Some ms
     \<and> (\<exists>m. map_of ms ''oom_rate'' = Some m \<and> unit_metric m)"
proof -
  obtain ms where ms: "calculate_metrics (\<lambda>x. x) (collect_evidence (demo_evidence 1) demo_config demo_suite) = Some ms"
    using demo_metrics by auto
  have "''oom_rate'' \<in> set rate_keys" by (simp add: rate_keys_def)
  from validity_rates_are_proportions [OF ms this] ms show ?thesis by blast
qed

theorem metrics_agree_witness:
  "\<exists>ms. calculate_metrics (\<lambda>x. x) (collect_evidence (demo_evidence 1) demo_config demo_suite) = Some ms
     \<and> map_of ms ''critical_case_failure_rate''
        = Some (metric (Some 0) 1 [(''failed_critical_cases'', JInt 0)])"
proof -
  obtain ms where ms: "calculate_metrics (\<lambda>x. x) (collect_evidence (demo_evidence 1) demo_config demo_suite) = Some ms"
    using demo_metrics by auto
  obtain outs where outs: "critical_case_outcomes (collect_evidence (demo_evidence 1) demo_config demo_suite) = Some outs"
    and f: "map co_failed outs = [False]"
    using demo_outcomes by auto
  from f obtain c where c: "outs = [c]" "\<not> co_failed c" by auto
  have "share_metric co_failed outs [(''failed_critical_cases'', JInt (count_where co_failed outs))]
      = metric (Some 0) 1 [(''failed_critical_cases'', JInt 0)]"
    by (simp add: c share_metric_def share_def count_where_def)
  with metrics_agree_with_outcomes [OF ms outs] ms show ?thesis by auto
qed

end
