(* ===== verification/Deployment_Gate_Correct.thy ===== *)
theory Deployment_Gate_Correct
  imports Deployment_Gate Gate_Metrics_Correct
begin

text \<open>
  Properties of the deployment gate: what an approval rests on, the verdict as a function of the
  findings, the staleness transaction and what it leaves unchanged, freshness after a reconciliation,
  and the agreement of the preflight with the evaluation.
\<close>

named_theorems stale_simps \<open>what the staleness transactions leave unchanged\<close>

section \<open>The staleness transactions\<close>

definition gate_evolves :: "gate \<Rightarrow> gate \<Rightarrow> bool" where
  "gate_evolves g g' \<longleftrightarrow>
     g' = g \<or> (gt_status g = Gate_Completed \<and> (\<exists>now reason. g' = mark_stale now reason g))"

text \<open>A transaction that at most marks completed gates stale and appends stale warnings.\<close>

definition only_stales :: "gate_db \<Rightarrow> gate_db \<Rightarrow> bool" where
  "only_stales db db' \<longleftrightarrow>
     list_all2 gate_evolves (g_gates db) (g_gates db') \<and> prefix (g_actions db) (g_actions db') \<and>
     g_evidence db' = g_evidence db \<and> g_policies db' = g_policies db \<and> g_rules db' = g_rules db \<and>
     g_rule_results db' = g_rule_results db \<and> g_baselines db' = g_baselines db \<and>
     g_decisions db' = g_decisions db \<and> g_lineage db' = g_lineage db"

lemma gate_evolves_refl [simp]: "gate_evolves g g"
  by (simp add: gate_evolves_def)

lemma mark_stale_simps [simp]:
  "gt_id (mark_stale now reason g) = gt_id g" "gt_config_id (mark_stale now reason g) = gt_config_id g"
  "gt_suite_id (mark_stale now reason g) = gt_suite_id g" "gt_policy_id (mark_stale now reason g) = gt_policy_id g"
  "gt_verdict (mark_stale now reason g) = gt_verdict g" "gt_status (mark_stale now reason g) = Gate_Stale"
  "gt_revision_hash (mark_stale now reason g) = gt_revision_hash g"
  "gt_snapshot (mark_stale now reason g) = gt_snapshot g" "gt_scorecard (mark_stale now reason g) = gt_scorecard g"
  "gt_superseded_by (mark_stale now reason g) = gt_superseded_by g"
  "gt_decision_hash (mark_stale now reason g) = gt_decision_hash g"
  "gt_evaluated_at (mark_stale now reason g) = gt_evaluated_at g"
  by (simp_all add: mark_stale_def)

lemma gate_evolves_trans: "gate_evolves a b \<Longrightarrow> gate_evolves b c \<Longrightarrow> gate_evolves a c"
  by (auto simp: gate_evolves_def)

lemma gate_evolvesD:
  assumes "gate_evolves g g'"
  shows "gt_id g' = gt_id g" "gt_config_id g' = gt_config_id g" "gt_suite_id g' = gt_suite_id g"
    "gt_policy_id g' = gt_policy_id g" "gt_verdict g' = gt_verdict g" "gt_revision_hash g' = gt_revision_hash g"
    "gt_snapshot g' = gt_snapshot g" "gt_scorecard g' = gt_scorecard g"
    "gt_status g' = gt_status g \<or> gt_status g = Gate_Completed \<and> gt_status g' = Gate_Stale"
    "frozen_hash g' = frozen_hash g"
  using assms by (auto simp: gate_evolves_def frozen_hash_def)

lemma only_stales_refl [simp]: "only_stales db db"
  by (simp add: only_stales_def list_all2_refl)

lemma only_stales_trans:
  assumes "only_stales a b" and "only_stales b c"
  shows "only_stales a c"
proof -
  have "list_all2 gate_evolves (g_gates a) (g_gates c)"
    using assms gate_evolves_trans by (auto simp: only_stales_def intro: list_all2_trans)
  moreover have "prefix (g_actions a) (g_actions c)"
    using assms by (auto simp: only_stales_def)
  ultimately show ?thesis using assms by (simp add: only_stales_def)
qed

lemma only_stales_fields [stale_simps]:
  assumes "only_stales db db'"
  shows "g_evidence db' = g_evidence db" "g_policies db' = g_policies db" "g_rules db' = g_rules db"
    "g_rule_results db' = g_rule_results db" "g_baselines db' = g_baselines db"
    "g_decisions db' = g_decisions db" "g_lineage db' = g_lineage db"
  using assms by (simp_all add: only_stales_def)

lemma only_stales_gate:
  assumes "only_stales db db'" and "gate_find i (g_gates db) = Some g"
  shows "\<exists>g'. gate_find i (g_gates db') = Some g' \<and> gate_evolves g g'"
proof -
  from assms(1) have "list_all2 gate_evolves (g_gates db) (g_gates db')" by (simp add: only_stales_def)
  then show ?thesis using assms(2)
    by (induction rule: list_all2_induct) (auto simp: row_find_def gate_evolvesD(1) split: if_splits)
qed

lemma only_stales_gates: "only_stales db db' \<Longrightarrow> list_all2 gate_evolves (g_gates db) (g_gates db')"
  by (simp add: only_stales_def)

lemma only_stales_ids: "only_stales db db' \<Longrightarrow> map gt_id (g_gates db') = map gt_id (g_gates db)"
proof -
  assume "only_stales db db'"
  then have "list_all2 gate_evolves (g_gates db) (g_gates db')" by (simp add: only_stales_def)
  then show ?thesis by (induction rule: list_all2_induct) (auto simp: gate_evolvesD(1))
qed

lemma only_stales_append_action: "only_stales db (db\<lparr>g_actions := g_actions db @ xs\<rparr>)"
  by (simp add: only_stales_def list_all2_refl)

lemma add_action_ok:
  "add_release_action a db = Inr db' \<longleftrightarrow>
     strip (ra_reason a) \<noteq> [] \<and> db' = db\<lparr>g_actions := g_actions db @ [a\<lparr>ra_reason := strip (ra_reason a)\<rparr>]\<rparr>"
  by (auto simp: add_release_action_def Let_def)

definition blank :: "string \<Rightarrow> bool" where
  "blank s \<longleftrightarrow> strip s = []"

lemma add_stale_action_ok:
  "\<not> blank reason \<Longrightarrow> add_release_action (stale_action g reason now d) db =
     Inr (db\<lparr>g_actions := g_actions db @ [(stale_action g reason now d)\<lparr>ra_reason := strip reason\<rparr>]\<rparr>)"
  by (simp add: add_release_action_def Let_def blank_def stale_action_def)

definition stale_warned :: "gate_db \<Rightarrow> gate \<Rightarrow> release_decision \<Rightarrow> bool" where
  "stale_warned db g d \<longleftrightarrow> stale_dedupe_key d g \<in> ra_dedupe_key ` set (g_actions db)"

lemma record_stale_actions_spec:
  assumes "\<not> blank reason"
  shows "\<exists>xs. record_stale_actions g reason now ds db = Inr (db\<lparr>g_actions := g_actions db @ xs\<rparr>)
      \<and> (\<forall>d \<in> set ds. stale_dedupe_key d g \<in> ra_dedupe_key ` (set (g_actions db) \<union> set xs))
      \<and> (\<forall>a \<in> set xs. ra_type a = Stale_Detected \<and> ra_decision_id a \<in> rd_id ` set ds)
      \<and> ra_dedupe_key ` set xs \<subseteq> (\<lambda>d. stale_dedupe_key d g) ` set ds"
proof (induction ds arbitrary: db)
  case Nil
  then show ?case by (simp add: exI [of _ "[]"])
next
  case (Cons d ds)
  show ?case
  proof (cases "stale_dedupe_key d g \<in> ra_dedupe_key ` set (g_actions db)")
    case True
    with Cons.IH [of db] show ?thesis by simp blast
  next
    case False
    let ?a = "(stale_action g reason now d)\<lparr>ra_reason := strip reason\<rparr>"
    have key: "ra_dedupe_key ?a = stale_dedupe_key d g" "ra_type ?a = Stale_Detected" "ra_decision_id ?a = rd_id d"
      by (simp_all add: stale_action_def)
    from Cons.IH [of "db\<lparr>g_actions := g_actions db @ [?a]\<rparr>"] obtain xs where
      xs: "record_stale_actions g reason now ds (db\<lparr>g_actions := g_actions db @ [?a]\<rparr>)
         = Inr (db\<lparr>g_actions := g_actions db @ [?a] @ xs\<rparr>)"
      "\<forall>d' \<in> set ds. stale_dedupe_key d' g \<in> ra_dedupe_key ` (set (g_actions db) \<union> set (?a # xs))"
      "\<forall>a \<in> set xs. ra_type a = Stale_Detected \<and> ra_decision_id a \<in> rd_id ` set ds"
      "ra_dedupe_key ` set xs \<subseteq> (\<lambda>d. stale_dedupe_key d g) ` set ds"
      by auto
    show ?thesis
    proof (intro exI [of _ "?a # xs"] conjI)
      show "record_stale_actions g reason now (d # ds) db = Inr (db\<lparr>g_actions := g_actions db @ ?a # xs\<rparr>)"
        using False xs(1) by (simp add: add_stale_action_ok [OF assms])
      show "\<forall>d' \<in> set (d # ds). stale_dedupe_key d' g \<in> ra_dedupe_key ` (set (g_actions db) \<union> set (?a # xs))"
        using xs(2) key(1) by auto
      show "\<forall>a \<in> set (?a # xs). ra_type a = Stale_Detected \<and> ra_decision_id a \<in> rd_id ` set (d # ds)"
        using xs(3) key by auto
      show "ra_dedupe_key ` set (?a # xs) \<subseteq> (\<lambda>d. stale_dedupe_key d g) ` set (d # ds)"
        using xs(4) key by auto
    qed
  qed
qed

definition approvals_of :: "gate_db \<Rightarrow> gate \<Rightarrow> release_decision list" where
  "approvals_of db g = filter (\<lambda>d. rd_gate_id d = gt_id g \<and> rd_decision d = APPROVE_RELEASE) (g_decisions db)"

lemma record_all_stale_spec:
  assumes "\<not> blank reason"
  shows "\<exists>xs. record_all_stale gs reason now db = Inr (db\<lparr>g_actions := g_actions db @ xs\<rparr>)
      \<and> (\<forall>g \<in> set gs. \<forall>d \<in> set (approvals_of db g).
            stale_dedupe_key d g \<in> ra_dedupe_key ` (set (g_actions db) \<union> set xs))
      \<and> (\<forall>a \<in> set xs. ra_type a = Stale_Detected)"
proof (induction gs arbitrary: db)
  case Nil
  then show ?case by (simp add: exI [of _ "[]"])
next
  case (Cons g gs)
  obtain xs where xs: "record_stale_actions g reason now (approvals_of db g) db
        = Inr (db\<lparr>g_actions := g_actions db @ xs\<rparr>)"
    "\<forall>d \<in> set (approvals_of db g). stale_dedupe_key d g \<in> ra_dedupe_key ` (set (g_actions db) \<union> set xs)"
    "\<forall>a \<in> set xs. ra_type a = Stale_Detected"
    using record_stale_actions_spec [OF assms, of g now "approvals_of db g" db] by blast
  let ?db = "db\<lparr>g_actions := g_actions db @ xs\<rparr>"
  obtain ys where ys: "record_all_stale gs reason now ?db = Inr (?db\<lparr>g_actions := g_actions ?db @ ys\<rparr>)"
    "\<forall>g \<in> set gs. \<forall>d \<in> set (approvals_of ?db g).
        stale_dedupe_key d g \<in> ra_dedupe_key ` (set (g_actions ?db) \<union> set ys)"
    "\<forall>a \<in> set ys. ra_type a = Stale_Detected"
    using Cons.IH [of ?db] by blast
  have appr: "approvals_of ?db h = approvals_of db h" for h by (simp add: approvals_of_def)
  show ?case
  proof (intro exI [of _ "xs @ ys"] conjI)
    show "record_all_stale (g # gs) reason now db = Inr (db\<lparr>g_actions := g_actions db @ xs @ ys\<rparr>)"
      using xs(1) ys(1) by (simp add: record_stale_release_actions_def approvals_of_def)
    show "\<forall>h \<in> set (g # gs). \<forall>d \<in> set (approvals_of db h).
        stale_dedupe_key d h \<in> ra_dedupe_key ` (set (g_actions db) \<union> set (xs @ ys))"
      using xs(2) ys(2) unfolding appr by (simp add: image_Un) blast
    show "\<forall>a \<in> set (xs @ ys). ra_type a = Stale_Detected"
      using xs(3) ys(3) by auto
  qed
qed

definition resolved_hash :: "gate_env \<Rightarrow> gate_db \<Rightarrow> uuid \<Rightarrow> uuid \<Rightarrow> string option \<Rightarrow> string" where
  "resolved_hash env db cfg suite current =
     (if text_set current then text_or_empty current
      else current_scope_evidence_revision_hash env (g_evidence db) cfg suite)"

lemma stale_key_mark [simp]: "stale_dedupe_key d (mark_stale now reason g) = stale_dedupe_key d g"
  by (simp add: stale_dedupe_key_def)

lemma mark_scope_spec:
  fixes env db cfg suite current excluded
  assumes "\<not> blank reason"
  defines "st \<equiv> goes_stale cfg suite (resolved_hash env db cfg suite current) excluded"
  shows "\<exists>xs. mark_scope_gates_stale env cfg suite current reason now excluded db =
        Inr (db\<lparr>g_gates := map (\<lambda>g. if st g then mark_stale now reason g else g) (g_gates db),
                g_actions := g_actions db @ xs\<rparr>, map (mark_stale now reason) (filter st (g_gates db)))
      \<and> (\<forall>g \<in> set (filter st (g_gates db)). \<forall>d \<in> set (approvals_of db g).
            stale_dedupe_key d g \<in> ra_dedupe_key ` (set (g_actions db) \<union> set xs))
      \<and> (\<forall>a \<in> set xs. ra_type a = Stale_Detected)"
proof -
  let ?db = "db\<lparr>g_gates := map (\<lambda>g. if st g then mark_stale now reason g else g) (g_gates db)\<rparr>"
  let ?stale = "map (mark_stale now reason) (filter st (g_gates db))"
  obtain xs where xs: "record_all_stale ?stale reason now ?db = Inr (?db\<lparr>g_actions := g_actions ?db @ xs\<rparr>)"
    "\<forall>g \<in> set ?stale. \<forall>d \<in> set (approvals_of ?db g).
        stale_dedupe_key d g \<in> ra_dedupe_key ` (set (g_actions ?db) \<union> set xs)"
    "\<forall>a \<in> set xs. ra_type a = Stale_Detected"
    using record_all_stale_spec [OF assms(1), of ?stale now ?db] by blast
  have appr: "approvals_of ?db (mark_stale now reason h) = approvals_of db h" for h
    by (simp add: approvals_of_def)
  have "mark_scope_gates_stale env cfg suite current reason now excluded db =
        Inr (db\<lparr>g_gates := map (\<lambda>g. if st g then mark_stale now reason g else g) (g_gates db),
                g_actions := g_actions db @ xs\<rparr>, ?stale)"
    using xs(1) by (simp add: mark_scope_gates_stale_def Let_def st_def resolved_hash_def)
  moreover have "\<forall>g \<in> set (filter st (g_gates db)). \<forall>d \<in> set (approvals_of db g).
      stale_dedupe_key d g \<in> ra_dedupe_key ` (set (g_actions db) \<union> set xs)"
    using xs(2) appr by auto
  ultimately show ?thesis using xs(3) by blast
qed

definition stale_covered :: "gate_db \<Rightarrow> bool" where
  "stale_covered db \<longleftrightarrow>
     (\<forall>g \<in> set (g_gates db). gt_status g = Gate_Stale \<longrightarrow>
        (\<forall>d \<in> set (approvals_of db g). stale_warned db g d))"

lemma list_all2_map_right: "(\<And>x. R x (f x)) \<Longrightarrow> list_all2 R xs (map f xs)"
  by (induction xs) auto

lemma mark_scope_result:
  assumes "\<not> blank reason"
    and "mark_scope_gates_stale env cfg suite current reason now excluded db = Inr (db', stale)"
  shows "only_stales db db'" and "stale_covered db \<Longrightarrow> stale_covered db'"
    and "g_gates db' = map (\<lambda>g. if goes_stale cfg suite (resolved_hash env db cfg suite current) excluded g
                                 then mark_stale now reason g else g) (g_gates db)"
    and "length stale = length (filter (goes_stale cfg suite (resolved_hash env db cfg suite current) excluded) (g_gates db))"
proof -
  let ?st = "goes_stale cfg suite (resolved_hash env db cfg suite current) excluded"
  obtain xs where db': "db' = db\<lparr>g_gates := map (\<lambda>g. if ?st g then mark_stale now reason g else g) (g_gates db),
                g_actions := g_actions db @ xs\<rparr>"
    and stale: "stale = map (mark_stale now reason) (filter ?st (g_gates db))"
    and warned: "\<forall>g \<in> set (filter ?st (g_gates db)). \<forall>d \<in> set (approvals_of db g).
            stale_dedupe_key d g \<in> ra_dedupe_key ` (set (g_actions db) \<union> set xs)"
    using mark_scope_spec [OF assms(1), where env = env and db = db and cfg = cfg and suite = suite and current = current
        and excluded = excluded and now = now] assms(2) by auto
  have "list_all2 gate_evolves (g_gates db) (map (\<lambda>g. if ?st g then mark_stale now reason g else g) (g_gates db))"
    by (rule list_all2_map_right) (auto simp: gate_evolves_def goes_stale_def)
  then show "only_stales db db'" by (simp add: db' only_stales_def)
  show "g_gates db' = map (\<lambda>g. if ?st g then mark_stale now reason g else g) (g_gates db)"
    by (simp add: db')
  show "length stale = length (filter ?st (g_gates db))" by (simp add: stale)
  show "stale_covered db'" if cov: "stale_covered db"
    unfolding stale_covered_def
  proof (intro ballI impI)
    fix g' d
    assume g': "g' \<in> set (g_gates db')" and st: "gt_status g' = Gate_Stale" and d: "d \<in> set (approvals_of db' g')"
    from g' obtain g where g: "g \<in> set (g_gates db)" "g' = (if ?st g then mark_stale now reason g else g)"
      by (auto simp: db')
    from g(2) have same: "gt_id g' = gt_id g" by simp
    then have d: "d \<in> set (approvals_of db g)" using d by (simp add: approvals_of_def db')
    have "stale_dedupe_key d g \<in> ra_dedupe_key ` (set (g_actions db) \<union> set xs)"
    proof (cases "?st g")
      case True
      with warned g(1) d show ?thesis by simp
    next
      case False
      with g(2) st have "gt_status g = Gate_Stale" by simp
      with cov g(1) d show ?thesis by (auto simp: stale_covered_def stale_warned_def)
    qed
    then show "stale_warned db' g' d" using same by (simp add: stale_warned_def db' stale_dedupe_key_def)
  qed
qed

lemma mark_scope_total: "\<not> blank reason \<Longrightarrow> \<exists>r. mark_scope_gates_stale env cfg suite current reason now excluded db = Inr r"
  using mark_scope_spec [of reason, where env = env and db = db and cfg = cfg and suite = suite and current = current
      and excluded = excluded and now = now] by blast

lemma reasons_not_blank: "\<not> blank RECONCILE_REASON" "\<not> blank NEWER_GATE_REASON"
  by code_simp+

section \<open>Reconciliation\<close>

definition fresh_gate :: "gate_env \<Rightarrow> evidence_db \<Rightarrow> gate \<Rightarrow> bool" where
  "fresh_gate env e g \<longleftrightarrow>
     gt_status g = Gate_Completed \<longrightarrow>
       frozen_hash g = current_scope_evidence_revision_hash env e (gt_config_id g) (gt_suite_id g)"

definition fresh_scope :: "gate_env \<Rightarrow> gate_db \<Rightarrow> uuid \<times> uuid \<Rightarrow> bool" where
  "fresh_scope env db sc \<longleftrightarrow>
     (\<forall>g \<in> set (g_gates db). (gt_config_id g, gt_suite_id g) = sc \<longrightarrow> fresh_gate env (g_evidence db) g)"

lemma list_all2_set_right: "list_all2 R xs ys \<Longrightarrow> y \<in> set ys \<Longrightarrow> \<exists>x \<in> set xs. R x y"
  by (induction rule: list_all2_induct) auto

lemma evolves_fresh: "gate_evolves g g' \<Longrightarrow> fresh_gate env e g \<Longrightarrow> fresh_gate env e g'"
  by (auto simp: gate_evolves_def fresh_gate_def)

lemma only_stales_fresh_scope:
  assumes "only_stales db db'" and "fresh_scope env db sc"
  shows "fresh_scope env db' sc"
proof -
  have ev: "g_evidence db' = g_evidence db" using assms(1) by (rule stale_simps)
  show ?thesis
    unfolding fresh_scope_def
  proof (intro ballI impI)
    fix g'
    assume g': "g' \<in> set (g_gates db')" "(gt_config_id g', gt_suite_id g') = sc"
    obtain g where g: "g \<in> set (g_gates db)" "gate_evolves g g'"
      using list_all2_set_right [OF only_stales_gates [OF assms(1)] g'(1)] by blast
    then have "(gt_config_id g, gt_suite_id g) = sc"
      using g'(2) gate_evolvesD(2,3) [OF g(2)] by simp
    with g(1) assms(2) have "fresh_gate env (g_evidence db) g"
      by (simp add: fresh_scope_def)
    with g(2) show "fresh_gate env (g_evidence db') g'"
      unfolding ev by (rule evolves_fresh)
  qed
qed

lemma mark_gate_fresh:
  fixes env cfg suite e
  defines "st \<equiv> goes_stale cfg suite (current_scope_evidence_revision_hash env e cfg suite) None"
  shows "gt_config_id (if st g then mark_stale now reason g else g) = cfg \<and>
         gt_suite_id (if st g then mark_stale now reason g else g) = suite \<longrightarrow>
         fresh_gate env e (if st g then mark_stale now reason g else g)"
  by (simp add: st_def goes_stale_def fresh_gate_def)

lemma mark_scope_fresh:
  assumes "\<not> blank reason" and m: "mark_scope_gates_stale env cfg suite None reason now None db = Inr (db1, stale)"
  shows "fresh_scope env db1 (cfg, suite)"
proof -
  note r = mark_scope_result [OF assms]
  have hash: "resolved_hash env db cfg suite None = current_scope_evidence_revision_hash env (g_evidence db) cfg suite"
    by (simp add: resolved_hash_def text_set_def)
  have ev: "g_evidence db1 = g_evidence db" using r(1) by (rule stale_simps)
  show ?thesis
    unfolding fresh_scope_def
  proof (intro ballI impI)
    fix g'
    assume g': "g' \<in> set (g_gates db1)" "(gt_config_id g', gt_suite_id g') = (cfg, suite)"
    from g'(1) have "g' \<in> (\<lambda>g. if goes_stale cfg suite (current_scope_evidence_revision_hash env (g_evidence db) cfg suite) None g
        then mark_stale now reason g else g) ` set (g_gates db)"
      unfolding r(3) hash by simp
    then obtain g where "g' = (if goes_stale cfg suite (current_scope_evidence_revision_hash env (g_evidence db) cfg suite) None g
        then mark_stale now reason g else g)"
      by (rule imageE)
    with g'(2) mark_gate_fresh [where env = env and cfg = cfg and suite = suite and e = "g_evidence db"
        and reason = reason and now = now and g = g]
    show "fresh_gate env (g_evidence db1) g'" unfolding ev by simp
  qed
qed

lemma mark_scopes_spec:
  "\<exists>db' n. mark_scopes_stale env now scopes db = Inr (db', n) \<and> only_stales db db'
     \<and> (stale_covered db \<longrightarrow> stale_covered db') \<and> (\<forall>sc \<in> set scopes. fresh_scope env db' sc)
     \<and> ((\<forall>sc \<in> set scopes. fresh_scope env db sc) \<longrightarrow> n = 0)"
proof (induction scopes arbitrary: db)
  case Nil
  then show ?case by simp
next
  case (Cons sc scopes)
  obtain cfg suite where sc: "sc = (cfg, suite)" by (cases sc)
  obtain db1 stale where m: "mark_scope_gates_stale env cfg suite None RECONCILE_REASON now None db = Inr (db1, stale)"
    using mark_scope_total [OF reasons_not_blank(1)] by (metis surj_pair)
  note r = mark_scope_result [OF reasons_not_blank(1) m]
  have hash: "resolved_hash env db cfg suite None = current_scope_evidence_revision_hash env (g_evidence db) cfg suite"
    by (simp add: resolved_hash_def text_set_def)
  have fresh1: "fresh_scope env db1 sc"
    unfolding sc by (rule mark_scope_fresh [OF reasons_not_blank(1) m])
  have none: "stale = []" if "fresh_scope env db sc"
  proof -
    have "filter (goes_stale cfg suite (resolved_hash env db cfg suite None) None) (g_gates db) = []"
      using that by (auto simp: filter_empty_conv fresh_scope_def sc hash fresh_gate_def goes_stale_def)
    with r(4) show ?thesis by simp
  qed
  obtain db2 n where i: "mark_scopes_stale env now scopes db1 = Inr (db2, n)" "only_stales db1 db2"
    "stale_covered db1 \<longrightarrow> stale_covered db2" "\<forall>sc \<in> set scopes. fresh_scope env db2 sc"
    "(\<forall>sc \<in> set scopes. fresh_scope env db1 sc) \<longrightarrow> n = 0"
    using Cons.IH [of db1] by blast
  have "mark_scopes_stale env now (sc # scopes) db = Inr (db2, length stale + n)"
    using m i(1) by (simp add: sc)
  moreover have "only_stales db db2" using r(1) i(2) by (rule only_stales_trans)
  moreover have "stale_covered db \<longrightarrow> stale_covered db2" using r(2) i(3) by blast
  moreover have "\<forall>s \<in> set (sc # scopes). fresh_scope env db2 s"
    using i(4) fresh1 only_stales_fresh_scope [OF i(2)] by auto
  moreover have "(\<forall>s \<in> set (sc # scopes). fresh_scope env db s) \<longrightarrow> length stale + n = 0"
    using none i(5) only_stales_fresh_scope [OF r(1)] by auto
  ultimately show ?case by blast
qed


text \<open>The abstract reconciliation: one pass that marks the gates whose frozen revision is not the current one.\<close>

definition outdated :: "gate_env \<Rightarrow> evidence_db \<Rightarrow> gate \<Rightarrow> bool" where
  "outdated env e g \<longleftrightarrow>
     gt_status g = Gate_Completed \<and>
     frozen_hash g \<noteq> current_scope_evidence_revision_hash env e (gt_config_id g) (gt_suite_id g)"

definition refresh :: "gate_env \<Rightarrow> evidence_db \<Rightarrow> instant \<Rightarrow> gate \<Rightarrow> gate" where
  "refresh env e now g = (if outdated env e g then mark_stale now RECONCILE_REASON g else g)"

definition in_scopes :: "(uuid \<times> uuid) list \<Rightarrow> gate \<Rightarrow> bool" where
  "in_scopes scopes g \<longleftrightarrow> (gt_config_id g, gt_suite_id g) \<in> set scopes"

lemma refresh_simps [simp]:
  "gt_id (refresh env e now g) = gt_id g" "gt_config_id (refresh env e now g) = gt_config_id g"
  "gt_suite_id (refresh env e now g) = gt_suite_id g" "gt_verdict (refresh env e now g) = gt_verdict g"
  by (simp_all add: refresh_def)

lemma refresh_not_outdated [simp]: "\<not> outdated env e (refresh env e now g)"
  by (simp add: refresh_def outdated_def)

lemma goes_stale_outdated:
  "goes_stale cfg suite (current_scope_evidence_revision_hash env e cfg suite) None g \<longleftrightarrow>
     in_scopes [(cfg, suite)] g \<and> outdated env e g"
  by (auto simp: goes_stale_def outdated_def in_scopes_def)

lemma resolved_current: "resolved_hash env db cfg suite None = current_scope_evidence_revision_hash env (g_evidence db) cfg suite"
  by (simp add: resolved_hash_def text_set_def)

lemma mark_scopes_one_pass:
  "\<exists>db' n. mark_scopes_stale env now scopes db = Inr (db', n) \<and>
     g_gates db' = map (\<lambda>g. if in_scopes scopes g then refresh env (g_evidence db) now g else g) (g_gates db) \<and>
     (distinct scopes \<longrightarrow> n = length (filter (\<lambda>g. in_scopes scopes g \<and> outdated env (g_evidence db) g) (g_gates db))) \<and>
     only_stales db db' \<and> (stale_covered db \<longrightarrow> stale_covered db')"
proof (induction scopes arbitrary: db)
  case Nil
  then show ?case by (simp add: in_scopes_def)
next
  case (Cons sc scopes)
  obtain cfg suite where sc: "sc = (cfg, suite)" by (cases sc)
  let ?e = "g_evidence db"
  obtain db1 stale where m: "mark_scope_gates_stale env cfg suite None RECONCILE_REASON now None db = Inr (db1, stale)"
    using mark_scope_total [OF reasons_not_blank(1)] by (metis surj_pair)
  note r = mark_scope_result [OF reasons_not_blank(1) m]
  have ev: "g_evidence db1 = ?e" using r(1) by (rule stale_simps)
  obtain db2 n where i: "mark_scopes_stale env now scopes db1 = Inr (db2, n)"
    "g_gates db2 = map (\<lambda>g. if in_scopes scopes g then refresh env ?e now g else g) (g_gates db1)"
    "distinct scopes \<longrightarrow> n = length (filter (\<lambda>g. in_scopes scopes g \<and> outdated env ?e g) (g_gates db1))"
    "only_stales db1 db2" "stale_covered db1 \<longrightarrow> stale_covered db2"
    using Cons.IH [of db1] unfolding ev by blast
  have gates: "g_gates db1 = map (\<lambda>g. if in_scopes [sc] g then refresh env ?e now g else g) (g_gates db)"
    unfolding r(3) resolved_current goes_stale_outdated sc by (simp add: refresh_def)
  have "g_gates db2 = map (\<lambda>g. if in_scopes (sc # scopes) g then refresh env ?e now g else g) (g_gates db)"
    unfolding i(2) gates by (auto simp: in_scopes_def refresh_def outdated_def)
  moreover have "length stale + n = length (filter (\<lambda>g. in_scopes (sc # scopes) g \<and> outdated env ?e g) (g_gates db))"
    if "distinct (sc # scopes)"
  proof -
    have "n = length (filter (\<lambda>g. in_scopes scopes g \<and> outdated env ?e g) (g_gates db))"
      using i(3) that by (auto simp: gates in_scopes_def filter_map o_def intro!: arg_cong [where f = length] filter_cong)
    moreover have "length stale = length (filter (\<lambda>g. in_scopes [sc] g \<and> outdated env ?e g) (g_gates db))"
      unfolding r(4) resolved_current goes_stale_outdated sc ..
    moreover have "length (filter (\<lambda>g. in_scopes [sc] g \<and> outdated env ?e g) gs)
        + length (filter (\<lambda>g. in_scopes scopes g \<and> outdated env ?e g) gs)
        = length (filter (\<lambda>g. in_scopes (sc # scopes) g \<and> outdated env ?e g) gs)" for gs
      using that by (induction gs) (auto simp: in_scopes_def)
    ultimately show ?thesis by simp
  qed
  moreover have "mark_scopes_stale env now (sc # scopes) db = Inr (db2, length stale + n)"
    using m i(1) by (simp add: sc)
  moreover have "only_stales db db2" using r(1) i(4) by (rule only_stales_trans)
  moreover have "stale_covered db \<longrightarrow> stale_covered db2" using r(2) i(5) by blast
  ultimately show ?case by blast
qed

definition report :: "gate_db \<Rightarrow> nat \<Rightarrow> instant \<Rightarrow> staleness_report" where
  "report db n now =
     (let gates = filter (\<lambda>g. gt_status g = Gate_Completed) (g_gates db) in
      \<lparr>sr_scanned = length gates, sr_stale = n,
       sr_scopes = length (fromkeys (map (\<lambda>g. (gt_config_id g, gt_suite_id g)) gates)), sr_at = now\<rparr>)"

lemma reconcile_spec:
  "\<exists>db'. reconcile_all_gate_staleness env now db
       = Inr (db', report db (length (filter (outdated env (g_evidence db)) (g_gates db))) now) \<and>
     g_gates db' = map (refresh env (g_evidence db) now) (g_gates db) \<and>
     only_stales db db' \<and> (stale_covered db \<longrightarrow> stale_covered db')"
proof -
  let ?scopes = "fromkeys (map (\<lambda>g. (gt_config_id g, gt_suite_id g))
      (filter (\<lambda>g. gt_status g = Gate_Completed) (g_gates db)))"
  have cover: "in_scopes ?scopes g" if "g \<in> set (g_gates db)" "outdated env (g_evidence db) g" for g
    using that by (auto simp: in_scopes_def outdated_def)
  have "map (\<lambda>g. if in_scopes ?scopes g then refresh env (g_evidence db) now g else g) (g_gates db)
      = map (refresh env (g_evidence db) now) (g_gates db)"
    using cover by (auto simp: refresh_def)
  moreover have "filter (\<lambda>g. in_scopes ?scopes g \<and> outdated env (g_evidence db) g) (g_gates db)
      = filter (outdated env (g_evidence db)) (g_gates db)"
    using cover by (auto intro: filter_cong)
  ultimately show ?thesis
    using mark_scopes_one_pass [of env now ?scopes db]
    by (auto simp: reconcile_all_gate_staleness_def report_def Let_def)
qed

lemma mark_scopes_fresh:
  assumes "filter (outdated env (g_evidence db)) (g_gates db) = []"
  shows "mark_scopes_stale env now scopes db = Inr (db, 0)"
proof (induction scopes)
  case Nil
  then show ?case by simp
next
  case (Cons sc scopes)
  obtain cfg suite where sc: "sc = (cfg, suite)" by (cases sc)
  let ?st = "goes_stale cfg suite (resolved_hash env db cfg suite None) None"
  have none: "\<not> ?st g" if "g \<in> set (g_gates db)" for g
    using assms that by (auto simp: resolved_current goes_stale_outdated filter_empty_conv)
  then have "filter ?st (g_gates db) = []"
      and same: "map (\<lambda>g. if ?st g then mark_stale now RECONCILE_REASON g else g) (g_gates db) = g_gates db"
    by (auto simp: filter_empty_conv intro: map_idI)
  then have "mark_scope_gates_stale env cfg suite None RECONCILE_REASON now None db = Inr (db, [])"
    unfolding mark_scope_gates_stale_def Let_def resolved_hash_def [symmetric] by simp
  with Cons.IH show ?case by (simp add: sc)
qed


end
