(* ===== verification/Evidence_Trust_Correct.thy ===== *)
theory Evidence_Trust_Correct
  imports Evidence_Trust
begin

text \<open>
  Properties of the evidence trust summary: the loop counts every result once, the reported numbers
  are consistent with each other, and \<^verbatim>\<open>production_ready\<close> is granted exactly under the configured
  thresholds, counting only results whose run has a verified capture receipt.
\<close>

named_theorems trust_simps \<open>the counts of the summary in terms of the list of results\<close>

definition is_critical :: "(uuid \<times> eval_case) list \<Rightarrow> bench_result \<Rightarrow> bool" where
  "is_critical m r \<longleftrightarrow> (\<exists>ec. map_of m (br_id r) = Some ec \<and> ec_criticality ec = Critical)"

definition score_of :: "(uuid \<times> eval_case) list \<Rightarrow> bench_result \<Rightarrow> score_tier" where
  "score_of m r = classify_score_tier r (map_of m (br_id r))"

definition is_reviewed :: "(uuid \<times> eval_case) list \<Rightarrow> bench_result \<Rightarrow> bool" where
  "is_reviewed m r \<longleftrightarrow> score_of m r \<in> {Applied_Judge_Label, Human_Reviewed}"

lemma fold_count_result:
  "fold (count_result v m) rs tc =
     \<lparr>tc_sources = tc_sources tc @ map (effective_source_tier v) rs,
      tc_scores = tc_scores tc @ map (score_of m) rs,
      tc_critical = tc_critical tc + length (filter (is_critical m) rs),
      tc_reviewed = tc_reviewed tc + length (filter (\<lambda>r. is_critical m r \<and> is_reviewed m r) rs)\<rparr>"
proof (induction rs arbitrary: tc)
  case Nil
  then show ?case by simp
next
  case (Cons r rs)
  then show ?case
    by (auto simp: count_result_def Let_def is_critical_def score_of_def is_reviewed_def split: option.split)
qed

lemma counts_of [trust_simps]:
  "tc_sources (trust_counts_of v m rs) = map (effective_source_tier v) rs"
  "tc_scores (trust_counts_of v m rs) = map (score_of m) rs"
  "tc_critical (trust_counts_of v m rs) = length (filter (is_critical m) rs)"
  "tc_reviewed (trust_counts_of v m rs) = length (filter (\<lambda>r. is_critical m r \<and> is_reviewed m r) rs)"
  by (simp_all add: trust_counts_of_def fold_count_result)

lemma count_list_map: "count_list (map f xs) y = length (filter (\<lambda>x. f x = y) xs)"
  by (induction xs) auto

lemma count_list_le: "count_list xs y \<le> length xs"
  by (induction xs) auto

lemma source_counts_total:
  "(\<Sum>t\<leftarrow>[Synthetic_Demo, Local_Authored, Production_Captured, Production_Captured_Unverified,
          External_Benchmark, Unknown_Source]. count_list ts t) = length ts"
proof (induction ts)
  case (Cons t ts)
  then show ?case by (cases t) simp_all
qed simp

lemma score_counts_total:
  "(\<Sum>t\<leftarrow>[Heuristic, Candidate_Judge_Label, Applied_Judge_Label, Human_Reviewed, Unknown_Score].
      count_list ts t) = length ts"
proof (induction ts)
  case (Cons t ts)
  then show ?case by (cases t) simp_all
qed simp

lemma applied_human_le: "count_list ts Applied_Judge_Label + count_list ts Human_Reviewed \<le> length ts"
  using score_counts_total [of ts] by simp

lemma sum_sorted_items: "sum_list (map snd (sorted_items kvs)) = sum_list (map snd kvs)"
proof -
  have "mset (map snd (sorted_items kvs)) = mset (map snd kvs)"
    by (simp add: sorted_items_def)
  then show ?thesis by (metis sum_mset_sum_list)
qed

lemma critical_filters:
  "length (filter (\<lambda>r. P r \<and> Q r) rs) \<le> length (filter P rs)" "length (filter P rs) \<le> length rs"
  by (induction rs) (auto simp: le_SucI)

text \<open>
  The trust summary accounts for every result exactly once: the source counts and the score
  counts each add up to the number of results, as do the two published distributions; critical
  reviewed results are among the critical ones, and both coverage rates are proportions.
\<close>

theorem trust_summary_accounts_for_results:
  "let t = summarize_evidence_trust th v rs m in
     ts_synthetic t + ts_local t + ts_production t + ts_unverified t + ts_external t + ts_unknown_source t = length rs
     \<and> ts_heuristic t + ts_candidate t + ts_applied t + ts_human t + ts_unknown_score t = length rs
     \<and> sum_list (map snd (ts_source_distribution t)) = length rs
     \<and> sum_list (map snd (ts_score_distribution t)) = length rs
     \<and> ts_critical_reviewed t \<le> ts_critical t \<and> ts_critical t \<le> length rs
     \<and> ts_applied_rate t \<in> {0..1} \<and> ts_critical_rate t \<in> {0..1}"
proof -
  let ?t = "summarize_evidence_trust th v rs m"
  have s: "ts_synthetic ?t + ts_local ?t + ts_production ?t + ts_unverified ?t + ts_external ?t
      + ts_unknown_source ?t = length rs"
    using source_counts_total [of "map (effective_source_tier v) rs"]
    by (simp add: summarize_evidence_trust_def Let_def trust_simps)
  have c: "ts_heuristic ?t + ts_candidate ?t + ts_applied ?t + ts_human ?t + ts_unknown_score ?t = length rs"
    using score_counts_total [of "map (score_of m) rs"]
    by (simp add: summarize_evidence_trust_def Let_def trust_simps)
  have d: "sum_list (map snd (ts_source_distribution ?t)) = length rs"
    "sum_list (map snd (ts_score_distribution ?t)) = length rs"
    by (simp_all add: summarize_evidence_trust_def Let_def sum_sorted_items counter_total trust_simps)
  have k: "ts_critical_reviewed ?t \<le> ts_critical ?t" "ts_critical ?t \<le> length rs"
    by (simp_all add: summarize_evidence_trust_def Let_def trust_simps critical_filters)
  have a: "ts_applied_rate ?t \<in> {0..1}"
    using applied_human_le [of "map (score_of m) rs"]
    by (simp add: summarize_evidence_trust_def Let_def trust_simps py_round_unit rate_or_zero_unit)
  have r: "ts_critical_rate ?t \<in> {0..1}"
    using critical_filters(1) [of "is_critical m" "is_reviewed m" rs]
    by (simp add: summarize_evidence_trust_def Let_def trust_simps py_round_unit rate_or_zero_unit)
  show ?thesis using s c d k a r by (simp only: Let_def)
qed

section \<open>When evidence is production ready\<close>

definition verified_production :: "uuid list \<Rightarrow> bench_result \<Rightarrow> bool" where
  "verified_production ids r \<longleftrightarrow>
     normalize_source_tier (br_data_source r) = Production_Captured \<and> br_run_id r \<in> set ids"

lemma effective_production: "effective_source_tier (Some ids) r = Production_Captured \<longleftrightarrow> verified_production ids r"
  by (auto simp: effective_source_tier_def Let_def verified_production_def)

lemma effective_other:
  "effective_source_tier v r = Unknown_Source \<longleftrightarrow> normalize_source_tier (br_data_source r) = Unknown_Source"
  "effective_source_tier v r = Synthetic_Demo \<longleftrightarrow> normalize_source_tier (br_data_source r) = Synthetic_Demo"
  by (auto simp: effective_source_tier_def Let_def)

lemma length_filter_all: "length (filter P xs) = length xs \<longleftrightarrow> (\<forall>x \<in> set xs. P x)"
  by (metis filter_True length_filter_less less_irrefl)

lemma trust_ready_iff_status:
  "ts_readiness (summarize_evidence_trust th v rs m) = Production_Ready \<longleftrightarrow>
   ts_status (summarize_evidence_trust th v rs m) = Production_Evidence_Ready"
  by (simp add: summarize_evidence_trust_def Let_def readiness_of_def)

lemma reviewed_count:
  "count_list (map (score_of m) rs) Applied_Judge_Label + count_list (map (score_of m) rs) Human_Reviewed
     = length (filter (is_reviewed m) rs)"
  by (induction rs) (auto simp: is_reviewed_def)

lemma status_ready_iff:
  "trust_status_of th tc cnt a c = Production_Evidence_Ready \<longleftrightarrow>
     cnt \<noteq> 0 \<and> n_source tc Unknown_Source \<noteq> cnt \<and> n_source tc Synthetic_Demo \<noteq> cnt \<and>
     min_production_results th \<le> n_source tc Production_Captured \<and>
     min_applied_rate_production th \<le> a \<and> (tc_critical tc = 0 \<or> min_critical_rate_production th \<le> c)"
  unfolding trust_status_of_def Let_def by (simp split: if_split) blast

lemma summary_status:
  "ts_status (summarize_evidence_trust th v rs m) =
     trust_status_of th (trust_counts_of v m rs) (length rs)
       (rate_or_zero (int (length (filter (is_reviewed m) rs))) (int (length rs)))
       (rate_or_zero (int (length (filter (\<lambda>r. is_critical m r \<and> is_reviewed m r) rs)))
          (int (length (filter (is_critical m) rs))))"
  by (simp only: summarize_evidence_trust_def Let_def trust_summary.select_convs trust_simps reviewed_count)

lemma production_ready_unfold:
  "ts_readiness (summarize_evidence_trust th (Some ids) rs m) = Production_Ready \<longleftrightarrow>
     rs \<noteq> [] \<and>
     length (filter (\<lambda>r. normalize_source_tier (br_data_source r) = Unknown_Source) rs) \<noteq> length rs \<and>
     length (filter (\<lambda>r. normalize_source_tier (br_data_source r) = Synthetic_Demo) rs) \<noteq> length rs \<and>
     min_production_results th \<le> length (filter (verified_production ids) rs) \<and>
     min_applied_rate_production th
       \<le> rate_or_zero (int (length (filter (is_reviewed m) rs))) (int (length rs)) \<and>
     (filter (is_critical m) rs = [] \<or>
      min_critical_rate_production th
        \<le> rate_or_zero (int (length (filter (\<lambda>r. is_critical m r \<and> is_reviewed m r) rs)))
            (int (length (filter (is_critical m) rs))))"
  unfolding trust_ready_iff_status summary_status status_ready_iff trust_simps count_list_map
    effective_production effective_other length_0_conv ..


text \<open>
  Withdrawing a receipt never helps: if evidence is production ready with a set of verified
  runs, it stays so with any larger set.
\<close>

theorem production_readiness_monotone:
  assumes "set ids \<subseteq> set ids'"
    and "ts_readiness (summarize_evidence_trust th (Some ids) rs m) = Production_Ready"
  shows "ts_readiness (summarize_evidence_trust th (Some ids') rs m) = Production_Ready"
proof -
  have "length (filter (verified_production ids) rs) \<le> length (filter (verified_production ids') rs)"
    using assms(1) by (induction rs) (auto simp: verified_production_def)
  with assms(2) show ?thesis
    unfolding production_ready_unfold by linarith
qed

definition demo_thresholds :: trust_thresholds where
  "demo_thresholds =
     \<lparr>min_applied_rate_local = 1 / 5, min_critical_reviewed_local = 1, min_production_results = 1,
      min_applied_rate_production = 3 / 10, min_critical_rate_production = 4 / 5\<rparr>"

definition demo_result :: "uuid \<Rightarrow> uuid \<Rightarrow> string \<Rightarrow> bench_result" where
  "demo_result i run source =
     \<lparr>br_id = i, br_run_id = run, br_case_id = Some ''c1'', br_parent_id = None, br_root_id = None,
      br_revision = 1, br_revision_hash = None, br_sample_id = ''s1'', br_quality = Some 1,
      br_exact_match = Some True, br_json_valid = True, br_tool_call_valid = True,
      br_groundedness = None, br_faithfulness = None, br_human_label = None, br_error_type = None,
      br_normalized_output = None,
      br_metadata = JObj [(''judge_label'', JObj [(''applied'', JBool True)])],
      br_data_source = source, br_created_at = 0, br_raw_output = None\<rparr>"

theorem production_readiness_witness:
  "ts_readiness (summarize_evidence_trust demo_thresholds (Some [''r1'', ''r2''])
     [demo_result ''b1'' ''r1'' ''production_captured''] []) = Production_Ready"
proof -
  have "ts_readiness (summarize_evidence_trust demo_thresholds (Some [''r1''])
     [demo_result ''b1'' ''r1'' ''production_captured''] []) = Production_Ready"
    by code_simp
  then show ?thesis
    by (rule production_readiness_monotone [rotated]) simp
qed

end
