(* ===== verification/Gate_Approval.thy ===== *)
theory Gate_Approval
  imports Deployment_Gate_Correct Gate_Evidence_Correct Evidence_Trust_Correct
begin

text \<open>
  What a gate evaluation promises: the row it stores and returns, the meaning of an approval in terms of
  the evidence and the policy, and the agreement of the preflight with the evaluation.
\<close>

section \<open>Rules and verdict\<close>

text \<open>The value a rule is judged by: none when the metric is absent, empty or has too few samples.\<close>

definition measured :: "metrics \<Rightarrow> policy_rule \<Rightarrow> rat option" where
  "measured ms r =
     (case map_of ms (pr_metric_key r) of
        None \<Rightarrow> None
      | Some m \<Rightarrow> if (case pr_min_sample r of None \<Rightarrow> False | Some n \<Rightarrow> cm_sample_size m < n) then None else cm_value m)"

definition rule_satisfied :: "metrics \<Rightarrow> policy_rule \<Rightarrow> bool" where
  "rule_satisfied ms r =
     (case measured ms r of None \<Rightarrow> \<not> pr_required r | Some v \<Rightarrow> compare_op v (pr_operator r) (pr_threshold r))"

lemma evaluate_rule_status:
  "er_rule (evaluate_rule ms r) = r"
  "er_status (evaluate_rule ms r) =
     (case measured ms r of None \<Rightarrow> Rule_Insufficient
      | Some v \<Rightarrow> if compare_op v (pr_operator r) (pr_threshold r) then Rule_Pass else Rule_Fail)"
  by (auto simp: evaluate_rule_def measured_def Let_def split: option.splits)

lemma rule_satisfied_iff:
  fixes ms r
  defines "er \<equiv> evaluate_rule ms r"
  shows "rule_satisfied ms r \<longleftrightarrow>
     \<not> (pr_required (er_rule er) \<and> er_status er = Rule_Insufficient) \<and> \<not> failed_with Blocker er \<and> \<not> failed_with Warning er"
  by (cases "pr_severity r")
    (auto simp: rule_satisfied_def failed_with_def er_def evaluate_rule_status split: option.splits)

lemma real_evidence_results: "has_real_evidence b \<Longrightarrow> bn_results b \<noteq> []"
  by (auto simp: has_real_evidence_def list_ex_iff)

lemma approved_iff:
  assumes f: "gate_findings_of env db cfg suite policy base = Some f"
  shows "gf_verdict f = Approved \<longleftrightarrow>
     bn_active_cases (gf_bundle f) \<noteq> [] \<and> bn_runs (gf_bundle f) \<noteq> [] \<and> has_real_evidence (gf_bundle f) \<and>
     \<not> list_ex co_failed (gf_outcomes f) \<and>
     list_all (rule_satisfied (gf_metrics f)) (policy_rules db (ap_id policy))"
proof -
  let ?b = "gf_bundle f" and ?rs = "policy_rules db (ap_id policy)"
  have rules: "gf_rules f = map (evaluate_rule (gf_metrics f)) ?rs"
    and v: "gf_verdict f = resolve_verdict (mandatory_evidence_missing ?b) (only_synthetic_evidence ?b)
        (required_insufficient (gf_rules f)) (gf_rules f) (list_ex co_failed (gf_outcomes f)) (ap_allow_conditional policy)"
    using f by (auto simp: gate_findings_of_def bind_eq_Some_conv Let_def evaluate_policy_rules_def policy_rules_def)
  have "list_all (rule_satisfied (gf_metrics f)) ?rs \<longleftrightarrow>
      \<not> required_insufficient (gf_rules f) \<and> \<not> list_ex (failed_with Blocker) (gf_rules f) \<and>
      \<not> list_ex (failed_with Warning) (gf_rules f)"
    unfolding rules required_insufficient_def list_ex_iff list_all_iff rule_satisfied_iff set_map by blast
  moreover have "\<not> mandatory_evidence_missing ?b \<and> \<not> only_synthetic_evidence ?b \<longleftrightarrow>
      bn_active_cases ?b \<noteq> [] \<and> bn_runs ?b \<noteq> [] \<and> has_real_evidence ?b"
    using real_evidence_results [of ?b]
    by (auto simp: mandatory_evidence_missing_def only_synthetic_evidence_def)
  ultimately show ?thesis unfolding v by (auto simp: resolve_verdict_def)
qed

section \<open>The stored gate\<close>

lemma validate_ok:
  assumes "validate_gate_request db q = Inr (cfg, suite, policy, base)"
  shows "row_find dc_id (gq_config_id q) (e_configs (g_evidence db)) = Some cfg"
    and "row_find es_id (gq_suite_id q) (e_suites (g_evidence db)) = Some suite"
    and "dc_id cfg = gq_config_id q" and "es_id suite = gq_suite_id q" and "ap_id policy = gq_policy_id q"
  using assms
  by (auto simp: validate_gate_request_def bind_res_eq_Inr required_row_def dest!: row_find_SomeD split: if_split_asm)

lemma gate_row_simps [simp]:
  "gt_id (gate_row env cfg suite policy base f now i) = i"
  "gt_config_id (gate_row env cfg suite policy base f now i) = dc_id cfg"
  "gt_suite_id (gate_row env cfg suite policy base f now i) = es_id suite"
  "gt_policy_id (gate_row env cfg suite policy base f now i) = ap_id policy"
  "gt_status (gate_row env cfg suite policy base f now i) = Gate_Completed"
  "gt_verdict (gate_row env cfg suite policy base f now i) = gf_verdict f"
  "gt_snapshot (gate_row env cfg suite policy base f now i) = gate_snapshot env policy base f"
  "gt_revision_hash (gate_row env cfg suite policy base f now i)
     = Some (py_str (jget (gate_snapshot env policy base f) ''evidence_revision_hash''))"
  by (simp_all add: gate_row_def Let_def)

lemma snapshot_revision:
  "jget (gate_snapshot env policy base f) ''evidence_revision_hash''
     = JStr (evidence_revision_hash (env_sha env) (gf_bundle f))"
  by (simp add: gate_snapshot_def evidence_snapshot_def Let_def evidence_revision_hash_def jget_def jget_or_def)

lemma findings_bundle:
  "gate_findings_of env db cfg suite policy base = Some f \<Longrightarrow> gf_bundle f = collect_evidence (g_evidence db) cfg suite"
  by (auto simp: gate_findings_of_def bind_eq_Some_conv Let_def)

lemma snapshot_dict: "or_empty_dict (gate_snapshot env policy base f) = gate_snapshot env policy base f"
  by (simp add: gate_snapshot_def evidence_snapshot_def Let_def or_empty_dict_def)

lemma frozen_gate_row:
  "frozen_hash (gate_row env cfg suite policy base f now i) = evidence_revision_hash (env_sha env) (gf_bundle f)"
  by (auto simp: frozen_hash_def snapshot_dict snapshot_revision text_set_def text_or_empty_def str_or_empty_def)

lemma new_gate_current:
  assumes "validate_gate_request db q = Inr (cfg, suite, policy, base)"
    and "gate_findings_of env db cfg suite policy base = Some f"
  shows "\<not> outdated env (g_evidence db) (gate_row env cfg suite policy base f now i)"
  using validate_ok [OF assms(1)] findings_bundle [OF assms(2)]
  by (simp add: outdated_def frozen_gate_row current_scope_evidence_revision_hash_def)

definition superseded_by_new :: "gate \<Rightarrow> gate \<Rightarrow> gate" where
  "superseded_by_new new g =
     (if gt_config_id g = gt_config_id new \<and> gt_suite_id g = gt_suite_id new
         \<and> gt_status g = Gate_Stale \<and> gt_superseded_by g = None
      then g\<lparr>gt_superseded_by := Some (gt_id new)\<rparr> else g)"

lemma supersede_stale_gates_alt:
  "supersede_stale_gates new db = db\<lparr>g_gates := map (superseded_by_new new) (g_gates db)\<rparr>"
  by (simp add: supersede_stale_gates_def superseded_by_new_def)

lemma superseded_by_new_id [simp]: "gt_id (superseded_by_new new g) = gt_id g"
  by (simp add: superseded_by_new_def)

lemma store_gate_ok:
  assumes "store_gate env g rules now db = Inr db'" and "gt_status g = Gate_Completed"
  shows "\<exists>db1 stale. mark_scope_gates_stale env (gt_config_id g) (gt_suite_id g) (gt_revision_hash g)
             NEWER_GATE_REASON now None db = Inr (db1, stale) \<and>
           gt_id g \<notin> gt_id ` set (g_gates db1) \<and>
           g_gates db' = map (superseded_by_new g) (g_gates db1) @ [g] \<and>
           g_evidence db' = g_evidence db1 \<and> g_actions db' = g_actions db1 \<and>
           g_decisions db' = g_decisions db1 \<and> g_baselines db' = g_baselines db1 \<and>
           g_rules db' = g_rules db1 \<and> g_policies db' = g_policies db1 \<and>
           g_lineage db' = record_lineage_event (gate_event (supersede_stale_gates g (db1\<lparr>g_gates := g_gates db1 @ [g]\<rparr>)) g)
               (g_lineage db1)"
proof -
  have "superseded_by_new g g = g" using assms(2) by (simp add: superseded_by_new_def)
  with assms(1) show ?thesis
    by (auto simp: store_gate_def bind_res_eq_Inr supersede_stale_gates_alt Let_def split: if_split_asm)
qed

lemma gate_find_last: "i \<notin> gt_id ` set gs \<Longrightarrow> gt_id g = i \<Longrightarrow> gate_find i (gs @ [g]) = Some g"
  by (induction gs) (auto simp: row_find_def)

lemma map_keeps_ids: "(\<And>g. gt_id (f g) = gt_id g) \<Longrightarrow> gt_id ` set (map f gs) = gt_id ` set gs"
  by (auto simp: image_image)

lemma create_gate_ok:
  assumes "create_gate_evaluation env q now new_id db = (db', Inr g)"
  shows "\<exists>cfg suite policy base f. validate_gate_request db q = Inr (cfg, suite, policy, base) \<and>
           gate_findings_of env db cfg suite policy base = Some f \<and>
           g = gate_row env cfg suite policy base f now new_id \<and>
           new_id \<notin> gt_id ` set (g_gates db) \<and> g \<in> set (g_gates db') \<and>
           filter (outdated env (g_evidence db)) (g_gates db') = [] \<and> g_evidence db' = g_evidence db"
proof -
  from assms obtain cfg suite policy base f db1 where
    v: "validate_gate_request db q = Inr (cfg, suite, policy, base)"
    and f: "gate_findings_of env db cfg suite policy base = Some f"
    and s: "store_gate env (gate_row env cfg suite policy base f now new_id) (gf_rules f) now db = Inr db1"
    and get: "get_gate_evaluation env now new_id db1 = (db', Inr g)"
    by (auto simp: create_gate_evaluation_def split: sum.splits prod.splits option.splits)
  let ?row = "gate_row env cfg suite policy base f now new_id"
  obtain db0 stale where
    m: "mark_scope_gates_stale env (dc_id cfg) (es_id suite) (gt_revision_hash ?row) NEWER_GATE_REASON now None db = Inr (db0, stale)"
    and fresh: "new_id \<notin> gt_id ` set (g_gates db0)"
    and gates: "g_gates db1 = map (superseded_by_new ?row) (g_gates db0) @ [?row]"
    and ev1: "g_evidence db1 = g_evidence db0"
    using store_gate_ok [OF s] by auto
  have stales: "only_stales db db0" by (rule mark_scope_result(1) [OF reasons_not_blank(2) m])
  have ev: "g_evidence db1 = g_evidence db" unfolding ev1 by (rule stale_simps [OF stales])
  obtain db2 where r: "reconcile_all_gate_staleness env now db1
       = Inr (db2, report db1 (length (filter (outdated env (g_evidence db1)) (g_gates db1))) now)"
    "g_gates db2 = map (refresh env (g_evidence db1) now) (g_gates db1)" "only_stales db1 db2"
    using reconcile_spec by blast
  have "refresh env (g_evidence db1) now ?row = ?row"
    using new_gate_current [OF v f] by (simp add: refresh_def ev)
  then have gates2: "g_gates db2 = map (\<lambda>g. refresh env (g_evidence db1) now (superseded_by_new ?row g)) (g_gates db0) @ [?row]"
    by (simp add: r(2) gates o_def)
  have "new_id \<notin> gt_id ` set (map (\<lambda>g. refresh env (g_evidence db1) now (superseded_by_new ?row g)) (g_gates db0))"
    using fresh by (subst map_keeps_ids) simp_all
  then have "gate_find new_id (g_gates db2) = Some ?row"
    unfolding gates2 by (rule gate_find_last) simp
  with get r(1) have res: "g = ?row" "db' = db2"
    by (auto simp: get_gate_evaluation_def of_option_def)
  have "new_id \<notin> gt_id ` set (g_gates db)"
    using fresh only_stales_ids [OF stales] by (metis list.set_map)
  moreover have "filter (outdated env (g_evidence db)) (g_gates db2) = []"
    by (simp add: r(2) ev filter_empty_conv)
  moreover have "g_evidence db2 = g_evidence db" using stale_simps [OF r(3)] ev by simp
  ultimately show ?thesis using v f by (auto simp: res gates2)
qed

lemma store_gate_total:
  assumes "gt_id g \<notin> gt_id ` set (g_gates db)"
  shows "\<exists>db'. store_gate env g rules now db = Inr db'"
proof -
  obtain db1 stale where m: "mark_scope_gates_stale env (gt_config_id g) (gt_suite_id g) (gt_revision_hash g)
      NEWER_GATE_REASON now None db = Inr (db1, stale)"
    using mark_scope_total [OF reasons_not_blank(2)] by (metis surj_pair)
  have "gt_id g \<notin> gt_id ` set (g_gates db1)"
    using assms only_stales_ids [OF mark_scope_result(1) [OF reasons_not_blank(2) m]] by (metis list.set_map)
  with m show ?thesis by (simp add: store_gate_def Let_def)
qed

lemma create_gate_total:
  assumes "validate_gate_request db q = Inr (cfg, suite, policy, base)"
    and "gate_findings_of env db cfg suite policy base = Some f"
    and "new_id \<notin> gt_id ` set (g_gates db)"
  shows "\<exists>db'. create_gate_evaluation env q now new_id db = (db', Inr (gate_row env cfg suite policy base f now new_id))"
proof -
  let ?row = "gate_row env cfg suite policy base f now new_id"
  obtain db1 where s: "store_gate env ?row (gf_rules f) now db = Inr db1"
    using store_gate_total [of ?row db env "gf_rules f" now] assms(3) by auto
  then have last: "\<exists>gs. g_gates db1 = gs @ [?row]"
    using store_gate_ok [OF s] by auto
  obtain db2 where r: "reconcile_all_gate_staleness env now db1
       = Inr (db2, report db1 (length (filter (outdated env (g_evidence db1)) (g_gates db1))) now)"
    "g_gates db2 = map (refresh env (g_evidence db1) now) (g_gates db1)"
    using reconcile_spec by blast
  have "new_id \<in> gt_id ` set (g_gates db2)" using last by (auto simp: r(2) image_image)
  then obtain g where "gate_find new_id (g_gates db2) = Some g"
    by (cases "gate_find new_id (g_gates db2)") (auto simp: row_find_None)
  with r(1) assms(1,2) s have c: "create_gate_evaluation env q now new_id db = (db2, Inr g)"
    by (simp add: create_gate_evaluation_def get_gate_evaluation_def)
  from create_gate_ok [OF this] assms(1,2) have "g = ?row" by auto
  with c show ?thesis by blast
qed


section \<open>A concrete gate\<close>

definition demo_env :: gate_env where
  "demo_env = \<lparr>env_sha = (\<lambda>s. show_nat (length s)), env_sqrt = (\<lambda>x. x),
     env_thresholds = demo_thresholds, env_verified = (\<lambda>_. [])\<rparr>"

definition demo_policy :: accept_policy where
  "demo_policy = \<lparr>ap_id = ''policy'', ap_workload_id = ''workload'', ap_policy_hash = ''h'', ap_allow_conditional = False\<rparr>"

definition demo_rule :: policy_rule where
  "demo_rule = \<lparr>pr_id = ''rule'', pr_policy_id = ''policy'', pr_metric_key = ''mean_quality_score'',
     pr_name = ''Quality'', pr_operator = Op_Gte, pr_threshold = 1 / 2, pr_severity = Blocker,
     pr_min_sample = Some 1, pr_required = True, pr_enabled = True, pr_message = ''Improve quality.''\<rparr>"

definition demo_gate_db :: "rat \<Rightarrow> gate_db" where
  "demo_gate_db quality =
     \<lparr>g_evidence = demo_evidence quality, g_policies = [demo_policy], g_rules = [demo_rule], g_gates = [],
      g_rule_results = [], g_baselines = [], g_decisions = [], g_actions = [], g_lineage = []\<rparr>"

definition demo_request :: gate_request where
  "demo_request = \<lparr>gq_config_id = ''config'', gq_suite_id = ''suite'', gq_policy_id = ''policy'', gq_baseline_gate_id = None\<rparr>"


lemma demo_valid:
  "validate_gate_request (demo_gate_db quality) demo_request = Inr (demo_config, demo_suite, demo_policy, None)"
  by (simp add: validate_gate_request_def required_row_def of_option_def row_find_def resolve_baseline_def
      get_active_baseline_gate_def active_baselines_for_scope_def demo_gate_db_def demo_evidence_def
      demo_request_def demo_config_def demo_suite_def demo_policy_def or_empty_dict_def jget_def jget_or_def)

lemma demo_findings:
  "map_option gf_verdict (gate_findings_of demo_env (demo_gate_db 1) demo_config demo_suite demo_policy None) = Some Approved"
  by code_simp


section \<open>Preflight\<close>

lemma collected_runs_have_results:
  assumes "bn_runs (collect_evidence e cfg suite) \<noteq> []"
  shows "bn_results (collect_evidence e cfg suite) \<noteq> []"
  using assms by (auto simp: bundle_runs filter_empty_conv)

lemma preflight_ok:
  assumes "build_gate_preflight env q db = Inr p"
  shows "\<exists>cfg suite policy base blockers.
     row_find dc_id (gq_config_id q) (e_configs (g_evidence db)) = Some cfg \<and>
     row_find es_id (gq_suite_id q) (e_suites (g_evidence db)) = Some suite \<and>
     row_find ap_id (gq_policy_id q) (g_policies db) = Some policy \<and>
     resolve_baseline db q = Inr base \<and>
     blockers = (let b = collect_evidence (g_evidence db) cfg suite in
       blocking_preconditions cfg suite policy (length (bn_active_cases b)) (length (bn_runs b)) (length (bn_results b))
       @ when_msg (case base of None \<Rightarrow> False
                   | Some g \<Rightarrow> \<not> baseline_matches g (dc_id cfg) (es_id suite) (ap_id policy))
           ''The selected baseline does not match the requested gate scope.'') \<and>
     pf_blockers p = fromkeys blockers \<and> pf_can_evaluate p = (blockers = [])"
  using assms by (auto simp: build_gate_preflight_def bind_res_eq_Inr required_row_def Let_def)

text \<open>
  The preflight never reports that matching runs lack active-case results: the collected runs are
  exactly those with a counted result, so that blocker of the code is unreachable and such a scope is
  reported as having no completed run instead.
\<close>
theorem preflight_never_reports_missing_results:
  "case build_gate_preflight env q db of Inl e \<Rightarrow> True | Inr p \<Rightarrow> NO_RESULTS_BLOCKER \<notin> set (pf_blockers p)"
proof (cases "build_gate_preflight env q db")
  case (Inr p)
  from preflight_ok [OF Inr] obtain cfg suite policy base where
    b: "pf_blockers p = fromkeys (blocking_preconditions cfg suite policy
        (length (bn_active_cases (collect_evidence (g_evidence db) cfg suite)))
        (length (bn_runs (collect_evidence (g_evidence db) cfg suite)))
        (length (bn_results (collect_evidence (g_evidence db) cfg suite)))
      @ when_msg (case base of None \<Rightarrow> False
                   | Some g \<Rightarrow> \<not> baseline_matches g (dc_id cfg) (es_id suite) (ap_id policy))
           ''The selected baseline does not match the requested gate scope.'')"
    by (auto simp: Let_def)
  have "bn_runs (collect_evidence (g_evidence db) cfg suite) \<noteq> [] \<Longrightarrow>
      bn_results (collect_evidence (g_evidence db) cfg suite) \<noteq> []"
    by (rule collected_runs_have_results)
  with b Inr show ?thesis
    by (auto simp: blocking_preconditions_def when_msg_def NO_RESULTS_BLOCKER_def)
qed simp

text \<open>
  The preflight predicts the evaluation: when it finds nothing blocking and the new identifier is
  unused, creating the gate stores a gate of the requested scope, unless the configuration is a
  tool-fault fixture (which the preflight does not look at) or an evidence row cannot be read.
\<close>
theorem preflight_predicts_evaluation:
  assumes "build_gate_preflight env q db = Inr p" and "pf_can_evaluate p"
    and "new_id \<notin> gt_id ` set (g_gates db)"
  shows "case snd (create_gate_evaluation env q now new_id db) of
           Inl e \<Rightarrow> e \<in> {Tool_Fault_Fixture, Malformed_Evidence}
         | Inr g \<Rightarrow> gt_id g = new_id \<and> gt_config_id g = gq_config_id q \<and> gt_suite_id g = gq_suite_id q \<and>
             gt_policy_id g = gq_policy_id q \<and> gt_status g = Gate_Completed"
proof -
  obtain cfg suite policy base where p:
    "row_find dc_id (gq_config_id q) (e_configs (g_evidence db)) = Some cfg"
    "row_find es_id (gq_suite_id q) (e_suites (g_evidence db)) = Some suite"
    "row_find ap_id (gq_policy_id q) (g_policies db) = Some policy" "resolve_baseline db q = Inr base"
    "dc_workload_id cfg = es_workload_id suite" "ap_workload_id policy = dc_workload_id cfg"
    "(case base of None \<Rightarrow> True | Some g \<Rightarrow> baseline_matches g (dc_id cfg) (es_id suite) (ap_id policy))"
    using preflight_ok [OF assms(1)] assms(2)
    by (auto simp: Let_def blocking_preconditions_def when_msg_def split: if_split_asm option.split_asm)
  note ids = row_find_SomeD [OF p(1)] row_find_SomeD [OF p(2)] row_find_SomeD [OF p(3)]
  show ?thesis
  proof (cases "jget (or_empty_dict (dc_runtime_config cfg)) ''tool_fault_scenario'' = JNull")
    case False
    then have "validate_gate_request db q = Inl Tool_Fault_Fixture"
      using p by (simp add: validate_gate_request_def required_row_def of_option_def)
    then show ?thesis by (simp add: create_gate_evaluation_def)
  next
    case True
    then have v: "validate_gate_request db q = Inr (cfg, suite, policy, base)"
      using p by (auto simp: validate_gate_request_def required_row_def of_option_def split: option.splits)
    show ?thesis
    proof (cases "gate_findings_of env db cfg suite policy base")
      case None
      with v show ?thesis by (simp add: create_gate_evaluation_def)
    next
      case (Some f)
      from create_gate_total [OF v Some assms(3), where now = now] obtain db' where
        "create_gate_evaluation env q now new_id db = (db', Inr (gate_row env cfg suite policy base f now new_id))" by blast
      then show ?thesis using ids by simp
    qed
  qed
qed

lemma demo_bundle_sizes:
  "length (bn_active_cases (collect_evidence (demo_evidence 1) demo_config demo_suite)) = 1"
  "length (bn_runs (collect_evidence (demo_evidence 1) demo_config demo_suite)) = 1"
  "length (bn_results (collect_evidence (demo_evidence 1) demo_config demo_suite)) = 1"
  by code_simp+

lemma demo_preflight:
  "\<exists>p. build_gate_preflight demo_env demo_request (demo_gate_db 1) = Inr p \<and> pf_can_evaluate p"
proof -
  have "row_find dc_id (gq_config_id demo_request) (e_configs (g_evidence (demo_gate_db 1))) = Some demo_config"
    "row_find es_id (gq_suite_id demo_request) (e_suites (g_evidence (demo_gate_db 1))) = Some demo_suite"
    "row_find ap_id (gq_policy_id demo_request) (g_policies (demo_gate_db 1)) = Some demo_policy"
    "resolve_baseline (demo_gate_db 1) demo_request = Inr None"
    by (simp_all add: row_find_def resolve_baseline_def get_active_baseline_gate_def active_baselines_for_scope_def
        demo_gate_db_def demo_evidence_def demo_request_def demo_config_def demo_suite_def demo_policy_def)
  moreover have "g_evidence (demo_gate_db 1) = demo_evidence 1" by (simp add: demo_gate_db_def)
  moreover have "blocking_preconditions demo_config demo_suite demo_policy 1 1 1 = []"
    by (simp add: blocking_preconditions_def when_msg_def demo_config_def demo_suite_def demo_policy_def)
  ultimately show ?thesis
    by (simp add: build_gate_preflight_def required_row_def of_option_def Let_def demo_bundle_sizes when_msg_def)
qed

theorem preflight_predicts_witness:
  "\<exists>g. snd (create_gate_evaluation demo_env demo_request 0 ''g1'' (demo_gate_db 1)) = Inr g \<and>
     gt_id g = ''g1'' \<and> gt_config_id g = ''config'' \<and> gt_status g = Gate_Completed"
proof -
  obtain p where p: "build_gate_preflight demo_env demo_request (demo_gate_db 1) = Inr p" "pf_can_evaluate p"
    using demo_preflight by blast
  obtain f where f: "gate_findings_of demo_env (demo_gate_db 1) demo_config demo_suite demo_policy None = Some f"
    using demo_findings by auto
  have new: "''g1'' \<notin> gt_id ` set (g_gates (demo_gate_db 1))" by (simp add: demo_gate_db_def)
  obtain db' g where "create_gate_evaluation demo_env demo_request 0 ''g1'' (demo_gate_db 1) = (db', Inr g)"
    using create_gate_total [OF demo_valid f new] by blast
  with preflight_predicts_evaluation [OF p new, where now = 0] show ?thesis
    by (simp add: demo_request_def)
qed

end
