(* ===== verification/Release_System.thy ===== *)
theory Release_System
  imports Release_Decisions Gate_Approval
begin

text \<open>
  The release system as a whole: gates, baselines, signed decisions and their action log under any
  sequence of the commands of \<open>release_step\<close>. First what a committed command may change
  (\<open>release_effect\<close>), then the invariant of the tables, and the interpretations of the shared
  contracts; the properties of single decisions and of runs rest on these.
\<close>

named_theorems effect_simps \<open>what a release command leaves unchanged\<close>

section \<open>What a command may change\<close>

definition gate_moves :: "gate \<Rightarrow> gate \<Rightarrow> bool" where
  "gate_moves g g' \<longleftrightarrow>
     gt_id g' = gt_id g \<and> gt_config_id g' = gt_config_id g \<and> gt_suite_id g' = gt_suite_id g \<and>
     gt_policy_id g' = gt_policy_id g \<and> gt_verdict g' = gt_verdict g \<and> gt_snapshot g' = gt_snapshot g \<and>
     gt_scorecard g' = gt_scorecard g \<and> gt_decision_hash g' = gt_decision_hash g \<and>
     (gt_status g' = gt_status g \<or> gt_status g = Gate_Completed \<and> gt_status g' = Gate_Stale)"

definition baseline_moves :: "baseline \<Rightarrow> baseline \<Rightarrow> bool" where
  "baseline_moves b b' \<longleftrightarrow>
     bl_id b' = bl_id b \<and> bl_config_id b' = bl_config_id b \<and> bl_suite_id b' = bl_suite_id b \<and>
     bl_policy_id b' = bl_policy_id b \<and> bl_gate_id b' = bl_gate_id b \<and> bl_hash b' = bl_hash b \<and>
     (bl_status b' = bl_status b \<or> bl_status b = Base_Active \<and> bl_status b' = Base_Superseded)"

lemma gate_moves_refl [simp]: "gate_moves g g"
  and baseline_moves_refl [simp]: "baseline_moves b b"
  by (simp_all add: gate_moves_def baseline_moves_def)

lemma gate_moves_trans: "gate_moves a b \<Longrightarrow> gate_moves b c \<Longrightarrow> gate_moves a c"
  unfolding gate_moves_def by auto

lemma baseline_moves_trans: "baseline_moves a b \<Longrightarrow> baseline_moves b c \<Longrightarrow> baseline_moves a c"
  unfolding baseline_moves_def by auto

lemma evolves_moves: "gate_evolves g g' \<Longrightarrow> gate_moves g g'"
  by (auto simp: gate_evolves_def gate_moves_def)

lemma superseded_moves: "gate_moves g (superseded_by_new new g)"
  by (simp add: superseded_by_new_def gate_moves_def)

lemma supersede_baseline_moves: "bl_status b = Base_Active \<Longrightarrow> baseline_moves b (supersede_baseline i now b)"
  by (simp add: supersede_baseline_def baseline_moves_def)

definition release_effect :: "gate_db \<Rightarrow> gate_db \<Rightarrow> bool" where
  "release_effect db db' \<longleftrightarrow>
     extends gate_moves (g_gates db) (g_gates db') \<and> extends baseline_moves (g_baselines db) (g_baselines db') \<and>
     prefix (g_decisions db) (g_decisions db') \<and> prefix (g_actions db) (g_actions db') \<and>
     prefix (g_lineage db) (g_lineage db')"

lemma effect_same_rows: "extends gate_moves xs xs" "extends baseline_moves bs bs"
  by (simp_all add: extends_refl)

lemma release_effect_trans: "release_effect a b \<Longrightarrow> release_effect b c \<Longrightarrow> release_effect a c"
  unfolding release_effect_def
  using extends_trans [of gate_moves, OF gate_moves_trans] extends_trans [of baseline_moves, OF baseline_moves_trans]
  by (meson prefix_order.trans)

lemma only_stales_effect: "only_stales db db' \<Longrightarrow> release_effect db db'"
  unfolding only_stales_def release_effect_def
  by (auto intro: extends_same list_all2_mono evolves_moves simp: effect_same_rows)

section \<open>Creating a gate\<close>

lemma create_gate_steps:
  assumes "create_gate_evaluation env q now i db = (db', Inr g)"
  shows "\<exists>db0 db1 new. only_stales db db0 \<and> only_stales db1 db' \<and>
           gt_id new = i \<and> gt_status new = Gate_Completed \<and> i \<notin> gt_id ` set (g_gates db0) \<and>
           g_gates db1 = map (superseded_by_new new) (g_gates db0) @ [new] \<and>
           g_actions db1 = g_actions db0 \<and> g_decisions db1 = g_decisions db0 \<and> g_baselines db1 = g_baselines db0 \<and>
           (\<exists>e. le_type e = Gate_Completed_Event \<and> le_primary_id e = i \<and>
                g_lineage db1 = record_lineage_event e (g_lineage db0)) \<and>
           (stale_covered db \<longrightarrow> stale_covered db0) \<and> (stale_covered db1 \<longrightarrow> stale_covered db')"
proof -
  from assms obtain cfg suite policy base f db1 where
    s: "store_gate env (gate_row env cfg suite policy base f now i) (gf_rules f) now db = Inr db1"
    and get: "get_gate_evaluation env now i db1 = (db', Inr g)"
    by (auto simp: create_gate_evaluation_def split: sum.splits prod.splits option.splits)
  let ?row = "gate_row env cfg suite policy base f now i"
  obtain db0 stale where
    m: "mark_scope_gates_stale env (gt_config_id ?row) (gt_suite_id ?row) (gt_revision_hash ?row)
          NEWER_GATE_REASON now None db = Inr (db0, stale)"
    and st: "gt_id ?row \<notin> gt_id ` set (g_gates db0)"
      "g_gates db1 = map (superseded_by_new ?row) (g_gates db0) @ [?row]"
      "g_actions db1 = g_actions db0" "g_decisions db1 = g_decisions db0" "g_baselines db1 = g_baselines db0"
    and lin: "g_lineage db1 = record_lineage_event
        (gate_event (supersede_stale_gates ?row (db0\<lparr>g_gates := g_gates db0 @ [?row]\<rparr>)) ?row) (g_lineage db0)"
    using store_gate_ok [OF s gate_row_simps(5)] by blast
  have a: "only_stales db db0" "stale_covered db \<longrightarrow> stale_covered db0"
    using mark_scope_result(1,2) [OF reasons_not_blank(2) m] by blast+
  obtain db2 where r: "reconcile_all_gate_staleness env now db1
       = Inr (db2, report db1 (length (filter (outdated env (g_evidence db1)) (g_gates db1))) now)"
    "only_stales db1 db2" "stale_covered db1 \<longrightarrow> stale_covered db2"
    using reconcile_spec by blast
  then have "db' = db2" using get by (auto simp: get_gate_evaluation_def)
  moreover have "\<exists>e. le_type e = Gate_Completed_Event \<and> le_primary_id e = i \<and>
                g_lineage db1 = record_lineage_event e (g_lineage db0)"
    unfolding lin by (intro exI conjI) (auto simp: gate_event_def Let_def)
  ultimately show ?thesis using a r(2,3) st by (intro exI [of _ db0] exI [of _ db1] exI [of _ ?row]) simp
qed

lemma create_gate_effect:
  assumes "create_gate_evaluation env q now i db = (db', Inr g)"
  shows "release_effect db db'"
proof -
  obtain db0 db1 new where c: "only_stales db db0" "only_stales db1 db'"
    "g_gates db1 = map (superseded_by_new new) (g_gates db0) @ [new]"
    "g_actions db1 = g_actions db0" "g_decisions db1 = g_decisions db0" "g_baselines db1 = g_baselines db0"
    "\<exists>e. g_lineage db1 = record_lineage_event e (g_lineage db0)"
    using create_gate_steps [OF assms] by blast
  have "extends gate_moves (g_gates db0) (g_gates db1)"
    unfolding c(3) by (intro extendsI list_all2_map_right superseded_moves)
  moreover have "prefix (g_lineage db0) (g_lineage db1)"
    using c(7) record_lineage_prefix by auto
  ultimately have "release_effect db0 db1"
    by (simp add: release_effect_def c effect_same_rows)
  with only_stales_effect [OF c(1)] only_stales_effect [OF c(2)] show ?thesis
    by (blast intro: release_effect_trans)
qed

section \<open>Promotion\<close>

text \<open>The write-back of the superseded baselines is one pass over the table.\<close>

lemma fold_put_superseded:
  assumes "distinct (map bl_id bs)" and "set ps \<subseteq> set bs"
  shows "fold (row_put bl_id) (map (supersede_baseline i now) ps) bs
    = map (\<lambda>b. if b \<in> set ps then supersede_baseline i now b else b) bs"
  using assms(2)
proof (induction ps rule: rev_induct)
  case Nil
  then show ?case by simp
next
  case (snoc p ps)
  have same: "x = p" if "x \<in> set bs" "bl_id x = bl_id p" for x
    using assms(1) that snoc.prems by (auto simp: distinct_map inj_on_def)
  have ids: "bl_id (supersede_baseline i now b) = bl_id b" for b by (simp add: supersede_baseline_def)
  have "fold (row_put bl_id) (map (supersede_baseline i now) (ps @ [p])) bs
      = row_put bl_id (supersede_baseline i now p) (map (\<lambda>b. if b \<in> set ps then supersede_baseline i now b else b) bs)"
    using snoc by simp
  also have "\<dots> = map (\<lambda>b. if b \<in> set (ps @ [p]) then supersede_baseline i now b else b) bs"
    using same by (auto simp: row_put_def ids)
  finally show ?case .
qed

definition superseded_for :: "gate \<Rightarrow> uuid \<Rightarrow> instant \<Rightarrow> baseline \<Rightarrow> baseline" where
  "superseded_for g i now p =
     (if baseline_in_scope (gt_config_id g) (gt_suite_id g) (gt_policy_id g) p \<and> bl_status p = Base_Active
      then supersede_baseline i now p else p)"

lemma promote_steps:
  assumes "promote_gate_evaluation_as_baseline env q now i db = Inr (db', b)"
    and "distinct (map bl_id (g_baselines db))"
  shows "\<exists>g. gate_find (pq_gate_id q) (g_gates db) = Some g \<and> gt_status g = Gate_Completed \<and> gt_verdict g = Approved \<and>
           i \<notin> bl_id ` set (g_baselines db) \<and> bl_id b = i \<and> bl_status b = Base_Active \<and> bl_gate_id b = gt_id g \<and>
           baseline_in_scope (gt_config_id g) (gt_suite_id g) (gt_policy_id g) b \<and>
           g_baselines db' = map (superseded_for g i now) (g_baselines db) @ [b] \<and>
           g_gates db' = g_gates db \<and> g_actions db' = g_actions db \<and> g_decisions db' = g_decisions db \<and>
           g_evidence db' = g_evidence db \<and>
           prefix (record_lineage_event (baseline_event db b) (g_lineage db)) (g_lineage db')"
proof -
  from assms(1) obtain g where g: "gate_find (pq_gate_id q) (g_gates db) = Some g" "gt_status g = Gate_Completed"
    "gt_verdict g = Approved" "i \<notin> bl_id ` set (g_baselines db)"
    by (auto simp: promote_gate_evaluation_as_baseline_def split: option.splits if_split_asm)
  let ?in = "baseline_in_scope (gt_config_id g) (gt_suite_id g) (gt_policy_id g)"
  let ?ps = "active_baselines_for_scope db (gt_config_id g) (gt_suite_id g) (gt_policy_id g)"
  from assms(1) g have b: "bl_id b = i" "bl_status b = Base_Active" "bl_gate_id b = gt_id g" "?in b"
    and db': "db' = db\<lparr>g_baselines := fold (row_put bl_id) (map (supersede_baseline i now) ?ps) (g_baselines db @ [b]),
        g_lineage := fold (\<lambda>p. record_lineage_event (superseded_event p now)) (map (supersede_baseline i now) ?ps)
            (record_lineage_event (baseline_event db b) (g_lineage db))\<rparr>"
    by (auto simp: promote_gate_evaluation_as_baseline_def Let_def baseline_in_scope_def)
  have ps: "set ?ps = {p \<in> set (g_baselines db). ?in p \<and> bl_status p = Base_Active}"
    by (auto simp: active_baselines_for_scope_def)
  have "distinct (map bl_id (g_baselines db @ [b]))" using assms(2) g(4) b(1) by simp
  then have "fold (row_put bl_id) (map (supersede_baseline i now) ?ps) (g_baselines db @ [b])
      = map (\<lambda>p. if p \<in> set ?ps then supersede_baseline i now p else p) (g_baselines db @ [b])"
    by (rule fold_put_superseded) (auto simp: ps)
  moreover have "b \<notin> set (g_baselines db)" using g(4) b(1) by auto
  ultimately have base: "g_baselines db' = map (superseded_for g i now) (g_baselines db) @ [b]"
    by (simp add: db' ps superseded_for_def)
  have "prefix evs (fold (\<lambda>p. record_lineage_event (superseded_event p now)) xs evs)" for xs evs
    by (induction xs arbitrary: evs) (auto intro: prefix_order.trans [OF record_lineage_prefix])
  then show ?thesis using g b base by (intro exI [of _ g]) (simp add: db')
qed

lemma promote_effect:
  assumes "promote_gate_evaluation_as_baseline env q now i db = Inr (db', b)"
    and "distinct (map bl_id (g_baselines db))"
  shows "release_effect db db'"
proof -
  obtain g where p: "g_baselines db' = map (superseded_for g i now) (g_baselines db) @ [b]"
    "g_gates db' = g_gates db" "g_actions db' = g_actions db" "g_decisions db' = g_decisions db"
    "prefix (record_lineage_event (baseline_event db b) (g_lineage db)) (g_lineage db')"
    using promote_steps [OF assms] by blast
  have "extends baseline_moves (g_baselines db) (g_baselines db')"
    unfolding p(1) by (intro extendsI list_all2_map_rightI) (simp add: superseded_for_def supersede_baseline_moves)
  with p(2-5) show ?thesis
    by (auto simp: release_effect_def effect_same_rows intro: prefix_order.trans [OF record_lineage_prefix])
qed

section \<open>Signing and operating\<close>

lemma add_action_fields:
  assumes "add_release_action a db = Inr db'"
  shows "g_actions db' = g_actions db @ [a\<lparr>ra_reason := strip (ra_reason a)\<rparr>]" "g_gates db' = g_gates db"
    "g_decisions db' = g_decisions db" "g_baselines db' = g_baselines db" "g_lineage db' = g_lineage db"
    "g_evidence db' = g_evidence db"
  using assms by (auto simp: add_action_ok)

definition readiness_allows :: "release_verb \<Rightarrow> readiness_status \<Rightarrow> bool" where
  "readiness_allows v st \<longleftrightarrow> v = APPROVE_RELEASE \<longrightarrow> st \<in> {Ready, Ready_To_Promote}"

lemma decide_steps:
  assumes "create_release_decision env views trusted q now i db = Inr (db', d)"
  shows "\<exists>g replaced sn ev. gate_find (dq_gate_id q) (g_gates db) = Some g \<and>
     validated_replaced_decision db (dq_replaces q) g = Inr replaced \<and>
     build_release_readiness_snapshot env views now (Some (dq_gate_id q)) db = Inr sn \<and>
     readiness_allows (dq_decision q) (sn_status sn) \<and>
     assert_release_decision (dq_decision q) (build_signer_identity trusted q) = Inr ev \<and>
     d = decision_row env q sn (build_signer_identity trusted q) ev replaced now i \<and>
     i \<notin> rd_id ` set (g_decisions db) \<and>
     g_decisions db' = g_decisions db @ [d] \<and> g_gates db' = g_gates db \<and> g_baselines db' = g_baselines db \<and>
     g_actions db' = g_actions db @ (case replaced of None \<Rightarrow> []
        | Some old \<Rightarrow> let a = replaced_action old d q (build_signer_identity trusted q) now in [a\<lparr>ra_reason := strip (ra_reason a)\<rparr>]) \<and>
     (\<exists>e. le_type e = Decision_Signed_Event \<and> le_primary_id e = i \<and> g_lineage db' = record_lineage_event e (g_lineage db))"
proof -
  let ?sg = "build_signer_identity trusted q"
  from assms obtain g replaced sn ev where g: "gate_find (dq_gate_id q) (g_gates db) = Some g"
    "validated_replaced_decision db (dq_replaces q) g = Inr replaced"
    "build_release_readiness_snapshot env views now (Some (dq_gate_id q)) db = Inr sn"
    "\<not> (dq_decision q = APPROVE_RELEASE \<and> sn_status sn \<notin> {Ready, Ready_To_Promote})"
    "assert_release_decision (dq_decision q) ?sg = Inr ev"
    "i \<notin> rd_id ` set (g_decisions db)"
    unfolding create_release_decision_def
    by (auto simp: bind_res_eq_Inr Let_def split: option.splits sum.splits if_split_asm)
  let ?d = "decision_row env q sn ?sg ev replaced now i"
  let ?db = "db\<lparr>g_decisions := g_decisions db @ [?d]\<rparr>"
  from assms g obtain db1 where
    db1: "(case replaced of None \<Rightarrow> Inr ?db | Some old \<Rightarrow> add_release_action (replaced_action old ?d q ?sg now) ?db) = Inr db1"
    and db': "db' = db1\<lparr>g_lineage := record_lineage_event (decision_event db1 ?d) (g_lineage db1)\<rparr>" "d = ?d"
    unfolding create_release_decision_def
    by (auto simp: bind_res_eq_Inr Let_def split: if_split_asm)
  have acts: "g_actions db1 = g_actions db @ (case replaced of None \<Rightarrow> []
        | Some old \<Rightarrow> let a = replaced_action old ?d q ?sg now in [a\<lparr>ra_reason := strip (ra_reason a)\<rparr>])"
    and same: "g_decisions db1 = g_decisions db @ [?d]" "g_gates db1 = g_gates db" "g_baselines db1 = g_baselines db"
      "g_lineage db1 = g_lineage db"
    using db1 by (cases replaced; auto simp: Let_def dest: add_action_fields)+
  have "\<exists>e. le_type e = Decision_Signed_Event \<and> le_primary_id e = i \<and> g_lineage db' = record_lineage_event e (g_lineage db)"
    by (intro exI [of _ "decision_event db1 ?d"]) (simp add: decision_event_def decision_row_def Let_def db' same)
  then show ?thesis
    using g acts [folded db'(2)] same by (intro exI [of _ g] exI [of _ replaced] exI [of _ sn] exI [of _ ev])
      (simp add: db' readiness_allows_def cong: option.case_cong)
qed

lemma decide_effect:
  assumes "create_release_decision env views trusted q now i db = Inr (db', d)"
  shows "release_effect db db'"
proof -
  have "g_decisions db' = g_decisions db @ [d]" "g_gates db' = g_gates db" "g_baselines db' = g_baselines db"
    "prefix (g_actions db) (g_actions db')" "prefix (g_lineage db) (g_lineage db')"
    using decide_steps [OF assms] record_lineage_prefix by auto
  then show ?thesis by (simp add: release_effect_def effect_same_rows)
qed

lemma operate_steps:
  assumes "create_release_decision_action i op reason sg now fresh db = Inr db'"
  shows "\<exists>d. decision_find i (g_decisions db) = Some d \<and> operation_reasons (operation_kind op) sg = [] \<and>
     operational_status_of db d \<noteq> Op_Replaced \<and>
     (op = Revoke \<longrightarrow> rd_decision d = APPROVE_RELEASE \<and> operational_status_of db d \<noteq> Op_Revoked) \<and>
     (op = Acknowledge \<longrightarrow> operational_status_of db d = Op_Needs_Review) \<and>
     add_release_action (manual_action op reason sg now fresh (operational_status_of db d) d) db = Inr db'"
  using assms unfolding create_release_decision_action_def
  by (auto simp: Let_def split: option.splits if_split_asm dest: operation_auth.guarded_command)

lemma operate_effect:
  assumes "create_release_decision_action i op reason sg now fresh db = Inr db'"
  shows "release_effect db db'"
proof -
  obtain d where "add_release_action (manual_action op reason sg now fresh (operational_status_of db d) d) db = Inr db'"
    using operate_steps [OF assms] by blast
  note f = add_action_fields [OF this]
  show ?thesis by (simp add: release_effect_def effect_same_rows f)
qed

section \<open>The invariant\<close>

definition bl_scope :: "baseline \<Rightarrow> uuid \<times> uuid \<times> uuid" where
  "bl_scope b = (bl_config_id b, bl_suite_id b, bl_policy_id b)"

definition gt_scope :: "gate \<Rightarrow> uuid \<times> uuid \<times> uuid" where
  "gt_scope g = (gt_config_id g, gt_suite_id g, gt_policy_id g)"

definition active_baseline :: "baseline \<Rightarrow> bool" where
  "active_baseline b \<longleftrightarrow> bl_status b = Base_Active"

definition approved_source :: "gate list \<Rightarrow> baseline \<Rightarrow> bool" where
  "approved_source gs b \<longleftrightarrow> (\<exists>g \<in> set gs. gt_id g = bl_gate_id b \<and> gt_verdict g = Approved \<and> gt_scope g = bl_scope b)"

definition decision_authorised :: "release_decision \<Rightarrow> bool" where
  "decision_authorised d \<longleftrightarrow>
     readiness_allows (rd_decision d) (rd_readiness d) \<and>
     (\<exists>sg. rd_signer d = identity_to_json sg \<and> rd_identity_verified d = identity_verified sg \<and>
           ev_reasons (evaluate_release_policy (rd_decision d) sg) = [])"

definition logged :: "event_kind \<Rightarrow> uuid list \<Rightarrow> lineage_event list \<Rightarrow> bool" where
  "logged k ids evs \<longleftrightarrow> (\<forall>i \<in> set ids. \<exists>e \<in> set evs. le_type e = k \<and> le_primary_id e = i)"

definition release_inv :: "gate_db \<Rightarrow> bool" where
  "release_inv db \<longleftrightarrow>
     distinct (map gt_id (g_gates db)) \<and> distinct (map bl_id (g_baselines db)) \<and> distinct (map rd_id (g_decisions db)) \<and>
     distinct (map bl_scope (filter active_baseline (g_baselines db))) \<and>
     list_all (approved_source (g_gates db)) (g_baselines db) \<and>
     stale_covered db \<and>
     list_all decision_authorised (g_decisions db) \<and>
     logged Gate_Completed_Event (map gt_id (g_gates db)) (g_lineage db) \<and>
     logged Baseline_Promoted_Event (map bl_id (g_baselines db)) (g_lineage db) \<and>
     logged Decision_Signed_Event (map rd_id (g_decisions db)) (g_lineage db)"

lemma release_invD:
  assumes "release_inv db"
  shows "distinct (map gt_id (g_gates db))" "distinct (map bl_id (g_baselines db))" "distinct (map rd_id (g_decisions db))"
    "distinct (map bl_scope (filter active_baseline (g_baselines db)))"
    "list_all (approved_source (g_gates db)) (g_baselines db)" "stale_covered db"
    "list_all decision_authorised (g_decisions db)"
    "logged Gate_Completed_Event (map gt_id (g_gates db)) (g_lineage db)"
    "logged Baseline_Promoted_Event (map bl_id (g_baselines db)) (g_lineage db)"
    "logged Decision_Signed_Event (map rd_id (g_decisions db)) (g_lineage db)"
  using assms by (simp_all add: release_inv_def)

lemma approved_source_extends:
  assumes "extends gate_moves gs gs'" and "approved_source gs b"
  shows "approved_source gs' b"
proof -
  obtain xs zs where x: "gs' = xs @ zs" "list_all2 gate_moves gs xs" using assms(1) by (auto simp: extends_def)
  obtain g where g: "g \<in> set gs" "gt_id g = bl_gate_id b" "gt_verdict g = Approved" "gt_scope g = bl_scope b"
    using assms(2) by (auto simp: approved_source_def)
  from x(2) g(1) obtain g' where "g' \<in> set xs" "gate_moves g g'"
    by (induction rule: list_all2_induct) auto
  with g show ?thesis
    by (auto simp: approved_source_def x(1) gate_moves_def gt_scope_def intro!: bexI [of _ g'])
qed

lemma logged_prefix: "logged k ids evs \<Longrightarrow> prefix evs evs' \<Longrightarrow> logged k ids evs'"
  unfolding logged_def using set_mono_prefix by blast

lemma logged_new:
  assumes "logged k ids evs" and "le_type e = k" and "le_primary_id e = i" and "prefix (record_lineage_event e evs) evs'"
  shows "logged k (ids @ [i]) evs'"
proof -
  have "logged k ids evs'"
    using logged_prefix [OF assms(1)] prefix_order.trans [OF record_lineage_prefix assms(4)] by blast
  moreover have "\<exists>x \<in> set evs'. le_type x = k \<and> le_primary_id x = i"
    using record_lineage_member [of e evs] assms(2-4) set_mono_prefix by blast
  ultimately show ?thesis by (auto simp: logged_def)
qed

lemma stale_covered_same:
  assumes "stale_covered db" and "prefix (g_actions db) (g_actions db')" and "g_decisions db' = g_decisions db"
    and "\<And>g'. g' \<in> set (g_gates db') \<Longrightarrow> gt_status g' = Gate_Stale \<Longrightarrow>
           \<exists>g \<in> set (g_gates db). gt_id g' = gt_id g \<and> gt_status g = Gate_Stale"
  shows "stale_covered db'"
  unfolding stale_covered_def
proof (intro ballI impI)
  fix g' d
  assume "g' \<in> set (g_gates db')" "gt_status g' = Gate_Stale" and d: "d \<in> set (approvals_of db' g')"
  then obtain g where g: "g \<in> set (g_gates db)" "gt_id g' = gt_id g" "gt_status g = Gate_Stale" using assms(4) by blast
  have "d \<in> set (approvals_of db g)" using d by (simp add: approvals_of_def assms(3) g(2))
  with assms(1) g have "stale_warned db g d" by (auto simp: stale_covered_def)
  then show "stale_warned db' g' d"
    using set_mono_prefix [OF assms(2)] by (auto simp: stale_warned_def stale_dedupe_key_def g(2))
qed

lemma inv_only_stales:
  assumes "release_inv db" and "only_stales db db'" and "stale_covered db'"
  shows "release_inv db'"
proof -
  have "list_all (approved_source (g_gates db')) (g_baselines db)"
    using assms(1) approved_source_extends [OF extends_same [OF list_all2_mono [OF only_stales_gates [OF assms(2)]]]]
    by (auto simp: release_inv_def list_all_iff evolves_moves)
  then show ?thesis
    using assms(1,3) stale_simps [OF assms(2)] only_stales_ids [OF assms(2)] by (simp add: release_inv_def)
qed

lemma inv_create:
  assumes inv: "release_inv db" and c: "create_gate_evaluation env q now i db = (db', Inr g)"
  shows "release_inv db'"
proof -
  obtain db0 db1 new e where s: "only_stales db db0" "only_stales db1 db'" "gt_id new = i" "gt_status new = Gate_Completed"
    "i \<notin> gt_id ` set (g_gates db0)" "g_gates db1 = map (superseded_by_new new) (g_gates db0) @ [new]"
    "g_actions db1 = g_actions db0" "g_decisions db1 = g_decisions db0" "g_baselines db1 = g_baselines db0"
    "le_type e = Gate_Completed_Event" "le_primary_id e = i" "g_lineage db1 = record_lineage_event e (g_lineage db0)"
    "stale_covered db \<longrightarrow> stale_covered db0" "stale_covered db1 \<longrightarrow> stale_covered db'"
    using create_gate_steps [OF c] by blast
  have inv0: "release_inv db0"
    using inv_only_stales [OF inv s(1)] s(13) inv by (simp add: release_inv_def)
  have ids: "map gt_id (g_gates db1) = map gt_id (g_gates db0) @ [i]"
    by (simp add: s(3,6) o_def)
  have cov: "stale_covered db1"
  proof (rule stale_covered_same [of db0])
    show "\<exists>g \<in> set (g_gates db0). gt_id g' = gt_id g \<and> gt_status g = Gate_Stale"
      if "g' \<in> set (g_gates db1)" "gt_status g' = Gate_Stale" for g'
      using that s(4) by (auto simp: s(6) superseded_by_new_def split: if_split_asm)
  qed (use inv0 s in \<open>simp_all add: release_inv_def\<close>)
  have "extends gate_moves (g_gates db0) (g_gates db1)"
    unfolding s(6) by (intro extendsI list_all2_map_right superseded_moves)
  then have "list_all (approved_source (g_gates db1)) (g_baselines db1)"
    using inv0 approved_source_extends by (auto simp: release_inv_def list_all_iff s(9))
  moreover have "logged Gate_Completed_Event (map gt_id (g_gates db0) @ [i]) (g_lineage db1)"
    by (rule logged_new [OF release_invD(8) [OF inv0] s(10,11)]) (simp add: s(12))
  moreover have "prefix (g_lineage db0) (g_lineage db1)" by (simp add: s(12) record_lineage_prefix)
  ultimately have "release_inv db1"
    using inv0 cov s(5,8,9) logged_prefix [OF release_invD(9) [OF inv0]] logged_prefix [OF release_invD(10) [OF inv0]]
    by (simp add: release_inv_def ids)
  with inv_only_stales [OF _ s(2)] s(14) cov show ?thesis by blast
qed

lemma superseded_for_simps [simp]:
  "bl_id (superseded_for g i now p) = bl_id p" "bl_gate_id (superseded_for g i now p) = bl_gate_id p"
  "bl_scope (superseded_for g i now p) = bl_scope p"
  by (simp_all add: superseded_for_def supersede_baseline_def bl_scope_def)

lemma in_scope_iff: "baseline_in_scope (gt_config_id g) (gt_suite_id g) (gt_policy_id g) p \<longleftrightarrow> bl_scope p = gt_scope g"
  by (auto simp: baseline_in_scope_def bl_scope_def gt_scope_def)

lemma active_after_supersede:
  "map bl_scope (filter active_baseline (map (superseded_for g i now) bs))
     = map bl_scope (filter (\<lambda>p. bl_scope p \<noteq> gt_scope g) (filter active_baseline bs))"
  by (induction bs) (simp_all add: superseded_for_def in_scope_iff active_baseline_def supersede_baseline_def bl_scope_def)

lemma inv_promote:
  assumes inv: "release_inv db" and c: "promote_gate_evaluation_as_baseline env q now i db = Inr (db', b)"
  shows "release_inv db'"
proof -
  obtain g where p: "gate_find (pq_gate_id q) (g_gates db) = Some g" "gt_verdict g = Approved"
    "i \<notin> bl_id ` set (g_baselines db)" "bl_id b = i" "bl_gate_id b = gt_id g" "bl_status b = Base_Active"
    "baseline_in_scope (gt_config_id g) (gt_suite_id g) (gt_policy_id g) b"
    "g_baselines db' = map (superseded_for g i now) (g_baselines db) @ [b]"
    "g_gates db' = g_gates db" "g_actions db' = g_actions db" "g_decisions db' = g_decisions db"
    "prefix (record_lineage_event (baseline_event db b) (g_lineage db)) (g_lineage db')"
    using promote_steps [OF c release_invD(2) [OF inv]] by blast
  have g: "g \<in> set (g_gates db)" using p(1) by (blast dest: row_find_SomeD)
  have pre: "prefix (g_lineage db) (g_lineage db')"
    using record_lineage_prefix p(12) by (rule prefix_order.trans)
  have act: "active_baseline b" "bl_scope b = gt_scope g"
    using p(6,7) by (simp_all add: active_baseline_def in_scope_iff)
  have "distinct (map bl_scope (filter (\<lambda>p. bl_scope p \<noteq> gt_scope g) (filter active_baseline (g_baselines db))))"
    using release_invD(4) [OF inv] by (rule distinct_map_filter)
  then have "distinct (map bl_scope (filter active_baseline (g_baselines db')))"
    unfolding p(8) filter_append map_append active_after_supersede using act by auto
  moreover have "list_all (approved_source (g_gates db')) (g_baselines db')"
    using release_invD(5) [OF inv] g p(2,5) act(2)
    by (auto simp: p(8,9) list_all_iff approved_source_def)
  moreover have "stale_covered db'"
    by (rule stale_covered_same [OF release_invD(6) [OF inv]]) (auto simp: p(9,10,11))
  moreover have "logged Baseline_Promoted_Event (map bl_id (g_baselines db) @ [i]) (g_lineage db')"
    by (rule logged_new [OF release_invD(9) [OF inv] _ _ p(12)]) (simp_all add: baseline_event_def Let_def p(4))
  moreover have "map bl_id (g_baselines db') = map bl_id (g_baselines db) @ [i]" by (simp add: p(8,4) o_def)
  ultimately show ?thesis
    using release_invD(1,2,3,7) [OF inv] p(3,9,11)
      logged_prefix [OF release_invD(8) [OF inv] pre] logged_prefix [OF release_invD(10) [OF inv] pre]
    by (simp add: release_inv_def)
qed

lemma readiness_not_stale:
  "gt_status g = Gate_Stale \<Longrightarrow> fst (readiness_status_of g a n r t) = Blocked_Readiness"
  by (simp add: readiness_status_of_def)

lemma snapshot_ok:
  assumes "build_release_readiness_snapshot env views now (Some i) db = Inr sn"
  shows "gate_find i (g_gates db) = Some (sn_gate sn)"
    and "\<exists>a n r t. sn_status sn = fst (readiness_status_of (sn_gate sn) a n r t)"
proof -
  from assms obtain g where g: "gate_find i (g_gates db) = Some g"
    by (auto simp: build_release_readiness_snapshot_def bind_res_eq_Inr)
  let ?r = "readiness_status_of g (baseline_relation (active_baseline_of db g) g = Active_Source)
    (rv_needs_review (views g)) (rv_risk_rows (views g))
    (summarize_gate_evidence_trust (env_thresholds env) (env_verified env) (g_evidence db) (gt_snapshot g))"
  obtain st good rev where r: "?r = (st, good, rev)" by (cases ?r) auto
  from assms g r have "sn_gate sn = g" "sn_status sn = st"
    by (auto simp: build_release_readiness_snapshot_def bind_res_eq_Inr Let_def)
  moreover from r have "st = fst ?r" by simp
  ultimately show "gate_find i (g_gates db) = Some (sn_gate sn)"
    and "\<exists>a n r t. sn_status sn = fst (readiness_status_of (sn_gate sn) a n r t)"
    using g by blast+
qed

lemma decision_row_simps [simp]:
  "rd_id (decision_row env q sn sg ev r now i) = i" "rd_gate_id (decision_row env q sn sg ev r now i) = gt_id (sn_gate sn)"
  "rd_decision (decision_row env q sn sg ev r now i) = dq_decision q"
  "rd_readiness (decision_row env q sn sg ev r now i) = sn_status sn"
  "rd_signer (decision_row env q sn sg ev r now i) = identity_to_json sg"
  "rd_identity_verified (decision_row env q sn sg ev r now i) = identity_verified sg"
  by (simp_all add: decision_row_def Let_def)

lemma inv_decide:
  assumes inv: "release_inv db" and c: "create_release_decision env views trusted q now i db = Inr (db', d)"
  shows "release_inv db'"
proof -
  obtain g replaced sn ev e where s: "gate_find (dq_gate_id q) (g_gates db) = Some g"
    "build_release_readiness_snapshot env views now (Some (dq_gate_id q)) db = Inr sn"
    "readiness_allows (dq_decision q) (sn_status sn)"
    "assert_release_decision (dq_decision q) (build_signer_identity trusted q) = Inr ev"
    "d = decision_row env q sn (build_signer_identity trusted q) ev replaced now i" "i \<notin> rd_id ` set (g_decisions db)"
    "g_decisions db' = g_decisions db @ [d]" "g_gates db' = g_gates db" "g_baselines db' = g_baselines db"
    "prefix (g_actions db) (g_actions db')"
    "le_type e = Decision_Signed_Event" "le_primary_id e = i" "g_lineage db' = record_lineage_event e (g_lineage db)"
    using decide_steps [OF c] by auto
  have sn: "sn_gate sn = g" using snapshot_ok(1) [OF s(2)] s(1) by simp
  have pre: "prefix (g_lineage db) (g_lineage db')" by (simp add: s(13) record_lineage_prefix)
  have auth: "decision_authorised d"
    using s(3) release_auth.passed [OF s(4)] by (auto simp: decision_authorised_def s(5))
  have fresh_ok: "gt_status h \<noteq> Gate_Stale"
    if "h \<in> set (g_gates db)" "rd_gate_id d = gt_id h" "rd_decision d = APPROVE_RELEASE" for h
  proof -
    have "row_find gt_id (gt_id h) (g_gates db) = Some h"
      by (rule row_find_member [OF release_invD(1) [OF inv] that(1)])
    moreover have "gt_id h = dq_gate_id q"
      using that(2) s(1) by (auto simp: s(5) sn dest: row_find_SomeD)
    ultimately have "h = g" using s(1) by simp
    then show ?thesis
      using that(3) s(3) snapshot_ok(2) [OF s(2)] readiness_not_stale
      by (fastforce simp: s(5) sn readiness_allows_def)
  qed
  have "stale_covered db'"
    unfolding stale_covered_def
  proof (intro ballI impI)
    fix h d'
    assume h: "h \<in> set (g_gates db')" "gt_status h = Gate_Stale" and d': "d' \<in> set (approvals_of db' h)"
    then have "d' \<in> set (approvals_of db h)" using fresh_ok by (auto simp: approvals_of_def s(7,8) split: if_split_asm)
    with h release_invD(6) [OF inv] have "stale_warned db h d'" by (auto simp: stale_covered_def s(8))
    then show "stale_warned db' h d'"
      using set_mono_prefix [OF s(10)] by (auto simp: stale_warned_def)
  qed
  moreover have "logged Decision_Signed_Event (map rd_id (g_decisions db) @ [i]) (g_lineage db')"
    by (rule logged_new [OF release_invD(10) [OF inv] s(11,12)]) (simp add: s(13))
  moreover have "rd_id d = i" by (simp add: s(5))
  ultimately show ?thesis
    using release_invD(1-5,7) [OF inv] auth s(6-9)
      logged_prefix [OF release_invD(8) [OF inv] pre] logged_prefix [OF release_invD(9) [OF inv] pre]
    by (simp add: release_inv_def)
qed

lemma inv_operate:
  assumes inv: "release_inv db" and c: "create_release_decision_action i op reason sg now fresh db = Inr db'"
  shows "release_inv db'"
proof -
  obtain d where "add_release_action (manual_action op reason sg now fresh (operational_status_of db d) d) db = Inr db'"
    using operate_steps [OF c] by blast
  note f = add_action_fields [OF this]
  have "stale_covered db'"
    by (rule stale_covered_same [OF release_invD(6) [OF inv]]) (auto simp: f)
  with inv show ?thesis by (simp add: release_inv_def f)
qed

section \<open>Runs\<close>

lemma of_pair_Inr: "of_pair p s = Inr t \<longleftrightarrow> (\<exists>a. p = (t, Inr a))"
  by (cases p) (auto simp: of_pair_def split: sum.splits)

lemma map_fst_Inr: "map_sum (\<lambda>e. e) fst r = Inr t \<longleftrightarrow> (\<exists>a. r = Inr (t, a))"
  by (cases r) auto

lemmas step_simps = of_pair_Inr map_fst_Inr

lemma step_inv:
  "release_inv db \<Longrightarrow> release_step env views c db = Inr db' \<Longrightarrow> release_inv db'"
proof (cases c)
  case (Evidence_Changes e)
  assume a: "release_inv db" "release_step env views c db = Inr db'"
  then have db': "db' = db\<lparr>g_evidence := e\<rparr>" by (simp add: Evidence_Changes)
  from a(1) show ?thesis
    unfolding db' by (simp add: release_inv_def stale_covered_def stale_warned_def approvals_of_def)
next
  case (Reconcile now)
  assume a: "release_inv db" "release_step env views c db = Inr db'"
  then show ?thesis
    using reconcile_spec [of env now db] inv_only_stales [OF a(1)] release_invD(6) [OF a(1)]
    by (auto simp: Reconcile step_simps)
qed (auto simp: step_simps intro: inv_create inv_promote inv_decide inv_operate)

lemma step_effect:
  "release_inv db \<Longrightarrow> release_step env views c db = Inr db' \<Longrightarrow> release_effect db db'"
proof (cases c)
  case (Evidence_Changes e)
  assume "release_step env views c db = Inr db'"
  then show ?thesis by (auto simp: Evidence_Changes release_effect_def effect_same_rows)
next
  case (Reconcile now)
  assume "release_step env views c db = Inr db'"
  then show ?thesis
    using reconcile_spec [of env now db] only_stales_effect by (auto simp: Reconcile step_simps)
qed (auto simp: step_simps intro: create_gate_effect promote_effect decide_effect operate_effect dest: release_invD(2))

lemma admissible_all: "admissible_run step (\<lambda>_ _. True) cs s"
  by (induction cs arbitrary: s) auto

interpretation release: guarded_system "release_step env views" "\<lambda>_ _. True" release_inv for env views
  by unfold_locales (rule step_inv)

interpretation action_log: audited_system "release_step env views" "\<lambda>_ _. True" release_inv g_actions for env views
  by unfold_locales (auto dest: step_effect simp: release_effect_def)

interpretation lineage_log: audited_system "release_step env views" "\<lambda>_ _. True" release_inv g_lineage for env views
  by unfold_locales (auto dest: step_effect simp: release_effect_def)

interpretation decision_records: audited_system "release_step env views" "\<lambda>_ _. True" release_inv g_decisions for env views
  by unfold_locales (auto dest: step_effect simp: release_effect_def)

definition gate_edge :: "gate_status \<Rightarrow> gate_status \<Rightarrow> bool" where
  "gate_edge a b \<longleftrightarrow> a = Gate_Completed \<and> b = Gate_Stale"

definition gate_state :: "uuid \<Rightarrow> gate_db \<Rightarrow> gate_status option" where
  "gate_state i db = map_option gt_status (gate_find i (g_gates db))"

definition baseline_edge :: "baseline_state \<Rightarrow> baseline_state \<Rightarrow> bool" where
  "baseline_edge a b \<longleftrightarrow> a = Base_Active \<and> b = Base_Superseded"

definition baseline_state :: "uuid \<Rightarrow> gate_db \<Rightarrow> baseline_state option" where
  "baseline_state i db = map_option bl_status (row_find bl_id i (g_baselines db))"

lemma gate_step_edge:
  assumes "release_inv db" and "release_step env views c db = Inr db'" and "gate_state i db = Some a"
  shows "\<exists>b. gate_state i db' = Some b \<and> gate_edge\<^sup>*\<^sup>* a b"
proof -
  obtain g where g: "gate_find i (g_gates db) = Some g" "a = gt_status g" using assms(3) by (auto simp: gate_state_def)
  have "extends gate_moves (g_gates db) (g_gates db')" using step_effect [OF assms(1,2)] by (simp add: release_effect_def)
  from extends_find [OF this _ g(1)] obtain g' where "gate_find i (g_gates db') = Some g'" "gate_moves g g'"
    by (auto simp: gate_moves_def)
  then show ?thesis using g(2)
    by (intro exI [of _ "gt_status g'"]) (auto simp: gate_state_def gate_moves_def gate_edge_def)
qed

lemma baseline_step_edge:
  assumes "release_inv db" and "release_step env views c db = Inr db'" and "baseline_state i db = Some a"
  shows "\<exists>b. baseline_state i db' = Some b \<and> baseline_edge\<^sup>*\<^sup>* a b"
proof -
  obtain x where x: "row_find bl_id i (g_baselines db) = Some x" "a = bl_status x"
    using assms(3) by (auto simp: baseline_state_def)
  have "extends baseline_moves (g_baselines db) (g_baselines db')"
    using step_effect [OF assms(1,2)] by (simp add: release_effect_def)
  from extends_find [OF this _ x(1)] obtain y where "row_find bl_id i (g_baselines db') = Some y" "baseline_moves x y"
    by (auto simp: baseline_moves_def)
  then show ?thesis using x(2)
    by (intro exI [of _ "bl_status y"]) (auto simp: baseline_state_def baseline_moves_def baseline_edge_def)
qed

interpretation gate_life: lifecycle "release_step env views" "\<lambda>_ _. True" release_inv gate_state gate_edge for env views
  by unfold_locales (rule gate_step_edge)

interpretation baseline_life: lifecycle "release_step env views" "\<lambda>_ _. True" release_inv baseline_state baseline_edge for env views
  by unfold_locales (rule baseline_step_edge)

section \<open>Properties of the release system\<close>

definition fresh_release_db :: "evidence_db \<Rightarrow> accept_policy list \<Rightarrow> policy_rule list \<Rightarrow> gate_db" where
  "fresh_release_db e ps rs =
     \<lparr>g_evidence = e, g_policies = ps, g_rules = rs, g_gates = [], g_rule_results = [], g_baselines = [],
      g_decisions = [], g_actions = [], g_lineage = []\<rparr>"

lemma fresh_inv: "release_inv (fresh_release_db e ps rs)"
  by (simp add: release_inv_def fresh_release_db_def stale_covered_def logged_def)

text \<open>
  C7. The release records are consistent in every reachable state: after any sequence of gate
  evaluations, promotions, reconciliations, signed decisions, operations and evidence writes, identifiers
  are unique, every scope has at most one active baseline, every baseline comes from an approved gate of
  its scope, every approval was signed at an allowed readiness by an authorised operator, every approval of
  a stale gate carries its stale warning, and every gate, baseline and decision is in the lineage.
\<close>
theorem release_records_consistent:
  "release_inv (run_commands (release_step env views) cs (fresh_release_db e ps rs))"
  by (rule release.run_inv [OF fresh_inv admissible_all])

lemma logged_actions_kept:
  assumes "release_inv db" and "a \<in> set (g_actions db)"
  shows "a \<in> set (g_actions (run_commands (release_step env views) cs db))"
  using action_log.run_log [OF assms(1) admissible_all] assms(2) set_mono_prefix by blast

lemma decision_kept:
  assumes "release_inv db" and "decision_find i (g_decisions db) = Some d"
  shows "decision_find i (g_decisions (run_commands (release_step env views) cs db)) = Some d"
proof -
  have "prefix (g_decisions db) (g_decisions (run_commands (release_step env views) cs db))"
    by (rule decision_records.run_log [OF assms(1) admissible_all])
  then show ?thesis using assms(2) by (auto simp: prefix_def row_find_append)
qed

lemma action_types: "k \<in> ra_type ` set (list_release_decision_actions i db) \<longleftrightarrow>
    (\<exists>a \<in> set (g_actions db). ra_decision_id a = i \<and> ra_type a = k)"
  by (auto simp: list_release_decision_actions_def)

text \<open>
  C8. An approval whose gate has gone stale never becomes active again: in every later state the signed
  record is the same, its stale warning is set, its status is needs review, revoked or replaced, a stale
  action of this gate is in the log, and no new approval of that gate can be signed.
\<close>
theorem stale_approval_never_active_again:
  assumes "release_inv db" and "decision_find i (g_decisions db) = Some d" and "rd_decision d = APPROVE_RELEASE"
    and "gate_state (rd_gate_id d) db = Some Gate_Stale"
  shows "let db' = run_commands (release_step env views) cs db in
     decision_find i (g_decisions db') = Some d \<and> stale_warning db' d \<and>
     operational_status_of db' d \<in> {Op_Needs_Review, Op_Revoked, Op_Replaced} \<and>
     ''stale:'' @ i @ '':'' @ rd_gate_id d \<in> ra_dedupe_key ` set (g_actions db') \<and>
     (dq_gate_id q = rd_gate_id d \<and> dq_decision q = APPROVE_RELEASE \<longrightarrow>
        (\<exists>e. create_release_decision env views trusted q now j db' = Inl e))"
proof -
  let ?db = "run_commands (release_step env views) cs db"
  have inv: "release_inv ?db" by (rule release.run_inv [OF assms(1) admissible_all])
  have stale: "gate_state (rd_gate_id d) ?db = Some Gate_Stale"
    by (rule gate_life.final_status [OF assms(1) admissible_all assms(4)]) (simp add: gate_edge_def)
  then obtain g where g: "gate_find (rd_gate_id d) (g_gates ?db) = Some g" "gt_status g = Gate_Stale"
    by (auto simp: gate_state_def)
  have d: "decision_find i (g_decisions ?db) = Some d" by (rule decision_kept [OF assms(1,2)])
  have warn: "stale_warning ?db d" using g by (simp add: stale_warning_def)
  have "d \<in> set (approvals_of ?db g)"
    using d g(1) assms(3) by (auto simp: approvals_of_def dest: row_find_SomeD)
  with release_invD(6) [OF inv] g have "stale_warned ?db g d"
    by (auto simp: stale_covered_def dest: row_find_SomeD)
  then have "''stale:'' @ i @ '':'' @ rd_gate_id d \<in> ra_dedupe_key ` set (g_actions ?db)"
    using d g(1) by (auto simp: stale_warned_def stale_dedupe_key_def dest!: row_find_SomeD)
  moreover have "operational_status_of ?db d \<in> {Op_Needs_Review, Op_Revoked, Op_Replaced}"
    using warn assms(3) by (simp add: operational_status_of_def Let_def)
  moreover have "\<exists>e. create_release_decision env views trusted q now j ?db = Inl e"
    if q: "dq_gate_id q = rd_gate_id d" "dq_decision q = APPROVE_RELEASE"
  proof (cases "create_release_decision env views trusted q now j ?db")
    case (Inr r)
    obtain db2 d2 where r: "r = (db2, d2)" by (cases r)
    from decide_steps [OF Inr [unfolded r]] obtain sn where
      sn: "build_release_readiness_snapshot env views now (Some (dq_gate_id q)) ?db = Inr sn"
      "readiness_allows (dq_decision q) (sn_status sn)" by blast
    have "sn_gate sn = g" using snapshot_ok(1) [OF sn(1)] g(1) q(1) by simp
    then have "sn_status sn = Blocked_Readiness"
      using snapshot_ok(2) [OF sn(1)] readiness_not_stale g(2) by metis
    then show ?thesis using sn(2) q(2) by (simp add: readiness_allows_def)
  qed simp
  ultimately show ?thesis using d warn by (simp add: Let_def)
qed

end
