(* ===== verification/Release_Properties.thy ===== *)
theory Release_Properties
  imports Release_System
begin

text \<open>
  Properties of single release operations, over the invariant and the contracts of \<open>Release_System\<close>:
  who may approve, when a gate is releasable, what a promotion and a replacement leave behind, and
  three places where the code does less than its documents say (a role taken from the request, evidence
  drift unseen by promotion, a review request lost within one second).
\<close>

section \<open>Authority and readiness\<close>

text \<open>
  C15. Approval authority: the guard of an approval passes exactly for a verified operator identity whose
  role, or, when the verified identity has no role, the role named in the request itself, is an approver
  role; a self-attested signer never passes.
\<close>
theorem release_authority_exactly:
  "(\<exists>ev. assert_release_decision APPROVE_RELEASE (build_signer_identity trusted q) = Inr ev) \<longleftrightarrow>
     (\<exists>t. trusted = Some t \<and> identity_verified t \<and>
        role_key (if text_set (role t) then role t else normalized_text (dq_signer_role q))
          \<in> Some ` set (allowed_role_keys APPROVER_ROLES))"
proof -
  have guard: "ev_reasons (evaluate_release_policy APPROVE_RELEASE sg) = [] \<longleftrightarrow>
      identity_verified sg \<and> role_key (role sg) \<in> Some ` set (allowed_role_keys APPROVER_ROLES)" for sg
    by (auto simp: evaluate_release_policy_def Let_def split: option.splits)
  show ?thesis
    unfolding release_auth.guard_iff guard
    by (cases trusted) (auto simp: build_signer_identity_def Let_def)
qed

definition releasable :: "gate \<Rightarrow> nat \<Rightarrow> nat \<Rightarrow> trust_summary \<Rightarrow> bool" where
  "releasable g needs_review risk_rows trust \<longleftrightarrow>
     gt_status g \<noteq> Gate_Stale \<and> gt_verdict g = Approved \<and>
     ts_status trust \<in> {Local_Demo_Ready, Production_Evidence_Ready} \<and> needs_review = 0 \<and> risk_rows = 0"

lemma trust_split: "ts_status t \<in> {Local_Demo_Ready, Production_Evidence_Ready} \<longleftrightarrow>
    ts_status t \<noteq> Synthetic_Only \<and> ts_status t \<noteq> Needs_Judge_Review \<and> ts_status t \<noteq> Trust_Unknown"
  by (cases "ts_status t") auto

text \<open>
  Release readiness: a gate is ready (or ready to promote) exactly when it is releasable (not stale,
  approved, with trusted non-synthetic evidence, and no review rows or prompt risks open) and is (or is not)
  the active baseline; it is production ready exactly when it is ready on production evidence.
\<close>
theorem release_ready_exactly:
  "let st = fst (readiness_status_of g is_active needs_review risk_rows trust) in
     (st = Ready \<longleftrightarrow> releasable g needs_review risk_rows trust \<and> is_active) \<and>
     (st = Ready_To_Promote \<longleftrightarrow> releasable g needs_review risk_rows trust \<and> \<not> is_active) \<and>
     (production_readiness_of st is_active needs_review risk_rows trust = Production_Ready \<longleftrightarrow>
        releasable g needs_review risk_rows trust \<and> is_active \<and> ts_status trust = Production_Evidence_Ready)"
proof -
  have verdict: "gt_verdict g = Approved \<longleftrightarrow>
      gt_verdict g \<noteq> Insufficient \<and> gt_verdict g \<noteq> Gate_Blocked \<and> gt_verdict g \<noteq> Conditional"
    by (cases "gt_verdict g") auto
  have st: "fst (readiness_status_of g is_active needs_review risk_rows trust) =
      (if gt_status g = Gate_Stale then Blocked_Readiness
       else if gt_verdict g = Insufficient then Insufficient_Readiness
       else if ts_status trust = Synthetic_Only then Insufficient_Readiness
       else if gt_verdict g = Gate_Blocked then Blocked_Readiness
       else if gt_verdict g = Conditional \<or> ts_status trust = Needs_Judge_Review \<or> ts_status trust = Trust_Unknown
            \<or> needs_review \<noteq> 0 \<or> risk_rows \<noteq> 0 then Needs_Review
       else if is_active then Ready else Ready_To_Promote)"
    by (simp add: readiness_status_of_def Let_def)
  show ?thesis
    unfolding Let_def production_readiness_of_def st releasable_def trust_split verdict by auto
qed

section \<open>Promotion\<close>

lemma distinct_single: "distinct (map f (filter (\<lambda>x. f x = c) xs)) \<Longrightarrow> length (filter (\<lambda>x. f x = c) xs) \<le> 1"
proof (induction xs)
  case (Cons x xs)
  show ?case
  proof (cases "f x = c")
    case True
    with Cons.prems have "filter (\<lambda>x. f x = c) xs = []" by (auto simp: filter_empty_conv image_iff)
    then show ?thesis by simp
  next
    case False
    with Cons show ?thesis by simp
  qed
qed simp

lemma active_in_scope_unique:
  assumes "release_inv db" and "b \<in> set (g_baselines db)" and "active_baseline b" and "bl_scope b = (c, s, p)"
  shows "active_baselines_for_scope db c s p = [b]"
proof -
  let ?bs = "filter (\<lambda>b. baseline_in_scope c s p b \<and> bl_status b = Base_Active) (g_baselines db)"
  have eq: "?bs = filter (\<lambda>b. bl_scope b = (c, s, p)) (filter active_baseline (g_baselines db))"
    by (auto simp: filter_filter baseline_in_scope_def bl_scope_def active_baseline_def intro!: filter_cong)
  have d: "distinct (map bl_scope ?bs)"
    unfolding eq by (rule distinct_map_filter) (rule release_invD(4) [OF assms(1)])
  have b: "b \<in> set ?bs" using assms(2-4) unfolding eq by simp
  have "length ?bs \<le> 1" using d unfolding eq by (rule distinct_single)
  with b have "?bs = [b]" by (cases ?bs) auto
  then show ?thesis by (simp add: active_baselines_for_scope_def)
qed

text \<open>
  C14. A promotion takes effect: afterwards the promoted, approved gate is the one the scope's later
  evaluations are compared against, the new baseline is the only active one of its scope, and the active
  baselines of other scopes are untouched.
\<close>
theorem promotion_takes_effect:
  assumes "release_inv db" and "promote_gate_evaluation_as_baseline env q now i db = Inr (db', b)"
  shows "\<exists>g. gate_find (pq_gate_id q) (g_gates db) = Some g \<and> gt_verdict g = Approved \<and> gt_status g = Gate_Completed \<and>
           get_active_baseline_gate db' (gt_config_id g) (gt_suite_id g) (gt_policy_id g) = Some g \<and>
           active_baselines_for_scope db' (gt_config_id g) (gt_suite_id g) (gt_policy_id g) = [b] \<and>
           filter (\<lambda>p. active_baseline p \<and> bl_scope p \<noteq> gt_scope g) (g_baselines db')
             = filter (\<lambda>p. active_baseline p \<and> bl_scope p \<noteq> gt_scope g) (g_baselines db)"
proof -
  obtain g where p: "gate_find (pq_gate_id q) (g_gates db) = Some g" "gt_status g = Gate_Completed" "gt_verdict g = Approved"
    "bl_gate_id b = gt_id g" "bl_status b = Base_Active"
    "baseline_in_scope (gt_config_id g) (gt_suite_id g) (gt_policy_id g) b"
    "g_baselines db' = map (superseded_for g i now) (g_baselines db) @ [b]" "g_gates db' = g_gates db"
    using promote_steps [OF assms(2) release_invD(2) [OF assms(1)]] by blast
  have inv: "release_inv db'" by (rule inv_promote [OF assms])
  have only: "active_baselines_for_scope db' (gt_config_id g) (gt_suite_id g) (gt_policy_id g) = [b]"
    by (rule active_in_scope_unique [OF inv])
      (use p in \<open>auto simp: active_baseline_def baseline_in_scope_def bl_scope_def\<close>)
  have "gate_find (gt_id g) (g_gates db) = Some g"
    using row_find_member [OF release_invD(1) [OF assms(1)]] p(1) by (blast dest: row_find_SomeD)
  then have "get_active_baseline_gate db' (gt_config_id g) (gt_suite_id g) (gt_policy_id g) = Some g"
    by (simp add: get_active_baseline_gate_def only p(4,8))
  moreover have "filter (\<lambda>p. active_baseline p \<and> bl_scope p \<noteq> gt_scope g) (map (superseded_for g i now) bs)
      = filter (\<lambda>p. active_baseline p \<and> bl_scope p \<noteq> gt_scope g) bs" for bs
    by (induction bs) (auto simp: superseded_for_def in_scope_iff supersede_baseline_def bl_scope_def active_baseline_def)
  ultimately show ?thesis
    using p only by (intro exI [of _ g]) (simp add: in_scope_iff)
qed

text \<open>
  Promotion does not look at the evidence: whatever evidence is written after a gate completed, as
  long as no reconciliation has marked the gate, it is promoted exactly as before, with the same baseline
  row; the check of a promotion is the stored status alone.
\<close>
theorem promotion_ignores_evidence_drift:
  "map_sum (\<lambda>e. e) snd (promote_gate_evaluation_as_baseline env q now i (db\<lparr>g_evidence := e\<rparr>))
     = map_sum (\<lambda>e. e) snd (promote_gate_evaluation_as_baseline env q now i db)"
  by (cases "gate_find (pq_gate_id q) (g_gates db)")
    (simp_all add: promote_gate_evaluation_as_baseline_def Let_def)

section \<open>Replacement and review\<close>

lemma replaced_iff: "operational_status_of db d = Op_Replaced \<longleftrightarrow>
    (\<exists>a \<in> set (g_actions db). ra_decision_id a = rd_id d \<and> ra_type a = Replaced)"
proof -
  have "Replaced \<in> ra_type ` set (list_release_decision_actions (rd_id d) db) \<longleftrightarrow> operational_status_of db d = Op_Replaced"
    by (simp add: operational_status_of_def Let_def)
  then show ?thesis unfolding action_types by blast
qed

text \<open>
  C20. Replacement is final: once a signed decision has been replaced it stays replaced in every later
  state, every operation on it is refused, and no other decision can replace it again.
\<close>
theorem replaced_decision_is_final:
  assumes "release_inv db" and "decision_find i (g_decisions db) = Some d"
    and "operational_status_of db d = Op_Replaced"
  shows "let db' = run_commands (release_step env views) cs db in
     decision_find i (g_decisions db') = Some d \<and> operational_status_of db' d = Op_Replaced \<and>
     (\<exists>e. create_release_decision_action i op reason sg now fresh db' = Inl e) \<and>
     (dq_replaces q = Some i \<longrightarrow> (\<exists>e. create_release_decision env views trusted q now j db' = Inl e))"
proof -
  let ?db = "run_commands (release_step env views) cs db"
  have d: "decision_find i (g_decisions ?db) = Some d" by (rule decision_kept [OF assms(1,2)])
  have r: "operational_status_of ?db d = Op_Replaced"
    using assms(3) logged_actions_kept [OF assms(1)] unfolding replaced_iff by blast
  have "\<exists>e. create_release_decision_action i op reason sg now fresh ?db = Inl e"
  proof (cases "create_release_decision_action i op reason sg now fresh ?db")
    case (Inr db2)
    from operate_steps [OF Inr] d r show ?thesis by auto
  qed simp
  moreover have "\<exists>e. create_release_decision env views trusted q now j ?db = Inl e" if "dq_replaces q = Some i"
  proof (cases "create_release_decision env views trusted q now j ?db")
    case (Inr x)
    obtain db2 d2 where "x = (db2, d2)" by (cases x)
    with Inr decide_steps obtain g replaced where
      "validated_replaced_decision ?db (dq_replaces q) g = Inr replaced" by blast
    then show ?thesis using that d r by (auto simp: validated_replaced_decision_def split: if_split_asm)
  qed simp
  ultimately show ?thesis using d r by (simp add: Let_def)
qed

lemma le_foldr_max: "(t::instant) \<le> foldr max ts t0 \<longleftrightarrow> t \<le> t0 \<or> (\<exists>x \<in> set ts. t \<le> x)"
  by (induction ts) (auto simp: le_max_iff_disj)

lemma latest_ge:
  "(case latest_of k acts of None \<Rightarrow> False | Some a \<Rightarrow> t \<le> a) \<longleftrightarrow> (\<exists>a \<in> set acts. ra_type a = k \<and> t \<le> ra_occurred_at a)"
proof (cases "map ra_occurred_at (filter (\<lambda>a. ra_type a = k) acts)")
  case Nil
  then show ?thesis by (auto simp: latest_of_def filter_empty_conv)
next
  case (Cons x xs)
  have "(\<exists>a \<in> set acts. ra_type a = k \<and> t \<le> ra_occurred_at a) \<longleftrightarrow> (\<exists>y \<in> set (x # xs). t \<le> y)"
    unfolding Cons [symmetric] by auto
  then show ?thesis by (simp add: latest_of_def Cons le_foldr_max)
qed

lemma unresolved_iff:
  "unresolved_review acts \<longleftrightarrow>
     (\<exists>r \<in> set acts. ra_type r = Review_Requested \<and>
        \<not> (\<exists>a \<in> set acts. ra_type a = Acknowledged \<and> ra_occurred_at r \<le> ra_occurred_at a))"
proof -
  have less: "(\<exists>r \<in> set acts. ra_type r = Review_Requested \<and> P (ra_occurred_at r)) \<longleftrightarrow> P t"
    if t: "latest_of Review_Requested acts = Some t" and anti: "\<And>x y. P x \<Longrightarrow> x \<le> y \<Longrightarrow> P y" for P t
  proof
    assume "\<exists>r \<in> set acts. ra_type r = Review_Requested \<and> P (ra_occurred_at r)"
    then obtain r where r: "r \<in> set acts" "ra_type r = Review_Requested" "P (ra_occurred_at r)" by blast
    then have "ra_occurred_at r \<le> t" using latest_ge [where k = Review_Requested and acts = acts and t = "ra_occurred_at r"] t by auto
    with r(3) anti show "P t" by blast
  next
    assume "P t"
    obtain r where "r \<in> set acts" "ra_type r = Review_Requested" "t \<le> ra_occurred_at r"
      using latest_ge [where k = Review_Requested and acts = acts and t = t] t by auto
    with \<open>P t\<close> anti show "\<exists>r \<in> set acts. ra_type r = Review_Requested \<and> P (ra_occurred_at r)" by blast
  qed
  show ?thesis
  proof (cases "latest_of Review_Requested acts")
    case None
    then have "\<not> (\<exists>r \<in> set acts. ra_type r = Review_Requested)"
      by (auto simp: latest_of_def filter_empty_conv split: list.splits)
    with None show ?thesis by (auto simp: unresolved_review_def)
  next
    case (Some t)
    have "unresolved_review acts \<longleftrightarrow> \<not> (case latest_of Acknowledged acts of None \<Rightarrow> False | Some a \<Rightarrow> t \<le> a)"
      by (auto simp: unresolved_review_def Some split: option.splits)
    also have "\<dots> \<longleftrightarrow> \<not> (\<exists>a \<in> set acts. ra_type a = Acknowledged \<and> t \<le> ra_occurred_at a)"
      unfolding latest_ge ..
    also have "\<dots> \<longleftrightarrow> (\<exists>r \<in> set acts. ra_type r = Review_Requested \<and>
        \<not> (\<exists>a \<in> set acts. ra_type a = Acknowledged \<and> ra_occurred_at r \<le> ra_occurred_at a))"
      by (rule less [OF Some, symmetric]) (meson order_trans)
    finally show ?thesis .
  qed
qed

text \<open>
  A review request can be lost: a request made no later than the last acknowledgement (the clock is
  cut to whole seconds, so the same second is enough) is logged but leaves the status as it was, active
  included.
\<close>
theorem review_request_in_acknowledged_second_is_lost:
  assumes "create_release_decision_action i Request_Review reason sg now fresh db = Inr db'"
    and "decision_find i (g_decisions db) = Some d"
    and "a \<in> set (g_actions db)" and "ra_decision_id a = i" and "ra_type a = Acknowledged" and "now \<le> ra_occurred_at a"
  shows "operational_status_of db' d = operational_status_of db d \<and> length (g_actions db') = Suc (length (g_actions db))"
proof -
  have i: "rd_id d = i" using assms(2) by (blast dest: row_find_SomeD)
  obtain x where x: "g_actions db' = g_actions db @ [x]" "ra_type x = Review_Requested" "ra_decision_id x = i"
    "ra_occurred_at x = now" "g_gates db' = g_gates db"
    using operate_steps [OF assms(1)] assms(2) i add_action_fields by (fastforce simp: manual_action_def)
  let ?old = "list_release_decision_actions i db" and ?new = "list_release_decision_actions i db'"
  have set: "set ?new = insert x (set ?old)" using x(1,3) by (auto simp: list_release_decision_actions_def)
  have ack: "a \<in> set ?old" using assms(3,4) by (simp add: list_release_decision_actions_def)
  have "unresolved_review ?new \<longleftrightarrow> unresolved_review ?old"
    unfolding unresolved_iff set using x(2,4) ack assms(5,6) by auto
  moreover have "k \<in> ra_type ` set ?new \<longleftrightarrow> k \<in> ra_type ` set ?old" if "k \<noteq> Review_Requested" for k
    using that x(2) by (auto simp: set)
  ultimately show ?thesis
    using x(1,5) by (simp add: operational_status_of_def Let_def stale_warning_def i)
qed

section \<open>A concrete release\<close>

definition demo_gate :: "gate_status \<Rightarrow> gate" where
  "demo_gate st =
     \<lparr>gt_id = ''g1'', gt_config_id = ''config'', gt_suite_id = ''suite'', gt_policy_id = ''policy'',
      gt_baseline_gate_id = None, gt_status = st, gt_verdict = Approved, gt_snapshot = JObj [],
      gt_scorecard = JObj [], gt_summary = ''APPROVED'', gt_decision_hash = ''h'', gt_revision_hash = Some ''r'',
      gt_stale_at = None, gt_stale_reason = None, gt_superseded_by = None, gt_evaluated_at = 0\<rparr>"

definition demo_signer :: signer_identity where
  "demo_signer =
     \<lparr>subject_id = ''op'', display_name = ''Operator'', role = Some ''Admin'', identity_provider = ''idp'',
      auth_source = ''jwt'', identity_verified = True, ticket_reference = None\<rparr>"

definition demo_decision :: release_decision where
  "demo_decision =
     \<lparr>rd_id = ''d1'', rd_gate_id = ''g1'', rd_config_id = ''config'', rd_suite_id = ''suite'', rd_policy_id = ''policy'',
      rd_decision = APPROVE_RELEASE, rd_readiness = Ready, rd_decided_at = 1, rd_decided_by = ''Operator'',
      rd_signer = identity_to_json demo_signer, rd_identity_verified = True, rd_signature_hash = ''s'',
      rd_signature_statement = ''ok'', rd_approval_policy = JNull, rd_reason = ''ok'', rd_notes = None,
      rd_snapshot_hash = ''h'', rd_snapshot = JNull, rd_decision_hash = ''h'', rd_replaces = None\<rparr>"

definition demo_action :: "action_kind \<Rightarrow> string \<Rightarrow> instant \<Rightarrow> release_action" where
  "demo_action k key t =
     \<lparr>ra_decision_id = ''d1'', ra_type = k, ra_dedupe_key = key, ra_actor = JNull, ra_reason = ''r'',
      ra_source_gate_id = Some ''g1'', ra_replacement_id = None, ra_metadata = JNull, ra_occurred_at = t\<rparr>"

definition demo_release :: "gate_status \<Rightarrow> release_action list \<Rightarrow> gate_db" where
  "demo_release st acts =
     (let db = fresh_release_db (demo_evidence 1) [demo_policy] [demo_rule] in
      db\<lparr>g_gates := [demo_gate st], g_decisions := [demo_decision], g_actions := acts,
         g_lineage := [gate_event db (demo_gate st), decision_event db demo_decision]\<rparr>)"

lemma demo_release_simps [simp]:
  "g_gates (demo_release st acts) = [demo_gate st]" "g_decisions (demo_release st acts) = [demo_decision]"
  "g_actions (demo_release st acts) = acts" "g_baselines (demo_release st acts) = []"
  "gt_status (demo_gate st) = st" "gt_id (demo_gate st) = ''g1''" "gt_verdict (demo_gate st) = Approved"
  "rd_id demo_decision = ''d1''" "rd_gate_id demo_decision = ''g1''" "rd_decision demo_decision = APPROVE_RELEASE"
  "ra_decision_id (demo_action k key t) = ''d1''" "ra_type (demo_action k key t) = k"
  "ra_dedupe_key (demo_action k key t) = key" "ra_occurred_at (demo_action k key t) = t"
  by (simp_all add: demo_release_def Let_def fresh_release_db_def demo_gate_def demo_decision_def demo_action_def)

lemma demo_authorised: "decision_authorised demo_decision"
proof -
  have "ev_reasons (evaluate_release_policy APPROVE_RELEASE demo_signer) = []" by code_simp
  then show ?thesis
    by (auto simp: decision_authorised_def readiness_allows_def demo_decision_def demo_signer_def intro!: exI [of _ demo_signer])
qed

lemma demo_release_inv:
  assumes "st = Gate_Stale \<longrightarrow> ''stale:d1:g1'' \<in> ra_dedupe_key ` set acts"
  shows "release_inv (demo_release st acts)"
proof -
  have "stale_covered (demo_release st acts)"
    using assms by (auto simp: stale_covered_def approvals_of_def stale_warned_def stale_dedupe_key_def)
  moreover have "logged Gate_Completed_Event [''g1''] (g_lineage (demo_release st acts))"
      "logged Decision_Signed_Event [''d1''] (g_lineage (demo_release st acts))"
    by (simp_all add: logged_def demo_release_def Let_def gate_event_def decision_event_def)
  moreover have "logged Baseline_Promoted_Event [] (g_lineage (demo_release st acts))" by (simp add: logged_def)
  ultimately show ?thesis by (simp add: release_inv_def demo_authorised)
qed

theorem stale_approval_witness:
  "\<forall>views. let db' = run_commands (release_step demo_env views) [Reconcile 9]
       (demo_release Gate_Stale [demo_action Stale_Detected ''stale:d1:g1'' 5]) in
     stale_warning db' demo_decision \<and> operational_status_of db' demo_decision \<in> {Op_Needs_Review, Op_Revoked, Op_Replaced}"
  (is "\<forall>views. ?concl views")
proof
  fix views :: "gate \<Rightarrow> readiness_views"
  have "release_inv (demo_release Gate_Stale [demo_action Stale_Detected ''stale:d1:g1'' 5])"
    by (rule demo_release_inv) simp
  from stale_approval_never_active_again [OF this, of "''d1''" demo_decision demo_env views "[Reconcile 9]"]
  show "?concl views" by (simp add: row_find_def gate_state_def Let_def)
qed

theorem replaced_witness:
  "\<forall>views. let db' = run_commands (release_step demo_env views) [Reconcile 9]
       (demo_release Gate_Completed [demo_action Replaced ''replacement:d1:d2'' 5]) in
     operational_status_of db' demo_decision = Op_Replaced \<and>
     (\<exists>e. create_release_decision_action ''d1'' Revoke ''late'' demo_signer 10 ''u'' db' = Inl e)"
  (is "\<forall>views. ?concl views")
proof
  fix views :: "gate \<Rightarrow> readiness_views"
  have inv: "release_inv (demo_release Gate_Completed [demo_action Replaced ''replacement:d1:d2'' 5])"
    by (rule demo_release_inv) simp
  have find: "decision_find ''d1'' (g_decisions (demo_release Gate_Completed [demo_action Replaced ''replacement:d1:d2'' 5]))
      = Some demo_decision" by (simp add: row_find_def)
  have "operational_status_of (demo_release Gate_Completed [demo_action Replaced ''replacement:d1:d2'' 5]) demo_decision = Op_Replaced"
    by (simp add: replaced_iff)
  from replaced_decision_is_final [OF inv find this, of demo_env views "[Reconcile 9]"]
  show "?concl views" by (simp add: Let_def)
qed

theorem review_lost_witness:
  "\<exists>db'. create_release_decision_action ''d1'' Request_Review ''look again'' demo_signer 7 ''u''
          (demo_release Gate_Completed [demo_action Review_Requested ''k1'' 7, demo_action Acknowledged ''k2'' 7]) = Inr db' \<and>
     operational_status_of db' demo_decision = Op_Active"
proof -
  let ?db = "demo_release Gate_Completed [demo_action Review_Requested ''k1'' 7, demo_action Acknowledged ''k2'' 7]"
  have find: "decision_find ''d1'' (g_decisions ?db) = Some demo_decision" by (simp add: row_find_def)
  have active: "operational_status_of ?db demo_decision = Op_Active"
    by (simp add: operational_status_of_def Let_def stale_warning_def list_release_decision_actions_def unresolved_iff row_find_def)
  have auth: "assert_release_operation (operation_kind Request_Review) demo_signer = Inr ()" by code_simp
  have strip: "strip ''look again'' \<noteq> []" by code_simp
  have "\<exists>db'. create_release_decision_action ''d1'' Request_Review ''look again'' demo_signer 7 ''u'' ?db = Inr db'"
    unfolding create_release_decision_action_def find option.case auth bind_res_Inr active
    using strip by (simp add: manual_action_def add_release_action_def Let_def)
  then obtain db' where c: "create_release_decision_action ''d1'' Request_Review ''look again'' demo_signer 7 ''u'' ?db = Inr db'" by blast
  from review_request_in_acknowledged_second_is_lost [OF c find, of "demo_action Acknowledged ''k2'' 7"] active c
  show ?thesis by auto
qed

definition demo_promotion :: promotion_request where
  "demo_promotion = \<lparr>pq_gate_id = ''g1'', pq_promoted_by = Some ''op'', pq_reason = None, pq_notes = None\<rparr>"

theorem promotion_witness:
  "\<exists>db' b. promote_gate_evaluation_as_baseline demo_env demo_promotion 3 ''b1'' (demo_release Gate_Completed []) = Inr (db', b) \<and>
     get_active_baseline_gate db' ''config'' ''suite'' ''policy'' = Some (demo_gate Gate_Completed)"
proof -
  have inv: "release_inv (demo_release Gate_Completed [])" by (rule demo_release_inv) simp
  have "gate_find (pq_gate_id demo_promotion) (g_gates (demo_release Gate_Completed [])) = Some (demo_gate Gate_Completed)"
    by (simp add: row_find_def demo_promotion_def)
  then have "\<exists>db' b. promote_gate_evaluation_as_baseline demo_env demo_promotion 3 ''b1'' (demo_release Gate_Completed []) = Inr (db', b)"
    by (simp add: promote_gate_evaluation_as_baseline_def Let_def)
  then obtain db' b where
    c: "promote_gate_evaluation_as_baseline demo_env demo_promotion 3 ''b1'' (demo_release Gate_Completed []) = Inr (db', b)" by blast
  from promotion_takes_effect [OF inv c] c show ?thesis
    by (auto simp: row_find_def demo_promotion_def demo_gate_def)
qed

end
