(* ===== verification/Agent_Control.thy ===== *)
theory Agent_Control
  imports Gate_Metrics Deployment_Gate Release_Readiness
begin

text \<open>
  The Agent control plane, \<^verbatim>\<open>services/agent_control_plane.py\<close>: human approval checkpoints of Agent
  executions. An execution that reaches a checkpoint without a decision halts; the checkpoint is stored
  (\<open>materialize_pending_agent_checkpoints\<close>), decided, revoked or expires, and a resumed execution is
  stored as a new revision of the benchmark result, which makes the gates of the scope stale.

  Parameters: \<open>ct_prepare\<close> is \<^verbatim>\<open>prepare_agent_execution\<close> on the decisions, \<open>ct_execute\<close> the
  execution and scoring of the prepared plan (\<^verbatim>\<open>attach_agent_execution\<close> and \<^verbatim>\<open>score_case_result\<close>, with the
  callbacks of the run configuration); \<open>fresh\<close> gives the identifier drawn for the record of a
  checkpoint. The rows leave out the columns a revision only copies from its parent and nothing here
  reads (hardware, artifact, task, seed), and the log levels an execution returns are among those the log
  table admits. The listing of checkpoints leaves order, limit and offset to the database. A command answers the committed database and its result: an
  expired checkpoint is written back although the command then raises.
\<close>

section \<open>Rows\<close>

datatype checkpoint_status =
    Cp_Pending | Cp_Approved | Cp_Denied | Cp_Revoked | Cp_Expired | Cp_Resumed

fun checkpoint_status_value :: "checkpoint_status \<Rightarrow> string" where
  "checkpoint_status_value Cp_Pending = ''pending''"
| "checkpoint_status_value Cp_Approved = ''approved''"
| "checkpoint_status_value Cp_Denied = ''denied''"
| "checkpoint_status_value Cp_Revoked = ''revoked''"
| "checkpoint_status_value Cp_Expired = ''expired''"
| "checkpoint_status_value Cp_Resumed = ''resumed''"

datatype checkpoint_verdict = Verdict_Approved | Verdict_Denied

fun verdict_value :: "checkpoint_verdict \<Rightarrow> string" where
  "verdict_value Verdict_Approved = ''approved''"
| "verdict_value Verdict_Denied = ''denied''"

fun verdict_status :: "checkpoint_verdict \<Rightarrow> checkpoint_status" where
  "verdict_status Verdict_Approved = Cp_Approved"
| "verdict_status Verdict_Denied = Cp_Denied"

record checkpoint =
  cp_id :: uuid
  cp_run_id :: uuid
  cp_result_id :: uuid
  cp_checkpoint_id :: string
  cp_status :: checkpoint_status
  cp_requester :: string
  cp_requested_by :: json
  cp_request :: json
  cp_policy :: json
  cp_request_hash :: string
  cp_expires_at :: instant
  cp_decision :: "checkpoint_verdict option"
  cp_reason :: "string option"
  cp_decided_at :: "instant option"
  cp_approver :: json
  cp_identity_verified :: bool
  cp_decision_hash :: "string option"
  cp_revoked_at :: "instant option"
  cp_revocation_reason :: "string option"
  cp_revoked_by :: json
  cp_revocation_hash :: "string option"
  cp_resumed_at :: "instant option"
  cp_resumed_by :: json
  cp_resume_hash :: "string option"
  cp_transition_run :: "uuid option"
  cp_transition_result :: "uuid option"
  cp_version :: int

record execution_log =
  lg_run_id :: uuid
  lg_event :: string
  lg_level :: string
  lg_message :: string
  lg_payload :: json
  lg_occurred_at :: instant
  lg_data_source :: string

record control_db =
  cn_gates :: gate_db
  cn_checkpoints :: "checkpoint list"
  cn_logs :: "execution_log list"

text \<open>\<^verbatim>\<open>AdapterCaseResult\<close>: what an execution of a case returns.\<close>

record case_result =
  cr_raw_output :: string
  cr_normalized_output :: string
  cr_quality :: "rat option"
  cr_exact_match :: "bool option"
  cr_json_valid :: bool
  cr_tool_call_valid :: bool
  cr_groundedness :: "rat option"
  cr_faithfulness :: "rat option"
  cr_human_label :: "string option"
  cr_error_type :: "string option"
  cr_ttft_ms :: rat
  cr_latency_ms :: rat
  cr_prompt_tokens :: int
  cr_completion_tokens :: int
  cr_tokens_per_second :: rat
  cr_vram_mb :: "rat option"
  cr_gpu_util :: "rat option"
  cr_cpu_util :: "rat option"
  cr_peak_memory_mb :: "rat option"
  cr_oom :: bool
  cr_retry_count :: int
  cr_logs :: "json list"
  cr_metadata :: json

record control_env =
  ct_gate :: gate_env
  ct_prepare :: "dep_config \<Rightarrow> eval_case \<Rightarrow> json \<Rightarrow> json option"
  ct_execute :: "eval_case \<Rightarrow> json \<Rightarrow> json \<Rightarrow> case_result \<Rightarrow> case_result"

datatype control_error =
    Checkpoint_Not_Found
  | Checkpoint_Has_Expired
  | Version_Conflict int int
  | Wrong_Checkpoint_Status checkpoint_status
  | Checkpoint_Policy policy_error
  | Blocked_By string checkpoint_status
  | Result_Without_Case
  | Needs_Case_And_Configuration
  | Not_An_Agent_Case
  | Needs_Metric
  | No_Trace
  | Revision_Link_Missing
  | Duplicate_Checkpoint
  | Staleness_Error gate_error
  | Control_Python_Error

section \<open>Helpers\<close>

definition AGENT_APPROVAL_REQUEST_VERSION :: string where
  "AGENT_APPROVAL_REQUEST_VERSION = ''agent-approval-request-v1''"

definition AGENT_CONTROL_LINK_VERSION :: string where
  "AGENT_CONTROL_LINK_VERSION = ''agent-control-plane-link-v2''"

definition AGENT_RESUME_EVENT_VERSION :: string where
  "AGENT_RESUME_EVENT_VERSION = ''agent-resume-event-v2''"

definition AGENT_EVIDENCE_REVISION_VERSION :: string where
  "AGENT_EVIDENCE_REVISION_VERSION = ''agent-evidence-revision-v1''"

text \<open>\<^verbatim>\<open>_hash_payload\<close> writes the same canonical text as \<open>stable_hash\<close> on ASCII text.\<close>

definition hash_payload :: "control_env \<Rightarrow> json \<Rightarrow> string" where
  "hash_payload env j = stable_hash (env_sha (ct_gate env)) j"

definition control_link :: "json \<Rightarrow> json" where
  "control_link metadata = as_dict (jget metadata ''agent_control_plane'')"

text \<open>The lists this code itself stores or reads; anything else counts as empty.\<close>

definition list_items :: "json \<Rightarrow> json list" where
  "list_items j = (case j of JArr xs \<Rightarrow> xs | _ \<Rightarrow> [])"

definition requester_from_json :: "json \<Rightarrow> signer_identity" where
  "requester_from_json p =
     \<lparr>subject_id = str_or (jget p ''subject_id'') ''unknown-requester'',
      display_name = str_or (jget p ''display_name'') ''Unknown requester'',
      role = str_or_none (jget p ''role''),
      identity_provider = str_or (jget p ''identity_provider'') ''unknown'',
      auth_source = str_or (jget p ''auth_source'') ''unknown'',
      identity_verified = truthy (jget p ''identity_verified''),
      ticket_reference = str_or_none (jget p ''ticket_reference'')\<rparr>"

fun operation_value :: "checkpoint_operation \<Rightarrow> string" where
  "operation_value Op_Decide = ''decide''"
| "operation_value Op_Revoke = ''revoke''"
| "operation_value Op_Resume = ''resume''"

definition checkpoint_reason_text :: "checkpoint_operation \<Rightarrow> policy_reason \<Rightarrow> string" where
  "checkpoint_reason_text operation r =
     (case r of
        Requires_Verified_Identity \<Rightarrow>
          ''Agent checkpoint '' @ operation_value operation @ '' requires verified operator identity.''
      | Requires_Role rs \<Rightarrow>
          ''Agent checkpoint '' @ operation_value operation @ '' requires one of these roles: ''
          @ join '', '' rs @ ''.''
      | Requires_Other_Operator \<Rightarrow>
          ''Agent checkpoint decision requires a different operator from the requester.'')"

definition checkpoint_evaluation_json ::
  "checkpoint_policy \<Rightarrow> checkpoint_operation \<Rightarrow> string \<Rightarrow> policy_evaluation \<Rightarrow> json" where
  "checkpoint_evaluation_json p operation requester ev = JObj
     [(''policy_version'', JStr (cpol_version p)),
      (''checkpoint_id'', JStr (cpol_checkpoint_id p)),
      (''operation'', JStr (operation_value operation)),
      (''allowed'', JBool (ev_allowed ev)),
      (''allowed_roles'', JArr (map JStr (ev_allowed_roles ev))),
      (''signer_role'', opt_json JStr (ev_signer_role ev)),
      (''identity_verified'', JBool (ev_identity_verified ev)),
      (''separation_of_duties'', JBool (cpol_separation_of_duties p)),
      (''requester_subject_id'', JStr requester),
      (''signer_subject_id'', JStr (ev_signer_subject_id ev)),
      (''reasons'', JArr (map (\<lambda>r. JStr (checkpoint_reason_text operation r)) (ev_reasons ev)))]"

definition add_log ::
  "bench_result \<Rightarrow> string \<Rightarrow> string \<Rightarrow> string \<Rightarrow> json \<Rightarrow> instant \<Rightarrow> control_db \<Rightarrow> control_db" where
  "add_log r event level message payload now db = db\<lparr>cn_logs := cn_logs db @
     [\<lparr>lg_run_id = br_run_id r, lg_event = event, lg_level = level, lg_message = message,
       lg_payload = payload, lg_occurred_at = now, lg_data_source = br_data_source r\<rparr>]\<rparr>"

abbreviation cn_results :: "control_db \<Rightarrow> bench_result list" where
  "cn_results db \<equiv> e_results (g_evidence (cn_gates db))"

definition set_evidence :: "evidence_db \<Rightarrow> control_db \<Rightarrow> control_db" where
  "set_evidence ev db = db\<lparr>cn_gates := (cn_gates db)\<lparr>g_evidence := ev\<rparr>\<rparr>"

text \<open>The result a checkpoint belongs to: the foreign key cascades, so it exists.\<close>

definition checkpoint_result :: "control_db \<Rightarrow> checkpoint \<Rightarrow> bench_result option" where
  "checkpoint_result db c = row_find br_id (cp_result_id c) (cn_results db)"

definition result_case :: "evidence_db \<Rightarrow> bench_result \<Rightarrow> eval_case option" where
  "result_case ev r = (case br_case_id r of None \<Rightarrow> None | Some i \<Rightarrow> row_find ec_id i (e_cases ev))"

section \<open>Materialisation of pending checkpoints\<close>

definition trace_steps :: "json \<Rightarrow> json list" where
  "trace_steps trace = filter is_dict (list_items (jget trace ''steps''))"

definition pending_checkpoint_steps :: "json \<Rightarrow> json list" where
  "pending_checkpoint_steps trace =
     filter (\<lambda>s. jget s ''action'' = JStr ''approval_checkpoint'' \<and> jget s ''status'' = JStr ''pending'')
       (trace_steps trace)"

definition guarded_actions :: "json \<Rightarrow> string \<Rightarrow> json" where
  "guarded_actions trace cid =
     JArr (map (\<lambda>s. JObj [(''step_index'', jget s ''step_index''), (''action'', jget s ''action''),
                          (''phase'', jget s ''phase'')])
       (filter (\<lambda>s. str_or_empty (jget (as_dict (jget s ''input'')) ''requires_approval'') = cid)
          (trace_steps trace)))"

definition checkpoint_request_snapshot ::
  "eval_case option \<Rightarrow> bench_result \<Rightarrow> json \<Rightarrow> json \<Rightarrow> string \<Rightarrow> json" where
  "checkpoint_request_snapshot c r trace step cid = JObj
     [(''schema_version'', JStr AGENT_APPROVAL_REQUEST_VERSION),
      (''benchmark_run_id'', JStr (br_run_id r)),
      (''benchmark_result_id'', JStr (br_id r)),
      (''evaluation_case_id'', opt_str (br_case_id r)),
      (''external_case_id'', opt_json (\<lambda>e. JStr (ec_external_id e)) c),
      (''sample_id'', JStr (br_sample_id r)),
      (''checkpoint_id'', JStr cid),
      (''step_index'', jget step ''step_index''),
      (''checkpoint_input'', as_dict (jget step ''input'')),
      (''guarded_actions'', guarded_actions trace cid),
      (''trace_versions'', JObj (map (\<lambda>k. (k, jget trace k))
         [''schema_version'', ''runtime_version'', ''recovery_policy_version'', ''approval_policy_version'']))]"

definition new_checkpoint ::
  "control_env \<Rightarrow> eval_case option \<Rightarrow> bench_result \<Rightarrow> json \<Rightarrow> json \<Rightarrow> string \<Rightarrow> json \<Rightarrow> signer_identity \<Rightarrow>
   instant \<Rightarrow> uuid \<Rightarrow> checkpoint" where
  "new_checkpoint env c r trace step cid contract requester now new_id =
     (let policy = resolve_checkpoint_policy contract cid;
          request = checkpoint_request_snapshot c r trace step cid
      in \<lparr>cp_id = new_id, cp_run_id = br_run_id r, cp_result_id = br_id r, cp_checkpoint_id = cid,
          cp_status = Cp_Pending, cp_requester = subject_id requester,
          cp_requested_by = identity_to_json requester, cp_request = request,
          cp_policy = policy_to_json policy,
          cp_request_hash = hash_payload env (JObj
            [(''request'', request), (''policy'', policy_to_json policy),
             (''requested_by'', identity_to_json requester), (''requested_at'', iso now)]),
          cp_expires_at = now + seconds (cpol_expires_in policy),
          cp_decision = None, cp_reason = None, cp_decided_at = None, cp_approver = JNull,
          cp_identity_verified = False, cp_decision_hash = None, cp_revoked_at = None,
          cp_revocation_reason = None, cp_revoked_by = JNull, cp_revocation_hash = None,
          cp_resumed_at = None, cp_resumed_by = JNull, cp_resume_hash = None,
          cp_transition_run = None, cp_transition_result = None, cp_version = 1\<rparr>)"

definition requested_log :: "bench_result \<Rightarrow> checkpoint \<Rightarrow> instant \<Rightarrow> control_db \<Rightarrow> control_db" where
  "requested_log r c now =
     add_log r ''agent_approval_checkpoint_requested'' ''warning''
       (''Agent checkpoint '' @ cp_checkpoint_id c @ '' is waiting for approval.'')
       (JObj [(''checkpoint_record_id'', JStr (cp_id c)),
              (''checkpoint_id'', JStr (cp_checkpoint_id c)),
              (''request_hash'', JStr (cp_request_hash c)),
              (''expires_at'', iso (cp_expires_at c)),
              (''policy_version'', JStr AGENT_CONTROL_POLICY_VERSION)]) now"

text \<open>The loop over the pending steps; \<open>created\<close> are the rows it adds, in order.\<close>

fun materialize_steps ::
  "control_env \<Rightarrow> eval_case option \<Rightarrow> bench_result \<Rightarrow> json \<Rightarrow> json \<Rightarrow> signer_identity \<Rightarrow> instant \<Rightarrow>
   (string \<Rightarrow> uuid) \<Rightarrow> json list \<Rightarrow> control_db \<Rightarrow> checkpoint list \<Rightarrow>
   control_error + control_db \<times> checkpoint list" where
  "materialize_steps env c r trace contract requester now fresh [] db created = Inr (db, created)"
| "materialize_steps env c r trace contract requester now fresh (step # steps) db created =
     (let cid = strip (str_or_empty (jget (as_dict (jget step ''output'')) ''checkpoint_id''));
          row = new_checkpoint env c r trace step cid contract requester now (fresh cid)
      in if cid = [] \<or> list_ex (\<lambda>k. cp_result_id k = br_id r \<and> cp_checkpoint_id k = cid) (cn_checkpoints db)
         then materialize_steps env c r trace contract requester now fresh steps db created
         else if fresh cid \<in> cp_id ` set (cn_checkpoints db) then Inl Duplicate_Checkpoint
         else materialize_steps env c r trace contract requester now fresh steps
                (requested_log r row now (db\<lparr>cn_checkpoints := cn_checkpoints db @ [row]\<rparr>))
                (created @ [row]))"

definition linked_metadata :: "checkpoint list \<Rightarrow> json \<Rightarrow> json option" where
  "linked_metadata created metadata =
     (let link = control_link metadata;
          texts = (\<lambda>k new. JArr (map JStr (fromkeys (map py_str (list_items (jget link k)) @ new))))
      in case int_or (jget link ''result_revision'') 1 of
           None \<Rightarrow> None
         | Some revision \<Rightarrow> Some (dict_set ''agent_control_plane'' (dict_merge link (JObj
             [(''schema_version'', JStr AGENT_CONTROL_LINK_VERSION),
              (''state_source'', JStr ''agent_approval_checkpoints''),
              (''checkpoint_record_ids'', texts ''checkpoint_record_ids'' (map cp_id created)),
              (''request_hashes'', texts ''request_hashes'' (map cp_request_hash created)),
              (''result_revision'', JInt revision)])) metadata))"

definition materialize_pending_agent_checkpoints ::
  "control_env \<Rightarrow> bench_result \<Rightarrow> json \<Rightarrow> json \<Rightarrow> signer_identity \<Rightarrow> instant \<Rightarrow> (string \<Rightarrow> uuid) \<Rightarrow> control_db \<Rightarrow>
   control_error + control_db \<times> checkpoint list" where
  "materialize_pending_agent_checkpoints env r trace contract requester now fresh db =
     (let ev = g_evidence (cn_gates db) in
      bind_res (materialize_steps env (result_case ev r) r trace contract requester now fresh
                  (pending_checkpoint_steps trace) db []) (\<lambda>(db1, created).
      if created = [] then Inr (db1, created)
      else bind_res (of_option Control_Python_Error (linked_metadata created (as_dict (br_metadata r)))) (\<lambda>m.
           Inr (set_evidence (ev\<lparr>e_results := row_put br_id (r\<lparr>br_metadata := m\<rparr>) (e_results ev)\<rparr>) db1,
                created))))"

section \<open>Expiry\<close>

definition checkpoint_is_due :: "instant \<Rightarrow> checkpoint \<Rightarrow> bool" where
  "checkpoint_is_due now c \<longleftrightarrow> (cp_status c = Cp_Pending \<or> cp_status c = Cp_Approved) \<and> cp_expires_at c \<le> now"

definition put_checkpoint :: "checkpoint \<Rightarrow> control_db \<Rightarrow> control_db" where
  "put_checkpoint c db = db\<lparr>cn_checkpoints := row_put cp_id c (cn_checkpoints db)\<rparr>"

definition expired_checkpoint :: "checkpoint \<Rightarrow> checkpoint" where
  "expired_checkpoint c = c\<lparr>cp_status := Cp_Expired, cp_version := cp_version c + 1\<rparr>"

definition checkpoint_log ::
  "checkpoint \<Rightarrow> string \<Rightarrow> string \<Rightarrow> string \<Rightarrow> json \<Rightarrow> instant \<Rightarrow> control_db \<Rightarrow> control_db" where
  "checkpoint_log c event level message payload now db =
     (case checkpoint_result db c of None \<Rightarrow> db | Some r \<Rightarrow> add_log r event level message payload now db)"

definition mark_checkpoint_expired :: "instant \<Rightarrow> checkpoint \<Rightarrow> control_db \<Rightarrow> control_db" where
  "mark_checkpoint_expired now c db =
     checkpoint_log c ''agent_approval_checkpoint_expired'' ''warning''
       (''Agent checkpoint '' @ cp_checkpoint_id c @ '' expired.'')
       (JObj [(''checkpoint_record_id'', JStr (cp_id c)),
              (''previous_status'', JStr (checkpoint_status_value (cp_status c))),
              (''expires_at'', iso (cp_expires_at c))]) now
       (put_checkpoint (expired_checkpoint c) db)"

record checkpoint_reconciliation =
  rc_at :: instant
  rc_expired :: nat
  rc_resumed_without_revision :: nat

definition reconcile_agent_approval_checkpoints ::
  "instant \<Rightarrow> control_db \<Rightarrow> control_db \<times> checkpoint_reconciliation" where
  "reconcile_agent_approval_checkpoints now db =
     (let due = filter (checkpoint_is_due now) (cn_checkpoints db);
          db1 = fold (mark_checkpoint_expired now) due db
      in (db1, \<lparr>rc_at = now, rc_expired = length due,
                rc_resumed_without_revision = length (filter (\<lambda>c. cp_status c = Cp_Resumed \<and>
                  (cp_transition_run c = None \<or> cp_transition_result c = None)) (cn_checkpoints db1))\<rparr>))"

definition list_agent_approval_checkpoints ::
  "instant \<Rightarrow> uuid option \<Rightarrow> uuid option \<Rightarrow> checkpoint_status option \<Rightarrow> control_db \<Rightarrow>
   control_db \<times> checkpoint list" where
  "list_agent_approval_checkpoints clock run_id result_id status db =
     (let db1 = fst (reconcile_agent_approval_checkpoints (whole_seconds clock) db) in
      (db1, filter (\<lambda>c. (case run_id of None \<Rightarrow> True | Some i \<Rightarrow> cp_run_id c = i) \<and>
                        (case result_id of None \<Rightarrow> True | Some i \<Rightarrow> cp_result_id c = i) \<and>
                        (case status of None \<Rightarrow> True | Some s \<Rightarrow> cp_status c = s)) (cn_checkpoints db1)))"

abbreviation checkpoint_find :: "uuid \<Rightarrow> control_db \<Rightarrow> checkpoint option" where
  "checkpoint_find i db \<equiv> row_find cp_id i (cn_checkpoints db)"

definition get_agent_approval_checkpoint ::
  "instant \<Rightarrow> uuid \<Rightarrow> control_db \<Rightarrow> control_db \<times> (control_error + checkpoint)" where
  "get_agent_approval_checkpoint clock i db =
     (let now = whole_seconds clock in
      case checkpoint_find i db of
        None \<Rightarrow> (db, Inl Checkpoint_Not_Found)
      | Some c \<Rightarrow> if checkpoint_is_due now c
                  then (mark_checkpoint_expired now c db, Inr (expired_checkpoint c)) else (db, Inr c))"

section \<open>Executing the decisions\<close>

text \<open>\<^verbatim>\<open>approval_decisions_from_agent_trace\<close>: the decisions the trace of the last execution recorded.\<close>

definition DECISION_KEYS :: "string list" where
  "DECISION_KEYS = [''decision'', ''decided_by'', ''reason'', ''decision_source'', ''policy_version'',
     ''decision_hash'', ''identity_verified'', ''approver_identity'', ''decided_at'', ''checkpoint_record_id'']"

definition trace_decision :: "json \<Rightarrow> json \<Rightarrow> json" where
  "trace_decision step decisions =
     (let output = jget step ''output'';
          text = (\<lambda>k. strip (str_or_empty (jget output k)));
          cid = text ''checkpoint_id''
      in if jget step ''action'' \<noteq> JStr ''approval_checkpoint'' \<or> \<not> is_dict output then decisions
         else if cid = [] \<or> lower (text ''decision'') \<notin> {''approved'', ''denied''} then decisions
         else if text ''decided_by'' = [] \<or> text ''reason'' = [] then decisions
         else dict_set cid (JObj (map (\<lambda>k. (k, jget output k))
                (filter (\<lambda>k. jget output k \<noteq> JNull) DECISION_KEYS))) decisions)"

definition approval_decisions_from_trace :: "json \<Rightarrow> json" where
  "approval_decisions_from_trace trace = fold trace_decision (trace_steps trace) (JObj [])"

definition decision_for_runtime :: "checkpoint \<Rightarrow> json" where
  "decision_for_runtime c =
     (let approver = or_empty_dict (cp_approver c) in JObj
       [(''decision'', opt_json (\<lambda>v. JStr (verdict_value v)) (cp_decision c)),
        (''decided_by'', JStr (str_or_empty (py_or (jget approver ''display_name'') (jget approver ''subject_id'')))),
        (''reason'', opt_str (cp_reason c)),
        (''decision_source'', JStr ''persisted_agent_control_plane''),
        (''policy_version'', JStr (str_or_empty (jget (cp_policy c) ''policy_version''))),
        (''decision_hash'', opt_str (cp_decision_hash c)),
        (''identity_verified'', JBool (cp_identity_verified c)),
        (''approver_identity'', approver),
        (''decided_at'', opt_json iso (cp_decided_at c)),
        (''checkpoint_record_id'', JStr (cp_id c))])"

definition persisted_decisions :: "json \<Rightarrow> checkpoint list \<Rightarrow> json" where
  "persisted_decisions trace records =
     fold (\<lambda>c. dict_set (cp_checkpoint_id c) (decision_for_runtime c))
       (filter (\<lambda>c. cp_decision c \<noteq> None \<and>
                    (cp_status c = Cp_Approved \<or> cp_status c = Cp_Denied \<or> cp_status c = Cp_Resumed)) records)
       (approval_decisions_from_trace trace)"

definition EXECUTION_KEYS :: "string list" where
  "EXECUTION_KEYS = [''agent_execution'', ''agent_control_plane'', ''operational_memory_registry'', ''scorer'']"

definition base_metadata :: "json \<Rightarrow> json" where
  "base_metadata metadata = JObj (filter (\<lambda>(k, v). k \<notin> set EXECUTION_KEYS) (dict_items metadata))"

text \<open>The number of retries and the time the last execution took, taken off the metric again.\<close>

definition iterable :: "json \<Rightarrow> bool" where
  "iterable v = (case v of JArr _ \<Rightarrow> True | JObj _ \<Rightarrow> True | JStr _ \<Rightarrow> True | _ \<Rightarrow> False)"

definition trace_retries :: "json \<Rightarrow> int option" where
  "trace_retries trace =
     (if iterable (jget_or trace ''steps'' (JArr []))
      then map_option sum_list (those (map (\<lambda>s. int_or (jget s ''retry_count'') 0) (trace_steps trace)))
      else None)"

definition trace_duration :: "json \<Rightarrow> rat option" where
  "trace_duration trace = float_or_zero (jget trace ''total_duration_ms'')"

definition base_case_result :: "bench_result \<Rightarrow> inf_metric \<Rightarrow> rat \<Rightarrow> int \<Rightarrow> case_result" where
  "base_case_result r m duration retries =
     \<lparr>cr_raw_output = text_or_empty (br_raw_output r),
      cr_normalized_output = text_or_empty (br_normalized_output r),
      cr_quality = None, cr_exact_match = None, cr_json_valid = br_json_valid r,
      cr_tool_call_valid = br_tool_call_valid r, cr_groundedness = None, cr_faithfulness = None,
      cr_human_label = br_human_label r,
      cr_error_type = (if br_error_type r = Some ''agent_execution_failed'' then None else br_error_type r),
      cr_ttft_ms = im_ttft_ms m, cr_latency_ms = max 0 (im_latency_ms m - duration),
      cr_prompt_tokens = im_prompt_tokens m, cr_completion_tokens = im_completion_tokens m,
      cr_tokens_per_second = im_tokens_per_second m, cr_vram_mb = im_vram_mb m,
      cr_gpu_util = im_gpu_util m, cr_cpu_util = im_cpu_util m, cr_peak_memory_mb = im_peak_memory_mb m,
      cr_oom = im_oom m, cr_retry_count = max 0 (im_retry_count m - retries), cr_logs = [],
      cr_metadata = base_metadata (as_dict (br_metadata r))\<rparr>"

definition lineage_revisions :: "uuid \<Rightarrow> bench_result list \<Rightarrow> int list" where
  "lineage_revisions i results =
     map br_revision (filter (\<lambda>r. br_id r = i \<or> br_root_id r = Some i) results)"

definition or_one :: "int \<Rightarrow> int" where
  "or_one k = (if k = 0 then 1 else k)"

definition next_revision :: "bench_result \<Rightarrow> bench_result list \<Rightarrow> int" where
  "next_revision r results =
     max (case lineage_revisions (root_id r) results of [] \<Rightarrow> 1 | k # ks \<Rightarrow> or_one (foldr max ks k))
         (or_one (br_revision r)) + 1"

text \<open>What the database draws for a revision: the identifiers of its run and result, and their creation time.\<close>

record revision_draw =
  dw_run_id :: uuid
  dw_result_id :: uuid
  dw_created_at :: instant

definition root_run_id :: "bench_run \<Rightarrow> uuid" where
  "root_run_id run = (case rn_root_id run of None \<Rightarrow> rn_id run | Some i \<Rightarrow> i)"

definition revision_run :: "bench_run \<Rightarrow> bench_result \<Rightarrow> int \<Rightarrow> string \<Rightarrow> revision_draw \<Rightarrow> bench_run" where
  "revision_run run r revision event dw = run
     \<lparr>rn_id := dw_run_id dw, rn_parent_id := Some (rn_id run), rn_root_id := Some (root_run_id run),
      rn_revision := revision, rn_revision_reason := Some event,
      rn_runtime_config := dict_merge (or_empty_dict (rn_runtime_config run)) (JObj
        [(''agent_evidence_revision'', JObj
           [(''schema_version'', JStr AGENT_EVIDENCE_REVISION_VERSION),
            (''parent_benchmark_run_id'', JStr (rn_id run)),
            (''root_benchmark_run_id'', JStr (root_run_id run)),
            (''parent_benchmark_result_id'', JStr (br_id r)),
            (''root_benchmark_result_id'', JStr (root_id r)),
            (''revision_number'', JInt revision),
            (''transition'', JStr event)])]),
      rn_status := ''completed'', rn_revision_hash := None\<rparr>"

definition revision_link ::
  "bench_run \<Rightarrow> bench_result \<Rightarrow> int \<Rightarrow> string \<Rightarrow> instant \<Rightarrow> signer_identity \<Rightarrow> json" where
  "revision_link run r revision event now operator =
     dict_merge (control_link (as_dict (br_metadata r))) (JObj
       [(''schema_version'', JStr AGENT_CONTROL_LINK_VERSION),
        (''state_source'', JStr ''agent_approval_checkpoints''),
        (''result_revision'', JInt revision),
        (''revision_mode'', JStr ''append_only_child_run''),
        (''parent_benchmark_run_id'', JStr (rn_id run)),
        (''root_benchmark_run_id'', JStr (root_run_id run)),
        (''parent_benchmark_result_id'', JStr (br_id r)),
        (''root_benchmark_result_id'', JStr (root_id r)),
        (''parent_evidence_revision_hash'', opt_str (br_revision_hash r)),
        (''last_transition'', JStr event),
        (''last_transition_at'', iso now),
        (''last_transition_by'', identity_to_json operator)])"

definition revision_hash_of ::
  "control_env \<Rightarrow> bench_result \<Rightarrow> int \<Rightarrow> string \<Rightarrow> revision_draw \<Rightarrow> json \<Rightarrow> case_result \<Rightarrow> string" where
  "revision_hash_of env r revision event dw trace scored = hash_payload env (JObj
     [(''schema_version'', JStr AGENT_EVIDENCE_REVISION_VERSION),
      (''benchmark_run_id'', JStr (dw_run_id dw)),
      (''benchmark_result_id'', JStr (dw_result_id dw)),
      (''parent_benchmark_result_id'', JStr (br_id r)),
      (''root_benchmark_result_id'', JStr (root_id r)),
      (''revision_number'', JInt revision),
      (''transition'', JStr event),
      (''trace'', trace),
      (''scores'', JObj
        [(''quality_score'', opt_json JFloat (cr_quality scored)),
         (''exact_match'', opt_json JBool (cr_exact_match scored)),
         (''json_valid'', JBool (cr_json_valid scored)),
         (''tool_call_valid'', JBool (cr_tool_call_valid scored)),
         (''error_type'', opt_str (cr_error_type scored))])])"

definition revision_result ::
  "control_env \<Rightarrow> bench_result \<Rightarrow> int \<Rightarrow> string \<Rightarrow> revision_draw \<Rightarrow> json \<Rightarrow> json \<Rightarrow> case_result \<Rightarrow> bench_result" where
  "revision_result env r revision event dw trace link scored =
     \<lparr>br_id = dw_result_id dw, br_run_id = dw_run_id dw, br_case_id = br_case_id r,
      br_parent_id = Some (br_id r), br_root_id = Some (root_id r), br_revision = revision,
      br_revision_hash = Some (revision_hash_of env r revision event dw trace scored),
      br_sample_id = br_sample_id r, br_quality = cr_quality scored, br_exact_match = cr_exact_match scored,
      br_json_valid = cr_json_valid scored, br_tool_call_valid = cr_tool_call_valid scored,
      br_groundedness = cr_groundedness scored, br_faithfulness = cr_faithfulness scored,
      br_human_label = cr_human_label scored, br_error_type = cr_error_type scored,
      br_normalized_output = Some (cr_normalized_output scored),
      br_metadata = dict_merge (cr_metadata scored) (JObj [(''agent_control_plane'', link)]),
      br_data_source = br_data_source r, br_created_at = dw_created_at dw,
      br_raw_output = Some (cr_raw_output scored)\<rparr>"

definition run_revision_hash ::
  "control_env \<Rightarrow> bench_run \<Rightarrow> int \<Rightarrow> revision_draw \<Rightarrow> string option \<Rightarrow> string" where
  "run_revision_hash env run revision dw result_hash = hash_payload env (JObj
     [(''schema_version'', JStr AGENT_EVIDENCE_REVISION_VERSION),
      (''benchmark_run_id'', JStr (dw_run_id dw)),
      (''parent_benchmark_run_id'', JStr (rn_id run)),
      (''root_benchmark_run_id'', JStr (root_run_id run)),
      (''revision_number'', JInt revision),
      (''result_revision_hash'', opt_str result_hash)])"

definition revision_metric :: "bench_result \<Rightarrow> inf_metric \<Rightarrow> revision_draw \<Rightarrow> case_result \<Rightarrow> inf_metric" where
  "revision_metric r m dw scored =
     \<lparr>im_run_id = dw_run_id dw, im_sample_id = br_sample_id r, im_ttft_ms = im_ttft_ms m,
      im_latency_ms = cr_latency_ms scored, im_tokens_per_second = cr_tokens_per_second scored,
      im_vram_mb = cr_vram_mb scored, im_oom = cr_oom scored, im_data_source = br_data_source r,
      im_prompt_tokens = cr_prompt_tokens scored, im_completion_tokens = cr_completion_tokens scored,
      im_gpu_util = cr_gpu_util scored, im_cpu_util = cr_cpu_util scored,
      im_peak_memory_mb = cr_peak_memory_mb scored, im_retry_count = cr_retry_count scored\<rparr>"

definition execution_event_log :: "bench_result \<Rightarrow> instant \<Rightarrow> json \<Rightarrow> control_db \<Rightarrow> control_db" where
  "execution_event_log r now l =
     add_log r (str_or (jget l ''event_type'') ''agent_execution_event'') (str_or (jget l ''level'') ''info'')
       (str_or (jget l ''message'') ''Agent execution event.'')
       (if is_dict (jget l ''payload_json'') then jget l ''payload_json'' else JNull) now"

definition revision_log ::
  "bench_run \<Rightarrow> bench_result \<Rightarrow> bench_result \<Rightarrow> checkpoint list \<Rightarrow> string \<Rightarrow> json \<Rightarrow> instant \<Rightarrow> control_db \<Rightarrow> control_db" where
  "revision_log run r new records event trace now =
     add_log new event (if truthy (jget trace ''successful'') then ''info'' else ''warning'')
       (''Agent result advanced to revision '' @ show_int (br_revision new) @ ''.'')
       (JObj [(''result_revision'', JInt (br_revision new)),
              (''benchmark_run_id'', JStr (br_run_id new)),
              (''benchmark_result_id'', JStr (br_id new)),
              (''parent_benchmark_run_id'', JStr (rn_id run)),
              (''parent_benchmark_result_id'', JStr (br_id r)),
              (''evidence_revision_hash'', opt_str (br_revision_hash new)),
              (''trace_status'', jget trace ''status''),
              (''checkpoint_record_ids'', JArr (map (\<lambda>c. JStr (cp_id c)) records))]) now"

definition AGENT_STALE_REASON :: string where
  "AGENT_STALE_REASON =
     ''Agent evidence advanced through an append-only result revision. Run the Deployment Gate again.''"

text \<open>The rows of the revision are written, then the gates of the scope are checked.\<close>

definition write_revision ::
  "bench_run \<Rightarrow> bench_result \<Rightarrow> inf_metric \<Rightarrow> control_db \<Rightarrow> control_error + control_db" where
  "write_revision run new m db =
     (let ev = g_evidence (cn_gates db) in
      if br_id new \<in> br_id ` set (e_results ev) \<or> rn_id run \<in> rn_id ` set (e_runs ev)
      then Inl Duplicate_Checkpoint
      else Inr (set_evidence (ev\<lparr>e_runs := e_runs ev @ [run], e_results := e_results ev @ [new],
                                 e_metrics := e_metrics ev @ [m]\<rparr>) db))"

definition scope_of_run :: "bench_run \<Rightarrow> (uuid \<times> uuid) option" where
  "scope_of_run run =
     (case (rn_config_id run, rn_suite_id run) of (Some c, Some s) \<Rightarrow> Some (c, s) | _ \<Rightarrow> None)"

definition stale_scope ::
  "control_env \<Rightarrow> bench_run \<Rightarrow> instant \<Rightarrow> control_db \<Rightarrow> control_error + control_db" where
  "stale_scope env run now db =
     (case scope_of_run run of
        None \<Rightarrow> Inr db
      | Some (cfg, suite) \<Rightarrow>
          (case mark_scope_gates_stale (ct_gate env) cfg suite None AGENT_STALE_REASON now None (cn_gates db) of
             Inl e \<Rightarrow> Inl (Staleness_Error e)
           | Inr (gates, _) \<Rightarrow> Inr (db\<lparr>cn_gates := gates\<rparr>)))"

definition find_metric :: "bench_result \<Rightarrow> evidence_db \<Rightarrow> inf_metric option" where
  "find_metric r ev = find (\<lambda>m. im_run_id m = br_run_id r \<and> im_sample_id m = br_sample_id r) (e_metrics ev)"

text \<open>The executed and scored case, with its trace.\<close>

definition execute_decisions ::
  "control_env \<Rightarrow> dep_config \<Rightarrow> eval_case \<Rightarrow> bench_run \<Rightarrow> bench_result \<Rightarrow> checkpoint list \<Rightarrow> evidence_db \<Rightarrow>
   control_error + inf_metric \<times> case_result \<times> json" where
  "execute_decisions env cfg c run r records ev =
     (let trace0 = as_dict (jget (as_dict (br_metadata r)) ''agent_execution'') in
      bind_res (of_option Not_An_Agent_Case (ct_prepare env cfg c (persisted_decisions trace0 records))) (\<lambda>plan.
      bind_res (of_option Needs_Metric (find_metric r ev)) (\<lambda>m.
      bind_res (of_option Control_Python_Error (trace_duration trace0)) (\<lambda>duration.
      bind_res (of_option Control_Python_Error (trace_retries trace0)) (\<lambda>retries.
      let scored = ct_execute env c plan (or_empty_dict (rn_runtime_config run))
                     (base_case_result r m duration retries);
          trace = jget (cr_metadata scored) ''agent_execution''
      in if is_dict trace then Inr (m, scored, trace) else Inl No_Trace)))))"

definition apply_persisted_decisions ::
  "control_env \<Rightarrow> bench_result \<Rightarrow> checkpoint list \<Rightarrow> signer_identity \<Rightarrow> string \<Rightarrow> instant \<Rightarrow> revision_draw \<Rightarrow>
   control_db \<Rightarrow> control_error + control_db \<times> bench_result \<times> json \<times> int" where
  "apply_persisted_decisions env r records operator event now dw db =
     (let ev = g_evidence (cn_gates db);
          run_opt = row_find rn_id (br_run_id r) (e_runs ev);
          cfg_opt = (case run_opt of None \<Rightarrow> None
            | Some run \<Rightarrow> (case rn_config_id run of None \<Rightarrow> None | Some i \<Rightarrow> row_find dc_id i (e_configs ev)))
      in case (result_case ev r, run_opt, cfg_opt) of
        (Some c, Some run, Some cfg) \<Rightarrow>
          bind_res (execute_decisions env cfg c run r records ev) (\<lambda>(m, scored, trace).
          let revision = next_revision r (e_results ev);
              new = revision_result env r revision event dw trace
                      (revision_link run r revision event now operator) scored;
              new_run = (revision_run run r revision event dw)
                \<lparr>rn_revision_hash := Some (run_revision_hash env run revision dw (br_revision_hash new))\<rparr>
          in bind_res (write_revision new_run new (revision_metric r m dw scored) db) (\<lambda>db1.
             bind_res (stale_scope env run now
               (revision_log run r new records event trace now
                 (fold (execution_event_log new now) (cr_logs scored) db1))) (\<lambda>db2.
             Inr (db2, new, trace, revision))))
      | _ \<Rightarrow> Inl Needs_Case_And_Configuration)"

section \<open>Decisions, revocations and resumption\<close>

definition checked_operation ::
  "checkpoint_operation \<Rightarrow> checkpoint \<Rightarrow> signer_identity \<Rightarrow>
   control_error + checkpoint_policy \<times> json" where
  "checked_operation operation c signer =
     (case checkpoint_policy_from_json (cp_policy c) of
        Inl e \<Rightarrow> Inl (Checkpoint_Policy e)
      | Inr p \<Rightarrow>
          (case assert_checkpoint_operation p operation (cp_requester c) signer of
             Inl e \<Rightarrow> Inl (Checkpoint_Policy e)
           | Inr ev \<Rightarrow> Inr (p, checkpoint_evaluation_json p operation (cp_requester c) ev)))"

text \<open>
  The locked row, checked for expiry (written back, then raised), version and status; \<open>body\<close> raises or
  gives the database to commit.
\<close>

definition with_checkpoint ::
  "uuid \<Rightarrow> int \<Rightarrow> checkpoint_status \<Rightarrow> instant \<Rightarrow> control_db \<Rightarrow>
   (checkpoint \<Rightarrow> control_error + control_db \<times> 'a) \<Rightarrow> control_db \<times> (control_error + 'a)" where
  "with_checkpoint i expected status now db body =
     (case checkpoint_find i db of
        None \<Rightarrow> (db, Inl Checkpoint_Not_Found)
      | Some c \<Rightarrow>
          if checkpoint_is_due now c then (mark_checkpoint_expired now c db, Inl Checkpoint_Has_Expired)
          else if cp_version c \<noteq> expected then (db, Inl (Version_Conflict expected (cp_version c)))
          else if cp_status c \<noteq> status then (db, Inl (Wrong_Checkpoint_Status (cp_status c)))
          else (case body c of Inl e \<Rightarrow> (db, Inl e) | Inr (db', a) \<Rightarrow> (db', Inr a)))"

definition decided_checkpoint ::
  "control_env \<Rightarrow> checkpoint \<Rightarrow> checkpoint_verdict \<Rightarrow> string \<Rightarrow> signer_identity \<Rightarrow> json \<Rightarrow> instant \<Rightarrow> checkpoint" where
  "decided_checkpoint env c verdict reason signer evaluation now = c
     \<lparr>cp_status := verdict_status verdict, cp_decision := Some verdict, cp_reason := Some reason,
      cp_decided_at := Some now, cp_approver := identity_to_json signer,
      cp_identity_verified := identity_verified signer,
      cp_decision_hash := Some (hash_payload env (JObj
        [(''checkpoint_record_id'', JStr (cp_id c)),
         (''checkpoint_id'', JStr (cp_checkpoint_id c)),
         (''request_hash'', JStr (cp_request_hash c)),
         (''decision'', JStr (verdict_value verdict)),
         (''reason'', JStr reason),
         (''decided_at'', iso now),
         (''approver_identity'', identity_to_json signer),
         (''policy_evaluation'', evaluation)])),
      cp_version := cp_version c + 1\<rparr>"

definition decided_log :: "checkpoint \<Rightarrow> checkpoint_policy \<Rightarrow> instant \<Rightarrow> control_db \<Rightarrow> control_db" where
  "decided_log c p now =
     (let verdict = (case cp_decision c of None \<Rightarrow> [] | Some v \<Rightarrow> verdict_value v) in
      checkpoint_log c ''agent_approval_checkpoint_decided''
       (if cp_decision c = Some Verdict_Approved then ''info'' else ''warning'')
       (''Agent checkpoint '' @ cp_checkpoint_id c @ '' was '' @ verdict @ ''.'')
       (JObj [(''checkpoint_record_id'', JStr (cp_id c)),
              (''decision'', JStr verdict),
              (''decision_hash'', opt_str (cp_decision_hash c)),
              (''policy_version'', JStr (cpol_version p)),
              (''identity_verified'', JBool (cp_identity_verified c))]) now)"

text \<open>A denial is executed at once: it links the checkpoint to the revision it made.\<close>

definition commit_decision ::
  "control_env \<Rightarrow> checkpoint \<Rightarrow> checkpoint_policy \<Rightarrow> signer_identity \<Rightarrow> instant \<Rightarrow> revision_draw \<Rightarrow> control_db \<Rightarrow>
   control_error + control_db \<times> checkpoint" where
  "commit_decision env c p signer now dw db =
     (let db1 = decided_log c p now (put_checkpoint c db) in
      if cp_decision c \<noteq> Some Verdict_Denied then Inr (db1, c)
      else case checkpoint_result db c of
        None \<Rightarrow> Inl Result_Without_Case
      | Some r \<Rightarrow>
          bind_res (apply_persisted_decisions env r [c] signer ''agent_execution_denied'' now dw db1)
            (\<lambda>(db2, new, trace, revision).
             let c' = c\<lparr>cp_transition_run := Some (br_run_id new), cp_transition_result := Some (br_id new)\<rparr>
             in Inr (put_checkpoint c' db2, c')))"

definition decide_agent_approval_checkpoint ::
  "control_env \<Rightarrow> uuid \<Rightarrow> checkpoint_verdict \<Rightarrow> string \<Rightarrow> int \<Rightarrow> signer_identity \<Rightarrow> instant \<Rightarrow> revision_draw \<Rightarrow>
   control_db \<Rightarrow> control_db \<times> (control_error + checkpoint)" where
  "decide_agent_approval_checkpoint env i verdict reason expected signer clock dw db =
     (let now = whole_seconds clock in
      with_checkpoint i expected Cp_Pending now db (\<lambda>c.
        bind_res (checked_operation Op_Decide c signer) (\<lambda>(p, evaluation).
        commit_decision env (decided_checkpoint env c verdict reason signer evaluation now) p signer now dw db)))"

definition revoked_checkpoint ::
  "control_env \<Rightarrow> checkpoint \<Rightarrow> string \<Rightarrow> signer_identity \<Rightarrow> json \<Rightarrow> instant \<Rightarrow> checkpoint" where
  "revoked_checkpoint env c reason signer evaluation now = c
     \<lparr>cp_status := Cp_Revoked, cp_revoked_at := Some now, cp_revocation_reason := Some reason,
      cp_revoked_by := identity_to_json signer,
      cp_revocation_hash := Some (hash_payload env (JObj
        [(''checkpoint_record_id'', JStr (cp_id c)),
         (''decision_hash'', opt_str (cp_decision_hash c)),
         (''reason'', JStr reason),
         (''revoked_at'', iso now),
         (''revoked_by'', identity_to_json signer),
         (''policy_evaluation'', evaluation)])),
      cp_version := cp_version c + 1\<rparr>"

definition revoke_agent_approval_checkpoint ::
  "control_env \<Rightarrow> uuid \<Rightarrow> string \<Rightarrow> int \<Rightarrow> signer_identity \<Rightarrow> instant \<Rightarrow> control_db \<Rightarrow>
   control_db \<times> (control_error + checkpoint)" where
  "revoke_agent_approval_checkpoint env i reason expected signer clock db =
     (let now = whole_seconds clock in
      with_checkpoint i expected Cp_Approved now db (\<lambda>c.
        bind_res (checked_operation Op_Revoke c signer) (\<lambda>(p, evaluation).
        let c' = revoked_checkpoint env c reason signer evaluation now
        in Inr (checkpoint_log c' ''agent_approval_checkpoint_revoked'' ''warning''
                  (''Agent checkpoint '' @ cp_checkpoint_id c @ '' approval was revoked.'')
                  (JObj [(''checkpoint_record_id'', JStr (cp_id c)),
                         (''revocation_hash'', opt_str (cp_revocation_hash c')),
                         (''policy_version'', JStr (cpol_version p))]) now
                  (put_checkpoint c' db), c'))))"

record resume_outcome =
  ro_checkpoint :: checkpoint
  ro_run_id :: uuid
  ro_result_id :: uuid
  ro_parent_run_id :: uuid
  ro_parent_result_id :: uuid
  ro_revision :: int
  ro_trace :: json
  ro_summary :: "agent_summary option"

text \<open>The outcome of a checkpoint that was resumed before, read from the stored revision.\<close>

definition stored_resume_outcome :: "checkpoint \<Rightarrow> control_db \<Rightarrow> control_error + resume_outcome" where
  "stored_resume_outcome c db =
     (case (cp_transition_run c, cp_transition_result c) of
        (Some run, Some result) \<Rightarrow>
          bind_res (of_option Revision_Link_Missing (row_find br_id result (cn_results db))) (\<lambda>new.
          let metadata = as_dict (br_metadata new); trace = jget metadata ''agent_execution'' in
          if \<not> is_dict trace then Inl No_Trace else
          bind_res (of_option Control_Python_Error (int_or (jget (control_link metadata) ''result_revision'') 1))
            (\<lambda>revision. Inr
              \<lparr>ro_checkpoint = c, ro_run_id = run, ro_result_id = result, ro_parent_run_id = cp_run_id c,
               ro_parent_result_id = cp_result_id c, ro_revision = revision, ro_trace = trace,
               ro_summary = summarize_agent_traces [trace]\<rparr>))
      | _ \<Rightarrow> Inl Revision_Link_Missing)"

definition resumed_checkpoint ::
  "control_env \<Rightarrow> bench_result \<Rightarrow> bench_result \<Rightarrow> int \<Rightarrow> signer_identity \<Rightarrow> json \<Rightarrow> instant \<Rightarrow> checkpoint \<Rightarrow> checkpoint" where
  "resumed_checkpoint env r new revision signer evaluation now c = c
     \<lparr>cp_status := Cp_Resumed, cp_resumed_at := Some now, cp_resumed_by := identity_to_json signer,
      cp_resume_hash := Some (hash_payload env (JObj
        [(''schema_version'', JStr AGENT_RESUME_EVENT_VERSION),
         (''checkpoint_record_id'', JStr (cp_id c)),
         (''decision_hash'', opt_str (cp_decision_hash c)),
         (''result_revision'', JInt revision),
         (''parent_benchmark_run_id'', JStr (br_run_id r)),
         (''parent_benchmark_result_id'', JStr (br_id r)),
         (''benchmark_run_id'', JStr (br_run_id new)),
         (''benchmark_result_id'', JStr (br_id new)),
         (''resumed_at'', iso now),
         (''resumed_by'', identity_to_json signer),
         (''policy_evaluation'', evaluation)])),
      cp_transition_run := Some (br_run_id new), cp_transition_result := Some (br_id new),
      cp_version := cp_version c + 1\<rparr>"

definition blocks_resume :: "checkpoint \<Rightarrow> bool" where
  "blocks_resume c \<longleftrightarrow> cp_status c \<in> set [Cp_Pending, Cp_Denied, Cp_Revoked, Cp_Expired]"

definition agent_contract :: "eval_case \<Rightarrow> json" where
  "agent_contract c = as_dict (jget (as_dict (ec_reference_context c)) ''agent'')"

definition resumed_log ::
  "bench_result \<Rightarrow> bench_result \<Rightarrow> checkpoint \<Rightarrow> int \<Rightarrow> json \<Rightarrow> instant \<Rightarrow> control_db \<Rightarrow> control_db" where
  "resumed_log r new c revision trace now =
     add_log new ''agent_approval_checkpoint_resumed'' ''info''
       (''Agent execution resumed from checkpoint '' @ cp_checkpoint_id c @ ''.'')
       (JObj [(''checkpoint_record_id'', JStr (cp_id c)),
              (''parent_benchmark_run_id'', JStr (br_run_id r)),
              (''parent_benchmark_result_id'', JStr (br_id r)),
              (''benchmark_run_id'', JStr (br_run_id new)),
              (''benchmark_result_id'', JStr (br_id new)),
              (''result_revision'', JInt revision),
              (''resume_hash'', opt_str (cp_resume_hash c)),
              (''trace_status'', jget trace ''status'')]) now"

text \<open>All approved checkpoints of the result are resumed by the one execution.\<close>

definition resume_records ::
  "(checkpoint \<Rightarrow> checkpoint) \<Rightarrow> uuid \<Rightarrow> control_db \<Rightarrow> control_db" where
  "resume_records upd result db = db\<lparr>cn_checkpoints :=
     map (\<lambda>k. if cp_result_id k = result \<and> cp_status k = Cp_Approved then upd k else k) (cn_checkpoints db)\<rparr>"

definition commit_resume ::
  "control_env \<Rightarrow> checkpoint \<Rightarrow> json \<Rightarrow> signer_identity \<Rightarrow> instant \<Rightarrow> revision_draw \<Rightarrow> (string \<Rightarrow> uuid) \<Rightarrow>
   control_db \<Rightarrow> control_error + control_db \<times> resume_outcome" where
  "commit_resume env c evaluation signer now dw fresh db =
     (case checkpoint_result db c of
        None \<Rightarrow> Inl Result_Without_Case
      | Some r \<Rightarrow>
        let records = filter (\<lambda>k. cp_result_id k = br_id r) (cn_checkpoints db) in
        case find blocks_resume records of
          Some b \<Rightarrow> Inl (Blocked_By (cp_checkpoint_id b) (cp_status b))
        | None \<Rightarrow>
          bind_res (apply_persisted_decisions env r records signer ''agent_execution_resumed'' now dw db)
            (\<lambda>(db1, new, trace, revision).
             let upd = resumed_checkpoint env r new revision signer evaluation now;
                 db2 = resume_records upd (br_id r) db1
             in bind_res (of_option Result_Without_Case (result_case (g_evidence (cn_gates db)) r)) (\<lambda>ec.
                bind_res (materialize_pending_agent_checkpoints env new trace (agent_contract ec)
                            (requester_from_json (cp_requested_by c)) now fresh db2) (\<lambda>(db3, created).
                Inr (resumed_log r new (upd c) revision trace now db3,
                     \<lparr>ro_checkpoint = upd c, ro_run_id = br_run_id new, ro_result_id = br_id new,
                      ro_parent_run_id = br_run_id r, ro_parent_result_id = br_id r,
                      ro_revision = revision, ro_trace = trace,
                      ro_summary = summarize_agent_traces [trace]\<rparr>)))))"

definition resume_agent_approval_checkpoint ::
  "control_env \<Rightarrow> uuid \<Rightarrow> int \<Rightarrow> signer_identity \<Rightarrow> instant \<Rightarrow> revision_draw \<Rightarrow> (string \<Rightarrow> uuid) \<Rightarrow>
   control_db \<Rightarrow> control_db \<times> (control_error + resume_outcome)" where
  "resume_agent_approval_checkpoint env i expected signer clock dw fresh db =
     (let now = whole_seconds clock in
      case checkpoint_find i db of
        Some c \<Rightarrow>
          if cp_status c = Cp_Resumed then (db, stored_resume_outcome c db)
          else with_checkpoint i expected Cp_Approved now db (\<lambda>c.
                 bind_res (checked_operation Op_Resume c signer) (\<lambda>(p, evaluation).
                 commit_resume env c evaluation signer now dw fresh db))
      | None \<Rightarrow> (db, Inl Checkpoint_Not_Found))"

section \<open>The commands\<close>

text \<open>\<open>Materialize\<close> is the call of the benchmark execution for a result it has just stored.\<close>

datatype control_command =
    Materialize uuid json json signer_identity instant "string \<Rightarrow> uuid"
  | Reconcile_Checkpoints instant
  | Get_Checkpoint instant uuid
  | Decide_Checkpoint uuid checkpoint_verdict string int signer_identity instant revision_draw
  | Revoke_Approval uuid string int signer_identity instant
  | Resume_Checkpoint uuid int signer_identity instant revision_draw "string \<Rightarrow> uuid"

fun control_run :: "control_env \<Rightarrow> control_command \<Rightarrow> control_db \<Rightarrow> control_db" where
  "control_run env (Materialize i trace contract requester now fresh) db =
     (case row_find br_id i (cn_results db) of
        None \<Rightarrow> db
      | Some r \<Rightarrow> (case materialize_pending_agent_checkpoints env r trace contract requester now fresh db of
                     Inl _ \<Rightarrow> db | Inr (db', _) \<Rightarrow> db'))"
| "control_run env (Reconcile_Checkpoints now) db = fst (reconcile_agent_approval_checkpoints now db)"
| "control_run env (Get_Checkpoint now i) db = fst (get_agent_approval_checkpoint now i db)"
| "control_run env (Decide_Checkpoint i verdict reason expected signer clock dw) db =
     fst (decide_agent_approval_checkpoint env i verdict reason expected signer clock dw db)"
| "control_run env (Revoke_Approval i reason expected signer clock) db =
     fst (revoke_agent_approval_checkpoint env i reason expected signer clock db)"
| "control_run env (Resume_Checkpoint i expected signer clock dw fresh) db =
     fst (resume_agent_approval_checkpoint env i expected signer clock dw fresh db)"

definition control_step :: "control_env \<Rightarrow> control_command \<Rightarrow> control_db \<Rightarrow> unit + control_db" where
  "control_step env cmd db = Inr (control_run env cmd db)"

end
