(* ===== verification/Reliability_Rows.thy ===== *)
theory Reliability_Rows
  imports Canonical_Json Py_Time Operator_Policies
begin

text \<open>
  Operational reliability: the settings (\<^verbatim>\<open>core/config.py\<close>) and tables (\<^verbatim>\<open>models/operations.py\<close>) that
  \<^verbatim>\<open>services/operational_reliability\<close> works on, with the constraints of the tables the code can run into.
  The tables hold metric snapshots and their points, SLO evaluations, alert incidents, the actions on
  incidents and the paging deliveries.
\<close>

section \<open>Settings\<close>

record ops_settings =
  os_interval :: int
  os_retention_days :: int
  os_window :: int
  os_short_window :: int
  os_min_samples :: int
  os_identity_target :: rat
  os_worker_target :: rat
  os_warning_burn :: rat
  os_critical_burn :: rat
  os_escalation_seconds :: int
  os_paging_enabled :: bool
  os_webhook_url :: "string option"
  os_allowed_hosts :: "string list"
  os_insecure_http :: bool
  os_hmac_secret :: "string option"
  os_hmac_keys :: "(string \<times> string) list"
  os_keys_file :: "string option"
  os_active_key :: "string option"
  os_active_key_file :: "string option"
  os_ca_bundle :: "string option"
  os_provider :: string
  os_require_receipt :: bool
  os_receipt_max_age :: int
  os_max_response :: int

text \<open>What \<^verbatim>\<open>Settings.__init__\<close> stores for the values \<open>raw\<close> of the environment.\<close>

definition bounded_settings :: "ops_settings \<Rightarrow> ops_settings" where
  "bounded_settings raw =
     (let interval = clamp 15 3600 (os_interval raw);
          window = clamp 300 2592000 (os_window raw);
          warning = clamp 1 10000 (os_warning_burn raw)
      in raw\<lparr>os_interval := interval,
             os_retention_days := clamp 1 3650 (os_retention_days raw),
             os_window := window,
             os_short_window := clamp interval window (os_short_window raw),
             os_min_samples := clamp 1 10000 (os_min_samples raw),
             os_identity_target := clamp (1 / 2) 1 (os_identity_target raw),
             os_worker_target := clamp (1 / 2) 1 (os_worker_target raw),
             os_warning_burn := warning,
             os_critical_burn := clamp warning 10000 (os_critical_burn raw),
             os_escalation_seconds := clamp 60 604800 (os_escalation_seconds raw),
             os_provider := strip (os_provider raw),
             os_receipt_max_age := clamp 60 2592000 (os_receipt_max_age raw),
             os_max_response := clamp 512 65536 (os_max_response raw)\<rparr>)"

section \<open>Enumerations\<close>

datatype severity = Sev_Warning | Sev_Critical

fun severity_value :: "severity \<Rightarrow> string" where
  "severity_value Sev_Warning = ''warning''"
| "severity_value Sev_Critical = ''critical''"

definition severity_route :: "severity \<Rightarrow> string" where
  "severity_route s = (if s = Sev_Critical then ''model-atlas-critical'' else ''model-atlas-warning'')"

datatype ops_health = Ops_Healthy | Ops_Degraded | Ops_Critical

fun ops_health_value :: "ops_health \<Rightarrow> string" where
  "ops_health_value Ops_Healthy = ''healthy''"
| "ops_health_value Ops_Degraded = ''degraded''"
| "ops_health_value Ops_Critical = ''critical''"

datatype slo_scope = Scope_Identity | Scope_Worker

fun scope_value :: "slo_scope \<Rightarrow> string" where
  "scope_value Scope_Identity = ''identity''"
| "scope_value Scope_Worker = ''worker''"

text \<open>\<^verbatim>\<open>scope.title()\<close>.\<close>

fun scope_title :: "slo_scope \<Rightarrow> string" where
  "scope_title Scope_Identity = ''Identity''"
| "scope_title Scope_Worker = ''Worker''"

datatype slo_status = Slo_Insufficient | Slo_Met | Slo_Breached

fun slo_status_value :: "slo_status \<Rightarrow> string" where
  "slo_status_value Slo_Insufficient = ''insufficient''"
| "slo_status_value Slo_Met = ''met''"
| "slo_status_value Slo_Breached = ''breached''"

datatype burn_level = Burn_None | Burn_Warning | Burn_Critical

fun burn_level_value :: "burn_level \<Rightarrow> string" where
  "burn_level_value Burn_None = ''none''"
| "burn_level_value Burn_Warning = ''warning''"
| "burn_level_value Burn_Critical = ''critical''"

datatype incident_source = Derived_Alert | Slo_Source | Test_Source

fun incident_source_value :: "incident_source \<Rightarrow> string" where
  "incident_source_value Derived_Alert = ''derived_alert''"
| "incident_source_value Slo_Source = ''slo''"
| "incident_source_value Test_Source = ''test''"

datatype incident_status = Ic_Open | Ic_Resolved

datatype action_verb = Act_Acknowledged | Act_Assigned | Act_Note | Act_Escalated

fun action_verb_value :: "action_verb \<Rightarrow> string" where
  "action_verb_value Act_Acknowledged = ''acknowledged''"
| "action_verb_value Act_Assigned = ''assigned''"
| "action_verb_value Act_Note = ''note''"
| "action_verb_value Act_Escalated = ''escalated''"

datatype page_transition = Page_Opened | Page_Resolved | Page_Test | Page_Escalated

fun page_transition_value :: "page_transition \<Rightarrow> string" where
  "page_transition_value Page_Opened = ''opened''"
| "page_transition_value Page_Resolved = ''resolved''"
| "page_transition_value Page_Test = ''test''"
| "page_transition_value Page_Escalated = ''escalated''"

datatype delivery_status = Dl_Queued | Dl_Delivered | Dl_Failed

fun delivery_status_value :: "delivery_status \<Rightarrow> string" where
  "delivery_status_value Dl_Queued = ''queued''"
| "delivery_status_value Dl_Delivered = ''delivered''"
| "delivery_status_value Dl_Failed = ''failed''"

section \<open>Rows\<close>

record metric_sample =
  ms_name :: string
  ms_value :: rat
  ms_help :: string
  ms_labels :: "(string \<times> string) list"

record metric_snapshot =
  sn_id :: uuid
  sn_bucket :: instant
  sn_generated_at :: instant
  sn_expires_at :: instant
  sn_health :: ops_health
  sn_schema_version :: string
  sn_sample_count :: nat
  sn_alert_count :: nat
  sn_hash :: string
  sn_collected_by :: string

record metric_point =
  mp_snapshot_id :: uuid
  mp_name :: string
  mp_value :: rat
  mp_labels :: "(string \<times> string) list"
  mp_labels_hash :: string
  mp_help :: string

record slo_evaluation =
  sl_id :: uuid
  sl_snapshot_id :: uuid
  sl_key :: string
  sl_scope :: slo_scope
  sl_status :: slo_status
  sl_target :: rat
  sl_observed :: "rat option"
  sl_budget :: "rat option"
  sl_window :: int
  sl_short_window :: int
  sl_short_observed :: "rat option"
  sl_burn :: "rat option"
  sl_short_burn :: "rat option"
  sl_burn_level :: burn_level
  sl_samples :: int
  sl_good :: int
  sl_window_start :: instant
  sl_window_end :: instant
  sl_evaluated_at :: instant
  sl_details :: json
  sl_hash :: string

record incident =
  ic_id :: uuid
  ic_active_key :: "string option"
  ic_alert_key :: string
  ic_source :: incident_source
  ic_severity :: severity
  ic_route :: string
  ic_summary :: string
  ic_metric :: "string option"
  ic_value :: "rat option"
  ic_threshold :: "rat option"
  ic_evaluation :: "uuid option"
  ic_status :: incident_status
  ic_opened_at :: instant
  ic_last_seen_at :: instant
  ic_resolved_at :: "instant option"
  ic_acknowledged_at :: "instant option"
  ic_acknowledged_by :: json
  ic_assigned_to :: "string option"
  ic_escalation :: int
  ic_occurrences :: int
  ic_version :: int
  ic_context :: json

record incident_action =
  ia_id :: uuid
  ia_incident_id :: uuid
  ia_verb :: action_verb
  ia_reason :: string
  ia_assignee :: "string option"
  ia_actor :: json
  ia_verified :: bool
  ia_occurred_at :: instant
  ia_previous_hash :: "string option"
  ia_hash :: string

record delivery =
  dl_id :: uuid
  dl_incident_id :: uuid
  dl_job_id :: "uuid option"
  dl_transition :: page_transition
  dl_version :: int
  dl_destination_hash :: string
  dl_key_id :: string
  dl_status :: delivery_status
  dl_payload :: json
  dl_payload_hash :: string
  dl_requested_at :: instant
  dl_last_attempt_at :: "instant option"
  dl_attempts :: int
  dl_response_status :: "int option"
  dl_response_hash :: "string option"
  dl_provider :: "string option"
  dl_event_id :: "string option"
  dl_receipt_id :: "string option"
  dl_accepted_at :: "instant option"
  dl_error :: "string option"
  dl_delivered_at :: "instant option"

record ops_db =
  od_snapshots :: "metric_snapshot list"
  od_points :: "metric_point list"
  od_evaluations :: "slo_evaluation list"
  od_incidents :: "incident list"
  od_actions :: "incident_action list"
  od_deliveries :: "delivery list"

section \<open>Constraints of the tables\<close>

definition in_unit :: "rat option \<Rightarrow> bool" where
  "in_unit x = (case x of None \<Rightarrow> True | Some r \<Rightarrow> 0 \<le> r \<and> r \<le> 1)"

definition not_negative :: "rat option \<Rightarrow> bool" where
  "not_negative x = (case x of None \<Rightarrow> True | Some r \<Rightarrow> 0 \<le> r)"

definition slo_row_ok :: "slo_evaluation \<Rightarrow> bool" where
  "slo_row_ok e \<longleftrightarrow>
     in_unit (Some (sl_target e)) \<and> in_unit (sl_observed e) \<and> in_unit (sl_short_observed e) \<and>
     in_unit (sl_budget e) \<and> not_negative (sl_burn e) \<and> not_negative (sl_short_burn e) \<and>
     0 < sl_window e \<and> 0 < sl_short_window e \<and> sl_short_window e \<le> sl_window e \<and>
     0 \<le> sl_samples e \<and> 0 \<le> sl_good e \<and> sl_good e \<le> sl_samples e"

definition incident_row_ok :: "incident \<Rightarrow> bool" where
  "incident_row_ok c \<longleftrightarrow>
     0 < ic_occurrences c \<and> 0 < ic_version c \<and> 0 \<le> ic_escalation c \<and> ic_escalation c \<le> 3 \<and>
     (ic_status c = Ic_Open \<and> ic_active_key c \<noteq> None \<and> ic_resolved_at c = None \<or>
      ic_status c = Ic_Resolved \<and> ic_active_key c = None \<and> ic_resolved_at c \<noteq> None)"

definition incident_key :: "delivery \<Rightarrow> uuid \<times> page_transition \<times> int" where
  "incident_key d = (dl_incident_id d, dl_transition d, dl_version d)"

section \<open>Errors\<close>

datatype paging_error =
    Paging_Disabled
  | Webhook_Missing
  | Webhook_Credentials
  | Webhook_Query
  | Webhook_Host
  | Webhook_Insecure
  | Keyring_Projection
  | Active_Key_Invalid
  | Active_Key_Absent
  | Keyring_Unavailable
  | Active_Key_Required
  | Signing_Key_Short
  | Ca_Bundle_Missing
  | Provider_Invalid
  | Response_Too_Large
  | Url_Malformed

datatype ops_error =
    Paging paging_error
  | Administration_Refused
  | Collector_Not_Verified
  | Incident_Not_Found
  | Action_Type_Invalid
  | Assignee_Misplaced
  | Incident_Not_Open
  | Already_Acknowledged
  | Assignee_Required
  | Delivery_Not_Found
  | Delivery_Error string
  | Delivery_Rejected int
  | Receipt_Invalid
  | Constraint_Violated
  | Uncaught_Error

end
