(* ===== verification/Paging.thy ===== *)
theory Paging
  imports Reliability_Rows
begin

text \<open>
  The paging of incidents, \<^verbatim>\<open>operational_reliability/paging.py\<close>, with the projected secrets of
  \<^verbatim>\<open>core/secret_projection.py\<close>: the choice of the signing key, the checks of the destination, the
  delivery rows and their execution. A delivery is created with an incident transition and executed by a
  durable job, possibly several times.

  Parameters (\<open>paging_env\<close>): SHA-256 and HMAC, \<^verbatim>\<open>urlsplit\<close> (\<open>None\<close> when it raises), the readable files,
  \<^verbatim>\<open>json.loads\<close> and \<^verbatim>\<open>datetime.fromisoformat\<close> (the instant, and whether it has a zone), and the HTTP client:
  \<open>pe_post\<close> answers a request with a response, its chunks and whether the stream broke after them, or
  fails before a response.
\<close>

record url_parts =
  ur_scheme :: string
  ur_username :: "string option"
  ur_password :: "string option"
  ur_hostname :: "string option"
  ur_query :: string
  ur_fragment :: string
  ur_port :: "int option"

record page_request =
  pr_endpoint :: string
  pr_verify :: "string option"
  pr_content :: string
  pr_event_id :: uuid
  pr_timestamp :: string
  pr_key_id :: string
  pr_signature :: string

datatype http_outcome = No_Response | Response int "string list" bool

record paging_env =
  pe_sha :: "string \<Rightarrow> string"
  pe_hmac :: "string \<Rightarrow> string \<Rightarrow> string"
  pe_urlsplit :: "string \<Rightarrow> url_parts option"
  pe_file :: "string \<Rightarrow> string option"
  pe_loads :: "string \<Rightarrow> json option"
  pe_fromiso :: "string \<Rightarrow> (instant \<times> bool) option"
  pe_post :: "page_request \<Rightarrow> http_outcome"

section \<open>The keyring\<close>

definition MAX_PROJECTED_SECRET_BYTES :: nat where
  "MAX_PROJECTED_SECRET_BYTES = 65536"

text \<open>\<open>None\<close> is the \<^verbatim>\<open>ValueError\<close>.\<close>

definition read_projected_secret :: "paging_env \<Rightarrow> string \<Rightarrow> string option" where
  "read_projected_secret env path =
     (case pe_file env path of
        None \<Rightarrow> None
      | Some bytes \<Rightarrow>
          if bytes = [] \<or> MAX_PROJECTED_SECRET_BYTES < length bytes then None
          else let v = strip bytes in if v = [] then None else Some v)"

fun projected_entries :: "(string \<times> json) list \<Rightarrow> (string \<times> string) list \<Rightarrow> (string \<times> string) list option" where
  "projected_entries [] acc = Some acc"
| "projected_entries ((k, v) # kvs) acc =
     (case v of
        JStr secret \<Rightarrow>
          let key = strip k in
          if key = [] \<or> secret = [] \<or> key \<in> fst ` set acc then None
          else projected_entries kvs (acc @ [(key, secret)])
      | _ \<Rightarrow> None)"

definition read_projected_string_map :: "paging_env \<Rightarrow> string \<Rightarrow> (string \<times> string) list option" where
  "read_projected_string_map env path =
     (case read_projected_secret env path of
        None \<Rightarrow> None
      | Some text \<Rightarrow>
          (case pe_loads env text of
             Some (JObj kvs) \<Rightarrow>
               (case projected_entries kvs [] of
                  Some (e # es) \<Rightarrow> Some (e # es)
                | _ \<Rightarrow> None)
           | _ \<Rightarrow> None))"

definition opt_text :: "string option \<Rightarrow> string" where
  "opt_text x = (case x of None \<Rightarrow> [] | Some s \<Rightarrow> s)"

text \<open>
  The dict comprehension over the configured keys: stripped identifiers, a later entry with the same
  identifier replaces the secret of an earlier one.
\<close>

fun key_put :: "string \<Rightarrow> string \<Rightarrow> (string \<times> string) list \<Rightarrow> (string \<times> string) list" where
  "key_put k v [] = [(k, v)]"
| "key_put k v ((k', v') # kvs) = (if k' = k then (k, v) # kvs else (k', v') # key_put k v kvs)"

definition configured_keys :: "(string \<times> string) list \<Rightarrow> (string \<times> string) list" where
  "configured_keys kvs =
     fold (\<lambda>(k, v) acc. if strip k \<noteq> [] \<and> v \<noteq> [] then key_put (strip k) v acc else acc) kvs []"

definition paging_keyring :: "paging_env \<Rightarrow> ops_settings \<Rightarrow> paging_error + (string \<times> string) list" where
  "paging_keyring env st =
     (let path = strip (opt_text (os_keys_file st)) in
      if path \<noteq> [] then of_option Keyring_Projection (read_projected_string_map env path)
      else let ring = configured_keys (os_hmac_keys st); legacy = opt_text (os_hmac_secret st)
           in Inr (if legacy \<noteq> [] \<and> ''legacy'' \<notin> fst ` set ring then ring @ [(''legacy'', legacy)] else ring))"

definition is_alnum :: "char \<Rightarrow> bool" where
  "is_alnum c = (let n = (of_char c :: nat) in 48 \<le> n \<and> n \<le> 57 \<or> 65 \<le> n \<and> n \<le> 90 \<or> 97 \<le> n \<and> n \<le> 122)"

definition identifier_chars :: "string \<Rightarrow> bool" where
  "identifier_chars s = list_all (\<lambda>c. is_alnum c \<or> c \<in> set ''._-'') s"

definition configured_active_key :: "paging_env \<Rightarrow> ops_settings \<Rightarrow> paging_error + string" where
  "configured_active_key env st =
     (let path = strip (opt_text (os_active_key_file st)) in
      if path \<noteq> [] then of_option Keyring_Projection (read_projected_secret env path)
      else Inr (strip (opt_text (os_active_key st))))"

text \<open>\<^verbatim>\<open>_active_paging_key_id\<close>; \<open>required\<close> turns a missing choice into an error.\<close>

definition active_paging_key ::
  "paging_env \<Rightarrow> ops_settings \<Rightarrow> bool \<Rightarrow> paging_error + string option" where
  "active_paging_key env st required =
     bind_res (paging_keyring env st) (\<lambda>ring.
     bind_res (configured_active_key env st) (\<lambda>configured.
     if configured \<noteq> [] then
       (if 120 < length configured \<or> \<not> identifier_chars configured
        then if required then Inl Active_Key_Invalid else Inr None
        else if configured \<notin> fst ` set ring
        then if required then Inl Active_Key_Absent else Inr (Some configured)
        else Inr (Some configured))
     else (case ring of
             [(k, s)] \<Rightarrow> Inr (Some k)
           | _ \<Rightarrow> if required then Inl (if ring = [] then Keyring_Unavailable else Active_Key_Required)
                  else Inr None)))"

definition paging_signing_secret :: "paging_env \<Rightarrow> ops_settings \<Rightarrow> string \<Rightarrow> paging_error + string" where
  "paging_signing_secret env st key =
     bind_res (paging_keyring env st) (\<lambda>ring.
     case map_of ring key of
       Some secret \<Rightarrow> if length secret < 32 then Inl Signing_Key_Short else Inr secret
     | None \<Rightarrow> Inl Signing_Key_Short)"

definition valid_provider :: "ops_settings \<Rightarrow> bool" where
  "valid_provider st =
     (let v = strip (os_provider st) in v \<noteq> [] \<and> length v \<le> 80 \<and> identifier_chars v)"

definition paging_provider :: "ops_settings \<Rightarrow> bool \<Rightarrow> paging_error + string" where
  "paging_provider st required =
     (if valid_provider st then Inr (strip (os_provider st))
      else if required then Inl Provider_Invalid else Inr ''invalid'')"

datatype secret_source = Projected_File | Environment_Keyring | Legacy_Environment | Unconfigured | Invalid_Source

datatype paging_fault = Fault_Configuration paging_error | Fault_Short_Key | Fault_No_Active | Fault_Active_Absent

record paging_state =
  ps_source :: secret_source
  ps_key_count :: nat
  ps_active_key :: "string option"
  ps_error :: "paging_fault option"

definition secret_source_of :: "ops_settings \<Rightarrow> secret_source" where
  "secret_source_of st =
     (if opt_text (os_keys_file st) \<noteq> [] then Projected_File
      else if os_hmac_keys st \<noteq> [] then Environment_Keyring
      else if opt_text (os_hmac_secret st) \<noteq> [] then Legacy_Environment else Unconfigured)"

definition paging_configuration_state :: "paging_env \<Rightarrow> ops_settings \<Rightarrow> paging_state" where
  "paging_configuration_state env st =
     (case bind_res (paging_keyring env st) (\<lambda>ring.
           bind_res (active_paging_key env st False) (\<lambda>active. Inr (ring, active))) of
        Inl e \<Rightarrow> \<lparr>ps_source = Invalid_Source, ps_key_count = 0, ps_active_key = None,
                  ps_error = Some (Fault_Configuration e)\<rparr>
      | Inr (ring, active) \<Rightarrow>
          let (key, fault) =
            (if list_ex (\<lambda>(k, s). length s < 32) ring then (None, Some Fault_Short_Key)
             else case active of
               None \<Rightarrow> (None, Some Fault_No_Active)
             | Some k \<Rightarrow> if k \<notin> fst ` set ring then (None, Some Fault_Active_Absent) else (Some k, None))
          in \<lparr>ps_source = secret_source_of st, ps_key_count = length ring, ps_active_key = key, ps_error = fault\<rparr>)"

section \<open>The destination\<close>

definition starts_with :: "string \<Rightarrow> string \<Rightarrow> bool" where
  "starts_with p s = (take (length p) s = p)"

definition ends_with :: "string \<Rightarrow> string \<Rightarrow> bool" where
  "ends_with p s = (length p \<le> length s \<and> drop (length s - length p) s = p)"

definition host_matches :: "string \<Rightarrow> string \<Rightarrow> bool" where
  "host_matches host raw =
     (let v = lower (strip raw) in
      v \<noteq> [] \<and> (starts_with ''*.'' v \<and> ends_with (tl v) host \<and> host \<noteq> drop 2 v \<or> host = v))"

definition host_is_allowed :: "string \<Rightarrow> string list \<Rightarrow> bool" where
  "host_is_allowed host allowed = list_ex (host_matches host) allowed"

definition validated_endpoint :: "paging_env \<Rightarrow> ops_settings \<Rightarrow> paging_error + string" where
  "validated_endpoint env st =
     (let v = strip (opt_text (os_webhook_url st)) in
      if v = [] then Inl Webhook_Missing else
      bind_res (of_option Url_Malformed (pe_urlsplit env v)) (\<lambda>u.
      let host = lower (opt_text (ur_hostname u)) in
      if opt_text (ur_username u) \<noteq> [] \<or> opt_text (ur_password u) \<noteq> [] then Inl Webhook_Credentials
      else if ur_query u \<noteq> [] \<or> ur_fragment u \<noteq> [] then Inl Webhook_Query
      else if host = [] \<or> \<not> host_is_allowed host (os_allowed_hosts st) then Inl Webhook_Host
      else if ur_scheme u = ''https'' then Inr v
      else if ur_scheme u = ''http'' \<and> os_insecure_http st then Inr v
      else Inl Webhook_Insecure))"

text \<open>\<open>None\<close> is the system trust store (\<^verbatim>\<open>True\<close>).\<close>

definition tls_verification :: "paging_env \<Rightarrow> ops_settings \<Rightarrow> string \<Rightarrow> paging_error + string option" where
  "tls_verification env st endpoint =
     bind_res (of_option Url_Malformed (pe_urlsplit env endpoint)) (\<lambda>u.
     let bundle = strip (opt_text (os_ca_bundle st)) in
     if ur_scheme u \<noteq> ''https'' \<or> bundle = [] then Inr None
     else if pe_file env bundle = None then Inl Ca_Bundle_Missing else Inr (Some bundle))"

section \<open>Creating a delivery\<close>

definition PAGING_EVENT_VERSION :: string where
  "PAGING_EVENT_VERSION = ''model-atlas-paging-event-v2''"

definition page_payload :: "uuid \<Rightarrow> incident \<Rightarrow> page_transition \<Rightarrow> instant \<Rightarrow> json" where
  "page_payload new_id c transition now = JObj
     [(''schema_version'', JStr PAGING_EVENT_VERSION),
      (''delivery_id'', JStr new_id),
      (''incident_id'', JStr (ic_id c)),
      (''transition_type'', JStr (page_transition_value transition)),
      (''transition_version'', JInt (ic_version c)),
      (''occurred_at'', iso now),
      (''alert'', JObj
        [(''key'', JStr (ic_alert_key c)),
         (''source_type'', JStr (incident_source_value (ic_source c))),
         (''severity'', JStr (severity_value (ic_severity c))),
         (''route'', JStr (ic_route c)),
         (''summary'', JStr (ic_summary c)),
         (''metric_name'', opt_json JStr (ic_metric c)),
         (''current_value'', opt_json JFloat (ic_value c)),
         (''threshold'', opt_json JFloat (ic_threshold c))]),
      (''response'', JObj
        [(''acknowledged_at'', opt_json iso (ic_acknowledged_at c)),
         (''assigned_to'', opt_json JStr (ic_assigned_to c)),
         (''escalation_level'', JInt (ic_escalation c))])]"

definition new_delivery ::
  "paging_env \<Rightarrow> ops_settings \<Rightarrow> uuid \<Rightarrow> incident \<Rightarrow> page_transition \<Rightarrow> instant \<Rightarrow> string \<Rightarrow> string \<Rightarrow> delivery" where
  "new_delivery env st new_id c transition now key provider =
     \<lparr>dl_id = new_id, dl_incident_id = ic_id c, dl_job_id = None, dl_transition = transition,
      dl_version = ic_version c,
      dl_destination_hash = pe_sha env (if opt_text (os_webhook_url st) = [] then ''unconfigured''
                                        else opt_text (os_webhook_url st)),
      dl_key_id = key, dl_status = Dl_Queued, dl_payload = page_payload new_id c transition now,
      dl_payload_hash = stable_hash (pe_sha env) (page_payload new_id c transition now),
      dl_requested_at = now, dl_last_attempt_at = None, dl_attempts = 0, dl_response_status = None,
      dl_response_hash = None, dl_provider = Some provider, dl_event_id = None, dl_receipt_id = None,
      dl_accepted_at = None, dl_error = None, dl_delivered_at = None\<rparr>"

definition create_delivery ::
  "paging_env \<Rightarrow> ops_settings \<Rightarrow> uuid \<Rightarrow> incident \<Rightarrow> page_transition \<Rightarrow> instant \<Rightarrow> ops_db \<Rightarrow>
   ops_error + ops_db \<times> delivery" where
  "create_delivery env st new_id c transition now db =
     (case active_paging_key env st True of
        Inl e \<Rightarrow> Inl (Paging e)
      | Inr None \<Rightarrow> Inl (Paging Keyring_Unavailable)
      | Inr (Some key) \<Rightarrow>
          (case paging_provider st True of
             Inl e \<Rightarrow> Inl (Paging e)
           | Inr provider \<Rightarrow>
               let d = new_delivery env st new_id c transition now key provider in
               if dl_id d \<in> dl_id ` set (od_deliveries db) \<or>
                  incident_key d \<in> incident_key ` set (od_deliveries db) \<or>
                  dl_payload_hash d \<in> dl_payload_hash ` set (od_deliveries db)
               then Inl Constraint_Violated
               else Inr (db\<lparr>od_deliveries := od_deliveries db @ [d]\<rparr>, d)))"

section \<open>Provider receipts\<close>

record provider_receipt =
  rp_provider :: string
  rp_event_id :: string
  rp_receipt_id :: string
  rp_accepted_at :: instant

definition provider_identifier :: "json \<Rightarrow> string option" where
  "provider_identifier v =
     (case v of
        JStr s \<Rightarrow>
          let n = strip s in
          if n = [] \<or> 200 < length n \<or> list_ex (\<lambda>c. (of_char c :: nat) < 33 \<or> 126 < (of_char c :: nat)) n
          then None else Some n
      | _ \<Rightarrow> None)"

text \<open>
  \<^verbatim>\<open>isinstance(value, int)\<close> also holds of a Boolean; an integer beyond the years 1 to 9999 is an error.
\<close>

definition replace_z :: "string \<Rightarrow> string" where
  "replace_z s = concat (map (\<lambda>c. if c = CHR ''Z'' then ''+00:00'' else [c]) s)"

definition provider_accepted_at :: "paging_env \<Rightarrow> json \<Rightarrow> instant option" where
  "provider_accepted_at env v =
     (case v of
        JInt n \<Rightarrow> if -62135596800 \<le> n \<and> n \<le> 253402300799 then Some (seconds n) else None
      | JBool b \<Rightarrow> Some (seconds (if b then 1 else 0))
      | JStr s \<Rightarrow> (case pe_fromiso env (replace_z s) of Some (t, True) \<Rightarrow> Some t | _ \<Rightarrow> None)
      | _ \<Rightarrow> None)"

definition receipt_of ::
  "paging_env \<Rightarrow> ops_settings \<Rightarrow> delivery \<Rightarrow> string \<Rightarrow> instant \<Rightarrow> string \<Rightarrow> provider_receipt option" where
  "receipt_of env st d expected now body =
     (case pe_loads env body of
        Some (JObj kvs) \<Rightarrow>
          let p = JObj kvs in
          if jget p ''schema_version'' \<noteq> JStr ''model-atlas-paging-provider-receipt-v1'' then None
          else if jget p ''accepted'' \<noteq> JBool True then None
          else (case (provider_identifier (jget p ''provider''), provider_identifier (jget p ''provider_event_id''),
                      provider_identifier (jget p ''receipt_id''), provider_accepted_at env (jget p ''accepted_at'')) of
            (Some provider, Some event, Some receipt, Some accepted) \<Rightarrow>
              let age = total_seconds (now - accepted) in
              if provider \<noteq> expected \<or> event \<noteq> dl_id d \<or> of_int (os_receipt_max_age st) < age \<or> age < - 300
              then None
              else Some \<lparr>rp_provider = provider, rp_event_id = event, rp_receipt_id = receipt, rp_accepted_at = accepted\<rparr>
          | _ \<Rightarrow> None)
      | _ \<Rightarrow> None)"

definition parse_provider_receipt ::
  "paging_env \<Rightarrow> ops_settings \<Rightarrow> delivery \<Rightarrow> string \<Rightarrow> instant \<Rightarrow> string \<Rightarrow> ops_error + provider_receipt option" where
  "parse_provider_receipt env st d expected now body =
     (case receipt_of env st d expected now body of
        Some r \<Rightarrow> Inr (Some r)
      | None \<Rightarrow> if os_require_receipt st then Inl Receipt_Invalid else Inr None)"

section \<open>Executing a delivery\<close>

definition failed_delivery ::
  "paging_env \<Rightarrow> int \<Rightarrow> int \<Rightarrow> string \<Rightarrow> instant \<Rightarrow> int option \<Rightarrow> string \<Rightarrow> bool \<Rightarrow> delivery \<Rightarrow> delivery" where
  "failed_delivery env attempt max_attempts message now status body permanent d = d
     \<lparr>dl_status := (if permanent \<or> max_attempts \<le> attempt then Dl_Failed else Dl_Queued),
      dl_last_attempt_at := Some now, dl_attempts := dl_attempts d + 1, dl_response_status := status,
      dl_response_hash := (if body = [] then None else Some (pe_sha env body)),
      dl_error := Some (take 4000 message)\<rparr>"

definition delivered :: "paging_env \<Rightarrow> string \<Rightarrow> instant \<Rightarrow> int \<Rightarrow> string \<Rightarrow> provider_receipt option \<Rightarrow> delivery \<Rightarrow> delivery" where
  "delivered env expected now status body receipt d =
     (let d1 = d\<lparr>dl_status := Dl_Delivered, dl_last_attempt_at := Some now, dl_attempts := dl_attempts d + 1,
                dl_response_status := Some status, dl_response_hash := Some (pe_sha env body),
                dl_provider := Some expected, dl_error := None, dl_delivered_at := Some now\<rparr>
      in case receipt of
           None \<Rightarrow> d1
         | Some r \<Rightarrow> d1\<lparr>dl_provider := Some (rp_provider r), dl_event_id := Some (rp_event_id r),
                       dl_receipt_id := Some (rp_receipt_id r), dl_accepted_at := Some (rp_accepted_at r)\<rparr>)"

text \<open>The chunks read until the limit; \<open>None\<close> when it is exceeded.\<close>

fun read_chunks :: "int \<Rightarrow> string list \<Rightarrow> string \<Rightarrow> string option" where
  "read_chunks limit [] acc = Some acc"
| "read_chunks limit (c # cs) acc =
     (if limit < int (length (acc @ c)) then None else read_chunks limit cs (acc @ c))"

definition page_request_of ::
  "paging_env \<Rightarrow> delivery \<Rightarrow> string \<Rightarrow> string option \<Rightarrow> string \<Rightarrow> instant \<Rightarrow> page_request" where
  "page_request_of env d endpoint verify secret now =
     (let content = canonical_json (dl_payload d); stamp = show_int (now div 1000000)
      in \<lparr>pr_endpoint = endpoint, pr_verify = verify, pr_content = content, pr_event_id = dl_id d,
          pr_timestamp = stamp, pr_key_id = dl_key_id d,
          pr_signature = ''sha256='' @ pe_hmac env secret (stamp @ ''.'' @ content)\<rparr>)"

text \<open>
  The outcome of an attempt: the row it writes and the error it raises afterwards. A \<open>Paging\<close> or
  \<open>Delivery_Rejected\<close> error is a \<^verbatim>\<open>DomainValidationError\<close>, which makes the job permanent; \<open>Delivery_Error\<close>
  and \<open>Receipt_Invalid\<close> are retried. \<open>Uncaught_Error\<close> is the \<^verbatim>\<open>ValueError\<close> of \<^verbatim>\<open>urlsplit\<close>, which writes nothing.
\<close>

definition permanent_status :: "int \<Rightarrow> bool" where
  "permanent_status s \<longleftrightarrow> 400 \<le> s \<and> s < 500 \<and> s \<notin> set [408, 429]"

definition UNREACHABLE :: string where
  "UNREACHABLE = ''operational paging destination could not be reached''"

definition page_outcome ::
  "paging_env \<Rightarrow> ops_settings \<Rightarrow> int \<Rightarrow> int \<Rightarrow> instant \<Rightarrow> string \<Rightarrow> delivery \<Rightarrow> http_outcome \<Rightarrow>
   delivery \<times> (ops_error + unit)" where
  "page_outcome env st attempt max_attempts now expected d outcome =
     (let failed = (\<lambda>msg status body permanent. failed_delivery env attempt max_attempts msg now status body permanent d) in
      case outcome of
        No_Response \<Rightarrow> (failed UNREACHABLE None [] False, Inl (Delivery_Error UNREACHABLE))
      | Response status chunks broken \<Rightarrow>
          (case read_chunks (os_max_response st) chunks [] of
             None \<Rightarrow> (failed ''operational paging response exceeds the configured size limit'' (Some status) [] True,
                      Inl (Paging Response_Too_Large))
           | Some body \<Rightarrow>
               if broken then (failed UNREACHABLE (Some status) [] (permanent_status status), Inl (Delivery_Error UNREACHABLE))
               else if \<not> (200 \<le> status \<and> status < 300) then
                 (let msg = ''operational paging destination returned HTTP '' @ show_int status
                  in (failed msg (Some status) body False,
                      Inl (if permanent_status status then Delivery_Rejected status else Delivery_Error msg)))
               else (case parse_provider_receipt env st d expected now body of
                  Inl e \<Rightarrow> (failed ''operational paging provider receipt is invalid'' (Some status) body False, Inl e)
                | Inr receipt \<Rightarrow> (delivered env expected now status body receipt d, Inr ()))))"

definition paging_message :: "paging_error \<Rightarrow> string" where
  "paging_message e = (case e of
     Paging_Disabled \<Rightarrow> ''operational paging delivery is disabled''
   | Webhook_Missing \<Rightarrow> ''operational paging webhook URL is not configured''
   | Webhook_Credentials \<Rightarrow> ''operational paging URLs cannot contain credentials''
   | Webhook_Query \<Rightarrow> ''operational paging URLs cannot contain query strings or fragments''
   | Webhook_Host \<Rightarrow> ''operational paging host is not in OPERATIONAL_PAGING_ALLOWED_HOSTS''
   | Webhook_Insecure \<Rightarrow> ''operational paging delivery requires HTTPS''
   | Provider_Invalid \<Rightarrow> ''operational paging provider is invalid''
   | _ \<Rightarrow> ''operational paging credential or CA projection is unavailable'')"

text \<open>The provider named on the row, or the configured one when there is none.\<close>

definition expected_provider :: "ops_settings \<Rightarrow> delivery \<Rightarrow> paging_error + string" where
  "expected_provider st d =
     (if opt_text (dl_provider d) \<noteq> [] then Inr (opt_text (dl_provider d)) else paging_provider st True)"

definition attempt_delivery ::
  "paging_env \<Rightarrow> ops_settings \<Rightarrow> int \<Rightarrow> int \<Rightarrow> instant \<Rightarrow> delivery \<Rightarrow> delivery \<times> (ops_error + unit)" where
  "attempt_delivery env st attempt max_attempts now d =
     (let failed = (\<lambda>msg permanent. failed_delivery env attempt max_attempts msg now None [] permanent d);
          projection = ''operational paging credential or CA projection is unavailable''
      in if \<not> os_paging_enabled st
         then (failed (paging_message Paging_Disabled) True, Inl (Paging Paging_Disabled))
         else case validated_endpoint env st of
           Inl e \<Rightarrow> if e = Url_Malformed then (d, Inl Uncaught_Error)
                    else (failed (paging_message e) True, Inl (Paging e))
         | Inr endpoint \<Rightarrow>
             (case expected_provider st d of
                Inl e \<Rightarrow> (failed (paging_message e) True, Inl (Paging e))
              | Inr expected \<Rightarrow>
                  (case bind_res (paging_signing_secret env st (dl_key_id d)) (\<lambda>secret.
                        bind_res (tls_verification env st endpoint) (\<lambda>verify. Inr (secret, verify))) of
                     Inl e \<Rightarrow> (failed projection False, Inl (Delivery_Error projection))
                   | Inr (secret, verify) \<Rightarrow>
                       page_outcome env st attempt max_attempts now expected d
                         (pe_post env (page_request_of env d endpoint verify secret now)))))"

definition put_delivery :: "delivery \<Rightarrow> ops_db \<Rightarrow> ops_db" where
  "put_delivery d db = db\<lparr>od_deliveries := row_put dl_id d (od_deliveries db)\<rparr>"

text \<open>The committed tables and the answer (the row and whether it was delivered before), or the error.\<close>

definition execute_operational_alert_delivery ::
  "paging_env \<Rightarrow> ops_settings \<Rightarrow> uuid \<Rightarrow> int \<Rightarrow> int \<Rightarrow> instant \<Rightarrow> ops_db \<Rightarrow>
   ops_db \<times> (ops_error + delivery \<times> bool)" where
  "execute_operational_alert_delivery env st i attempt max_attempts clock db =
     (case row_find dl_id i (od_deliveries db) of
        None \<Rightarrow> (db, Inl Delivery_Not_Found)
      | Some d \<Rightarrow>
          if dl_status d = Dl_Delivered then (db, Inr (d, True))
          else case attempt_delivery env st attempt max_attempts (whole_seconds clock) d of
            (d', Inl e) \<Rightarrow> (put_delivery d' db, Inl e)
          | (d', Inr _) \<Rightarrow> (put_delivery d' db, Inr (d', False)))"

end
