(* ===== verification/Reliability_Slo.thy ===== *)
theory Reliability_Slo
  imports Reliability_Rows Py_Stats
begin

text \<open>
  Metric samples and what is derived from them: the alerts and the health of
  \<^verbatim>\<open>services/operational_metrics.py\<close>, and the SLO evaluations with their multi-window burn rates
  (\<^verbatim>\<open>operational_reliability/slo.py\<close>, \<^verbatim>\<open>burn_rate.py\<close>). The samples themselves are collected over
  every component and are an argument.
\<close>

section \<open>Alerts\<close>

record ops_alert =
  oa_key :: string
  oa_severity :: severity
  oa_metric :: string
  oa_value :: rat
  oa_threshold :: rat
  oa_summary :: string
  oa_route :: string

definition sample_value :: "metric_sample list \<Rightarrow> string \<Rightarrow> rat option" where
  "sample_value samples =
     map_of (rev (map (\<lambda>s. (ms_name s, ms_value s)) (filter (\<lambda>s. ms_labels s = []) samples)))"

definition value_or_zero :: "metric_sample list \<Rightarrow> string \<Rightarrow> rat" where
  "value_or_zero samples name = (case sample_value samples name of None \<Rightarrow> 0 | Some v \<Rightarrow> v)"

definition new_alert :: "string \<Rightarrow> severity \<Rightarrow> string \<Rightarrow> rat \<Rightarrow> rat \<Rightarrow> string \<Rightarrow> ops_alert" where
  "new_alert key severity metric current threshold summary =
     \<lparr>oa_key = key, oa_severity = severity, oa_metric = metric, oa_value = current,
      oa_threshold = threshold, oa_summary = summary, oa_route = severity_route severity\<rparr>"

text \<open>The rules with threshold 0, in the order of the code.\<close>

definition THRESHOLD_RULES :: "(string \<times> severity \<times> string \<times> string) list" where
  "THRESHOLD_RULES =
     [(''browser_session_retention_due'', Sev_Warning, ''model_atlas_browser_session_retention_due'',
       ''Inactive browser sessions are beyond the configured retention period.''),
      (''browser_session_inactive_provider_token'', Sev_Critical,
       ''model_atlas_browser_session_inactive_provider_token'',
       ''Inactive browser sessions still retain encrypted provider token material.''),
      (''operational_delivery_failed'', Sev_Critical, ''model_atlas_operational_delivery_failed'',
       ''A durable operational paging delivery failed permanently.''),
      (''dead_letter_present'', Sev_Warning, ''model_atlas_job_dead_letter_count'',
       ''One or more durable jobs are dead-lettered.''),
      (''expired_lease_present'', Sev_Critical, ''model_atlas_job_expired_lease_count'',
       ''One or more durable job leases have expired.''),
      (''collector_source_stale'', Sev_Warning, ''model_atlas_collector_source_stale'',
       ''A production traffic collector source is stale.''),
      (''release_review_required'', Sev_Critical, ''model_atlas_release_needs_review'',
       ''A release decision requires operational review.''),
      (''stale_gate_present'', Sev_Warning, ''model_atlas_gate_stale'',
       ''A Gate evaluation is stale and must be reevaluated.''),
      (''production_run_unverified'', Sev_Critical, ''model_atlas_production_run_unverified'',
       ''A production-labeled run does not have an active signed receipt chain.''),
      (''supply_chain_attestation_revoked'', Sev_Warning, ''model_atlas_supply_chain_attestation_revoked'',
       ''A model supply-chain attestation has been revoked.''),
      (''trust_root_revoked'', Sev_Warning, ''model_atlas_trust_root_revoked'',
       ''An evidence signing trust root has been revoked.''),
      (''trust_source_failed'', Sev_Critical, ''model_atlas_trust_source_failed'',
       ''A remote trust source has no successful applied key snapshot.''),
      (''trust_source_stale'', Sev_Warning, ''model_atlas_trust_source_stale'',
       ''A remote trust source key snapshot is stale.''),
      (''trust_source_degraded'', Sev_Warning, ''model_atlas_trust_source_degraded'',
       ''A remote trust source has a newer failed synchronization attempt.''),
      (''trust_source_unsynced'', Sev_Warning, ''model_atlas_trust_source_unsynced'',
       ''A remote trust source is configured but has not applied a key snapshot.''),
      (''trust_source_schedule_retrying'', Sev_Warning, ''model_atlas_trust_source_schedule_retrying'',
       ''An automatic trust-source synchronization job is retrying.''),
      (''trust_source_schedule_failed'', Sev_Critical, ''model_atlas_trust_source_schedule_failed'',
       ''An automatic trust-source synchronization policy exhausted its retries.''),
      (''transparency_proof_pending'', Sev_Warning, ''model_atlas_transparency_proof_pending'',
       ''A production-tier supply-chain attestation lacks active transparency evidence.'')]"

definition threshold_alert ::
  "metric_sample list \<Rightarrow> string \<times> severity \<times> string \<times> string \<Rightarrow> ops_alert option" where
  "threshold_alert samples rule =
     (case rule of (key, severity, metric, summary) \<Rightarrow>
        let v = value_or_zero samples metric
        in if 0 < v then Some (new_alert key severity metric v 0 summary) else None)"

definition derive_alerts :: "metric_sample list \<Rightarrow> ops_alert list" where
  "derive_alerts samples =
     (let queue_depth = value_or_zero samples ''model_atlas_job_queue_depth'';
          online = value_or_zero samples ''model_atlas_worker_online''
      in (if 0 < queue_depth \<and> online < 1
          then [new_alert ''worker_queue_blocked'' Sev_Critical ''model_atlas_worker_online'' online 1
                  ''Durable jobs are queued but no worker is online.''] else [])
         @ List.map_filter (threshold_alert samples) THRESHOLD_RULES)"

definition metrics_health :: "ops_alert list \<Rightarrow> ops_health" where
  "metrics_health alerts =
     (if list_ex (\<lambda>a. oa_severity a = Sev_Critical) alerts then Ops_Critical
      else if alerts \<noteq> [] then Ops_Degraded else Ops_Healthy)"

section \<open>Burn rates\<close>

definition burn_alert_level ::
  "ops_settings \<Rightarrow> slo_status \<Rightarrow> rat option \<Rightarrow> rat option \<Rightarrow> int \<Rightarrow> burn_level" where
  "burn_alert_level st status long short short_samples =
     (if status = Slo_Insufficient \<or> short_samples < os_min_samples st then Burn_None
      else case (long, short) of
        (Some l, Some s) \<Rightarrow>
          if os_critical_burn st \<le> l \<and> os_critical_burn st \<le> s then Burn_Critical
          else if os_warning_burn st \<le> l \<and> os_warning_burn st \<le> s then Burn_Warning
          else Burn_None
      | _ \<Rightarrow> Burn_None)"

definition error_budget_remaining :: "rat option \<Rightarrow> rat \<Rightarrow> rat option" where
  "error_budget_remaining observed target =
     (case observed of None \<Rightarrow> None
      | Some r \<Rightarrow>
          let allowed = 1 - target in
          if allowed \<le> 0 then Some (if 1 \<le> r then 1 else 0)
          else Some (py_round 6 (max 0 (min 1 ((allowed - (1 - r)) / allowed)))))"

definition burn_rate :: "rat option \<Rightarrow> rat \<Rightarrow> rat option" where
  "burn_rate observed target =
     (case observed of None \<Rightarrow> None
      | Some r \<Rightarrow>
          let allowed = 1 - target in
          if allowed \<le> 0 then Some (if 1 \<le> r then 0 else 1000000)
          else Some (py_round 6 (max 0 ((1 - r) / allowed))))"

section \<open>SLO windows\<close>

type_synonym timed_values = "instant \<times> (string \<Rightarrow> rat option)"

record slo_definition =
  sd_key :: string
  sd_scope :: slo_scope
  sd_target :: rat
  sd_metrics :: "string list"
  sd_condition :: string
  sd_good :: "(string \<Rightarrow> rat option) \<Rightarrow> bool"

definition slo_definitions :: "ops_settings \<Rightarrow> slo_definition list" where
  "slo_definitions st =
     [\<lparr>sd_key = ''identity_session_hygiene'', sd_scope = Scope_Identity, sd_target = os_identity_target st,
       sd_metrics = [''model_atlas_browser_session_retention_due'',
                     ''model_atlas_browser_session_inactive_provider_token''],
       sd_condition = ''retention_due == 0 AND inactive_provider_token == 0'',
       sd_good = (\<lambda>v. v ''model_atlas_browser_session_retention_due'' = Some 0 \<and>
                      v ''model_atlas_browser_session_inactive_provider_token'' = Some 0)\<rparr>,
      \<lparr>sd_key = ''worker_control_plane_availability'', sd_scope = Scope_Worker, sd_target = os_worker_target st,
       sd_metrics = [''model_atlas_worker_online'', ''model_atlas_job_expired_lease_count''],
       sd_condition = ''worker_online >= 1 AND expired_lease_count == 0'',
       sd_good = (\<lambda>v. (case v ''model_atlas_worker_online'' of None \<Rightarrow> False | Some n \<Rightarrow> 1 \<le> n) \<and>
                      v ''model_atlas_job_expired_lease_count'' = Some 0)\<rparr>]"

record slo_window =
  sw_ratio :: "rat option"
  sw_samples :: int
  sw_good :: int
  sw_actual :: int
  sw_missing :: int
  sw_start :: "instant option"

text \<open>A snapshot without one of the metrics, and a snapshot that was not taken, count as bad samples.\<close>

definition in_window :: "instant \<Rightarrow> instant \<Rightarrow> timed_values list \<Rightarrow> timed_values list" where
  "in_window t0 t1 samples = filter (\<lambda>(t, v). t0 \<le> t \<and> t \<le> t1) samples"

definition complete_values :: "slo_definition \<Rightarrow> timed_values list \<Rightarrow> (string \<Rightarrow> rat option) list" where
  "complete_values sd samples = filter (\<lambda>v. list_all (\<lambda>m. v m \<noteq> None) (sd_metrics sd)) (map snd samples)"

definition scheduled_samples :: "instant \<Rightarrow> instant option \<Rightarrow> int \<Rightarrow> int" where
  "scheduled_samples t1 start interval =
     (case start of None \<Rightarrow> 0 | Some t \<Rightarrow> \<lfloor>total_seconds (t1 - t) / of_int interval\<rfloor> + 1)"

definition slo_window_stats ::
  "timed_values list \<Rightarrow> slo_definition \<Rightarrow> instant \<Rightarrow> instant \<Rightarrow> int \<Rightarrow> slo_window" where
  "slo_window_stats samples sd t0 t1 interval =
     (let inside = in_window t0 t1 samples;
          complete = complete_values sd inside;
          start = (case inside of [] \<Rightarrow> None | s # _ \<Rightarrow> Some (fst s));
          n = max (int (length inside)) (scheduled_samples t1 start interval);
          good = count_where (sd_good sd) complete
      in \<lparr>sw_ratio = (if n = 0 then None else Some (py_round 6 (of_int good / of_int n))),
          sw_samples = n, sw_good = good, sw_actual = int (length complete),
          sw_missing = max 0 (n - int (length complete)), sw_start = start\<rparr>)"

definition slo_status_of :: "ops_settings \<Rightarrow> slo_definition \<Rightarrow> slo_window \<Rightarrow> slo_status" where
  "slo_status_of st sd w =
     (if sw_samples w < os_min_samples st then Slo_Insufficient
      else case sw_ratio w of
        Some r \<Rightarrow> if sd_target sd \<le> r then Slo_Met else Slo_Breached
      | None \<Rightarrow> Slo_Breached)"

section \<open>Evaluation rows\<close>

text \<open>The unlabelled values of every snapshot in the window, in the order of their time.\<close>

definition empty_labels_hash :: "(string \<Rightarrow> string) \<Rightarrow> string" where
  "empty_labels_hash sha = sha ''{}''"

definition snapshot_values :: "(string \<Rightarrow> string) \<Rightarrow> metric_point list \<Rightarrow> uuid \<Rightarrow> string list \<Rightarrow> string \<Rightarrow> rat option" where
  "snapshot_values sha points i names =
     map_of (rev (map (\<lambda>p. (mp_name p, mp_value p))
       (filter (\<lambda>p. mp_snapshot_id p = i \<and> mp_name p \<in> set names \<and> mp_labels_hash p = empty_labels_hash sha) points)))"

definition slo_samples ::
  "(string \<Rightarrow> string) \<Rightarrow> ops_settings \<Rightarrow> instant \<Rightarrow> ops_db \<Rightarrow> timed_values list" where
  "slo_samples sha st now db =
     (let names = concat (map sd_metrics (slo_definitions st));
          rows = sort_key sn_generated_at
            (filter (\<lambda>s. now - seconds (os_window st) \<le> sn_generated_at s \<and> sn_generated_at s \<le> now) (od_snapshots db))
      in map (\<lambda>s. (sn_generated_at s, snapshot_values sha (od_points db) (sn_id s) names)) rows)"

definition evaluation_details :: "ops_settings \<Rightarrow> slo_definition \<Rightarrow> slo_window \<Rightarrow> slo_window \<Rightarrow> json" where
  "evaluation_details st sd long short = JObj
     [(''metric_names'', JArr (map JStr (sd_metrics sd))),
      (''good_condition'', JStr (sd_condition sd)),
      (''minimum_samples'', JInt (os_min_samples st)),
      (''actual_sample_count'', JInt (sw_actual long)),
      (''missing_sample_count'', JInt (sw_missing long)),
      (''effective_window_started_at'', opt_json iso (sw_start long)),
      (''short_window'', JObj
        [(''sample_count'', JInt (sw_samples short)),
         (''good_sample_count'', JInt (sw_good short)),
         (''actual_sample_count'', JInt (sw_actual short)),
         (''missing_sample_count'', JInt (sw_missing short)),
         (''effective_window_started_at'', opt_json iso (sw_start short))])]"

definition evaluation_canonical :: "slo_evaluation \<Rightarrow> slo_definition \<Rightarrow> slo_window \<Rightarrow> slo_window \<Rightarrow> json" where
  "evaluation_canonical e sd long short = JObj
     [(''snapshot_id'', JStr (sl_snapshot_id e)),
      (''slo_key'', JStr (sl_key e)),
      (''scope'', JStr (scope_value (sl_scope e))),
      (''status'', JStr (slo_status_value (sl_status e))),
      (''target_ratio'', JFloat (sl_target e)),
      (''observed_ratio'', opt_json JFloat (sl_observed e)),
      (''short_observed_ratio'', opt_json JFloat (sl_short_observed e)),
      (''error_budget_remaining_ratio'', opt_json JFloat (sl_budget e)),
      (''burn_rate'', opt_json JFloat (sl_burn e)),
      (''short_burn_rate'', opt_json JFloat (sl_short_burn e)),
      (''burn_alert_level'', JStr (burn_level_value (sl_burn_level e))),
      (''window_seconds'', JInt (sl_window e)),
      (''short_window_seconds'', JInt (sl_short_window e)),
      (''sample_count'', JInt (sl_samples e)),
      (''good_sample_count'', JInt (sl_good e)),
      (''actual_sample_count'', JInt (sw_actual long)),
      (''short_sample_count'', JInt (sw_samples short)),
      (''short_good_sample_count'', JInt (sw_good short)),
      (''window_started_at'', iso (sl_window_start e)),
      (''window_ended_at'', iso (sl_window_end e)),
      (''condition'', JStr (sd_condition sd))]"

definition slo_evaluation_row ::
  "(string \<Rightarrow> string) \<Rightarrow> ops_settings \<Rightarrow> uuid \<Rightarrow> (string \<Rightarrow> uuid) \<Rightarrow> timed_values list \<Rightarrow> instant \<Rightarrow>
   slo_definition \<Rightarrow> slo_evaluation" where
  "slo_evaluation_row sha st snapshot draw samples now sd =
     (let t0 = now - seconds (os_window st);
          long = slo_window_stats samples sd t0 now (os_interval st);
          short = slo_window_stats samples sd (now - seconds (os_short_window st)) now (os_interval st);
          status = slo_status_of st sd long;
          burn = burn_rate (sw_ratio long) (sd_target sd);
          short_burn = burn_rate (sw_ratio short) (sd_target sd);
          e = \<lparr>sl_id = draw (sd_key sd), sl_snapshot_id = snapshot, sl_key = sd_key sd, sl_scope = sd_scope sd,
               sl_status = status, sl_target = sd_target sd, sl_observed = sw_ratio long,
               sl_budget = error_budget_remaining (sw_ratio long) (sd_target sd),
               sl_window = os_window st, sl_short_window = os_short_window st,
               sl_short_observed = sw_ratio short, sl_burn = burn, sl_short_burn = short_burn,
               sl_burn_level = burn_alert_level st status burn short_burn (sw_samples short),
               sl_samples = sw_samples long, sl_good = sw_good long,
               sl_window_start = t0, sl_window_end = now, sl_evaluated_at = now,
               sl_details = evaluation_details st sd long short, sl_hash = []\<rparr>
      in e\<lparr>sl_hash := stable_hash sha (evaluation_canonical e sd long short)\<rparr>)"

definition evaluate_slos ::
  "(string \<Rightarrow> string) \<Rightarrow> ops_settings \<Rightarrow> uuid \<Rightarrow> (string \<Rightarrow> uuid) \<Rightarrow> instant \<Rightarrow> ops_db \<Rightarrow> slo_evaluation list" where
  "evaluate_slos sha st snapshot draw now db =
     map (slo_evaluation_row sha st snapshot draw (slo_samples sha st now db) now) (slo_definitions st)"

text \<open>Inserting them, which the constraints of the table can refuse.\<close>

definition add_evaluations :: "slo_evaluation list \<Rightarrow> ops_db \<Rightarrow> ops_error + ops_db" where
  "add_evaluations es db =
     (if list_all slo_row_ok es \<and> distinct (map sl_id (od_evaluations db @ es)) \<and>
         distinct (map sl_hash (od_evaluations db @ es)) \<and>
         distinct (map (\<lambda>e. (sl_snapshot_id e, sl_key e)) (od_evaluations db @ es))
      then Inr (db\<lparr>od_evaluations := od_evaluations db @ es\<rparr>) else Inl Constraint_Violated)"

section \<open>Bounds\<close>

lemma window_counts:
  assumes w: "w = slo_window_stats samples sd t0 t1 interval"
  shows "0 \<le> sw_good w" "sw_good w \<le> sw_actual w" "sw_actual w \<le> sw_samples w"
    "sw_missing w = sw_samples w - sw_actual w" "sw_ratio w = None \<longleftrightarrow> sw_samples w = 0"
    "in_unit (sw_ratio w)"
proof -
  let ?in = "in_window t0 t1 samples"
  have len: "length (complete_values sd ?in) \<le> length ?in"
    using length_filter_le [of _ "map snd ?in"] by (simp add: complete_values_def)
  have good: "0 \<le> count_where P vs \<and> count_where P vs \<le> int (length vs)" for P and vs :: "(string \<Rightarrow> rat option) list"
    by (rule count_where_bounds)
  show *: "0 \<le> sw_good w" "sw_good w \<le> sw_actual w" "sw_actual w \<le> sw_samples w"
    "sw_missing w = sw_samples w - sw_actual w" "sw_ratio w = None \<longleftrightarrow> sw_samples w = 0"
    using good len by (auto simp: w slo_window_stats_def Let_def)
  have "0 \<le> py_round 6 (of_int (sw_good w) / of_int (sw_samples w)) \<and>
        py_round 6 (of_int (sw_good w) / of_int (sw_samples w)) \<le> 1" if "sw_samples w \<noteq> 0"
    using * that by (intro py_round_unit) (auto simp: divide_le_eq)
  then show "in_unit (sw_ratio w)"
    by (auto simp: w in_unit_def slo_window_stats_def Let_def)
qed

lemma burn_rate_not_negative: "not_negative (burn_rate r t)"
  using py_round_mono [of 0 _ 6]
  by (auto simp: burn_rate_def not_negative_def Let_def split: option.split)

lemma budget_in_unit: "in_unit (error_budget_remaining r t)"
  using py_round_unit
  by (auto simp: error_budget_remaining_def in_unit_def Let_def split: option.split)

lemma burn_rate_met:
  assumes "t \<le> r" and "burn_rate (Some r) t = Some b"
  shows "b \<le> 1"
proof (cases "1 - t \<le> 0")
  case True
  with assms show ?thesis by (auto simp: burn_rate_def Let_def)
next
  case False
  then have "max 0 ((1 - r) / (1 - t)) \<le> 1" using assms(1) by (simp add: divide_le_eq)
  then have "py_round 6 (max 0 ((1 - r) / (1 - t))) \<le> 1" using py_round_mono [of _ 1 6] by simp
  with False assms(2) show ?thesis by (auto simp: burn_rate_def Let_def)
qed

lemma derived_alert_keys: "distinct (map oa_key (derive_alerts samples))"
proof -
  have keys: "map oa_key (List.map_filter (threshold_alert samples) rs) =
      map fst (filter (\<lambda>(k, s, m, t). 0 < value_or_zero samples m) rs)" for rs
    by (induction rs) (auto simp: List.map_filter_simps threshold_alert_def Let_def new_alert_def)
  have "distinct (''worker_queue_blocked'' # map fst THRESHOLD_RULES)" by code_simp
  then have "distinct (''worker_queue_blocked'' # map fst (filter P THRESHOLD_RULES))" for P
    by (auto intro: distinct_map_filter)
  then show ?thesis
    by (auto simp: derive_alerts_def Let_def keys new_alert_def)
qed

end
