(* ===== verification/Incidents.thy ===== *)
theory Incidents
  imports Paging Reliability_Slo "HOL-Library.Product_Lexorder"
begin

text \<open>
  The incidents of \<^verbatim>\<open>services/operational_reliability\<close>: who may administer them (\<^verbatim>\<open>permissions.py\<close>), the
  hash-chained actions and the escalation (\<^verbatim>\<open>escalation.py\<close>), the reconciliation with the current alerts
  and SLO breaches (\<^verbatim>\<open>incidents.py\<close>), the commands of operators (\<^verbatim>\<open>commands.py\<close>) and the capture cycle that
  takes a snapshot, evaluates the SLOs and reconciles (\<^verbatim>\<open>snapshots.py\<close>).

  Parameters besides those of \<open>Paging\<close>: \<open>oe_choose\<close> picks the row a query with \<^verbatim>\<open>limit(1)\<close> returns among
  rows its order does not separate; \<open>ops_draw\<close> holds the identifiers drawn in a transaction; \<open>locked\<close> are
  the rows other transactions hold, which \<^verbatim>\<open>skip_locked\<close> leaves out; the samples of the metrics are an
  argument of the cycle.
\<close>

record ops_env =
  oe_paging :: paging_env
  oe_choose :: "incident_action list \<Rightarrow> incident_action"

abbreviation oe_sha :: "ops_env \<Rightarrow> string \<Rightarrow> string" where
  "oe_sha env \<equiv> pe_sha (oe_paging env)"

text \<open>Identifiers: one per SLO, per alert key and per incident (a transaction adds at most one row each).\<close>

record ops_draw =
  dr_snapshot :: uuid
  dr_evaluation :: "string \<Rightarrow> uuid"
  dr_incident :: "string \<Rightarrow> uuid"
  dr_action :: "uuid \<Rightarrow> uuid"
  dr_delivery :: "uuid \<Rightarrow> uuid"

section \<open>Permissions\<close>

definition OPERATIONAL_AUDITOR_ROLES :: "string list" where
  "OPERATIONAL_AUDITOR_ROLES = [''Admin'', ''SRE Lead'', ''ML Ops Lead'', ''Release Manager'']"

definition OPERATIONAL_ADMINISTRATOR_ROLES :: "string list" where
  "OPERATIONAL_ADMINISTRATOR_ROLES = [''Admin'', ''SRE Lead'']"

definition ops_role_key :: "string option \<Rightarrow> string" where
  "ops_role_key r = join '' '' (split_ws (lower (strip (opt_text r))))"

definition has_ops_role :: "string list \<Rightarrow> signer_identity \<Rightarrow> bool" where
  "has_ops_role roles sg \<longleftrightarrow>
     identity_verified sg \<and> ops_role_key (role sg) \<in> set (map (\<lambda>r. ops_role_key (Some r)) roles)"

definition can_audit :: "signer_identity \<Rightarrow> bool" where
  "can_audit sg = has_ops_role OPERATIONAL_AUDITOR_ROLES sg"

definition can_administer :: "signer_identity \<Rightarrow> bool" where
  "can_administer sg = has_ops_role OPERATIONAL_ADMINISTRATOR_ROLES sg"

section \<open>Actions\<close>

text \<open>The row the query for the previous action returns: the latest, with ties left to the database.\<close>

definition previous_action :: "ops_env \<Rightarrow> uuid \<Rightarrow> incident_action list \<Rightarrow> incident_action option" where
  "previous_action env i actions =
     (let own = filter (\<lambda>a. ia_incident_id a = i) actions;
          latest = filter (\<lambda>a. list_all (\<lambda>b. ia_occurred_at b \<le> ia_occurred_at a) own) own
      in if latest = [] then None else Some (oe_choose env latest))"

definition action_canonical :: "incident_action \<Rightarrow> json" where
  "action_canonical a = JObj
     [(''incident_id'', JStr (ia_incident_id a)),
      (''action_type'', JStr (action_verb_value (ia_verb a))),
      (''reason'', JStr (ia_reason a)),
      (''assignee'', opt_json JStr (ia_assignee a)),
      (''actor_identity'', ia_actor a),
      (''identity_verified'', JBool (ia_verified a)),
      (''occurred_at'', iso (ia_occurred_at a)),
      (''previous_action_hash'', opt_json JStr (ia_previous_hash a))]"

definition new_action ::
  "ops_env \<Rightarrow> uuid \<Rightarrow> uuid \<Rightarrow> action_verb \<Rightarrow> string \<Rightarrow> string option \<Rightarrow> json \<Rightarrow> bool \<Rightarrow> instant \<Rightarrow>
   incident_action list \<Rightarrow> incident_action" where
  "new_action env new_id i verb reason assignee actor verified now actions =
     (let a = \<lparr>ia_id = new_id, ia_incident_id = i, ia_verb = verb, ia_reason = reason, ia_assignee = assignee,
               ia_actor = actor, ia_verified = verified, ia_occurred_at = now,
               ia_previous_hash = map_option ia_hash (previous_action env i actions), ia_hash = []\<rparr>
      in a\<lparr>ia_hash := stable_hash (oe_sha env) (action_canonical a)\<rparr>)"

definition append_action ::
  "ops_env \<Rightarrow> uuid \<Rightarrow> uuid \<Rightarrow> action_verb \<Rightarrow> string \<Rightarrow> string option \<Rightarrow> json \<Rightarrow> bool \<Rightarrow> instant \<Rightarrow> ops_db \<Rightarrow>
   ops_error + ops_db \<times> incident_action" where
  "append_action env new_id i verb reason assignee actor verified now db =
     (let a = new_action env new_id i verb reason assignee actor verified now (od_actions db) in
      if ia_id a \<in> ia_id ` set (od_actions db) \<or> ia_hash a \<in> ia_hash ` set (od_actions db)
      then Inl Constraint_Violated
      else Inr (db\<lparr>od_actions := od_actions db @ [a]\<rparr>, a))"

definition put_incident :: "incident \<Rightarrow> ops_db \<Rightarrow> ops_db" where
  "put_incident c db = db\<lparr>od_incidents := row_put ic_id c (od_incidents db)\<rparr>"

text \<open>A page for a transition, when paging is enabled.\<close>

definition page_transition_of ::
  "ops_env \<Rightarrow> ops_settings \<Rightarrow> ops_draw \<Rightarrow> incident \<Rightarrow> page_transition \<Rightarrow> instant \<Rightarrow> ops_db \<Rightarrow>
   ops_error + ops_db \<times> uuid list" where
  "page_transition_of env st dw c transition now db =
     (if os_paging_enabled st
      then bind_res (create_delivery (oe_paging env) st (dr_delivery dw (ic_id c)) c transition now db)
             (\<lambda>(db', d). Inr (db', [dl_id d]))
      else Inr (db, []))"

section \<open>Escalation\<close>

definition CONTROLLER_IDENTITY :: json where
  "CONTROLLER_IDENTITY = JObj
     [(''subject_id'', JStr ''model-atlas-operational-controller''),
      (''display_name'', JStr ''Operational Reliability Controller''),
      (''role'', JStr ''system''),
      (''identity_provider'', JStr ''model-atlas''),
      (''auth_source'', JStr ''scheduled-control-loop''),
      (''identity_verified'', JBool True),
      (''ticket_reference'', JNull)]"

definition incident_age :: "incident \<Rightarrow> instant \<Rightarrow> int" where
  "incident_age c now = max 0 ((now - ic_opened_at c) div 1000000)"

definition target_level :: "ops_settings \<Rightarrow> incident \<Rightarrow> instant \<Rightarrow> int" where
  "target_level st c now = min 3 (incident_age c now div os_escalation_seconds st)"

definition escalates :: "ops_settings \<Rightarrow> incident \<Rightarrow> instant \<Rightarrow> bool" where
  "escalates st c now \<longleftrightarrow>
     ic_status c = Ic_Open \<and> ic_severity c = Sev_Critical \<and> ic_acknowledged_at c = None \<and>
     ic_escalation c < target_level st c now"

definition escalated :: "ops_settings \<Rightarrow> instant \<Rightarrow> incident \<Rightarrow> incident" where
  "escalated st now c = c\<lparr>ic_escalation := target_level st c now, ic_version := ic_version c + 1\<rparr>"

definition maybe_escalate_incident ::
  "ops_env \<Rightarrow> ops_settings \<Rightarrow> ops_draw \<Rightarrow> incident \<Rightarrow> instant \<Rightarrow> ops_db \<Rightarrow> ops_error + ops_db \<times> uuid list" where
  "maybe_escalate_incident env st dw c now db =
     (if \<not> escalates st c now then Inr (db, [])
      else let c' = escalated st now c in
        bind_res (append_action env (dr_action dw (ic_id c)) (ic_id c) Act_Escalated
            (''Automatically escalated to level '' @ show_int (ic_escalation c') @ '' after ''
             @ show_int (incident_age c now) @ '' seconds without acknowledgement.'')
            None CONTROLLER_IDENTITY True now (put_incident c' db)) (\<lambda>(db1, a).
        page_transition_of env st dw c' Page_Escalated now db1))"

section \<open>Reconciliation\<close>

record alert_state =
  as_key :: string
  as_source :: incident_source
  as_severity :: severity
  as_route :: string
  as_summary :: string
  as_metric :: string
  as_value :: "rat option"
  as_threshold :: rat
  as_evaluation :: "uuid option"
  as_context :: json

definition alert_state_of :: "uuid \<Rightarrow> ops_alert \<Rightarrow> alert_state" where
  "alert_state_of snapshot a =
     \<lparr>as_key = oa_key a, as_source = Derived_Alert, as_severity = oa_severity a, as_route = oa_route a,
      as_summary = oa_summary a, as_metric = oa_metric a, as_value = Some (oa_value a),
      as_threshold = oa_threshold a, as_evaluation = None,
      as_context = JObj [(''snapshot_id'', JStr snapshot), (''metric_name'', JStr (oa_metric a)),
        (''current_value'', JFloat (oa_value a)), (''threshold'', JFloat (oa_threshold a))]\<rparr>"

definition breach_state_of :: "uuid \<Rightarrow> slo_evaluation \<Rightarrow> alert_state" where
  "breach_state_of snapshot e =
     (let severity = (if sl_burn_level e = Burn_Critical then Sev_Critical else Sev_Warning);
          burn = (if sl_burn_level e \<noteq> Burn_None
                  then burn_level_value (sl_burn_level e) @ '' multi-window burn''
                  else ''no elevated multi-window burn'')
      in \<lparr>as_key = ''slo:'' @ sl_key e, as_source = Slo_Source, as_severity = severity,
          as_route = ''model-atlas-'' @ severity_value severity,
          as_summary = scope_title (sl_scope e) @ '' SLO is below its configured objective with '' @ burn @ ''.'',
          as_metric = ''model_atlas_slo_compliance_ratio'', as_value = sl_observed e, as_threshold = sl_target e,
          as_evaluation = Some (sl_id e),
          as_context = JObj [(''snapshot_id'', JStr snapshot), (''slo_key'', JStr (sl_key e)),
            (''sample_count'', JInt (sl_samples e)), (''good_sample_count'', JInt (sl_good e)),
            (''error_budget_remaining_ratio'', opt_json JFloat (sl_budget e)),
            (''burn_rate'', opt_json JFloat (sl_burn e)), (''short_burn_rate'', opt_json JFloat (sl_short_burn e)),
            (''burn_alert_level'', JStr (burn_level_value (sl_burn_level e)))]\<rparr>)"

text \<open>The dict \<^verbatim>\<open>current\<close>: a later state of a key replaces an earlier one in place.\<close>

fun state_put :: "alert_state \<Rightarrow> alert_state list \<Rightarrow> alert_state list" where
  "state_put s [] = [s]"
| "state_put s (x # xs) = (if as_key x = as_key s then s # xs else x # state_put s xs)"

definition current_states :: "uuid \<Rightarrow> ops_alert list \<Rightarrow> slo_evaluation list \<Rightarrow> alert_state list" where
  "current_states snapshot alerts evaluations =
     fold state_put (map (breach_state_of snapshot) (filter (\<lambda>e. sl_status e = Slo_Breached) evaluations))
       (fold state_put (map (alert_state_of snapshot) alerts) [])"

definition opened_incident :: "uuid \<Rightarrow> alert_state \<Rightarrow> instant \<Rightarrow> incident" where
  "opened_incident new_id s now =
     \<lparr>ic_id = new_id, ic_active_key = Some (as_key s), ic_alert_key = as_key s, ic_source = as_source s,
      ic_severity = as_severity s, ic_route = as_route s, ic_summary = as_summary s,
      ic_metric = Some (as_metric s), ic_value = as_value s, ic_threshold = Some (as_threshold s),
      ic_evaluation = as_evaluation s, ic_status = Ic_Open, ic_opened_at = now, ic_last_seen_at = now,
      ic_resolved_at = None, ic_acknowledged_at = None, ic_acknowledged_by = JNull, ic_assigned_to = None,
      ic_escalation = 0, ic_occurrences = 1, ic_version = 1, ic_context = as_context s\<rparr>"

definition seen_again :: "alert_state \<Rightarrow> instant \<Rightarrow> incident \<Rightarrow> incident" where
  "seen_again s now c = c
     \<lparr>ic_last_seen_at := now, ic_occurrences := ic_occurrences c + 1, ic_severity := as_severity s,
      ic_route := as_route s, ic_summary := as_summary s, ic_metric := Some (as_metric s),
      ic_value := as_value s, ic_threshold := Some (as_threshold s), ic_evaluation := as_evaluation s,
      ic_context := as_context s\<rparr>"

definition resolved_incident :: "instant \<Rightarrow> incident \<Rightarrow> incident" where
  "resolved_incident now c = c
     \<lparr>ic_active_key := None, ic_status := Ic_Resolved, ic_resolved_at := Some now, ic_last_seen_at := now,
      ic_version := ic_version c + 1\<rparr>"

text \<open>The flush of a new incident: its identifier and its active key are unique.\<close>

definition add_incident :: "incident \<Rightarrow> ops_db \<Rightarrow> ops_error + ops_db" where
  "add_incident c db =
     (if ic_id c \<in> ic_id ` set (od_incidents db) \<or>
         (ic_active_key c \<noteq> None \<and> ic_active_key c \<in> ic_active_key ` set (od_incidents db))
      then Inl Constraint_Violated
      else Inr (db\<lparr>od_incidents := od_incidents db @ [c]\<rparr>))"

text \<open>\<open>open_by_key\<close>: the open rows the cycle could lock, the last one of a key.\<close>

definition open_of_key :: "incident list \<Rightarrow> string \<Rightarrow> incident option" where
  "open_of_key active k = map_of (rev (map (\<lambda>c. (ic_alert_key c, c)) active)) k"

definition reconcile_state ::
  "ops_env \<Rightarrow> ops_settings \<Rightarrow> ops_draw \<Rightarrow> incident list \<Rightarrow> instant \<Rightarrow> alert_state \<Rightarrow> ops_db \<Rightarrow>
   ops_error + ops_db \<times> uuid list" where
  "reconcile_state env st dw active now s db =
     (case open_of_key active (as_key s) of
        None \<Rightarrow>
          let c = opened_incident (dr_incident dw (as_key s)) s now in
          bind_res (add_incident c db) (page_transition_of env st dw c Page_Opened now)
      | Some c \<Rightarrow>
          let c' = seen_again s now c in maybe_escalate_incident env st dw c' now (put_incident c' db))"

definition resolve_step ::
  "ops_env \<Rightarrow> ops_settings \<Rightarrow> ops_draw \<Rightarrow> instant \<Rightarrow> incident \<Rightarrow> ops_db \<Rightarrow> ops_error + ops_db \<times> uuid list" where
  "resolve_step env st dw now c db =
     (let c' = resolved_incident now c in page_transition_of env st dw c' Page_Resolved now (put_incident c' db))"

text \<open>A loop whose body may raise and collects the deliveries.\<close>

fun each_step ::
  "('a \<Rightarrow> ops_db \<Rightarrow> ops_error + ops_db \<times> uuid list) \<Rightarrow> 'a list \<Rightarrow> ops_db \<Rightarrow> ops_error + ops_db \<times> uuid list" where
  "each_step f [] db = Inr (db, [])"
| "each_step f (x # xs) db =
     bind_res (f x db) (\<lambda>(db1, ds). bind_res (each_step f xs db1) (\<lambda>(db2, es). Inr (db2, ds @ es)))"

definition reconcile_operational_incidents ::
  "ops_env \<Rightarrow> ops_settings \<Rightarrow> ops_draw \<Rightarrow> uuid list \<Rightarrow> uuid \<Rightarrow> ops_alert list \<Rightarrow> slo_evaluation list \<Rightarrow> instant \<Rightarrow>
   ops_db \<Rightarrow> ops_error + ops_db \<times> uuid list" where
  "reconcile_operational_incidents env st dw locked snapshot alerts evaluations now db =
     (let current = current_states snapshot alerts evaluations;
          active = filter (\<lambda>c. ic_status c = Ic_Open \<and> ic_id c \<notin> set locked) (od_incidents db);
          gone = filter (\<lambda>c. ic_alert_key c \<notin> set (map as_key current)) active
      in bind_res (each_step (reconcile_state env st dw active now) current db) (\<lambda>(db1, opened).
         bind_res (each_step (resolve_step env st dw now) gone db1) (\<lambda>(db2, resolved).
         Inr (db2, opened @ resolved))))"

section \<open>The capture cycle\<close>

definition OPERATIONAL_METRICS_VERSION :: string where
  "OPERATIONAL_METRICS_VERSION = ''model-atlas-operational-metrics-v1''"

definition SNAPSHOT_RETENTION_BATCH_SIZE :: nat where
  "SNAPSHOT_RETENTION_BATCH_SIZE = 1000"

definition bucket_start :: "instant \<Rightarrow> int \<Rightarrow> instant" where
  "bucket_start t interval = (let s = t div 1000000 in seconds (s - s mod interval))"

definition labels_json :: "(string \<times> string) list \<Rightarrow> json" where
  "labels_json ls = JObj (map (\<lambda>(k, v). (k, JStr v)) (sort_key fst ls))"

definition sample_json :: "metric_sample \<Rightarrow> json" where
  "sample_json s = JObj
     [(''name'', JStr (ms_name s)), (''value'', JFloat (ms_value s)), (''labels'', labels_json (ms_labels s)),
      (''help'', JStr (ms_help s))]"

definition alert_json :: "ops_alert \<Rightarrow> json" where
  "alert_json a = JObj
     [(''key'', JStr (oa_key a)), (''severity'', JStr (severity_value (oa_severity a))),
      (''metric_name'', JStr (oa_metric a)), (''current_value'', JFloat (oa_value a)),
      (''threshold'', JFloat (oa_threshold a)), (''summary'', JStr (oa_summary a)), (''route'', JStr (oa_route a))]"

definition snapshot_payload :: "instant \<Rightarrow> instant \<Rightarrow> metric_sample list \<Rightarrow> ops_alert list \<Rightarrow> json" where
  "snapshot_payload bucket now samples alerts = JObj
     [(''bucket_started_at'', iso bucket),
      (''generated_at'', iso now),
      (''health'', JStr (ops_health_value (metrics_health alerts))),
      (''schema_version'', JStr OPERATIONAL_METRICS_VERSION),
      (''samples'', JArr (map sample_json
         (sort_key (\<lambda>s. (ms_name s, canonical_json (labels_json (ms_labels s)))) samples))),
      (''alerts'', JArr (map alert_json (sort_key oa_key alerts)))]"

definition new_snapshot ::
  "ops_env \<Rightarrow> ops_settings \<Rightarrow> uuid \<Rightarrow> instant \<Rightarrow> metric_sample list \<Rightarrow> ops_alert list \<Rightarrow> string \<Rightarrow> metric_snapshot" where
  "new_snapshot env st new_id now samples alerts subject =
     (let bucket = bucket_start now (os_interval st)
      in \<lparr>sn_id = new_id, sn_bucket = bucket, sn_generated_at = now,
          sn_expires_at = now + seconds (86400 * os_retention_days st),
          sn_health = metrics_health alerts, sn_schema_version = OPERATIONAL_METRICS_VERSION,
          sn_sample_count = length samples, sn_alert_count = length alerts,
          sn_hash = stable_hash (oe_sha env) (snapshot_payload bucket now samples alerts),
          sn_collected_by = take 160 subject\<rparr>)"

definition new_point :: "ops_env \<Rightarrow> uuid \<Rightarrow> metric_sample \<Rightarrow> metric_point" where
  "new_point env snapshot s =
     \<lparr>mp_snapshot_id = snapshot, mp_name = ms_name s, mp_value = ms_value s, mp_labels = sort_key fst (ms_labels s),
      mp_labels_hash = stable_hash (oe_sha env) (labels_json (ms_labels s)), mp_help = ms_help s\<rparr>"

definition add_snapshot ::
  "ops_env \<Rightarrow> metric_snapshot \<Rightarrow> metric_sample list \<Rightarrow> ops_db \<Rightarrow> ops_error + ops_db" where
  "add_snapshot env sn samples db =
     (let points = od_points db @ map (new_point env (sn_id sn)) samples in
      if sn_id sn \<in> sn_id ` set (od_snapshots db) \<or> sn_hash sn \<in> sn_hash ` set (od_snapshots db) \<or>
         sn_expires_at sn \<le> sn_generated_at sn \<or>
         \<not> distinct (map (\<lambda>p. (mp_snapshot_id p, mp_name p, mp_labels_hash p)) points)
      then Inl Constraint_Violated
      else Inr (db\<lparr>od_snapshots := od_snapshots db @ [sn], od_points := points\<rparr>))"

text \<open>Deleting snapshots takes their points and evaluations along and clears the links of incidents.\<close>

definition unlink_evaluation :: "uuid list \<Rightarrow> incident \<Rightarrow> incident" where
  "unlink_evaluation lost c =
     (case ic_evaluation c of
        None \<Rightarrow> c
      | Some i \<Rightarrow> if i \<in> set lost then c\<lparr>ic_evaluation := None\<rparr> else c)"

definition delete_snapshots :: "uuid list \<Rightarrow> ops_db \<Rightarrow> ops_db" where
  "delete_snapshots ids db =
     (let lost = map sl_id (filter (\<lambda>e. sl_snapshot_id e \<in> set ids) (od_evaluations db)) in
      db\<lparr>od_snapshots := filter (\<lambda>s. sn_id s \<notin> set ids) (od_snapshots db),
         od_points := filter (\<lambda>p. mp_snapshot_id p \<notin> set ids) (od_points db),
         od_evaluations := filter (\<lambda>e. sl_snapshot_id e \<notin> set ids) (od_evaluations db),
         od_incidents := map (unlink_evaluation lost) (od_incidents db)\<rparr>)"

definition expired_snapshots :: "uuid list \<Rightarrow> instant \<Rightarrow> ops_db \<Rightarrow> uuid list" where
  "expired_snapshots locked now db =
     map sn_id (take SNAPSHOT_RETENTION_BATCH_SIZE (sort_key sn_expires_at
       (filter (\<lambda>s. sn_expires_at s \<le> now \<and> sn_id s \<notin> set locked) (od_snapshots db))))"

record cycle_report =
  cy_snapshot :: uuid
  cy_bucket :: instant
  cy_created :: bool
  cy_deleted :: nat
  cy_evaluations :: "uuid list"
  cy_deliveries :: "uuid list"

definition capture_operational_reliability_cycle ::
  "ops_env \<Rightarrow> ops_settings \<Rightarrow> signer_identity \<Rightarrow> metric_sample list \<Rightarrow> uuid list \<Rightarrow> ops_draw \<Rightarrow> instant \<Rightarrow> ops_db \<Rightarrow>
   ops_error + ops_db \<times> cycle_report" where
  "capture_operational_reliability_cycle env st collector samples locked dw clock db =
     (let now = whole_seconds clock; bucket = bucket_start now (os_interval st) in
      if \<not> identity_verified collector then Inl Collector_Not_Verified
      else case find (\<lambda>s. sn_bucket s = bucket) (od_snapshots db) of
        Some s \<Rightarrow> Inr (db, \<lparr>cy_snapshot = sn_id s, cy_bucket = sn_bucket s, cy_created = False, cy_deleted = 0,
                         cy_evaluations = [], cy_deliveries = []\<rparr>)
      | None \<Rightarrow>
          let expired = expired_snapshots locked now db;
              alerts = derive_alerts samples;
              sn = new_snapshot env st (dr_snapshot dw) now samples alerts (subject_id collector)
          in bind_res (add_snapshot env sn samples (delete_snapshots expired db)) (\<lambda>db1.
             let es = evaluate_slos (oe_sha env) st (sn_id sn) (dr_evaluation dw) now db1 in
             bind_res (add_evaluations es db1) (\<lambda>db2.
             bind_res (reconcile_operational_incidents env st dw locked (sn_id sn) alerts es now db2) (\<lambda>(db3, ds).
             Inr (db3, \<lparr>cy_snapshot = sn_id sn, cy_bucket = bucket, cy_created = True,
                        cy_deleted = length expired, cy_evaluations = map sl_id es, cy_deliveries = ds\<rparr>)))))"

section \<open>The commands of operators\<close>

definition test_incident :: "uuid \<Rightarrow> string \<Rightarrow> severity \<Rightarrow> string \<Rightarrow> signer_identity \<Rightarrow> instant \<Rightarrow> incident" where
  "test_incident new_id key severity reason signer now =
     \<lparr>ic_id = new_id, ic_active_key = None, ic_alert_key = ''paging_delivery_test:'' @ key, ic_source = Test_Source,
      ic_severity = severity, ic_route = severity_route severity, ic_summary = reason, ic_metric = None,
      ic_value = None, ic_threshold = None, ic_evaluation = None, ic_status = Ic_Resolved, ic_opened_at = now,
      ic_last_seen_at = now, ic_resolved_at = Some now, ic_acknowledged_at = None, ic_acknowledged_by = JNull,
      ic_assigned_to = None, ic_escalation = 0, ic_occurrences = 1, ic_version = 1,
      ic_context = JObj [(''test'', JBool True), (''requested_by'', identity_to_json signer)]\<rparr>"

definition create_operational_test_delivery ::
  "ops_env \<Rightarrow> ops_settings \<Rightarrow> signer_identity \<Rightarrow> severity \<Rightarrow> string \<Rightarrow> string \<Rightarrow> ops_draw \<Rightarrow> instant \<Rightarrow> ops_db \<Rightarrow>
   ops_error + ops_db \<times> delivery" where
  "create_operational_test_delivery env st signer severity reason key dw clock db =
     (let now = whole_seconds clock;
          c = test_incident (dr_incident dw key) key severity reason signer now
      in if \<not> can_administer signer then Inl Administration_Refused
         else if \<not> os_paging_enabled st then Inl (Paging Paging_Disabled)
         else bind_res (add_incident c db)
                (create_delivery (oe_paging env) st (dr_delivery dw (ic_id c)) c Page_Test now))"

definition actioned ::
  "action_verb \<Rightarrow> string option \<Rightarrow> signer_identity \<Rightarrow> instant \<Rightarrow> incident \<Rightarrow> ops_error + incident" where
  "actioned verb assignee signer now c =
     (case verb of
        Act_Acknowledged \<Rightarrow>
          if ic_acknowledged_at c \<noteq> None then Inl Already_Acknowledged
          else Inr (c\<lparr>ic_acknowledged_at := Some now, ic_acknowledged_by := identity_to_json signer\<rparr>)
      | Act_Assigned \<Rightarrow>
          (case assignee of
             Some (x # xs) \<Rightarrow> Inr (c\<lparr>ic_assigned_to := Some (x # xs)\<rparr>)
           | _ \<Rightarrow> Inl Assignee_Required)
      | _ \<Rightarrow> Inr c)"

definition record_operational_incident_action ::
  "ops_env \<Rightarrow> uuid \<Rightarrow> signer_identity \<Rightarrow> action_verb \<Rightarrow> string \<Rightarrow> string option \<Rightarrow> ops_draw \<Rightarrow> instant \<Rightarrow> ops_db \<Rightarrow>
   ops_error + ops_db \<times> incident_action" where
  "record_operational_incident_action env i signer verb reason assignee dw clock db =
     (let now = whole_seconds clock in
      if \<not> can_administer signer then Inl Administration_Refused
      else case row_find ic_id i (od_incidents db) of
        None \<Rightarrow> Inl Incident_Not_Found
      | Some c \<Rightarrow>
          if verb = Act_Escalated then Inl Action_Type_Invalid
          else if verb \<noteq> Act_Assigned \<and> assignee \<noteq> None then Inl Assignee_Misplaced
          else if ic_status c \<noteq> Ic_Open \<and> verb \<noteq> Act_Note then Inl Incident_Not_Open
          else bind_res (actioned verb assignee signer now c) (\<lambda>c'.
               append_action env (dr_action dw i) i verb reason assignee (identity_to_json signer)
                 (identity_verified signer) now (put_incident c' db)))"

section \<open>The commands\<close>

datatype ops_command =
    Capture_Cycle signer_identity "metric_sample list" "uuid list" ops_draw instant
  | Test_Page signer_identity severity string string ops_draw instant
  | Incident_Action uuid signer_identity action_verb string "string option" ops_draw instant
  | Execute_Delivery uuid int int instant

fun ops_step :: "ops_env \<Rightarrow> ops_settings \<Rightarrow> ops_command \<Rightarrow> ops_db \<Rightarrow> ops_error + ops_db" where
  "ops_step env st (Capture_Cycle collector samples locked dw clock) db =
     map_sum id fst (capture_operational_reliability_cycle env st collector samples locked dw clock db)"
| "ops_step env st (Test_Page signer severity reason key dw clock) db =
     map_sum id fst (create_operational_test_delivery env st signer severity reason key dw clock db)"
| "ops_step env st (Incident_Action i signer verb reason assignee dw clock) db =
     map_sum id fst (record_operational_incident_action env i signer verb reason assignee dw clock db)"
| "ops_step env st (Execute_Delivery i attempt max_attempts clock) db =
     Inr (fst (execute_operational_alert_delivery (oe_paging env) st i attempt max_attempts clock db))"

end
