(* ===== verification/Job_Handlers.thy ===== *)
theory Job_Handlers
  imports Agent_Jobs Agent_Control Incidents
begin

text \<open>
  What a durable job does, \<^verbatim>\<open>_execute_job\<close> of \<^verbatim>\<open>services/agent_jobs.py\<close>, over the tables of the queue, of
  operational reliability and of the control plane together, and the two enqueue functions that look
  at the rows of other components.

  Parameters (\<open>handler_env\<close>): those of the components, \<open>hd_other\<close> for the handlers of the four job kinds
  whose components are not modelled, and \<open>hd_text\<close>, the text of an exception. \<open>handler_draw\<close> holds the
  clock, the metric samples, the locked rows and the identifiers one execution meets.
\<close>

record system_db =
  sy_queue :: queue_db
  sy_ops :: ops_db
  sy_control :: control_db

datatype job_failure =
    Fail_Control control_error
  | Fail_Gate gate_error
  | Fail_Ops ops_error
  | Fail_Queue job_error
  | Fail_Delivery_Missing
  | Fail_Payload

record handler_env =
  hd_digest :: "string \<Rightarrow> nat"
  hd_ops :: ops_env
  hd_settings :: ops_settings
  hd_control :: control_env
  hd_other :: "job \<Rightarrow> job_outcome"
  hd_text :: "job_failure \<Rightarrow> string"

record handler_draw =
  hw_clock :: instant
  hw_samples :: "metric_sample list"
  hw_locked :: "uuid list"
  hw_ops :: ops_draw
  hw_revision :: revision_draw
  hw_checkpoint :: "string \<Rightarrow> uuid"
  hw_job :: "uuid \<Rightarrow> uuid"

text \<open>Which failures are a \<^verbatim>\<open>DomainValidationError\<close>, after which the job is not retried.\<close>

fun domain_failure :: "job_failure \<Rightarrow> bool" where
  "domain_failure (Fail_Control (Staleness_Error e)) = (e \<notin> {Malformed_Evidence, Duplicate_Id})"
| "domain_failure (Fail_Control e) = (e \<notin> {Duplicate_Checkpoint, Control_Python_Error})"
| "domain_failure (Fail_Gate e) = (e \<notin> {Malformed_Evidence, Duplicate_Id})"
| "domain_failure (Fail_Ops e) =
     (case e of Delivery_Error _ \<Rightarrow> False | Receipt_Invalid \<Rightarrow> False | Constraint_Violated \<Rightarrow> False
      | Uncaught_Error \<Rightarrow> False | _ \<Rightarrow> True)"
| "domain_failure (Fail_Queue e) = (e \<notin> {Integrity_Violation, Retry_Policy_Malformed})"
| "domain_failure Fail_Delivery_Missing = True"
| "domain_failure Fail_Payload = False"

definition executor_identity :: "job \<Rightarrow> signer_identity" where
  "executor_identity j =
     system_worker_identity
       (if opt_text (job_lease_owner j) = [] then subject_id (identity_from_json (job_requested_by j))
        else opt_text (job_lease_owner j))"

text \<open>\<^verbatim>\<open>UUID(str(payload[key]))\<close>; the payloads hold identifiers as text.\<close>

definition payload_uuid :: "json \<Rightarrow> string \<Rightarrow> uuid option" where
  "payload_uuid p key = (case jget p key of JStr s \<Rightarrow> Some s | _ \<Rightarrow> None)"

section \<open>Enqueueing\<close>

definition link_delivery :: "uuid \<Rightarrow> uuid \<Rightarrow> ops_db \<Rightarrow> ops_db" where
  "link_delivery i jid db =
     (case row_find dl_id i (od_deliveries db) of
        None \<Rightarrow> db
      | Some d \<Rightarrow> if dl_job_id d = None then put_delivery (d\<lparr>dl_job_id := Some jid\<rparr>) db else db)"

definition delivery_request :: "uuid \<Rightarrow> signer_identity \<Rightarrow> job_request" where
  "delivery_request i signer =
     plain_request Operational_Alert_Delivery (''operational-alert-delivery:'' @ i)
       (JObj [(''schema_version'', JStr ''operational-alert-delivery-job-v1''), (''delivery_id'', JStr i)])
       signer 5 4"

definition enqueue_operational_alert_delivery_job ::
  "uuid \<Rightarrow> signer_identity \<Rightarrow> instant \<Rightarrow> uuid \<Rightarrow> system_db \<Rightarrow> system_db \<times> (job_failure + job)" where
  "enqueue_operational_alert_delivery_job i signer now new_id s =
     (if \<not> maintenance_identity signer then (s, Inl (Fail_Queue Maintenance_Identity_Required))
      else case row_find dl_id i (od_deliveries (sy_ops s)) of
        None \<Rightarrow> (s, Inl Fail_Delivery_Missing)
      | Some d \<Rightarrow>
          (case dl_job_id d of
             Some k \<Rightarrow> (s, of_option (Fail_Queue Job_Not_Found) (job_find k (q_jobs (sy_queue s))))
           | None \<Rightarrow>
               (case enqueue_job (delivery_request i signer) now new_id (sy_queue s) (sy_queue s) of
                  Inl e \<Rightarrow> (s, Inl (Fail_Queue e))
                | Inr (q, j) \<Rightarrow> (s\<lparr>sy_queue := q, sy_ops := link_delivery i (job_id j) (sy_ops s)\<rparr>, Inr j))))"

definition completed_resume :: "uuid \<Rightarrow> job \<Rightarrow> bool" where
  "completed_resume i j \<longleftrightarrow> job_checkpoint_record_id j = Some i \<and> job_kind j = Agent_Jobs.Resume_Checkpoint \<and>
     job_status j = Completed"

text \<open>The job of a resumed checkpoint, the newest of several (of the earliest row among equals).\<close>

definition newest_job :: "job list \<Rightarrow> job option" where
  "newest_job js = (if js = [] then None else Some (arg_min_list (\<lambda>j. - job_created_at j) js))"

definition resume_request :: "checkpoint \<Rightarrow> int \<Rightarrow> signer_identity \<Rightarrow> job_request" where
  "resume_request c expected signer =
     \<lparr>rq_kind = Agent_Jobs.Resume_Checkpoint,
      rq_dedupe_key = ''resume:'' @ cp_id c @ '':v'' @ show_int expected,
      rq_payload = JObj [(''schema_version'', JStr ''agent-durable-job-v1''),
        (''checkpoint_record_id'', JStr (cp_id c)), (''expected_version'', JInt expected)],
      rq_signer = signer, rq_priority = 20, rq_benchmark_run_id = Some (cp_run_id c),
      rq_benchmark_result_id = Some (cp_result_id c), rq_checkpoint_record_id = Some (cp_id c),
      rq_max_attempts = 3\<rparr>"

definition enqueue_checkpoint_resume_job ::
  "uuid \<Rightarrow> int \<Rightarrow> signer_identity \<Rightarrow> instant \<Rightarrow> uuid \<Rightarrow> system_db \<Rightarrow> job_failure + system_db \<times> job" where
  "enqueue_checkpoint_resume_job i expected signer now new_id s =
     (case checkpoint_find i (sy_control s) of
        None \<Rightarrow> Inl (Fail_Control Checkpoint_Not_Found)
      | Some c \<Rightarrow>
          (case (if cp_status c = Cp_Resumed \<and> cp_transition_result c \<noteq> None
                 then newest_job (filter (completed_resume i) (q_jobs (sy_queue s))) else None) of
             Some j \<Rightarrow> Inr (s, j)
           | None \<Rightarrow>
               if cp_version c \<noteq> expected then Inl (Fail_Control (Version_Conflict expected (cp_version c)))
               else if cp_status c \<noteq> Cp_Approved then Inl (Fail_Control (Wrong_Checkpoint_Status (cp_status c)))
               else (case checked_operation Op_Resume c signer of
                  Inl e \<Rightarrow> Inl (Fail_Control e)
                | Inr _ \<Rightarrow>
                    (case enqueue_job (resume_request c expected signer) now new_id (sy_queue s) (sy_queue s) of
                       Inl e \<Rightarrow> Inl (Fail_Queue e)
                     | Inr (q, j) \<Rightarrow> Inr (s\<lparr>sy_queue := q\<rparr>, j)))))"

section \<open>The handlers\<close>

definition execute_resume_job ::
  "handler_env \<Rightarrow> handler_draw \<Rightarrow> job \<Rightarrow> system_db \<Rightarrow> system_db \<times> (job_failure + json)" where
  "execute_resume_job env dw j s =
     (case (payload_uuid (job_payload j) ''checkpoint_record_id'', py_int (jget (job_payload j) ''expected_version'')) of
        (Some i, Some v) \<Rightarrow>
          (case resume_agent_approval_checkpoint (hd_control env) i v (identity_from_json (job_requested_by j)) (hw_clock dw)
                  (hw_revision dw) (hw_checkpoint dw) (sy_control s) of
             (db, Inl e) \<Rightarrow> (s\<lparr>sy_control := db\<rparr>, Inl (Fail_Control e))
           | (db, Inr out) \<Rightarrow> (s\<lparr>sy_control := db\<rparr>, Inr (JObj
               [(''schema_version'', JStr ''agent-durable-job-v1''),
                (''checkpoint_record_id'', JStr (cp_id (ro_checkpoint out))),
                (''benchmark_run_id'', JStr (ro_run_id out)),
                (''benchmark_result_id'', JStr (ro_result_id out)),
                (''parent_benchmark_run_id'', JStr (ro_parent_run_id out)),
                (''parent_benchmark_result_id'', JStr (ro_parent_result_id out)),
                (''result_revision'', JInt (ro_revision out)),
                (''trace_status'', jget (ro_trace out) ''status'')])))
      | _ \<Rightarrow> (s, Inl Fail_Payload))"

text \<open>Both reconciliations are one transaction, which commits with the job.\<close>

definition execute_reconciliation_job ::
  "handler_env \<Rightarrow> handler_draw \<Rightarrow> system_db \<Rightarrow> system_db \<times> (job_failure + json)" where
  "execute_reconciliation_job env dw s =
     (let now = whole_seconds (hw_clock dw);
          (db, rep) = reconcile_agent_approval_checkpoints now (sy_control s)
      in case reconcile_all_gate_staleness (ct_gate (hd_control env)) now (cn_gates db) of
           Inl e \<Rightarrow> (s, Inl (Fail_Gate e))
         | Inr (gates, st) \<Rightarrow> (s\<lparr>sy_control := db\<lparr>cn_gates := gates\<rparr>\<rparr>, Inr (JObj
             [(''schema_version'', JStr ''agent-durable-job-v1''),
              (''checkpoint_reconciliation'', JObj
                [(''schema_version'', JStr ''agent-checkpoint-reconciliation-v1''),
                 (''reconciled_at'', iso (rc_at rep)),
                 (''expired_count'', JInt (int (rc_expired rep))),
                 (''resumed_without_revision_count'', JInt (int (rc_resumed_without_revision rep)))]),
              (''gate_staleness'', JObj
                [(''schema_version'', JStr ''gate-evidence-staleness-v1''),
                 (''scanned_count'', JInt (int (sr_scanned st))),
                 (''stale_count'', JInt (int (sr_stale st))),
                 (''scopes_checked'', JInt (int (sr_scopes st))),
                 (''reconciled_at'', iso (sr_at st))])])))"

text \<open>One commit per delivery: what was enqueued before an error stays.\<close>

fun enqueue_deliveries ::
  "signer_identity \<Rightarrow> handler_draw \<Rightarrow> uuid list \<Rightarrow> system_db \<Rightarrow> system_db \<times> (job_failure + uuid list)" where
  "enqueue_deliveries signer dw [] s = (s, Inr [])"
| "enqueue_deliveries signer dw (d # ds) s =
     (case enqueue_operational_alert_delivery_job d signer (hw_clock dw) (hw_job dw d) s of
        (s1, Inl e) \<Rightarrow> (s1, Inl e)
      | (s1, Inr j) \<Rightarrow>
          (case enqueue_deliveries signer dw ds s1 of
             (s2, Inl e) \<Rightarrow> (s2, Inl e)
           | (s2, Inr js) \<Rightarrow> (s2, Inr (job_id j # js))))"

definition cycle_result :: "cycle_report \<Rightarrow> string \<Rightarrow> uuid list \<Rightarrow> json" where
  "cycle_result r reason jobs = JObj
     [(''schema_version'', JStr ''model-atlas-operational-reliability-v3''),
      (''snapshot_id'', JStr (cy_snapshot r)),
      (''bucket_started_at'', iso (cy_bucket r)),
      (''created'', JBool (cy_created r)),
      (''retained_snapshot_deleted_count'', JInt (int (cy_deleted r))),
      (''slo_evaluation_ids'', JArr (map JStr (cy_evaluations r))),
      (''delivery_ids'', JArr (map JStr (cy_deliveries r))),
      (''reason'', JStr reason),
      (''delivery_job_ids'', JArr (map JStr jobs))]"

definition execute_cycle_job ::
  "handler_env \<Rightarrow> handler_draw \<Rightarrow> job \<Rightarrow> system_db \<Rightarrow> system_db \<times> (job_failure + json)" where
  "execute_cycle_job env dw j s =
     (case map_of (dict_items (job_payload j)) ''reason'' of
        None \<Rightarrow> (s, Inl Fail_Payload)
      | Some reason \<Rightarrow>
          (case capture_operational_reliability_cycle (hd_ops env) (hd_settings env) (executor_identity j)
                  (hw_samples dw) (hw_locked dw) (hw_ops dw) (hw_clock dw) (sy_ops s) of
             Inl e \<Rightarrow> (s, Inl (Fail_Ops e))
           | Inr (db, r) \<Rightarrow>
               (case enqueue_deliveries (executor_identity j) dw (cy_deliveries r) (s\<lparr>sy_ops := db\<rparr>) of
                  (s1, Inl e) \<Rightarrow> (s1, Inl e)
                | (s1, Inr jobs) \<Rightarrow> (s1, Inr (cycle_result r (py_str reason) jobs)))))"

definition delivery_result :: "delivery \<Rightarrow> bool \<Rightarrow> json" where
  "delivery_result d replay = JObj
     [(''schema_version'', JStr PAGING_EVENT_VERSION),
      (''delivery_id'', JStr (dl_id d)),
      (''incident_id'', JStr (dl_incident_id d)),
      (''status'', JStr (delivery_status_value (dl_status d))),
      (''response_status'', opt_json JInt (dl_response_status d)),
      (''response_hash'', opt_json JStr (dl_response_hash d)),
      (''provider_name'', opt_json JStr (dl_provider d)),
      (''provider_event_id'', opt_json JStr (dl_event_id d)),
      (''provider_receipt_id'', opt_json JStr (dl_receipt_id d)),
      (''provider_accepted_at'', opt_json iso (dl_accepted_at d)),
      (''delivered_at'', opt_json iso (dl_delivered_at d)),
      (''replay'', JBool replay)]"

definition execute_delivery_job ::
  "handler_env \<Rightarrow> handler_draw \<Rightarrow> job \<Rightarrow> system_db \<Rightarrow> system_db \<times> (job_failure + json)" where
  "execute_delivery_job env dw j s =
     (case payload_uuid (job_payload j) ''delivery_id'' of
        None \<Rightarrow> (s, Inl Fail_Payload)
      | Some i \<Rightarrow>
          (case execute_operational_alert_delivery (oe_paging (hd_ops env)) (hd_settings env) i
                  (job_attempt_count j) (job_max_attempts j) (hw_clock dw) (sy_ops s) of
             (db, Inl e) \<Rightarrow> (s\<lparr>sy_ops := db\<rparr>, Inl (Fail_Ops e))
           | (db, Inr (d, replay)) \<Rightarrow> (s\<lparr>sy_ops := db\<rparr>, Inr (delivery_result d replay))))"

definition outcome_of :: "handler_env \<Rightarrow> job_failure + json \<Rightarrow> job_outcome" where
  "outcome_of env res =
     (case res of
        Inr result \<Rightarrow> Outcome_Result result
      | Inl e \<Rightarrow> if domain_failure e then Outcome_Domain_Error (hd_text env e) else Outcome_Error (hd_text env e))"

definition execute_job ::
  "handler_env \<Rightarrow> handler_draw \<Rightarrow> job \<Rightarrow> system_db \<Rightarrow> system_db \<times> job_outcome" where
  "execute_job env dw j s =
     (case job_kind j of
        Agent_Jobs.Resume_Checkpoint \<Rightarrow> map_prod id (outcome_of env) (execute_resume_job env dw j s)
      | Checkpoint_Reconciliation \<Rightarrow> map_prod id (outcome_of env) (execute_reconciliation_job env dw s)
      | Operational_Observability_Cycle \<Rightarrow> map_prod id (outcome_of env) (execute_cycle_job env dw j s)
      | Operational_Alert_Delivery \<Rightarrow> map_prod id (outcome_of env) (execute_delivery_job env dw j s)
      | _ \<Rightarrow> (s, hd_other env j))"

section \<open>Processing a job\<close>

text \<open>
  The commits of \<^verbatim>\<open>process_claimed_agent_job\<close>: \<open>start_job\<close> marks the job running, \<open>run_job\<close> is its handler and
  \<open>settle_job\<close> stores how it ended. A worker that dies stops between two of them.
\<close>

definition start_job :: "uuid \<Rightarrow> string \<Rightarrow> system_db \<Rightarrow> job_error + system_db \<times> job" where
  "start_job jid token s =
     bind_res (begin_agent_job jid token (sy_queue s)) (\<lambda>(q, j). Inr (s\<lparr>sy_queue := q\<rparr>, j))"

definition settle_job ::
  "handler_env \<Rightarrow> uuid \<Rightarrow> job_outcome \<Rightarrow> instant \<Rightarrow> system_db \<Rightarrow> job_error + system_db \<times> job" where
  "settle_job env jid outcome now s =
     bind_res (finish_agent_job (hd_digest env) jid outcome now (sy_queue s)) (\<lambda>(q, j). Inr (s\<lparr>sy_queue := q\<rparr>, j))"

definition process_system_job ::
  "handler_env \<Rightarrow> handler_draw \<Rightarrow> uuid \<Rightarrow> string \<Rightarrow> instant \<Rightarrow> system_db \<Rightarrow> system_db \<times> (job_error + job)" where
  "process_system_job env dw jid token now s =
     (case start_job jid token s of
        Inl e \<Rightarrow> (s, Inl e)
      | Inr (s1, j) \<Rightarrow>
          let (s2, outcome) = execute_job env dw j s1 in
          (case settle_job env jid outcome now s2 of
             Inl e \<Rightarrow> (s2, Inl e)
           | Inr (s3, j2) \<Rightarrow> (s3, Inr j2)))"

end
