(* ===== verification/Judge_Labels.thy ===== *)
theory Judge_Labels
  imports Release_Readiness
begin

text \<open>
  Judge labels: the import of label files (\<^verbatim>\<open>services/judge_label_import.py\<close>), the decisions of
  reviewers on candidate labels (\<^verbatim>\<open>services/judge_label_decisions.py\<close>), the review table
  (\<^verbatim>\<open>services/judge_label_review.py\<close>) and the routes over them
  (\<^verbatim>\<open>api/v1/routes/judge_labels.py\<close>). The state is the evidence tables and the review decisions.
  A label file is the list of its rows: reading JSON and CSV text is the standard library's.
  \<open>Python_Error\<close> is a \<^verbatim>\<open>TypeError\<close> or \<^verbatim>\<open>ValueError\<close> the code does not catch.
\<close>

datatype judge_error =
    Missing_Sample nat
  | Score_Out_Of_Range string
  | No_Label_Values nat
  | Duplicate_Samples "string list"
  | Review_Needs_Verified_Identity
  | Review_Role_Refused
  | Result_Not_Found
  | No_Candidate
  | Candidate_Has_No_Values
  | Candidate_Invalid string
  | Candidate_Out_Of_Range string
  | Same_Identity
  | Already_Applied
  | Invalid_Review_Request
  | Duplicate_Review
  | Python_Error

record label_scores =
  ls_quality :: "rat option"
  ls_groundedness :: "rat option"
  ls_faithfulness :: "rat option"
  ls_human :: "string option"

record judge_label =
  jl_sample :: string
  jl_scores :: label_scores
  jl_source :: string
  jl_model :: "string option"

datatype judge_verb = Approved_Candidate | Overridden | Rejected

fun judge_verb_value :: "judge_verb \<Rightarrow> string" where
  "judge_verb_value Approved_Candidate = ''approved_candidate''"
| "judge_verb_value Overridden = ''overridden''"
| "judge_verb_value Rejected = ''rejected''"

record review_decision =
  jr_id :: uuid
  jr_result_id :: uuid
  jr_case_id :: "uuid option"
  jr_type :: judge_verb
  jr_candidate_hash :: "string option"
  jr_prior :: label_scores
  jr_scores :: "label_scores option"
  jr_applied :: bool
  jr_reviewer :: json
  jr_identity_verified :: bool
  jr_rationale :: string
  jr_criticality :: "criticality option"
  jr_reviewed_at :: instant
  jr_hash :: string

record judge_db =
  jd_evidence :: evidence_db
  jd_reviews :: "review_decision list"

definition scores_json :: "label_scores \<Rightarrow> json" where
  "scores_json s = JObj
     [(''quality_score'', opt_json JFloat (ls_quality s)),
      (''groundedness_score'', opt_json JFloat (ls_groundedness s)),
      (''faithfulness_score'', opt_json JFloat (ls_faithfulness s)),
      (''human_label'', opt_json JStr (ls_human s))]"

definition has_values :: "label_scores \<Rightarrow> bool" where
  "has_values s \<longleftrightarrow>
     ls_quality s \<noteq> None \<or> ls_groundedness s \<noteq> None \<or> ls_faithfulness s \<noteq> None \<or> ls_human s \<noteq> None"

definition or_else :: "'a option \<Rightarrow> 'a option \<Rightarrow> 'a option" where
  "or_else a b = (case a of None \<Rightarrow> b | Some x \<Rightarrow> Some x)"

text \<open>The values present in a label replace those of the result; the absent ones are kept.\<close>

definition write_scores :: "label_scores \<Rightarrow> bench_result \<Rightarrow> bench_result" where
  "write_scores s r = r
     \<lparr>br_quality := or_else (ls_quality s) (br_quality r),
      br_groundedness := or_else (ls_groundedness s) (br_groundedness r),
      br_faithfulness := or_else (ls_faithfulness s) (br_faithfulness r),
      br_human_label := or_else (ls_human s) (br_human_label r)\<rparr>"

definition result_scores :: "bench_result \<Rightarrow> label_scores" where
  "result_scores r =
     \<lparr>ls_quality = br_quality r, ls_groundedness = br_groundedness r,
      ls_faithfulness = br_faithfulness r, ls_human = br_human_label r\<rparr>"

section \<open>Import of label files\<close>

definition JUDGE_LABEL_IMPORT_VERSION :: string where
  "JUDGE_LABEL_IMPORT_VERSION = ''judge-label-import-v1''"

text \<open>\<^verbatim>\<open>value in {None, ""}\<close> hashes the value, which raises on a list or a dict.\<close>

fun none_or_blank :: "json \<Rightarrow> judge_error + bool" where
  "none_or_blank JNull = Inr True"
| "none_or_blank (JStr s) = Inr (s = [])"
| "none_or_blank (JArr _) = Inl Python_Error"
| "none_or_blank (JObj _) = Inl Python_Error"
| "none_or_blank _ = Inr False"

definition optional_score :: "json \<Rightarrow> string \<Rightarrow> judge_error + rat option" where
  "optional_score row key =
     bind_res (none_or_blank (jget row key)) (\<lambda>blank.
     if blank then Inr None else
     bind_res (of_option Python_Error (py_float (jget row key))) (\<lambda>score.
     if score < 0 \<or> 1 < score then Inl (Score_Out_Of_Range key) else Inr (Some score)))"

definition optional_text :: "json \<Rightarrow> string \<Rightarrow> judge_error + string option" where
  "optional_text row key =
     bind_res (none_or_blank (jget row key)) (\<lambda>blank.
     Inr (if blank then None else Some (py_str (jget row key))))"

definition normalize_label :: "nat \<Rightarrow> json \<Rightarrow> judge_error + judge_label" where
  "normalize_label n row =
     (let sample = py_or (jget row ''sample_id'') (jget row ''external_case_id'') in
      bind_res (none_or_blank sample) (\<lambda>missing.
      if missing then Inl (Missing_Sample n) else
      bind_res (optional_score row ''quality_score'') (\<lambda>quality.
      bind_res (optional_score row ''groundedness_score'') (\<lambda>grounded.
      bind_res (optional_score row ''faithfulness_score'') (\<lambda>faithful.
      bind_res (optional_text row ''human_label'') (\<lambda>human.
      bind_res (optional_text row ''judge_source'') (\<lambda>source.
      bind_res (optional_text row ''judge_model'') (\<lambda>model.
      let scores = \<lparr>ls_quality = quality, ls_groundedness = grounded, ls_faithfulness = faithful,
                    ls_human = human\<rparr>
      in if has_values scores
         then Inr \<lparr>jl_sample = py_str sample, jl_scores = scores,
                   jl_source = (case source of None \<Rightarrow> ''imported'' | Some s \<Rightarrow> s), jl_model = model\<rparr>
         else Inl (No_Label_Values n)))))))))"

fun normalize_labels :: "nat \<Rightarrow> json list \<Rightarrow> judge_error + judge_label list" where
  "normalize_labels n [] = Inr []"
| "normalize_labels n (row # rows) =
     bind_res (normalize_label n row) (\<lambda>l.
     bind_res (normalize_labels (Suc n) rows) (\<lambda>ls. Inr (l # ls)))"

fun duplicate_samples :: "string list \<Rightarrow> string list \<Rightarrow> string list" where
  "duplicate_samples seen [] = []"
| "duplicate_samples seen (s # ss) =
     (if s \<in> set seen then [s] else []) @ duplicate_samples (s # seen) ss"

definition validate_unique_samples :: "judge_label list \<Rightarrow> judge_error + unit" where
  "validate_unique_samples labels =
     (let ds = duplicate_samples [] (map jl_sample labels)
      in if ds = [] then Inr () else Inl (Duplicate_Samples (sorted_set ds)))"

definition import_metadata :: "signer_identity option \<Rightarrow> judge_label \<Rightarrow> json" where
  "import_metadata reviewer l =
     JObj ([(''version'', JStr JUDGE_LABEL_IMPORT_VERSION),
            (''source'', JStr (jl_source l)),
            (''judge_model'', opt_json JStr (jl_model l)),
            (''applied'', JBool True)]
           @ (case reviewer of None \<Rightarrow> []
              | Some i \<Rightarrow> [(''human_reviewed'', JBool True), (''reviewer_type'', JStr ''human''),
                           (''reviewer_identity'', identity_to_json i)]))"

definition apply_label :: "signer_identity option \<Rightarrow> judge_label \<Rightarrow> bench_result \<Rightarrow> bench_result" where
  "apply_label reviewer l r =
     (let m = dict_set ''judge_label'' (import_metadata reviewer l) (or_empty_dict (br_metadata r))
      in (write_scores (jl_scores l) r)
           \<lparr>br_metadata := (if reviewer = None then m else dict_set ''human_reviewed'' (JBool True) m)\<rparr>)"

text \<open>\<^verbatim>\<open>{result.sample_id: result for result in results}\<close>: of two results with one sample the later counts.\<close>

definition result_of_sample :: "uuid \<Rightarrow> string \<Rightarrow> bench_result list \<Rightarrow> bench_result option" where
  "result_of_sample run sample results =
     row_find br_sample_id sample (rev (filter (\<lambda>r. br_run_id r = run) results))"

record import_state =
  is_matched :: nat
  is_missing :: nat
  is_deltas :: "rat list"
  is_results :: "bench_result list"

definition import_step ::
  "uuid \<Rightarrow> bool \<Rightarrow> signer_identity option \<Rightarrow> judge_label \<Rightarrow> import_state \<Rightarrow> import_state" where
  "import_step run apply_labels reviewer l st =
     (case result_of_sample run (jl_sample l) (is_results st) of
        None \<Rightarrow> st\<lparr>is_missing := is_missing st + 1\<rparr>
      | Some r \<Rightarrow> st
          \<lparr>is_matched := is_matched st + 1,
           is_deltas := is_deltas st
             @ (case (ls_quality (jl_scores l), br_quality r) of
                  (Some q, Some p) \<Rightarrow> [\<bar>q - p\<bar>] | _ \<Rightarrow> []),
           is_results :=
             (if apply_labels then row_put br_id (apply_label reviewer l r) (is_results st)
              else is_results st)\<rparr>)"

record import_summary =
  im_sum_run :: uuid
  im_sum_labels :: nat
  im_sum_matched :: nat
  im_sum_missing :: nat
  im_sum_applied :: bool
  im_sum_quality :: nat
  im_sum_delta :: "rat option"

definition import_judge_label_rows ::
  "uuid \<Rightarrow> json list \<Rightarrow> bool \<Rightarrow> signer_identity option \<Rightarrow> judge_db \<Rightarrow>
   judge_error + judge_db \<times> import_summary" where
  "import_judge_label_rows run rows apply_labels reviewer db =
     bind_res (normalize_labels 1 rows) (\<lambda>labels.
     bind_res (validate_unique_samples labels) (\<lambda>_.
     let ev = jd_evidence db;
         st = fold (import_step run apply_labels reviewer) labels
                \<lparr>is_matched = 0, is_missing = 0, is_deltas = [], is_results = e_results ev\<rparr>
     in Inr (db\<lparr>jd_evidence := ev\<lparr>e_results := is_results st\<rparr>\<rparr>,
             \<lparr>im_sum_run = run, im_sum_labels = length labels, im_sum_matched = is_matched st,
              im_sum_missing = is_missing st, im_sum_applied = apply_labels,
              im_sum_quality = length (filter (\<lambda>l. ls_quality (jl_scores l) \<noteq> None) labels),
              im_sum_delta = mean (is_deltas st)\<rparr>)))"

section \<open>Review decisions\<close>

definition JUDGE_REVIEW_DECISION_VERSION :: string where
  "JUDGE_REVIEW_DECISION_VERSION = ''judge-label-review-decision-v1''"

definition JUDGE_REVIEW_ROLES :: "string list" where
  "JUDGE_REVIEW_ROLES = [''admin'', ''ml engineer'', ''ml ops lead'', ''model governance'', ''qa lead'']"

definition reviewer_reasons :: "signer_identity \<Rightarrow> judge_error list" where
  "reviewer_reasons i =
     (if identity_verified i then [] else [Review_Needs_Verified_Identity])
     @ (if lower (strip (text_or_empty (role i))) \<in> set JUDGE_REVIEW_ROLES then [] else [Review_Role_Refused])"

text \<open>The first reason is raised.\<close>

definition assert_judge_reviewer :: "signer_identity \<Rightarrow> judge_error + unit" where
  "assert_judge_reviewer i =
     (case reviewer_reasons i of [] \<Rightarrow> Inr () | e # _ \<Rightarrow> Inl e)"

interpretation judge_reviewer: authorisation "\<lambda>_ :: unit. reviewer_reasons" "\<lambda>_. assert_judge_reviewer"
  by unfold_locales (auto simp: assert_judge_reviewer_def split: list.splits)

record review_request =
  jq_result_id :: uuid
  jq_type :: judge_verb
  jq_scores :: label_scores
  jq_rationale :: string

definition unit_score :: "rat option \<Rightarrow> bool" where
  "unit_score x \<longleftrightarrow> (case x of None \<Rightarrow> True | Some q \<Rightarrow> 0 \<le> q \<and> q \<le> 1)"

definition unit_scores :: "label_scores \<Rightarrow> bool" where
  "unit_scores s \<longleftrightarrow>
     unit_score (ls_quality s) \<and> unit_score (ls_groundedness s) \<and> unit_score (ls_faithfulness s)"

text \<open>The constraints of the request schema and its validator.\<close>

definition validate_review_request :: "review_request \<Rightarrow> judge_error + unit" where
  "validate_review_request q =
     require Invalid_Review_Request
       (unit_scores (jq_scores q) \<and>
        (case ls_human (jq_scores q) of None \<Rightarrow> True | Some h \<Rightarrow> h \<noteq> [] \<and> length h \<le> 120) \<and>
        3 \<le> length (jq_rationale q) \<and> length (jq_rationale q) \<le> 4000 \<and>
        (has_values (jq_scores q) \<longleftrightarrow> jq_type q = Overridden))"

definition candidate_labels :: "eval_case option \<Rightarrow> json" where
  "candidate_labels c = candidate_judge_labels c"

definition candidate_score :: "json \<Rightarrow> string \<Rightarrow> judge_error + rat option" where
  "candidate_score candidate key =
     (if jget candidate key = JNull then Inr None
      else case py_float (jget candidate key) of
        None \<Rightarrow> Inl (Candidate_Invalid key)
      | Some score \<Rightarrow> if 0 \<le> score \<and> score \<le> 1 then Inr (Some score)
                      else Inl (Candidate_Out_Of_Range key))"

definition candidate_text :: "json \<Rightarrow> string \<Rightarrow> string option" where
  "candidate_text candidate key =
     (let v = jget candidate key; t = strip (py_str v)
      in if v = JNull \<or> t = [] then None else Some (take 120 t))"

definition review_scores :: "review_request \<Rightarrow> json \<Rightarrow> judge_error + label_scores option" where
  "review_scores q candidate =
     (case jq_type q of
        Rejected \<Rightarrow> Inr None
      | Overridden \<Rightarrow> Inr (Some (jq_scores q))
      | Approved_Candidate \<Rightarrow>
          if \<not> truthy candidate then Inl No_Candidate else
          bind_res (candidate_score candidate ''quality_score'') (\<lambda>quality.
          bind_res (candidate_score candidate ''groundedness_score'') (\<lambda>grounded.
          bind_res (candidate_score candidate ''faithfulness_score'') (\<lambda>faithful.
          let s = \<lparr>ls_quality = quality, ls_groundedness = grounded, ls_faithfulness = faithful,
                   ls_human = candidate_text candidate ''human_label''\<rparr>
          in if has_values s then Inr (Some s) else Inl Candidate_Has_No_Values))))"

definition candidate_subject :: "json \<Rightarrow> string" where
  "candidate_subject candidate =
     strip (str_or_empty (py_or (jget candidate ''judge_subject_id'') (jget candidate ''reviewer_subject_id'')))"

definition assert_separation_of_duties :: "json \<Rightarrow> signer_identity \<Rightarrow> judge_error + unit" where
  "assert_separation_of_duties candidate i =
     require Same_Identity (candidate_subject candidate = [] \<or> candidate_subject candidate \<noteq> subject_id i)"

definition reviewed_metadata ::
  "judge_verb \<Rightarrow> json \<Rightarrow> signer_identity \<Rightarrow> string \<Rightarrow> instant \<Rightarrow> json \<Rightarrow> json" where
  "reviewed_metadata verb candidate i hash reviewed m =
     dict_set ''human_review''
       (JObj [(''reviewed'', JBool True), (''review_hash'', JStr hash),
              (''reviewer_identity'', identity_to_json i)])
     (dict_set ''human_reviewed'' (JBool True)
     (dict_set ''judge_label''
       (JObj [(''version'', JStr JUDGE_REVIEW_DECISION_VERSION),
              (''source'', JStr (if verb = Approved_Candidate then ''reviewed_candidate'' else ''manual_review'')),
              (''candidate_source'', jget candidate ''judge_source''),
              (''applied'', JBool True),
              (''human_reviewed'', JBool True),
              (''reviewer_type'', JStr ''human''),
              (''review_hash'', JStr hash),
              (''reviewed_at'', JStr (isoformat ''+00:00'' reviewed)),
              (''reviewer_identity'', identity_to_json i)]) m))"

definition apply_reviewed_scores ::
  "label_scores \<Rightarrow> judge_verb \<Rightarrow> json \<Rightarrow> signer_identity \<Rightarrow> string \<Rightarrow> instant \<Rightarrow> bench_result \<Rightarrow> bench_result" where
  "apply_reviewed_scores s verb candidate i hash reviewed r =
     (write_scores s r)
       \<lparr>br_metadata := reviewed_metadata verb candidate i hash reviewed (or_empty_dict (br_metadata r))\<rparr>"

definition review_payload ::
  "(string \<Rightarrow> string) \<Rightarrow> review_request \<Rightarrow> json \<Rightarrow> label_scores option \<Rightarrow> signer_identity \<Rightarrow> json" where
  "review_payload sha q candidate scores i = JObj
     [(''version'', JStr JUDGE_REVIEW_DECISION_VERSION),
      (''benchmark_result_id'', JStr (jq_result_id q)),
      (''decision_type'', JStr (judge_verb_value (jq_type q))),
      (''candidate_label_hash'', if truthy candidate then JStr (stable_hash sha candidate) else JNull),
      (''applied_scores'', opt_json scores_json scores),
      (''reviewer_identity'', identity_to_json i),
      (''rationale'', JStr (strip (jq_rationale q)))]"

definition case_of_result :: "evidence_db \<Rightarrow> bench_result \<Rightarrow> eval_case option" where
  "case_of_result ev r =
     (case br_case_id r of None \<Rightarrow> None | Some c \<Rightarrow> row_find ec_id c (e_cases ev))"

definition review_row ::
  "(string \<Rightarrow> string) \<Rightarrow> review_request \<Rightarrow> signer_identity \<Rightarrow> instant \<Rightarrow> uuid \<Rightarrow> bench_result \<Rightarrow>
   eval_case option \<Rightarrow> label_scores option \<Rightarrow> string \<Rightarrow> review_decision" where
  "review_row sha q i reviewed new_id r c scores hash =
     (let candidate = candidate_labels c in
      \<lparr>jr_id = new_id, jr_result_id = br_id r, jr_case_id = br_case_id r, jr_type = jq_type q,
       jr_candidate_hash = (if truthy candidate then Some (stable_hash sha candidate) else None),
       jr_prior = result_scores r, jr_scores = scores, jr_applied = (scores \<noteq> None),
       jr_reviewer = identity_to_json i, jr_identity_verified = True,
       jr_rationale = strip (jq_rationale q), jr_criticality = map_option ec_criticality c,
       jr_reviewed_at = reviewed, jr_hash = hash\<rparr>)"

definition apply_review ::
  "review_request \<Rightarrow> json \<Rightarrow> signer_identity \<Rightarrow> string \<Rightarrow> instant \<Rightarrow> bench_result \<Rightarrow>
   label_scores option \<Rightarrow> evidence_db \<Rightarrow> evidence_db" where
  "apply_review q candidate i hash reviewed r scores ev =
     (case scores of None \<Rightarrow> ev
      | Some s \<Rightarrow> ev\<lparr>e_results := row_put br_id
                     (apply_reviewed_scores s (jq_type q) candidate i hash reviewed r) (e_results ev)\<rparr>)"

definition create_judge_label_review_decision ::
  "(string \<Rightarrow> string) \<Rightarrow> review_request \<Rightarrow> signer_identity \<Rightarrow> instant \<Rightarrow> uuid \<Rightarrow> judge_db \<Rightarrow>
   judge_error + judge_db \<times> review_decision" where
  "create_judge_label_review_decision sha q i now new_id db =
     bind_res (assert_judge_reviewer i) (\<lambda>_.
     bind_res (of_option Result_Not_Found (row_find br_id (jq_result_id q) (e_results (jd_evidence db)))) (\<lambda>r.
     let ev = jd_evidence db; c = case_of_result ev r; candidate = candidate_labels c in
     bind_res (assert_separation_of_duties candidate i) (\<lambda>_.
     bind_res (review_scores q candidate) (\<lambda>scores.
     let hash = stable_hash sha (review_payload sha q candidate scores i) in
     case row_find jr_hash hash (jd_reviews db) of
       Some existing \<Rightarrow> Inr (db, existing)
     | None \<Rightarrow>
         if scores \<noteq> None \<and>
            list_ex (\<lambda>d. jr_result_id d = br_id r \<and> jr_applied d) (jd_reviews db)
         then Inl Already_Applied
         else if new_id \<in> jr_id ` set (jd_reviews db) then Inl Duplicate_Review
         else
           let reviewed = seconds (now div 1000000);
               d = review_row sha q i reviewed new_id r c scores hash;
               ev' = apply_review q candidate i hash reviewed r scores ev
           in Inr (\<lparr>jd_evidence = ev', jd_reviews = jd_reviews db @ [d]\<rparr>, d)))))"

definition list_judge_label_review_decisions ::
  "uuid option \<Rightarrow> uuid option \<Rightarrow> nat \<Rightarrow> judge_db \<Rightarrow> review_decision list" where
  "list_judge_label_review_decisions result_id run_id limit db =
     (let on_result = filter (\<lambda>d. case result_id of None \<Rightarrow> True | Some i \<Rightarrow> jr_result_id d = i) (jd_reviews db);
          on_run = filter (\<lambda>d. case run_id of None \<Rightarrow> True
                     | Some n \<Rightarrow> (case row_find br_id (jr_result_id d) (e_results (jd_evidence db)) of
                                    None \<Rightarrow> False | Some r \<Rightarrow> br_run_id r = n)) on_result
      in take limit (sort_key (\<lambda>d. - jr_reviewed_at d) on_run))"

section \<open>The review table\<close>

datatype score_source =
    Src_Human_Reviewed | Src_Applied | Src_Candidate | Src_Heuristic | Src_Raw_Label | Src_Unlabeled

definition nonempty_dict :: "json \<Rightarrow> json option" where
  "nonempty_dict v = (if is_dict v \<and> truthy v then Some v else None)"

definition quality_delta :: "rat option \<Rightarrow> json option \<Rightarrow> judge_error + rat option" where
  "quality_delta quality candidate =
     (case (quality, candidate) of
        (Some q, Some c) \<Rightarrow>
          if jget c ''quality_score'' = JNull then Inr None
          else bind_res (of_option Python_Error (py_float (jget c ''quality_score'')))
                 (\<lambda>p. Inr (Some \<bar>p - q\<bar>))
      | _ \<Rightarrow> Inr None)"

definition score_source :: "bench_result \<Rightarrow> json option \<Rightarrow> json option \<Rightarrow> json option \<Rightarrow> score_source" where
  "score_source r candidate judge scorer =
     (let applied = (case judge of None \<Rightarrow> False | Some j \<Rightarrow> jget j ''applied'' = JBool True);
          human = (case judge of None \<Rightarrow> False
                   | Some j \<Rightarrow> jget j ''human_reviewed'' = JBool True \<or> jget j ''reviewer_type'' = JStr ''human'')
      in if applied \<and> human then Src_Human_Reviewed
         else if applied then Src_Applied
         else if candidate \<noteq> None then Src_Candidate
         else if scorer \<noteq> None then Src_Heuristic
         else if text_set (br_human_label r) then Src_Raw_Label
         else Src_Unlabeled)"

definition needs_review :: "bench_result \<Rightarrow> score_source \<Rightarrow> json option \<Rightarrow> rat option \<Rightarrow> bool" where
  "needs_review r source candidate dq =
     (if source = Src_Applied \<or> source = Src_Human_Reviewed then False
      else if candidate \<noteq> None then True
      else if source = Src_Heuristic \<or> source = Src_Raw_Label \<or> source = Src_Unlabeled then True
      else if (case dq of None \<Rightarrow> False | Some d \<Rightarrow> 1 / 10 \<le> d) then True
      else br_quality r = None \<or> br_human_label r = None \<or> br_human_label r = Some ''captured-needs-scoring'')"

record judge_review_row =
  rr_result :: bench_result
  rr_case :: "eval_case option"
  rr_source :: score_source
  rr_candidate :: "json option"
  rr_judge :: "json option"
  rr_scorer :: "json option"
  rr_delta :: "rat option"
  rr_needs_review :: bool

definition judge_review_row_of :: "bench_result \<Rightarrow> eval_case option \<Rightarrow> judge_error + judge_review_row" where
  "judge_review_row_of r c =
     (let candidate = nonempty_dict (candidate_labels c);
          metadata = as_dict (br_metadata r);
          judge = nonempty_dict (jget metadata ''judge_label'');
          scorer = nonempty_dict (jget metadata ''scorer'');
          source = score_source r candidate judge scorer
      in bind_res (quality_delta (br_quality r) candidate) (\<lambda>dq.
         Inr \<lparr>rr_result = r, rr_case = c, rr_source = source, rr_candidate = candidate, rr_judge = judge,
              rr_scorer = scorer, rr_delta = dq,
              rr_needs_review = needs_review r source candidate dq\<rparr>))"

record judge_review =
  jv_result_count :: nat
  jv_reviewed_count :: nat
  jv_candidate_count :: nat
  jv_heuristic_count :: nat
  jv_unlabeled_count :: nat
  jv_needs_review_count :: nat
  jv_trust :: trust_summary
  jv_average_quality :: "rat option"
  jv_average_delta :: "rat option"
  jv_rows :: "judge_review_row list"

fun review_rows :: "evidence_db \<Rightarrow> bench_result list \<Rightarrow> judge_error + judge_review_row list" where
  "review_rows ev [] = Inr []"
| "review_rows ev (r # rs) =
     bind_res (judge_review_row_of r (case_of_result ev r)) (\<lambda>row.
     bind_res (review_rows ev rs) (\<lambda>rows. Inr (row # rows)))"

text \<open>
  Ordered by creation, latest first, then by sample; \<open>verified\<close> are the runs with a verified
  production capture.
\<close>

definition review_judge_labels ::
  "trust_thresholds \<Rightarrow> uuid list \<Rightarrow> nat \<Rightarrow> nat \<Rightarrow> uuid option \<Rightarrow> uuid option \<Rightarrow> evidence_db \<Rightarrow>
   judge_error + judge_review" where
  "review_judge_labels th verified limit offset run_id result_id ev =
     (let records = sort_key (\<lambda>r. (- br_created_at r, br_sample_id r))
            (filter (\<lambda>r. (case run_id of None \<Rightarrow> True | Some n \<Rightarrow> br_run_id r = n) \<and>
                         (case result_id of None \<Rightarrow> True | Some i \<Rightarrow> br_id r = i)) (e_results ev));
          case_map = List.map_filter (\<lambda>r. map_option (Pair (br_id r)) (case_of_result ev r)) records;
          trust = summarize_evidence_trust th (Some verified) records case_map
      in bind_res (review_rows ev records) (\<lambda>rows.
         Inr \<lparr>jv_result_count = length rows,
              jv_reviewed_count =
                length (filter (\<lambda>w. rr_source w = Src_Applied \<or> rr_source w = Src_Human_Reviewed) rows),
              jv_candidate_count = length (filter (\<lambda>w. rr_candidate w \<noteq> None) rows),
              jv_heuristic_count = length (filter (\<lambda>w. rr_scorer w \<noteq> None) rows),
              jv_unlabeled_count = length (filter (\<lambda>w. rr_source w = Src_Unlabeled) rows),
              jv_needs_review_count = length (filter rr_needs_review rows),
              jv_trust = trust,
              jv_average_quality = mean (List.map_filter (\<lambda>w. br_quality (rr_result w)) rows),
              jv_average_delta = mean (List.map_filter rr_delta rows),
              jv_rows = take limit (drop offset rows)\<rparr>))"

section \<open>The routes\<close>

definition import_route ::
  "uuid \<Rightarrow> json list \<Rightarrow> bool \<Rightarrow> signer_identity \<Rightarrow> judge_db \<Rightarrow> judge_error + judge_db \<times> import_summary" where
  "import_route run rows apply_labels i db =
     bind_res (if apply_labels then assert_judge_reviewer i else Inr ()) (\<lambda>_.
     import_judge_label_rows run rows apply_labels (if apply_labels then Some i else None) db)"

definition review_route ::
  "(string \<Rightarrow> string) \<Rightarrow> review_request \<Rightarrow> signer_identity \<Rightarrow> instant \<Rightarrow> uuid \<Rightarrow> judge_db \<Rightarrow>
   judge_error + judge_db \<times> review_decision" where
  "review_route sha q i now new_id db =
     bind_res (validate_review_request q) (\<lambda>_. create_judge_label_review_decision sha q i now new_id db)"

text \<open>
  The commands over the judge tables: the two routes, and the command-line import
  (\<^verbatim>\<open>seed/import_judge_labels.py\<close>), which has no reviewer.
\<close>

datatype judge_command =
    Import_Route uuid "json list" bool signer_identity
  | Import_Cli uuid "json list" bool
  | Review_Route review_request signer_identity instant uuid

fun judge_step :: "(string \<Rightarrow> string) \<Rightarrow> judge_command \<Rightarrow> judge_db \<Rightarrow> judge_error + judge_db" where
  "judge_step sha (Import_Route run rows ap i) db = map_sum id fst (import_route run rows ap i db)"
| "judge_step sha (Import_Cli run rows ap) db =
     map_sum id fst (import_judge_label_rows run rows ap None db)"
| "judge_step sha (Review_Route q i now new_id) db = map_sum id fst (review_route sha q i now new_id db)"

end
