(* ===== verification/Judge_Labels_Correct.thy ===== *)
theory Judge_Labels_Correct
  imports Judge_Labels Gate_Metrics_Correct
begin

text \<open>
  Properties of judge labels: the import loop is one pass over the results, what no sequence of
  imports and reviews can change, the invariant of the review decisions, and the consequences for
  the staleness of gates and for the trust in the scores.
\<close>

section \<open>What labels leave unchanged\<close>

text \<open>The columns that place a result in its run, its case and its lineage of revisions.\<close>

definition lineage_key where
  "lineage_key r =
     (br_id r, br_run_id r, br_case_id r, br_parent_id r, br_root_id r, br_revision r,
      br_revision_hash r, br_sample_id r, br_created_at r, br_data_source r)"

definition keeps_lineage :: "(bench_result \<Rightarrow> bench_result) \<Rightarrow> bool" where
  "keeps_lineage f \<longleftrightarrow> (\<forall>r. lineage_key (f r) = lineage_key r)"

named_theorems kept \<open>columns that relabelling keeps\<close>

lemma keeps_lineage_columns [kept]:
  assumes "keeps_lineage f"
  shows "br_id (f r) = br_id r" and "br_run_id (f r) = br_run_id r" and "br_case_id (f r) = br_case_id r"
    and "br_parent_id (f r) = br_parent_id r" and "br_root_id (f r) = br_root_id r"
    and "br_revision (f r) = br_revision r" and "br_revision_hash (f r) = br_revision_hash r"
    and "br_sample_id (f r) = br_sample_id r" and "br_created_at (f r) = br_created_at r"
    and "br_data_source (f r) = br_data_source r"
  using assms by (simp_all add: keeps_lineage_def lineage_key_def)

lemma keeps_lineage_id [intro]: "keeps_lineage (\<lambda>r. r)"
  by (simp add: keeps_lineage_def)

lemma keeps_lineage_comp: "keeps_lineage f \<Longrightarrow> keeps_lineage g \<Longrightarrow> keeps_lineage (\<lambda>r. g (f r))"
  by (simp add: keeps_lineage_def)

lemma write_scores_key [simp]: "lineage_key (write_scores s r) = lineage_key r"
  by (simp add: write_scores_def lineage_key_def)

lemma apply_label_key [simp]: "lineage_key (apply_label i l r) = lineage_key r"
  by (simp add: apply_label_def write_scores_def lineage_key_def Let_def)

lemma apply_reviewed_key [simp]: "lineage_key (apply_reviewed_scores s v c i h t r) = lineage_key r"
  by (simp add: apply_reviewed_scores_def write_scores_def lineage_key_def)

lemma latest_step_map:
  assumes "keeps_lineage f"
  shows "latest_step (f r) (map (\<lambda>(k, c). (k, f c)) latest) = map (\<lambda>(k, c). (k, f c)) (latest_step r latest)"
proof -
  have "revision_sort_key (f q) = revision_sort_key q" and "root_id (f q) = root_id q" for q
    by (simp_all add: revision_sort_key_def effective_revision_def root_id_def kept [OF assms] split: option.split)
  moreover have "map_of (map (\<lambda>(k, c). (k, f c)) latest) k = map_option f (map_of latest k)" for k
    by (induction latest) auto
  ultimately show ?thesis
    by (auto simp: latest_step_def split: option.splits)
qed

lemma latest_revisions_map:
  assumes "keeps_lineage f"
  shows "latest_result_revisions (map f rs) = map f (latest_result_revisions rs)"
proof -
  have "fold latest_step (map f rs) (map (\<lambda>(k, c). (k, f c)) latest) =
        map (\<lambda>(k, c). (k, f c)) (fold latest_step rs latest)" for latest
    by (induction rs arbitrary: latest) (simp_all add: latest_step_map [OF assms])
  from this [of "[]"] have "map snd (fold latest_step (map f rs) []) = map f (map snd (fold latest_step rs []))"
    by (simp add: comp_def case_prod_beta)
  moreover have "sort_key (\<lambda>r. (br_sample_id r, br_id r)) (map f xs) =
      map f (sort_key (\<lambda>r. (br_sample_id r, br_id r)) xs)" for xs
  proof -
    have "insort_key (\<lambda>r. (br_sample_id r, br_id r)) (f x) (map f ys) =
        map f (insort_key (\<lambda>r. (br_sample_id r, br_id r)) x ys)" for x ys
      by (induction ys) (simp_all add: kept [OF assms])
    then show ?thesis by (induction xs) simp_all
  qed
  ultimately show ?thesis by (simp add: latest_result_revisions_def del: map_map)
qed

lemma relabelled_bundle:
  assumes "keeps_lineage f"
  shows "bn_results (collect_evidence (ev\<lparr>e_results := map f (e_results ev)\<rparr>) cfg suite) =
         map f (bn_results (collect_evidence ev cfg suite))"
  by (simp add: collect_evidence_def Let_def filter_map comp_def kept [OF assms]
      latest_revisions_map [OF assms])

lemma relabelled_hash:
  assumes "keeps_lineage f"
    and stored: "\<And>r. r \<in> set (bn_results (collect_evidence ev cfg suite)) \<Longrightarrow>
                   text_set (br_revision_hash r) \<or> f r = r"
  shows "evidence_revision_hash sha (collect_evidence (ev\<lparr>e_results := map f (e_results ev)\<rparr>) cfg suite) =
         evidence_revision_hash sha (collect_evidence ev cfg suite)"
proof -
  have "manifest_entry sha (f r) = manifest_entry sha r" if "text_set (br_revision_hash r)" for r
    using that by (simp add: manifest_entry_def root_id_def effective_revision_def kept [OF assms(1)] split: option.split)
  with stored have "manifest_entry sha (f r) = manifest_entry sha r"
    if "r \<in> set (bn_results (collect_evidence ev cfg suite))" for r
    using that by metis
  then have "map (manifest_entry sha) (map f (bn_results (collect_evidence ev cfg suite))) =
      map (manifest_entry sha) (bn_results (collect_evidence ev cfg suite))"
    by simp
  then show ?thesis
    by (simp del: map_map add: evidence_revision_hash_def evidence_revision_manifest_def relabelled_bundle [OF assms(1)])
qed

section \<open>The import is one pass over the results\<close>

definition label_target :: "uuid \<Rightarrow> bench_result list \<Rightarrow> bench_result \<Rightarrow> bool" where
  "label_target run rs r \<longleftrightarrow> br_run_id r = run \<and> result_of_sample run (br_sample_id r) rs = Some r"

definition relabel ::
  "uuid \<Rightarrow> signer_identity option \<Rightarrow> judge_label list \<Rightarrow> bench_result list \<Rightarrow> bench_result \<Rightarrow> bench_result" where
  "relabel run reviewer labels rs r =
     (if label_target run rs r
      then case find (\<lambda>l. jl_sample l = br_sample_id r) labels of
             None \<Rightarrow> r | Some l \<Rightarrow> apply_label reviewer l r
      else r)"

lemma keeps_relabel: "keeps_lineage (relabel run reviewer labels rs)"
  by (auto simp: keeps_lineage_def relabel_def split: option.splits)

lemma result_of_sample_map:
  assumes "keeps_lineage f"
  shows "result_of_sample run s (map f rs) = map_option f (result_of_sample run s rs)"
proof -
  have "filter (\<lambda>r. br_run_id r = run) (map f rs) = map f (filter (\<lambda>r. br_run_id r = run) rs)"
    by (simp add: filter_map comp_def kept [OF assms])
  then show ?thesis
    by (simp add: result_of_sample_def rev_map row_find_map kept [OF assms])
qed

lemma result_of_sampleD:
  "result_of_sample run s rs = Some r \<Longrightarrow> r \<in> set rs \<and> br_run_id r = run \<and> br_sample_id r = s"
  by (auto simp: result_of_sample_def dest!: row_find_SomeD)

definition label_delta :: "uuid \<Rightarrow> bench_result list \<Rightarrow> judge_label \<Rightarrow> rat list" where
  "label_delta run rs l =
     (case result_of_sample run (jl_sample l) rs of None \<Rightarrow> []
      | Some r \<Rightarrow> (case (ls_quality (jl_scores l), br_quality r) of (Some q, Some p) \<Rightarrow> [\<bar>q - p\<bar>] | _ \<Rightarrow> []))"

definition has_target :: "uuid \<Rightarrow> bench_result list \<Rightarrow> judge_label \<Rightarrow> bool" where
  "has_target run rs l \<longleftrightarrow> result_of_sample run (jl_sample l) rs \<noteq> None"

definition imported_state ::
  "uuid \<Rightarrow> bool \<Rightarrow> signer_identity option \<Rightarrow> bench_result list \<Rightarrow> judge_label list \<Rightarrow> import_state" where
  "imported_state run ap reviewer rs labels =
     \<lparr>is_matched = length (filter (has_target run rs) labels),
      is_missing = length (filter (\<lambda>l. \<not> has_target run rs l) labels),
      is_deltas = concat (map (label_delta run rs) labels),
      is_results = (if ap then map (relabel run reviewer labels rs) rs else rs)\<rparr>"

lemma find_append_other: "x \<notin> jl_sample ` set ls \<Longrightarrow> find (\<lambda>l. jl_sample l = x) (ls @ [l]) =
    (if jl_sample l = x then Some l else None)"
  by (induction ls) auto

lemma find_snoc_other: "jl_sample l \<noteq> x \<Longrightarrow> find (\<lambda>l. jl_sample l = x) (ls @ [l]) = find (\<lambda>l. jl_sample l = x) ls"
  by (induction ls) auto

lemma find_none_sample: "x \<notin> jl_sample ` set ls \<Longrightarrow> find (\<lambda>l. jl_sample l = x) ls = None"
  by (induction ls) auto

lemma import_step_spec:
  assumes ids: "distinct (map br_id rs)" and new: "jl_sample l \<notin> jl_sample ` set ls"
  shows "import_step run ap reviewer l (imported_state run ap reviewer rs ls) =
         imported_state run ap reviewer rs (ls @ [l])"
proof -
  let ?f = "relabel run reviewer ls rs"
  have other: "relabel run reviewer (ls @ [l]) rs r = ?f r"
    if "\<not> (label_target run rs r \<and> br_sample_id r = jl_sample l)" for r
    using that find_snoc_other [of l "br_sample_id r" ls] by (auto simp: relabel_def)
  show ?thesis
  proof (cases "result_of_sample run (jl_sample l) rs")
    case None
    then have "map (relabel run reviewer (ls @ [l]) rs) rs = map ?f rs"
      by (intro map_cong refl other) (auto simp: label_target_def)
    with None show ?thesis
      by (simp add: import_step_def imported_state_def has_target_def label_delta_def
          result_of_sample_map [OF keeps_relabel])
  next
    case (Some r)
    note r = result_of_sampleD [OF Some]
    have same: "?f r = r"
      using r new by (simp add: relabel_def find_none_sample split: option.split)
    have hit: "relabel run reviewer (ls @ [l]) rs r = apply_label reviewer l r"
      using r Some new by (simp add: relabel_def label_target_def find_append_other)
    have "br_id (apply_label reviewer l r) = br_id r"
      using apply_label_key [of reviewer l r] by (simp add: lineage_key_def)
    then have put: "row_put br_id (apply_label reviewer l r) (map ?f rs) = map (relabel run reviewer (ls @ [l]) rs) rs"
      unfolding row_put_def map_map comp_def
    proof (intro map_cong refl)
      fix q assume q: "q \<in> set rs" and id: "br_id (apply_label reviewer l r) = br_id r"
      show "(if br_id (?f q) = br_id (apply_label reviewer l r) then apply_label reviewer l r else ?f q) =
            relabel run reviewer (ls @ [l]) rs q"
      proof (cases "br_id q = br_id r")
        case True
        with ids q r have "q = r" by (auto intro: distinct_key_eq)
        with hit id show ?thesis by (simp add: kept [OF keeps_relabel])
      next
        case False
        then have "\<not> (label_target run rs q \<and> br_sample_id q = jl_sample l)"
          using Some r by (auto simp: label_target_def)
        with False id other show ?thesis by (simp add: kept [OF keeps_relabel])
      qed
    qed
    have looked: "result_of_sample run (jl_sample l) (is_results (imported_state run ap reviewer rs ls)) = Some r"
      using Some same by (simp add: imported_state_def result_of_sample_map [OF keeps_relabel])
    show ?thesis
      unfolding import_step_def looked option.case using Some put
      by (simp add: imported_state_def has_target_def label_delta_def)
  qed
qed

lemma import_fold_spec:
  assumes "distinct (map br_id rs)" and "distinct (map jl_sample labels)"
  shows "fold (import_step run ap reviewer) labels
           \<lparr>is_matched = 0, is_missing = 0, is_deltas = [], is_results = rs\<rparr> =
         imported_state run ap reviewer rs labels"
  using assms(2)
proof (induction labels rule: rev_induct)
  case Nil
  have "map (relabel run reviewer [] rs) rs = rs"
    by (rule map_idI) (simp add: relabel_def)
  then show ?case by (simp add: imported_state_def)
next
  case (snoc l ls)
  then show ?case by (simp add: import_step_spec [OF assms(1)])
qed

lemma duplicates_none: "duplicate_samples seen ss = [] \<longleftrightarrow> distinct ss \<and> set ss \<inter> set seen = {}"
  by (induction ss arbitrary: seen) auto

lemma import_rows_ok:
  assumes ok: "import_judge_label_rows run rows ap reviewer db = Inr (db', sm)"
    and ids: "distinct (map br_id (e_results (jd_evidence db)))"
  obtains labels where "normalize_labels 1 rows = Inr labels" and "distinct (map jl_sample labels)"
    and "db' = db\<lparr>jd_evidence := (jd_evidence db)\<lparr>e_results :=
               (if ap then map (relabel run reviewer labels (e_results (jd_evidence db))) (e_results (jd_evidence db))
                else e_results (jd_evidence db))\<rparr>\<rparr>"
    and "sm = \<lparr>im_sum_run = run, im_sum_labels = length labels,
               im_sum_matched = length (filter (has_target run (e_results (jd_evidence db))) labels),
               im_sum_missing = length (filter (\<lambda>l. \<not> has_target run (e_results (jd_evidence db)) l) labels),
               im_sum_applied = ap,
               im_sum_quality = length (filter (\<lambda>l. ls_quality (jl_scores l) \<noteq> None) labels),
               im_sum_delta = mean (concat (map (label_delta run (e_results (jd_evidence db))) labels))\<rparr>"
proof -
  from ok obtain labels where labels: "normalize_labels 1 rows = Inr labels"
    and unique: "validate_unique_samples labels = Inr ()"
    by (auto simp: import_judge_label_rows_def bind_res_eq_Inr)
  from unique have dist: "distinct (map jl_sample labels)"
    by (simp add: validate_unique_samples_def duplicates_none Let_def split: if_split_asm)
  show thesis
  proof (rule that [OF labels dist])
  qed (use ok labels unique in \<open>auto simp: import_judge_label_rows_def Let_def imported_state_def
        import_fold_spec [OF ids dist]\<close>)
qed

section \<open>The commands\<close>

lemma jget_or_empty: "jget (or_empty_dict m) k = jget m k"
  by (cases m) (auto simp: or_empty_dict_def jget_def)

definition human_marked :: "bench_result \<Rightarrow> bool" where
  "human_marked r \<longleftrightarrow> jget (as_dict (br_metadata r)) ''human_reviewed'' = JBool True"

lemma human_marked_tier: "human_marked r \<Longrightarrow> classify_score_tier r c = Human_Reviewed"
  by (simp add: human_marked_def classify_score_tier_def has_explicit_human_review_def Let_def)

lemma human_marked_label: "human_marked r \<Longrightarrow> human_marked (apply_label i l r)"
  by (auto simp: human_marked_def apply_label_def Let_def jget_as_dict jget_dict_set jget_or_empty
      split: if_split_asm)

lemma human_marked_reviewed: "human_marked (apply_reviewed_scores s v c i h t r)"
  by (simp add: human_marked_def apply_reviewed_scores_def reviewed_metadata_def jget_as_dict jget_dict_set)

lemma human_marked_relabel: "human_marked r \<Longrightarrow> human_marked (relabel run i labels rs r)"
  by (auto simp: relabel_def human_marked_label split: option.split)

lemma row_put_as_map:
  assumes "distinct (map key rows)" and "r \<in> set rows" and "key (g r) = key r"
  shows "row_put key (g r) rows = map (\<lambda>x. if key x = key r then g x else x) rows"
  using assms by (auto simp: row_put_def dest: distinct_key_eq)

text \<open>Every command relabels the results and appends review decisions; nothing else changes.\<close>

definition relabels :: "judge_db \<Rightarrow> judge_db \<Rightarrow> bool" where
  "relabels s t \<longleftrightarrow>
     (\<exists>f. keeps_lineage f \<and> (\<forall>r. human_marked r \<longrightarrow> human_marked (f r)) \<and>
          jd_evidence t = (jd_evidence s)\<lparr>e_results := map f (e_results (jd_evidence s))\<rparr>) \<and>
     prefix (jd_reviews s) (jd_reviews t)"

lemma relabelsI:
  assumes "keeps_lineage f" and "\<And>r. human_marked r \<Longrightarrow> human_marked (f r)"
    and "jd_evidence t = (jd_evidence s)\<lparr>e_results := map f (e_results (jd_evidence s))\<rparr>"
    and "prefix (jd_reviews s) (jd_reviews t)"
  shows "relabels s t"
  using assms unfolding relabels_def by blast

lemma relabels_refl: "relabels s s"
  by (rule relabelsI [where f = "\<lambda>r. r"]) auto

lemma relabels_trans:
  assumes "relabels s t" and "relabels t u"
  shows "relabels s u"
proof -
  from assms obtain f g where f: "keeps_lineage f" "\<And>r. human_marked r \<Longrightarrow> human_marked (f r)"
      "jd_evidence t = (jd_evidence s)\<lparr>e_results := map f (e_results (jd_evidence s))\<rparr>"
    and g: "keeps_lineage g" "\<And>r. human_marked r \<Longrightarrow> human_marked (g r)"
      "jd_evidence u = (jd_evidence t)\<lparr>e_results := map g (e_results (jd_evidence t))\<rparr>"
    unfolding relabels_def by blast
  show ?thesis
  proof (rule relabelsI [OF keeps_lineage_comp [OF f(1) g(1)]])
    show "jd_evidence u = (jd_evidence s)\<lparr>e_results := map (\<lambda>r. g (f r)) (e_results (jd_evidence s))\<rparr>"
      using f(3) g(3) by (simp add: comp_def)
    show "prefix (jd_reviews s) (jd_reviews u)"
      using assms by (auto simp: relabels_def intro: prefix_order.trans)
  qed (use f g in blast)
qed

lemma relabels_ids: "relabels s t \<Longrightarrow> map br_id (e_results (jd_evidence t)) = map br_id (e_results (jd_evidence s))"
  by (auto simp: relabels_def comp_def kept)

lemma import_relabels:
  assumes "import_judge_label_rows run rows ap reviewer db = Inr (db', sm)"
    and "distinct (map br_id (e_results (jd_evidence db)))"
  shows "relabels db db' \<and> jd_reviews db' = jd_reviews db"
proof -
  from import_rows_ok [OF assms] obtain labels where
    db': "db' = db\<lparr>jd_evidence := (jd_evidence db)\<lparr>e_results :=
               (if ap then map (relabel run reviewer labels (e_results (jd_evidence db))) (e_results (jd_evidence db))
                else e_results (jd_evidence db))\<rparr>\<rparr>"
    by metis
  have "relabels db db'"
  proof (cases ap)
    case True
    then show ?thesis
      using db' keeps_relabel human_marked_relabel
      by (intro relabelsI [where f = "relabel run reviewer labels (e_results (jd_evidence db))"]) auto
  next
    case False
    then show ?thesis
      using db' by (intro relabelsI [where f = "\<lambda>r. r"]) auto
  qed
  with db' show ?thesis by simp
qed

lemma map_sum_Inr_iff: "map_sum id f m = Inr b \<longleftrightarrow> (\<exists>a. m = Inr a \<and> f a = b)"
  by (cases m) auto

lemma assert_reviewer_ok: "assert_judge_reviewer i = Inr u \<Longrightarrow> reviewer_reasons i = []"
  by (rule judge_reviewer.passed)

lemma candidate_score_unit: "candidate_score c k = Inr x \<Longrightarrow> unit_score x"
  by (auto simp: candidate_score_def unit_score_def split: if_split_asm option.splits)

lemma review_scores_ok:
  assumes "validate_review_request q = Inr ()" and "review_scores q candidate = Inr x"
  shows "(x = None \<longleftrightarrow> jq_type q = Rejected) \<and> (\<forall>s. x = Some s \<longrightarrow> unit_scores s \<and> has_values s)"
  using assms
  by (cases "jq_type q")
    (auto simp: validate_review_request_def review_scores_def bind_res_eq_Inr unit_scores_def Let_def
      dest: candidate_score_unit split: if_split_asm)

definition case_labels :: "evidence_db \<Rightarrow> review_decision \<Rightarrow> json" where
  "case_labels ev d =
     candidate_labels (case jr_case_id d of None \<Rightarrow> None | Some c \<Rightarrow> row_find ec_id c (e_cases ev))"

definition review_authorised :: "evidence_db \<Rightarrow> review_decision \<Rightarrow> bool" where
  "review_authorised ev d \<longleftrightarrow>
     (\<exists>i. jr_reviewer d = identity_to_json i \<and> reviewer_reasons i = [] \<and>
          candidate_subject (case_labels ev d) \<in> {[]} \<union> (- {subject_id i}))"

definition review_values_ok :: "review_decision \<Rightarrow> bool" where
  "review_values_ok d \<longleftrightarrow>
     jr_applied d = (jr_scores d \<noteq> None) \<and> (jr_type d = Rejected) = (jr_scores d = None) \<and>
     (case jr_scores d of None \<Rightarrow> True | Some s \<Rightarrow> unit_scores s \<and> has_values s)"

definition review_marked :: "evidence_db \<Rightarrow> review_decision \<Rightarrow> bool" where
  "review_marked ev d \<longleftrightarrow>
     (case row_find br_id (jr_result_id d) (e_results ev) of None \<Rightarrow> False | Some r \<Rightarrow> human_marked r)"

definition judge_inv :: "judge_db \<Rightarrow> bool" where
  "judge_inv db \<longleftrightarrow>
     distinct (map br_id (e_results (jd_evidence db))) \<and>
     distinct (map jr_id (jd_reviews db)) \<and> distinct (map jr_hash (jd_reviews db)) \<and>
     distinct (map jr_result_id (filter jr_applied (jd_reviews db))) \<and>
     (\<forall>d \<in> set (jd_reviews db). review_authorised (jd_evidence db) d \<and> review_values_ok d \<and>
        (jr_applied d \<longrightarrow> review_marked (jd_evidence db) d))"

lemma authorised_relabels:
  assumes "relabels s t"
  shows "review_authorised (jd_evidence t) d = review_authorised (jd_evidence s) d"
proof -
  from assms have "e_cases (jd_evidence t) = e_cases (jd_evidence s)" by (auto simp: relabels_def)
  then have "case_labels (jd_evidence t) d = case_labels (jd_evidence s) d"
    by (simp add: case_labels_def split: option.split)
  then show ?thesis by (simp add: review_authorised_def)
qed

lemma marked_relabels: "relabels s t \<Longrightarrow> review_marked (jd_evidence s) d \<Longrightarrow> review_marked (jd_evidence t) d"
  by (auto simp: relabels_def review_marked_def row_find_map kept split: option.splits)

lemma judge_inv_import:
  assumes "judge_inv s" and "relabels s t" and "jd_reviews t = jd_reviews s"
  shows "judge_inv t"
  using assms relabels_ids [OF assms(2)] marked_relabels [OF assms(2)] authorised_relabels [OF assms(2)]
  by (simp add: judge_inv_def)

text \<open>A committed review found its decision under the same hash, or appended a new one.\<close>

lemma review_route_cases:
  assumes ok: "review_route sha q i now new_id db = Inr (db', d)"
  obtains (existing) "db' = db" and "d \<in> set (jd_reviews db)"
  | (new) r c scores hash where
      "row_find br_id (jq_result_id q) (e_results (jd_evidence db)) = Some r"
      and "c = case_of_result (jd_evidence db) r"
      and "reviewer_reasons i = []"
      and "candidate_subject (candidate_labels c) = [] \<or> candidate_subject (candidate_labels c) \<noteq> subject_id i"
      and "validate_review_request q = Inr ()"
      and "review_scores q (candidate_labels c) = Inr scores"
      and "hash \<notin> jr_hash ` set (jd_reviews db)" and "new_id \<notin> jr_id ` set (jd_reviews db)"
      and "scores = None \<or> (\<forall>e \<in> set (jd_reviews db). jr_applied e \<longrightarrow> jr_result_id e \<noteq> br_id r)"
      and "d = review_row sha q i (seconds (now div 1000000)) new_id r c scores hash"
      and "db' = \<lparr>jd_evidence = apply_review q (candidate_labels c) i hash (seconds (now div 1000000)) r scores
               (jd_evidence db),
             jd_reviews = jd_reviews db @ [d]\<rparr>"
proof -
  from ok have valid: "validate_review_request q = Inr ()"
    and made: "create_judge_label_review_decision sha q i now new_id db = Inr (db', d)"
    by (auto simp: review_route_def bind_res_eq_Inr)
  from made obtain r where auth: "assert_judge_reviewer i = Inr ()"
    and r: "row_find br_id (jq_result_id q) (e_results (jd_evidence db)) = Some r"
    by (auto simp: create_judge_label_review_decision_def bind_res_eq_Inr)
  define c where "c = case_of_result (jd_evidence db) r"
  from made auth r obtain scores where
    apart: "candidate_subject (candidate_labels c) = [] \<or> candidate_subject (candidate_labels c) \<noteq> subject_id i"
    and scores: "review_scores q (candidate_labels c) = Inr scores"
    by (auto simp: create_judge_label_review_decision_def bind_res_eq_Inr c_def Let_def
        assert_separation_of_duties_def)
  define hash where "hash = stable_hash sha (review_payload sha q (candidate_labels c) scores i)"
  have duties: "assert_separation_of_duties (candidate_labels c) i = Inr ()"
    using apart by (simp add: assert_separation_of_duties_def require_def)
  show thesis
  proof (cases "row_find jr_hash hash (jd_reviews db)")
    case (Some e)
    with made auth r duties scores have "db' = db" "d = e"
      by (simp_all add: create_judge_label_review_decision_def of_option_def Let_def c_def hash_def)
    with Some existing show thesis by (auto dest: row_find_SomeD)
  next
    case None
    with made auth r duties scores
    have open_result: "\<not> (scores \<noteq> None \<and> list_ex (\<lambda>d. jr_result_id d = br_id r \<and> jr_applied d) (jd_reviews db))"
      and fresh: "new_id \<notin> jr_id ` set (jd_reviews db)"
      by (auto simp: create_judge_label_review_decision_def of_option_def Let_def c_def hash_def
          split: if_split_asm)
    with made auth r duties scores None have row:
      "d = review_row sha q i (seconds (now div 1000000)) new_id r c scores hash"
      "db' = \<lparr>jd_evidence = apply_review q (candidate_labels c) i hash (seconds (now div 1000000)) r scores
               (jd_evidence db),
             jd_reviews = jd_reviews db @ [d]\<rparr>"
      by (auto simp: create_judge_label_review_decision_def of_option_def Let_def c_def hash_def
          split: if_split_asm)
    show thesis
    proof (rule new [OF r c_def _ apart valid scores _ fresh _ row])
      show "reviewer_reasons i = []" using auth by (rule assert_reviewer_ok)
      show "hash \<notin> jr_hash ` set (jd_reviews db)" using None by (simp add: row_find_None)
      show "scores = None \<or> (\<forall>e \<in> set (jd_reviews db). jr_applied e \<longrightarrow> jr_result_id e \<noteq> br_id r)"
        using open_result by (auto simp: list_ex_iff)
    qed
  qed
qed

lemma apply_review_relabels:
  assumes "row_find br_id n (e_results (jd_evidence db)) = Some r"
    and "distinct (map br_id (e_results (jd_evidence db)))"
    and "db' = \<lparr>jd_evidence = apply_review q cand i hash at' r scores (jd_evidence db), jd_reviews = jd_reviews db @ ds\<rparr>"
  shows "relabels db db'" and "scores \<noteq> None \<Longrightarrow>
    \<exists>r'. row_find br_id (br_id r) (e_results (jd_evidence db')) = Some r' \<and> human_marked r'"
proof -
  note r = row_find_SomeD [OF assms(1)]
  have id: "br_id (apply_reviewed_scores s v cand i hash at' x) = br_id x" for s v x
    using apply_reviewed_key [of s v cand i hash at' x] by (simp add: lineage_key_def)
  show "relabels db db'"
  proof (cases scores)
    case None
    with assms(3) show ?thesis
      by (intro relabelsI [where f = "\<lambda>r. r"]) (auto simp: apply_review_def)
  next
    case (Some s)
    let ?f = "\<lambda>x. if br_id x = br_id r then apply_reviewed_scores s (jq_type q) cand i hash at' x else x"
    show ?thesis
    proof (rule relabelsI [where f = ?f])
      show "jd_evidence db' = (jd_evidence db)\<lparr>e_results := map ?f (e_results (jd_evidence db))\<rparr>"
        using Some assms(3) row_put_as_map [OF assms(2), of r "apply_reviewed_scores s (jq_type q) cand i hash at'"] r id
        by (simp add: apply_review_def)
    qed (use assms(3) in \<open>auto simp: keeps_lineage_def human_marked_reviewed\<close>)
  qed
  show "\<exists>r'. row_find br_id (br_id r) (e_results (jd_evidence db')) = Some r' \<and> human_marked r'"
    if "scores \<noteq> None"
  proof -
    from that obtain s where s: "scores = Some s" by blast
    have "row_find br_id (br_id r) (row_put br_id (apply_reviewed_scores s (jq_type q) cand i hash at' r)
        (e_results (jd_evidence db))) = Some (apply_reviewed_scores s (jq_type q) cand i hash at' r)"
      using r id by (simp add: row_find_put) (metis assms(1) option.simps(9))
    with s assms(3) show ?thesis by (simp add: apply_review_def human_marked_reviewed)
  qed
qed

lemma review_relabels:
  assumes ok: "review_route sha q i now new_id db = Inr (db', d)" and inv: "judge_inv db"
  shows "relabels db db' \<and> judge_inv db'"
  using ok
proof (cases rule: review_route_cases)
  case existing
  with inv show ?thesis by (simp add: relabels_refl)
next
  case (new r c scores hash)
  from inv have ids: "distinct (map br_id (e_results (jd_evidence db)))" by (simp add: judge_inv_def)
  note rel = apply_review_relabels(1) [OF new(1) ids new(11)]
  note marked = apply_review_relabels(2) [OF new(1) ids new(11)]
  have vals: "review_values_ok d"
    using review_scores_ok [OF new(5,6)] new(10)
    by (auto simp: review_values_ok_def review_row_def Let_def split: option.split)
  have "case_labels (jd_evidence db) d = candidate_labels c"
    using new(2,10) by (simp add: case_labels_def review_row_def case_of_result_def Let_def)
  then have auth: "review_authorised (jd_evidence db) d"
    using new(3,4,10) by (auto simp: review_authorised_def review_row_def Let_def)
  have d: "jr_id d = new_id" "jr_hash d = hash" "jr_result_id d = br_id r" "jr_applied d = (scores \<noteq> None)"
    using new(10) by (simp_all add: review_row_def Let_def)
  have applied: "review_marked (jd_evidence db') d" if "jr_applied d"
    using marked d that by (auto simp: review_marked_def)
  have "distinct (map jr_result_id (filter jr_applied (jd_reviews db @ [d])))"
    using inv new(9) d by (auto simp: judge_inv_def)
  with inv rel vals auth d applied new(7,8,11) relabels_ids [OF rel]
    authorised_relabels [OF rel] marked_relabels [OF rel]
  show ?thesis by (auto simp: judge_inv_def)
qed

lemma judge_step_ok:
  assumes "judge_inv s" and "judge_step sha c s = Inr t"
  shows "relabels s t \<and> judge_inv t"
proof -
  from assms(1) have ids: "distinct (map br_id (e_results (jd_evidence s)))" by (simp add: judge_inv_def)
  have imported: "relabels s t \<and> judge_inv t"
    if "import_judge_label_rows run rows ap i s = Inr (t, sm)" for run rows ap i sm
    using import_relabels [OF that ids] judge_inv_import [OF assms(1)] by blast
  show ?thesis
    using assms(2)
  proof (cases c)
    case (Import_Route run rows ap i)
    with assms(2) show ?thesis
      by (auto simp: import_route_def bind_res_eq_Inr map_sum_Inr_iff dest: imported)
  next
    case (Import_Cli run rows ap)
    with assms(2) show ?thesis by (auto simp: map_sum_Inr_iff dest: imported)
  next
    case (Review_Route q i now new_id)
    with assms show ?thesis by (auto simp: map_sum_Inr_iff dest: review_relabels)
  qed
qed

interpretation judge: audited_system "judge_step sha" "\<lambda>_ _. True" judge_inv jd_reviews for sha
  by unfold_locales (auto dest: judge_step_ok simp: relabels_def)

lemma judge_run_inv: "judge_inv s \<Longrightarrow> judge_inv (run_commands (judge_step sha) cs s)"
  by (rule judge.run_inv) (simp_all add: always_admissible)

lemma judge_run_relabels: "judge_inv s \<Longrightarrow> relabels s (run_commands (judge_step sha) cs s)"
proof (induction cs arbitrary: s)
  case Nil
  then show ?case by (simp add: relabels_refl)
next
  case (Cons c cs)
  show ?case
  proof (cases "judge_step sha c s")
    case (Inl e)
    with Cons show ?thesis by simp
  next
    case (Inr t)
    with judge_step_ok [OF Cons.prems Inr] Cons.IH [of t] show ?thesis
      by (auto intro: relabels_trans)
  qed
qed

lemma judge_inv_fresh: "distinct (map br_id (e_results ev)) \<Longrightarrow> judge_inv \<lparr>jd_evidence = ev, jd_reviews = []\<rparr>"
  by (simp add: judge_inv_def)

section \<open>Properties\<close>

text \<open>
  The import of a label file is one pass over the results. A committed import had labels with
  distinct samples; every result of the run that is the one found under its sample takes the label of
  that sample, if the labels were to be applied, and every other row of the database is as before.
  The summary counts the labels with and without such a result and averages, over the labels and
  results that both have a quality score, the distance of the score before the import.
\<close>

theorem import_is_one_pass:
  assumes "import_judge_label_rows run rows ap reviewer db = Inr (db', sm)"
    and "distinct (map br_id (e_results (jd_evidence db)))"
  shows "\<exists>labels. normalize_labels 1 rows = Inr labels \<and> distinct (map jl_sample labels) \<and>
           db' = db\<lparr>jd_evidence := (jd_evidence db)\<lparr>e_results :=
             (if ap then map (relabel run reviewer labels (e_results (jd_evidence db))) (e_results (jd_evidence db))
              else e_results (jd_evidence db))\<rparr>\<rparr> \<and>
           im_sum_matched sm = length (filter (has_target run (e_results (jd_evidence db))) labels) \<and>
           im_sum_matched sm + im_sum_missing sm = length labels \<and>
           im_sum_delta sm = mean (concat (map (label_delta run (e_results (jd_evidence db))) labels))"
proof -
  have "length (filter P ls) + length (filter (\<lambda>l. \<not> P l) ls) = length ls" for P and ls :: "judge_label list"
    by (rule sum_length_filter_compl)
  with import_rows_ok [OF assms] show ?thesis
    by (metis import_summary.select_convs(3,4,7))
qed

text \<open>
  C29. Review decisions under any sequence of imports and reviews, starting with none: a result has at
  most one applied decision; every decision was made by a verified reviewer with a review role who is
  not the judge named in the candidate labels; a decision is applied exactly when it is not a rejection,
  and then with values in the unit interval; and the result of an applied decision counts as human
  reviewed from then on.
\<close>

theorem review_decisions_are_sound:
  assumes "distinct (map br_id (e_results ev))"
    and "t = run_commands (judge_step sha) cs \<lparr>jd_evidence = ev, jd_reviews = []\<rparr>"
  shows "distinct (map jr_result_id (filter jr_applied (jd_reviews t))) \<and>
         (\<forall>d \<in> set (jd_reviews t).
            (\<exists>i. jr_reviewer d = identity_to_json i \<and> identity_verified i \<and>
                 lower (strip (text_or_empty (role i))) \<in> set JUDGE_REVIEW_ROLES \<and>
                 (candidate_subject (case_labels ev d) = [] \<or> candidate_subject (case_labels ev d) \<noteq> subject_id i)) \<and>
            (jr_applied d \<longleftrightarrow> jr_type d \<noteq> Rejected) \<and>
            (\<forall>s. jr_scores d = Some s \<longrightarrow> unit_scores s \<and> has_values s) \<and>
            (jr_applied d \<longrightarrow> (\<exists>r. row_find br_id (jr_result_id d) (e_results (jd_evidence t)) = Some r \<and>
                                   (\<forall>c. classify_score_tier r c = Human_Reviewed))))"
proof -
  let ?s = "\<lparr>jd_evidence = ev, jd_reviews = []\<rparr>"
  have inv: "judge_inv t" and rel: "relabels ?s t"
    using judge_inv_fresh [OF assms(1)] assms(2) by (auto intro: judge_run_inv judge_run_relabels)
  have auth: "review_authorised (jd_evidence t) d = review_authorised ev d" for d
    using authorised_relabels [OF rel] by simp
  have signer: "\<exists>i. jr_reviewer d = identity_to_json i \<and> identity_verified i \<and>
      lower (strip (text_or_empty (role i))) \<in> set JUDGE_REVIEW_ROLES \<and>
      (candidate_subject (case_labels ev d) = [] \<or> candidate_subject (case_labels ev d) \<noteq> subject_id i)"
    if "review_authorised ev d" for d
    using that by (auto simp: review_authorised_def reviewer_reasons_def split: if_split_asm)
  have marked: "\<exists>r. row_find br_id (jr_result_id d) (e_results (jd_evidence t)) = Some r \<and>
      (\<forall>c. classify_score_tier r c = Human_Reviewed)" if "review_marked (jd_evidence t) d" for d
    using that by (auto simp: review_marked_def human_marked_tier split: option.splits)
  have vals: "(jr_applied d \<longleftrightarrow> jr_type d \<noteq> Rejected) \<and>
      (\<forall>s. jr_scores d = Some s \<longrightarrow> unit_scores s \<and> has_values s)" if "review_values_ok d" for d
    using that by (auto simp: review_values_ok_def)
  show ?thesis
    using inv signer marked vals unfolding judge_inv_def auth by blast
qed

text \<open>
  C30. Labels do not move the evidence revision: as long as the results that count for a scope carry a
  stored revision hash (those of the Agent import and of resumed runs do), no sequence of label imports
  and reviews changes the hash the staleness check compares, although the scores of the results and
  their human labels change. A gate evaluated on the old scores stays current.
\<close>

theorem labels_never_make_a_gate_stale:
  assumes "distinct (map br_id (e_results ev))"
    and "row_find dc_id cfg (e_configs ev) = Some c" and "row_find es_id suite (e_suites ev) = Some s"
    and "\<forall>r \<in> set (bn_results (collect_evidence ev c s)). text_set (br_revision_hash r)"
    and "t = run_commands (judge_step sha) cs \<lparr>jd_evidence = ev, jd_reviews = []\<rparr>"
  shows "current_scope_evidence_revision_hash env (jd_evidence t) cfg suite =
           current_scope_evidence_revision_hash env ev cfg suite"
proof -
  have "relabels \<lparr>jd_evidence = ev, jd_reviews = []\<rparr> t"
    using judge_inv_fresh [OF assms(1)] assms(5) by (auto intro: judge_run_relabels)
  then obtain f where "keeps_lineage f" "jd_evidence t = ev\<lparr>e_results := map f (e_results ev)\<rparr>"
    by (auto simp: relabels_def)
  then show ?thesis
    using assms(2-4) relabelled_hash [of f ev c s] by (simp add: current_scope_evidence_revision_hash_def)
qed

text \<open>
  C33. An import without a reviewer over a reviewed result: the result takes the scores of the file and
  label metadata that name no reviewer, and it still counts as human reviewed.
\<close>

theorem unreviewed_scores_count_as_reviewed:
  assumes "import_judge_label_rows run rows True None db = Inr (db', sm)"
    and "distinct (map br_id (e_results (jd_evidence db)))"
    and "normalize_labels 1 rows = Inr labels" and "l \<in> set labels"
    and "result_of_sample run (jl_sample l) (e_results (jd_evidence db)) = Some r"
    and "human_marked r" and "ls_quality (jl_scores l) = Some q"
  shows "\<exists>r'. row_find br_id (br_id r) (e_results (jd_evidence db')) = Some r' \<and> br_quality r' = Some q \<and>
              jget (jget (br_metadata r') ''judge_label'') ''reviewer_identity'' = JNull \<and>
              (\<forall>c. classify_score_tier r' c = Human_Reviewed)"
proof -
  let ?rs = "e_results (jd_evidence db)" and ?r' = "apply_label None l r"
  obtain ls where ls: "normalize_labels 1 rows = Inr ls" "distinct (map jl_sample ls)"
    and db': "db' = db\<lparr>jd_evidence := (jd_evidence db)\<lparr>e_results := map (relabel run None ls ?rs) ?rs\<rparr>\<rparr>"
    using import_is_one_pass [OF assms(1,2)] by auto
  with assms(3) have [simp]: "ls = labels" by simp
  note r = result_of_sampleD [OF assms(5)]
  have "row_find jl_sample (jl_sample l) labels = Some l"
    using ls(2) assms(4) by (intro row_find_member) auto
  with r assms(5) have "relabel run None labels ?rs r = ?r'"
    by (simp add: relabel_def label_target_def row_find_def)
  moreover have "row_find br_id (br_id r) ?rs = Some r"
    using r assms(2) by (intro row_find_member) auto
  ultimately have "row_find br_id (br_id r) (e_results (jd_evidence db')) = Some ?r'"
    using db' by (simp add: row_find_map kept [OF keeps_relabel])
  moreover have "br_quality ?r' = Some q"
    using assms(7) by (simp add: apply_label_def write_scores_def or_else_def Let_def)
  moreover have "jget (jget (br_metadata ?r') ''judge_label'') ''reviewer_identity'' = JNull"
    by (simp add: apply_label_def jget_dict_set import_metadata_def Let_def) (simp add: jget_def)
  ultimately show ?thesis
    using human_marked_tier [OF human_marked_label [OF assms(6)]] by blast
qed

section \<open>Witnesses\<close>

definition demo_reviewer :: signer_identity where
  "demo_reviewer = \<lparr>subject_id = ''rev-1'', display_name = ''Reviewer'', role = Some '' QA Lead'',
     identity_provider = ''oidc'', auth_source = ''oidc'', identity_verified = True, ticket_reference = None\<rparr>"

text \<open>The result of the demonstration database with a stored revision hash, as the Agent import writes it.\<close>

definition demo_labelled :: "json \<Rightarrow> evidence_db" where
  "demo_labelled m = (demo_evidence 1)
     \<lparr>e_results := [(demo_bench_result 1)\<lparr>br_revision_hash := Some ''h1'', br_metadata := m\<rparr>]\<rparr>"

definition demo_labels :: "json list" where
  "demo_labels = [JObj [(''sample_id'', JStr (br_sample_id (demo_bench_result 1))), (''quality_score'', JStr ''0.25'')]]"

definition demo_review :: review_request where
  "demo_review = \<lparr>jq_result_id = br_id (demo_bench_result 1), jq_type = Overridden,
     jq_scores = \<lparr>ls_quality = Some (1 / 2), ls_groundedness = None, ls_faithfulness = None, ls_human = None\<rparr>,
     jq_rationale = ''checked by hand''\<rparr>"

definition demo_judge_run :: "json \<Rightarrow> judge_db" where
  "demo_judge_run m = run_commands (judge_step (\<lambda>_. ''h''))
     [Review_Route demo_review demo_reviewer 0 ''d1'', Import_Cli (br_run_id (demo_bench_result 1)) demo_labels True]
     \<lparr>jd_evidence = demo_labelled m, jd_reviews = []\<rparr>"

lemma demo_run_result:
  "map (\<lambda>r. br_quality r) (e_results (jd_evidence (demo_judge_run (JObj [])))) = [Some (1 / 4)] \<and>
   map jr_applied (jd_reviews (demo_judge_run (JObj []))) = [True]"
  by code_simp

definition demo_import :: "json \<Rightarrow> judge_error + judge_db \<times> import_summary" where
  "demo_import m = import_judge_label_rows (br_run_id (demo_bench_result 1)) demo_labels True None
     \<lparr>jd_evidence = demo_labelled m, jd_reviews = []\<rparr>"

lemma demo_import_ok:
  obtains db' sm where "demo_import m = Inr (db', sm)"
proof -
  have "normalize_labels 1 demo_labels = Inr [\<lparr>jl_sample = ''s1'', jl_scores = \<lparr>ls_quality = Some (1 / 4),
      ls_groundedness = None, ls_faithfulness = None, ls_human = None\<rparr>, jl_source = ''imported'', jl_model = None\<rparr>]"
    by code_simp
  then show thesis
    using that by (simp add: demo_import_def import_judge_label_rows_def validate_unique_samples_def Let_def)
qed

lemma demo_labelled_ids: "distinct (map br_id (e_results (demo_labelled m)))"
  by (simp add: demo_labelled_def)

theorem import_is_one_pass_witness:
  "case demo_import (JObj []) of Inl _ \<Rightarrow> False | Inr (db', sm) \<Rightarrow>
     \<exists>labels. normalize_labels 1 demo_labels = Inr labels \<and>
       e_results (jd_evidence db') = map (relabel (br_run_id (demo_bench_result 1)) None labels
         (e_results (demo_labelled (JObj [])))) (e_results (demo_labelled (JObj [])))"
proof -
  obtain db' sm where ok: "demo_import (JObj []) = Inr (db', sm)" by (rule demo_import_ok)
  from import_is_one_pass [OF ok [unfolded demo_import_def]] show ?thesis
    by (auto simp: ok demo_labelled_ids)
qed

theorem review_decisions_witness:
  "\<exists>d \<in> set (jd_reviews (demo_judge_run (JObj []))).
     jr_applied d \<and> (\<exists>r. row_find br_id (jr_result_id d) (e_results (jd_evidence (demo_judge_run (JObj [])))) = Some r \<and>
       (\<forall>c. classify_score_tier r c = Human_Reviewed))"
proof -
  obtain d where d: "d \<in> set (jd_reviews (demo_judge_run (JObj [])))" "jr_applied d"
    using demo_run_result by auto
  with review_decisions_are_sound [OF demo_labelled_ids demo_judge_run_def] show ?thesis by blast
qed

theorem never_stale_witness:
  "(\<forall>env. current_scope_evidence_revision_hash env (jd_evidence (demo_judge_run (JObj []))) ''config'' ''suite'' =
     current_scope_evidence_revision_hash env (demo_labelled (JObj [])) ''config'' ''suite'') \<and>
   map br_quality (e_results (demo_labelled (JObj []))) = [Some 1] \<and>
   map br_quality (e_results (jd_evidence (demo_judge_run (JObj [])))) = [Some (1 / 4)]"
proof -
  have rows: "row_find dc_id ''config'' (e_configs (demo_labelled m)) = Some demo_config"
    "row_find es_id ''suite'' (e_suites (demo_labelled m)) = Some demo_suite" for m
    by (simp_all add: demo_labelled_def demo_evidence_def demo_config_def demo_suite_def row_find_def)
  have "\<forall>r \<in> set (bn_results (collect_evidence (demo_labelled (JObj [])) demo_config demo_suite)).
      text_set (br_revision_hash r)"
    by code_simp
  from labels_never_make_a_gate_stale [OF demo_labelled_ids rows this demo_judge_run_def] demo_run_result
  show ?thesis by (simp add: demo_labelled_def demo_bench_result_def)
qed

theorem unreviewed_scores_witness:
  "case demo_import (JObj [(''human_reviewed'', JBool True)]) of Inl _ \<Rightarrow> False | Inr (db', sm) \<Rightarrow>
     \<exists>r'. row_find br_id ''b1'' (e_results (jd_evidence db')) = Some r' \<and> br_quality r' = Some (1 / 4) \<and>
          classify_score_tier r' None = Human_Reviewed"
proof -
  let ?m = "JObj [(''human_reviewed'', JBool True)]"
  let ?l = "\<lparr>jl_sample = ''s1'', jl_scores = \<lparr>ls_quality = Some (1 / 4),
      ls_groundedness = None, ls_faithfulness = None, ls_human = None\<rparr>, jl_source = ''imported'', jl_model = None\<rparr>"
  let ?r = "(demo_bench_result 1)\<lparr>br_revision_hash := Some ''h1'', br_metadata := ?m\<rparr>"
  obtain db' sm where ok: "demo_import ?m = Inr (db', sm)" by (rule demo_import_ok)
  have labels: "normalize_labels 1 demo_labels = Inr [?l]" by code_simp
  have found: "result_of_sample (br_run_id (demo_bench_result 1)) (jl_sample ?l) (e_results (demo_labelled ?m)) = Some ?r"
    by (simp add: result_of_sample_def demo_labelled_def row_find_def demo_bench_result_def)
  have ids: "distinct (map br_id (e_results (jd_evidence \<lparr>jd_evidence = demo_labelled ?m, jd_reviews = []\<rparr>)))"
    by (simp add: demo_labelled_ids)
  have result: "result_of_sample (br_run_id (demo_bench_result 1)) (jl_sample ?l)
      (e_results (jd_evidence \<lparr>jd_evidence = demo_labelled ?m, jd_reviews = []\<rparr>)) = Some ?r"
    using found by simp
  have marked: "human_marked ?r" by (simp add: human_marked_def as_dict_def jget_def)
  have "ls_quality (jl_scores ?l) = Some (1 / 4)" and "?l \<in> set [?l]" by simp_all
  from unreviewed_scores_count_as_reviewed [OF ok [unfolded demo_import_def] ids labels this(2) result marked this(1)]
  have "\<exists>r'. row_find br_id (br_id ?r) (e_results (jd_evidence db')) = Some r' \<and> br_quality r' = Some (1 / 4) \<and>
      (\<forall>c. classify_score_tier r' c = Human_Reviewed)" by blast
  then show ?thesis by (auto simp: ok demo_bench_result_def)
qed

end
