(* ===== verification/Agent_Control_Correct.thy ===== *)
theory Agent_Control_Correct
  imports Agent_Control Judge_Labels_Correct Release_System
begin

text \<open>
  Properties of the Agent control plane: the effect of every command on the checkpoints and the results,
  the invariant and life cycle of checkpoints, the use of the version as an optimistic lock, and what a
  resumed execution means for the evidence and the gates of its scope.
\<close>

section \<open>How a checkpoint moves\<close>

inductive cp_edge :: "checkpoint_status \<Rightarrow> checkpoint_status \<Rightarrow> bool" where
  approve: "cp_edge Cp_Pending Cp_Approved"
| deny: "cp_edge Cp_Pending Cp_Denied"
| lapse: "cp_edge Cp_Pending Cp_Expired"
| revoke: "cp_edge Cp_Approved Cp_Revoked"
| resume: "cp_edge Cp_Approved Cp_Resumed"
| expire: "cp_edge Cp_Approved Cp_Expired"

inductive_simps cp_edge_simps [simp]: "cp_edge Cp_Denied s" "cp_edge Cp_Revoked s" "cp_edge Cp_Expired s"
  "cp_edge Cp_Resumed s"

definition same_request :: "checkpoint \<Rightarrow> checkpoint \<Rightarrow> bool" where
  "same_request c c' \<longleftrightarrow>
     cp_id c' = cp_id c \<and> cp_run_id c' = cp_run_id c \<and> cp_result_id c' = cp_result_id c \<and>
     cp_checkpoint_id c' = cp_checkpoint_id c \<and> cp_requester c' = cp_requester c \<and>
     cp_requested_by c' = cp_requested_by c \<and> cp_request c' = cp_request c \<and> cp_policy c' = cp_policy c \<and>
     cp_request_hash c' = cp_request_hash c \<and> cp_expires_at c' = cp_expires_at c"

text \<open>A row either stays as it is, or takes a step with a greater version and keeps the decision it has.\<close>

definition cp_moves :: "checkpoint \<Rightarrow> checkpoint \<Rightarrow> bool" where
  "cp_moves c c' \<longleftrightarrow> c' = c \<or>
     (same_request c c' \<and> cp_version c < cp_version c' \<and> cp_edge\<^sup>+\<^sup>+ (cp_status c) (cp_status c') \<and>
      (cp_decision c = None \<or>
       cp_decision c' = cp_decision c \<and> cp_approver c' = cp_approver c \<and> cp_decision_hash c' = cp_decision_hash c))"

lemma cp_moves_refl [simp]: "cp_moves c c"
  by (simp add: cp_moves_def)

lemma cp_moves_trans: "cp_moves a b \<Longrightarrow> cp_moves b c \<Longrightarrow> cp_moves a c"
  by (auto simp: cp_moves_def same_request_def intro: tranclp_trans)

lemma cp_moves_request: "cp_moves c c' \<Longrightarrow> same_request c c'"
  by (auto simp: cp_moves_def same_request_def)

lemma cp_moves_id: "cp_moves c c' \<Longrightarrow> cp_id c' = cp_id c"
  by (auto simp: cp_moves_def same_request_def)

definition same_lineage :: "bench_result \<Rightarrow> bench_result \<Rightarrow> bool" where
  "same_lineage r r' \<longleftrightarrow> lineage_key r' = lineage_key r"

lemma same_lineage_refl [simp]: "same_lineage r r"
  by (simp add: same_lineage_def)

text \<open>What every command does: it moves checkpoints and appends new ones, and it appends results.\<close>

definition control_effect :: "control_db \<Rightarrow> control_db \<Rightarrow> bool" where
  "control_effect db db' \<longleftrightarrow>
     extends cp_moves (cn_checkpoints db) (cn_checkpoints db') \<and>
     extends same_lineage (cn_results db) (cn_results db')"

lemma control_effect_refl [simp]: "control_effect db db"
  by (simp add: control_effect_def extends_refl)

lemma control_effect_trans: "control_effect a b \<Longrightarrow> control_effect b c \<Longrightarrow> control_effect a c"
  unfolding control_effect_def
  by (auto elim: extends_trans [rotated] simp: same_lineage_def intro: cp_moves_trans)

section \<open>Writing rows\<close>

lemma add_log_simps [simp]:
  "cn_gates (add_log r e l m p now db) = cn_gates db" "cn_checkpoints (add_log r e l m p now db) = cn_checkpoints db"
  by (simp_all add: add_log_def)

lemma checkpoint_log_simps [simp]:
  "cn_gates (checkpoint_log c e l m p now db) = cn_gates db"
  "cn_checkpoints (checkpoint_log c e l m p now db) = cn_checkpoints db"
  by (simp_all add: checkpoint_log_def split: option.split)

lemma other_log_simps [simp]:
  "cn_gates (requested_log r c now db) = cn_gates db" "cn_checkpoints (requested_log r c now db) = cn_checkpoints db"
  "cn_gates (execution_event_log r now l db) = cn_gates db"
  "cn_checkpoints (execution_event_log r now l db) = cn_checkpoints db"
  "cn_gates (revision_log run r new cs ev tr now db) = cn_gates db"
  "cn_checkpoints (revision_log run r new cs ev tr now db) = cn_checkpoints db"
  "cn_gates (decided_log c p now db) = cn_gates db" "cn_checkpoints (decided_log c p now db) = cn_checkpoints db"
  "cn_gates (resumed_log r new c n tr now db) = cn_gates db"
  "cn_checkpoints (resumed_log r new c n tr now db) = cn_checkpoints db"
  by (simp_all add: requested_log_def execution_event_log_def revision_log_def decided_log_def resumed_log_def Let_def)

lemma fold_log_simps [simp]:
  "cn_gates (fold (execution_event_log r now) ls db) = cn_gates db"
  "cn_checkpoints (fold (execution_event_log r now) ls db) = cn_checkpoints db"
  by (induction ls arbitrary: db) simp_all

lemma put_checkpoint_simps [simp]:
  "cn_gates (put_checkpoint c db) = cn_gates db"
  "cn_checkpoints (put_checkpoint c db) = row_put cp_id c (cn_checkpoints db)"
  by (simp_all add: put_checkpoint_def)

lemma set_evidence_simps [simp]:
  "g_evidence (cn_gates (set_evidence ev db)) = ev" "cn_checkpoints (set_evidence ev db) = cn_checkpoints db"
  "g_gates (cn_gates (set_evidence ev db)) = g_gates (cn_gates db)"
  by (simp_all add: set_evidence_def)

lemma put_moves:
  assumes "distinct (map cp_id cs)" and "c \<in> set cs" and "cp_moves c c'"
  shows "list_all2 cp_moves cs (row_put cp_id c' cs)"
  by (rule row_put_moves [where R = cp_moves, OF assms(1,2) cp_moves_id [OF assms(3)] assms(3) cp_moves_refl])

lemma expired_moves:
  assumes "checkpoint_is_due now c"
  shows "cp_moves c (expired_checkpoint c)"
proof -
  from assms have "cp_edge (cp_status c) Cp_Expired"
    by (auto simp: checkpoint_is_due_def intro: lapse expire)
  then have "cp_edge\<^sup>+\<^sup>+ (cp_status c) Cp_Expired" by (rule tranclp.r_into_trancl)
  then show ?thesis by (simp add: cp_moves_def same_request_def expired_checkpoint_def)
qed

lemma expired_fields [simp]:
  "cp_id (expired_checkpoint c) = cp_id c" "cp_status (expired_checkpoint c) = Cp_Expired"
  "cp_version (expired_checkpoint c) = cp_version c + 1" "cp_result_id (expired_checkpoint c) = cp_result_id c"
  "cp_checkpoint_id (expired_checkpoint c) = cp_checkpoint_id c" "cp_policy (expired_checkpoint c) = cp_policy c"
  "cp_decision (expired_checkpoint c) = cp_decision c" "cp_approver (expired_checkpoint c) = cp_approver c"
  "cp_requester (expired_checkpoint c) = cp_requester c"
  "cp_transition_result (expired_checkpoint c) = cp_transition_result c"
  by (simp_all add: expired_checkpoint_def)

lemma mark_expired_simps [simp]:
  "cn_gates (mark_checkpoint_expired now c db) = cn_gates db"
  "cn_checkpoints (mark_checkpoint_expired now c db) = row_put cp_id (expired_checkpoint c) (cn_checkpoints db)"
  by (simp_all add: mark_checkpoint_expired_def)

text \<open>Expiring the due rows one after the other is one pass over the table.\<close>

lemma fold_expired:
  assumes "distinct (map cp_id (cn_checkpoints db))" and "set ds \<subseteq> set (cn_checkpoints db)"
  shows "cn_gates (fold (mark_checkpoint_expired now) ds db) = cn_gates db \<and>
         cn_checkpoints (fold (mark_checkpoint_expired now) ds db) =
           map (\<lambda>c. if c \<in> set ds then expired_checkpoint c else c) (cn_checkpoints db)"
  using assms(2)
proof (induction ds rule: rev_induct)
  case Nil
  then show ?case by simp
next
  case (snoc d ds)
  have same: "x = d" if "x \<in> set (cn_checkpoints db)" "cp_id x = cp_id d" for x
    using assms(1) that snoc.prems by (auto dest: distinct_key_eq)
  from snoc same show ?case by (auto simp: row_put_def)
qed

lemma reconcile_rows:
  assumes "distinct (map cp_id (cn_checkpoints db))"
  shows "cn_gates (fst (reconcile_agent_approval_checkpoints now db)) = cn_gates db"
    and "cn_checkpoints (fst (reconcile_agent_approval_checkpoints now db)) =
      map (\<lambda>c. if checkpoint_is_due now c then expired_checkpoint c else c) (cn_checkpoints db)"
proof -
  let ?ds = "filter (checkpoint_is_due now) (cn_checkpoints db)"
  have "set ?ds \<subseteq> set (cn_checkpoints db)" by auto
  from fold_expired [OF assms this, of now]
  show "cn_gates (fst (reconcile_agent_approval_checkpoints now db)) = cn_gates db"
    and "cn_checkpoints (fst (reconcile_agent_approval_checkpoints now db)) =
      map (\<lambda>c. if checkpoint_is_due now c then expired_checkpoint c else c) (cn_checkpoints db)"
    by (auto simp: reconcile_agent_approval_checkpoints_def Let_def)
qed

section \<open>The invariant\<close>

definition result_exists :: "bench_result list \<Rightarrow> uuid \<Rightarrow> uuid \<Rightarrow> bool" where
  "result_exists rs parent i \<longleftrightarrow> (\<exists>r \<in> set rs. br_id r = i \<and> br_parent_id r = Some parent)"

definition status_ok :: "bench_result list \<Rightarrow> checkpoint \<Rightarrow> bool" where
  "status_ok rs c \<longleftrightarrow>
     (case cp_status c of
        Cp_Pending \<Rightarrow> cp_decision c = None \<and> cp_transition_result c = None
      | Cp_Approved \<Rightarrow> cp_decision c = Some Verdict_Approved \<and> cp_transition_result c = None
      | Cp_Revoked \<Rightarrow> cp_decision c = Some Verdict_Approved \<and> cp_transition_result c = None
      | Cp_Expired \<Rightarrow> cp_decision c \<noteq> Some Verdict_Denied \<and> cp_transition_result c = None
      | Cp_Denied \<Rightarrow> cp_decision c = Some Verdict_Denied \<and>
          (\<exists>i. cp_transition_result c = Some i \<and> result_exists rs (cp_result_id c) i)
      | Cp_Resumed \<Rightarrow> cp_decision c = Some Verdict_Approved \<and>
          (\<exists>i. cp_transition_result c = Some i \<and> result_exists rs (cp_result_id c) i))"

definition decision_authorised :: "checkpoint \<Rightarrow> bool" where
  "decision_authorised c \<longleftrightarrow>
     (\<exists>i p. cp_approver c = identity_to_json i \<and> checkpoint_policy_from_json (cp_policy c) = Inr p \<and>
            ev_reasons (evaluate_checkpoint_policy p Op_Decide (cp_requester c) i) = [])"

definition cp_ok :: "bench_result list \<Rightarrow> checkpoint \<Rightarrow> bool" where
  "cp_ok rs c \<longleftrightarrow> 1 \<le> cp_version c \<and> status_ok rs c \<and> (cp_decision c = None \<or> decision_authorised c)"

definition cp_key :: "checkpoint \<Rightarrow> uuid \<times> string" where
  "cp_key c = (cp_result_id c, cp_checkpoint_id c)"

definition control_inv :: "control_db \<Rightarrow> bool" where
  "control_inv db \<longleftrightarrow>
     distinct (map cp_id (cn_checkpoints db)) \<and> distinct (map cp_key (cn_checkpoints db)) \<and>
     distinct (map br_id (cn_results db)) \<and>
     (\<forall>c \<in> set (cn_checkpoints db). cp_ok (cn_results db) c)"

lemma result_exists_extends: "extends same_lineage rs rs' \<Longrightarrow> result_exists rs p i \<Longrightarrow> result_exists rs' p i"
proof -
  assume e: "extends same_lineage rs rs'" and r: "result_exists rs p i"
  obtain xs zs where rs': "rs' = xs @ zs" "list_all2 same_lineage rs xs" using e by (auto simp: extends_def)
  from r obtain r where "r \<in> set rs" "br_id r = i" "br_parent_id r = Some p" by (auto simp: result_exists_def)
  moreover from rs'(2) this(1) obtain r' where "r' \<in> set xs" "same_lineage r r'"
    by (induction rule: list_all2_induct) auto
  ultimately show "result_exists rs' p i"
    by (auto simp: result_exists_def rs'(1) same_lineage_def lineage_key_def)
qed

lemma cp_ok_extends:
  assumes "extends same_lineage rs rs'" and "cp_ok rs c"
  shows "cp_ok rs' c"
proof -
  have "status_ok rs' c" if "status_ok rs c"
    using that result_exists_extends [OF assms(1), of "cp_result_id c"]
    by (cases "cp_status c") (simp_all only: status_ok_def checkpoint_status.case, blast+)
  with assms(2) show ?thesis by (simp add: cp_ok_def)
qed

lemma expired_ok: "checkpoint_is_due now c \<Longrightarrow> cp_ok rs c \<Longrightarrow> cp_ok rs (expired_checkpoint c)"
  by (auto simp: cp_ok_def checkpoint_is_due_def status_ok_def decision_authorised_def)

lemma control_inv_ids: "control_inv db \<Longrightarrow> distinct (map cp_id (cn_checkpoints db))"
  by (simp add: control_inv_def)

text \<open>Rows that keep their key and their correctness keep the invariant.\<close>

lemma control_inv_rows:
  assumes inv: "control_inv db" and rows: "list_all2 cp_moves (cn_checkpoints db) (cn_checkpoints db')"
    and ok: "\<And>c'. c' \<in> set (cn_checkpoints db') \<Longrightarrow> cp_ok (cn_results db') c'"
    and results: "distinct (map br_id (cn_results db'))"
  shows "control_inv db'"
proof -
  have "map cp_id (cn_checkpoints db') = map cp_id (cn_checkpoints db)"
    and "map cp_key (cn_checkpoints db') = map cp_key (cn_checkpoints db)"
    using rows by (induction rule: list_all2_induct) (auto simp: cp_key_def cp_moves_def same_request_def)
  with inv ok results show ?thesis by (simp add: control_inv_def)
qed

lemma mark_expired_step:
  assumes inv: "control_inv db" and c: "c \<in> set (cn_checkpoints db)" and due: "checkpoint_is_due now c"
  shows "control_effect db (mark_checkpoint_expired now c db) \<and> control_inv (mark_checkpoint_expired now c db)"
proof -
  have rows: "list_all2 cp_moves (cn_checkpoints db) (cn_checkpoints (mark_checkpoint_expired now c db))"
    using put_moves [OF control_inv_ids [OF inv] c expired_moves [OF due]] by simp
  moreover have "control_inv (mark_checkpoint_expired now c db)"
  proof (rule control_inv_rows [OF inv rows])
    fix c' assume "c' \<in> set (cn_checkpoints (mark_checkpoint_expired now c db))"
    then have "c' = expired_checkpoint c \<or> c' \<in> set (cn_checkpoints db)"
      by (auto simp: in_set_row_put)
    with inv c expired_ok [OF due] show "cp_ok (cn_results (mark_checkpoint_expired now c db)) c'"
      by (auto simp: control_inv_def)
  qed (use inv in \<open>simp add: control_inv_def\<close>)
  ultimately show ?thesis by (simp add: control_effect_def extends_same extends_refl)
qed

lemma reconcile_step:
  assumes inv: "control_inv db"
  shows "control_effect db (fst (reconcile_agent_approval_checkpoints now db)) \<and>
         control_inv (fst (reconcile_agent_approval_checkpoints now db))"
proof -
  note r = reconcile_rows [OF control_inv_ids [OF inv], of now]
  have rows: "list_all2 cp_moves (cn_checkpoints db) (cn_checkpoints (fst (reconcile_agent_approval_checkpoints now db)))"
    unfolding r(2) by (rule list_all2_map_rightI) (simp add: expired_moves)
  moreover have "control_inv (fst (reconcile_agent_approval_checkpoints now db))"
  proof (rule control_inv_rows [OF inv rows])
    fix c' assume "c' \<in> set (cn_checkpoints (fst (reconcile_agent_approval_checkpoints now db)))"
    with inv expired_ok show "cp_ok (cn_results (fst (reconcile_agent_approval_checkpoints now db))) c'"
      by (auto simp: r control_inv_def)
  qed (use inv in \<open>simp add: r control_inv_def\<close>)
  ultimately show ?thesis by (simp add: control_effect_def extends_same extends_refl r)
qed

section \<open>Materialisation\<close>

definition pending_row :: "bench_result \<Rightarrow> checkpoint \<Rightarrow> bool" where
  "pending_row r n \<longleftrightarrow>
     cp_result_id n = br_id r \<and> cp_status n = Cp_Pending \<and> cp_decision n = None \<and>
     cp_transition_result n = None \<and> cp_version n = 1"

lemma new_checkpoint_fields:
  "pending_row r (new_checkpoint env c r trace step cid contract rq now i)"
  "cp_id (new_checkpoint env c r trace step cid contract rq now i) = i"
  "cp_checkpoint_id (new_checkpoint env c r trace step cid contract rq now i) = cid"
  by (simp_all add: pending_row_def new_checkpoint_def Let_def)

definition appended :: "bench_result \<Rightarrow> control_db \<Rightarrow> control_db \<Rightarrow> checkpoint list \<Rightarrow> bool" where
  "appended r db db' news \<longleftrightarrow>
     cn_checkpoints db' = cn_checkpoints db @ news \<and> cn_gates db' = cn_gates db \<and>
     (\<forall>n \<in> set news. pending_row r n) \<and>
     (distinct (map cp_id (cn_checkpoints db)) \<longrightarrow> distinct (map cp_id (cn_checkpoints db'))) \<and>
     (distinct (map cp_key (cn_checkpoints db)) \<longrightarrow> distinct (map cp_key (cn_checkpoints db')))"

lemma appended_Cons:
  assumes "appended r dbx db' news" and "cn_checkpoints dbx = cn_checkpoints db @ [row]" and "cn_gates dbx = cn_gates db"
    and "pending_row r row" and "cp_id row \<notin> cp_id ` set (cn_checkpoints db)"
    and "cp_key row \<notin> cp_key ` set (cn_checkpoints db)"
  shows "appended r db db' (row # news)"
proof -
  have "distinct (map cp_id (cn_checkpoints dbx)) \<longleftrightarrow> distinct (map cp_id (cn_checkpoints db))"
    and "distinct (map cp_key (cn_checkpoints dbx)) \<longleftrightarrow> distinct (map cp_key (cn_checkpoints db))"
    using assms(5,6) by (auto simp: assms(2))
  moreover have "cn_checkpoints db' = cn_checkpoints db @ row # news" and "cn_gates db' = cn_gates db"
    and "\<forall>n \<in> set (row # news). pending_row r n"
    using assms(1-4) by (simp_all add: appended_def)
  ultimately show ?thesis using assms(1) unfolding appended_def by blast
qed

lemma materialize_steps_spec:
  "materialize_steps env c r trace contract rq now fresh steps db created = Inr (db', created') \<Longrightarrow>
   \<exists>news. created' = created @ news \<and> appended r db db' news"
proof (induction steps arbitrary: db created)
  case Nil
  then show ?case by (simp add: appended_def)
next
  case (Cons step steps)
  let ?cid = "strip (str_or_empty (jget (as_dict (jget step ''output'')) ''checkpoint_id''))"
  let ?row = "new_checkpoint env c r trace step ?cid contract rq now (fresh ?cid)"
  let ?known = "?cid = [] \<or> list_ex (\<lambda>k. cp_result_id k = br_id r \<and> cp_checkpoint_id k = ?cid) (cn_checkpoints db)"
  show ?case
  proof (cases ?known)
    case True
    with Cons show ?thesis by (simp add: Let_def)
  next
    case False
    let ?db = "requested_log r ?row now (db\<lparr>cn_checkpoints := cn_checkpoints db @ [?row]\<rparr>)"
    from False Cons.prems have fresh: "fresh ?cid \<notin> cp_id ` set (cn_checkpoints db)"
      and rest: "materialize_steps env c r trace contract rq now fresh steps ?db (created @ [?row]) = Inr (db', created')"
      by (auto simp: Let_def split: if_split_asm)
    from Cons.IH [OF rest] obtain news where news: "created' = (created @ [?row]) @ news" "appended r ?db db' news"
      by blast
    have row: "pending_row r ?row" "cp_id ?row = fresh ?cid" "cp_checkpoint_id ?row = ?cid"
      by (rule new_checkpoint_fields)+
    have key: "cp_key ?row \<notin> cp_key ` set (cn_checkpoints db)"
      using False row by (auto simp: cp_key_def pending_row_def list_ex_iff)
    have "appended r db db' (?row # news)"
      by (rule appended_Cons [OF news(2) _ _ row(1) _ key]) (simp_all add: row(2) fresh)
    with news(1) show ?thesis by auto
  qed
qed

text \<open>Only the metadata of the result the checkpoints belong to may change.\<close>

definition relinked :: "bench_result \<Rightarrow> control_db \<Rightarrow> control_db \<Rightarrow> bool" where
  "relinked r db db' \<longleftrightarrow>
     (\<exists>f. keeps_lineage f \<and> (\<forall>q. br_id q \<noteq> br_id r \<longrightarrow> f q = q) \<and>
          cn_gates db' = (cn_gates db)\<lparr>g_evidence := (g_evidence (cn_gates db))\<lparr>e_results := map f (cn_results db)\<rparr>\<rparr>)"

lemma relinked_results: "relinked r db db' \<Longrightarrow>
    list_all2 same_lineage (cn_results db) (cn_results db') \<and> map br_id (cn_results db') = map br_id (cn_results db)"
  by (auto simp: relinked_def keeps_lineage_def same_lineage_def comp_def kept list_all2_map2 list_all2_refl)

lemma materialize_spec:
  assumes "materialize_pending_agent_checkpoints env r trace contract rq now fresh db = Inr (db', created)"
    and "r \<in> set (cn_results db)" and "distinct (map br_id (cn_results db))"
  shows "relinked r db db' \<and> (\<exists>dbs. appended r db dbs created \<and> cn_checkpoints db' = cn_checkpoints dbs)"
proof -
  let ?ev = "g_evidence (cn_gates db)"
  from assms(1) obtain db1 where steps:
    "materialize_steps env (result_case ?ev r) r trace contract rq now fresh (pending_checkpoint_steps trace) db [] =
     Inr (db1, created)"
    by (auto simp: materialize_pending_agent_checkpoints_def bind_res_eq_Inr Let_def split: if_split_asm)
  from materialize_steps_spec [OF steps] have app: "appended r db db1 created" by simp
  show ?thesis
  proof (cases "created = []")
    case True
    with assms(1) steps have "db' = db1"
      by (simp add: materialize_pending_agent_checkpoints_def Let_def)
    moreover from app have "relinked r db db1"
      unfolding relinked_def by (intro exI [where x = "\<lambda>q. q"]) (auto simp: appended_def)
    ultimately show ?thesis using app by blast
  next
    case False
    with assms(1) steps obtain m where
      db': "db' = set_evidence (?ev\<lparr>e_results := row_put br_id (r\<lparr>br_metadata := m\<rparr>) (e_results ?ev)\<rparr>) db1"
      by (auto simp: materialize_pending_agent_checkpoints_def Let_def bind_res_eq_Inr)
    let ?f = "\<lambda>q. if br_id q = br_id r then q\<lparr>br_metadata := m\<rparr> else q"
    have "row_put br_id (r\<lparr>br_metadata := m\<rparr>) (e_results ?ev) = map ?f (e_results ?ev)"
      using row_put_as_map [OF assms(3,2), of "\<lambda>q. q\<lparr>br_metadata := m\<rparr>"] by simp
    moreover have "keeps_lineage ?f" by (simp add: keeps_lineage_def lineage_key_def)
    ultimately have "relinked r db db'"
      unfolding relinked_def using app
      by (intro exI [where x = ?f]) (simp add: db' set_evidence_def appended_def)
    then show ?thesis using app db' by auto
  qed
qed

lemma appended_cp_ok: "pending_row r n \<Longrightarrow> cp_ok rs n"
  by (simp add: pending_row_def cp_ok_def status_ok_def)

lemma materialize_step:
  assumes inv: "control_inv db" and r: "r \<in> set (cn_results db)"
    and m: "materialize_pending_agent_checkpoints env r trace contract rq now fresh db = Inr (db', created)"
  shows "control_effect db db' \<and> control_inv db'"
proof -
  from inv have ids: "distinct (map br_id (cn_results db))" by (simp add: control_inv_def)
  from materialize_spec [OF m r ids] obtain dbs where rel: "relinked r db db'"
    and app: "appended r db dbs created" and rows: "cn_checkpoints db' = cn_checkpoints dbs" by blast
  note res = relinked_results [OF rel]
  from app rows have ext: "cn_checkpoints db' = cn_checkpoints db @ created" by (simp add: appended_def)
  have "extends same_lineage (cn_results db) (cn_results db')" using res by (intro extends_same) simp
  moreover have "extends cp_moves (cn_checkpoints db) (cn_checkpoints db')"
    unfolding ext by (rule extendsI) (simp add: list_all2_refl)
  ultimately have eff: "control_effect db db'" by (simp add: control_effect_def)
  moreover have "cp_ok (cn_results db') c" if "c \<in> set (cn_checkpoints db')" for c
    using that inv app appended_cp_ok cp_ok_extends [of "cn_results db" "cn_results db'" c] eff
    by (auto simp: ext control_inv_def appended_def control_effect_def)
  moreover have "distinct (map cp_id (cn_checkpoints db')) \<and> distinct (map cp_key (cn_checkpoints db'))"
    using inv app unfolding rows control_inv_def appended_def by blast
  ultimately show ?thesis using res ids by (simp add: control_inv_def)
qed

section \<open>Revisions\<close>

lemma stale_reason_not_blank: "\<not> blank AGENT_STALE_REASON"
  by code_simp

lemma foldr_max_upper: "x \<in> set (k # ks) \<Longrightarrow> (x :: int) \<le> foldr max ks k"
  by (induction ks) (auto simp: le_max_iff_disj)

lemma or_one_ge: "k \<le> or_one k"
  by (simp add: or_one_def)

lemma next_revision_greater:
  assumes "q \<in> set rs" and "br_id q = root_id r \<or> br_root_id q = Some (root_id r)"
  shows "br_revision q < next_revision r rs"
proof -
  let ?l = "lineage_revisions (root_id r) rs"
  have mem: "br_revision q \<in> set ?l" using assms by (auto simp: lineage_revisions_def)
  then obtain k ks where l: "?l = k # ks" by (cases ?l) auto
  with mem foldr_max_upper [of "br_revision q" k ks] have "br_revision q \<le> foldr max ks k" by simp
  also have "\<dots> \<le> or_one (foldr max ks k)" by (rule or_one_ge)
  finally show ?thesis by (simp add: next_revision_def l le_max_iff_disj)
qed

lemma next_revision_pos: "0 \<le> br_revision r \<Longrightarrow> 1 < next_revision r rs"
  by (auto simp: next_revision_def or_one_def less_max_iff_disj)

lemma stale_scope_spec:
  assumes "stale_scope env run now db = Inr db'"
  shows "cn_checkpoints db' = cn_checkpoints db" and "g_evidence (cn_gates db') = g_evidence (cn_gates db)"
    and "only_stales (cn_gates db) (cn_gates db')"
    and "scope_of_run run = Some sc \<Longrightarrow> fresh_scope (ct_gate env) (cn_gates db') sc"
proof -
  have "cn_checkpoints db' = cn_checkpoints db \<and> only_stales (cn_gates db) (cn_gates db') \<and>
      (scope_of_run run = Some sc \<longrightarrow> fresh_scope (ct_gate env) (cn_gates db') sc)"
  proof (cases "scope_of_run run")
    case None
    with assms show ?thesis by (simp add: stale_scope_def)
  next
    case (Some s)
    obtain cfg suite where s: "s = (cfg, suite)" by (cases s)
    with assms Some obtain gates stale where
      m: "mark_scope_gates_stale (ct_gate env) cfg suite None AGENT_STALE_REASON now None (cn_gates db) = Inr (gates, stale)"
      and db': "db' = db\<lparr>cn_gates := gates\<rparr>"
      by (auto simp: stale_scope_def split: sum.splits)
    from mark_scope_result(1) [OF stale_reason_not_blank m] mark_scope_fresh [OF stale_reason_not_blank m]
    show ?thesis by (auto simp: db' Some s)
  qed
  then show "cn_checkpoints db' = cn_checkpoints db" and "only_stales (cn_gates db) (cn_gates db')"
    and "scope_of_run run = Some sc \<Longrightarrow> fresh_scope (ct_gate env) (cn_gates db') sc"
    and "g_evidence (cn_gates db') = g_evidence (cn_gates db)"
    by (auto simp: only_stales_def)
qed

lemma revision_result_fields [simp]:
  "br_id (revision_result env r n ev dw tr link sc) = dw_result_id dw"
  "br_run_id (revision_result env r n ev dw tr link sc) = dw_run_id dw"
  "br_parent_id (revision_result env r n ev dw tr link sc) = Some (br_id r)"
  "br_root_id (revision_result env r n ev dw tr link sc) = Some (root_id r)"
  "br_revision (revision_result env r n ev dw tr link sc) = n"
  "br_case_id (revision_result env r n ev dw tr link sc) = br_case_id r"
  "br_sample_id (revision_result env r n ev dw tr link sc) = br_sample_id r"
  "br_revision_hash (revision_result env r n ev dw tr link sc) = Some (revision_hash_of env r n ev dw tr sc)"
  by (simp_all add: revision_result_def)

text \<open>What a committed revision is; \<open>run\<close> is the run of the parent result.\<close>

definition revised ::
  "control_env \<Rightarrow> bench_result \<Rightarrow> bench_run \<Rightarrow> bench_result \<Rightarrow> control_db \<Rightarrow> control_db \<Rightarrow> bool" where
  "revised env r run new db db' \<longleftrightarrow>
     row_find rn_id (br_run_id r) (e_runs (g_evidence (cn_gates db))) = Some run \<and>
     cn_checkpoints db' = cn_checkpoints db \<and> cn_results db' = cn_results db @ [new] \<and>
     br_id new \<notin> br_id ` set (cn_results db) \<and> br_parent_id new = Some (br_id r) \<and>
     br_root_id new = Some (root_id r) \<and> br_revision new = next_revision r (cn_results db) \<and>
     br_case_id new = br_case_id r \<and> br_sample_id new = br_sample_id r \<and>
     (\<exists>j. br_revision_hash new = Some (env_sha (ct_gate env) j)) \<and>
     (\<exists>run'. rn_id run' = br_run_id new \<and> rn_status run' = ''completed'' \<and>
        rn_config_id run' = rn_config_id run \<and> rn_suite_id run' = rn_suite_id run \<and>
        rn_data_source run' = rn_data_source run \<and>
        e_runs (g_evidence (cn_gates db')) = e_runs (g_evidence (cn_gates db)) @ [run']) \<and>
     e_configs (g_evidence (cn_gates db')) = e_configs (g_evidence (cn_gates db)) \<and>
     e_suites (g_evidence (cn_gates db')) = e_suites (g_evidence (cn_gates db)) \<and>
     e_cases (g_evidence (cn_gates db')) = e_cases (g_evidence (cn_gates db)) \<and>
     (\<forall>sc. scope_of_run run = Some sc \<longrightarrow> fresh_scope (ct_gate env) (cn_gates db') sc)"

lemma apply_spec:
  assumes "apply_persisted_decisions env r records operator event now dw db = Inr (db', new, trace, n)"
  shows "n = br_revision new \<and> (\<exists>run. revised env r run new db db')"
proof -
  let ?ev = "g_evidence (cn_gates db)"
  from assms obtain run where run: "row_find rn_id (br_run_id r) (e_runs ?ev) = Some run"
    by (auto simp: apply_persisted_decisions_def Let_def split: option.splits)
  from assms run obtain link m scored db1 new_run where
    n: "n = next_revision r (e_results ?ev)"
    and new: "new = revision_result env r n event dw trace link scored"
    and new_run: "new_run = (revision_run run r n event dw)\<lparr>rn_revision_hash :=
        Some (run_revision_hash env run n dw (br_revision_hash new))\<rparr>"
    and written: "write_revision new_run new (revision_metric r m dw scored) db = Inr db1"
    and stale: "stale_scope env run now (revision_log run r new records event trace now
                 (fold (execution_event_log new now) (cr_logs scored) db1)) = Inr db'"
    by (auto simp: apply_persisted_decisions_def Let_def bind_res_eq_Inr split: option.splits prod.splits)
  from written have fresh: "br_id new \<notin> br_id ` set (e_results ?ev)"
    and db1: "db1 = set_evidence (?ev\<lparr>e_runs := e_runs ?ev @ [new_run], e_results := e_results ?ev @ [new],
               e_metrics := e_metrics ?ev @ [revision_metric r m dw scored]\<rparr>) db"
    by (auto simp: write_revision_def Let_def split: if_split_asm)
  note sc = stale_scope_spec [OF stale, simplified]
  have ev': "g_evidence (cn_gates db') = ?ev\<lparr>e_runs := e_runs ?ev @ [new_run], e_results := e_results ?ev @ [new],
               e_metrics := e_metrics ?ev @ [revision_metric r m dw scored]\<rparr>"
    using sc(2) by (simp add: db1)
  have run': "rn_id new_run = br_run_id new" "rn_status new_run = ''completed''"
    "rn_config_id new_run = rn_config_id run" "rn_suite_id new_run = rn_suite_id run"
    "rn_data_source new_run = rn_data_source run"
    by (simp_all add: new_run new revision_run_def)
  have "\<exists>j. br_revision_hash new = Some (env_sha (ct_gate env) j)"
    by (auto simp: new revision_hash_of_def hash_payload_def stable_hash_def)
  moreover have "cn_checkpoints db' = cn_checkpoints db" using sc(1) by (simp add: db1)
  ultimately have "revised env r run new db db'"
    unfolding revised_def ev' using run fresh run' sc(4) n by (auto simp: new)
  with n show ?thesis by (auto simp: new)
qed

lemma revised_step:
  assumes rev: "revised env r run new db db'" and inv: "control_inv db"
  shows "control_effect db db' \<and> control_inv db' \<and> result_exists (cn_results db') (br_id r) (br_id new)"
proof -
  from rev have rows: "cn_checkpoints db' = cn_checkpoints db" "cn_results db' = cn_results db @ [new]"
    "br_id new \<notin> br_id ` set (cn_results db)" "br_parent_id new = Some (br_id r)"
    by (simp_all add: revised_def)
  have "extends same_lineage (cn_results db) (cn_results db')"
    unfolding rows by (rule extendsI) (simp add: list_all2_refl)
  moreover from this have "cp_ok (cn_results db') c" if "c \<in> set (cn_checkpoints db)" for c
    using that inv cp_ok_extends by (auto simp: control_inv_def)
  ultimately show ?thesis
    using inv rows by (auto simp: control_effect_def control_inv_def extends_refl result_exists_def)
qed

section \<open>The operations\<close>

lemma with_checkpoint_cases:
  assumes "with_checkpoint i expected st now db body = (db', res)"
  obtains (failed) e where "db' = db" and "res = Inl e"
  | (expired) c where "checkpoint_find i db = Some c" and "checkpoint_is_due now c"
      and "db' = mark_checkpoint_expired now c db" and "res = Inl Checkpoint_Has_Expired"
  | (committed) c a where "checkpoint_find i db = Some c" and "\<not> checkpoint_is_due now c" and "cp_version c = expected"
      and "cp_status c = st" and "body c = Inr (db', a)" and "res = Inr a"
  using assms unfolding with_checkpoint_def
  by (auto split: option.splits if_splits sum.splits)

lemma checked_operation_ok:
  assumes "checked_operation operation c signer = Inr (p, j)"
  shows "checkpoint_policy_from_json (cp_policy c) = Inr p \<and>
         ev_reasons (evaluate_checkpoint_policy p operation (cp_requester c) signer) = []"
  using assms
  by (auto simp: checked_operation_def assert_checkpoint_operation_def evaluate_checkpoint_policy_def Let_def
      split: sum.splits if_splits)

text \<open>Replacing one row by a row it may move to, with a table of results that has grown.\<close>

lemma put_row_step:
  assumes inv: "control_inv db" and c: "c \<in> set (cn_checkpoints db)" and mv: "cp_moves c c'"
    and rows: "cn_checkpoints db' = row_put cp_id c' (cn_checkpoints db)"
    and res: "extends same_lineage (cn_results db) (cn_results db')" and ids: "distinct (map br_id (cn_results db'))"
    and ok: "cp_ok (cn_results db') c'"
  shows "control_effect db db' \<and> control_inv db'"
proof -
  have mvs: "list_all2 cp_moves (cn_checkpoints db) (cn_checkpoints db')"
    unfolding rows by (rule put_moves [OF control_inv_ids [OF inv] c mv])
  then have "control_effect db db'"
    using res by (simp add: control_effect_def extends_same)
  moreover have "control_inv db'"
  proof (rule control_inv_rows [OF inv mvs _ ids])
    fix k assume "k \<in> set (cn_checkpoints db')"
    then have "k = c' \<or> k \<in> set (cn_checkpoints db)" by (auto simp: rows in_set_row_put)
    with ok inv show "cp_ok (cn_results db') k"
      using cp_ok_extends [OF res] by (auto simp: control_inv_def)
  qed
  ultimately show ?thesis by blast
qed

lemma decided_fields [simp]:
  "cp_status (decided_checkpoint env c v rs sg ev now) = verdict_status v"
  "cp_decision (decided_checkpoint env c v rs sg ev now) = Some v"
  "cp_approver (decided_checkpoint env c v rs sg ev now) = identity_to_json sg"
  "cp_version (decided_checkpoint env c v rs sg ev now) = cp_version c + 1"
  "cp_id (decided_checkpoint env c v rs sg ev now) = cp_id c"
  "cp_result_id (decided_checkpoint env c v rs sg ev now) = cp_result_id c"
  "cp_policy (decided_checkpoint env c v rs sg ev now) = cp_policy c"
  "cp_requester (decided_checkpoint env c v rs sg ev now) = cp_requester c"
  "cp_transition_result (decided_checkpoint env c v rs sg ev now) = cp_transition_result c"
  by (simp_all add: decided_checkpoint_def)

lemma decided_moves:
  assumes "cp_status c = Cp_Pending" and "cp_decision c = None"
  shows "cp_moves c (decided_checkpoint env c v rs sg ev now)"
    and "cp_moves c ((decided_checkpoint env c v rs sg ev now)
           \<lparr>cp_transition_run := a, cp_transition_result := b\<rparr>)"
proof -
  have "cp_edge Cp_Pending (verdict_status v)" by (cases v) (auto intro: approve deny)
  then have "cp_edge\<^sup>+\<^sup>+ Cp_Pending (verdict_status v)" by (rule tranclp.r_into_trancl)
  with assms show "cp_moves c (decided_checkpoint env c v rs sg ev now)"
    and "cp_moves c ((decided_checkpoint env c v rs sg ev now)
           \<lparr>cp_transition_run := a, cp_transition_result := b\<rparr>)"
    by (auto simp: cp_moves_def same_request_def decided_checkpoint_def)
qed

lemma row_put_put: "key a = key b \<Longrightarrow> row_put key b (row_put key a rows) = row_put key b rows"
  by (induction rows) (auto simp: row_put_def)

lemma checkpoint_result_of: "checkpoint_result db c = Some r \<Longrightarrow> r \<in> set (cn_results db) \<and> br_id r = cp_result_id c"
  by (auto simp: checkpoint_result_def dest: row_find_SomeD)

lemma decide_step:
  assumes inv: "control_inv db"
    and d: "decide_agent_approval_checkpoint env i v reason expected sg clock dw db = (db', res)"
  shows "control_effect db db' \<and> control_inv db'"
  using d unfolding decide_agent_approval_checkpoint_def Let_def
proof (cases rule: with_checkpoint_cases)
  case failed
  with inv show ?thesis by simp
next
  case (expired c)
  with mark_expired_step [OF inv _ expired(2)] show ?thesis by (auto dest: row_find_SomeD)
next
  case (committed c a)
  let ?now = "whole_seconds clock"
  from committed(1) have c: "c \<in> set (cn_checkpoints db)" by (auto dest: row_find_SomeD)
  with inv have ok: "cp_ok (cn_results db) c" by (simp add: control_inv_def)
  with committed(4) have pending: "cp_decision c = None" "cp_transition_result c = None" "1 \<le> cp_version c"
    by (auto simp: cp_ok_def status_ok_def)
  from committed(5) obtain p ev where chk: "checked_operation Op_Decide c sg = Inr (p, ev)"
    and com: "commit_decision env (decided_checkpoint env c v reason sg ev ?now) p sg ?now dw db = Inr (db', a)"
    by (auto simp: bind_res_eq_Inr)
  let ?c = "decided_checkpoint env c v reason sg ev ?now"
  note mv = decided_moves [OF committed(4) pending(1)]
  from checked_operation_ok [OF chk] have auth: "decision_authorised ?c" by (auto simp: decision_authorised_def)
  have ids: "distinct (map br_id (cn_results db))" using inv by (simp add: control_inv_def)
  show ?thesis
  proof (cases v)
    case Verdict_Approved
    with com have db': "db' = decided_log ?c p ?now (put_checkpoint ?c db)"
      by (auto simp: commit_decision_def Let_def)
    show ?thesis
    proof (rule put_row_step [OF inv c mv(1)])
      show "cp_ok (cn_results db') ?c"
        using Verdict_Approved pending auth by (simp add: cp_ok_def status_ok_def)
    qed (simp_all add: db' ids extends_refl)
  next
    case Verdict_Denied
    let ?db1 = "decided_log ?c p ?now (put_checkpoint ?c db)"
    from com Verdict_Denied obtain r db2 new trace n where r: "checkpoint_result db ?c = Some r"
      and app: "apply_persisted_decisions env r [?c] sg ''agent_execution_denied'' ?now dw ?db1 = Inr (db2, new, trace, n)"
      and db': "db' = put_checkpoint (?c\<lparr>cp_transition_run := Some (br_run_id new),
                   cp_transition_result := Some (br_id new)\<rparr>) db2"
      by (auto simp: commit_decision_def Let_def bind_res_eq_Inr split: option.splits)
    let ?c' = "?c\<lparr>cp_transition_run := Some (br_run_id new), cp_transition_result := Some (br_id new)\<rparr>"
    from apply_spec [OF app] obtain run where rev: "revised env r run new ?db1 db2" by blast
    then have rows: "cn_checkpoints db2 = row_put cp_id ?c (cn_checkpoints db)"
      "cn_results db2 = cn_results db @ [new]" "br_id new \<notin> br_id ` set (cn_results db)"
      "br_parent_id new = Some (br_id r)"
      by (simp_all add: revised_def)
    have ext: "extends same_lineage (cn_results db) (cn_results db')"
      unfolding db' put_checkpoint_simps rows by (rule extendsI) (simp add: list_all2_refl)
    show ?thesis
    proof (rule put_row_step [OF inv c mv(2) _ ext])
      show "cn_checkpoints db' = row_put cp_id ?c' (cn_checkpoints db)"
        by (simp add: db' rows row_put_put)
      have "br_id r = cp_result_id ?c'" using checkpoint_result_of [OF r] by simp
      then have "result_exists (cn_results db') (cp_result_id ?c') (br_id new)"
        using rows(4) by (simp add: result_exists_def db' rows(2))
      then show "cp_ok (cn_results db') ?c'"
        using Verdict_Denied pending auth by (simp add: cp_ok_def status_ok_def decision_authorised_def)
    qed (use ids rows in \<open>simp add: db'\<close>)
  qed
qed

lemma revoke_step:
  assumes inv: "control_inv db"
    and d: "revoke_agent_approval_checkpoint env i reason expected sg clock db = (db', res)"
  shows "control_effect db db' \<and> control_inv db'"
  using d unfolding revoke_agent_approval_checkpoint_def Let_def
proof (cases rule: with_checkpoint_cases)
  case failed
  with inv show ?thesis by simp
next
  case (expired c)
  with mark_expired_step [OF inv _ expired(2)] show ?thesis by (auto dest: row_find_SomeD)
next
  case (committed c a)
  from committed(1) have c: "c \<in> set (cn_checkpoints db)" by (auto dest: row_find_SomeD)
  with inv have ok: "cp_ok (cn_results db) c" by (simp add: control_inv_def)
  from committed(5) obtain p ev where
    db': "cn_checkpoints db' = row_put cp_id (revoked_checkpoint env c reason sg ev (whole_seconds clock)) (cn_checkpoints db)"
      "cn_gates db' = cn_gates db"
    by (auto simp: bind_res_eq_Inr)
  have "cp_edge\<^sup>+\<^sup>+ Cp_Approved Cp_Revoked" by (rule tranclp.r_into_trancl) (rule revoke)
  then have mv: "cp_moves c (revoked_checkpoint env c reason sg ev (whole_seconds clock))"
    using committed(4) by (simp add: cp_moves_def same_request_def revoked_checkpoint_def)
  show ?thesis
  proof (rule put_row_step [OF inv c mv db'(1)])
    show "cp_ok (cn_results db') (revoked_checkpoint env c reason sg ev (whole_seconds clock))"
      using ok committed(4)
      by (auto simp: db'(2) cp_ok_def status_ok_def revoked_checkpoint_def decision_authorised_def)
  qed (use inv in \<open>simp_all add: db'(2) extends_refl control_inv_def\<close>)
qed

lemma resumed_moves:
  assumes "cp_status c = Cp_Approved"
  shows "cp_moves c (resumed_checkpoint env r new n sg ev now c)"
proof -
  have "cp_edge\<^sup>+\<^sup>+ Cp_Approved Cp_Resumed" by (rule tranclp.r_into_trancl) (rule resume)
  with assms show ?thesis by (simp add: cp_moves_def same_request_def resumed_checkpoint_def)
qed

text \<open>A committed resumption: the revision, the resumed rows, and the checkpoints the new trace waits for.\<close>

lemma commit_resume_cases:
  assumes "commit_resume env c ev sg now dw fresh db = Inr (db', out)"
  obtains r db1 new trace n ec db3 created where "checkpoint_result db c = Some r"
    and "\<forall>k \<in> set (cn_checkpoints db). cp_result_id k = br_id r \<longrightarrow> \<not> blocks_resume k"
    and "apply_persisted_decisions env r (filter (\<lambda>k. cp_result_id k = br_id r) (cn_checkpoints db)) sg
           ''agent_execution_resumed'' now dw db = Inr (db1, new, trace, n)"
    and "materialize_pending_agent_checkpoints env new trace (agent_contract ec)
           (requester_from_json (cp_requested_by c)) now fresh
           (resume_records (resumed_checkpoint env r new n sg ev now) (br_id r) db1) = Inr (db3, created)"
    and "cn_checkpoints db' = cn_checkpoints db3" and "cn_gates db' = cn_gates db3"
    and "ro_checkpoint out = resumed_checkpoint env r new n sg ev now c" and "ro_result_id out = br_id new"
    and "ro_parent_result_id out = br_id r" and "ro_revision out = n"
  using assms
  by (auto simp: commit_resume_def Let_def bind_res_eq_Inr find_None_iff split: option.splits)

lemma resume_records_simps [simp]:
  "cn_gates (resume_records upd i db) = cn_gates db"
  "cn_checkpoints (resume_records upd i db) =
     map (\<lambda>k. if cp_result_id k = i \<and> cp_status k = Cp_Approved then upd k else k) (cn_checkpoints db)"
  by (simp_all add: resume_records_def)

lemma resume_records_step:
  assumes inv: "control_inv db" and new: "result_exists (cn_results db) (br_id r) (br_id new)"
  shows "control_effect db (resume_records (resumed_checkpoint env r new n sg ev now) (br_id r) db) \<and>
         control_inv (resume_records (resumed_checkpoint env r new n sg ev now) (br_id r) db)"
proof -
  let ?upd = "resumed_checkpoint env r new n sg ev now"
  let ?db = "resume_records ?upd (br_id r) db"
  have mvs: "list_all2 cp_moves (cn_checkpoints db) (cn_checkpoints ?db)"
    unfolding resume_records_simps by (rule list_all2_map_rightI) (simp add: resumed_moves)
  then have "control_effect db ?db" by (simp add: control_effect_def extends_same extends_refl)
  moreover have "control_inv ?db"
  proof (rule control_inv_rows [OF inv mvs])
    have upd: "cp_ok (cn_results db) (?upd k)" if "k \<in> set (cn_checkpoints db)" "cp_result_id k = br_id r"
      "cp_status k = Cp_Approved" for k
    proof -
      have "cp_ok (cn_results db) k" using inv that(1) by (simp add: control_inv_def)
      with that new show ?thesis
        by (auto simp: cp_ok_def status_ok_def resumed_checkpoint_def decision_authorised_def)
    qed
    fix k' assume "k' \<in> set (cn_checkpoints ?db)"
    with inv upd show "cp_ok (cn_results ?db) k'" by (auto simp: control_inv_def split: if_split_asm)
  qed (use inv in \<open>simp add: control_inv_def\<close>)
  ultimately show ?thesis by blast
qed

lemma control_inv_same:
  "cn_checkpoints db' = cn_checkpoints db \<Longrightarrow> cn_gates db' = cn_gates db \<Longrightarrow> control_inv db' = control_inv db"
  "cn_checkpoints db' = cn_checkpoints db \<Longrightarrow> cn_gates db' = cn_gates db \<Longrightarrow>
   control_effect d db' = control_effect d db"
  by (simp_all add: control_inv_def control_effect_def)

lemma commit_resume_step:
  assumes inv: "control_inv db" and d: "commit_resume env c ev sg now dw fresh db = Inr (db', out)"
  shows "control_effect db db' \<and> control_inv db'"
  using d
proof (cases rule: commit_resume_cases)
  case (1 r db1 new trace n ec db3 created)
  from apply_spec [OF 1(3)] obtain run where rev: "revised env r run new db db1" by blast
  note s1 = revised_step [OF rev inv]
  let ?db2 = "resume_records (resumed_checkpoint env r new n sg ev now) (br_id r) db1"
  have s2: "control_effect db1 ?db2" "control_inv ?db2"
    using resume_records_step s1 by blast+
  have "new \<in> set (cn_results ?db2)" using rev by (simp add: revised_def)
  note s3 = materialize_step [OF s2(2) this 1(4)]
  from s1 s2(1) s3 have "control_effect db db3" by (blast intro: control_effect_trans)
  with s3 show ?thesis using control_inv_same [OF 1(5,6)] by blast
qed

lemma resume_step:
  assumes inv: "control_inv db"
    and d: "resume_agent_approval_checkpoint env i expected sg clock dw fresh db = (db', res)"
  shows "control_effect db db' \<and> control_inv db'"
proof (cases "\<exists>c. checkpoint_find i db = Some c \<and> cp_status c \<noteq> Cp_Resumed")
  case False
  with d inv show ?thesis
    by (auto simp: resume_agent_approval_checkpoint_def Let_def split: option.splits if_splits)
next
  case True
  with d have "with_checkpoint i expected Cp_Approved (whole_seconds clock) db (\<lambda>c.
      bind_res (checked_operation Op_Resume c sg) (\<lambda>(p, evaluation).
      commit_resume env c evaluation sg (whole_seconds clock) dw fresh db)) = (db', res)"
    by (auto simp: resume_agent_approval_checkpoint_def Let_def)
  then show ?thesis
  proof (cases rule: with_checkpoint_cases)
    case failed
    with inv show ?thesis by simp
  next
    case (expired c)
    with mark_expired_step [OF inv _ expired(2)] show ?thesis by (auto dest: row_find_SomeD)
  next
    case (committed c a)
    then show ?thesis using commit_resume_step [OF inv] by (auto simp: bind_res_eq_Inr)
  qed
qed

lemma control_run_ok:
  assumes inv: "control_inv db"
  shows "control_effect db (control_run env cmd db) \<and> control_inv (control_run env cmd db)"
proof (cases cmd)
  case (Materialize i trace contract rq now fresh)
  with inv show ?thesis
    by (auto split: option.split sum.split dest!: row_find_SomeD dest: materialize_step)
next
  case (Get_Checkpoint clock i)
  with inv show ?thesis
    by (auto simp: get_agent_approval_checkpoint_def Let_def split: option.split
        dest!: row_find_SomeD intro: mark_expired_step [THEN conjunct1] mark_expired_step [THEN conjunct2])
next
  case (Reconcile_Checkpoints now)
  with reconcile_step [OF inv] show ?thesis by simp
next
  case (Decide_Checkpoint i v reason expected sg clock dw)
  with decide_step [OF inv surjective_pairing] show ?thesis by simp
next
  case (Revoke_Approval i reason expected sg clock)
  with revoke_step [OF inv surjective_pairing] show ?thesis by simp
next
  case (Resume_Checkpoint i expected sg clock dw fresh)
  with resume_step [OF inv surjective_pairing] show ?thesis by simp
qed

section \<open>The life cycle\<close>

definition checkpoint_state :: "uuid \<Rightarrow> control_db \<Rightarrow> checkpoint_status option" where
  "checkpoint_state i db = map_option cp_status (checkpoint_find i db)"

lemma effect_find:
  assumes "control_effect db db'" and "checkpoint_find i db = Some c"
  obtains c' where "checkpoint_find i db' = Some c'" and "cp_moves c c'"
  using extends_find [of cp_moves "cn_checkpoints db" "cn_checkpoints db'" cp_id i c] assms cp_moves_id
  by (auto simp: control_effect_def)

lemma cp_moves_edges: "cp_moves c c' \<Longrightarrow> cp_edge\<^sup>*\<^sup>* (cp_status c) (cp_status c')"
  by (auto simp: cp_moves_def dest: tranclp_into_rtranclp)

interpretation control: lifecycle "control_step env" "\<lambda>_ _. True" control_inv checkpoint_state cp_edge for env
proof
  fix s c t
  assume inv: "control_inv s" and "control_step env c s = Inr t"
  then have t: "t = control_run env c s" by (simp add: control_step_def)
  note ok = control_run_ok [OF inv, of env c]
  show "control_inv t" using ok t by simp
  fix i a
  assume "checkpoint_state i s = Some a"
  then obtain k where k: "checkpoint_find i s = Some k" "a = cp_status k"
    by (auto simp: checkpoint_state_def)
  from effect_find [OF _ k(1), of t] ok t obtain k' where "checkpoint_find i t = Some k'" "cp_moves k k'"
    by blast
  with k(2) show "\<exists>b. checkpoint_state i t = Some b \<and> cp_edge\<^sup>*\<^sup>* a b"
    by (auto simp: checkpoint_state_def dest: cp_moves_edges)
qed

lemma control_run_all:
  assumes "control_inv s"
  shows "control_inv (run_commands (control_step env) cs s)"
    and "control_effect s (run_commands (control_step env) cs s)"
proof -
  show "control_inv (run_commands (control_step env) cs s)"
    by (rule control.run_inv [OF assms]) (rule always_admissible)
  show "control_effect s (run_commands (control_step env) cs s)"
    using assms
  proof (induction cs arbitrary: s)
    case Nil
    then show ?case by simp
  next
    case (Cons c cs)
    from control_run_ok [OF Cons.prems, of env c] Cons.IH [of "control_run env c s"] show ?case
      by (auto simp: control_step_def intro: control_effect_trans)
  qed
qed

section \<open>Properties\<close>

text \<open>
  C21. Checkpoints under any sequence of commands, starting with none: a result has one record for each
  checkpoint; a recorded decision was made by an operator whom the stored policy admits (role, verified
  identity, not the requester where duties are separated); an approved, revoked or resumed checkpoint was
  approved, a denied one denied; and exactly the denied and the resumed checkpoints link to a revision,
  which is stored as a child of the result the checkpoint belongs to.
\<close>

theorem checkpoints_are_sound:
  assumes "cn_checkpoints db = []" and "distinct (map br_id (cn_results db))"
    and "t = run_commands (control_step env) cs db"
  shows "distinct (map cp_key (cn_checkpoints t)) \<and>
    (\<forall>c \<in> set (cn_checkpoints t).
       (cp_decision c \<noteq> None \<longrightarrow> (\<exists>i p. cp_approver c = identity_to_json i \<and>
          checkpoint_policy_from_json (cp_policy c) = Inr p \<and>
          ev_reasons (evaluate_checkpoint_policy p Op_Decide (cp_requester c) i) = [])) \<and>
       (cp_status c \<in> {Cp_Approved, Cp_Revoked, Cp_Resumed} \<longrightarrow> cp_decision c = Some Verdict_Approved) \<and>
       (cp_status c = Cp_Denied \<longrightarrow> cp_decision c = Some Verdict_Denied) \<and>
       (cp_status c \<in> {Cp_Denied, Cp_Resumed} \<longleftrightarrow> cp_transition_result c \<noteq> None) \<and>
       (\<forall>i. cp_transition_result c = Some i \<longrightarrow>
          (\<exists>r. row_find br_id i (cn_results t) = Some r \<and> br_parent_id r = Some (cp_result_id c))))"
proof -
  have "control_inv db" using assms(1,2) by (simp add: control_inv_def)
  then have inv: "control_inv t" unfolding assms(3) by (rule control_run_all)
  have link: "\<exists>r. row_find br_id i (cn_results t) = Some r \<and> br_parent_id r = Some p"
    if "result_exists (cn_results t) p i" for p i
    using that inv row_find_member [of br_id "cn_results t"]
    by (auto simp: result_exists_def control_inv_def)
  have ok: "(cp_decision c \<noteq> None \<longrightarrow> decision_authorised c) \<and>
      (cp_status c \<in> {Cp_Approved, Cp_Revoked, Cp_Resumed} \<longrightarrow> cp_decision c = Some Verdict_Approved) \<and>
      (cp_status c = Cp_Denied \<longrightarrow> cp_decision c = Some Verdict_Denied) \<and>
      (cp_status c \<in> {Cp_Denied, Cp_Resumed} \<longleftrightarrow> cp_transition_result c \<noteq> None) \<and>
      (\<forall>i. cp_transition_result c = Some i \<longrightarrow> result_exists (cn_results t) (cp_result_id c) i)"
    if "cp_ok (cn_results t) c" for c
    using that by (cases "cp_status c") (auto simp: cp_ok_def status_ok_def)
  from inv show ?thesis
    unfolding control_inv_def decision_authorised_def [symmetric] using ok link by blast
qed

lemma decided_row_found:
  assumes "commit_decision env (decided_checkpoint env c v rs sg ev now) p sg now dw db = Inr (db', k)"
    and "cp_id c \<in> cp_id ` set (cn_checkpoints db)"
  shows "\<exists>k1. checkpoint_find (cp_id c) db' = Some k1 \<and> cp_version k1 = cp_version c + 1 \<and>
              cp_decision k1 = Some v \<and> cp_approver k1 = identity_to_json sg"
proof -
  let ?c = "decided_checkpoint env c v rs sg ev now"
  have found: "checkpoint_find (cp_id k1) db1 = Some k1"
    if "cn_checkpoints db1 = row_put cp_id k1 (cn_checkpoints db)" and "cp_id k1 = cp_id c" for db1 k1
    using that assms(2) row_find_put_same [of cp_id k1 "cn_checkpoints db"] by simp
  show ?thesis
  proof (cases v)
    case Verdict_Approved
    with assms(1) have "cn_checkpoints db' = row_put cp_id ?c (cn_checkpoints db)"
      by (auto simp: commit_decision_def Let_def)
    from found [OF this] show ?thesis by auto
  next
    case Verdict_Denied
    with assms(1) obtain r db2 new trace n where
      app: "apply_persisted_decisions env r [?c] sg ''agent_execution_denied'' now dw
              (decided_log ?c p now (put_checkpoint ?c db)) = Inr (db2, new, trace, n)"
      and db': "db' = put_checkpoint (?c\<lparr>cp_transition_run := Some (br_run_id new),
                   cp_transition_result := Some (br_id new)\<rparr>) db2"
      by (auto simp: commit_decision_def Let_def bind_res_eq_Inr split: option.splits)
    from apply_spec [OF app] have "cn_checkpoints db2 = row_put cp_id ?c (cn_checkpoints db)"
      by (auto simp: revised_def)
    then have "cn_checkpoints db' = row_put cp_id (?c\<lparr>cp_transition_run := Some (br_run_id new),
                   cp_transition_result := Some (br_id new)\<rparr>) (cn_checkpoints db)"
      by (simp add: db' row_put_put)
    from found [OF this] show ?thesis by (simp; intro exI; simp)
  qed
qed

lemma stale_version_refused:
  assumes "checkpoint_find i db = Some c" and "cp_version c \<noteq> expected"
  shows "\<exists>e. snd (with_checkpoint i expected st now db body) = Inl e"
  using assms by (simp add: with_checkpoint_def)

text \<open>
  C28. The version is an optimistic lock. After a committed decision that expected version n, no later
  decision or revocation that expects n commits, whatever commands ran in between, and the record keeps
  the decision, its operator and its hash with a version beyond n.
\<close>

theorem decision_version_is_spent:
  assumes inv: "control_inv s"
    and d: "decide_agent_approval_checkpoint env i v reason n sg clock dw s = (t, Inr c)"
    and u: "u = run_commands (control_step env) cs t"
  shows "(\<exists>e. snd (decide_agent_approval_checkpoint env i v' reason' n sg' clock' dw' u) = Inl e) \<and>
         (\<exists>e. snd (revoke_agent_approval_checkpoint env i reason' n sg' clock' u) = Inl e) \<and>
         (\<exists>k. checkpoint_find i u = Some k \<and> n < cp_version k \<and> cp_decision k = Some v \<and>
              cp_approver k = identity_to_json sg)"
proof -
  from decide_step [OF inv d] have st: "control_effect s t" "control_inv t" by blast+
  obtain c0 where c0: "checkpoint_find i s = Some c0" "cp_version c0 = n" "cp_status c0 = Cp_Pending"
    and body: "\<exists>p ev. commit_decision env (decided_checkpoint env c0 v reason sg ev (whole_seconds clock)) p sg
                 (whole_seconds clock) dw s = Inr (t, c)"
    using d unfolding decide_agent_approval_checkpoint_def Let_def
    by (cases rule: with_checkpoint_cases) (auto simp: bind_res_eq_Inr)
  have here: "c0 \<in> set (cn_checkpoints s)" "cp_id c0 = i" using c0(1) by (auto dest: row_find_SomeD)
  then have "i \<in> cp_id ` set (cn_checkpoints s)" by auto
  with body here(2) obtain k1 where k1: "checkpoint_find i t = Some k1" "cp_version k1 = n + 1"
      "cp_decision k1 = Some v" "cp_approver k1 = identity_to_json sg"
    using c0(2) decided_row_found by metis
  from effect_find [OF control_run_all(2) [OF st(2)] k1(1), of env cs]
  obtain k where k: "checkpoint_find i u = Some k" "cp_moves k1 k" unfolding u by blast
  then have facts: "n < cp_version k" "cp_decision k = Some v" "cp_approver k = identity_to_json sg"
    using k1 by (auto simp: cp_moves_def)
  then have "cp_version k \<noteq> n" by simp
  with k(1) facts show ?thesis
    by (simp add: decide_agent_approval_checkpoint_def revoke_agent_approval_checkpoint_def Let_def
        stale_version_refused)
qed

lemma resumed_final: "cp_moves k k' \<Longrightarrow> cp_status k = Cp_Resumed \<Longrightarrow> k' = k"
  by (auto simp: cp_moves_def dest!: tranclpD)

lemma resume_committed:
  assumes "resume_agent_approval_checkpoint env i n sg clock dw fresh s = (t, Inr out)"
  obtains (stored) c where "checkpoint_find i s = Some c" and "cp_status c = Cp_Resumed" and "t = s"
      and "stored_resume_outcome c s = Inr out"
  | (executed) c ev where "checkpoint_find i s = Some c" and "cp_status c = Cp_Approved"
      and "commit_resume env c ev sg (whole_seconds clock) dw fresh s = Inr (t, out)"
proof (cases "\<exists>c. checkpoint_find i s = Some c \<and> cp_status c \<noteq> Cp_Resumed")
  case False
  with assms stored show thesis
    by (auto simp: resume_agent_approval_checkpoint_def Let_def split: option.splits if_splits)
next
  case True
  with assms have "with_checkpoint i n Cp_Approved (whole_seconds clock) s (\<lambda>c.
      bind_res (checked_operation Op_Resume c sg) (\<lambda>(p, evaluation).
      commit_resume env c evaluation sg (whole_seconds clock) dw fresh s)) = (t, Inr out)"
    by (auto simp: resume_agent_approval_checkpoint_def Let_def)
  then show thesis
    using executed by (cases rule: with_checkpoint_cases) (auto simp: bind_res_eq_Inr)
qed

lemma row_find_map_same:
  "(\<And>x. key (f x) = key x) \<Longrightarrow> row_find key k rows = Some x \<Longrightarrow> row_find key k (map f rows) = Some (f x)"
  by (simp add: row_find_map)

lemma resumed_row:
  assumes inv: "control_inv s" and d: "resume_agent_approval_checkpoint env i n sg clock dw fresh s = (t, Inr out)"
  shows "\<exists>c. checkpoint_find i t = Some c \<and> cp_status c = Cp_Resumed \<and> cp_transition_result c = Some (ro_result_id out)"
  using d
proof (cases rule: resume_committed)
  case (stored c)
  then show ?thesis
    by (auto simp: stored_resume_outcome_def bind_res_eq_Inr Let_def split: option.splits if_splits)
next
  case (executed c ev)
  from executed(3) show ?thesis
  proof (cases rule: commit_resume_cases)
    case (1 r db1 new trace m ec db3 created)
    let ?upd = "resumed_checkpoint env r new m sg ev (whole_seconds clock)"
    let ?db2 = "resume_records ?upd (br_id r) db1"
    from apply_spec [OF 1(3)] obtain run where rev: "revised env r run new s db1" by blast
    note s1 = revised_step [OF rev inv]
    have db2: "control_inv ?db2" using resume_records_step s1 by blast
    have "new \<in> set (cn_results ?db2)" using rev by (simp add: revised_def)
    from materialize_spec [OF 1(4) this] db2
    have rows: "cn_checkpoints t = cn_checkpoints ?db2 @ created"
      by (auto simp: 1(5) appended_def control_inv_def)
    have "checkpoint_find i db1 = Some c" using executed(1) rev by (simp add: revised_def)
    then have "checkpoint_find i ?db2 = Some (?upd c)"
      using checkpoint_result_of [OF 1(1)] executed(2)
      by (subst resume_records_simps, subst row_find_map) (auto simp: resumed_checkpoint_def)
    then have "checkpoint_find i t = Some (?upd c)" by (simp add: rows row_find_append)
    then show ?thesis by (simp add: resumed_checkpoint_def 1(8))
  qed
qed


section \<open>What a resumption does to the evidence\<close>

lemma latest_revision:
  assumes "r \<in> set rs"
  shows "\<exists>c. c \<in> set (latest_result_revisions rs) \<and> root_id c = root_id r \<and> c \<in> set rs
           \<and> revision_sort_key r \<le> revision_sort_key c"
proof -
  from assms latest_ok_all [of rs] obtain b where
    b: "map_of (fold latest_step rs []) (root_id r) = Some b" "revision_sort_key r \<le> revision_sort_key b"
    by (auto simp: latest_ok_def)
  with latest_ok_all [of rs] have "root_id b = root_id r"
    by (auto simp: latest_ok_def dest: map_of_SomeD)
  with b show ?thesis using latest_set [of b rs] latest_subset [of rs] by auto
qed

lemma newest_counts:
  assumes "new \<in> set rs" and "1 < br_revision new"
    and "\<And>q. q \<in> set rs \<Longrightarrow> root_id q = root_id new \<Longrightarrow> q = new \<or> br_revision q < br_revision new"
  shows "new \<in> set (latest_result_revisions rs)"
proof -
  obtain c where c: "c \<in> set (latest_result_revisions rs)" "root_id c = root_id new" "c \<in> set rs"
    "revision_sort_key new \<le> revision_sort_key c"
    using latest_revision [OF assms(1)] by blast
  have "revision_sort_key c < revision_sort_key new" if "br_revision c < br_revision new"
    using that assms(2) by (auto simp: revision_sort_key_def effective_revision_def less_prod_def)
  with assms(3) [OF c(3,2)] c(1,4) show ?thesis by auto
qed

lemma relinked_hash:
  assumes rel: "relinked r db db'" and r: "r \<in> set (cn_results db)" and ids: "distinct (map br_id (cn_results db))"
    and stored: "text_set (br_revision_hash r)"
  shows "current_scope_evidence_revision_hash env (g_evidence (cn_gates db')) cfg suite =
         current_scope_evidence_revision_hash env (g_evidence (cn_gates db)) cfg suite"
proof -
  let ?ev = "g_evidence (cn_gates db)"
  from rel obtain f where f: "keeps_lineage f" "\<And>q. br_id q \<noteq> br_id r \<Longrightarrow> f q = q"
    and ev': "g_evidence (cn_gates db') = ?ev\<lparr>e_results := map f (e_results ?ev)\<rparr>"
    by (auto simp: relinked_def)
  have sub: "q \<in> set (cn_results db)" if "q \<in> set (bn_results (collect_evidence ?ev c s))" for q c s
    using that latest_subset by (fastforce simp: bundle_results scope_results_def)
  have "text_set (br_revision_hash q) \<or> f q = q" if "q \<in> set (bn_results (collect_evidence ?ev c s))" for q c s
    using f(2) sub [OF that] stored r distinct_key_eq [OF ids _ r, of q] by metis
  from relabelled_hash [OF f(1) this] show ?thesis
    by (simp add: current_scope_evidence_revision_hash_def ev' split: option.split)
qed

lemma relinked_gates: "relinked r db db' \<Longrightarrow>
    g_gates (cn_gates db') = g_gates (cn_gates db) \<and> e_runs (g_evidence (cn_gates db')) = e_runs (g_evidence (cn_gates db)) \<and>
    e_cases (g_evidence (cn_gates db')) = e_cases (g_evidence (cn_gates db))"
  by (auto simp: relinked_def)

text \<open>
  The result and the run a resumption executes for, and the rows it leaves: the revision \<open>new\<close>, its run,
  and gates that agree with the evidence.
\<close>

definition resumable :: "uuid \<Rightarrow> control_db \<Rightarrow> bench_result \<Rightarrow> bench_run \<Rightarrow> bool" where
  "resumable i s r run \<longleftrightarrow>
     (\<exists>c. checkpoint_find i s = Some c \<and> cp_status c = Cp_Approved \<and> checkpoint_result s c = Some r) \<and>
     row_find rn_id (br_run_id r) (e_runs (g_evidence (cn_gates s))) = Some run"

definition resumed_as ::
  "control_env \<Rightarrow> bench_result \<Rightarrow> bench_run \<Rightarrow> bench_result \<Rightarrow> control_db \<Rightarrow> control_db \<Rightarrow> bool" where
  "resumed_as env r run new s t \<longleftrightarrow>
     cn_results t = cn_results s @ [new] \<and> br_id new \<notin> br_id ` set (cn_results s) \<and>
     br_parent_id new = Some (br_id r) \<and> root_id new = root_id r \<and>
     br_revision new = next_revision r (cn_results s) \<and> br_case_id new = br_case_id r \<and>
     (\<exists>run'. rn_id run' = br_run_id new \<and> rn_status run' = ''completed'' \<and>
        rn_config_id run' = rn_config_id run \<and> rn_suite_id run' = rn_suite_id run \<and>
        rn_data_source run' = rn_data_source run \<and> run' \<in> set (e_runs (g_evidence (cn_gates t)))) \<and>
     e_cases (g_evidence (cn_gates t)) = e_cases (g_evidence (cn_gates s)) \<and>
     (\<forall>sc. scope_of_run run = Some sc \<longrightarrow> (\<forall>x. env_sha (ct_gate env) x \<noteq> []) \<longrightarrow>
        fresh_scope (ct_gate env) (cn_gates t) sc)"

lemma relinked_resumed:
  assumes rev: "revised env r run new s db" and rel: "relinked new db' t" and same: "cn_gates db' = cn_gates db"
    and ids: "distinct (map br_id (cn_results s))"
  shows "\<exists>new'. resumed_as env r run new' s t \<and> br_id new' = br_id new"
proof -
  from rel obtain f where f: "keeps_lineage f" "\<And>q. br_id q \<noteq> br_id new \<Longrightarrow> f q = q"
    and ev': "g_evidence (cn_gates t) = (g_evidence (cn_gates db))\<lparr>e_results := map f (cn_results db)\<rparr>"
    by (auto simp: relinked_def same)
  from rev have rs: "cn_results db = cn_results s @ [new]" "br_id new \<notin> br_id ` set (cn_results s)"
    by (simp_all add: revised_def)
  have "f q = q" if "q \<in> set (cn_results s)" for q
    using that rs(2) by (intro f(2)) (metis image_eqI)
  then have results: "cn_results t = cn_results s @ [f new]" by (simp add: ev' rs map_idI)
  have "new \<in> set (cn_results db')" "distinct (map br_id (cn_results db'))"
    using rs ids by (simp_all add: same)
  note hash = relinked_hash [OF rel this, where env = "ct_gate env"]
  have "text_set (br_revision_hash new)" if "\<forall>x. env_sha (ct_gate env) x \<noteq> []"
    using rev that by (auto simp: revised_def text_set_def) metis
  then have "fresh_scope (ct_gate env) (cn_gates t) sc"
    if "\<forall>x. env_sha (ct_gate env) x \<noteq> []" "scope_of_run run = Some sc" for sc
    using that hash relinked_gates [OF rel] rev
    by (simp add: fresh_scope_def fresh_gate_def revised_def same)
  with rev results rs(2) have "resumed_as env r run (f new) s t"
    by (auto simp: resumed_as_def revised_def ev' kept [OF f(1)] root_id_def)
  with f(1) show ?thesis by (auto simp: kept)
qed

lemma resume_result:
  assumes inv: "control_inv s" and res: "resumable i s r run"
    and d: "resume_agent_approval_checkpoint env i n sg clock dw fresh s = (t, Inr out)"
  shows "\<exists>new. resumed_as env r run new s t \<and> br_id new = ro_result_id out"
proof -
  from res obtain c where c: "checkpoint_find i s = Some c" "cp_status c = Cp_Approved" "checkpoint_result s c = Some r"
    and run: "row_find rn_id (br_run_id r) (e_runs (g_evidence (cn_gates s))) = Some run"
    by (auto simp: resumable_def)
  from d obtain ev where "commit_resume env c ev sg (whole_seconds clock) dw fresh s = Inr (t, out)"
    using c by (cases rule: resume_committed) auto
  then show ?thesis
  proof (cases rule: commit_resume_cases)
    case (1 r' db1 new trace m ec db3 created)
    with c have [simp]: "r' = r" by simp
    let ?db2 = "resume_records (resumed_checkpoint env r new m sg ev (whole_seconds clock)) (br_id r) db1"
    from apply_spec [OF 1(3)] run have rev: "revised env r run new s db1" by (auto simp: revised_def)
    have ids: "distinct (map br_id (cn_results s))" using inv by (simp add: control_inv_def)
    have "new \<in> set (cn_results ?db2)" "distinct (map br_id (cn_results ?db2))"
      using rev ids by (simp_all add: revised_def)
    with materialize_spec [of env new] 1(4) have "relinked new ?db2 db3" by auto
    then have "relinked new ?db2 t" using 1(6) by (simp add: relinked_def)
    from relinked_resumed [OF rev this _ ids] 1(8) show ?thesis by auto
  qed
qed

lemma resumed_greatest:
  assumes as: "resumed_as env r run new s t" and q: "q \<in> set (cn_results t)" "root_id q = root_id r"
  shows "q = new \<or> br_revision q < br_revision new"
proof (cases "q = new")
  case False
  with as q(1) have "q \<in> set (cn_results s)" by (auto simp: resumed_as_def)
  moreover have "br_id q = root_id r \<or> br_root_id q = Some (root_id r)"
    using q(2) by (auto simp: root_id_def [of q] split: option.splits)
  ultimately show ?thesis using next_revision_greater as by (simp add: resumed_as_def)
qed simp

lemma resumed_counts:
  assumes as: "resumed_as env r run new s t" and nonneg: "0 \<le> br_revision r"
    and scope: "rn_config_id run = Some (dc_id c)" "rn_suite_id run = Some (es_id z)"
      "rn_data_source run \<noteq> TOOL_FAULT_DATA_SOURCE"
    and e: "e \<in> set (e_cases (g_evidence (cn_gates s)))" "ec_suite_id e = es_id z" "ec_is_active e"
      "br_case_id r = Some (ec_id e)"
  shows "new \<in> set (bn_results (collect_evidence (g_evidence (cn_gates t)) c z))"
proof -
  from as obtain run' where run': "run' \<in> set (e_runs (g_evidence (cn_gates t)))" "br_run_id new = rn_id run'"
    "rn_status run' = ''completed''" "rn_config_id run' = rn_config_id run" "rn_suite_id run' = rn_suite_id run"
    "rn_data_source run' = rn_data_source run" by (auto simp: resumed_as_def)
  then have "run_in_scope c z run'" using scope by (simp add: run_in_scope_def)
  then have mem: "new \<in> set (scope_results (g_evidence (cn_gates t)) c z)"
    using e run'(1,2) as by (auto simp: scope_results_def resumed_as_def case_in_scope_def image_iff)
  show ?thesis
    unfolding bundle_results
  proof (rule newest_counts [OF mem])
    show "1 < br_revision new" using next_revision_pos [OF nonneg] as by (simp add: resumed_as_def)
    show "q = new \<or> br_revision q < br_revision new"
      if "q \<in> set (scope_results (g_evidence (cn_gates t)) c z)" "root_id q = root_id new" for q
      using that resumed_greatest [OF as, of q] as by (simp add: scope_results_def resumed_as_def)
  qed
qed

text \<open>
  C26. What a resumption does to the evidence. The result of a committed resumption is stored as a child of
  the result that waited, in the same lineage, with a revision number above every other revision of the
  lineage. It is the revision the deployment gate counts, if its case is active in the suite and the run is
  no tool fault fixture. And no completed gate of the scope is left with another evidence revision than
  the current one: gates evaluated before are stale.
\<close>

theorem resume_advances_the_evidence:
  assumes inv: "control_inv s" and res: "resumable i s r run"
    and d: "resume_agent_approval_checkpoint env i n sg clock dw fresh s = (t, Inr out)"
    and sha: "\<forall>x. env_sha (ct_gate env) x \<noteq> []" and nonneg: "0 \<le> br_revision r"
    and scope: "rn_config_id run = Some (dc_id c)" "rn_suite_id run = Some (es_id z)"
  shows "(\<exists>new. row_find br_id (ro_result_id out) (cn_results t) = Some new \<and>
            br_parent_id new = Some (br_id r) \<and> root_id new = root_id r \<and>
            (\<forall>q \<in> set (cn_results t). root_id q = root_id r \<longrightarrow> q = new \<or> br_revision q < br_revision new) \<and>
            (rn_data_source run \<noteq> TOOL_FAULT_DATA_SOURCE \<and>
             (\<exists>e \<in> set (e_cases (g_evidence (cn_gates s))).
                ec_suite_id e = es_id z \<and> ec_is_active e \<and> br_case_id r = Some (ec_id e)) \<longrightarrow>
             new \<in> set (bn_results (collect_evidence (g_evidence (cn_gates t)) c z)))) \<and>
         (\<forall>g \<in> set (g_gates (cn_gates t)).
            gt_config_id g = dc_id c \<and> gt_suite_id g = es_id z \<and> gt_status g = Gate_Completed \<longrightarrow>
            frozen_hash g = current_scope_evidence_revision_hash (ct_gate env) (g_evidence (cn_gates t)) (dc_id c) (es_id z))"
proof -
  from resume_result [OF inv res d] obtain new where
    as: "resumed_as env r run new s t" and id: "br_id new = ro_result_id out" by blast
  have "distinct (map br_id (cn_results t))" using resume_step [OF inv d] by (simp add: control_inv_def)
  then have "row_find br_id (ro_result_id out) (cn_results t) = Some new"
    using as row_find_member [of br_id "cn_results t" new] id by (simp add: resumed_as_def)
  moreover have "fresh_scope (ct_gate env) (cn_gates t) (dc_id c, es_id z)"
    using as sha scope by (simp add: resumed_as_def scope_of_run_def)
  ultimately show ?thesis
    using as resumed_greatest [OF as] resumed_counts [OF as nonneg scope]
    by (auto simp: resumed_as_def fresh_scope_def fresh_gate_def)
qed

text \<open>
  The input of the new execution keeps the review marks of the result it revises, although its scores are
  reset: only the keys of the last execution and its scorer are taken out of the metadata.
\<close>

lemma jget_base_metadata:
  "k \<notin> set EXECUTION_KEYS \<Longrightarrow> jget (base_metadata (as_dict m)) k = jget (as_dict m) k"
proof -
  assume k: "k \<notin> set EXECUTION_KEYS"
  have "map_of (filter (\<lambda>(k, v). k \<notin> set EXECUTION_KEYS) d) k = map_of d k" for d :: "(string \<times> json) list"
    using k by (induction d) auto
  then show ?thesis by (cases m) (simp_all add: base_metadata_def jget_def)
qed

lemma resumed_input_keeps_review:
  assumes "human_marked r"
  shows "jget (cr_metadata (base_case_result r m duration retries)) ''human_reviewed'' = JBool True \<and>
         cr_quality (base_case_result r m duration retries) = None"
  using assms by (simp add: base_case_result_def human_marked_def jget_base_metadata EXECUTION_KEYS_def)

section \<open>Witnesses\<close>

text \<open>A deployment whose executor returns its input with a completed trace, and one waiting checkpoint.\<close>

definition demo_trace :: json where
  "demo_trace = JObj [(''status'', JStr ''completed''), (''successful'', JBool True)]"

definition demo_control_env :: control_env where
  "demo_control_env =
     \<lparr>ct_gate = \<lparr>env_sha = (\<lambda>_. ''h''), env_sqrt = (\<lambda>x. x), env_thresholds = demo_thresholds, env_verified = (\<lambda>x. x)\<rparr>,
      ct_prepare = (\<lambda>_ _ decisions. Some decisions),
      ct_execute = (\<lambda>_ _ _ base. base\<lparr>cr_metadata := JObj [(''agent_execution'', demo_trace)]\<rparr>)\<rparr>"

definition demo_operator :: signer_identity where
  "demo_operator = \<lparr>subject_id = ''lead'', display_name = ''Lead'', role = Some ''sre lead'',
     identity_provider = ''oidc'', auth_source = ''oidc'', identity_verified = True, ticket_reference = None\<rparr>"

definition demo_checkpoint :: checkpoint where
  "demo_checkpoint =
     \<lparr>cp_id = ''k1'', cp_run_id = rn_id demo_run, cp_result_id = ''b1'', cp_checkpoint_id = ''deploy'',
      cp_status = Cp_Pending, cp_requester = ''agent'', cp_requested_by = JObj [], cp_request = JObj [],
      cp_policy = JObj [(''checkpoint_id'', JStr ''deploy'')], cp_request_hash = ''h'',
      cp_expires_at = seconds 3600, cp_decision = None, cp_reason = None, cp_decided_at = None,
      cp_approver = JNull, cp_identity_verified = False, cp_decision_hash = None, cp_revoked_at = None,
      cp_revocation_reason = None, cp_revoked_by = JNull, cp_revocation_hash = None, cp_resumed_at = None,
      cp_resumed_by = JNull, cp_resume_hash = None, cp_transition_run = None, cp_transition_result = None,
      cp_version = 1\<rparr>"

definition demo_control_db :: "checkpoint list \<Rightarrow> control_db" where
  "demo_control_db cs =
     \<lparr>cn_gates = \<lparr>g_evidence = demo_evidence 1, g_policies = [], g_rules = [], g_gates = [],
        g_rule_results = [], g_baselines = [], g_decisions = [], g_actions = [], g_lineage = []\<rparr>,
      cn_checkpoints = cs, cn_logs = []\<rparr>"

definition demo_draw :: revision_draw where
  "demo_draw = \<lparr>dw_run_id = ''r2'', dw_result_id = ''b2'', dw_created_at = 0\<rparr>"

lemma demo_db_simps [simp]:
  "cn_checkpoints (demo_control_db cs) = cs" "cn_results (demo_control_db cs) = [demo_bench_result 1]"
  "e_runs (g_evidence (cn_gates (demo_control_db cs))) = [demo_run]"
  "e_cases (g_evidence (cn_gates (demo_control_db cs))) = [demo_eval_case]"
  "e_configs (g_evidence (cn_gates (demo_control_db cs))) = [demo_config]"
  "e_metrics (g_evidence (cn_gates (demo_control_db cs))) = [demo_inf_metric]"
  "g_gates (cn_gates (demo_control_db cs)) = []"
  by (simp_all add: demo_control_db_def demo_evidence_def)

lemma demo_decide_checked:
  "\<exists>p j. checked_operation Op_Decide demo_checkpoint demo_operator = Inr (p, j)"
proof -
  have "(case checked_operation Op_Decide demo_checkpoint demo_operator of Inl _ \<Rightarrow> False | Inr _ \<Rightarrow> True)"
    by code_simp
  then show ?thesis by (auto split: sum.splits)
qed

lemma demo_resume_checked:
  "\<exists>p j. checked_operation Op_Resume demo_checkpoint demo_operator = Inr (p, j)"
proof -
  have "(case checked_operation Op_Resume demo_checkpoint demo_operator of Inl _ \<Rightarrow> False | Inr _ \<Rightarrow> True)"
    by code_simp
  then show ?thesis by (auto split: sum.splits)
qed

lemma demo_inv: "control_inv (demo_control_db [demo_checkpoint])"
  by (simp add: control_inv_def cp_ok_def status_ok_def demo_checkpoint_def)

lemma demo_fields [simp]:
  "cp_id demo_checkpoint = ''k1''" "cp_version demo_checkpoint = 1" "cp_status demo_checkpoint = Cp_Pending"
  "cp_expires_at demo_checkpoint = seconds 3600" "cp_result_id demo_checkpoint = ''b1''"
  by (simp_all add: demo_checkpoint_def)

lemma demo_decided:
  "\<exists>t c. decide_agent_approval_checkpoint demo_control_env ''k1'' Verdict_Approved ''fine'' 1 demo_operator 0 demo_draw
     (demo_control_db [demo_checkpoint]) = (t, Inr c)"
proof -
  obtain p j where "checked_operation Op_Decide demo_checkpoint demo_operator = Inr (p, j)"
    using demo_decide_checked by blast
  then show ?thesis
    by (simp add: decide_agent_approval_checkpoint_def with_checkpoint_def row_find_def checkpoint_is_due_def
        whole_seconds_def commit_decision_def seconds_def)
qed

lemma stale_scope_total: "\<exists>db'. stale_scope env run now db = Inr db'"
proof (cases "scope_of_run run")
  case None
  then show ?thesis by (simp add: stale_scope_def)
next
  case (Some sc)
  obtain x where "mark_scope_gates_stale (ct_gate env) (fst sc) (snd sc) None AGENT_STALE_REASON now None (cn_gates db) = Inr x"
    using mark_scope_total [OF stale_reason_not_blank] by blast
  with Some show ?thesis by (cases sc) (auto simp: stale_scope_def split: prod.split)
qed

lemma apply_commits:
  assumes "result_case (g_evidence (cn_gates db)) r = Some c"
    and "row_find rn_id (br_run_id r) (e_runs (g_evidence (cn_gates db))) = Some run"
    and "rn_config_id run = Some i" and "row_find dc_id i (e_configs (g_evidence (cn_gates db))) = Some cfg"
    and "execute_decisions env cfg c run r records (g_evidence (cn_gates db)) = Inr (m, scored, trace)"
    and "dw_result_id dw \<notin> br_id ` set (cn_results db)"
    and "dw_run_id dw \<notin> rn_id ` set (e_runs (g_evidence (cn_gates db)))"
  shows "\<exists>db' new n. apply_persisted_decisions env r records sg event now dw db = Inr (db', new, trace, n)"
proof -
  have "rn_id (revision_run run r n event dw) = dw_run_id dw" for n by (simp add: revision_run_def)
  then show ?thesis
    using assms stale_scope_total
    by (simp add: apply_persisted_decisions_def Let_def write_revision_def bind_res_eq_Inr)
qed

definition demo_approved :: checkpoint where
  "demo_approved = decided_checkpoint demo_control_env demo_checkpoint Verdict_Approved ''fine'' demo_operator (JObj []) 0"

lemma demo_approved_fields [simp]:
  "cp_id demo_approved = ''k1''" "cp_status demo_approved = Cp_Approved" "cp_version demo_approved = 2"
  "cp_result_id demo_approved = ''b1''" "cp_expires_at demo_approved = seconds 3600"
  by (simp_all add: demo_approved_def decided_checkpoint_def)

lemma demo_approved_checked:
  "checked_operation Op_Resume demo_approved sg = checked_operation Op_Resume demo_checkpoint sg"
proof -
  have "cp_policy demo_approved = cp_policy demo_checkpoint" "cp_requester demo_approved = cp_requester demo_checkpoint"
    by (simp_all add: demo_approved_def decided_checkpoint_def)
  then show ?thesis by (simp only: checked_operation_def)
qed

lemma demo_approved_inv: "control_inv (demo_control_db [demo_approved])"
proof -
  obtain p j where "checked_operation Op_Decide demo_checkpoint demo_operator = Inr (p, j)"
    using demo_decide_checked by blast
  from checked_operation_ok [OF this] have "decision_authorised demo_approved"
    by (auto simp: decision_authorised_def demo_approved_def)
  then show ?thesis
    by (simp add: control_inv_def cp_ok_def status_ok_def) (simp add: demo_approved_def demo_checkpoint_def)
qed

lemma execute_returns:
  assumes "find_metric r ev = Some m"
    and "trace_duration (as_dict (jget (as_dict (br_metadata r)) ''agent_execution'')) = Some d"
    and "trace_retries (as_dict (jget (as_dict (br_metadata r)) ''agent_execution'')) = Some n"
  shows "\<exists>scored. execute_decisions demo_control_env cfg c run r cs ev = Inr (m, scored, demo_trace)"
proof -
  have "jget (JObj [(''agent_execution'', demo_trace)]) ''agent_execution'' = demo_trace" "is_dict demo_trace"
    by (simp_all add: jget_def demo_trace_def)
  then show ?thesis using assms by (simp add: execute_decisions_def demo_control_env_def Let_def of_option_def)
qed

lemma demo_executes:
  "\<exists>scored. execute_decisions demo_control_env cfg c run (demo_bench_result 1) cs
     (g_evidence (cn_gates (demo_control_db ks))) = Inr (demo_inf_metric, scored, demo_trace)"
proof (rule execute_returns)
  show "find_metric (demo_bench_result 1) (g_evidence (cn_gates (demo_control_db ks))) = Some demo_inf_metric"
    by (simp add: find_metric_def demo_bench_result_def demo_inf_metric_def)
  show "trace_duration (as_dict (jget (as_dict (br_metadata (demo_bench_result 1))) ''agent_execution'')) = Some 0"
    by code_simp
  show "trace_retries (as_dict (jget (as_dict (br_metadata (demo_bench_result 1))) ''agent_execution'')) = Some 0"
    by code_simp
qed

lemma demo_resumed:
  "\<exists>t out. resume_agent_approval_checkpoint demo_control_env ''k1'' 2 demo_operator 0 demo_draw (\<lambda>_. ''k2'')
     (demo_control_db [demo_approved]) = (t, Inr out)"
proof -
  let ?db = "demo_control_db [demo_approved]" and ?r = "demo_bench_result 1"
  obtain p j where chk: "checked_operation Op_Resume demo_approved demo_operator = Inr (p, j)"
    using demo_resume_checked demo_approved_checked by metis
  have r: "br_id ?r = ''b1''" by (simp add: demo_bench_result_def)
  have found: "checkpoint_result ?db demo_approved = Some ?r"
    by (simp add: checkpoint_result_def row_find_def demo_bench_result_def)
  obtain scored where ex: "execute_decisions demo_control_env demo_config demo_eval_case demo_run ?r [demo_approved]
     (g_evidence (cn_gates ?db)) = Inr (demo_inf_metric, scored, demo_trace)" using demo_executes by blast
  have case_row: "result_case (g_evidence (cn_gates ?db)) ?r = Some demo_eval_case"
    by (simp add: result_case_def row_find_def demo_bench_result_def demo_eval_case_def)
  have "\<exists>db' new n. apply_persisted_decisions demo_control_env ?r [demo_approved] demo_operator
      ''agent_execution_resumed'' 0 demo_draw ?db = Inr (db', new, demo_trace, n)"
    by (rule apply_commits [OF case_row _ _ _ ex, where i = "''config''"])
      (simp_all add: row_find_def demo_bench_result_def demo_run_def demo_config_def demo_draw_def)
  then obtain db1 new n where app: "apply_persisted_decisions demo_control_env ?r [demo_approved] demo_operator
      ''agent_execution_resumed'' 0 demo_draw ?db = Inr (db1, new, demo_trace, n)" by blast
  have "pending_checkpoint_steps demo_trace = []" by code_simp
  then have mat: "materialize_pending_agent_checkpoints demo_control_env new demo_trace k sg 0 fresh db = Inr (db, [])"
    for k sg fresh db by (simp add: materialize_pending_agent_checkpoints_def Let_def)
  have "\<exists>t out. commit_resume demo_control_env demo_approved j demo_operator 0 demo_draw (\<lambda>_. ''k2'') ?db = Inr (t, out)"
    unfolding commit_resume_def found option.case Let_def
    using app case_row by (simp add: r blocks_resume_def mat of_option_def)
  then obtain t out where "commit_resume demo_control_env demo_approved j demo_operator 0 demo_draw (\<lambda>_. ''k2'') ?db
      = Inr (t, out)" by blast
  then show ?thesis
    using chk by (simp add: resume_agent_approval_checkpoint_def with_checkpoint_def row_find_def checkpoint_is_due_def
        whole_seconds_def seconds_def)
qed

definition demo_waiting_trace :: json where
  "demo_waiting_trace = JObj [(''steps'', JArr [JObj
     [(''step_index'', JInt 0), (''action'', JStr ''approval_checkpoint''), (''status'', JStr ''pending''),
      (''input'', JObj []), (''output'', JObj [(''checkpoint_id'', JStr ''deploy'')])]])]"

lemma demo_materialized:
  "\<exists>k. cn_checkpoints (control_run demo_control_env
     (Materialize ''b1'' demo_waiting_trace (JObj []) demo_operator 0 (\<lambda>_. ''k1'')) (demo_control_db [])) = [k] \<and>
     cp_status k = Cp_Pending"
proof -
  let ?s = "JObj [(''step_index'', JInt 0), (''action'', JStr ''approval_checkpoint''), (''status'', JStr ''pending''),
      (''input'', JObj []), (''output'', JObj [(''checkpoint_id'', JStr ''deploy'')])]"
  have steps: "pending_checkpoint_steps demo_waiting_trace = [?s]" by code_simp
  have cid: "strip (str_or_empty (jget (as_dict (jget ?s ''output'')) ''checkpoint_id'')) = ''deploy''" by code_simp
  have "int_or (jget (control_link (as_dict (br_metadata (demo_bench_result 1)))) ''result_revision'') 1 = Some 1"
    by code_simp
  then have meta: "\<exists>m. linked_metadata cs (as_dict (br_metadata (demo_bench_result 1))) = Some m" for cs
    unfolding linked_metadata_def Let_def by (simp only: option.case) simp
  have row: "row_find br_id ''b1'' [demo_bench_result 1] = Some (demo_bench_result 1)"
    by (simp add: row_find_def demo_bench_result_def)
  have "\<exists>k db'. materialize_steps demo_control_env c (demo_bench_result 1) demo_waiting_trace (JObj []) demo_operator 0
      (\<lambda>_. ''k1'') [?s] (demo_control_db []) [] = Inr (db', [k]) \<and> cn_checkpoints db' = [k] \<and>
      cp_status k = Cp_Pending" for c
    unfolding materialize_steps.simps Let_def cid
    by (simp add: requested_log_def) (simp add: new_checkpoint_def Let_def)
  then obtain k db' where "materialize_steps demo_control_env (result_case (g_evidence (cn_gates (demo_control_db [])))
        (demo_bench_result 1)) (demo_bench_result 1) demo_waiting_trace (JObj []) demo_operator 0
        (\<lambda>_. ''k1'') [?s] (demo_control_db []) [] = Inr (db', [k])"
    and k: "cn_checkpoints db' = [k]" "cp_status k = Cp_Pending" by blast
  moreover obtain m where "linked_metadata [k] (as_dict (br_metadata (demo_bench_result 1))) = Some m"
    using meta by blast
  ultimately have "\<exists>db2. materialize_pending_agent_checkpoints demo_control_env (demo_bench_result 1) demo_waiting_trace
      (JObj []) demo_operator 0 (\<lambda>_. ''k1'') (demo_control_db []) = Inr (db2, [k]) \<and> cn_checkpoints db2 = [k]"
    unfolding materialize_pending_agent_checkpoints_def Let_def steps
    by (simp add: of_option_def)
  with row k show ?thesis by auto
qed

theorem checkpoints_are_sound_witness:
  "let t = run_commands (control_step demo_control_env)
      [Materialize ''b1'' demo_waiting_trace (JObj []) demo_operator 0 (\<lambda>_. ''k1'')] (demo_control_db [])
   in \<exists>k. cn_checkpoints t = [k] \<and> cp_transition_result k = None"
proof -
  let ?m = "Materialize ''b1'' demo_waiting_trace (JObj []) demo_operator 0 (\<lambda>_. ''k1'')"
  let ?t = "run_commands (control_step demo_control_env) [?m] (demo_control_db [])"
  obtain k where k: "cn_checkpoints ?t = [k]" "cp_status k = Cp_Pending"
    using demo_materialized by (auto simp: control_step_def)
  have "cp_transition_result k = None"
    using checkpoints_are_sound [OF _ _ refl, of "demo_control_db []" demo_control_env "[?m]"] k by auto
  then show ?thesis using k by (simp add: Let_def)
qed

theorem decision_version_is_spent_witness:
  "\<exists>t c. decide_agent_approval_checkpoint demo_control_env ''k1'' Verdict_Approved ''fine'' 1 demo_operator 0 demo_draw
      (demo_control_db [demo_checkpoint]) = (t, Inr c) \<and>
     (\<exists>e. snd (decide_agent_approval_checkpoint demo_control_env ''k1'' Verdict_Denied ''no'' 1 demo_operator 5 demo_draw
        (run_commands (control_step demo_control_env) [Reconcile_Checkpoints 3] t)) = Inl e)"
  using demo_decided decision_version_is_spent [OF demo_inv _ refl] by metis


lemma demo_resumable: "resumable ''k1'' (demo_control_db [demo_approved]) (demo_bench_result 1) demo_run"
  by (simp add: resumable_def row_find_def checkpoint_result_def demo_bench_result_def demo_run_def)

theorem resume_advances_the_evidence_witness:
  "\<exists>t out new. resume_agent_approval_checkpoint demo_control_env ''k1'' 2 demo_operator 0 demo_draw (\<lambda>_. ''k2'')
      (demo_control_db [demo_approved]) = (t, Inr out) \<and> row_find br_id (ro_result_id out) (cn_results t) = Some new \<and>
     new \<in> set (bn_results (collect_evidence (g_evidence (cn_gates t)) demo_config demo_suite))"
proof -
  obtain t out where d: "resume_agent_approval_checkpoint demo_control_env ''k1'' 2 demo_operator 0 demo_draw (\<lambda>_. ''k2'')
      (demo_control_db [demo_approved]) = (t, Inr out)" using demo_resumed by blast
  have sha: "\<forall>x. env_sha (ct_gate demo_control_env) x \<noteq> []" by (simp add: demo_control_env_def)
  have run: "0 \<le> br_revision (demo_bench_result 1)" "rn_config_id demo_run = Some (dc_id demo_config)"
    "rn_suite_id demo_run = Some (es_id demo_suite)" "rn_data_source demo_run \<noteq> TOOL_FAULT_DATA_SOURCE"
    by (simp_all add: demo_bench_result_def demo_run_def demo_config_def demo_suite_def TOOL_FAULT_DATA_SOURCE_def)
  have case_row: "\<exists>e \<in> set (e_cases (g_evidence (cn_gates (demo_control_db [demo_approved])))).
      ec_suite_id e = es_id demo_suite \<and> ec_is_active e \<and> br_case_id (demo_bench_result 1) = Some (ec_id e)"
    by (simp add: demo_eval_case_def demo_suite_def demo_bench_result_def)
  from resume_advances_the_evidence [OF demo_approved_inv demo_resumable d sha run(1-3)] run(4) case_row d
  show ?thesis by blast
qed

end
