(* ===== verification/Incidents_Correct.thy ===== *)
theory Incidents_Correct
  imports Incidents Contracts
begin

text \<open>
  The single changes of the tables of operational reliability (\<open>ops_change\<close>): each keeps the invariant
  \<open>ops_inv\<close>, the hash chain of the actions included, and lets rows move only in certain ways
  (\<open>ops_effect\<close>).
\<close>

section \<open>How the rows move\<close>

definition incident_moves :: "incident \<Rightarrow> incident \<Rightarrow> bool" where
  "incident_moves c c' \<longleftrightarrow>
     ic_id c' = ic_id c \<and> ic_alert_key c' = ic_alert_key c \<and> ic_source c' = ic_source c \<and>
     ic_opened_at c' = ic_opened_at c \<and> ic_version c \<le> ic_version c' \<and> ic_escalation c \<le> ic_escalation c' \<and>
     ic_occurrences c \<le> ic_occurrences c' \<and>
     (ic_acknowledged_at c \<noteq> None \<longrightarrow> ic_acknowledged_at c' = ic_acknowledged_at c \<and>
        ic_acknowledged_by c' = ic_acknowledged_by c \<and> ic_escalation c' = ic_escalation c) \<and>
     (ic_status c = Ic_Resolved \<longrightarrow> ic_status c' = Ic_Resolved \<and> ic_resolved_at c' = ic_resolved_at c \<and>
        ic_version c' = ic_version c \<and> ic_severity c' = ic_severity c)"

lemma incident_moves_refl [simp]: "incident_moves c c"
  by (simp add: incident_moves_def)

lemma incident_moves_trans: "incident_moves a b \<Longrightarrow> incident_moves b c \<Longrightarrow> incident_moves a c"
  unfolding incident_moves_def by (auto intro: order_trans)

lemma incident_moves_id: "incident_moves c c' \<Longrightarrow> ic_id c' = ic_id c"
  by (simp add: incident_moves_def)

definition delivery_moves :: "delivery \<Rightarrow> delivery \<Rightarrow> bool" where
  "delivery_moves d d' \<longleftrightarrow>
     dl_id d' = dl_id d \<and> incident_key d' = incident_key d \<and> dl_payload d' = dl_payload d \<and>
     dl_payload_hash d' = dl_payload_hash d \<and> dl_key_id d' = dl_key_id d \<and> dl_requested_at d' = dl_requested_at d \<and>
     dl_attempts d \<le> dl_attempts d' \<and> (dl_job_id d \<noteq> None \<longrightarrow> dl_job_id d' = dl_job_id d) \<and>
     (dl_status d = Dl_Delivered \<longrightarrow> (\<exists>k. d' = d\<lparr>dl_job_id := k\<rparr>))"

lemma delivery_moves_refl [simp]: "delivery_moves d d"
proof -
  have "d = d\<lparr>dl_job_id := dl_job_id d\<rparr>" by (cases d) simp
  then show ?thesis unfolding delivery_moves_def by blast
qed

lemma delivery_moves_trans:
  assumes "delivery_moves a b" and "delivery_moves b c"
  shows "delivery_moves a c"
proof -
  have "\<exists>k. c = a\<lparr>dl_job_id := k\<rparr>" if "dl_status a = Dl_Delivered"
  proof -
    from assms(1) that obtain k where b: "b = a\<lparr>dl_job_id := k\<rparr>" by (auto simp: delivery_moves_def)
    with assms(2) that obtain l where "c = b\<lparr>dl_job_id := l\<rparr>" by (auto simp: delivery_moves_def)
    then show ?thesis by (auto simp: b)
  qed
  with assms show ?thesis unfolding delivery_moves_def by (simp add: order_trans)
qed

lemma delivery_moves_id: "delivery_moves d d' \<Longrightarrow> dl_id d' = dl_id d"
  by (simp add: delivery_moves_def)

definition ops_effect :: "ops_db \<Rightarrow> ops_db \<Rightarrow> bool" where
  "ops_effect db db' \<longleftrightarrow>
     extends incident_moves (od_incidents db) (od_incidents db') \<and>
     extends delivery_moves (od_deliveries db) (od_deliveries db') \<and>
     prefix (od_actions db) (od_actions db')"

lemma ops_effect_refl [simp]: "ops_effect db db"
  by (simp add: ops_effect_def extends_refl)

lemma ops_effect_trans: "ops_effect a b \<Longrightarrow> ops_effect b c \<Longrightarrow> ops_effect a c"
  unfolding ops_effect_def
  by (blast intro: extends_trans incident_moves_trans delivery_moves_trans prefix_order.trans)

section \<open>The invariant\<close>

definition incident_ok :: "incident \<Rightarrow> bool" where
  "incident_ok c \<longleftrightarrow> incident_row_ok c \<and> (ic_status c = Ic_Open \<longrightarrow> ic_active_key c = Some (ic_alert_key c))"

definition link_ok :: "ops_db \<Rightarrow> incident \<Rightarrow> bool" where
  "link_ok db c \<longleftrightarrow> (\<forall>i. ic_evaluation c = Some i \<longrightarrow> i \<in> sl_id ` set (od_evaluations db))"

definition delivery_ok :: "delivery \<Rightarrow> bool" where
  "delivery_ok d \<longleftrightarrow> 0 < dl_version d \<and> 0 \<le> dl_attempts d \<and> (dl_status d = Dl_Delivered \<longleftrightarrow> dl_delivered_at d \<noteq> None)"

definition page_ok :: "ops_db \<Rightarrow> delivery \<Rightarrow> bool" where
  "page_ok db d \<longleftrightarrow> delivery_ok d \<and>
     (\<exists>c \<in> set (od_incidents db). ic_id c = dl_incident_id d \<and> dl_version d \<le> ic_version c)"

definition author_ok :: "incident_action \<Rightarrow> bool" where
  "author_ok a \<longleftrightarrow>
     (if ia_verb a = Act_Escalated then ia_actor a = CONTROLLER_IDENTITY
      else \<exists>sg. can_administer sg \<and> ia_actor a = identity_to_json sg)"

definition links_back :: "incident_action list \<Rightarrow> incident_action \<Rightarrow> bool" where
  "links_back pre a \<longleftrightarrow>
     (case ia_previous_hash a of
        None \<Rightarrow> \<forall>b \<in> set pre. ia_incident_id b \<noteq> ia_incident_id a
      | Some h \<Rightarrow> \<exists>b \<in> set pre. ia_incident_id b = ia_incident_id a \<and> ia_hash b = h)"

definition chained :: "incident_action list \<Rightarrow> bool" where
  "chained actions \<longleftrightarrow> (\<forall>pre a post. actions = pre @ a # post \<longrightarrow> links_back pre a)"

definition action_ok :: "ops_env \<Rightarrow> ops_db \<Rightarrow> incident_action \<Rightarrow> bool" where
  "action_ok env db a \<longleftrightarrow>
     ia_incident_id a \<in> ic_id ` set (od_incidents db) \<and> author_ok a \<and>
     ia_hash a = stable_hash (oe_sha env) (action_canonical a)"

text \<open>An acknowledgement and an escalation of an incident are on record.\<close>

definition trail_ok :: "ops_db \<Rightarrow> incident \<Rightarrow> bool" where
  "trail_ok db c \<longleftrightarrow>
     (\<forall>t. ic_acknowledged_at c = Some t \<longrightarrow> (\<exists>a \<in> set (od_actions db). ia_incident_id a = ic_id c \<and>
        ia_verb a = Act_Acknowledged \<and> ia_occurred_at a = t \<and> ia_actor a = ic_acknowledged_by c)) \<and>
     (0 < ic_escalation c \<longrightarrow> (\<exists>a \<in> set (od_actions db). ia_incident_id a = ic_id c \<and> ia_verb a = Act_Escalated))"

text \<open>At most one incident of an alert key is open.\<close>

definition one_open :: "incident list \<Rightarrow> bool" where
  "one_open cs \<longleftrightarrow> (\<forall>c \<in> set cs. \<forall>d \<in> set cs.
     ic_status c = Ic_Open \<and> ic_status d = Ic_Open \<and> ic_alert_key c = ic_alert_key d \<longrightarrow> ic_id c = ic_id d)"

definition incidents_ok :: "ops_db \<Rightarrow> bool" where
  "incidents_ok db \<longleftrightarrow>
     distinct (map ic_id (od_incidents db)) \<and>
     (\<forall>c \<in> set (od_incidents db). incident_ok c \<and> link_ok db c \<and> trail_ok db c) \<and>
     one_open (od_incidents db)"

definition deliveries_ok :: "ops_db \<Rightarrow> bool" where
  "deliveries_ok db \<longleftrightarrow>
     distinct (map dl_id (od_deliveries db)) \<and> distinct (map incident_key (od_deliveries db)) \<and>
     (\<forall>d \<in> set (od_deliveries db). page_ok db d)"

definition actions_ok :: "ops_env \<Rightarrow> ops_db \<Rightarrow> bool" where
  "actions_ok env db \<longleftrightarrow>
     distinct (map ia_id (od_actions db)) \<and> distinct (map ia_hash (od_actions db)) \<and> chained (od_actions db) \<and>
     (\<forall>a \<in> set (od_actions db). action_ok env db a)"

definition snapshots_ok :: "ops_db \<Rightarrow> bool" where
  "snapshots_ok db \<longleftrightarrow>
     distinct (map sn_id (od_snapshots db)) \<and> distinct (map sn_bucket (od_snapshots db)) \<and>
     distinct (map sl_id (od_evaluations db)) \<and>
     (\<forall>p \<in> set (od_points db). mp_snapshot_id p \<in> sn_id ` set (od_snapshots db)) \<and>
     (\<forall>e \<in> set (od_evaluations db). sl_snapshot_id e \<in> sn_id ` set (od_snapshots db) \<and> slo_row_ok e)"

definition ops_inv :: "ops_env \<Rightarrow> ops_db \<Rightarrow> bool" where
  "ops_inv env db \<longleftrightarrow> incidents_ok db \<and> deliveries_ok db \<and> actions_ok env db \<and> snapshots_ok db"

definition chooses :: "ops_env \<Rightarrow> bool" where
  "chooses env \<longleftrightarrow> (\<forall>xs. xs \<noteq> [] \<longrightarrow> oe_choose env xs \<in> set xs)"

section \<open>Single changes of the tables\<close>

definition same_trail :: "incident \<Rightarrow> incident \<Rightarrow> bool" where
  "same_trail c c' \<longleftrightarrow> ic_acknowledged_at c' = ic_acknowledged_at c \<and> ic_acknowledged_by c' = ic_acknowledged_by c \<and>
     ic_escalation c' = ic_escalation c"

text \<open>The action that records what changed on an incident.\<close>

definition records :: "incident_action \<Rightarrow> incident \<Rightarrow> incident \<Rightarrow> bool" where
  "records a c c' \<longleftrightarrow>
     ia_incident_id a = ic_id c \<and>
     (ic_acknowledged_at c' = ic_acknowledged_at c \<and> ic_acknowledged_by c' = ic_acknowledged_by c \<or>
      ia_verb a = Act_Acknowledged \<and> ic_acknowledged_at c' = Some (ia_occurred_at a) \<and>
      ic_acknowledged_by c' = ia_actor a) \<and>
     (ic_escalation c' = ic_escalation c \<or> ia_verb a = Act_Escalated)"

inductive ops_change :: "ops_env \<Rightarrow> ops_db \<Rightarrow> ops_db \<Rightarrow> bool" for env where
  update: "c \<in> set (od_incidents db) \<Longrightarrow> incident_moves c c' \<Longrightarrow> incident_ok c' \<Longrightarrow> link_ok db c' \<Longrightarrow>
    same_trail c c' \<Longrightarrow> ops_change env db (put_incident c' db)"
| act: "c \<in> set (od_incidents db) \<Longrightarrow> incident_moves c c' \<Longrightarrow> incident_ok c' \<Longrightarrow> link_ok db c' \<Longrightarrow>
    append_action env i (ic_id c) verb reason assignee actor verified now (put_incident c' db) = Inr (db', a) \<Longrightarrow>
    author_ok a \<Longrightarrow> records a c c' \<Longrightarrow> ops_change env db db'"
| insert: "add_incident c db = Inr db' \<Longrightarrow> incident_ok c \<Longrightarrow> link_ok db c \<Longrightarrow> ic_acknowledged_at c = None \<Longrightarrow>
    ic_escalation c = 0 \<Longrightarrow> ops_change env db db'"
| page: "c \<in> set (od_incidents db) \<Longrightarrow> create_delivery penv st i c transition now db = Inr (db', d) \<Longrightarrow>
    ops_change env db db'"
| deliver: "d \<in> set (od_deliveries db) \<Longrightarrow> delivery_moves d d' \<Longrightarrow> delivery_ok d' \<Longrightarrow>
    ops_change env db (put_delivery d' db)"
| snapshot: "add_snapshot env sn samples db = Inr db' \<Longrightarrow> sn_bucket sn \<notin> sn_bucket ` set (od_snapshots db) \<Longrightarrow>
    ops_change env db db'"
| evaluate: "add_evaluations es db = Inr db' \<Longrightarrow> \<forall>e \<in> set es. sl_snapshot_id e \<in> sn_id ` set (od_snapshots db) \<Longrightarrow>
    ops_change env db db'"
| retire: "ops_change env db (delete_snapshots ids db)"

lemma put_incident_simps [simp]:
  "od_incidents (put_incident c db) = row_put ic_id c (od_incidents db)"
  "od_actions (put_incident c db) = od_actions db" "od_deliveries (put_incident c db) = od_deliveries db"
  "od_evaluations (put_incident c db) = od_evaluations db" "od_snapshots (put_incident c db) = od_snapshots db"
  "od_points (put_incident c db) = od_points db"
  by (simp_all add: put_incident_def)

lemma put_delivery_simps [simp]:
  "od_incidents (put_delivery d db) = od_incidents db" "od_actions (put_delivery d db) = od_actions db"
  "od_deliveries (put_delivery d db) = row_put dl_id d (od_deliveries db)"
  "od_evaluations (put_delivery d db) = od_evaluations db" "od_snapshots (put_delivery d db) = od_snapshots db"
  "od_points (put_delivery d db) = od_points db"
  by (simp_all add: put_delivery_def)

lemma add_incident_ok: "add_incident c db = Inr db' \<longleftrightarrow>
    ic_id c \<notin> ic_id ` set (od_incidents db) \<and>
    (ic_active_key c = None \<or> ic_active_key c \<notin> ic_active_key ` set (od_incidents db)) \<and>
    db' = db\<lparr>od_incidents := od_incidents db @ [c]\<rparr>"
  by (auto simp: add_incident_def)

lemma append_action_ok:
  assumes "append_action env i k verb reason assignee actor verified now db = Inr (db', a)"
  shows "db' = db\<lparr>od_actions := od_actions db @ [a]\<rparr>" "ia_id a \<notin> ia_id ` set (od_actions db)"
    "ia_hash a \<notin> ia_hash ` set (od_actions db)" "ia_id a = i" "ia_incident_id a = k" "ia_verb a = verb"
    "ia_actor a = actor" "ia_occurred_at a = now" "ia_verified a = verified"
    "ia_hash a = stable_hash (oe_sha env) (action_canonical a)"
    "ia_previous_hash a = map_option ia_hash (previous_action env k (od_actions db))"
  using assms
  by (auto simp: append_action_def new_action_def action_canonical_def Let_def split: if_splits)

lemma create_delivery_ok:
  assumes "create_delivery penv st i c transition now db = Inr (db', d)"
  shows "db' = db\<lparr>od_deliveries := od_deliveries db @ [d]\<rparr>" "dl_id d \<notin> dl_id ` set (od_deliveries db)"
    "incident_key d \<notin> incident_key ` set (od_deliveries db)" "dl_incident_id d = ic_id c"
    "dl_version d = ic_version c" "dl_status d = Dl_Queued" "dl_attempts d = 0" "dl_delivered_at d = None"
    "dl_id d = i" "dl_transition d = transition"
  using assms
  by (auto simp: create_delivery_def new_delivery_def Let_def split: sum.splits option.splits if_splits)

lemma add_snapshot_ok:
  assumes "add_snapshot env sn samples db = Inr db'"
  shows "db' = db\<lparr>od_snapshots := od_snapshots db @ [sn],
                  od_points := od_points db @ map (new_point env (sn_id sn)) samples\<rparr>"
    "sn_id sn \<notin> sn_id ` set (od_snapshots db)"
  using assms by (auto simp: add_snapshot_def Let_def split: if_splits)

lemma add_evaluations_ok:
  assumes "add_evaluations es db = Inr db'"
  shows "db' = db\<lparr>od_evaluations := od_evaluations db @ es\<rparr>" "list_all slo_row_ok es"
    "distinct (map sl_id (od_evaluations db @ es))"
  using assms by (auto simp: add_evaluations_def split: if_splits)

section \<open>The hash chain\<close>

lemma previous_action_eq:
  assumes "chooses env" and "previous_action env k actions = p"
  shows "case p of None \<Rightarrow> \<forall>b \<in> set actions. ia_incident_id b \<noteq> k
         | Some b \<Rightarrow> b \<in> set actions \<and> ia_incident_id b = k \<and>
             (\<forall>x \<in> set actions. ia_incident_id x = k \<longrightarrow> ia_occurred_at x \<le> ia_occurred_at b)"
proof -
  let ?own = "filter (\<lambda>a. ia_incident_id a = k) actions"
  let ?latest = "filter (\<lambda>a. list_all (\<lambda>b. ia_occurred_at b \<le> ia_occurred_at a) ?own) ?own"
  show ?thesis
  proof (cases "?latest = []")
    case True
    have "?own = []"
    proof (rule ccontr)
      assume "?own \<noteq> []"
      then have "Max (ia_occurred_at ` set ?own) \<in> ia_occurred_at ` set ?own" by (intro Max_in) (auto simp: filter_empty_conv)
      then obtain a where a: "a \<in> set ?own" "ia_occurred_at a = Max (ia_occurred_at ` set ?own)" by auto
      then have "a \<in> set ?latest" by (auto simp: list_all_iff)
      with True show False by simp
    qed
    with True assms(2) show ?thesis by (auto simp: previous_action_def Let_def filter_empty_conv)
  next
    case False
    then have mem: "oe_choose env ?latest \<in> set ?latest" using assms(1) unfolding chooses_def by blast
    have "p = Some (oe_choose env ?latest)"
      using assms(2) False unfolding previous_action_def Let_def by (simp only: if_False)
    with mem have "\<exists>x. p = Some x \<and> x \<in> set ?latest" by blast
    then show ?thesis by (auto simp: list_all_iff)
  qed
qed

lemma chained_snoc: "chained (actions @ [a]) \<longleftrightarrow> chained actions \<and> links_back actions a"
proof
  assume "chained (actions @ [a])"
  then show "chained actions \<and> links_back actions a"
    unfolding chained_def by (metis append.assoc append_Cons)
next
  assume "chained actions \<and> links_back actions a"
  then show "chained (actions @ [a])"
    by (auto simp: chained_def append_eq_append_conv2 append_eq_Cons_conv Cons_eq_append_conv)
qed

lemma append_action_links:
  assumes "chooses env" and "append_action env i k verb reason assignee actor verified now db = Inr (db', a)"
  shows "links_back (od_actions db) a"
  using previous_action_eq [OF assms(1), of k "od_actions db", OF refl] append_action_ok(5,11) [OF assms(2)]
  by (auto simp: links_back_def split: option.splits)

section \<open>Every change keeps the invariant\<close>

lemma extends_member: "extends R xs ys \<Longrightarrow> x \<in> set xs \<Longrightarrow> \<exists>y \<in> set ys. R x y"
  by (fastforce simp: extends_def list_all2_conv_all_nth in_set_conv_nth nth_append)

lemma extends_snoc: "(\<And>x. R x x) \<Longrightarrow> extends R xs (xs @ ys)"
  by (rule extendsI) (simp add: list_all2_refl)

lemma put_incident_moves:
  assumes "incidents_ok db" and "c \<in> set (od_incidents db)" and "incident_moves c c'"
  shows "extends incident_moves (od_incidents db) (row_put ic_id c' (od_incidents db))"
  using assms
  by (intro extends_same row_put_moves [where r = c]) (auto simp: incidents_ok_def incident_moves_id)

lemma put_delivery_moves:
  assumes "deliveries_ok db" and "d \<in> set (od_deliveries db)" and "delivery_moves d d'"
  shows "extends delivery_moves (od_deliveries db) (row_put dl_id d' (od_deliveries db))"
  using assms
  by (intro extends_same row_put_moves [where r = d]) (auto simp: deliveries_ok_def delivery_moves_id)

lemma unlink_moves: "incident_moves c (unlink_evaluation lost c)"
  by (simp add: unlink_evaluation_def incident_moves_def split: option.split)

lemma retire_moves:
  "extends incident_moves (od_incidents db) (od_incidents (delete_snapshots ids db))"
  by (auto simp: delete_snapshots_def Let_def intro!: extends_same list_all2_map_rightI unlink_moves)

lemma ops_change_effect: "ops_change env db db' \<Longrightarrow> ops_inv env db \<Longrightarrow> ops_effect db db'"
proof (induction rule: ops_change.induct)
  case (update c db c')
  then show ?case
    by (simp add: ops_effect_def ops_inv_def put_incident_moves extends_refl)
next
  case (act c db c' i verb reason assignee actor verified now db' a)
  then show ?case
    using append_action_ok(1) [OF act(5)]
    by (simp add: ops_effect_def ops_inv_def put_incident_moves extends_refl)
next
  case (insert c db db')
  then show ?case
    by (simp add: ops_effect_def add_incident_ok extends_snoc extends_refl)
next
  case (page c db penv st i transition now db' d)
  then show ?case
    using create_delivery_ok(1) [OF page(2)] by (simp add: ops_effect_def extends_snoc extends_refl)
next
  case (deliver d db d')
  then show ?case
    by (simp add: ops_effect_def ops_inv_def put_delivery_moves extends_refl)
next
  case (snapshot sn samples db db')
  then show ?case
    using add_snapshot_ok(1) [OF snapshot(1)] by (simp add: ops_effect_def extends_refl)
next
  case (evaluate es db db')
  then show ?case
    using add_evaluations_ok(1) [OF evaluate(1)] by (simp add: ops_effect_def extends_refl)
next
  case (retire db ids)
  show ?case
    using retire_moves [where db = db and ids = ids] by (simp add: ops_effect_def delete_snapshots_def Let_def extends_refl)
qed

lemma trail_ok_mono:
  "trail_ok db c \<Longrightarrow> set (od_actions db) \<subseteq> set (od_actions db') \<Longrightarrow> trail_ok db' c"
  unfolding trail_ok_def by blast

lemma page_ok_mono: "page_ok db d \<Longrightarrow> ops_effect db db' \<Longrightarrow> page_ok db' d"
  unfolding page_ok_def ops_effect_def by (fastforce dest: extends_member simp: incident_moves_def)

lemma effect_ids:
  assumes "ops_effect db db'" and "i \<in> ic_id ` set (od_incidents db)"
  shows "i \<in> ic_id ` set (od_incidents db')"
proof -
  from assms(2) obtain c where c: "c \<in> set (od_incidents db)" "i = ic_id c" by blast
  with assms(1) obtain c' where c': "c' \<in> set (od_incidents db')" "incident_moves c c'"
    unfolding ops_effect_def by (blast dest: extends_member)
  then have "i = ic_id c'" using c(2) by (simp add: incident_moves_id)
  then show ?thesis using c'(1) by blast
qed

lemma action_ok_mono: "action_ok env db a \<Longrightarrow> ops_effect db db' \<Longrightarrow> action_ok env db' a"
  by (simp add: action_ok_def effect_ids)

lemma link_ok_mono: "link_ok db c \<Longrightarrow> set (od_evaluations db) \<subseteq> set (od_evaluations db') \<Longrightarrow> link_ok db' c"
  unfolding link_ok_def by blast

lemma incidents_put:
  assumes inv: "incidents_ok db" and c: "c \<in> set (od_incidents db)" and mv: "incident_moves c c'"
    and ok: "incident_ok c'" "link_ok db c'" and tr: "trail_ok db' c'"
    and rows: "od_incidents db' = row_put ic_id c' (od_incidents db)"
    and acts: "set (od_actions db) \<subseteq> set (od_actions db')" and evs: "od_evaluations db' = od_evaluations db"
  shows "incidents_ok db'"
proof -
  have ids: "distinct (map ic_id (od_incidents db'))"
    using inv by (simp add: rows incidents_ok_def map_key_row_put)
  have member: "k = c' \<or> k \<in> set (od_incidents db) \<and> ic_id k \<noteq> ic_id c" if "k \<in> set (od_incidents db')" for k
    using that incident_moves_id [OF mv] by (auto simp: rows in_set_row_put)
  have good: "incident_ok k \<and> link_ok db' k \<and> trail_ok db' k" if "k \<in> set (od_incidents db')" for k
    using member [OF that] ok tr inv acts evs
    by (auto simp: incidents_ok_def link_ok_def intro: trail_ok_mono)
  have was_open: "ic_status c = Ic_Open" if "ic_status c' = Ic_Open"
    using mv that by (cases "ic_status c") (auto simp: incident_moves_def)
  have "one_open (od_incidents db')"
    unfolding one_open_def
  proof (intro ballI impI)
    fix k j assume kj: "k \<in> set (od_incidents db')" "j \<in> set (od_incidents db')"
      and o: "ic_status k = Ic_Open \<and> ic_status j = Ic_Open \<and> ic_alert_key k = ic_alert_key j"
    have "\<exists>k0 \<in> set (od_incidents db). ic_id k0 = ic_id x \<and> ic_status k0 = Ic_Open \<and> ic_alert_key k0 = ic_alert_key x"
      if "x \<in> set (od_incidents db')" "ic_status x = Ic_Open" for x
      using member [OF that(1)] that(2) c was_open mv by (auto simp: incident_moves_def)
    with kj o inv show "ic_id k = ic_id j"
      unfolding incidents_ok_def one_open_def by metis
  qed
  with ids good show ?thesis unfolding incidents_ok_def by blast
qed

lemma trail_put: "trail_ok db c \<Longrightarrow> same_trail c c' \<Longrightarrow> ic_id c' = ic_id c \<Longrightarrow> trail_ok db c'"
  by (simp add: trail_ok_def same_trail_def)

lemma trail_records:
  assumes "trail_ok db c" and "records a c c'" and "ic_id c' = ic_id c"
    and "set (od_actions db') = insert a (set (od_actions db))"
  shows "trail_ok db' c'"
  using assms unfolding trail_ok_def records_def by (auto 4 4)

lemma deliveries_same:
  "deliveries_ok db \<Longrightarrow> ops_effect db db' \<Longrightarrow> od_deliveries db' = od_deliveries db \<Longrightarrow> deliveries_ok db'"
  by (auto simp: deliveries_ok_def page_ok_mono)

lemma actions_same:
  "actions_ok env db \<Longrightarrow> ops_effect db db' \<Longrightarrow> od_actions db' = od_actions db \<Longrightarrow> actions_ok env db'"
  by (auto simp: actions_ok_def action_ok_mono)

lemma snapshots_same:
  "snapshots_ok db \<Longrightarrow> od_snapshots db' = od_snapshots db \<Longrightarrow> od_points db' = od_points db \<Longrightarrow>
   od_evaluations db' = od_evaluations db \<Longrightarrow> snapshots_ok db'"
  by (simp add: snapshots_ok_def)

lemma incidents_same:
  assumes "incidents_ok db" and "od_incidents db' = od_incidents db" and "od_actions db' = od_actions db"
    and evs: "set (od_evaluations db) \<subseteq> set (od_evaluations db')"
  shows "incidents_ok db'"
proof -
  have "trail_ok db' c = trail_ok db c" for c by (simp add: trail_ok_def assms(3))
  with assms(1,2) show ?thesis using link_ok_mono [OF _ evs] by (simp add: incidents_ok_def)
qed

lemma delete_snapshots_simps [simp]:
  "od_actions (delete_snapshots ids db) = od_actions db" "od_deliveries (delete_snapshots ids db) = od_deliveries db"
  by (simp_all add: delete_snapshots_def Let_def)

lemma unlink_simps [simp]:
  "ic_id (unlink_evaluation lost c) = ic_id c" "ic_status (unlink_evaluation lost c) = ic_status c"
  "ic_alert_key (unlink_evaluation lost c) = ic_alert_key c"
  "incident_ok (unlink_evaluation lost c) = incident_ok c" "trail_ok db (unlink_evaluation lost c) = trail_ok db c"
  by (simp_all add: unlink_evaluation_def incident_ok_def incident_row_ok_def trail_ok_def split: option.split)

lemma retire_incidents:
  assumes "incidents_ok db"
  shows "incidents_ok (delete_snapshots ids db)"
proof -
  have "trail_ok (delete_snapshots ids db) c = trail_ok db c" for c by (simp add: trail_ok_def)
  moreover have "link_ok (delete_snapshots ids db) (unlink_evaluation
      (map sl_id (filter (\<lambda>e. sl_snapshot_id e \<in> set ids) (od_evaluations db))) c)" if "link_ok db c" for c
    using that by (auto simp: link_ok_def unlink_evaluation_def delete_snapshots_def Let_def image_iff split: option.splits if_splits)
  moreover have "od_incidents (delete_snapshots ids db) = map (unlink_evaluation
      (map sl_id (filter (\<lambda>e. sl_snapshot_id e \<in> set ids) (od_evaluations db)))) (od_incidents db)"
    by (simp add: delete_snapshots_def Let_def)
  moreover have "one_open (map (unlink_evaluation lost) cs) = one_open cs" for lost cs
    by (simp add: one_open_def)
  ultimately show ?thesis
    using assms unfolding incidents_ok_def by (simp add: o_def)
qed

lemma one_open_snoc:
  assumes cs: "one_open cs"
    and apart: "\<And>k. k \<in> set cs \<Longrightarrow> ic_status k = Ic_Open \<Longrightarrow> ic_status c = Ic_Open \<Longrightarrow> ic_alert_key k \<noteq> ic_alert_key c"
  shows "one_open (cs @ [c])"
  unfolding one_open_def
proof (intro ballI impI)
  fix k d
  assume "k \<in> set (cs @ [c])" "d \<in> set (cs @ [c])"
    and o: "ic_status k = Ic_Open \<and> ic_status d = Ic_Open \<and> ic_alert_key k = ic_alert_key d"
  then consider "k \<in> set cs" "d \<in> set cs" | "k \<in> set cs" "d = c" | "k = c" "d \<in> set cs" | "k = c" "d = c" by auto
  then show "ic_id k = ic_id d"
  proof cases
    case 1 with cs o show ?thesis unfolding one_open_def by blast
  next
    case 2 with apart o show ?thesis by blast
  next
    case 3 with apart [of d] o show ?thesis by simp
  qed simp
qed

lemma ops_change_inv:
  assumes "ops_change env db db'" and "chooses env" and inv: "ops_inv env db"
  shows "ops_inv env db'"
proof -
  note eff = ops_change_effect [OF assms(1) inv]
  from inv have i: "incidents_ok db" and d: "deliveries_ok db" and a: "actions_ok env db" and s: "snapshots_ok db"
    by (simp_all add: ops_inv_def)
  note keep = deliveries_same [OF d eff] actions_same [OF a eff]
  from assms(1) show ?thesis
  proof cases
    case (update c c')
    have "trail_ok db c" using i update(2) by (simp add: incidents_ok_def)
    from trail_put [OF this update(6) incident_moves_id [OF update(3)]] have "trail_ok db' c'"
      by (rule trail_ok_mono) (simp add: update(1))
    then have "incidents_ok db'"
      by (rule incidents_put [OF i update(2-5)]) (simp_all add: update(1))
    with keep s show ?thesis by (simp add: ops_inv_def update(1) snapshots_ok_def)
  next
    case (act c c' n verb reason assignee actor verified now x)
    note f = append_action_ok [OF act(5)]
    have t: "trail_ok db c" using i act(1) by (simp add: incidents_ok_def)
    have "incidents_ok db'"
      by (rule incidents_put [OF i act(1-4)])
        (use trail_records [OF t act(7) incident_moves_id [OF act(2)], of db'] in \<open>auto simp: f(1)\<close>)
    moreover have "actions_ok env db'"
    proof -
      have "chained (od_actions db @ [x])"
        using a append_action_links [OF assms(2) act(5)] by (simp add: chained_snoc actions_ok_def)
      moreover have "action_ok env db' x"
        using act(1,6) f(5,10) effect_ids [OF eff, of "ic_id c"] by (simp add: action_ok_def)
      ultimately show ?thesis
        using a f(2,3) action_ok_mono [OF _ eff] by (auto simp: actions_ok_def f(1))
    qed
    ultimately show ?thesis using keep(1) s by (simp add: ops_inv_def f(1) snapshots_ok_def)
  next
    case (insert c)
    then have db': "db' = db\<lparr>od_incidents := od_incidents db @ [c]\<rparr>"
      and fresh: "ic_id c \<notin> ic_id ` set (od_incidents db)"
      and key: "ic_active_key c = None \<or> ic_active_key c \<notin> ic_active_key ` set (od_incidents db)"
      by (simp_all add: add_incident_ok)
    have apart: "ic_alert_key k \<noteq> ic_alert_key c" if "k \<in> set (od_incidents db)" "ic_status k = Ic_Open" "ic_status c = Ic_Open" for k
      using that key insert(2) i unfolding incidents_ok_def incident_ok_def by (metis image_eqI option.distinct(1))
    have "incidents_ok db'"
      unfolding incidents_ok_def
    proof (intro conjI ballI)
      show "distinct (map ic_id (od_incidents db'))" using i fresh by (simp add: db' incidents_ok_def)
      show "one_open (od_incidents db')"
        using i apart one_open_snoc by (simp add: incidents_ok_def db')
      have same: "link_ok db' x = link_ok db x" "trail_ok db' x = trail_ok db x" for x
        by (simp_all add: db' link_ok_def trail_ok_def)
      have "trail_ok db c" using insert(4,5) by (simp add: trail_ok_def)
      fix k assume "k \<in> set (od_incidents db')"
      then have "k \<in> set (od_incidents db) \<or> k = c" by (auto simp: db')
      with \<open>trail_ok db c\<close> show "incident_ok k" "link_ok db' k" "trail_ok db' k"
        unfolding same using i insert(2,3) unfolding incidents_ok_def by blast+
    qed
    with keep s show ?thesis by (simp add: ops_inv_def db' snapshots_ok_def)
  next
    case (page c penv st n transition now x)
    note f = create_delivery_ok [OF page(2)]
    have "page_ok db' x"
      using i page(1) f(4-8) by (auto simp: page_ok_def delivery_ok_def f(1) incidents_ok_def incident_ok_def incident_row_ok_def)
    then have "deliveries_ok db'"
      using d f(2,3) page_ok_mono [OF _ eff] by (auto simp: deliveries_ok_def f(1))
    moreover have "incidents_ok db'" by (rule incidents_same [OF i]) (simp_all add: f(1))
    ultimately show ?thesis using keep(2) s by (simp add: ops_inv_def f(1) snapshots_ok_def)
  next
    case (deliver x x')
    have ids: "dl_id x' = dl_id x" "incident_key x' = incident_key x"
      using deliver(3) by (simp_all add: delivery_moves_def)
    have "page_ok db x" using d deliver(2) by (simp add: deliveries_ok_def)
    then have "page_ok db x'" using deliver(4) ids(2) by (auto simp: page_ok_def incident_key_def)
    moreover have "distinct (map incident_key (row_put dl_id x' (od_deliveries db)))"
    proof (rule distinct_map_row_put)
      fix y assume "y \<in> set (od_deliveries db)" "dl_id y \<noteq> dl_id x'"
      then show "incident_key y \<noteq> incident_key x'"
        using d deliver(2) ids distinct_key_eq [of incident_key "od_deliveries db" y x] by (auto simp: deliveries_ok_def)
    qed (use d in \<open>auto simp: deliveries_ok_def\<close>)
    ultimately have "deliveries_ok db'"
      using d by (auto simp: deliveries_ok_def deliver(1) in_set_row_put map_key_row_put page_ok_def)
    moreover have "incidents_ok db'" by (rule incidents_same [OF i]) (simp_all add: deliver(1))
    ultimately show ?thesis using keep(2) s by (simp add: ops_inv_def deliver(1) snapshots_ok_def)
  next
    case (snapshot sn samples)
    note f = add_snapshot_ok [OF snapshot(1)]
    have "snapshots_ok db'"
      using s f(2) snapshot(2) by (auto simp: snapshots_ok_def f(1) new_point_def)
    moreover have "incidents_ok db'" by (rule incidents_same [OF i]) (simp_all add: f(1))
    ultimately show ?thesis using keep by (simp add: ops_inv_def f(1))
  next
    case (evaluate es)
    note f = add_evaluations_ok [OF evaluate(1)]
    have "snapshots_ok db'"
      using s f(2,3) evaluate(2) by (auto simp: snapshots_ok_def f(1) list_all_iff)
    moreover have "incidents_ok db'" by (rule incidents_same [OF i]) (simp_all add: f(1))
    ultimately show ?thesis using keep by (simp add: ops_inv_def f(1))
  next
    case (retire ids)
    have kept: "k \<in> sn_id ` set (od_snapshots db')" if "k \<in> sn_id ` set (od_snapshots db)" "k \<notin> set ids" for k
      using that by (auto simp: retire delete_snapshots_def Let_def)
    have rows: "od_points db' = filter (\<lambda>p. mp_snapshot_id p \<notin> set ids) (od_points db)"
      "od_evaluations db' = filter (\<lambda>e. sl_snapshot_id e \<notin> set ids) (od_evaluations db)"
      "od_snapshots db' = filter (\<lambda>s. sn_id s \<notin> set ids) (od_snapshots db)"
      by (simp_all add: retire delete_snapshots_def Let_def)
    have "snapshots_ok db'"
      using s kept unfolding snapshots_ok_def rows(1,2) by (auto simp: distinct_map_filter rows(3))
    then show ?thesis using keep retire_incidents [OF i] by (simp add: ops_inv_def retire)
  qed
qed

end
