(* ===== verification/Incident_Runs.thy ===== *)
theory Incident_Runs
  imports Incidents_Correct
begin

text \<open>
  Properties of operational reliability: every command is a sequence of the single changes of
  \<open>Incidents_Correct\<close>, a capture cycle makes the open incidents follow the current alerts and breaches, and
  a paging delivery ends with its attempts.
\<close>

section \<open>Commands are sequences of changes\<close>

lemma ops_run_inv:
  "(ops_change env)\<^sup>*\<^sup>* db db' \<Longrightarrow> chooses env \<Longrightarrow> ops_inv env db \<Longrightarrow> ops_inv env db' \<and> ops_effect db db'"
  by (induction rule: rtranclp_induct) (auto intro: ops_change_inv ops_effect_trans ops_change_effect)

text \<open>Only the row of one incident differs, and it is now the given one.\<close>

definition touched :: "incident \<Rightarrow> ops_db \<Rightarrow> ops_db \<Rightarrow> bool" where
  "touched c db db' \<longleftrightarrow> od_evaluations db' = od_evaluations db \<and>
     (\<forall>k. k \<in> set (od_incidents db') \<longleftrightarrow> k = c \<or> k \<in> set (od_incidents db) \<and> ic_id k \<noteq> ic_id c)"

lemma touched_trans: "touched c db db1 \<Longrightarrow> touched c' db1 db2 \<Longrightarrow> ic_id c' = ic_id c \<Longrightarrow> touched c' db db2"
  by (auto simp: touched_def)

lemma touched_put:
  assumes "c \<in> set (od_incidents db)" and "ic_id c' = ic_id c"
  shows "touched c' db (put_incident c' db)"
  using assms by (auto simp: touched_def in_set_row_put)

lemma touched_same: "incidents_ok db \<Longrightarrow> c \<in> set (od_incidents db) \<Longrightarrow> touched c db db"
  by (auto simp: touched_def incidents_ok_def dest: distinct_key_eq)

lemma touched_rows: "od_incidents db' = od_incidents db1 \<Longrightarrow> od_evaluations db' = od_evaluations db1 \<Longrightarrow>
    touched c db db' = touched c db db1"
  by (simp add: touched_def)

lemma page_transition_run:
  assumes "page_transition_of env st dw c t now db = Inr (db', ds)" and "c \<in> set (od_incidents db)"
  shows "(ops_change env)\<^sup>*\<^sup>* db db' \<and> od_incidents db' = od_incidents db \<and> od_evaluations db' = od_evaluations db"
proof (cases "os_paging_enabled st")
  case True
  with assms(1) obtain d where d: "create_delivery (oe_paging env) st (dr_delivery dw (ic_id c)) c t now db = Inr (db', d)"
    by (auto simp: page_transition_of_def bind_res_eq_Inr)
  from ops_change.page [OF assms(2) d] create_delivery_ok(1) [OF d] show ?thesis by auto
next
  case False
  with assms(1) show ?thesis by (simp add: page_transition_of_def)
qed

lemma escalated_moves:
  assumes "escalates st c now" and "incident_ok c"
  shows "incident_moves c (escalated st now c)" "incident_ok (escalated st now c)"
  using assms by (auto simp: escalates_def escalated_def incident_moves_def incident_ok_def incident_row_ok_def target_level_def)

lemma escalate_run:
  assumes run: "maybe_escalate_incident env st dw c now db = Inr (db', ds)" and c: "c \<in> set (od_incidents db)"
    and inv: "incidents_ok db"
  shows "\<exists>c'. (ops_change env)\<^sup>*\<^sup>* db db' \<and> touched c' db db' \<and> ic_id c' = ic_id c \<and> ic_status c' = ic_status c \<and>
    ic_alert_key c' = ic_alert_key c"
proof (cases "escalates st c now")
  case False
  with run have "db' = db" by (simp add: maybe_escalate_incident_def)
  with touched_same [OF inv c] show ?thesis by blast
next
  case True
  let ?c = "escalated st now c"
  from True run obtain db1 a reason where
    a: "append_action env (dr_action dw (ic_id c)) (ic_id c) Act_Escalated reason None CONTROLLER_IDENTITY True now
          (put_incident ?c db) = Inr (db1, a)"
    and p: "page_transition_of env st dw ?c Page_Escalated now db1 = Inr (db', ds)"
    by (auto simp: maybe_escalate_incident_def Let_def bind_res_eq_Inr)
  note f = append_action_ok [OF a]
  have ok: "incident_ok c" "link_ok db c" using inv c by (auto simp: incidents_ok_def)
  note mv = escalated_moves [OF True ok(1)]
  have id: "ic_id ?c = ic_id c" by (simp add: escalated_def)
  have "ops_change env db db1"
    by (rule ops_change.act [OF c mv(1) mv(2) _ a])
      (use ok(2) f(5-7) in \<open>simp_all add: link_ok_def escalated_def author_ok_def records_def\<close>)
  moreover have in1: "?c \<in> set (od_incidents db1)" using c id by (simp add: f(1) in_set_row_put)
  moreover note page_transition_run [OF p in1]
  moreover have "touched ?c db db1" using touched_put [OF c id] touched_rows [of db1 "put_incident ?c db"] by (simp add: f(1))
  ultimately show ?thesis
    using touched_rows [of db' db1] id by (intro exI [of _ ?c]) (auto simp: escalated_def intro: converse_rtranclp_into_rtranclp)
qed

lemma seen_again_moves:
  assumes "incident_ok c" and "ic_status c = Ic_Open"
  shows "incident_moves c (seen_again s now c)" "incident_ok (seen_again s now c)" "same_trail c (seen_again s now c)"
  using assms by (auto simp: seen_again_def incident_moves_def incident_ok_def incident_row_ok_def same_trail_def)

lemma resolved_moves:
  assumes "incident_ok c" and "ic_status c = Ic_Open"
  shows "incident_moves c (resolved_incident now c)" "incident_ok (resolved_incident now c)"
    "same_trail c (resolved_incident now c)"
  using assms by (auto simp: resolved_incident_def incident_moves_def incident_ok_def incident_row_ok_def same_trail_def)

lemma update_run:
  assumes "incidents_ok db" and "c \<in> set (od_incidents db)" and "incident_moves c c'" and "incident_ok c'"
    and "same_trail c c'" and "link_ok db c'" and "chooses env" and "ops_inv env db"
  shows "ops_change env db (put_incident c' db)" "c' \<in> set (od_incidents (put_incident c' db))"
    "touched c' db (put_incident c' db)" "ops_inv env (put_incident c' db)"
proof -
  show u: "ops_change env db (put_incident c' db)" using assms by (blast intro: ops_change.update)
  show "c' \<in> set (od_incidents (put_incident c' db))" "touched c' db (put_incident c' db)"
    using assms(2) incident_moves_id [OF assms(3)] touched_put by (auto simp: in_set_row_put)
  show "ops_inv env (put_incident c' db)" using ops_change_inv [OF u assms(7,8)] .
qed

text \<open>A state of the loop finds its open row, or adds one.\<close>

lemma open_of_key_cases:
  "open_of_key active k = Some c \<Longrightarrow> c \<in> set active \<and> ic_alert_key c = k"
  by (auto simp: open_of_key_def dest!: map_of_SomeD)

definition linked :: "ops_db \<Rightarrow> alert_state \<Rightarrow> bool" where
  "linked db s \<longleftrightarrow> (\<forall>i. as_evaluation s = Some i \<longrightarrow> i \<in> sl_id ` set (od_evaluations db))"

lemma reconcile_state_run:
  assumes run: "reconcile_state env st dw active now s db = Inr (db', ds)" and env: "chooses env" and inv: "ops_inv env db"
    and act: "\<And>c. c \<in> set active \<Longrightarrow> ic_alert_key c = as_key s \<Longrightarrow> c \<in> set (od_incidents db) \<and> ic_status c = Ic_Open"
    and lk: "linked db s"
  shows "\<exists>c. (ops_change env)\<^sup>*\<^sup>* db db' \<and> touched c db db' \<and> ic_status c = Ic_Open \<and> ic_alert_key c = as_key s \<and>
    (\<forall>k \<in> set (od_incidents db). ic_id k = ic_id c \<longrightarrow> ic_alert_key k = as_key s \<and> ic_id k \<in> ic_id ` set active)"
proof (cases "open_of_key active (as_key s)")
  case None
  let ?c = "opened_incident (dr_incident dw (as_key s)) s now"
  from None run obtain db1 where a: "add_incident ?c db = Inr db1"
    and p: "page_transition_of env st dw ?c Page_Opened now db1 = Inr (db', ds)"
    by (auto simp: reconcile_state_def Let_def bind_res_eq_Inr)
  have "ops_change env db db1"
    by (rule ops_change.insert [OF a])
      (use lk in \<open>auto simp: opened_incident_def incident_ok_def incident_row_ok_def link_ok_def linked_def\<close>)
  moreover have db1: "db1 = db\<lparr>od_incidents := od_incidents db @ [?c]\<rparr>" and fresh: "ic_id ?c \<notin> ic_id ` set (od_incidents db)"
    using a by (simp_all add: add_incident_ok)
  moreover have other: "ic_id k \<noteq> ic_id ?c" if "k \<in> set (od_incidents db)" for k using fresh that by (metis image_eqI)
  moreover have "touched ?c db db1" using other by (auto simp: touched_def db1)
  moreover have "(ops_change env)\<^sup>*\<^sup>* db1 db' \<and> od_incidents db' = od_incidents db1 \<and> od_evaluations db' = od_evaluations db1"
    by (rule page_transition_run [OF p]) (simp add: db1)
  ultimately have "(ops_change env)\<^sup>*\<^sup>* db db'" "touched ?c db db'" "\<forall>k \<in> set (od_incidents db). ic_id k \<noteq> ic_id ?c"
    using touched_rows [of db' db1] by (auto intro: converse_rtranclp_into_rtranclp)
  moreover have "ic_status ?c = Ic_Open" "ic_alert_key ?c = as_key s" by (simp_all add: opened_incident_def)
  ultimately show ?thesis by blast
next
  case (Some c)
  let ?c = "seen_again s now c"
  from open_of_key_cases [OF Some] act have c: "c \<in> set (od_incidents db)" "ic_status c = Ic_Open" "ic_alert_key c = as_key s"
    and member: "ic_id c \<in> ic_id ` set active"
    by auto
  have ok: "incidents_ok db" using inv by (simp add: ops_inv_def)
  then have ick: "incident_ok c" using c(1) by (simp add: incidents_ok_def)
  note mv = seen_again_moves [OF ick c(2), of s now]
  have "link_ok db ?c" using lk by (simp add: link_ok_def linked_def seen_again_def)
  note u = update_run [OF ok c(1) mv this env inv]
  from Some run have e: "maybe_escalate_incident env st dw ?c now (put_incident ?c db) = Inr (db', ds)"
    by (simp add: reconcile_state_def Let_def)
  have "incidents_ok (put_incident ?c db)" using u(4) by (simp add: ops_inv_def)
  from escalate_run [OF e u(2) this] obtain c' where c': "(ops_change env)\<^sup>*\<^sup>* (put_incident ?c db) db'"
    "touched c' (put_incident ?c db) db'" "ic_id c' = ic_id ?c" "ic_status c' = ic_status ?c"
    "ic_alert_key c' = ic_alert_key ?c" by blast
  have "\<forall>k \<in> set (od_incidents db). ic_id k = ic_id c' \<longrightarrow> ic_alert_key k = as_key s \<and> ic_id k \<in> ic_id ` set active"
    using ok c(1,3) c'(3) member by (auto simp: incidents_ok_def seen_again_def dest: distinct_key_eq)
  moreover have "(ops_change env)\<^sup>*\<^sup>* db db'" using u(1) c'(1) by (rule converse_rtranclp_into_rtranclp)
  moreover note touched_trans [OF u(3) c'(2,3)]
  ultimately show ?thesis using c c'(4,5) by (intro exI [of _ c']) (simp add: seen_again_def)
qed

lemma resolve_step_run:
  assumes run: "resolve_step env st dw now c db = Inr (db', ds)" and env: "chooses env" and inv: "ops_inv env db"
    and c: "c \<in> set (od_incidents db)" "ic_status c = Ic_Open"
  shows "(ops_change env)\<^sup>*\<^sup>* db db' \<and> touched (resolved_incident now c) db db'"
proof -
  let ?c = "resolved_incident now c"
  have ok: "incidents_ok db" using inv by (simp add: ops_inv_def)
  then have ick: "incident_ok c" "link_ok db c" using c(1) by (simp_all add: incidents_ok_def)
  note mv = resolved_moves [OF ick(1) c(2), of now]
  have "link_ok db ?c" using ick(2) by (simp add: link_ok_def resolved_incident_def)
  note u = update_run [OF ok c(1) mv this env inv]
  from run have p: "page_transition_of env st dw ?c Page_Resolved now (put_incident ?c db) = Inr (db', ds)"
    by (simp add: resolve_step_def Let_def)
  from page_transition_run [OF p u(2)] u(1,3) touched_rows [of db' "put_incident ?c db"] show ?thesis
    by (auto intro: converse_rtranclp_into_rtranclp)
qed

text \<open>The loops of a reconciliation.\<close>

lemma each_step_run:
  assumes "each_step f xs db = Inr (db', ds)" and "P xs db"
    and "\<And>x ys d d1 es. P (x # ys) d \<Longrightarrow> f x d = Inr (d1, es) \<Longrightarrow> R\<^sup>*\<^sup>* d d1 \<and> P ys d1"
  shows "R\<^sup>*\<^sup>* db db' \<and> P [] db'"
  using assms(1,2)
proof (induction xs arbitrary: db ds)
  case (Cons x xs)
  from Cons.prems(1) obtain d1 es ds' where x: "f x db = Inr (d1, es)" and xs: "each_step f xs d1 = Inr (db', ds')"
    by (auto simp: bind_res_eq_Inr)
  from assms(3) [OF Cons.prems(2) x] have "R\<^sup>*\<^sup>* db d1" "P xs d1" by auto
  moreover from Cons.IH [OF xs this(2)] have "R\<^sup>*\<^sup>* d1 db'" "P [] db'" by auto
  ultimately show ?case by (auto intro: rtranclp_trans)
qed simp

definition open_keys :: "incident list \<Rightarrow> string set" where
  "open_keys cs = ic_alert_key ` {c \<in> set cs. ic_status c = Ic_Open}"

lemma touched_open_keys:
  assumes "touched c db db'" and "ic_status c = Ic_Open" and "ic_alert_key c = k"
    and "\<forall>x \<in> set (od_incidents db). ic_id x = ic_id c \<longrightarrow> ic_alert_key x = k"
  shows "open_keys (od_incidents db') = insert k (open_keys (od_incidents db))"
proof -
  have "{x \<in> set (od_incidents db'). ic_status x = Ic_Open} =
      insert c {x \<in> set (od_incidents db). ic_status x = Ic_Open \<and> ic_id x \<noteq> ic_id c}"
    using assms(1,2) by (auto simp: touched_def)
  then show ?thesis using assms(3,4) unfolding open_keys_def by auto
qed

lemma resolved_open_keys:
  assumes inv: "incidents_ok db" and c: "c \<in> set (od_incidents db)" "ic_status c = Ic_Open"
    and t: "touched (resolved_incident now c) db db'"
  shows "open_keys (od_incidents db') = open_keys (od_incidents db) - {ic_alert_key c}"
proof -
  have rows: "{x \<in> set (od_incidents db'). ic_status x = Ic_Open} =
      {x \<in> set (od_incidents db). ic_status x = Ic_Open \<and> ic_id x \<noteq> ic_id c}"
    using t by (auto simp: touched_def resolved_incident_def)
  have one: "one_open (od_incidents db)" and ids: "distinct (map ic_id (od_incidents db))"
    using inv by (simp_all add: incidents_ok_def)
  have "ic_id x = ic_id c \<longleftrightarrow> ic_alert_key x = ic_alert_key c" if "x \<in> set (od_incidents db)" "ic_status x = Ic_Open" for x
    using one that c distinct_key_eq [OF ids that(1) c(1)] unfolding one_open_def by blast
  then show ?thesis unfolding open_keys_def rows by auto
qed

text \<open>
  The open rows found at the start which the loop still needs are unchanged, and a row another transaction
  holds never has the key of a state the loop got through.
\<close>

definition opens ::
  "ops_env \<Rightarrow> incident list \<Rightarrow> incident list \<Rightarrow> alert_state list \<Rightarrow> ops_db \<Rightarrow> alert_state list \<Rightarrow> ops_db \<Rightarrow> bool" where
  "opens env active held current start ss db \<longleftrightarrow>
     ops_inv env db \<and> distinct (map as_key ss) \<and> set ss \<subseteq> set current \<and> (\<forall>s \<in> set current. linked db s) \<and>
     (\<forall>c \<in> set active. ic_alert_key c \<in> as_key ` set ss \<or> ic_alert_key c \<notin> as_key ` set current \<longrightarrow> c \<in> set (od_incidents db)) \<and>
     (\<forall>c \<in> set held. c \<in> set (od_incidents db) \<and> (ic_alert_key c \<in> as_key ` set current \<longrightarrow> ic_alert_key c \<in> as_key ` set ss)) \<and>
     open_keys (od_incidents db) \<union> as_key ` set ss = open_keys (od_incidents start) \<union> as_key ` set current"

lemma opens_step:
  assumes o: "opens env active held current start (s # ss) db" and env: "chooses env"
    and act: "\<forall>c \<in> set active. ic_status c = Ic_Open"
    and hd: "\<forall>c \<in> set held. ic_status c = Ic_Open \<and> ic_id c \<notin> ic_id ` set active"
    and run: "reconcile_state env st dw active now s db = Inr (db', ds)"
  shows "(ops_change env)\<^sup>*\<^sup>* db db' \<and> opens env active held current start ss db'"
proof -
  from o have inv: "ops_inv env db" and lk: "linked db s" and s: "s \<in> set current" and fresh: "as_key s \<notin> as_key ` set ss"
    by (auto simp: opens_def)
  have here: "c \<in> set (od_incidents db) \<and> ic_status c = Ic_Open" if "c \<in> set active" "ic_alert_key c = as_key s" for c
    using o act that by (auto simp: opens_def)
  from reconcile_state_run [OF run env inv here lk] obtain c where c: "(ops_change env)\<^sup>*\<^sup>* db db'" "touched c db db'"
    "ic_status c = Ic_Open" "ic_alert_key c = as_key s"
    and old: "\<forall>k \<in> set (od_incidents db). ic_id k = ic_id c \<longrightarrow> ic_alert_key k = as_key s \<and> ic_id k \<in> ic_id ` set active"
    by blast
  have inv': "ops_inv env db'" using ops_run_inv [OF c(1) env inv] by simp
  moreover have "linked db' x = linked db x" for x using c(2) by (simp add: linked_def touched_def)
  moreover have keep: "k \<in> set (od_incidents db')" if "k \<in> set (od_incidents db)" "ic_alert_key k \<noteq> as_key s" for k
    using c(2) old that by (auto simp: touched_def)
  moreover have "\<forall>k \<in> set active. ic_alert_key k \<in> as_key ` set ss \<or> ic_alert_key k \<notin> as_key ` set current \<longrightarrow>
      k \<in> set (od_incidents db')"
  proof (intro ballI impI)
    fix k assume k: "k \<in> set active" "ic_alert_key k \<in> as_key ` set ss \<or> ic_alert_key k \<notin> as_key ` set current"
    then have "ic_alert_key k \<noteq> as_key s" using fresh s by (metis image_eqI)
    moreover have "k \<in> set (od_incidents db)" using o k unfolding opens_def by (metis list.set_intros(2) image_iff)
    ultimately show "k \<in> set (od_incidents db')" by (rule keep [rotated])
  qed
  moreover have "\<forall>k \<in> set held. k \<in> set (od_incidents db') \<and>
      (ic_alert_key k \<in> as_key ` set current \<longrightarrow> ic_alert_key k \<in> as_key ` set ss)"
  proof
    fix k assume k: "k \<in> set held"
    with o have mem: "k \<in> set (od_incidents db)"
      and todo: "ic_alert_key k \<in> as_key ` set current \<longrightarrow> ic_alert_key k = as_key s \<or> ic_alert_key k \<in> as_key ` set ss"
      by (auto simp: opens_def)
    have other: "ic_id k \<noteq> ic_id c" using old mem hd k by blast
    then have mem': "k \<in> set (od_incidents db')" using c(2) mem by (simp add: touched_def)
    have "c \<in> set (od_incidents db')" using c(2) by (simp add: touched_def)
    with inv' mem' c(3,4) hd k other have "ic_alert_key k \<noteq> as_key s"
      unfolding ops_inv_def incidents_ok_def one_open_def by metis
    with mem' todo show "k \<in> set (od_incidents db') \<and>
      (ic_alert_key k \<in> as_key ` set current \<longrightarrow> ic_alert_key k \<in> as_key ` set ss)" by blast
  qed
  moreover have "open_keys (od_incidents db') = insert (as_key s) (open_keys (od_incidents db))"
    by (rule touched_open_keys [OF c(2-4)]) (use old in blast)
  moreover from o have "distinct (map as_key ss)" "set ss \<subseteq> set current" "\<forall>s \<in> set current. linked db s"
    "insert (as_key s) (open_keys (od_incidents db)) \<union> as_key ` set ss = open_keys (od_incidents start) \<union> as_key ` set current"
    by (auto simp: opens_def)
  ultimately show ?thesis using c(1) unfolding opens_def by simp
qed

definition closes :: "ops_env \<Rightarrow> incident list \<Rightarrow> string set \<Rightarrow> ops_db \<Rightarrow> bool" where
  "closes env gone keys db \<longleftrightarrow>
     ops_inv env db \<and> distinct (map ic_id gone) \<and> (\<forall>c \<in> set gone. c \<in> set (od_incidents db) \<and> ic_status c = Ic_Open) \<and>
     open_keys (od_incidents db) - ic_alert_key ` set gone = keys"

lemma closes_step:
  assumes o: "closes env (c # gone) keys db" and env: "chooses env"
    and run: "resolve_step env st dw now c db = Inr (db', ds)"
  shows "(ops_change env)\<^sup>*\<^sup>* db db' \<and> closes env gone keys db'"
proof -
  from o have inv: "ops_inv env db" and c: "c \<in> set (od_incidents db)" "ic_status c = Ic_Open" "ic_id c \<notin> ic_id ` set gone"
    by (auto simp: closes_def)
  from resolve_step_run [OF run env inv c(1,2)] have r: "(ops_change env)\<^sup>*\<^sup>* db db'" "touched (resolved_incident now c) db db'"
    by auto
  have "ops_inv env db'" using ops_run_inv [OF r(1) env inv] by simp
  moreover have keep: "k \<in> set (od_incidents db')" if "k \<in> set (od_incidents db)" "ic_id k \<noteq> ic_id c" for k
    using r(2) that by (auto simp: touched_def resolved_incident_def)
  moreover have "open_keys (od_incidents db') = open_keys (od_incidents db) - {ic_alert_key c}"
    using resolved_open_keys [OF _ c(1,2) r(2)] inv by (simp add: ops_inv_def)
  moreover have "\<forall>k \<in> set gone. k \<in> set (od_incidents db') \<and> ic_status k = Ic_Open"
  proof
    fix k assume k: "k \<in> set gone"
    with c(3) have "ic_id k \<noteq> ic_id c" by (metis image_eqI)
    with k o keep [of k] show "k \<in> set (od_incidents db') \<and> ic_status k = Ic_Open" by (simp add: closes_def)
  qed
  ultimately show ?thesis using o r(1) by (simp add: closes_def) blast
qed

lemma state_put_keys: "map as_key (state_put s xs) = (if as_key s \<in> as_key ` set xs then map as_key xs else map as_key xs @ [as_key s])"
  by (induction xs) auto

lemma state_put_set: "set (state_put s xs) \<subseteq> insert s (set xs)"
  by (induction xs) auto

lemma fold_state_put_keys:
  "distinct (map as_key xs) \<Longrightarrow> distinct (map as_key (fold state_put ys xs)) \<and>
   as_key ` set (fold state_put ys xs) = as_key ` set xs \<union> as_key ` set ys"
proof (induction ys arbitrary: xs)
  case (Cons y ys)
  have k: "distinct (map as_key (state_put y xs))" using Cons.prems by (simp add: state_put_keys)
  have "as_key ` set (state_put y xs) = insert (as_key y) (as_key ` set xs)"
    using arg_cong [OF state_put_keys [of y xs], of set] by auto
  with Cons.IH [OF k] show ?case by auto
qed simp

lemma fold_state_put_set: "set (fold state_put ys xs) \<subseteq> set xs \<union> set ys"
  by (induction ys arbitrary: xs) (use state_put_set in \<open>fastforce+\<close>)

definition breached_keys :: "slo_evaluation list \<Rightarrow> string set" where
  "breached_keys es = {''slo:'' @ sl_key e | e. e \<in> set es \<and> sl_status e = Slo_Breached}"

lemma current_states_keys:
  "distinct (map as_key (current_states sn alerts es))"
  "as_key ` set (current_states sn alerts es) = oa_key ` set alerts \<union> breached_keys es"
proof -
  let ?a = "fold state_put (map (alert_state_of sn) alerts) []"
  let ?b = "map (breach_state_of sn) (filter (\<lambda>e. sl_status e = Slo_Breached) es)"
  note a = fold_state_put_keys [of "[]" "map (alert_state_of sn) alerts"]
  note b = fold_state_put_keys [of ?a ?b]
  from a b show "distinct (map as_key (current_states sn alerts es))" by (simp add: current_states_def)
  have "as_key ` set ?b = breached_keys es" by (force simp: breached_keys_def breach_state_of_def Let_def)
  moreover have "as_key ` set ?a = oa_key ` set alerts" using a by (simp add: image_image alert_state_of_def)
  ultimately show "as_key ` set (current_states sn alerts es) = oa_key ` set alerts \<union> breached_keys es"
    using a b by (simp add: current_states_def)
qed

lemma current_states_linked:
  assumes "s \<in> set (current_states sn alerts es)" and "set es \<subseteq> set (od_evaluations db)"
  shows "linked db s"
proof -
  let ?a = "map (alert_state_of sn) alerts" and ?b = "map (breach_state_of sn) (filter (\<lambda>e. sl_status e = Slo_Breached) es)"
  have "s \<in> set (fold state_put ?b (fold state_put ?a []))" using assms(1) by (simp only: current_states_def)
  then have "s \<in> set ?a \<or> s \<in> set ?b"
    using fold_state_put_set [of ?b "fold state_put ?a []"] fold_state_put_set [of ?a "[]"] by (simp only: list.set(1)) blast
  then show ?thesis
  proof
    assume "s \<in> set ?a"
    then show ?thesis by (auto simp: linked_def alert_state_of_def)
  next
    assume "s \<in> set ?b"
    then obtain e where "e \<in> set es" "s = breach_state_of sn e" by auto
    with assms(2) show ?thesis by (auto simp: linked_def breach_state_of_def Let_def)
  qed
qed

definition locked_open_keys :: "uuid list \<Rightarrow> incident list \<Rightarrow> string set" where
  "locked_open_keys locked cs = open_keys (filter (\<lambda>c. ic_id c \<in> set locked) cs)"

lemma reconcile_run:
  assumes run: "reconcile_operational_incidents env st dw locked sn alerts es now db = Inr (db', ds)"
    and env: "chooses env" and inv: "ops_inv env db" and es: "set es \<subseteq> set (od_evaluations db)"
  shows "(ops_change env)\<^sup>*\<^sup>* db db' \<and> ops_inv env db' \<and>
    open_keys (od_incidents db') = oa_key ` set alerts \<union> breached_keys es \<union> locked_open_keys locked (od_incidents db) \<and>
    (oa_key ` set alerts \<union> breached_keys es) \<inter> locked_open_keys locked (od_incidents db) = {}"
proof -
  let ?current = "current_states sn alerts es"
  let ?held = "filter (\<lambda>c. ic_status c = Ic_Open \<and> ic_id c \<in> set locked) (od_incidents db)"
  let ?active = "filter (\<lambda>c. ic_status c = Ic_Open \<and> ic_id c \<notin> set locked) (od_incidents db)"
  let ?gone = "filter (\<lambda>c. ic_alert_key c \<notin> set (map as_key ?current)) ?active"
  let ?keys = "open_keys (od_incidents db) \<union> as_key ` set ?current - ic_alert_key ` set ?gone"
  from run obtain db1 os rs where
    o: "each_step (reconcile_state env st dw ?active now) ?current db = Inr (db1, os)"
    and r: "each_step (resolve_step env st dw now) ?gone db1 = Inr (db', rs)"
    unfolding reconcile_operational_incidents_def Let_def by (auto simp: bind_res_eq_Inr)
  have ids: "distinct (map ic_id (od_incidents db))" using inv by (simp add: ops_inv_def incidents_ok_def)
  have "opens env ?active ?held ?current db ?current db"
    using inv current_states_keys(1) current_states_linked [OF _ es] unfolding opens_def by (simp add: image_iff)
  with o have "(ops_change env)\<^sup>*\<^sup>* db db1 \<and> opens env ?active ?held ?current db [] db1"
    by (rule each_step_run) (rule opens_step [OF _ env], assumption, simp, force, assumption)
  then have 1: "(ops_change env)\<^sup>*\<^sup>* db db1" "opens env ?active ?held ?current db [] db1" by blast+
  have kept: "c \<in> set (od_incidents db1) \<and> ic_status c = Ic_Open" if "c \<in> set ?gone" for c
    using 1(2) that unfolding opens_def by auto
  have "open_keys (od_incidents db1) = open_keys (od_incidents db) \<union> as_key ` set ?current"
    using 1(2) unfolding opens_def by simp
  moreover have "ops_inv env db1" using 1(2) unfolding opens_def by simp
  moreover have "distinct (map ic_id ?gone)" using ids by (intro distinct_map_filter)
  ultimately have "closes env ?gone ?keys db1" using kept unfolding closes_def by blast
  with r have "(ops_change env)\<^sup>*\<^sup>* db1 db' \<and> closes env [] ?keys db'"
    by (rule each_step_run [where P = "\<lambda>gone. closes env gone ?keys"]) (rule closes_step [OF _ env])
  then have 2: "(ops_change env)\<^sup>*\<^sup>* db1 db'" "closes env [] ?keys db'" by blast+
  have one: "one_open (od_incidents db)" using inv by (simp add: ops_inv_def incidents_ok_def)
  have "?keys = as_key ` set ?current \<union> locked_open_keys locked (od_incidents db)"
  proof (intro set_eqI iffI)
    fix k assume k: "k \<in> as_key ` set ?current \<union> locked_open_keys locked (od_incidents db)"
    have "k \<notin> ic_alert_key ` set ?gone" if "k \<in> locked_open_keys locked (od_incidents db)"
    proof
      assume "k \<in> ic_alert_key ` set ?gone"
      then obtain c where c: "c \<in> set (od_incidents db)" "ic_status c = Ic_Open" "ic_id c \<notin> set locked" "k = ic_alert_key c"
        by auto
      from that obtain d where "d \<in> set (od_incidents db)" "ic_status d = Ic_Open" "ic_id d \<in> set locked" "k = ic_alert_key d"
        by (auto simp: locked_open_keys_def open_keys_def)
      with one c show False unfolding one_open_def by metis
    qed
    moreover have "k \<notin> ic_alert_key ` set ?gone" if "k \<in> as_key ` set ?current"
      using that by auto (metis image_eqI)
    ultimately have "k \<notin> ic_alert_key ` set ?gone" using k by blast
    with k show "k \<in> ?keys" unfolding locked_open_keys_def open_keys_def by auto
  qed (auto simp: locked_open_keys_def open_keys_def)
  moreover have "as_key ` set ?current \<inter> locked_open_keys locked (od_incidents db) = {}"
    using 1(2) by (auto simp: opens_def locked_open_keys_def open_keys_def) (metis image_eqI)
  moreover have "open_keys (od_incidents db') = ?keys" "ops_inv env db'" using 2(2) by (simp_all add: closes_def)
  ultimately show ?thesis
    using rtranclp_trans [OF 1(1) 2(1)] current_states_keys(2) by simp
qed

text \<open>A reconciliation leaves the evaluations alone.\<close>

lemma page_transition_evaluations:
  "page_transition_of env st dw c t now db = Inr (db', ds) \<Longrightarrow> od_evaluations db' = od_evaluations db"
  by (auto simp: page_transition_of_def bind_res_eq_Inr split: if_splits dest: create_delivery_ok(1))

lemma reconcile_state_evaluations:
  "reconcile_state env st dw active now s db = Inr (db', ds) \<Longrightarrow> od_evaluations db' = od_evaluations db"
  by (auto simp: reconcile_state_def Let_def bind_res_eq_Inr maybe_escalate_incident_def add_incident_ok
      split: option.splits if_splits dest!: page_transition_evaluations append_action_ok(1))

lemma resolve_step_evaluations:
  "resolve_step env st dw now c db = Inr (db', ds) \<Longrightarrow> od_evaluations db' = od_evaluations db"
  by (auto simp: resolve_step_def Let_def dest!: page_transition_evaluations)

lemma each_step_evaluations:
  assumes "each_step f xs db = Inr (db', ds)"
    and "\<And>x d d' es. f x d = Inr (d', es) \<Longrightarrow> od_evaluations d' = od_evaluations d"
  shows "od_evaluations db' = od_evaluations db"
  using assms(1)
proof (induction xs arbitrary: db ds)
  case (Cons x xs)
  then show ?case using assms(2) by (auto simp: bind_res_eq_Inr)
qed simp

lemma reconcile_evaluations:
  assumes "reconcile_operational_incidents env st dw locked sn alerts es now db = Inr (db', ds)"
  shows "od_evaluations db' = od_evaluations db"
proof -
  from assms obtain active current gone db1 opened resolved where
    1: "each_step (reconcile_state env st dw active now) current db = Inr (db1, opened)"
    and 2: "each_step (resolve_step env st dw now) gone db1 = Inr (db', resolved)"
    unfolding reconcile_operational_incidents_def Let_def by (auto simp: bind_res_eq_Inr)
  have "od_evaluations db1 = od_evaluations db" by (rule each_step_evaluations [OF 1 reconcile_state_evaluations])
  moreover have "od_evaluations db' = od_evaluations db1" by (rule each_step_evaluations [OF 2 resolve_step_evaluations])
  ultimately show ?thesis by simp
qed

lemma delete_keeps_open_keys:
  "open_keys (od_incidents (delete_snapshots ids db)) = open_keys (od_incidents db)"
  "locked_open_keys locked (od_incidents (delete_snapshots ids db)) = locked_open_keys locked (od_incidents db)"
  by (auto simp: locked_open_keys_def open_keys_def delete_snapshots_def Let_def image_def)

text \<open>The capture cycle; \<open>new_evaluations\<close> are the rows of its snapshot.\<close>

definition new_evaluations :: "ops_db \<Rightarrow> cycle_report \<Rightarrow> slo_evaluation list" where
  "new_evaluations db r = filter (\<lambda>e. sl_snapshot_id e = cy_snapshot r) (od_evaluations db)"

lemma capture_run:
  assumes run: "capture_operational_reliability_cycle env st collector samples locked dw clock db = Inr (db', r)"
    and env: "chooses env" and inv: "ops_inv env db"
  shows "(ops_change env)\<^sup>*\<^sup>* db db' \<and>
    (if cy_created r
     then open_keys (od_incidents db') = oa_key ` set (derive_alerts samples) \<union> breached_keys (new_evaluations db' r) \<union>
            locked_open_keys locked (od_incidents db) \<and>
          (oa_key ` set (derive_alerts samples) \<union> breached_keys (new_evaluations db' r)) \<inter>
            locked_open_keys locked (od_incidents db) = {} \<and>
          map sl_key (new_evaluations db' r) = map sd_key (slo_definitions st)
     else db' = db)"
proof -
  let ?now = "whole_seconds clock"
  let ?bucket = "bucket_start ?now (os_interval st)"
  let ?sn = "new_snapshot env st (dr_snapshot dw) ?now samples (derive_alerts samples) (subject_id collector)"
  let ?del = "delete_snapshots (expired_snapshots locked ?now db) db"
  show ?thesis
  proof (cases "find (\<lambda>s. sn_bucket s = ?bucket) (od_snapshots db)")
    case (Some s)
    with run show ?thesis
      by (auto simp: capture_operational_reliability_cycle_def Let_def split: if_splits)
  next
    case None
    let ?es = "\<lambda>d. evaluate_slos (oe_sha env) st (sn_id ?sn) (dr_evaluation dw) ?now d"
    from run None obtain db1 db2 db3 ds where
      1: "add_snapshot env ?sn samples ?del = Inr db1" and 2: "add_evaluations (?es db1) db1 = Inr db2"
      and 3: "reconcile_operational_incidents env st dw locked (sn_id ?sn) (derive_alerts samples) (?es db1) ?now db2 = Inr (db3, ds)"
      and r: "db' = db3" "cy_created r" "cy_snapshot r = sn_id ?sn"
      unfolding capture_operational_reliability_cycle_def Let_def by (auto simp: bind_res_eq_Inr split: if_splits)
    note f1 = add_snapshot_ok [OF 1] and f2 = add_evaluations_ok [OF 2]
    have c0: "ops_change env db ?del" by (rule ops_change.retire)
    have "sn_bucket ?sn \<notin> sn_bucket ` set (od_snapshots ?del)"
      using None by (auto simp: find_None_iff new_snapshot_def Let_def delete_snapshots_def)
    with 1 have c1: "ops_change env ?del db1" by (rule ops_change.snapshot)
    have snap: "sl_snapshot_id e = sn_id ?sn" if "e \<in> set (?es db1)" for e
      using that by (auto simp: evaluate_slos_def slo_evaluation_row_def Let_def)
    have c2: "ops_change env db1 db2" by (rule ops_change.evaluate [OF 2]) (auto simp: snap f1(1))
    have run2: "(ops_change env)\<^sup>*\<^sup>* db db2"
      using c0 c1 c2 by (meson r_into_rtranclp rtranclp.rtrancl_into_rtrancl)
    have inv0: "ops_inv env ?del" using ops_change_inv [OF c0 env inv] .
    have inv2: "ops_inv env db2" using ops_run_inv [OF run2 env inv] by simp
    have rows: "od_incidents db2 = od_incidents ?del" "od_evaluations db2 = od_evaluations ?del @ ?es db1"
      by (simp_all add: f1(1) f2(1))
    have "set (?es db1) \<subseteq> set (od_evaluations db2)" by (simp add: rows(2))
    from reconcile_run [OF 3 env inv2 this] have 4: "(ops_change env)\<^sup>*\<^sup>* db2 db3"
      "open_keys (od_incidents db3) = oa_key ` set (derive_alerts samples) \<union> breached_keys (?es db1) \<union>
         locked_open_keys locked (od_incidents db)"
      "(oa_key ` set (derive_alerts samples) \<union> breached_keys (?es db1)) \<inter> locked_open_keys locked (od_incidents db) = {}"
      by (simp_all add: rows(1) delete_keeps_open_keys)
    have "sl_snapshot_id e \<noteq> sn_id ?sn" if "e \<in> set (od_evaluations ?del)" for e
      using inv0 that f1(2) unfolding ops_inv_def snapshots_ok_def by metis
    then have new: "new_evaluations db3 r = ?es db1"
      using snap by (simp add: new_evaluations_def reconcile_evaluations [OF 3] rows(2) r(3) filter_id_conv)
    have "map sl_key (?es db1) = map sd_key (slo_definitions st)"
      by (simp add: evaluate_slos_def slo_evaluation_row_def Let_def)
    with 4 run2 new r show ?thesis by (auto intro: rtranclp_trans)
  qed
qed

lemma test_page_run:
  assumes run: "create_operational_test_delivery env st signer severity reason key dw clock db = Inr (db', d)"
  shows "(ops_change env)\<^sup>*\<^sup>* db db'"
proof -
  let ?c = "test_incident (dr_incident dw key) key severity reason signer (whole_seconds clock)"
  from run obtain db1 where a: "add_incident ?c db = Inr db1"
    and p: "create_delivery (oe_paging env) st (dr_delivery dw (ic_id ?c)) ?c Page_Test (whole_seconds clock) db1 = Inr (db', d)"
    by (auto simp: create_operational_test_delivery_def Let_def bind_res_eq_Inr split: if_splits)
  have "ops_change env db db1"
    by (rule ops_change.insert [OF a]) (simp_all add: test_incident_def incident_ok_def incident_row_ok_def link_ok_def)
  moreover have "?c \<in> set (od_incidents db1)" using a by (auto simp: add_incident_ok)
  then have "ops_change env db1 db'" using p by (rule ops_change.page)
  ultimately show ?thesis by (meson r_into_rtranclp rtranclp.rtrancl_into_rtrancl)
qed

lemma actioned_moves:
  assumes "actioned verb assignee signer now c = Inr c'" and "incident_ok c"
    and "ic_status c = Ic_Open \<or> verb = Act_Note"
  shows "incident_moves c c' \<and> incident_ok c' \<and> ic_evaluation c' = ic_evaluation c \<and>
    (ic_acknowledged_at c' = ic_acknowledged_at c \<and> ic_acknowledged_by c' = ic_acknowledged_by c \<or>
     verb = Act_Acknowledged \<and> ic_acknowledged_at c' = Some now \<and> ic_acknowledged_by c' = identity_to_json signer) \<and>
    ic_escalation c' = ic_escalation c"
  using assms
  by (cases verb) (auto simp: actioned_def incident_moves_def incident_ok_def incident_row_ok_def
      split: if_splits option.splits list.splits)

lemma incident_action_run:
  assumes run: "record_operational_incident_action env i signer verb reason assignee dw clock db = Inr (db', a)"
    and inv: "ops_inv env db"
  shows "ops_change env db db' \<and> can_administer signer \<and> ia_verb a = verb \<and> verb \<noteq> Act_Escalated"
proof -
  let ?now = "whole_seconds clock"
  from run obtain c c' where adm: "can_administer signer" and v: "verb \<noteq> Act_Escalated"
    and find: "row_find ic_id i (od_incidents db) = Some c"
    and st: "ic_status c = Ic_Open \<or> verb = Act_Note"
    and c': "actioned verb assignee signer ?now c = Inr c'"
    and a: "append_action env (dr_action dw i) i verb reason assignee (identity_to_json signer)
              (identity_verified signer) ?now (put_incident c' db) = Inr (db', a)"
    by (auto simp: record_operational_incident_action_def Let_def bind_res_eq_Inr split: if_splits option.splits)
  from row_find_SomeD [OF find] have c: "c \<in> set (od_incidents db)" "ic_id c = i" by auto
  have ok: "incident_ok c" "link_ok db c" using inv c(1) by (auto simp: ops_inv_def incidents_ok_def)
  note mv = actioned_moves [OF c' ok(1) st] and f = append_action_ok [OF a]
  have "ops_change env db db'"
  proof (rule ops_change.act [OF c(1)])
    show "append_action env (dr_action dw i) (ic_id c) verb reason assignee (identity_to_json signer)
              (identity_verified signer) ?now (put_incident c' db) = Inr (db', a)" using a c(2) by simp
    show "author_ok a" using adm v f(6,7) by (auto simp: author_ok_def)
    show "records a c c'" using mv f(5-8) c(2) by (auto simp: records_def)
    show "incident_moves c c'" "incident_ok c'" "link_ok db c'" using mv ok(2) by (auto simp: link_ok_def)
  qed
  with adm v f(6) show ?thesis by simp
qed

text \<open>An attempt of a delivery that is not delivered yet.\<close>

lemma failed_attempt:
  assumes "dl_status d \<noteq> Dl_Delivered" and "delivery_ok d" and "d' = failed_delivery env attempt n msg now s body p d"
  shows "delivery_moves d d'" "delivery_ok d'"
  using assms
  by (auto simp: failed_delivery_def delivery_moves_def delivery_ok_def incident_key_def)

lemma delivered_attempt:
  assumes "dl_status d \<noteq> Dl_Delivered" and "delivery_ok d" and "d' = delivered env expected now s body r d"
  shows "delivery_moves d d'" "delivery_ok d'"
  using assms
  by (auto simp: delivered_def delivery_moves_def delivery_ok_def incident_key_def Let_def split: option.splits)

lemma attempt_cases:
  obtains (failed) msg status body permanent e where
    "attempt_delivery env st attempt n now d = (failed_delivery env attempt n msg now status body permanent d, Inl e)"
  | (ok) expected status body r where
    "attempt_delivery env st attempt n now d = (delivered env expected now status body r d, Inr ())"
  | (raised) "attempt_delivery env st attempt n now d = (d, Inl Uncaught_Error)"
    "validated_endpoint env st = Inl Url_Malformed"
proof -
  have "(\<exists>msg status body permanent e. attempt_delivery env st attempt n now d =
       (failed_delivery env attempt n msg now status body permanent d, Inl e)) \<or>
     (\<exists>expected status body r. attempt_delivery env st attempt n now d = (delivered env expected now status body r d, Inr ())) \<or>
     attempt_delivery env st attempt n now d = (d, Inl Uncaught_Error) \<and> validated_endpoint env st = Inl Url_Malformed"
    unfolding attempt_delivery_def page_outcome_def Let_def
    by (auto split: sum.split option.split http_outcome.split if_splits)
  then show ?thesis using that by blast
qed

lemma attempt_moves:
  assumes "dl_status d \<noteq> Dl_Delivered" and "delivery_ok d" and "attempt_delivery env st attempt n now d = (d', res)"
  shows "delivery_moves d d' \<and> delivery_ok d'"
proof (cases rule: attempt_cases [of env st attempt n now d])
  case (failed msg status body permanent e)
  then show ?thesis using failed_attempt [OF assms(1,2)] assms(3) by (metis prod.inject)
next
  case (ok expected status body r)
  then show ?thesis using delivered_attempt [OF assms(1,2)] assms(3) by (metis prod.inject)
qed (use assms in simp)

lemma execute_run:
  assumes inv: "ops_inv env db"
  shows "(ops_change env)\<^sup>*\<^sup>* db (fst (execute_operational_alert_delivery penv st i attempt n clock db))"
proof (cases "row_find dl_id i (od_deliveries db)")
  case None
  then show ?thesis by (simp add: execute_operational_alert_delivery_def)
next
  case (Some d)
  from row_find_SomeD [OF this] have d: "d \<in> set (od_deliveries db)" ..
  then have ok: "delivery_ok d" using inv by (simp add: ops_inv_def deliveries_ok_def page_ok_def)
  obtain d' res where at: "attempt_delivery penv st attempt n (whole_seconds clock) d = (d', res)" by fastforce
  show ?thesis
  proof (cases "dl_status d = Dl_Delivered")
    case False
    from attempt_moves [OF False ok at] have "ops_change env db (put_delivery d' db)"
      using d by (auto intro: ops_change.deliver)
    with Some False at show ?thesis
      by (auto simp: execute_operational_alert_delivery_def split: sum.split)
  qed (simp add: execute_operational_alert_delivery_def Some)
qed

lemma ops_step_run:
  assumes "ops_step env st cmd db = Inr db'" and "chooses env" and inv: "ops_inv env db"
  shows "(ops_change env)\<^sup>*\<^sup>* db db'"
proof (cases cmd)
  case (Capture_Cycle collector samples locked dw clock)
  with assms(1) obtain r where
    "capture_operational_reliability_cycle env st collector samples locked dw clock db = Inr (db', r)"
    by (auto simp: map_sum_def split: sum.splits)
  from capture_run [OF this assms(2) inv] show ?thesis ..
next
  case (Test_Page signer severity reason key dw clock)
  with assms(1) obtain d where
    "create_operational_test_delivery env st signer severity reason key dw clock db = Inr (db', d)"
    by (auto simp: map_sum_def split: sum.splits)
  then show ?thesis by (rule test_page_run)
next
  case (Incident_Action i signer verb reason assignee dw clock)
  with assms(1) obtain a where
    "record_operational_incident_action env i signer verb reason assignee dw clock db = Inr (db', a)"
    by (auto simp: map_sum_def split: sum.splits)
  from incident_action_run [OF this inv] show ?thesis by blast
next
  case (Execute_Delivery i attempt n clock)
  then show ?thesis using assms(1) execute_run [OF inv] by auto
qed

lemma ops_step_keeps:
  assumes "chooses env" and "ops_step env st cmd db = Inr db'" and "ops_inv env db"
  shows "ops_inv env db' \<and> ops_effect db db'"
  by (rule ops_run_inv [OF ops_step_run [OF assms(2,1,3)] assms(1,3)])

section \<open>The pages a command creates\<close>

definition new_pages :: "uuid list \<Rightarrow> ops_db \<Rightarrow> ops_db \<Rightarrow> bool" where
  "new_pages ids db db' \<longleftrightarrow> (\<exists>new. od_deliveries db' = od_deliveries db @ new \<and> map dl_id new = ids \<and>
     (\<forall>d \<in> set new. dl_id d \<notin> dl_id ` set (od_deliveries db) \<and> dl_job_id d = None \<and> dl_status d = Dl_Queued \<and>
        dl_attempts d = 0))"

lemma no_new_pages: "od_deliveries db' = od_deliveries db \<Longrightarrow> new_pages [] db db'"
  by (simp add: new_pages_def)

lemma new_pages_trans:
  assumes "new_pages xs a b" and "new_pages ys b c"
  shows "new_pages (xs @ ys) a c"
proof -
  from assms obtain u v where u: "od_deliveries b = od_deliveries a @ u" "map dl_id u = xs"
      "\<forall>d \<in> set u. dl_id d \<notin> dl_id ` set (od_deliveries a) \<and> dl_job_id d = None \<and> dl_status d = Dl_Queued \<and> dl_attempts d = 0"
    and v: "od_deliveries c = od_deliveries b @ v" "map dl_id v = ys"
      "\<forall>d \<in> set v. dl_id d \<notin> dl_id ` set (od_deliveries b) \<and> dl_job_id d = None \<and> dl_status d = Dl_Queued \<and> dl_attempts d = 0"
    unfolding new_pages_def by blast
  then have "od_deliveries c = od_deliveries a @ (u @ v)" "map dl_id (u @ v) = xs @ ys" by simp_all
  moreover have "dl_id d \<notin> dl_id ` set (od_deliveries a) \<and> dl_job_id d = None \<and> dl_status d = Dl_Queued \<and> dl_attempts d = 0"
    if "d \<in> set (u @ v)" for d
    using that u(3) v(3) by (auto simp: u(1))
  ultimately show ?thesis unfolding new_pages_def by blast
qed

lemma new_pages_prefix:
  "new_pages xs a b \<Longrightarrow> od_deliveries a' = od_deliveries a \<Longrightarrow> od_deliveries b' = od_deliveries b \<Longrightarrow> new_pages xs a' b'"
  by (simp add: new_pages_def)

lemma create_delivery_pages:
  assumes "create_delivery penv st i c t now db = Inr (db', d)"
  shows "new_pages [dl_id d] db db'"
proof -
  have "dl_job_id d = None"
    using assms by (auto simp: create_delivery_def new_delivery_def Let_def split: sum.splits option.splits if_splits)
  with create_delivery_ok [OF assms] show ?thesis by (simp add: new_pages_def)
qed

lemma page_transition_pages:
  "page_transition_of env st dw c t now db = Inr (db', ds) \<Longrightarrow> new_pages ds db db'"
  by (auto simp: page_transition_of_def bind_res_eq_Inr no_new_pages split: if_splits dest: create_delivery_pages)

lemma escalate_pages:
  assumes "maybe_escalate_incident env st dw c now db = Inr (db', ds)"
  shows "new_pages ds db db'"
proof (cases "escalates st c now")
  case True
  with assms obtain db1 a reason where
    a: "append_action env (dr_action dw (ic_id c)) (ic_id c) Act_Escalated reason None CONTROLLER_IDENTITY True now
          (put_incident (escalated st now c) db) = Inr (db1, a)"
    and p: "page_transition_of env st dw (escalated st now c) Page_Escalated now db1 = Inr (db', ds)"
    by (auto simp: maybe_escalate_incident_def Let_def bind_res_eq_Inr)
  show ?thesis
    by (rule new_pages_prefix [OF page_transition_pages [OF p]]) (simp_all add: append_action_ok(1) [OF a])
qed (use assms in \<open>simp add: maybe_escalate_incident_def no_new_pages\<close>)

lemma reconcile_state_pages:
  assumes "reconcile_state env st dw active now s db = Inr (db', ds)"
  shows "new_pages ds db db'"
proof (cases "open_of_key active (as_key s)")
  case None
  let ?c = "opened_incident (dr_incident dw (as_key s)) s now"
  from None assms obtain db1 where a: "add_incident ?c db = Inr db1"
    and p: "page_transition_of env st dw ?c Page_Opened now db1 = Inr (db', ds)"
    by (auto simp: reconcile_state_def Let_def bind_res_eq_Inr)
  show ?thesis
    by (rule new_pages_prefix [OF page_transition_pages [OF p]]) (use a in \<open>simp_all add: add_incident_ok\<close>)
next
  case (Some c)
  then have "maybe_escalate_incident env st dw (seen_again s now c) now (put_incident (seen_again s now c) db) = Inr (db', ds)"
    using assms by (simp add: reconcile_state_def Let_def)
  from new_pages_prefix [OF escalate_pages [OF this]] show ?thesis by simp
qed

lemma resolve_step_pages:
  assumes "resolve_step env st dw now c db = Inr (db', ds)"
  shows "new_pages ds db db'"
proof -
  have "page_transition_of env st dw (resolved_incident now c) Page_Resolved now
      (put_incident (resolved_incident now c) db) = Inr (db', ds)"
    using assms by (simp add: resolve_step_def Let_def)
  from new_pages_prefix [OF page_transition_pages [OF this]] show ?thesis by simp
qed

lemma each_step_pages:
  assumes "each_step f xs db = Inr (db', ds)" and "\<And>x d d' es. f x d = Inr (d', es) \<Longrightarrow> new_pages es d d'"
  shows "new_pages ds db db'"
  using assms(1)
proof (induction xs arbitrary: db ds)
  case (Cons x xs)
  from Cons.prems obtain d1 es fs where "f x db = Inr (d1, es)" "each_step f xs d1 = Inr (db', fs)" "ds = es @ fs"
    by (auto simp: bind_res_eq_Inr)
  with Cons.IH assms(2) new_pages_trans show ?case by blast
qed (simp add: no_new_pages)

lemma reconcile_pages:
  assumes "reconcile_operational_incidents env st dw locked sn alerts es now db = Inr (db', ds)"
  shows "new_pages ds db db'"
proof -
  from assms obtain active current gone db1 opened resolved where
    1: "each_step (reconcile_state env st dw active now) current db = Inr (db1, opened)"
    and 2: "each_step (resolve_step env st dw now) gone db1 = Inr (db', resolved)" and ds: "ds = opened @ resolved"
    unfolding reconcile_operational_incidents_def Let_def by (auto simp: bind_res_eq_Inr)
  from new_pages_trans [OF each_step_pages [OF 1 reconcile_state_pages] each_step_pages [OF 2 resolve_step_pages]]
  show ?thesis by (simp add: ds)
qed

lemma capture_pages:
  assumes run: "capture_operational_reliability_cycle env st collector samples locked dw clock db = Inr (db', r)"
  shows "new_pages (cy_deliveries r) db db'"
proof (cases "find (\<lambda>s. sn_bucket s = bucket_start (whole_seconds clock) (os_interval st)) (od_snapshots db)")
  case (Some s)
  with run show ?thesis
    by (auto simp: capture_operational_reliability_cycle_def Let_def no_new_pages split: if_splits)
next
  case None
  let ?now = "whole_seconds clock"
  let ?sn = "new_snapshot env st (dr_snapshot dw) ?now samples (derive_alerts samples) (subject_id collector)"
  let ?del = "delete_snapshots (expired_snapshots locked ?now db) db"
  from run None obtain es db1 db2 ds where
    1: "add_snapshot env ?sn samples ?del = Inr db1" and 2: "add_evaluations es db1 = Inr db2"
    and 3: "reconcile_operational_incidents env st dw locked (sn_id ?sn) (derive_alerts samples) es ?now db2 = Inr (db', ds)"
    and r: "cy_deliveries r = ds"
    unfolding capture_operational_reliability_cycle_def Let_def by (auto simp: bind_res_eq_Inr split: if_splits)
  from new_pages_prefix [OF reconcile_pages [OF 3]] show ?thesis
    by (simp add: r add_snapshot_ok(1) [OF 1] add_evaluations_ok(1) [OF 2])
qed

lemma test_page_pages:
  assumes "create_operational_test_delivery env st signer severity reason key dw clock db = Inr (db', d)"
  shows "new_pages [dl_id d] db db'"
proof -
  from assms obtain c db1 where a: "add_incident c db = Inr db1"
    and p: "create_delivery (oe_paging env) st (dr_delivery dw (ic_id c)) c Page_Test (whole_seconds clock) db1 = Inr (db', d)"
    by (auto simp: create_operational_test_delivery_def Let_def bind_res_eq_Inr split: if_splits)
  show ?thesis
    by (rule new_pages_prefix [OF create_delivery_pages [OF p]]) (use a in \<open>simp_all add: add_incident_ok\<close>)
qed

lemma incident_action_pages:
  assumes "record_operational_incident_action env i signer verb reason assignee dw clock db = Inr (db', a)"
  shows "new_pages [] db db'"
proof -
  from assms obtain c' where a: "append_action env (dr_action dw i) i verb reason assignee (identity_to_json signer)
      (identity_verified signer) (whole_seconds clock) (put_incident c' db) = Inr (db', a)"
    by (auto simp: record_operational_incident_action_def Let_def bind_res_eq_Inr split: if_splits option.splits)
  then show ?thesis by (simp add: no_new_pages append_action_ok(1) [OF a])
qed

text \<open>A delivery row outlives the commands that only add pages.\<close>

lemma new_pages_find:
  "new_pages ids db db' \<Longrightarrow> row_find dl_id i (od_deliveries db) = Some d \<Longrightarrow> row_find dl_id i (od_deliveries db') = Some d"
  by (auto simp: new_pages_def row_find_append)

lemma new_pages_row:
  assumes "new_pages ids db db'" and "i \<in> set ids"
  shows "\<exists>d. row_find dl_id i (od_deliveries db') = Some d \<and> dl_job_id d = None \<and> dl_status d = Dl_Queued \<and>
    dl_attempts d = 0 \<and> i \<notin> dl_id ` set (od_deliveries db)"
proof -
  from assms(1) obtain new where new: "od_deliveries db' = od_deliveries db @ new" "map dl_id new = ids"
    "\<forall>d \<in> set new. dl_id d \<notin> dl_id ` set (od_deliveries db) \<and> dl_job_id d = None \<and> dl_status d = Dl_Queued \<and>
      dl_attempts d = 0"
    unfolding new_pages_def by blast
  then have i: "i \<in> dl_id ` set new" using assms(2) by auto
  then have "row_find dl_id i new \<noteq> None" by (simp add: row_find_None)
  then obtain d where d: "row_find dl_id i new = Some d" by blast
  from row_find_SomeD [OF d] have "d \<in> set new" "dl_id d = i" by auto
  moreover from this new(3) have "i \<notin> dl_id ` set (od_deliveries db)" by blast
  moreover from this have "row_find dl_id i (od_deliveries db) = None" by (simp add: row_find_None)
  then have "row_find dl_id i (od_deliveries db') = Some d" using d by (simp add: new(1) row_find_append)
  ultimately show ?thesis using new(3) by blast
qed

section \<open>Runs of commands\<close>

inductive ic_edge :: "incident_status \<Rightarrow> incident_status \<Rightarrow> bool" where
  resolve: "ic_edge Ic_Open Ic_Resolved"

definition incident_state :: "uuid \<Rightarrow> ops_db \<Rightarrow> incident_status option" where
  "incident_state i db = map_option ic_status (row_find ic_id i (od_incidents db))"

lemma effect_state:
  assumes "ops_effect db db'" and "incident_state i db = Some a"
  shows "\<exists>b. incident_state i db' = Some b \<and> ic_edge\<^sup>*\<^sup>* a b"
proof -
  from assms(2) obtain c where c: "row_find ic_id i (od_incidents db) = Some c" "ic_status c = a"
    by (auto simp: incident_state_def)
  from assms(1) have "extends incident_moves (od_incidents db) (od_incidents db')" by (simp add: ops_effect_def)
  from extends_find [OF this incident_moves_id c(1)] obtain c' where
    c': "row_find ic_id i (od_incidents db') = Some c'" "incident_moves c c'" by blast
  have "ic_edge\<^sup>*\<^sup>* a (ic_status c')"
    using c'(2) c(2) by (cases a; cases "ic_status c'") (auto simp: incident_moves_def intro: ic_edge.resolve)
  with c'(1) show ?thesis by (simp add: incident_state_def)
qed

interpretation ops: lifecycle "ops_step env st" "\<lambda>_ _. chooses env" "ops_inv env" incident_state ic_edge for env st
  by unfold_locales (blast dest: ops_step_keeps effect_state)+

interpretation ops_audit: audited_system "ops_step env st" "\<lambda>_ _. chooses env" "ops_inv env" od_actions for env st
  by unfold_locales (auto dest: ops_step_keeps simp: ops_effect_def)

lemma chooses_admissible: "chooses env \<Longrightarrow> admissible_run step (\<lambda>_ _. chooses env) cs db"
  by (induction cs arbitrary: db) auto

lemma ops_run_effect:
  assumes "chooses env" and "ops_inv env db"
  shows "ops_effect db (run_commands (ops_step env st) cs db)"
  using assms(2)
proof (induction cs arbitrary: db)
  case (Cons c cs)
  show ?case
  proof (cases "ops_step env st c db")
    case (Inr d)
    from ops_step_keeps [OF assms(1) Inr Cons.prems] Cons.IH [of d] show ?thesis by (auto simp: Inr intro: ops_effect_trans)
  qed (simp add: Cons)
qed simp

text \<open>
  C31. The tables of operational reliability stay well formed. From any well-formed state, whatever sequence of
  capture cycles, test pages, operator actions and delivery attempts runs, with whatever rows locked: identifiers and
  snapshot buckets are unique, incidents and SLO rows respect the constraints of their tables, an alert key has at most one open
  incident, links point at rows that exist, a page belongs to a version of its incident, and every
  acknowledgement and escalation of an incident is on record.
\<close>

theorem ops_tables_well_formed:
  assumes "chooses env" and "ops_inv env db"
  shows "ops_inv env (run_commands (ops_step env st) cs db)"
  by (rule ops.run_inv [OF assms(2) chooses_admissible [OF assms(1)]])

text \<open>
  C25. The action log is an audit trail. In every state a run reaches, the log extends the one it started
  from; each of its actions carries the hash of its own contents, was made by a verified operator with an
  administrator role or is an escalation by the controller, and names the hash of an earlier action of the same
  incident exactly when there is one.
\<close>

theorem action_log_is_chained:
  assumes env: "chooses env" and inv: "ops_inv env db"
  shows "prefix (od_actions db) (od_actions (run_commands (ops_step env st) cs db)) \<and>
    (\<forall>pre a post. od_actions (run_commands (ops_step env st) cs db) = pre @ a # post \<longrightarrow>
       ia_hash a = stable_hash (oe_sha env) (action_canonical a) \<and>
       (if ia_verb a = Act_Escalated then ia_actor a = CONTROLLER_IDENTITY
        else \<exists>sg. can_administer sg \<and> ia_actor a = identity_to_json sg) \<and>
       (case ia_previous_hash a of
          None \<Rightarrow> \<forall>b \<in> set pre. ia_incident_id b \<noteq> ia_incident_id a
        | Some h \<Rightarrow> \<exists>b \<in> set pre. ia_incident_id b = ia_incident_id a \<and> ia_hash b = h))"
proof -
  let ?db = "run_commands (ops_step env st) cs db"
  note adm = chooses_admissible [OF env]
  have "actions_ok env ?db" using ops.run_inv [OF inv adm] by (simp add: ops_inv_def)
  then show ?thesis
    using ops_audit.run_log [OF inv adm]
    unfolding actions_ok_def action_ok_def author_ok_def chained_def links_back_def by auto
qed


text \<open>
  C13. A capture cycle refines the abstract step on the set of open alert keys. After a cycle that takes
  a snapshot the open incidents are exactly those of the alerts derived from its samples and of the SLOs it found
  breached, one evaluation per SLO, together with open incidents another transaction held; the latter
  have keys that fire no longer. A cycle in a bucket that already has a snapshot changes nothing.
\<close>

theorem capture_follows_alerts:
  assumes "capture_operational_reliability_cycle env st collector samples locked dw clock db = Inr (db', r)"
    and "chooses env" and "ops_inv env db"
  shows "if cy_created r
    then open_keys (od_incidents db') = oa_key ` set (derive_alerts samples) \<union> breached_keys (new_evaluations db' r) \<union>
           locked_open_keys locked (od_incidents db) \<and>
         (oa_key ` set (derive_alerts samples) \<union> breached_keys (new_evaluations db' r)) \<inter>
           locked_open_keys locked (od_incidents db) = {} \<and>
         map sl_key (new_evaluations db' r) = map sd_key (slo_definitions st)
    else db' = db"
  using capture_run [OF assms] by simp

text \<open>
  A lock on an incident makes a capture fail. The reconciliation skips locked rows, so an open
  incident that an operator's transaction holds while its alert still fires is not found, the insertion of a
  second open incident violates the unique active key, and the whole cycle is lost with its snapshot.
\<close>

theorem locked_incident_fails_capture:
  assumes env: "chooses env" and inv: "ops_inv env db"
    and c: "c \<in> set (od_incidents db)" "ic_status c = Ic_Open" "ic_id c \<in> set locked"
    and firing: "ic_alert_key c \<in> oa_key ` set (derive_alerts samples)"
    and due: "\<forall>s \<in> set (od_snapshots db). sn_bucket s \<noteq> bucket_start (whole_seconds clock) (os_interval st)"
  shows "\<exists>e. capture_operational_reliability_cycle env st collector samples locked dw clock db = Inl e"
proof (cases "capture_operational_reliability_cycle env st collector samples locked dw clock db")
  case (Inr p)
  obtain db' r where p: "p = (db', r)" by fastforce
  have none: "find (\<lambda>s. sn_bucket s = bucket_start (whole_seconds clock) (os_interval st)) (od_snapshots db) = None"
    using due by (auto simp: find_None_iff)
  have "cy_created r"
    using Inr none by (auto simp: p capture_operational_reliability_cycle_def Let_def bind_res_eq_Inr split: if_splits)
  then have "oa_key ` set (derive_alerts samples) \<inter> locked_open_keys locked (od_incidents db) = {}"
    using capture_run [OF Inr [unfolded p] env inv] by auto
  moreover have "ic_alert_key c \<in> locked_open_keys locked (od_incidents db)"
    using c by (auto simp: locked_open_keys_def open_keys_def)
  ultimately show ?thesis using firing by blast
qed simp

end
