(* ===== verification/Job_Handlers_Correct.thy ===== *)
theory Job_Handlers_Correct
  imports Job_Handlers Agent_Jobs_Correct Agent_Control_Correct Incident_Runs
begin

text \<open>
  Properties of the whole: queue, operational reliability and control plane under interleaved commands and
  job executions that may stop between two commits. Every reachable state is consistent, a paging delivery
  is settled by the last attempt of its job, and a page whose worker dies before the job is enqueued is lost.
\<close>

section \<open>The system\<close>

datatype system_command =
    Sys_Enqueue job_request instant uuid
  | Sys_Enqueue_Resume uuid int signer_identity instant uuid
  | Sys_Enqueue_Delivery uuid signer_identity instant uuid
  | Sys_Claim string int instant "uuid list" string
  | Sys_Heartbeat uuid string int instant
  | Sys_Requeue uuid string signer_identity "int option" instant
  | Sys_Start uuid string
  | Sys_Run uuid handler_draw
  | Sys_Settle uuid job_outcome instant
  | Sys_Capture signer_identity "metric_sample list" "uuid list" ops_draw instant
  | Sys_Test_Page signer_identity severity string string ops_draw instant
  | Sys_Incident_Action uuid signer_identity action_verb string "string option" ops_draw instant
  | Sys_Control control_command

abbreviation on_queue :: "(queue_db \<Rightarrow> job_error + queue_db \<times> 'r) \<Rightarrow> system_db \<Rightarrow> job_failure + system_db" where
  "on_queue f s \<equiv> map_sum Fail_Queue (\<lambda>(q, _). s\<lparr>sy_queue := q\<rparr>) (f (sy_queue s))"

abbreviation on_ops :: "(ops_db \<Rightarrow> ops_error + ops_db) \<Rightarrow> system_db \<Rightarrow> job_failure + system_db" where
  "on_ops f s \<equiv> map_sum Fail_Ops (\<lambda>db. s\<lparr>sy_ops := db\<rparr>) (f (sy_ops s))"

fun sys_step :: "handler_env \<Rightarrow> system_command \<Rightarrow> system_db \<Rightarrow> job_failure + system_db" where
  "sys_step env (Sys_Enqueue r now i) s = on_queue (\<lambda>q. enqueue_job r now i q q) s"
| "sys_step env (Sys_Enqueue_Resume i v signer now k) s =
     map_sum id fst (enqueue_checkpoint_resume_job i v signer now k s)"
| "sys_step env (Sys_Enqueue_Delivery i signer now k) s =
     Inr (fst (enqueue_operational_alert_delivery_job i signer now k s))"
| "sys_step env (Sys_Claim w l now locked token) s = on_queue (claim_agent_job w l now locked token) s"
| "sys_step env (Sys_Heartbeat i token l now) s = on_queue (heartbeat_agent_job i token l now) s"
| "sys_step env (Sys_Requeue i reason signer m now) s = on_queue (requeue_agent_job i reason signer m now) s"
| "sys_step env (Sys_Start i token) s = map_sum Fail_Queue fst (start_job i token s)"
| "sys_step env (Sys_Run i dw) s =
     (case job_find i (q_jobs (sy_queue s)) of
        None \<Rightarrow> Inl (Fail_Queue Job_Not_Found)
      | Some j \<Rightarrow> Inr (fst (execute_job env dw j s)))"
| "sys_step env (Sys_Settle i outcome now) s = map_sum Fail_Queue fst (settle_job env i outcome now s)"
| "sys_step env (Sys_Capture collector samples locked dw clock) s =
     on_ops (ops_step (hd_ops env) (hd_settings env) (Capture_Cycle collector samples locked dw clock)) s"
| "sys_step env (Sys_Test_Page signer severity reason key dw clock) s =
     on_ops (ops_step (hd_ops env) (hd_settings env) (Test_Page signer severity reason key dw clock)) s"
| "sys_step env (Sys_Incident_Action i signer verb reason assignee dw clock) s =
     on_ops (ops_step (hd_ops env) (hd_settings env) (Incident_Action i signer verb reason assignee dw clock)) s"
| "sys_step env (Sys_Control c) s = Inr (s\<lparr>sy_control := control_run (hd_control env) c (sy_control s)\<rparr>)"

definition system_inv :: "handler_env \<Rightarrow> system_db \<Rightarrow> bool" where
  "system_inv env s \<longleftrightarrow> queue_inv (sy_queue s) \<and> ops_inv (hd_ops env) (sy_ops s) \<and> control_inv (sy_control s)"

text \<open>What the environment owes: lease tokens are fresh, and the database picks one of the rows a query asks for.\<close>

fun sys_adm :: "handler_env \<Rightarrow> system_command \<Rightarrow> system_db \<Rightarrow> bool" where
  "sys_adm env (Sys_Claim w l now locked token) s = (fresh_token token (q_jobs (sy_queue s)) \<and> chooses (hd_ops env))"
| "sys_adm env _ s = chooses (hd_ops env)"

lemma sys_adm_chooses: "sys_adm env c s \<Longrightarrow> chooses (hd_ops env)"
  by (cases c) simp_all

section \<open>Every command keeps the invariants\<close>

lemma link_delivery_run:
  assumes "ops_inv env db" and "chooses env"
  shows "ops_inv env (link_delivery i k db)"
proof (cases "row_find dl_id i (od_deliveries db)")
  case (Some d)
  from row_find_SomeD [OF Some] have d: "d \<in> set (od_deliveries db)" ..
  show ?thesis
  proof (cases "dl_job_id d")
    case None
    let ?d = "d\<lparr>dl_job_id := Some k\<rparr>"
    have "delivery_ok d" using assms(1) d by (simp add: ops_inv_def deliveries_ok_def page_ok_def)
    then have "delivery_moves d ?d" "delivery_ok ?d"
      using None by (auto simp: delivery_moves_def delivery_ok_def incident_key_def)
    then have "ops_change env db (put_delivery ?d db)" using d by (intro ops_change.deliver)
    from ops_change_inv [OF this assms(2,1)] show ?thesis by (simp add: link_delivery_def Some None)
  qed (use assms(1) in \<open>simp add: link_delivery_def Some\<close>)
qed (use assms(1) in \<open>simp add: link_delivery_def\<close>)

lemma enqueue_same_ok: "queue_inv q \<Longrightarrow> enqueue_job r now i q q = Inr (q', j) \<Longrightarrow> queue_inv q'"
  using job_step_inv [of q "Cmd_Enqueue r now i q" undefined q'] by simp

lemma enqueue_delivery_inv:
  assumes "system_inv env s" and "chooses (hd_ops env)"
  shows "system_inv env (fst (enqueue_operational_alert_delivery_job i signer now k s))"
  using assms enqueue_same_ok link_delivery_run
  unfolding enqueue_operational_alert_delivery_job_def system_inv_def
  by (auto split: option.split sum.split)

lemma enqueue_deliveries_inv:
  "system_inv env s \<Longrightarrow> chooses (hd_ops env) \<Longrightarrow> system_inv env (fst (enqueue_deliveries signer dw ds s))"
proof (induction ds arbitrary: s)
  case (Cons d ds)
  obtain s1 res where e: "enqueue_operational_alert_delivery_job d signer (hw_clock dw) (hw_job dw d) s = (s1, res)"
    by fastforce
  then have "system_inv env s1" using enqueue_delivery_inv [OF Cons.prems, of d signer "hw_clock dw" "hw_job dw d"] by simp
  from Cons.IH [OF this Cons.prems(2)] this show ?case by (auto simp: e split: sum.split prod.split)
qed simp

lemma resume_job_inv:
  assumes "system_inv env s"
  shows "system_inv env (fst (execute_resume_job env dw j s))"
proof -
  have "control_inv (fst (resume_agent_approval_checkpoint (hd_control env) i v sg clock rw fresh (sy_control s)))"
    for i v sg clock rw fresh
    using control_run_ok [of "sy_control s" "hd_control env" "Agent_Control.Resume_Checkpoint i v sg clock rw fresh"] assms
    by (simp add: system_inv_def)
  then show ?thesis
    using assms unfolding execute_resume_job_def system_inv_def
    by (auto split: option.split sum.split prod.split) (metis fst_conv)+
qed

lemma reconciliation_job_inv:
  assumes "system_inv env s"
  shows "system_inv env (fst (execute_reconciliation_job env dw s))"
proof -
  let ?now = "whole_seconds (hw_clock dw)"
  obtain db rep where e: "reconcile_agent_approval_checkpoints ?now (sy_control s) = (db, rep)" by fastforce
  have inv: "control_inv db"
    using control_run_ok [of "sy_control s" "hd_control env" "Reconcile_Checkpoints ?now"] assms e
    by (simp add: system_inv_def)
  obtain g r where g: "reconcile_all_gate_staleness (ct_gate (hd_control env)) ?now (cn_gates db) = Inr (g, r)"
    "only_stales (cn_gates db) g"
    using reconcile_spec [of "ct_gate (hd_control env)" ?now "cn_gates db"] by blast
  have "g_evidence g = g_evidence (cn_gates db)" using g(2) by (rule stale_simps)
  then have "control_inv (db\<lparr>cn_gates := g\<rparr>)" using inv by (simp add: control_inv_def)
  with assms show ?thesis
    by (simp add: execute_reconciliation_job_def Let_def system_inv_def e g(1))
qed

lemma capture_inv:
  assumes "capture_operational_reliability_cycle env st c samples locked dw clock db = Inr (db', r)"
    and "chooses env" and "ops_inv env db"
  shows "ops_inv env db'"
  using capture_run [OF assms] ops_run_inv assms(2,3) by blast

lemma cycle_job_inv:
  assumes "system_inv env s" and "chooses (hd_ops env)"
  shows "system_inv env (fst (execute_cycle_job env dw j s))"
proof -
  have inv: "system_inv env (s\<lparr>sy_ops := db\<rparr>)" if
    "capture_operational_reliability_cycle (hd_ops env) (hd_settings env) (executor_identity j)
       (hw_samples dw) (hw_locked dw) (hw_ops dw) (hw_clock dw) (sy_ops s) = Inr (db, r)" for db r
    using assms capture_inv [OF that] by (simp add: system_inv_def)
  have enq: "system_inv env s1" if "system_inv env t" "enqueue_deliveries sg dw ds t = (s1, res)" for t sg ds s1 res
    using enqueue_deliveries_inv [OF that(1) assms(2), of sg dw ds] that(2) by simp
  show ?thesis
    unfolding execute_cycle_job_def using assms(1) inv enq
    by (auto split: option.split sum.split prod.split)
qed

lemma delivery_job_inv:
  assumes "system_inv env s" and "chooses (hd_ops env)"
  shows "system_inv env (fst (execute_delivery_job env dw j s))"
proof -
  have "ops_inv (hd_ops env) (fst (execute_operational_alert_delivery penv st i a n clock (sy_ops s)))" for penv st i a n clock
    using ops_run_inv [OF execute_run assms(2)] assms(1) by (simp add: system_inv_def)
  then show ?thesis
    using assms(1) unfolding execute_delivery_job_def system_inv_def
    by (auto split: option.split sum.split prod.split) (metis fst_conv)+
qed

lemma execute_job_inv:
  assumes "system_inv env s" and "chooses (hd_ops env)"
  shows "system_inv env (fst (execute_job env dw j s))"
  using assms resume_job_inv reconciliation_job_inv cycle_job_inv delivery_job_inv
  by (simp add: execute_job_def split: job_type.split)

lemma enqueue_resume_cases:
  assumes "enqueue_checkpoint_resume_job i v signer now k s = Inr (s', j)"
  obtains "s' = s"
  | r q where "enqueue_job r now k (sy_queue s) (sy_queue s) = Inr (q, j)" "rq_kind r = Agent_Jobs.Resume_Checkpoint"
      "s' = s\<lparr>sy_queue := q\<rparr>"
proof -
  have "s' = s \<or> (\<exists>c q. enqueue_job (resume_request c v signer) now k (sy_queue s) (sy_queue s) = Inr (q, j) \<and>
      s' = s\<lparr>sy_queue := q\<rparr>)"
    using assms unfolding enqueue_checkpoint_resume_job_def
    by (auto split: sum.splits option.splits if_splits prod.splits)
  moreover have "rq_kind (resume_request c v signer) = Agent_Jobs.Resume_Checkpoint" for c
    by (simp add: resume_request_def)
  ultimately show ?thesis using that by blast
qed

lemma system_inv_queue: "system_inv env s \<Longrightarrow> queue_inv q \<Longrightarrow> system_inv env (s\<lparr>sy_queue := q\<rparr>)"
  by (simp add: system_inv_def)

lemma sys_step_queue:
  assumes "on_queue f s = Inr s'" and "\<And>q r. f (sy_queue s) = Inr (q, r) \<Longrightarrow> queue_inv q" and "system_inv env s"
  shows "system_inv env s'"
  using assms by (auto simp: map_sum_def intro: system_inv_queue split: sum.splits prod.splits)

lemma sys_step_ops:
  assumes run: "on_ops (ops_step (hd_ops env) st c) s = Inr s'" and inv: "system_inv env s" and ch: "chooses (hd_ops env)"
  shows "system_inv env s'"
proof -
  from run obtain db where db: "ops_step (hd_ops env) st c (sy_ops s) = Inr db" "s' = s\<lparr>sy_ops := db\<rparr>"
    by (cases "ops_step (hd_ops env) st c (sy_ops s)") auto
  from ops_step_keeps [OF ch db(1)] inv show ?thesis by (simp add: system_inv_def db(2))
qed

lemma sys_step_inv:
  assumes inv: "system_inv env s" and adm: "sys_adm env c s" and run: "sys_step env c s = Inr s'"
  shows "system_inv env s'"
proof -
  note ch = sys_adm_chooses [OF adm]
  have q: "queue_inv (sy_queue s)" using inv by (simp add: system_inv_def)
  show ?thesis
  proof (cases c)
    case (Sys_Enqueue r now i)
    with run show ?thesis by (intro sys_step_queue [OF _ _ inv]) (auto intro: enqueue_same_ok [OF q])
  next
    case (Sys_Claim w l now locked token)
    with run adm show ?thesis by (intro sys_step_queue [OF _ _ inv]) (auto intro: claim_ok [OF q])
  next
    case (Sys_Heartbeat i token l now)
    with run show ?thesis by (intro sys_step_queue [OF _ _ inv]) (auto intro: heartbeat_ok [OF q])
  next
    case (Sys_Requeue i reason signer m now)
    with run show ?thesis by (intro sys_step_queue [OF _ _ inv]) (auto intro: requeue_ok [OF q])
  next
    case (Sys_Enqueue_Resume i v signer now k)
    with run obtain j where "enqueue_checkpoint_resume_job i v signer now k s = Inr (s', j)"
      by (auto simp: map_sum_def split: sum.splits)
    then show ?thesis
      by (cases rule: enqueue_resume_cases) (use inv system_inv_queue [OF inv enqueue_same_ok [OF q]] in auto)
  next
    case (Sys_Start i token)
    with run inv show ?thesis
      by (auto simp: start_job_def map_sum_def bind_res_eq_Inr split: sum.splits intro!: system_inv_queue dest: begin_ok [OF q])
  next
    case (Sys_Settle i outcome now)
    with run inv show ?thesis
      by (auto simp: settle_job_def map_sum_def bind_res_eq_Inr split: sum.splits intro!: system_inv_queue dest: finish_ok [OF q])
  next
    case (Sys_Control c)
    with run inv control_run_ok [of "sy_control s"] show ?thesis by (auto simp: system_inv_def)
  next
    case (Sys_Capture collector samples locked dw clock)
    from run [unfolded this sys_step.simps] inv ch show ?thesis by (rule sys_step_ops)
  next
    case (Sys_Test_Page signer severity reason key dw clock)
    from run [unfolded this sys_step.simps] inv ch show ?thesis by (rule sys_step_ops)
  next
    case (Sys_Incident_Action i signer verb reason assignee dw clock)
    from run [unfolded this sys_step.simps] inv ch show ?thesis by (rule sys_step_ops)
  qed (use run inv ch enqueue_delivery_inv execute_job_inv in \<open>auto split: option.splits\<close>)
qed

interpretation system: guarded_system "sys_step env" "sys_adm env" "system_inv env" for env
  by unfold_locales (rule sys_step_inv)

text \<open>
  C3. The whole system stays consistent. Whatever commands run, in whatever order, from any number of
  workers whose jobs stop between any two commits, with job outcomes of any kind: the job queue, the tables of
  operational reliability and the control plane keep their invariants, given fresh lease tokens.
\<close>

theorem system_stays_consistent:
  assumes "system_inv env s" and "admissible_run (sys_step env) (sys_adm env) cs s"
  shows "system_inv env (run_commands (sys_step env) cs s)"
  by (rule system.run_inv [OF assms])

section \<open>The end of a paging delivery\<close>

definition delivers :: "uuid \<Rightarrow> job \<Rightarrow> bool" where
  "delivers i j \<longleftrightarrow> job_kind j = Operational_Alert_Delivery \<and> payload_uuid (job_payload j) ''delivery_id'' = Some i"

text \<open>A job that a worker holds under the token is started, run and settled.\<close>

lemma process_delivery:
  assumes j: "job_find jid (q_jobs (sy_queue s)) = Some j" and held: "job_lease_token j = Some token" "job_status j = Leased"
    and d: "delivers i j"
    and run: "execute_operational_alert_delivery (oe_paging (hd_ops env)) (hd_settings env) i
      (job_attempt_count j) (job_max_attempts j) (hw_clock dw) (sy_ops s) = (db, res)"
    and fin: "finish_agent_job (hd_digest env) jid
      (outcome_of env (map_sum Fail_Ops (\<lambda>(x, replay). delivery_result x replay) res)) now
      ((sy_queue s)\<lparr>q_jobs := job_put (j\<lparr>job_status := Running\<rparr>) (q_jobs (sy_queue s))\<rparr>) = Inr (q, j')"
  shows "process_system_job env dw jid token now s = (s\<lparr>sy_queue := q, sy_ops := db\<rparr>, Inr j')"
  using assms
  by (cases res) (auto simp: process_system_job_def start_job_def begin_agent_job_def settle_job_def execute_job_def
      execute_delivery_job_def delivers_def Let_def)

lemma running_find:
  assumes "job_find jid (q_jobs q) = Some j"
  shows "job_find jid (job_put (j\<lparr>job_status := Running\<rparr>) (q_jobs q)) = Some (j\<lparr>job_status := Running\<rparr>)"
  using assms row_find_SomeD [OF assms] by (auto simp: row_find_put)

lemma finish_result:
  assumes "job_find jid (q_jobs q) = Some j"
  shows "\<exists>q' j'. finish_agent_job dg jid (Outcome_Result res) now q = Inr (q', j') \<and> job_status j' = Completed"
  using assms by (simp add: finish_agent_job_def complete_job_def)

lemma finish_failure:
  assumes "job_find jid (q_jobs q) = Some j" and "b \<or> job_max_attempts j \<le> job_attempt_count j"
  shows "\<exists>q' j'. finish_agent_job dg jid (if b then Outcome_Domain_Error m else Outcome_Error m) now q = Inr (q', j') \<and>
    job_status j' = Failed"
  using assms by (auto simp: finish_agent_job_def fail_job_def mark_dead_letter_def Let_def)

lemma put_delivery_find:
  assumes "row_find dl_id i (od_deliveries db) = Some d" and "dl_id d' = i"
  shows "row_find dl_id i (od_deliveries (put_delivery d' db)) = Some d'"
proof -
  from row_find_SomeD [OF assms(1)] have "dl_id d' \<in> dl_id ` set (od_deliveries db)" using assms(2) by (metis image_eqI)
  from row_find_put_same [of dl_id d', OF this] show ?thesis by (simp add: assms(2))
qed


text \<open>
  A page the destination refuses is forgotten. If an attempt before the last is answered with a permanent
  client error (4xx other than 408 and 429), the job is dead-lettered at once, as such errors are not
  retried, but the delivery is left queued: it never counts as failed, so no alert reports it.
\<close>

theorem refused_page_stays_queued:
  assumes j: "job_find jid (q_jobs (sy_queue s)) = Some j" "job_lease_token j = Some token" "job_status j = Leased"
    and page: "delivers i j" "row_find dl_id i (od_deliveries (sy_ops s)) = Some d" "dl_status d \<noteq> Dl_Delivered"
    and more: "job_attempt_count j < job_max_attempts j"
    and st: "st = hd_settings env" "penv = oe_paging (hd_ops env)" "os_paging_enabled st"
      "validated_endpoint penv st = Inr endpoint" "expected_provider st d = Inr provider"
      "paging_signing_secret penv st (dl_key_id d) = Inr secret" "tls_verification penv st endpoint = Inr verify"
    and answer: "pe_post penv (page_request_of penv d endpoint verify secret (whole_seconds (hw_clock dw))) =
        Response status chunks False"
      "read_chunks (os_max_response st) chunks [] = Some body" "permanent_status status"
  shows "\<exists>s' j' d'. process_system_job env dw jid token now s = (s', Inr j') \<and> job_status j' = Failed \<and>
    row_find dl_id i (od_deliveries (sy_ops s')) = Some d' \<and> dl_status d' = Dl_Queued \<and>
    dl_response_status d' = Some status"
proof -
  let ?j = "j\<lparr>job_status := Running\<rparr>"
  let ?q = "(sy_queue s)\<lparr>q_jobs := job_put ?j (q_jobs (sy_queue s))\<rparr>"
  let ?now = "whole_seconds (hw_clock dw)"
  let ?msg = "''operational paging destination returned HTTP '' @ show_int status"
  let ?d = "failed_delivery penv (job_attempt_count j) (job_max_attempts j) ?msg ?now (Some status) body False d"
  have found: "job_find jid (q_jobs ?q) = Some ?j" using running_find [OF j(1)] by simp
  have "\<not> (200 \<le> status \<and> status < 300)" using answer(3) by (simp add: permanent_status_def)
  then have "attempt_delivery penv st (job_attempt_count j) (job_max_attempts j) ?now d = (?d, Inl (Delivery_Rejected status))"
    using st(3-7) answer by (simp add: attempt_delivery_def page_outcome_def Let_def)
  then have run: "execute_operational_alert_delivery (oe_paging (hd_ops env)) (hd_settings env) i (job_attempt_count j)
      (job_max_attempts j) (hw_clock dw) (sy_ops s) = (put_delivery ?d (sy_ops s), Inl (Delivery_Rejected status))"
    using st(1,2) page(2,3) by (simp add: execute_operational_alert_delivery_def)
  from finish_failure [OF found, of True] obtain q' j' where
    f: "finish_agent_job (hd_digest env) jid (outcome_of env (Inl (Fail_Ops (Delivery_Rejected status)))) now ?q = Inr (q', j')"
      "job_status j' = Failed" by (fastforce simp: outcome_of_def)
  have "process_system_job env dw jid token now s = (s\<lparr>sy_queue := q', sy_ops := put_delivery ?d (sy_ops s)\<rparr>, Inr j')"
    by (rule process_delivery [OF j page(1) run]) (simp add: f(1))
  moreover have "dl_id ?d = i" "dl_status ?d = Dl_Queued" "dl_response_status ?d = Some status"
    using more row_find_SomeD [OF page(2)] by (simp_all add: failed_delivery_def)
  ultimately show ?thesis using f(2) put_delivery_find [OF page(2)] by auto
qed

section \<open>Pages without a job\<close>

definition same_work :: "job list \<Rightarrow> job list \<Rightarrow> bool" where
  "same_work js js' \<longleftrightarrow> (\<forall>j' \<in> set js'. \<exists>j \<in> set js. job_kind j' = job_kind j \<and> job_payload j' = job_payload j)"

lemma same_work_refl [simp]: "same_work js js"
  by (auto simp: same_work_def)

lemma same_work_put:
  assumes "job_find i js = Some j" and "job_kind j' = job_kind j" and "job_payload j' = job_payload j"
  shows "same_work js (job_put j' js)"
  using assms set_row_put_subset [of job_id j' js] row_find_SomeD [OF assms(1)] unfolding same_work_def by blast

lemma same_work_trans: "same_work a b \<Longrightarrow> same_work b c \<Longrightarrow> same_work a c"
  unfolding same_work_def by metis

lemma claim_same_work:
  assumes "claim_agent_job w l now locked t q = Inr (q', r)"
  shows "same_work (q_jobs q) (q_jobs q')"
proof -
  let ?js = "recover_expired_leases now locked (q_jobs q)"
  have rec: "same_work (q_jobs q) ?js"
    by (auto simp: same_work_def recover_expired_leases_def recover_expired_lease_def mark_dead_letter_def Let_def)
  from assms show ?thesis
  proof (cases rule: claim_cases)
    case none
    with rec show ?thesis by simp
  next
    case (some j)
    have "same_work ?js (job_put (lease_job (strip w) l now t j) ?js)"
      using set_row_put_subset [of job_id "lease_job (strip w) l now t j" ?js] some(3)
      by (fastforce simp: same_work_def lease_job_def)
    with same_work_trans [OF rec] show ?thesis by (simp add: some(2))
  qed
qed

lemma queue_same_work:
  "heartbeat_agent_job i t l now q = Inr (q', r) \<Longrightarrow> same_work (q_jobs q) (q_jobs q')"
  "requeue_agent_job i reason signer m now q = Inr (q', r) \<Longrightarrow> same_work (q_jobs q) (q_jobs q')"
  "begin_agent_job i t q = Inr (q', r) \<Longrightarrow> same_work (q_jobs q) (q_jobs q')"
  by (auto simp: heartbeat_agent_job_def requeue_agent_job_def requeued_job_def begin_agent_job_def Let_def
      split: option.splits if_splits intro!: same_work_put)

lemma finish_same_work:
  "finish_agent_job dg i out now q = Inr (q', r) \<Longrightarrow> same_work (q_jobs q) (q_jobs q')"
  by (auto simp: finish_agent_job_def complete_job_def fail_job_def mark_dead_letter_def Let_def
      split: option.splits if_splits job_outcome.splits intro!: same_work_put)

text \<open>No job would deliver the page, whose row is \<open>d\<close>.\<close>

definition jobless :: "uuid \<Rightarrow> delivery \<Rightarrow> system_db \<Rightarrow> bool" where
  "jobless i d s \<longleftrightarrow> row_find dl_id i (od_deliveries (sy_ops s)) = Some d \<and> (\<forall>j \<in> set (q_jobs (sy_queue s)). \<not> delivers i j)"

lemma jobless_queue: "jobless i d s \<Longrightarrow> same_work (q_jobs (sy_queue s)) (q_jobs q) \<Longrightarrow> jobless i d (s\<lparr>sy_queue := q\<rparr>)"
  unfolding jobless_def same_work_def delivers_def by fastforce

lemma jobless_pages: "jobless i d s \<Longrightarrow> new_pages ids (sy_ops s) db \<Longrightarrow> jobless i d (s\<lparr>sy_ops := db\<rparr>)"
  by (simp add: jobless_def new_pages_find)

lemma enqueue_job_jobs:
  "enqueue_job r now k q q = Inr (q', j) \<Longrightarrow> set (q_jobs q') \<subseteq> insert (new_job r now k) (set (q_jobs q))"
  by (auto simp: enqueue_job_def split: option.splits if_splits)

lemma jobless_enqueue:
  assumes "jobless i d s" and "enqueue_job r now k (sy_queue s) (sy_queue s) = Inr (q, j)" and "\<not> delivers i (new_job r now k)"
  shows "jobless i d (s\<lparr>sy_queue := q\<rparr>)"
  using assms(1,3) enqueue_job_jobs [OF assms(2)] by (auto simp: jobless_def)

lemma jobless_enqueue_delivery:
  assumes s: "jobless i d s" and other: "k \<noteq> i"
  shows "jobless i d (fst (enqueue_operational_alert_delivery_job k signer now n s))"
proof -
  have "row_find dl_id i (od_deliveries (link_delivery k m db)) = row_find dl_id i (od_deliveries db)" for m db
  proof (cases "row_find dl_id k (od_deliveries db)")
    case (Some x)
    then have "dl_id x = k" using row_find_SomeD [OF Some] by simp
    with Some other show ?thesis by (simp add: link_delivery_def row_find_put_other)
  qed (simp add: link_delivery_def)
  note link = this
  have new: "\<not> delivers i (new_job (delivery_request k signer) now n)"
    using other by (simp add: delivers_def new_job_def delivery_request_def plain_request_def payload_uuid_def jget_def)
  have queued: "jobless i d (s\<lparr>sy_queue := q, sy_ops := link_delivery k m (sy_ops s)\<rparr>)"
    if "enqueue_job (delivery_request k signer) now n (sy_queue s) (sy_queue s) = Inr (q, j)" for q j m
    using jobless_enqueue [OF s that new] by (simp add: jobless_def link)
  show ?thesis
    unfolding enqueue_operational_alert_delivery_job_def
    by (simp add: s split: option.split sum.split prod.split) (use queued in blast)
qed

lemma jobless_enqueue_deliveries:
  "jobless i d s \<Longrightarrow> i \<notin> set ds \<Longrightarrow> jobless i d (fst (enqueue_deliveries signer dw ds s))"
proof (induction ds arbitrary: s)
  case (Cons k ds)
  obtain s1 res where e: "enqueue_operational_alert_delivery_job k signer (hw_clock dw) (hw_job dw k) s = (s1, res)"
    by fastforce
  then have "jobless i d s1"
    using jobless_enqueue_delivery [OF Cons.prems(1), of k signer "hw_clock dw" "hw_job dw k"] Cons.prems(2) by auto
  from Cons.IH [OF this] this Cons.prems(2) show ?case by (auto simp: e split: sum.split prod.split)
qed simp

lemma execute_delivery_other:
  assumes "k \<noteq> i"
  shows "row_find dl_id i (od_deliveries (fst (execute_operational_alert_delivery penv st k a n clock db))) =
    row_find dl_id i (od_deliveries db)"
proof (cases "row_find dl_id k (od_deliveries db)")
  case (Some x)
  obtain x' res where at: "attempt_delivery penv st a n (whole_seconds clock) x = (x', res)" by fastforce
  have "dl_id x' = dl_id x"
    using at by (cases rule: attempt_cases [of penv st a n "whole_seconds clock" x])
      (auto simp: failed_delivery_def delivered_def Let_def split: option.splits)
  moreover have "dl_id x = k" using row_find_SomeD [OF Some] by simp
  ultimately have "row_find dl_id i (od_deliveries (put_delivery x' db)) = row_find dl_id i (od_deliveries db)"
    using assms by (simp add: row_find_put_other)
  then show ?thesis by (simp add: execute_operational_alert_delivery_def Some at split: sum.split)
qed (simp add: execute_operational_alert_delivery_def)

lemma jobless_run:
  assumes s: "jobless i d s" and j: "j \<in> set (q_jobs (sy_queue s))"
  shows "jobless i d (fst (execute_job env dw j s))"
proof (cases "job_kind j")
  case Operational_Observability_Cycle
  have "jobless i d s1"
    if c: "capture_operational_reliability_cycle (hd_ops env) (hd_settings env) (executor_identity j)
        (hw_samples dw) (hw_locked dw) (hw_ops dw) (hw_clock dw) (sy_ops s) = Inr (db, r)"
      and e: "enqueue_deliveries (executor_identity j) dw (cy_deliveries r) (s\<lparr>sy_ops := db\<rparr>) = (s1, res)" for db r s1 res
  proof -
    note pages = capture_pages [OF c]
    have "i \<in> dl_id ` set (od_deliveries (sy_ops s))" using s by (auto simp: jobless_def dest!: row_find_SomeD)
    then have "i \<notin> set (cy_deliveries r)" using new_pages_row [OF pages] by blast
    from jobless_enqueue_deliveries [OF jobless_pages [OF s pages] this] e show ?thesis by (metis fst_conv)
  qed
  with s Operational_Observability_Cycle show ?thesis
    by (auto simp: execute_job_def execute_cycle_job_def split: option.split sum.split prod.split)
next
  case Operational_Alert_Delivery
  have "row_find dl_id i (od_deliveries db) = Some d"
    if x: "payload_uuid (job_payload j) ''delivery_id'' = Some k"
      and e: "execute_operational_alert_delivery penv st k a n clock (sy_ops s) = (db, res)" for k penv st a n clock db res
  proof -
    have "k \<noteq> i" using s j x Operational_Alert_Delivery by (auto simp: jobless_def delivers_def)
    from execute_delivery_other [OF this, of penv st a n clock "sy_ops s"] e s show ?thesis by (simp add: jobless_def)
  qed
  with s Operational_Alert_Delivery show ?thesis
    by (auto simp: execute_job_def execute_delivery_job_def jobless_def split: option.split sum.split prod.split)
qed (use s in \<open>auto simp: execute_job_def execute_resume_job_def execute_reconciliation_job_def jobless_def Let_def
    split: option.split sum.split prod.split\<close>)

fun enqueues_page :: "uuid \<Rightarrow> system_command \<Rightarrow> bool" where
  "enqueues_page i (Sys_Enqueue_Delivery k signer now n) = (k = i)"
| "enqueues_page i (Sys_Enqueue r now n) = (rq_kind r = Operational_Alert_Delivery)"
| "enqueues_page i _ = False"

lemma jobless_step:
  assumes s: "jobless i d s" and c: "\<not> enqueues_page i c" and run: "sys_step env c s = Inr s'"
  shows "jobless i d s'"
proof (cases c)
  case (Sys_Enqueue r now n)
  then have "\<not> delivers i (new_job r now n)" using c by (simp add: delivers_def new_job_def)
  with Sys_Enqueue run jobless_enqueue [OF s] show ?thesis by (auto simp: map_sum_def split: sum.splits)
next
  case (Sys_Enqueue_Resume k v signer now n)
  with run obtain j where e: "enqueue_checkpoint_resume_job k v signer now n s = Inr (s', j)"
    by (auto simp: map_sum_def split: sum.splits)
  then show ?thesis
  proof (cases rule: enqueue_resume_cases)
    case 1
    with s show ?thesis by simp
  next
    case (2 r q)
    have "\<not> delivers i (new_job r now n)" using 2(2) by (simp add: delivers_def new_job_def)
    from jobless_enqueue [OF s 2(1) this] show ?thesis by (simp add: 2(3))
  qed
next
  case (Sys_Run k dw)
  with run s show ?thesis by (auto split: option.splits dest!: row_find_SomeD intro: jobless_run)
next
  case (Sys_Enqueue_Delivery k signer now n)
  with run c jobless_enqueue_delivery [OF s] show ?thesis by auto
next
  case (Sys_Control x)
  with run s show ?thesis by (auto simp: jobless_def)
next
  case (Sys_Claim w l now locked token)
  with run obtain q r where "claim_agent_job w l now locked token (sy_queue s) = Inr (q, r)" "s' = s\<lparr>sy_queue := q\<rparr>"
    by (auto simp: map_sum_def split: sum.splits)
  with jobless_queue [OF s claim_same_work] show ?thesis by blast
next
  case (Sys_Heartbeat k token l now)
  with run obtain q r where "heartbeat_agent_job k token l now (sy_queue s) = Inr (q, r)" "s' = s\<lparr>sy_queue := q\<rparr>"
    by (auto simp: map_sum_def split: sum.splits)
  with jobless_queue [OF s queue_same_work(1)] show ?thesis by blast
next
  case (Sys_Requeue k reason signer m now)
  with run obtain q r where "requeue_agent_job k reason signer m now (sy_queue s) = Inr (q, r)" "s' = s\<lparr>sy_queue := q\<rparr>"
    by (auto simp: map_sum_def split: sum.splits)
  with jobless_queue [OF s queue_same_work(2)] show ?thesis by blast
next
  case (Sys_Start k token)
  with run obtain q r where "begin_agent_job k token (sy_queue s) = Inr (q, r)" "s' = s\<lparr>sy_queue := q\<rparr>"
    by (auto simp: start_job_def map_sum_def bind_res_eq_Inr split: sum.splits)
  with jobless_queue [OF s queue_same_work(3)] show ?thesis by blast
next
  case (Sys_Settle k outcome now)
  with run obtain q r where "finish_agent_job (hd_digest env) k outcome now (sy_queue s) = Inr (q, r)" "s' = s\<lparr>sy_queue := q\<rparr>"
    by (auto simp: settle_job_def map_sum_def bind_res_eq_Inr split: sum.splits)
  with jobless_queue [OF s finish_same_work] show ?thesis by blast
next
  case (Sys_Capture collector samples locked dw clock)
  with run obtain db r where "capture_operational_reliability_cycle (hd_ops env) (hd_settings env) collector samples locked
      dw clock (sy_ops s) = Inr (db, r)" "s' = s\<lparr>sy_ops := db\<rparr>"
    by (auto simp: map_sum_def split: sum.splits)
  with jobless_pages [OF s capture_pages] show ?thesis by blast
next
  case (Sys_Test_Page signer severity reason key dw clock)
  with run obtain db r where "create_operational_test_delivery (hd_ops env) (hd_settings env) signer severity reason key
      dw clock (sy_ops s) = Inr (db, r)" "s' = s\<lparr>sy_ops := db\<rparr>"
    by (auto simp: map_sum_def split: sum.splits)
  with jobless_pages [OF s test_page_pages] show ?thesis by blast
next
  case (Sys_Incident_Action k signer verb reason assignee dw clock)
  with run obtain db r where "record_operational_incident_action (hd_ops env) k signer verb reason assignee
      dw clock (sy_ops s) = Inr (db, r)" "s' = s\<lparr>sy_ops := db\<rparr>"
    by (auto simp: map_sum_def split: sum.splits)
  with jobless_pages [OF s incident_action_pages] show ?thesis by blast
qed

lemma jobless_commands:
  "jobless i d s \<Longrightarrow> \<forall>c \<in> set cs. \<not> enqueues_page i c \<Longrightarrow> jobless i d (run_commands (sys_step env) cs s)"
proof (induction cs arbitrary: s)
  case (Cons c cs)
  then show ?case by (cases "sys_step env c s") (auto dest: jobless_step)
qed simp

text \<open>
  C32. The pages of an interrupted cycle are lost. A cycle commits its deliveries before their jobs are
  enqueued; if the worker dies in between, then whatever commands run afterwards, further executions of the
  same job and of others included, each of these deliveries stays queued as it is, without a job and without
  an attempt, unless somebody enqueues it by its identifier, which no other code does.
\<close>

theorem interrupted_cycle_loses_pages:
  assumes capture: "capture_operational_reliability_cycle (hd_ops env) (hd_settings env) collector samples locked dw clock
      (sy_ops s) = Inr (db, r)"
    and page: "i \<in> set (cy_deliveries r)" and fresh: "\<forall>j \<in> set (q_jobs (sy_queue s)). \<not> delivers i j"
    and cs: "\<forall>c \<in> set cs. \<not> enqueues_page i c"
  shows "\<exists>d. row_find dl_id i (od_deliveries (sy_ops (run_commands (sys_step env) cs (s\<lparr>sy_ops := db\<rparr>)))) = Some d \<and>
    dl_status d = Dl_Queued \<and> dl_job_id d = None \<and> dl_attempts d = 0"
proof -
  from new_pages_row [OF capture_pages [OF capture] page] obtain d where d:
    "row_find dl_id i (od_deliveries db) = Some d" "dl_job_id d = None" "dl_status d = Dl_Queued" "dl_attempts d = 0"
    by blast
  then have "jobless i d (s\<lparr>sy_ops := db\<rparr>)" using fresh by (simp add: jobless_def)
  from jobless_commands [OF this cs] d(2-4) show ?thesis by (auto simp: jobless_def)
qed

end
