(* ===== verification/Reliability_Slo_Correct.thy ===== *)
theory Reliability_Slo_Correct
  imports Incidents
begin

text \<open>
  Properties of the SLO evaluations: when the rows respect the constraints of their table, what a burn
  alert says about the objective, and that samples which were not taken count against it.
\<close>

lemma bounded_settings_bounds:
  assumes "st = bounded_settings raw"
  shows "15 \<le> os_interval st" "os_interval st \<le> 3600" "300 \<le> os_window st" "os_interval st \<le> os_short_window st"
    "1 \<le> os_min_samples st" "1 / 2 \<le> os_identity_target st" "os_identity_target st \<le> 1"
    "1 / 2 \<le> os_worker_target st" "os_worker_target st \<le> 1" "1 \<le> os_warning_burn st"
    "os_warning_burn st \<le> os_critical_burn st" "60 \<le> os_escalation_seconds st" "1 \<le> os_retention_days st"
  by (simp_all add: assms bounded_settings_def Let_def)

lemma short_window_fits:
  assumes "st = bounded_settings raw"
  shows "os_short_window st \<le> os_window st \<longleftrightarrow> os_interval st \<le> os_window st"
  by (auto simp: assms bounded_settings_def Let_def clamp_def)

lemma slo_targets:
  assumes "st = bounded_settings raw" and "sd \<in> set (slo_definitions st)"
  shows "1 / 2 \<le> sd_target sd \<and> sd_target sd \<le> 1"
  using assms(2) bounded_settings_bounds [OF assms(1)] by (auto simp: slo_definitions_def)

lemma evaluation_fields:
  fixes sha st snapshot draw samples now sd
  defines "e \<equiv> slo_evaluation_row sha st snapshot draw samples now sd"
    and "long \<equiv> slo_window_stats samples sd (now - seconds (os_window st)) now (os_interval st)"
    and "short \<equiv> slo_window_stats samples sd (now - seconds (os_short_window st)) now (os_interval st)"
  shows "sl_key e = sd_key sd" "sl_snapshot_id e = snapshot" "sl_id e = draw (sd_key sd)" "sl_target e = sd_target sd"
    "sl_observed e = sw_ratio long" "sl_short_observed e = sw_ratio short" "sl_samples e = sw_samples long"
    "sl_good e = sw_good long" "sl_status e = slo_status_of st sd long" "sl_window e = os_window st"
    "sl_short_window e = os_short_window st" "sl_burn e = burn_rate (sw_ratio long) (sd_target sd)"
    "sl_short_burn e = burn_rate (sw_ratio short) (sd_target sd)"
    "sl_budget e = error_budget_remaining (sw_ratio long) (sd_target sd)"
    "sl_burn_level e = burn_alert_level st (sl_status e) (sl_burn e) (sl_short_burn e) (sw_samples short)"
  by (simp_all add: e_def long_def short_def slo_evaluation_row_def Let_def)

lemma slo_row_ok_iff:
  assumes "st = bounded_settings raw" and "sd \<in> set (slo_definitions st)"
  shows "slo_row_ok (slo_evaluation_row sha st snapshot draw samples now sd) \<longleftrightarrow> os_interval st \<le> os_window st"
proof -
  note w = window_counts [OF refl]
  have "0 < os_window st" "0 < os_short_window st" using bounded_settings_bounds [OF assms(1)] by linarith+
  moreover have "in_unit (Some (sd_target sd))" using slo_targets [OF assms] by (simp add: in_unit_def)
  ultimately show ?thesis
    using short_window_fits [OF assms(1)]
    by (simp add: slo_row_ok_def evaluation_fields w burn_rate_not_negative budget_in_unit)
      (use w(1-3) in \<open>meson order_trans\<close>)
qed

lemma burn_alert_breached:
  assumes "1 < os_warning_burn st" and "os_warning_burn st \<le> os_critical_burn st"
    and "burn_alert_level st (slo_status_of st sd w) (burn_rate (sw_ratio w) (sd_target sd)) short n \<noteq> Burn_None"
  shows "slo_status_of st sd w = Slo_Breached"
proof (cases "slo_status_of st sd w")
  case Slo_Met
  then obtain r where r: "sw_ratio w = Some r" "sd_target sd \<le> r"
    by (auto simp: slo_status_of_def split: if_splits option.splits)
  from assms(3) r(1) obtain b where b: "burn_rate (Some r) (sd_target sd) = Some b" "os_warning_burn st \<le> b"
    using assms(2) by (auto simp: burn_alert_level_def split: if_splits option.splits)
  from burn_rate_met [OF r(2) b(1)] b(2) assms(1) show ?thesis by linarith
qed (use assms(3) in \<open>auto simp: burn_alert_level_def\<close>)

lemma py_round_near: "\<bar>py_round n q - q\<bar> * 10 ^ n \<le> 1 / 2"
proof -
  have "\<bar>py_round n q - q\<bar> * 10 ^ n = \<bar>(py_round n q - q) * 10 ^ n\<bar>" by (simp add: abs_mult)
  also have "\<dots> = \<bar>of_int (round_half_even (q * 10 ^ n)) - q * 10 ^ n\<bar>"
    by (simp add: py_round_def left_diff_distrib)
  also have "\<dots> \<le> 1 / 2" by (rule round_half_even_near)
  finally show ?thesis .
qed

lemma rounded_ge: "\<bar>r - q\<bar> * 10 ^ 6 \<le> 1 / 2 \<Longrightarrow> t \<le> r \<Longrightarrow> t - 1 / 2000000 \<le> q" for r q t :: rat
  by (cases "q \<le> r") simp_all

text \<open>The number of samples counts the snapshots the interval asks for, whether they were taken or not.\<close>

lemma window_covers:
  assumes w: "w = slo_window_stats samples sd t0 t1 interval" and start: "sw_start w = Some t"
  shows "total_seconds (t1 - t) / of_int interval \<le> of_int (sw_samples w)"
proof -
  let ?q = "total_seconds (t1 - t) / of_int interval"
  have "\<lfloor>?q\<rfloor> + 1 \<le> sw_samples w"
    using start by (simp add: w slo_window_stats_def Let_def scheduled_samples_def)
  then have "of_int (\<lfloor>?q\<rfloor> + 1) \<le> (of_int (sw_samples w) :: rat)" by (simp only: of_int_le_iff)
  then show ?thesis by linarith
qed

text \<open>
  The rows of SLO evaluations and the settings. For every environment, all rows a cycle writes respect
  the ratio and count constraints of their table exactly when the bounded snapshot interval does not exceed the
  bounded window: the short window is raised to the interval after it was capped by the window, so an interval of
  up to 3600 seconds with a window from 300 seconds on makes every new capture fail.
\<close>

theorem slo_rows_admitted_iff:
  assumes st: "st = bounded_settings raw"
  shows "(list_all slo_row_ok (evaluate_slos sha st snapshot draw now db') \<longleftrightarrow> os_interval st \<le> os_window st) \<and>
    (os_window st < os_interval st \<and> identity_verified collector \<and>
     find (\<lambda>s. sn_bucket s = bucket_start (whole_seconds clock) (os_interval st)) (od_snapshots db) = None \<longrightarrow>
     capture_operational_reliability_cycle env st collector samples locked dw clock db = Inl Constraint_Violated)"
proof -
  have "slo_definitions st \<noteq> []" by (simp add: slo_definitions_def)
  then have all: "list_all slo_row_ok (evaluate_slos sha st snapshot draw now db) \<longleftrightarrow> os_interval st \<le> os_window st"
    for sha snapshot draw now db
    using slo_row_ok_iff [OF st] by (auto simp: evaluate_slos_def list_all_iff neq_Nil_conv)
  then show ?thesis
    by (simp add: capture_operational_reliability_cycle_def Let_def add_snapshot_def add_evaluations_def
        new_snapshot_def)
qed


end
