(* ===== verification/Paging_Correct.thy ===== *)
theory Paging_Correct
  imports Incidents
begin

text \<open>
  Properties of the paging configuration: what the state the overview reports means for the deliveries that
  are created and signed with it.
\<close>

lemma map_of_long:
  assumes "\<not> list_ex (\<lambda>(k, s). length s < 32) ring" and "map_of ring key = Some (secret :: string)"
  shows "\<not> length secret < 32"
  using assms(1) map_of_SomeD [OF assms(2)] by (fastforce simp: list_ex_iff)

lemma active_key_required:
  assumes "active_paging_key env st False = Inr (Some key)" and "paging_keyring env st = Inr ring"
    and "key \<in> fst ` set ring"
  shows "active_paging_key env st True = Inr (Some key)"
proof -
  obtain configured where c: "configured_active_key env st = Inr configured"
    using assms(1,2) by (auto simp: active_paging_key_def bind_res_eq_Inr)
  show ?thesis
  proof (cases "configured = []")
    case True
    then show ?thesis using assms(1,2) c by (simp add: active_paging_key_def split: list.splits prod.splits)
  next
    case False
    with assms c show ?thesis by (simp add: active_paging_key_def split: if_splits)
  qed
qed

text \<open>
  A paging configuration reported without an error works: the key that is reported active is the one new
  deliveries select, it is in the keyring with a secret of at least 32 characters, and the attempts of
  such a delivery find this secret.
\<close>

theorem sound_configuration_signs:
  assumes ok: "ps_error (paging_configuration_state env st) = None"
  shows "\<exists>key secret. ps_active_key (paging_configuration_state env st) = Some key \<and>
    active_paging_key env st True = Inr (Some key) \<and> paging_signing_secret env st key = Inr secret \<and>
    32 \<le> length secret \<and> 0 < ps_key_count (paging_configuration_state env st)"
proof -
  obtain ring active where r: "paging_keyring env st = Inr ring" "active_paging_key env st False = Inr active"
    using ok by (cases "paging_keyring env st"; cases "active_paging_key env st False")
      (auto simp: paging_configuration_state_def)
  then have s: "paging_configuration_state env st =
      (let (key, fault) = (if list_ex (\<lambda>(k, s). length s < 32) ring then (None, Some Fault_Short_Key)
             else case active of None \<Rightarrow> (None, Some Fault_No_Active)
             | Some k \<Rightarrow> if k \<notin> fst ` set ring then (None, Some Fault_Active_Absent) else (Some k, None))
       in \<lparr>ps_source = secret_source_of st, ps_key_count = length ring, ps_active_key = key, ps_error = fault\<rparr>)"
    by (simp add: paging_configuration_state_def)
  from ok obtain key where key: "active = Some key" "key \<in> fst ` set ring" and long: "\<not> list_ex (\<lambda>(k, s). length s < 32) ring"
    unfolding s by (auto simp: Let_def split: if_splits option.splits)
  from key(2) obtain secret where secret: "map_of ring key = Some secret"
    by (metis map_of_eq_None_iff option.exhaust)
  have "\<not> length secret < 32" using map_of_long [OF long secret] .
  moreover have "active_paging_key env st True = Inr (Some key)"
    using active_key_required [OF _ r(1) key(2)] r(2) key(1) by simp
  moreover have "0 < length ring" using key(2) by auto
  ultimately show ?thesis
    using secret key long by (simp add: s paging_signing_secret_def r(1))
qed

end
