(* ===== verification/Operations_Witness.thy ===== *)
theory Operations_Witness
  imports Job_Handlers_Correct Reliability_Slo_Correct Paging_Correct
begin

text \<open>
  The properties of operational reliability and of the job handlers at concrete tables: a capture cycle
  that opens an incident and pages it, an acknowledged incident, delivery jobs and their answers.
\<close>

section \<open>Sample settings, tables and environment\<close>

definition raw_settings :: ops_settings where
  "raw_settings =
     \<lparr>os_interval = 300, os_retention_days = 30, os_window = 86400, os_short_window = 3600, os_min_samples = 12,
      os_identity_target = 99 / 100, os_worker_target = 99 / 100, os_warning_burn = 6, os_critical_burn = 14,
      os_escalation_seconds = 900, os_paging_enabled = True, os_webhook_url = Some ''https://pager.test/in'',
      os_allowed_hosts = [''pager.test''], os_insecure_http = False, os_hmac_secret = None,
      os_hmac_keys = [(''k1'', ''0123456789abcdef0123456789abcdef'')], os_keys_file = None, os_active_key = None,
      os_active_key_file = None, os_ca_bundle = None, os_provider = ''webhook'', os_require_receipt = False,
      os_receipt_max_age = 3600, os_max_response = 4096\<rparr>"

abbreviation sample_settings :: ops_settings where
  "sample_settings \<equiv> bounded_settings raw_settings"

text \<open>A hash that only tells texts of different length apart.\<close>

definition length_hash :: "string \<Rightarrow> string" where
  "length_hash s = replicate (length s) (CHR ''h'')"

definition sample_paging :: paging_env where
  "sample_paging = \<lparr>pe_sha = length_hash, pe_hmac = (\<lambda>_ _. ''m''),
     pe_urlsplit = (\<lambda>_. Some \<lparr>ur_scheme = ''https'', ur_username = None, ur_password = None,
       ur_hostname = Some ''pager.test'', ur_query = [], ur_fragment = [], ur_port = None\<rparr>),
     pe_file = (\<lambda>_. None), pe_loads = (\<lambda>_. None), pe_fromiso = (\<lambda>_. None),
     pe_post = (\<lambda>_. Response 404 [''no''] False)\<rparr>"

definition sample_env :: ops_env where
  "sample_env = \<lparr>oe_paging = sample_paging, oe_choose = hd\<rparr>"

definition no_ops :: ops_db where
  "no_ops = \<lparr>od_snapshots = [], od_points = [], od_evaluations = [], od_incidents = [], od_actions = [],
     od_deliveries = []\<rparr>"

definition sample_draw :: ops_draw where
  "sample_draw = \<lparr>dr_snapshot = ''s1'', dr_evaluation = (\<lambda>k. k), dr_incident = (\<lambda>k. k), dr_action = (\<lambda>k. k),
     dr_delivery = (\<lambda>k. k)\<rparr>"

definition sample_lead :: signer_identity where
  "sample_lead = \<lparr>subject_id = ''op-1'', display_name = ''Op'', role = Some ''SRE Lead'', identity_provider = ''idp'',
     auth_source = ''jwt'', identity_verified = True, ticket_reference = None\<rparr>"

definition revoked_root :: "metric_sample list" where
  "revoked_root = [\<lparr>ms_name = ''model_atlas_trust_root_revoked'', ms_value = 1, ms_help = ''h'', ms_labels = []\<rparr>]"

lemma sample_chooses: "chooses sample_env"
  by (simp add: chooses_def sample_env_def)

lemma no_ops_inv: "ops_inv env no_ops"
  by (simp add: ops_inv_def no_ops_def incidents_ok_def deliveries_ok_def actions_ok_def snapshots_ok_def one_open_def
      chained_def)

section \<open>A capture cycle\<close>

lemma length_join: "length (join sep xs) = sum_list (map length xs) + length sep * (length xs - 1)"
  by (induction sep xs rule: join.induct) auto

lemma sum_list_sort_key: "sum_list (map f (sort_key g xs)) = sum_list (map (f :: 'a \<Rightarrow> nat) xs)"
  by (metis mset_map mset_sort sum_mset_sum_list)

lemma length_object: "length (canonical_json (JObj kvs)) =
    sum_list (map (\<lambda>(k, v). length (json_string k) + 1 + length (canonical_json v)) kvs) + 2 + (length kvs - 1)"
proof -
  have "sum_list (map (length \<circ> json_member) (sort_key fst (map (\<lambda>(k, v). (k, canonical_json v)) kvs))) =
      sum_list (map (\<lambda>(k, v). length (json_string k) + 1 + length (canonical_json v)) kvs)"
    by (simp add: sum_list_sort_key o_def json_member_def split_def)
  then show ?thesis by (simp add: length_join o_def)
qed

lemma sample_alerts: "map oa_key (derive_alerts revoked_root) = [''trust_root_revoked'']"
  by code_simp

lemma sample_settings_simps [simp]:
  "os_interval sample_settings = 300" "os_window sample_settings = 86400" "os_short_window sample_settings = 3600"
  "os_min_samples sample_settings = 12" "os_identity_target sample_settings = 99 / 100"
  "os_worker_target sample_settings = 99 / 100" "os_paging_enabled sample_settings"
  "os_retention_days sample_settings = 30" "os_webhook_url sample_settings = Some ''https://pager.test/in''"
  by (simp_all add: bounded_settings_def raw_settings_def clamp_def Let_def)

definition sample_store :: ops_db where
  "sample_store = no_ops
     \<lparr>od_snapshots := [new_snapshot sample_env sample_settings ''s1'' 0 revoked_root (derive_alerts revoked_root) ''op-1''],
      od_points := map (new_point sample_env ''s1'') revoked_root\<rparr>"

lemma sample_added:
  "add_snapshot sample_env (new_snapshot sample_env sample_settings ''s1'' 0 revoked_root (derive_alerts revoked_root) ''op-1'')
     revoked_root no_ops = Inr sample_store"
  by (simp add: add_snapshot_def no_ops_def sample_store_def revoked_root_def new_snapshot_def Let_def seconds_def)

lemma sample_values: "slo_samples sha sample_settings 0 sample_store = [(0, \<lambda>_. None)]"
  by (simp add: slo_samples_def sample_store_def no_ops_def new_snapshot_def Let_def snapshot_values_def revoked_root_def
      new_point_def slo_definitions_def seconds_def)

abbreviation empty_window :: slo_window where
  "empty_window \<equiv> \<lparr>sw_ratio = Some 0, sw_samples = 1, sw_good = 0, sw_actual = 0, sw_missing = 1, sw_start = Some 0\<rparr>"

lemma sample_stats:
  assumes "sd_metrics sd \<noteq> []" and "t \<le> 0"
  shows "slo_window_stats [(0, \<lambda>_. None)] sd t 0 300 = empty_window"
  using assms
  by (cases "sd_metrics sd") (auto simp: slo_window_stats_def in_window_def complete_values_def scheduled_samples_def
      count_where_def total_seconds_def py_round_def round_half_even_def Let_def)

abbreviation sample_row :: "slo_definition \<Rightarrow> slo_evaluation" where
  "sample_row sd \<equiv> slo_evaluation_row length_hash sample_settings ''s1'' (\<lambda>k. k) [(0, \<lambda>_. None)] 0 sd"

lemma sample_row_hash:
  assumes "sd_metrics sd \<noteq> []"
  shows "sl_hash (sample_row sd) = replicate (length (canonical_json (evaluation_canonical (sample_row sd) sd empty_window
    empty_window))) (CHR ''h'')"
  using sample_stats [OF assms]
  by (simp add: slo_evaluation_row_def Let_def stable_hash_def length_hash_def evaluation_canonical_def seconds_def)

lemma slo_text_lengths:
  "length (json_string ''identity_session_hygiene'') = 26" "length (json_string ''worker_control_plane_availability'') = 35"
  "length (json_string ''identity'') = 10" "length (json_string ''worker'') = 8"
  "length (json_string ''retention_due == 0 AND inactive_provider_token == 0'') = 53"
  "length (json_string ''worker_online >= 1 AND expired_lease_count == 0'') = 49"
  by code_simp+

lemma sample_rows_differ:
  assumes "a = slo_definitions sample_settings ! 0" and "b = slo_definitions sample_settings ! 1"
  shows "sl_hash (sample_row a) \<noteq> sl_hash (sample_row b)"
proof -
  have m: "sd_metrics a \<noteq> []" "sd_metrics b \<noteq> []" by (simp_all add: assms slo_definitions_def)
  have f: "sd_key a = ''identity_session_hygiene''" "sd_scope a = Scope_Identity" "sd_target a = 99 / 100"
    "sd_condition a = ''retention_due == 0 AND inactive_provider_token == 0''"
    "sd_key b = ''worker_control_plane_availability''" "sd_scope b = Scope_Worker" "sd_target b = 99 / 100"
    "sd_condition b = ''worker_online >= 1 AND expired_lease_count == 0''"
    by (simp_all add: assms slo_definitions_def)
  have "length (canonical_json (evaluation_canonical (sample_row a) a empty_window empty_window)) + 3 =
      length (canonical_json (evaluation_canonical (sample_row b) b empty_window empty_window))"
    unfolding evaluation_canonical_def length_object
    using slo_text_lengths
    by (simp add: slo_evaluation_row_def Let_def sample_stats m seconds_def f slo_status_of_def burn_alert_level_def)
  then show ?thesis by (simp add: sample_row_hash m)
qed

definition sample_evaluations :: "slo_evaluation list" where
  "sample_evaluations = evaluate_slos length_hash sample_settings ''s1'' (\<lambda>k. k) 0 sample_store"

lemma sample_evaluations_eq: "sample_evaluations = map sample_row (slo_definitions sample_settings)"
  by (simp add: sample_evaluations_def evaluate_slos_def sample_values)

lemma sample_breaches: "filter (\<lambda>e. sl_status e = Slo_Breached) sample_evaluations = []"
proof -
  have "sl_status (sample_row sd) = Slo_Insufficient" if "sd \<in> set (slo_definitions sample_settings)" for sd
  proof -
    have "sd_metrics sd \<noteq> []" using that by (auto simp: slo_definitions_def)
    then show ?thesis by (simp add: evaluation_fields slo_status_of_def sample_stats seconds_def)
  qed
  then show ?thesis by (simp add: sample_evaluations_eq filter_empty_conv)
qed

lemma sample_evaluated:
  "add_evaluations sample_evaluations sample_store = Inr (sample_store\<lparr>od_evaluations := sample_evaluations\<rparr>)"
proof -
  let ?a = "slo_definitions sample_settings ! 0" and ?b = "slo_definitions sample_settings ! 1"
  have two: "slo_definitions sample_settings = [?a, ?b]" by (simp add: slo_definitions_def)
  have "slo_row_ok (sample_row sd)" if "sd \<in> set (slo_definitions sample_settings)" for sd
    using slo_row_ok_iff [OF refl that] by simp
  then have "list_all slo_row_ok sample_evaluations" by (simp add: sample_evaluations_eq list_all_iff)
  moreover have keys: "sd_key ?a \<noteq> sd_key ?b" by (simp add: slo_definitions_def)
  moreover have rows: "sample_evaluations = [sample_row ?a, sample_row ?b]"
    by (subst sample_evaluations_eq, subst two) simp
  moreover have "distinct (map sl_hash sample_evaluations)"
    unfolding rows using sample_rows_differ [OF refl refl] by simp
  moreover have "distinct (map sl_id sample_evaluations)" "distinct (map (\<lambda>e. (sl_snapshot_id e, sl_key e)) sample_evaluations)"
    unfolding rows using keys by (simp_all add: evaluation_fields)
  moreover have "od_evaluations sample_store = []" by (simp add: sample_store_def no_ops_def)
  ultimately show ?thesis unfolding add_evaluations_def by (simp del: One_nat_def)
qed

lemma sample_key: "active_paging_key sample_paging sample_settings True = Inr (Some ''k1'')"
proof -
  have "strip ''k1'' = ''k1''" "strip ([]::string) = []" by code_simp+
  then show ?thesis
    by (simp add: active_paging_key_def paging_keyring_def configured_keys_def configured_active_key_def opt_text_def
        bounded_settings_def raw_settings_def Let_def)
qed

lemma sample_provider: "paging_provider sample_settings True = Inr ''webhook''"
  by (simp add: paging_provider_def valid_provider_def bounded_settings_def raw_settings_def Let_def) code_simp

lemma sample_reconciled:
  "\<exists>db. reconcile_operational_incidents sample_env sample_settings sample_draw [] ''s1'' (derive_alerts revoked_root)
      sample_evaluations 0 (sample_store\<lparr>od_evaluations := sample_evaluations\<rparr>) = Inr (db, [''trust_root_revoked''])"
proof -
  obtain a where a: "derive_alerts revoked_root = [a]" "oa_key a = ''trust_root_revoked''"
    using sample_alerts by auto
  have "current_states ''s1'' (derive_alerts revoked_root) sample_evaluations = [alert_state_of ''s1'' a]"
    by (simp add: current_states_def sample_breaches a(1))
  then show ?thesis
    using sample_key sample_provider
    by (simp add: reconcile_operational_incidents_def Let_def sample_store_def no_ops_def reconcile_state_def
        open_of_key_def add_incident_def opened_incident_def page_transition_of_def create_delivery_def
        new_delivery_def sample_env_def alert_state_of_def a(2) sample_draw_def)
qed

lemma sample_captured:
  "\<exists>db r. capture_operational_reliability_cycle sample_env sample_settings sample_lead revoked_root [] sample_draw 0 no_ops =
     Inr (db, r) \<and> cy_created r \<and> cy_deliveries r = [''trust_root_revoked'']"
proof -
  obtain db where db: "reconcile_operational_incidents sample_env sample_settings sample_draw [] ''s1''
      (derive_alerts revoked_root) sample_evaluations 0 (sample_store\<lparr>od_evaluations := sample_evaluations\<rparr>) =
      Inr (db, [''trust_root_revoked''])" using sample_reconciled by blast
  have "delete_snapshots [] no_ops = no_ops" by (simp add: delete_snapshots_def no_ops_def Let_def)
  moreover have "expired_snapshots [] 0 no_ops = []" by (simp add: expired_snapshots_def no_ops_def)
  moreover have "whole_seconds 0 = 0" by (simp add: whole_seconds_def seconds_def)
  moreover have "oe_sha sample_env = length_hash" by (simp add: sample_env_def sample_paging_def)
  moreover have "dr_snapshot sample_draw = ''s1''" "dr_evaluation sample_draw = (\<lambda>k. k)" by (simp_all add: sample_draw_def)
  moreover have "sn_id (new_snapshot sample_env sample_settings ''s1'' 0 revoked_root (derive_alerts revoked_root) x) = ''s1''" for x
    by (simp add: new_snapshot_def Let_def)
  ultimately show ?thesis
    using sample_added sample_evaluated db sample_evaluations_def
    by (simp add: capture_operational_reliability_cycle_def Let_def no_ops_def [THEN arg_cong [where f = od_snapshots]]
        sample_lead_def)
qed

section \<open>The SLO properties\<close>

theorem slo_rows_admitted_iff_witness:
  "\<not> list_all slo_row_ok (evaluate_slos length_hash
      (bounded_settings (raw_settings\<lparr>os_interval := 3600, os_window := 300\<rparr>)) ''s1'' (\<lambda>k. k) 0 no_ops)"
  using slo_rows_admitted_iff [OF refl, of length_hash "raw_settings\<lparr>os_interval := 3600, os_window := 300\<rparr>" "''s1''" "\<lambda>k. k" 0 no_ops]
  by (simp add: bounded_settings_def raw_settings_def clamp_def Let_def)

abbreviation eager_settings :: ops_settings where
  "eager_settings \<equiv> bounded_settings (raw_settings\<lparr>os_min_samples := 1\<rparr>)"

definition worker_point :: "string \<Rightarrow> rat \<Rightarrow> metric_point" where
  "worker_point name v = \<lparr>mp_snapshot_id = ''s1'', mp_name = name, mp_value = v, mp_labels = [],
     mp_labels_hash = empty_labels_hash length_hash, mp_help = []\<rparr>"

definition worker_store :: ops_db where
  "worker_store = sample_store\<lparr>od_points := [worker_point ''model_atlas_worker_online'' 1,
     worker_point ''model_atlas_job_expired_lease_count'' 0]\<rparr>"

lemma eager_settings_simps [simp]:
  "os_interval eager_settings = 300" "os_window eager_settings = 86400" "os_min_samples eager_settings = 1"
  "os_worker_target eager_settings = 99 / 100"
  by (simp_all add: bounded_settings_def raw_settings_def clamp_def Let_def)

definition worker_values :: "string \<Rightarrow> rat option" where
  "worker_values = [''model_atlas_worker_online'' \<mapsto> 1, ''model_atlas_job_expired_lease_count'' \<mapsto> 0]"

lemma worker_samples: "slo_samples length_hash eager_settings 0 worker_store = [(0, worker_values)]"
  by (simp add: slo_samples_def worker_store_def sample_store_def no_ops_def new_snapshot_def Let_def snapshot_values_def
      worker_point_def slo_definitions_def seconds_def worker_values_def)

lemma worker_window_start: "sw_start (slo_window_stats [(0, v)] sd (0 - seconds 86400) 0 300) = Some 0"
  by (simp add: slo_window_stats_def in_window_def seconds_def Let_def)


section \<open>The incidents\<close>

definition open_incident :: incident where
  "open_incident = (opened_incident ''i1'' (alert_state_of ''s0''
     (new_alert ''trust_root_revoked'' Sev_Warning ''m'' 1 0 ''s'')) 0)"

definition open_store :: ops_db where
  "open_store = no_ops\<lparr>od_incidents := [open_incident]\<rparr>"

abbreviation acknowledge :: ops_command where
  "acknowledge \<equiv> Incident_Action ''i1'' sample_lead Act_Acknowledged ''seen'' None sample_draw 0"

lemma open_incident_simps [simp]:
  "ic_id open_incident = ''i1''" "ic_status open_incident = Ic_Open" "ic_alert_key open_incident = ''trust_root_revoked''"
  "ic_acknowledged_at open_incident = None" "ic_escalation open_incident = 0"
  by (simp_all add: open_incident_def opened_incident_def alert_state_of_def new_alert_def)

lemma open_store_simps [simp]:
  "od_incidents open_store = [open_incident]" "od_actions open_store = []" "od_snapshots open_store = []"
  by (simp_all add: open_store_def no_ops_def)

lemma open_store_inv: "ops_inv env open_store"
proof -
  have "incident_ok open_incident" "link_ok open_store open_incident" "trail_ok open_store open_incident"
    by (simp_all add: open_incident_def opened_incident_def alert_state_of_def new_alert_def incident_ok_def
        incident_row_ok_def link_ok_def trail_ok_def)
  then show ?thesis
    by (simp add: ops_inv_def incidents_ok_def deliveries_ok_def actions_ok_def snapshots_ok_def one_open_def chained_def)
      (simp add: open_store_def no_ops_def)
qed

lemma lead_administers: "can_administer sample_lead"
  by code_simp

lemma acknowledged_step:
  "\<exists>db a. ops_step sample_env st acknowledge open_store = Inr db \<and> od_actions db = [a] \<and>
     row_find ic_id ''i1'' (od_incidents db) = Some (open_incident\<lparr>ic_acknowledged_at := Some 0,
       ic_acknowledged_by := identity_to_json sample_lead\<rparr>)"
  by (simp add: record_operational_incident_action_def lead_administers row_find_def actioned_def whole_seconds_def
      seconds_def append_action_def Let_def put_incident_def row_put_def)

theorem ops_tables_well_formed_witness:
  "ops_inv sample_env (run_commands (ops_step sample_env sample_settings)
     [Capture_Cycle sample_lead revoked_root [] sample_draw 0, acknowledge] open_store)"
  by (rule ops_tables_well_formed [OF sample_chooses open_store_inv])

theorem action_log_is_chained_witness:
  "\<exists>a. od_actions (run_commands (ops_step sample_env sample_settings) [acknowledge] open_store) = [a] \<and>
     ia_hash a = stable_hash (oe_sha sample_env) (action_canonical a) \<and> ia_previous_hash a = None"
proof -
  obtain db a where "ops_step sample_env sample_settings acknowledge open_store = Inr db" "od_actions db = [a]"
    using acknowledged_step by blast
  then have run: "od_actions (run_commands (ops_step sample_env sample_settings) [acknowledge] open_store) = [a]" by simp
  note chain = action_log_is_chained [OF sample_chooses open_store_inv, of sample_settings "[acknowledge]", THEN conjunct2,
      rule_format, of "[]" a "[]", unfolded run]
  have "ia_hash a = stable_hash (oe_sha sample_env) (action_canonical a)" "ia_previous_hash a = None"
    using chain by (simp_all split: option.splits)
  then show ?thesis using run by blast
qed


theorem capture_follows_alerts_witness:
  "\<exists>db r. capture_operational_reliability_cycle sample_env sample_settings sample_lead revoked_root [] sample_draw 0 no_ops =
     Inr (db, r) \<and> ''trust_root_revoked'' \<in> open_keys (od_incidents db) \<and> length (new_evaluations db r) = 2"
proof -
  obtain db r where c: "capture_operational_reliability_cycle sample_env sample_settings sample_lead revoked_root [] sample_draw
      0 no_ops = Inr (db, r)" "cy_created r" using sample_captured by blast
  have "''trust_root_revoked'' \<in> oa_key ` set (derive_alerts revoked_root)"
    using sample_alerts by (metis list.set_intros(1) list.set_map)
  moreover have "length (slo_definitions sample_settings) = 2" by (simp add: slo_definitions_def)
  moreover note capture_follows_alerts [OF c(1) sample_chooses no_ops_inv] c
  ultimately show ?thesis by (metis UnI1 length_map)
qed

theorem locked_incident_fails_capture_witness:
  "\<exists>e. capture_operational_reliability_cycle sample_env sample_settings sample_lead revoked_root [''i1''] sample_draw 0
     open_store = Inl e"
proof (rule locked_incident_fails_capture [OF sample_chooses open_store_inv, of open_incident])
  show "ic_alert_key open_incident \<in> oa_key ` set (derive_alerts revoked_root)"
    using sample_alerts by (metis list.set_intros(1) list.set_map open_incident_simps(3))
qed simp_all

theorem sound_configuration_signs_witness:
  "\<exists>key secret. active_paging_key sample_paging sample_settings True = Inr (Some key) \<and>
     paging_signing_secret sample_paging sample_settings key = Inr secret \<and> 32 \<le> length secret"
proof -
  have "strip ''k1'' = ''k1''" "strip ([]::string) = []" by code_simp+
  then have "ps_error (paging_configuration_state sample_paging sample_settings) = None"
    by (simp add: paging_configuration_state_def active_paging_key_def paging_keyring_def configured_keys_def
        configured_active_key_def opt_text_def bounded_settings_def raw_settings_def Let_def)
  from sound_configuration_signs [OF this] show ?thesis by blast
qed

section \<open>The jobs\<close>

definition sample_handlers :: handler_env where
  "sample_handlers = \<lparr>hd_digest = (\<lambda>_. 0), hd_ops = sample_env, hd_settings = sample_settings,
     hd_control = demo_control_env, hd_other = (\<lambda>_. Outcome_Error []), hd_text = (\<lambda>_. ''failed'')\<rparr>"

definition sample_system :: system_db where
  "sample_system = \<lparr>sy_queue = \<lparr>q_jobs = [], q_workers = []\<rparr>, sy_ops = no_ops, sy_control = demo_control_db []\<rparr>"

theorem system_stays_consistent_witness:
  "system_inv sample_handlers (run_commands (sys_step sample_handlers)
     [Sys_Claim ''w'' 60 0 [] ''t1'', Sys_Capture sample_lead revoked_root [] sample_draw 0] sample_system)"
proof (rule system_stays_consistent)
  have "control_inv (demo_control_db [])" by (simp add: control_inv_def)
  then show "system_inv sample_handlers sample_system"
    by (simp add: system_inv_def sample_system_def no_ops_inv queue_inv_def jobs_ok_def tokens_unique_def)
  show "admissible_run (sys_step sample_handlers) (sys_adm sample_handlers)
      [Sys_Claim ''w'' 60 0 [] ''t1'', Sys_Capture sample_lead revoked_root [] sample_draw 0] sample_system"
    by (simp add: fresh_token_def sample_system_def sample_handlers_def sample_chooses)
qed

definition page_job :: "int \<Rightarrow> job" where
  "page_job attempts = (new_job (delivery_request ''d1'' sample_lead) 0 ''j1'')
     \<lparr>job_status := Leased, job_lease_token := Some ''t1'', job_attempt_count := attempts\<rparr>"

definition page_row :: delivery where
  "page_row = new_delivery sample_paging sample_settings ''d1'' open_incident Page_Opened 0 ''k1'' ''webhook''"

definition page_system :: "int \<Rightarrow> system_db" where
  "page_system attempts = sample_system
     \<lparr>sy_queue := \<lparr>q_jobs = [page_job attempts], q_workers = []\<rparr>, sy_ops := open_store\<lparr>od_deliveries := [page_row]\<rparr>\<rparr>"

definition page_draw :: handler_draw where
  "page_draw = \<lparr>hw_clock = 0, hw_samples = [], hw_locked = [], hw_ops = sample_draw, hw_revision = demo_draw,
     hw_checkpoint = (\<lambda>k. k), hw_job = (\<lambda>k. k)\<rparr>"

lemma page_job_found:
  "job_find ''j1'' (q_jobs (sy_queue (page_system n))) = Some (page_job n)"
  "job_lease_token (page_job n) = Some ''t1''" "job_status (page_job n) = Leased" "delivers ''d1'' (page_job n)"
  "job_attempt_count (page_job n) = n" "job_max_attempts (page_job n) = 4"
  by (simp_all add: page_system_def page_job_def new_job_def row_find_def delivers_def delivery_request_def plain_request_def
      payload_uuid_def jget_def)

lemma page_row_found:
  "row_find dl_id ''d1'' (od_deliveries (sy_ops (page_system n))) = Some page_row" "dl_status page_row = Dl_Queued"
  "dl_key_id page_row = ''k1''" "dl_provider page_row = Some ''webhook''"
  by (simp_all add: page_system_def page_row_def new_delivery_def row_find_def)

lemma sample_endpoint: "validated_endpoint sample_paging sample_settings = Inr ''https://pager.test/in''"
proof -
  have "strip ''https://pager.test/in'' = ''https://pager.test/in''" "host_is_allowed (lower ''pager.test'') [''pager.test'']"
    "lower ''pager.test'' \<noteq> []"
    by code_simp+
  then show ?thesis
    by (simp add: validated_endpoint_def of_option_def opt_text_def sample_paging_def Let_def bounded_settings_def raw_settings_def)
qed


theorem refused_page_stays_queued_witness:
  "\<exists>s j d. process_system_job sample_handlers page_draw ''j1'' ''t1'' 5 (page_system 1) = (s, Inr j) \<and>
     job_status j = Failed \<and> row_find dl_id ''d1'' (od_deliveries (sy_ops s)) = Some d \<and> dl_status d = Dl_Queued"
proof -
  have penv: "oe_paging (hd_ops sample_handlers) = sample_paging" "hd_settings sample_handlers = sample_settings"
    by (simp_all add: sample_handlers_def sample_env_def)
  have strips: "strip ''k1'' = ''k1''" "strip ([]::string) = []" by code_simp+
  obtain secret where secret: "paging_signing_secret sample_paging sample_settings (dl_key_id page_row) = Inr secret"
    using strips by (simp add: paging_signing_secret_def paging_keyring_def configured_keys_def opt_text_def page_row_found
        bounded_settings_def raw_settings_def Let_def)
  have tls: "tls_verification sample_paging sample_settings x = Inr None" for x
    using strips by (simp add: tls_verification_def of_option_def sample_paging_def opt_text_def bounded_settings_def raw_settings_def Let_def)
  have provider: "expected_provider sample_settings page_row = Inr ''webhook''"
    by (simp add: expected_provider_def page_row_found opt_text_def)
  have post: "pe_post sample_paging x = Response 404 [''no''] False" for x by (simp add: sample_paging_def)
  have body: "read_chunks (os_max_response sample_settings) [''no''] [] = Some ''no''"
    by (simp add: bounded_settings_def raw_settings_def clamp_def Let_def)
  have status: "permanent_status 404" by (simp add: permanent_status_def)
  from refused_page_stays_queued [OF page_job_found(1-4) page_row_found(1) _ _ penv(2) [symmetric] penv(1) [symmetric]
      _ sample_endpoint provider secret tls post body status, of 1 page_draw 5] show ?thesis
    by (auto simp: page_job_found page_row_found)
qed

theorem interrupted_cycle_loses_pages_witness:
  "\<exists>db r d. capture_operational_reliability_cycle sample_env sample_settings sample_lead revoked_root [] sample_draw 0 no_ops =
     Inr (db, r) \<and>
     row_find dl_id ''trust_root_revoked'' (od_deliveries (sy_ops (run_commands (sys_step sample_handlers)
       [Sys_Claim ''w'' 60 0 [] ''t1'', Sys_Capture sample_lead revoked_root [] sample_draw 0]
       (sample_system\<lparr>sy_ops := db\<rparr>)))) = Some d \<and> dl_status d = Dl_Queued \<and> dl_attempts d = 0"
proof -
  obtain db r where c: "capture_operational_reliability_cycle sample_env sample_settings sample_lead revoked_root [] sample_draw
      0 no_ops = Inr (db, r)" "cy_deliveries r = [''trust_root_revoked'']" using sample_captured by blast
  have run: "capture_operational_reliability_cycle (hd_ops sample_handlers) (hd_settings sample_handlers) sample_lead
      revoked_root [] sample_draw 0 (sy_ops sample_system) = Inr (db, r)"
    using c(1) by (simp add: sample_handlers_def sample_system_def)
  have "\<forall>j \<in> set (q_jobs (sy_queue sample_system)). \<not> delivers ''trust_root_revoked'' j" by (simp add: sample_system_def)
  from interrupted_cycle_loses_pages [OF run _ this, of
      "[Sys_Claim ''w'' 60 0 [] ''t1'', Sys_Capture sample_lead revoked_root [] sample_draw 0]"] c
  show ?thesis by auto
qed

end
