(* ===== verification/Transparency_Log.thy ===== *)
theory Transparency_Log
  imports Canonical_Json Operator_Policies
begin

text \<open>
  The inclusion proofs of a transparency log: \<^verbatim>\<open>transparency_leaf_hash\<close>, \<^verbatim>\<open>calculate_transparency_root\<close> and
  \<^verbatim>\<open>_normalized_hash\<close> of \<^verbatim>\<open>services/trust_registry.py\<close>, and the Merkle trees of RFC 6962 they are about
  (\<open>tree_root\<close>, \<open>inclusion_path\<close>). A \<^verbatim>\<open>bytes\<close> value is the string of its bytes; \<open>H\<close> is SHA-256 from bytes to
  the 32 bytes of the digest.
\<close>

text \<open>
  How a command of the trust services ends when it does not return: a \<^verbatim>\<open>DomainValidationError\<close> with its text, a
  \<^verbatim>\<open>TrustSourceSyncRetryableError\<close>, a constraint the database rejects, or another Python exception.
\<close>

datatype registry_error = Invalid string | Retryable string | Integrity_Failed | Uncaught_Exception

section \<open>Hashes as text\<close>

definition hex_value :: "char \<Rightarrow> nat" where
  "hex_value c = (let n = (of_char c :: nat) in if n < 58 then n - 48 else n - 87)"

definition byte_hex :: "char \<Rightarrow> string" where
  "byte_hex c = [hex_digit (of_char c div 16), hex_digit (of_char c mod 16)]"

text \<open>\<^verbatim>\<open>bytes.hex\<close> and \<^verbatim>\<open>bytes.fromhex\<close> (of lower case digits).\<close>

definition to_hex :: "string \<Rightarrow> string" where
  "to_hex s = concat (map byte_hex s)"

fun from_hex :: "string \<Rightarrow> string" where
  "from_hex (a # b # s) = char_of (16 * hex_value a + hex_value b) # from_hex s"
| "from_hex _ = []"

definition HEX_DIGITS :: string where
  "HEX_DIGITS = ''0123456789abcdef''"

definition normalized_hash :: "json \<Rightarrow> registry_error + string" where
  "normalized_hash v =
     (let n = lower (strip (str_or v []));
          h = (if prefix ''sha256:'' n then drop 7 n else n)
      in if length h \<noteq> 64 \<or> \<not> list_all (\<lambda>c. c \<in> set HEX_DIGITS) h then Inl (Invalid ''transparency proof contains an invalid SHA-256 hash'') else Inr h)"

section \<open>The inclusion proof\<close>

definition transparency_leaf_hash :: "(string \<Rightarrow> string) \<Rightarrow> json \<Rightarrow> string" where
  "transparency_leaf_hash H entry = to_hex (H (char_of (0::nat) # canonical_json entry))"

definition hash_tree_node :: "(string \<Rightarrow> string) \<Rightarrow> string \<Rightarrow> string \<Rightarrow> string" where
  "hash_tree_node H left right = H (char_of (1::nat) # left @ right)"

text \<open>
  A position is the index of the current node and of the last node on its level. \<open>from_left\<close> says that the next
  sibling is the left one; then the inner \<^verbatim>\<open>while\<close> (\<open>skip_levels\<close>) leaves out the levels on which the node has no
  sibling.
\<close>

type_synonym position = "nat \<times> nat"

fun skip_levels :: "nat \<Rightarrow> nat \<Rightarrow> position" where
  "skip_levels i n = (if i \<noteq> 0 \<and> even i then skip_levels (i div 2) (n div 2) else (i, n))"

declare skip_levels.simps [simp del]

definition from_left :: "position \<Rightarrow> bool" where
  "from_left p \<longleftrightarrow> fst p = snd p \<or> odd (fst p)"

definition ascend :: "position \<Rightarrow> position" where
  "ascend p =
     (let (i, n) = (if from_left p then skip_levels (fst p) (snd p) else p) in (i div 2, n div 2))"

fun climb :: "(string \<Rightarrow> string) \<Rightarrow> position \<Rightarrow> string \<Rightarrow> string list \<Rightarrow> registry_error + position \<times> string" where
  "climb H p current [] = Inr (p, current)"
| "climb H p current (s # path) =
     bind_res (normalized_hash (JStr s)) (\<lambda>h.
       climb H (ascend p)
         (if from_left p then hash_tree_node H (from_hex h) current else hash_tree_node H current (from_hex h)) path)"

definition calculate_transparency_root ::
  "(string \<Rightarrow> string) \<Rightarrow> string \<Rightarrow> int \<Rightarrow> int \<Rightarrow> string list \<Rightarrow> registry_error + string" where
  "calculate_transparency_root H leaf_hash log_index tree_size path =
     (if tree_size \<le> 0 \<or> log_index < 0 \<or> tree_size \<le> log_index then Inl (Invalid ''transparency proof tree position is invalid'')
      else
        bind_res (normalized_hash (JStr leaf_hash)) (\<lambda>h.
        bind_res (climb H (nat log_index, nat tree_size - 1) (from_hex h) path) (\<lambda>(p, current).
        if snd p \<noteq> 0 then Inl (Invalid ''transparency inclusion path is incomplete'') else Inr (to_hex current))))"

section \<open>Merkle trees\<close>

text \<open>The largest power of two below \<open>n\<close>, for \<open>2 \<le> n\<close>.\<close>

fun split_size :: "nat \<Rightarrow> nat" where
  "split_size n = (if n \<le> 2 then 1 else 2 * split_size ((n + 1) div 2))"

declare split_size.simps [simp del]

lemma split_size_bounds: "2 \<le> n \<Longrightarrow> split_size n < n \<and> n \<le> 2 * split_size n"
proof (induction n rule: split_size.induct)
  case (1 n)
  show ?case
  proof (cases "n \<le> 2")
    case False
    with 1 have "split_size ((n + 1) div 2) < (n + 1) div 2 \<and> (n + 1) div 2 \<le> 2 * split_size ((n + 1) div 2)" by simp
    with False show ?thesis by (subst (1 2) split_size.simps) auto
  qed (use 1 in \<open>simp add: split_size.simps\<close>)
qed

lemma split_size_power: "\<exists>d. split_size n = 2 ^ d"
proof (induction n rule: split_size.induct)
  case (1 n)
  show ?case
  proof (cases "n \<le> 2")
    case True
    then have "split_size n = 2 ^ 0" by (simp add: split_size.simps)
    then show ?thesis by blast
  next
    case False
    with 1 obtain d where "split_size ((n + 1) div 2) = 2 ^ d" by blast
    with False have "split_size n = 2 ^ Suc d" by (subst split_size.simps) simp
    then show ?thesis by blast
  qed
qed

lemma split_size_pos: "0 < split_size n"
  using split_size_power [of n] by auto

lemma split_part_less:
  assumes "\<not> length xs \<le> 1"
  shows "min (length xs) (split_size (length xs)) < length xs" and "length xs - split_size (length xs) < length xs"
  using assms split_size_bounds [of "length xs"] split_size_pos [of "length xs"] by linarith+

text \<open>The root hash of a tree with the given leaf hashes, and the siblings on the way up from one leaf.\<close>

function tree_root :: "(string \<Rightarrow> string) \<Rightarrow> string list \<Rightarrow> string" where
  "tree_root H xs =
     (if length xs \<le> 1 then (case xs of [] \<Rightarrow> H [] | x # _ \<Rightarrow> x)
      else let k = split_size (length xs)
           in hash_tree_node H (tree_root H (take k xs)) (tree_root H (drop k xs)))"
  by auto
termination
proof (relation "measure (\<lambda>(H, xs). length xs)", goal_cases)
  case (2 H xs k)
  then show ?case using split_part_less [of xs] by simp
next
  case (3 H xs k)
  then show ?case using split_part_less [of xs] by simp
qed simp

declare tree_root.simps [simp del]

function inclusion_path :: "(string \<Rightarrow> string) \<Rightarrow> nat \<Rightarrow> string list \<Rightarrow> string list" where
  "inclusion_path H i xs =
     (if length xs \<le> 1 then []
      else let k = split_size (length xs)
           in if i < k then inclusion_path H i (take k xs) @ [tree_root H (drop k xs)]
              else inclusion_path H (i - k) (drop k xs) @ [tree_root H (take k xs)])"
  by auto
termination
proof (relation "measure (\<lambda>(H, i, xs). length xs)", goal_cases)
  case (2 H i xs k)
  then show ?case using split_part_less [of xs] by simp
next
  case (3 H i xs k)
  then show ?case using split_part_less [of xs] by simp
qed simp

declare inclusion_path.simps [simp del]

definition leaf_hashes :: "(string \<Rightarrow> string) \<Rightarrow> json list \<Rightarrow> string list" where
  "leaf_hashes H entries = map (\<lambda>e. H (char_of (0::nat) # canonical_json e)) entries"

end
