(* ===== verification/Trust_Rows.thy ===== *)
theory Trust_Rows
  imports Transparency_Log Py_Time Py_Stats Evidence_Rows Agent_Jobs
begin

text \<open>
  The tables of \<^verbatim>\<open>models/trust.py\<close> behind production evidence: trust roots (registered public keys) and the
  actions on them, trust sources (JWKS endpoints) with their synchronisations and schedules, supply-chain
  attestations and their revocations, transparency proofs and capture receipts; with the
  columns of the runtime attestations and benchmark runs they refer to, and the constraints the code
  can run into. Rows are kept in the order in which they were created.
\<close>

section \<open>Vocabularies\<close>

datatype trust_purpose = Model_Publisher | Production_Collector | Transparency_Purpose

fun purpose_value :: "trust_purpose \<Rightarrow> string" where
  "purpose_value Model_Publisher = ''model_publisher''"
| "purpose_value Production_Collector = ''production_collector''"
| "purpose_value Transparency_Purpose = ''transparency_log''"

datatype trust_tier = Tier_Development | Tier_Internal_Ca | Tier_External

fun tier_value :: "trust_tier \<Rightarrow> string" where
  "tier_value Tier_Development = ''development''"
| "tier_value Tier_Internal_Ca = ''internal_ca''"
| "tier_value Tier_External = ''external''"

datatype root_source = From_Development | From_Internal_Ca | From_External_Registry | From_Transparency_Log

fun root_source_value :: "root_source \<Rightarrow> string" where
  "root_source_value From_Development = ''development''"
| "root_source_value From_Internal_Ca = ''internal_ca''"
| "root_source_value From_External_Registry = ''external_registry''"
| "root_source_value From_Transparency_Log = ''transparency_log''"

datatype root_verb = Root_Rotated | Root_Retired | Root_Revoked

fun root_verb_value :: "root_verb \<Rightarrow> string" where
  "root_verb_value Root_Rotated = ''rotated''"
| "root_verb_value Root_Retired = ''retired''"
| "root_verb_value Root_Revoked = ''revoked''"

datatype root_status = Rs_Scheduled | Rs_Active | Rs_Retired | Rs_Revoked | Rs_Expired

datatype source_status = Src_Unsynced | Src_Healthy | Src_Degraded | Src_Stale | Src_Failed | Src_Disabled

datatype sync_mode = Sync_Preview | Sync_Apply

fun sync_mode_value :: "sync_mode \<Rightarrow> string" where
  "sync_mode_value Sync_Preview = ''preview''"
| "sync_mode_value Sync_Apply = ''apply''"

datatype sync_status = Sync_Succeeded | Sync_Failed

fun sync_status_value :: "sync_status \<Rightarrow> string" where
  "sync_status_value Sync_Succeeded = ''succeeded''"
| "sync_status_value Sync_Failed = ''failed''"

datatype sync_trigger = Manual_Sync | Scheduled_Sync

fun sync_trigger_value :: "sync_trigger \<Rightarrow> string" where
  "sync_trigger_value Manual_Sync = ''manual''"
| "sync_trigger_value Scheduled_Sync = ''scheduled''"

section \<open>Rows\<close>

record trust_root =
  tr_id :: uuid
  tr_name :: string
  tr_purpose :: trust_purpose
  tr_issuer :: string
  tr_key_id :: string
  tr_algorithm :: string
  tr_fingerprint :: string
  tr_jwk :: json
  tr_tier :: trust_tier
  tr_source_type :: root_source
  tr_source_uri :: "string option"
  tr_valid_from :: instant
  tr_valid_until :: "instant option"
  tr_supersedes :: "uuid option"
  tr_source_id :: "uuid option"
  tr_sync_id :: "uuid option"
  tr_registered_at :: instant
  tr_registered_by :: json
  tr_hash :: string
  tr_notes :: "string option"

record root_action =
  ra_id :: uuid
  ra_root_id :: uuid
  ra_verb :: root_verb
  ra_reason :: string
  ra_ticket :: "string option"
  ra_actor :: json
  ra_occurred_at :: instant
  ra_hash :: string

record trust_source =
  ts_id :: uuid
  ts_name :: string
  ts_purpose :: trust_purpose
  ts_issuer :: string
  ts_tier :: trust_tier
  ts_endpoint :: string
  ts_algorithms :: "string list"
  ts_insecure_http :: bool
  ts_freshness :: int
  ts_enabled :: bool
  ts_registered_at :: instant
  ts_registered_by :: json
  ts_hash :: string
  ts_notes :: "string option"

record observed_key =
  ok_key_id :: string
  ok_algorithm :: string
  ok_fingerprint :: string

record source_sync =
  ss_id :: uuid
  ss_source_id :: uuid
  ss_mode :: sync_mode
  ss_status :: sync_status
  ss_trigger :: sync_trigger
  ss_schedule_id :: "uuid option"
  ss_job_id :: "uuid option"
  ss_attempt :: int
  ss_scheduled_for :: "instant option"
  ss_http_status :: "int option"
  ss_fetched_at :: instant
  ss_completed_at :: instant
  ss_payload_hash :: "string option"
  ss_key_count :: int
  ss_candidates :: int
  ss_imported :: int
  ss_unchanged :: int
  ss_rejected :: int
  ss_keys :: "observed_key list"
  ss_error_code :: "string option"
  ss_error_message :: "string option"
  ss_actor :: json
  ss_hash :: string
  ss_notes :: "string option"
  ss_created_at :: instant

record source_schedule =
  sc_id :: uuid
  sc_source_id :: uuid
  sc_enabled :: bool
  sc_interval :: int
  sc_jitter :: int
  sc_max_attempts :: int
  sc_retry_base :: int
  sc_retry_max :: int
  sc_retry_jitter :: int
  sc_next_run :: instant
  sc_last_enqueued :: "instant option"
  sc_last_completed :: "instant option"
  sc_last_job :: "uuid option"
  sc_last_sync :: "uuid option"
  sc_sequence :: int
  sc_failures :: int
  sc_lease_owner :: "string option"
  sc_lease_token :: "string option"
  sc_lease_expires :: "instant option"
  sc_policy_hash :: string
  sc_configured_by :: json
  sc_created_at :: instant

text \<open>The columns of \<^verbatim>\<open>model_artifact_attestations\<close> the trust chain reads.\<close>

record artifact_attestation =
  aa_id :: uuid
  aa_artifact_id :: uuid
  aa_status :: string
  aa_identity_verified :: bool
  aa_digest :: string
  aa_hash :: string
  aa_manifest_hash :: string

record supply_attestation =
  sa_id :: uuid
  sa_artifact_attestation :: uuid
  sa_publisher_root :: "uuid option"
  sa_publisher_tier :: trust_tier
  sa_statement_id :: string
  sa_publisher :: string
  sa_key_id :: string
  sa_algorithm :: string
  sa_fingerprint :: string
  sa_subject_digest :: string
  sa_sbom_version :: string
  sa_sbom_digest :: string
  sa_sbom :: json
  sa_statement :: json
  sa_jws :: string
  sa_signature_verified :: bool
  sa_verified_at :: instant
  sa_verified_by :: json
  sa_identity_verified :: bool
  sa_hash :: string
  sa_notes :: "string option"

record attestation_action =
  at_id :: uuid
  at_attestation :: uuid
  at_reason :: string
  at_ticket :: "string option"
  at_actor :: json
  at_occurred_at :: instant
  at_hash :: string

record log_proof =
  lp_id :: uuid
  lp_attestation :: uuid
  lp_root :: uuid
  lp_proof_id :: string
  lp_log_id :: string
  lp_index :: int
  lp_tree_size :: int
  lp_integrated_at :: instant
  lp_leaf_hash :: string
  lp_root_hash :: string
  lp_entry :: json
  lp_path :: "string list"
  lp_checkpoint :: json
  lp_jws :: string
  lp_algorithm :: string
  lp_key_id :: string
  lp_fingerprint :: string
  lp_signature_verified :: bool
  lp_verified_at :: instant
  lp_verified_by :: json
  lp_identity_verified :: bool
  lp_hash :: string
  lp_notes :: "string option"

record capture_receipt =
  cr_id :: uuid
  cr_run_id :: uuid
  cr_artifact_attestation :: uuid
  cr_attestation :: uuid
  cr_collector_root :: "uuid option"
  cr_collector_tier :: trust_tier
  cr_capture_id :: string
  cr_issuer :: string
  cr_key_id :: string
  cr_algorithm :: string
  cr_fingerprint :: string
  cr_subject_digest :: string
  cr_environment :: json
  cr_started_at :: instant
  cr_ended_at :: instant
  cr_result_count :: int
  cr_metric_count :: int
  cr_statement :: json
  cr_jws :: string
  cr_signature_verified :: bool
  cr_verified_at :: instant
  cr_verified_by :: json
  cr_identity_verified :: bool
  cr_hash :: string
  cr_notes :: "string option"

text \<open>\<open>td_run_artifact\<close> is the column \<^verbatim>\<open>model_artifact_id\<close> of \<^verbatim>\<open>benchmark_runs\<close>.\<close>

record trust_db =
  td_roots :: "trust_root list"
  td_root_actions :: "root_action list"
  td_sources :: "trust_source list"
  td_syncs :: "source_sync list"
  td_schedules :: "source_schedule list"
  td_artifacts :: "artifact_attestation list"
  td_attestations :: "supply_attestation list"
  td_attestation_actions :: "attestation_action list"
  td_proofs :: "log_proof list"
  td_receipts :: "capture_receipt list"
  td_evidence :: evidence_db
  td_run_artifact :: "uuid \<Rightarrow> uuid option"

text \<open>\<^verbatim>\<open>(value or "").strip() or None\<close>.\<close>

definition optional_note :: "string option \<Rightarrow> string option" where
  "optional_note t = (let s = strip (text_or_empty t) in if s = [] then None else Some s)"

definition normalized_role :: "signer_identity \<Rightarrow> string" where
  "normalized_role sg = lower (strip (text_or_empty (role sg)))"

end
