(* ===== verification/Trust_Registry.thy ===== *)
theory Trust_Registry
  imports Trust_Rows Paging
begin

text \<open>
  \<^verbatim>\<open>services/trust_registry.py\<close> and \<^verbatim>\<open>services/signed_evidence.py\<close>: the registry of the keys that may sign
  production evidence, the verification of signed statements, transparency proofs, and what makes a root, a
  proof, an attestation and a receipt eligible for production.

  Parameters (\<open>trust_env\<close>): SHA-256 (\<open>te_H\<close>), the JWT library (\<open>te_header\<close> and \<open>te_claims\<close> read a token without
  verifying it, \<open>te_verify\<close> is \<^verbatim>\<open>PyJWK.from_dict\<close> and \<^verbatim>\<open>jwt.decode\<close>, \<open>te_usable_key\<close> is \<^verbatim>\<open>PyJWK.from_dict\<close>
  alone), \<^verbatim>\<open>datetime.fromisoformat\<close> (the instant, and whether it has a zone), files, \<^verbatim>\<open>json.loads\<close> and \<^verbatim>\<open>urlsplit\<close>. Identifiers
  of new rows and the clock are arguments.
\<close>

datatype jwt_outcome = Jwt_Verified json | Jwt_Bad_Signature | Jwt_Bad_Issuer | Jwt_Invalid

record trust_env =
  te_H :: "string \<Rightarrow> string"
  te_header :: "string \<Rightarrow> json option"
  te_claims :: "string \<Rightarrow> json option"
  te_verify :: "json \<Rightarrow> string \<Rightarrow> string list \<Rightarrow> string \<Rightarrow> jwt_outcome"
  te_usable_key :: "json \<Rightarrow> string \<Rightarrow> bool"
  te_fromiso :: "string \<Rightarrow> (instant \<times> bool) option"
  te_file :: "string \<Rightarrow> string option"
  te_loads :: "string \<Rightarrow> json option"
  te_urlsplit :: "string \<Rightarrow> url_parts option"

definition env_hash :: "trust_env \<Rightarrow> json \<Rightarrow> string" where
  "env_hash env j = stable_hash (\<lambda>s. to_hex (te_H env s)) j"

abbreviation text_claim :: "json \<Rightarrow> string \<Rightarrow> string" where
  "text_claim d k \<equiv> str_or (jget d k) []"

section \<open>Operators\<close>

definition TRUST_GOVERNANCE_ROLES :: "string list" where
  "TRUST_GOVERNANCE_ROLES = [''admin'', ''model governance'', ''ml ops lead'']"

definition EVIDENCE_OPERATOR_ROLES :: "string list" where
  "EVIDENCE_OPERATOR_ROLES = TRUST_GOVERNANCE_ROLES @ [''sre lead'']"

definition governance_operator :: "signer_identity \<Rightarrow> bool" where
  "governance_operator sg \<longleftrightarrow> identity_verified sg \<and> normalized_role sg \<in> set TRUST_GOVERNANCE_ROLES"

definition evidence_operator :: "signer_identity \<Rightarrow> bool" where
  "evidence_operator sg \<longleftrightarrow> identity_verified sg \<and> normalized_role sg \<in> set EVIDENCE_OPERATOR_ROLES"

definition assert_governance_operator :: "signer_identity \<Rightarrow> registry_error + unit" where
  "assert_governance_operator sg =
     require (Invalid ''trust registry changes require a verified governance operator'') (governance_operator sg)"

definition assert_evidence_operator :: "signer_identity \<Rightarrow> registry_error + unit" where
  "assert_evidence_operator sg =
     require (Invalid ''transparency evidence requires a verified governance or SRE operator'') (evidence_operator sg)"

section \<open>Signed statements\<close>

definition MAX_JWKS_BYTES :: nat where
  "MAX_JWKS_BYTES = 1048576"

definition MAX_SIGNED_STATEMENT_LENGTH :: nat where
  "MAX_SIGNED_STATEMENT_LENGTH = 262144"

record statement_identity =
  si_issuer :: string
  si_key_id :: string
  si_algorithm :: string

definition inspect_signed_statement :: "trust_env \<Rightarrow> string \<Rightarrow> registry_error + statement_identity" where
  "inspect_signed_statement env jws =
     (let token = strip jws in
      if token = [] \<or> MAX_SIGNED_STATEMENT_LENGTH < length token
      then Inl (Invalid ''signed evidence JWS is missing or too large'')
      else case (te_header env token, te_claims env token) of
        (Some header, Some claims) \<Rightarrow>
          if \<not> is_dict claims then Inl (Invalid ''signed evidence JWS payload must be an object'')
          else
            let kid = strip (text_claim header ''kid'');
                alg = strip (text_claim header ''alg'');
                iss = strip (text_claim claims ''iss'')
            in if kid = [] then Inl (Invalid ''signed evidence JWS kid is required'')
               else if alg = [] then Inl (Invalid ''signed evidence JWS algorithm is required'')
               else if iss = [] then Inl (Invalid ''signed evidence JWS issuer is required'')
               else Inr \<lparr>si_issuer = iss, si_key_id = kid, si_algorithm = alg\<rparr>
      | _ \<Rightarrow> Inl (Invalid ''signed evidence JWS header or payload is invalid''))"

text \<open>\<^verbatim>\<open>datetime.fromtimestamp(x, tz=UTC)\<close>, to the microsecond, for the years 1 to 9999.\<close>

definition from_timestamp :: "rat \<Rightarrow> instant option" where
  "from_timestamp q =
     (let t = round_half_even (q * 1000000)
      in if seconds (-62135596800) \<le> t \<and> t < seconds 253402300800 then Some t else None)"

definition issued_at :: "json \<Rightarrow> registry_error + instant" where
  "issued_at v =
     of_option (Invalid ''signed evidence JWS iat is invalid'')
       (case v of JBool _ \<Rightarrow> None
        | _ \<Rightarrow> (case py_float v of None \<Rightarrow> None | Some q \<Rightarrow> from_timestamp q))"

record signed_statement =
  st_header :: json
  st_claims :: json
  st_fingerprint :: string

definition st_issuer :: "signed_statement \<Rightarrow> string" where
  "st_issuer s = py_str (jget (st_claims s) ''iss'')"

definition st_id :: "signed_statement \<Rightarrow> string" where
  "st_id s = py_str (jget (st_claims s) ''jti'')"

definition st_key_id :: "signed_statement \<Rightarrow> string" where
  "st_key_id s = py_str (jget (st_header s) ''kid'')"

definition st_algorithm :: "signed_statement \<Rightarrow> string" where
  "st_algorithm s = py_str (jget (st_header s) ''alg'')"

definition jwk_accepted :: "json \<Rightarrow> statement_identity \<Rightarrow> registry_error + unit" where
  "jwk_accepted jwk si =
     (let alg = strip (text_claim jwk ''alg'') in
      if strip (text_claim jwk ''kid'') \<noteq> si_key_id si
      then Inl (Invalid ''signed evidence JWK kid does not match the JWS'')
      else if alg \<noteq> [] \<and> alg \<noteq> si_algorithm si
      then Inl (Invalid ''signed evidence JWK algorithm does not match the JWS'')
      else if str_or (jget jwk ''use'') ''sig'' \<noteq> ''sig''
      then Inl (Invalid ''signed evidence JWK is not a signing key'')
      else Inr ())"

definition verify_signed_statement_with_jwk ::
  "trust_env \<Rightarrow> string \<Rightarrow> json \<Rightarrow> string list \<Rightarrow> string list \<Rightarrow> int \<Rightarrow> instant \<Rightarrow> registry_error + signed_statement" where
  "verify_signed_statement_with_jwk env jws jwk issuers algorithms max_age now =
     (let token = strip jws in
      bind_res (inspect_signed_statement env token) (\<lambda>si.
      bind_res (require (Invalid ''signed evidence JWS algorithm is not allowed'') (si_algorithm si \<in> set algorithms)) (\<lambda>_.
      bind_res (require (Invalid ''signed evidence JWS issuer is not trusted'') (si_issuer si \<in> set issuers)) (\<lambda>_.
      bind_res (jwk_accepted jwk si) (\<lambda>_.
      case te_verify env jwk (si_algorithm si) issuers token of
        Jwt_Bad_Signature \<Rightarrow> Inl (Invalid ''signed evidence JWS signature is invalid'')
      | Jwt_Bad_Issuer \<Rightarrow> Inl (Invalid ''signed evidence JWS issuer is not trusted'')
      | Jwt_Invalid \<Rightarrow> Inl (Invalid ''signed evidence JWS claims are invalid'')
      | Jwt_Verified claims \<Rightarrow>
          bind_res (require (Invalid ''signed evidence JWS payload must be an object'') (is_dict claims)) (\<lambda>_.
          let jti = strip (text_claim claims ''jti'') in
          bind_res (require (Invalid ''signed evidence JWS jti is invalid'') (jti \<noteq> [] \<and> length jti \<le> 200)) (\<lambda>_.
          bind_res (issued_at (jget claims ''iat'')) (\<lambda>issued.
          let age = total_seconds (now - issued) in
          bind_res (require (Invalid ''signed evidence JWS was issued in the future'') (- 60 \<le> age)) (\<lambda>_.
          bind_res (require (Invalid ''signed evidence JWS is older than the trust policy allows'') (age \<le> of_int max_age)) (\<lambda>_.
          case te_header env token of
            None \<Rightarrow> Inl Uncaught_Exception
          | Some header \<Rightarrow>
              Inr \<lparr>st_header = header, st_claims = claims, st_fingerprint = env_hash env jwk\<rparr>))))))))))"

definition load_jwk :: "trust_env \<Rightarrow> string \<Rightarrow> string \<Rightarrow> string \<Rightarrow> registry_error + json" where
  "load_jwk env path key_id algorithm =
     (case te_file env path of
        None \<Rightarrow> Inl (Invalid ''signed evidence JWKS file is missing or too large'')
      | Some text \<Rightarrow>
          if MAX_JWKS_BYTES < length text then Inl (Invalid ''signed evidence JWKS file is missing or too large'')
          else case te_loads env text of
            None \<Rightarrow> Inl (Invalid ''signed evidence JWKS file is invalid'')
          | Some payload \<Rightarrow>
              (case jget payload ''keys'' of
                 JArr keys \<Rightarrow>
                   (case filter (\<lambda>k. is_dict k \<and> text_claim k ''kid'' = key_id) keys of
                      [jwk] \<Rightarrow>
                        let alg = strip (text_claim jwk ''alg'') in
                        if alg \<noteq> [] \<and> alg \<noteq> algorithm
                        then Inl (Invalid ''signed evidence JWK algorithm does not match the JWS'')
                        else if str_or (jget jwk ''use'') ''sig'' \<noteq> ''sig''
                        then Inl (Invalid ''signed evidence JWK is not a signing key'')
                        else Inr jwk
                    | _ \<Rightarrow> Inl (Invalid ''signed evidence JWS kid is unknown or ambiguous''))
               | _ \<Rightarrow> Inl (Invalid ''signed evidence JWKS must contain a keys list'')))"

record jws_policy =
  jp_path :: "string option"
  jp_issuers :: "string list"
  jp_algorithms :: "string list"
  jp_max_age :: int

definition verify_signed_statement ::
  "trust_env \<Rightarrow> string \<Rightarrow> jws_policy \<Rightarrow> instant \<Rightarrow> registry_error + signed_statement" where
  "verify_signed_statement env jws p now =
     (if \<not> text_set (jp_path p) \<or> jp_issuers p = [] \<or> jp_algorithms p = []
      then Inl (Invalid ''signed evidence trust policy is not configured'')
      else
        bind_res (inspect_signed_statement env jws) (\<lambda>si.
        bind_res (require (Invalid ''signed evidence JWS algorithm is not allowed'')
          (si_algorithm si \<in> set (jp_algorithms p))) (\<lambda>_.
        bind_res (load_jwk env (text_or_empty (jp_path p)) (si_key_id si) (si_algorithm si)) (\<lambda>jwk.
        verify_signed_statement_with_jwk env jws jwk (jp_issuers p) (jp_algorithms p) (jp_max_age p) now))))"

section \<open>Status of roots and sources\<close>

text \<open>The first row in descending order of a key; among equal keys the row created last.\<close>

fun latest_by :: "('r \<Rightarrow> 'k::linorder) \<Rightarrow> 'r list \<Rightarrow> 'r option" where
  "latest_by key [] = None"
| "latest_by key (x # xs) =
     (case latest_by key xs of None \<Rightarrow> Some x | Some y \<Rightarrow> if key y < key x then Some x else Some y)"

definition root_verbs :: "trust_db \<Rightarrow> uuid \<Rightarrow> root_verb set" where
  "root_verbs db rid = ra_verb ` set (filter (\<lambda>a. ra_root_id a = rid) (td_root_actions db))"

definition trust_root_status :: "trust_db \<Rightarrow> trust_root \<Rightarrow> instant \<Rightarrow> root_status" where
  "trust_root_status db r now =
     (let verbs = root_verbs db (tr_id r) in
      if Root_Revoked \<in> verbs then Rs_Revoked
      else if Root_Retired \<in> verbs \<or> Root_Rotated \<in> verbs then Rs_Retired
      else if now < tr_valid_from r then Rs_Scheduled
      else if (case tr_valid_until r of None \<Rightarrow> False | Some t \<Rightarrow> t \<le> now) then Rs_Expired
      else Rs_Active)"

definition sync_key :: "source_sync \<Rightarrow> instant \<times> instant" where
  "sync_key s = (ss_completed_at s, ss_created_at s)"

definition latest_source_sync :: "trust_db \<Rightarrow> uuid \<Rightarrow> source_sync option" where
  "latest_source_sync db sid = latest_by sync_key (filter (\<lambda>s. ss_source_id s = sid) (td_syncs db))"

definition latest_successful_source_apply :: "trust_db \<Rightarrow> uuid \<Rightarrow> source_sync option" where
  "latest_successful_source_apply db sid =
     latest_by sync_key
       (filter (\<lambda>s. ss_source_id s = sid \<and> ss_mode s = Sync_Apply \<and> ss_status s = Sync_Succeeded) (td_syncs db))"

definition trust_source_status :: "trust_db \<Rightarrow> trust_source \<Rightarrow> instant \<Rightarrow> source_status" where
  "trust_source_status db s now =
     (if \<not> ts_enabled s then Src_Disabled
      else
        let latest = latest_source_sync db (ts_id s) in
        case latest_successful_source_apply db (ts_id s) of
          None \<Rightarrow> (case latest of
                     Some l \<Rightarrow> if ss_status l = Sync_Failed then Src_Failed else Src_Unsynced
                   | None \<Rightarrow> Src_Unsynced)
        | Some applied \<Rightarrow>
            if ss_completed_at applied + seconds (ts_freshness s) \<le> now then Src_Stale
            else case latest of
              Some l \<Rightarrow> if ss_status l = Sync_Failed \<and> ss_id l \<noteq> ss_id applied then Src_Degraded else Src_Healthy
            | None \<Rightarrow> Src_Healthy)"

definition trust_source_key_is_current :: "trust_db \<Rightarrow> trust_root \<Rightarrow> instant \<Rightarrow> bool" where
  "trust_source_key_is_current db r now =
     (case tr_source_id r of
        None \<Rightarrow> True
      | Some sid \<Rightarrow>
          (case row_find ts_id sid (td_sources db) of
             None \<Rightarrow> False
           | Some s \<Rightarrow>
               (case latest_successful_source_apply db (ts_id s) of
                  None \<Rightarrow> False
                | Some applied \<Rightarrow>
                    trust_source_status db s now \<in> {Src_Healthy, Src_Degraded} \<and>
                    list_ex (\<lambda>k. ok_fingerprint k = tr_fingerprint r) (ss_keys applied))))"

definition production_tier :: "trust_tier \<Rightarrow> bool" where
  "production_tier t \<longleftrightarrow> t \<in> {Tier_Internal_Ca, Tier_External}"

definition trust_root_is_production_eligible :: "trust_db \<Rightarrow> trust_root option \<Rightarrow> instant \<Rightarrow> bool" where
  "trust_root_is_production_eligible db candidate now =
     (case candidate of
        None \<Rightarrow> False
      | Some r \<Rightarrow>
          production_tier (tr_tier r) \<and> trust_root_status db r now = Rs_Active \<and>
          (tr_source_id r = None \<or> trust_source_key_is_current db r now))"

section \<open>Registration\<close>

record root_request =
  rr_name :: string
  rr_purpose :: trust_purpose
  rr_issuer :: string
  rr_key_id :: string
  rr_algorithm :: string
  rr_jwk :: json
  rr_tier :: trust_tier
  rr_source_type :: root_source
  rr_source_uri :: "string option"
  rr_valid_from :: "instant option"
  rr_valid_until :: "instant option"
  rr_supersedes :: "uuid option"
  rr_notes :: "string option"

definition PRIVATE_JWK_FIELDS :: "string list" where
  "PRIVATE_JWK_FIELDS = [''d'', ''p'', ''q'', ''dp'', ''dq'', ''qi'', ''oth'', ''k'']"

definition validated_public_jwk :: "trust_env \<Rightarrow> json \<Rightarrow> string \<Rightarrow> string \<Rightarrow> registry_error + json" where
  "validated_public_jwk env jwk key_id algorithm =
     (if list_ex (\<lambda>f. f \<in> fst ` set (dict_items jwk)) PRIVATE_JWK_FIELDS
      then Inl (Invalid ''trust registry accepts public JWK material only'')
      else if strip (text_claim jwk ''kid'') \<noteq> key_id then Inl (Invalid ''trust root JWK kid does not match key_id'')
      else if strip (text_claim jwk ''alg'') \<noteq> algorithm then Inl (Invalid ''trust root JWK alg does not match algorithm'')
      else if str_or (jget jwk ''use'') ''sig'' \<noteq> ''sig'' then Inl (Invalid ''trust root JWK must be a signing key'')
      else if lower (strip (text_claim jwk ''kty'')) = ''oct''
      then Inl (Invalid ''symmetric keys cannot be registered as trust roots'')
      else if \<not> te_usable_key env jwk algorithm then Inl (Invalid ''trust root public JWK is invalid'')
      else Inr jwk)"

definition validate_source_policy :: "root_request \<Rightarrow> registry_error + unit" where
  "validate_source_policy q =
     (if rr_tier q = Tier_Development
      then require (Invalid ''development trust tier requires development source_type'') (rr_source_type q = From_Development)
      else if optional_note (rr_source_uri q) = None then Inl (Invalid ''production trust tiers require a source_uri'')
      else if rr_tier q = Tier_Internal_Ca \<and> rr_source_type q \<noteq> From_Internal_Ca
      then Inl (Invalid ''internal_ca trust tier requires internal_ca source_type'')
      else if rr_tier q = Tier_External \<and> rr_source_type q \<notin> {From_External_Registry, From_Transparency_Log}
      then Inl (Invalid ''external trust tier requires an external registry or transparency log source'')
      else if rr_purpose q = Transparency_Purpose \<and>
        rr_source_type q \<notin> {From_Development, From_Internal_Ca, From_Transparency_Log}
      then Inl (Invalid ''transparency log keys require a log-compatible source'')
      else Inr ())"

text \<open>The root of a purpose, an issuer and a key identifier, which are unique together.\<close>

definition find_root :: "trust_db \<Rightarrow> trust_purpose \<Rightarrow> string \<Rightarrow> string \<Rightarrow> trust_root option" where
  "find_root db purpose issuer key_id =
     find (\<lambda>r. tr_purpose r = purpose \<and> tr_issuer r = issuer \<and> tr_key_id r = key_id) (td_roots db)"

definition link_attestation :: "trust_root \<Rightarrow> supply_attestation \<Rightarrow> supply_attestation" where
  "link_attestation r a =
     (if sa_publisher a = tr_issuer r \<and> sa_key_id a = tr_key_id r \<and> sa_fingerprint a = tr_fingerprint r \<and>
         sa_publisher_root a = None
      then a\<lparr>sa_publisher_root := Some (tr_id r), sa_publisher_tier := tr_tier r\<rparr> else a)"

definition link_receipt :: "trust_root \<Rightarrow> capture_receipt \<Rightarrow> capture_receipt" where
  "link_receipt r c =
     (if cr_issuer c = tr_issuer r \<and> cr_key_id c = tr_key_id r \<and> cr_fingerprint c = tr_fingerprint r \<and>
         cr_collector_root c = None
      then c\<lparr>cr_collector_root := Some (tr_id r), cr_collector_tier := tr_tier r\<rparr> else c)"

definition reconcile_existing_evidence :: "trust_root \<Rightarrow> trust_db \<Rightarrow> trust_db" where
  "reconcile_existing_evidence r db =
     (let db1 = (if tr_purpose r = Model_Publisher
                 then db\<lparr>td_attestations := map (link_attestation r) (td_attestations db)\<rparr> else db)
      in if tr_purpose r = Production_Collector
         then db1\<lparr>td_receipts := map (link_receipt r) (td_receipts db1)\<rparr> else db1)"

definition registration_json :: "root_request \<Rightarrow> json \<Rightarrow> instant \<Rightarrow> instant option \<Rightarrow> json" where
  "registration_json q jwk valid_from valid_until = JObj
     [(''schema_version'', JStr ''model-atlas-evidence-trust-root-v1''),
      (''name'', JStr (strip (rr_name q))), (''purpose'', JStr (purpose_value (rr_purpose q))),
      (''issuer'', JStr (strip (rr_issuer q))), (''key_id'', JStr (strip (rr_key_id q))),
      (''algorithm'', JStr (rr_algorithm q)), (''public_key_jwk'', jwk),
      (''trust_tier'', JStr (tier_value (rr_tier q))),
      (''source_type'', JStr (root_source_value (rr_source_type q))),
      (''source_uri'', opt_json JStr (optional_note (rr_source_uri q))),
      (''valid_from'', iso valid_from), (''valid_until'', opt_json iso valid_until),
      (''supersedes_trust_root_id'', opt_json JStr (rr_supersedes q))]"

definition new_root_action ::
  "trust_env \<Rightarrow> uuid \<Rightarrow> trust_root \<Rightarrow> root_verb \<Rightarrow> string \<Rightarrow> string option \<Rightarrow> signer_identity \<Rightarrow> instant \<Rightarrow> root_action" where
  "new_root_action env aid r verb reason ticket signer occurred =
     \<lparr>ra_id = aid, ra_root_id = tr_id r, ra_verb = verb, ra_reason = reason, ra_ticket = ticket,
      ra_actor = identity_to_json signer, ra_occurred_at = occurred,
      ra_hash = env_hash env (JObj
        [(''schema_version'', JStr ''model-atlas-evidence-trust-root-v1''), (''trust_root_id'', JStr (tr_id r)),
         (''registration_hash'', JStr (tr_hash r)), (''action_type'', JStr (root_verb_value verb)),
         (''reason'', JStr reason), (''ticket_reference'', opt_json JStr ticket),
         (''actor'', identity_to_json signer), (''occurred_at'', iso occurred)])\<rparr>"

text \<open>The checks on the root that a registration replaces.\<close>

definition rotation_target :: "root_request \<Rightarrow> instant \<Rightarrow> trust_db \<Rightarrow> registry_error + trust_root option" where
  "rotation_target q now db =
     (case rr_supersedes q of
        None \<Rightarrow> Inr None
      | Some sid \<Rightarrow>
          (case row_find tr_id sid (td_roots db) of
             None \<Rightarrow> Inl (Invalid ''superseded trust root was not found'')
           | Some s \<Rightarrow>
               if tr_purpose s \<noteq> rr_purpose q \<or> tr_issuer s \<noteq> strip (rr_issuer q)
               then Inl (Invalid ''rotated trust root must keep the same purpose and issuer'')
               else if tr_key_id s = strip (rr_key_id q) then Inl (Invalid ''rotated trust root requires a new key id'')
               else if trust_root_status db s now \<noteq> Rs_Active then Inl (Invalid ''only an active trust root can be rotated'')
               else Inr (Some s)))"

definition new_trust_root ::
  "trust_env \<Rightarrow> uuid \<Rightarrow> root_request \<Rightarrow> json \<Rightarrow> instant \<Rightarrow> instant option \<Rightarrow> string \<Rightarrow> signer_identity \<Rightarrow> instant \<Rightarrow> trust_root" where
  "new_trust_root env rid q jwk valid_from valid_until hash signer now =
     \<lparr>tr_id = rid, tr_name = strip (rr_name q), tr_purpose = rr_purpose q, tr_issuer = strip (rr_issuer q),
      tr_key_id = strip (rr_key_id q), tr_algorithm = rr_algorithm q, tr_fingerprint = env_hash env jwk,
      tr_jwk = jwk, tr_tier = rr_tier q, tr_source_type = rr_source_type q,
      tr_source_uri = optional_note (rr_source_uri q), tr_valid_from = valid_from, tr_valid_until = valid_until,
      tr_supersedes = rr_supersedes q, tr_source_id = None, tr_sync_id = None, tr_registered_at = now,
      tr_registered_by = identity_to_json signer, tr_hash = hash, tr_notes = optional_note (rr_notes q)\<rparr>"

definition create_evidence_trust_root ::
  "trust_env \<Rightarrow> root_request \<Rightarrow> signer_identity \<Rightarrow> uuid \<Rightarrow> uuid \<Rightarrow> instant \<Rightarrow> trust_db \<Rightarrow>
   registry_error + trust_db \<times> trust_root \<times> bool" where
  "create_evidence_trust_root env q signer rid aid clock db =
     bind_res (assert_governance_operator signer) (\<lambda>_.
     let now = whole_seconds clock;
         requested = (case rr_valid_from q of None \<Rightarrow> now | Some t \<Rightarrow> whole_seconds t);
         valid_until = map_option whole_seconds (rr_valid_until q);
         key_id = strip (rr_key_id q)
     in
     bind_res (require (Invalid ''trust root valid_until must be after valid_from'')
       (case valid_until of None \<Rightarrow> True | Some t \<Rightarrow> requested < t)) (\<lambda>_.
     bind_res (validated_public_jwk env (rr_jwk q) key_id (rr_algorithm q)) (\<lambda>jwk.
     bind_res (validate_source_policy q) (\<lambda>_.
     let existing = find_root db (rr_purpose q) (strip (rr_issuer q)) key_id;
         valid_from = (case (existing, rr_valid_from q) of (Some r, None) \<Rightarrow> tr_valid_from r | _ \<Rightarrow> requested);
         hash = env_hash env (registration_json q jwk valid_from valid_until)
     in case existing of
       Some r \<Rightarrow>
         if tr_hash r \<noteq> hash
         then Inl (Invalid ''trust root purpose, issuer, and key id were already registered differently'')
         else Inr (reconcile_existing_evidence r db, r, False)
     | None \<Rightarrow>
         bind_res (rotation_target q now db) (\<lambda>superseded.
         let r = new_trust_root env rid q jwk valid_from valid_until hash signer now;
             db1 = db\<lparr>td_roots := td_roots db @ [r]\<rparr>;
             db2 = (case superseded of
                      None \<Rightarrow> db1
                    | Some s \<Rightarrow> db1\<lparr>td_root_actions := td_root_actions db1 @
                        [new_root_action env aid s Root_Rotated (''Superseded by trust root '' @ rid)
                           (ticket_reference signer) signer now]\<rparr>)
         in Inr (reconcile_existing_evidence r db2, r, True))))))"

text \<open>\<^verbatim>\<open>EvidenceTrustRootActionCreate\<close> admits only retirements and revocations; another verb fails when the request is parsed.\<close>

definition record_evidence_trust_root_action ::
  "trust_env \<Rightarrow> uuid \<Rightarrow> root_verb \<Rightarrow> string \<Rightarrow> string option \<Rightarrow> signer_identity \<Rightarrow> uuid \<Rightarrow> instant \<Rightarrow> trust_db \<Rightarrow>
   registry_error + trust_db \<times> root_action" where
  "record_evidence_trust_root_action env rid verb reason ticket signer aid clock db =
     (if verb = Root_Rotated then Inl Uncaught_Exception
      else bind_res (assert_governance_operator signer) (\<lambda>_.
     case row_find tr_id rid (td_roots db) of
       None \<Rightarrow> Inl (Invalid ''evidence trust root was not found'')
     | Some r \<Rightarrow>
         let status = trust_root_status db r clock in
         if verb = Root_Retired \<and> status \<noteq> Rs_Active then Inl (Invalid ''only an active trust root can be retired'')
         else if verb = Root_Revoked \<and> status = Rs_Revoked then Inl (Invalid ''evidence trust root is already revoked'')
         else if verb = Root_Revoked \<and> text_claim (tr_registered_by r) ''subject_id'' = subject_id signer
         then Inl (Invalid ''trust root revocation requires separation from the trust root registrar'')
         else
           let a = new_root_action env aid r verb (strip reason) (optional_note ticket) signer (whole_seconds clock)
           in Inr (db\<lparr>td_root_actions := td_root_actions db @ [a]\<rparr>, a)))"

end
