(* ===== verification/Supply_Chain.thy ===== *)
theory Supply_Chain
  imports Trust_Registry
begin

text \<open>
  From a signed statement to production evidence: statements under registered keys and transparency proofs
  (the rest of \<^verbatim>\<open>services/trust_registry.py\<close>), supply-chain attestations, capture receipts and the runs they
  verify (\<^verbatim>\<open>services/supply_chain.py\<close>).
\<close>

section \<open>Statements under registered keys\<close>

text \<open>\<open>None\<close> when no root of any purpose has the issuer and the key identifier.\<close>

definition verify_registered_signed_statement ::
  "trust_env \<Rightarrow> string \<Rightarrow> trust_purpose \<Rightarrow> int \<Rightarrow> instant \<Rightarrow> trust_db \<Rightarrow>
   registry_error + (signed_statement \<times> trust_root) option" where
  "verify_registered_signed_statement env jws purpose max_age now db =
     bind_res (inspect_signed_statement env jws) (\<lambda>si.
     let roots = filter (\<lambda>r. tr_issuer r = si_issuer si \<and> tr_key_id r = si_key_id si) (td_roots db) in
     if roots = [] then Inr None
     else case filter (\<lambda>r. tr_purpose r = purpose) roots of
       [r] \<Rightarrow>
         if tr_algorithm r \<noteq> si_algorithm si
         then Inl (Invalid ''registered trust root algorithm does not match the JWS'')
         else if trust_root_status db r now \<noteq> Rs_Active
         then Inl (Invalid ''registered evidence trust root is not active'')
         else
           bind_res (verify_signed_statement_with_jwk env jws (tr_jwk r) [tr_issuer r] [tr_algorithm r] max_age now) (\<lambda>s.
           if st_fingerprint s \<noteq> tr_fingerprint r
           then Inl (Invalid ''registered evidence key fingerprint does not match'')
           else Inr (Some (s, r)))
     | _ \<Rightarrow> Inl (Invalid ''signed evidence key is not trusted for this purpose''))"

text \<open>A registered key when there is one, else the key file of the deployment.\<close>

definition verified_statement ::
  "trust_env \<Rightarrow> string \<Rightarrow> trust_purpose \<Rightarrow> jws_policy \<Rightarrow> instant \<Rightarrow> trust_db \<Rightarrow>
   registry_error + signed_statement \<times> trust_root option" where
  "verified_statement env jws purpose p now db =
     bind_res (verify_registered_signed_statement env jws purpose (jp_max_age p) now db) (\<lambda>registered.
     case registered of
       Some (s, r) \<Rightarrow> Inr (s, Some r)
     | None \<Rightarrow> bind_res (verify_signed_statement env jws p now) (\<lambda>s. Inr (s, None)))"

section \<open>Claims\<close>

definition replace_zulu :: "string \<Rightarrow> string" where
  "replace_zulu s = concat (map (\<lambda>c. if c = CHR ''Z'' then ''+00:00'' else [c]) s)"

definition datetime_claim :: "trust_env \<Rightarrow> string \<Rightarrow> json \<Rightarrow> string \<Rightarrow> registry_error + instant" where
  "datetime_claim env what claims name =
     (case te_fromiso env (replace_zulu (strip (text_claim claims name))) of
        None \<Rightarrow> Inl (Invalid (what @ name @ '' is invalid''))
      | Some (t, zone) \<Rightarrow> if \<not> zone then Inl (Invalid (what @ name @ '' requires a timezone'')) else Inr t)"

definition integer_claim :: "string \<Rightarrow> int \<Rightarrow> json \<Rightarrow> string \<Rightarrow> registry_error + int" where
  "integer_claim what least claims name =
     of_option (Invalid (what @ name @ '' is invalid''))
       (case jget claims name of JBool _ \<Rightarrow> None
        | v \<Rightarrow> (case py_int v of None \<Rightarrow> None | Some k \<Rightarrow> if k < least then None else Some k))"

definition uuid_claim :: "json \<Rightarrow> string \<Rightarrow> registry_error + uuid" where
  "uuid_claim claims name =
     of_option (Invalid (''production evidence '' @ name @ '' is invalid'')) (parse_uuid (text_claim claims name))"

definition normalized_digest :: "json \<Rightarrow> registry_error + string" where
  "normalized_digest v =
     (case normalized_hash v of
        Inl _ \<Rightarrow> Inl (Invalid ''signed evidence subject digest is not SHA-256'')
      | Inr h \<Rightarrow> Inr (''sha256:'' @ h))"

section \<open>Transparency proofs\<close>

definition attestation_revoked :: "trust_db \<Rightarrow> uuid \<Rightarrow> bool" where
  "attestation_revoked db aid \<longleftrightarrow> aid \<in> at_attestation ` set (td_attestation_actions db)"

definition validated_transparency_entry :: "json \<Rightarrow> supply_attestation \<Rightarrow> registry_error + json" where
  "validated_transparency_entry entry a =
     (let mismatch = (\<lambda>k v. text_claim entry k \<noteq> v) in
      if 262144 < length (canonical_json entry) then Inl (Invalid ''transparency entry is too large'')
      else if jget entry ''schema_version'' \<noteq> JStr ''model-atlas-transparency-entry-v1''
      then Inl (Invalid ''transparency entry schema_version is not supported'')
      else if mismatch ''supply_chain_attestation_id'' (sa_id a)
      then Inl (Invalid ''transparency entry supply_chain_attestation_id does not match'')
      else if mismatch ''attestation_hash'' (sa_hash a)
      then Inl (Invalid ''transparency entry attestation_hash does not match'')
      else if mismatch ''statement_id'' (sa_statement_id a)
      then Inl (Invalid ''transparency entry statement_id does not match'')
      else if mismatch ''subject_digest'' (sa_subject_digest a)
      then Inl (Invalid ''transparency entry subject_digest does not match'')
      else Inr entry)"

record proof_request =
  pq_attestation :: uuid
  pq_jws :: string
  pq_entry :: json
  pq_index :: int
  pq_path :: "string list"
  pq_notes :: "string option"

fun each_res :: "('a \<Rightarrow> 'e + 'b) \<Rightarrow> 'a list \<Rightarrow> 'e + 'b list" where
  "each_res f [] = Inr []"
| "each_res f (x # xs) = bind_res (f x) (\<lambda>y. bind_res (each_res f xs) (\<lambda>ys. Inr (y # ys)))"

record checked_proof =
  ck_log_id :: string
  ck_tree_size :: int
  ck_integrated_at :: instant
  ck_entry :: json
  ck_leaf_hash :: string
  ck_root_hash :: string
  ck_path :: "string list"

text \<open>The checks of the checkpoint, the entry and the inclusion path.\<close>

definition check_transparency_proof ::
  "trust_env \<Rightarrow> proof_request \<Rightarrow> json \<Rightarrow> supply_attestation \<Rightarrow> instant \<Rightarrow> registry_error + checked_proof" where
  "check_transparency_proof env q claims a now =
     (let what = ''transparency checkpoint '' in
      if jget claims ''schema_version'' \<noteq> JStr ''model-atlas-transparency-checkpoint-v1''
      then Inl (Invalid ''transparency checkpoint schema_version is not supported'')
      else
        let log_id = strip (text_claim claims ''log_id'') in
        bind_res (require (Invalid ''transparency checkpoint log_id is invalid'') (log_id \<noteq> [] \<and> length log_id \<le> 240)) (\<lambda>_.
        bind_res (integer_claim what 1 claims ''tree_size'') (\<lambda>size.
        bind_res (require (Invalid ''transparency proof log_index is outside the tree'') (pq_index q < size)) (\<lambda>_.
        bind_res (datetime_claim env what claims ''integrated_at'') (\<lambda>integrated.
        bind_res (require (Invalid ''transparency checkpoint integrated_at is in the future'')
          (integrated \<le> now + seconds 300)) (\<lambda>_.
        bind_res (validated_transparency_entry (pq_entry q) a) (\<lambda>entry.
        let leaf = transparency_leaf_hash (te_H env) entry in
        bind_res (normalized_hash (jget claims ''leaf_hash'')) (\<lambda>claimed.
        bind_res (require (Invalid ''transparency checkpoint leaf hash does not match'') (claimed = leaf)) (\<lambda>_.
        bind_res (normalized_hash (jget claims ''root_hash'')) (\<lambda>root_hash.
        bind_res (each_res (\<lambda>s. normalized_hash (JStr s)) (pq_path q)) (\<lambda>path.
        bind_res (calculate_transparency_root (te_H env) leaf (pq_index q) size path) (\<lambda>calculated.
        if calculated \<noteq> root_hash
        then Inl (Invalid ''transparency inclusion proof does not match the checkpoint'')
        else Inr \<lparr>ck_log_id = log_id, ck_tree_size = size, ck_integrated_at = integrated, ck_entry = entry,
                  ck_leaf_hash = leaf, ck_root_hash = root_hash, ck_path = path\<rparr>))))))))))))"

definition new_log_proof ::
  "trust_env \<Rightarrow> uuid \<Rightarrow> proof_request \<Rightarrow> uuid \<Rightarrow> trust_root \<Rightarrow> signed_statement \<Rightarrow> checked_proof \<Rightarrow> signer_identity \<Rightarrow>
   instant \<Rightarrow> log_proof" where
  "new_log_proof env pid q aid r s ck signer now =
     \<lparr>lp_id = pid, lp_attestation = aid, lp_root = tr_id r, lp_proof_id = st_id s, lp_log_id = ck_log_id ck,
      lp_index = pq_index q, lp_tree_size = ck_tree_size ck, lp_integrated_at = ck_integrated_at ck,
      lp_leaf_hash = ck_leaf_hash ck, lp_root_hash = ck_root_hash ck, lp_entry = ck_entry ck, lp_path = ck_path ck,
      lp_checkpoint = st_claims s, lp_jws = strip (pq_jws q), lp_algorithm = st_algorithm s,
      lp_key_id = st_key_id s, lp_fingerprint = st_fingerprint s, lp_signature_verified = True,
      lp_verified_at = now, lp_verified_by = identity_to_json signer, lp_identity_verified = True,
      lp_hash = env_hash env (JObj
        [(''schema_version'', JStr ''model-atlas-transparency-proof-v1''),
         (''supply_chain_attestation_id'', JStr aid), (''log_trust_root_id'', JStr (tr_id r)),
         (''checkpoint'', st_claims s), (''checkpoint_header'', st_header s),
         (''checkpoint_jws_hash'', JStr (env_hash env (JStr (strip (pq_jws q))))), (''entry'', ck_entry ck),
         (''log_index'', JInt (pq_index q)), (''inclusion_path'', JArr (map JStr (ck_path ck)))]),
      lp_notes = optional_note (pq_notes q)\<rparr>"

text \<open>The table keeps an attestation, a log and an index together unique.\<close>

definition same_log_entry :: "log_proof \<Rightarrow> log_proof \<Rightarrow> bool" where
  "same_log_entry p p' \<longleftrightarrow>
     lp_attestation p = lp_attestation p' \<and> lp_log_id p = lp_log_id p' \<and> lp_index p = lp_index p'"

definition create_transparency_proof ::
  "trust_env \<Rightarrow> proof_request \<Rightarrow> signer_identity \<Rightarrow> int \<Rightarrow> uuid \<Rightarrow> instant \<Rightarrow> trust_db \<Rightarrow>
   registry_error + trust_db \<times> log_proof \<times> bool" where
  "create_transparency_proof env q signer max_age pid clock db =
     bind_res (assert_evidence_operator signer) (\<lambda>_.
     let now = whole_seconds clock in
     case row_find sa_id (pq_attestation q) (td_attestations db) of
       None \<Rightarrow> Inl (Invalid ''supply-chain attestation was not found'')
     | Some a \<Rightarrow>
         if attestation_revoked db (sa_id a)
         then Inl (Invalid ''transparency proof cannot attach to a revoked attestation'')
         else
           bind_res (verify_registered_signed_statement env (pq_jws q) Transparency_Purpose max_age now db) (\<lambda>registered.
           case registered of
             None \<Rightarrow> Inl (Invalid ''transparency proof requires a managed log trust root'')
           | Some (s, r) \<Rightarrow>
               bind_res (check_transparency_proof env q (st_claims s) a now) (\<lambda>ck.
               let p = new_log_proof env pid q (sa_id a) r s ck signer now in
               case find (\<lambda>p. lp_proof_id p = st_id s) (td_proofs db) of
                 Some old \<Rightarrow>
                   if lp_hash old \<noteq> lp_hash p
                   then Inl (Invalid ''transparency proof id was already used with different content'')
                   else Inr (db, old, False)
               | None \<Rightarrow>
                   if list_ex (same_log_entry p) (td_proofs db) then Inl Integrity_Failed
                   else Inr (db\<lparr>td_proofs := td_proofs db @ [p]\<rparr>, p, True))))"

section \<open>Eligibility for production\<close>

definition proof_eligible :: "trust_db \<Rightarrow> instant \<Rightarrow> log_proof \<Rightarrow> bool" where
  "proof_eligible db now p \<longleftrightarrow>
     lp_signature_verified p \<and> lp_identity_verified p \<and>
     trust_root_is_production_eligible db (row_find tr_id (lp_root p) (td_roots db)) now"

datatype transparency_status = Log_Missing | Log_Verified | Log_Development | Log_Invalidated

definition supply_chain_transparency_status :: "trust_db \<Rightarrow> supply_attestation \<Rightarrow> instant \<Rightarrow> transparency_status" where
  "supply_chain_transparency_status db a now =
     (let proofs = filter (\<lambda>p. lp_attestation p = sa_id a) (td_proofs db) in
      if proofs = [] then Log_Missing
      else if list_ex (proof_eligible db now) proofs then Log_Verified
      else if list_ex (\<lambda>p. lp_signature_verified p \<and> lp_identity_verified p \<and>
          (case row_find tr_id (lp_root p) (td_roots db) of
             None \<Rightarrow> False
           | Some r \<Rightarrow> tr_tier r = Tier_Development \<and> trust_root_status db r now = Rs_Active)) proofs
      then Log_Development
      else Log_Invalidated)"

definition supply_chain_is_production_eligible :: "trust_db \<Rightarrow> supply_attestation \<Rightarrow> instant \<Rightarrow> bool" where
  "supply_chain_is_production_eligible db a now \<longleftrightarrow>
     \<not> attestation_revoked db (sa_id a) \<and>
     trust_root_is_production_eligible db
       (case sa_publisher_root a of None \<Rightarrow> None | Some i \<Rightarrow> row_find tr_id i (td_roots db)) now \<and>
     supply_chain_transparency_status db a now = Log_Verified"

definition production_receipt_is_eligible :: "trust_db \<Rightarrow> capture_receipt \<Rightarrow> instant \<Rightarrow> bool" where
  "production_receipt_is_eligible db c now \<longleftrightarrow>
     cr_signature_verified c \<and> cr_identity_verified c \<and>
     trust_root_is_production_eligible db
       (case cr_collector_root c of None \<Rightarrow> None | Some i \<Rightarrow> row_find tr_id i (td_roots db)) now \<and>
     (case row_find sa_id (cr_attestation c) (td_attestations db) of
        None \<Rightarrow> False
      | Some a \<Rightarrow> supply_chain_is_production_eligible db a now)"

definition verified_production_run_ids :: "trust_db \<Rightarrow> instant \<Rightarrow> uuid list \<Rightarrow> uuid list" where
  "verified_production_run_ids db now run_ids =
     fromkeys (map cr_run_id
       (filter (\<lambda>c. cr_run_id c \<in> set run_ids \<and> cr_signature_verified c \<and> cr_identity_verified c \<and>
          \<not> attestation_revoked db (cr_attestation c) \<and> production_receipt_is_eligible db c now) (td_receipts db)))"

section \<open>Supply-chain attestations\<close>

definition assert_supply_chain_operator :: "signer_identity \<Rightarrow> registry_error + unit" where
  "assert_supply_chain_operator sg =
     require (Invalid ''supply-chain evidence requires a verified maintenance operator'') (maintenance_identity sg)"

definition IN_TOTO_STATEMENT_TYPE :: string where
  "IN_TOTO_STATEMENT_TYPE = ''https://in-toto.io/Statement/v1''"

definition SUPPLY_CHAIN_PREDICATE_TYPE :: string where
  "SUPPLY_CHAIN_PREDICATE_TYPE = ''https://model-atlas.dev/attestations/model-supply-chain/v1''"

definition MAX_SBOM_BYTES :: nat where
  "MAX_SBOM_BYTES = 1048576"

definition validated_cyclonedx_sbom :: "json \<Rightarrow> registry_error + json" where
  "validated_cyclonedx_sbom sbom =
     (if MAX_SBOM_BYTES < length (canonical_json sbom) then Inl (Invalid ''CycloneDX SBOM is too large'')
      else if jget sbom ''bomFormat'' \<noteq> JStr ''CycloneDX'' then Inl (Invalid ''SBOM format must be CycloneDX'')
      else if strip (text_claim sbom ''specVersion'') \<notin> {''1.4'', ''1.5'', ''1.6''}
      then Inl (Invalid ''CycloneDX SBOM specVersion is not supported'')
      else case jget sbom ''components'' of
        JArr (c # cs) \<Rightarrow>
          if list_all (\<lambda>c. is_dict c \<and> strip (text_claim c ''name'') \<noteq> [] \<and> strip (text_claim c ''type'') \<noteq> []) (c # cs)
          then Inr sbom else Inl (Invalid ''CycloneDX SBOM contains an invalid component'')
      | _ \<Rightarrow> Inl (Invalid ''CycloneDX SBOM must contain components''))"

definition sbom_reference_ok :: "trust_env \<Rightarrow> json \<Rightarrow> json \<Rightarrow> bool" where
  "sbom_reference_ok env ref sbom \<longleftrightarrow>
     jget ref ''format'' = JStr ''CycloneDX'' \<and> jget ref ''spec_version'' = jget sbom ''specVersion'' \<and>
     is_dict (jget ref ''digest'') \<and> jget (jget ref ''digest'') ''sha256'' = JStr (env_hash env sbom)"

definition validated_supply_chain_statement ::
  "trust_env \<Rightarrow> json \<Rightarrow> artifact_attestation \<Rightarrow> json \<Rightarrow> registry_error + string" where
  "validated_supply_chain_statement env claims aa sbom =
     (if jget claims ''_type'' \<noteq> JStr IN_TOTO_STATEMENT_TYPE
      then Inl (Invalid ''supply-chain statement _type is not supported'')
      else if jget claims ''predicateType'' \<noteq> JStr SUPPLY_CHAIN_PREDICATE_TYPE
      then Inl (Invalid ''supply-chain predicateType is not supported'')
      else case jget claims ''subject'' of
        JArr [subject] \<Rightarrow>
          if \<not> is_dict (jget subject ''digest'') then Inl (Invalid ''supply-chain subject digest is missing'')
          else
            bind_res (normalized_digest (jget (jget subject ''digest'') ''sha256'')) (\<lambda>digest.
            let predicate = jget claims ''predicate'' in
            if digest \<noteq> aa_digest aa then Inl (Invalid ''supply-chain subject digest does not match the artifact'')
            else if \<not> is_dict predicate then Inl (Invalid ''supply-chain predicate is missing'')
            else if jget predicate ''artifact_attestation_hash'' \<noteq> JStr (aa_hash aa)
            then Inl (Invalid ''supply-chain runtime attestation hash does not match'')
            else if jget predicate ''runtime_manifest_hash'' \<noteq> JStr (aa_manifest_hash aa)
            then Inl (Invalid ''supply-chain runtime manifest hash does not match'')
            else if \<not> is_dict (jget predicate ''sbom'') then Inl (Invalid ''supply-chain SBOM reference is missing'')
            else if \<not> sbom_reference_ok env (jget predicate ''sbom'') sbom
            then Inl (Invalid ''supply-chain SBOM reference does not match the SBOM'')
            else Inr digest)
      | _ \<Rightarrow> Inl (Invalid ''supply-chain statement requires exactly one subject''))"

record attestation_request =
  aq_artifact :: uuid
  aq_jws :: string
  aq_sbom :: json
  aq_notes :: "string option"

definition new_supply_attestation ::
  "trust_env \<Rightarrow> uuid \<Rightarrow> attestation_request \<Rightarrow> artifact_attestation \<Rightarrow> signed_statement \<Rightarrow> trust_root option \<Rightarrow> string \<Rightarrow>
   signer_identity \<Rightarrow> instant \<Rightarrow> supply_attestation" where
  "new_supply_attestation env said q aa s publisher digest signer now =
     \<lparr>sa_id = said, sa_artifact_attestation = aa_id aa, sa_publisher_root = map_option tr_id publisher,
      sa_publisher_tier = (case publisher of None \<Rightarrow> Tier_Development | Some r \<Rightarrow> tr_tier r),
      sa_statement_id = st_id s, sa_publisher = st_issuer s, sa_key_id = st_key_id s,
      sa_algorithm = st_algorithm s, sa_fingerprint = st_fingerprint s, sa_subject_digest = digest,
      sa_sbom_version = py_str (jget (aq_sbom q) ''specVersion''), sa_sbom_digest = env_hash env (aq_sbom q),
      sa_sbom = aq_sbom q, sa_statement = st_claims s, sa_jws = strip (aq_jws q), sa_signature_verified = True,
      sa_verified_at = whole_seconds now, sa_verified_by = identity_to_json signer, sa_identity_verified = True,
      sa_hash = env_hash env (JObj
        [(''schema_version'', JStr ''model-supply-chain-attestation-v1''),
         (''runtime_attestation_id'', JStr (aa_id aa)), (''statement'', st_claims s),
         (''statement_header'', st_header s), (''statement_jws_hash'', JStr (env_hash env (JStr (strip (aq_jws q))))),
         (''key_fingerprint'', JStr (st_fingerprint s)), (''sbom_digest'', JStr (env_hash env (aq_sbom q)))]),
      sa_notes = optional_note (aq_notes q)\<rparr>"

definition create_model_supply_chain_attestation ::
  "trust_env \<Rightarrow> jws_policy \<Rightarrow> attestation_request \<Rightarrow> signer_identity \<Rightarrow> uuid \<Rightarrow> instant \<Rightarrow> trust_db \<Rightarrow>
   registry_error + trust_db \<times> supply_attestation \<times> bool" where
  "create_model_supply_chain_attestation env p q signer said now db =
     bind_res (assert_supply_chain_operator signer) (\<lambda>_.
     case row_find aa_id (aq_artifact q) (td_artifacts db) of
       None \<Rightarrow> Inl (Invalid ''model artifact runtime attestation was not found'')
     | Some aa \<Rightarrow>
         if aa_status aa \<noteq> ''verified'' \<or> \<not> aa_identity_verified aa
         then Inl (Invalid ''runtime attestation is not active and verified'')
         else
           bind_res (verified_statement env (aq_jws q) Model_Publisher p now db) (\<lambda>(s, publisher).
           bind_res (validated_cyclonedx_sbom (aq_sbom q)) (\<lambda>sbom.
           bind_res (validated_supply_chain_statement env (st_claims s) aa sbom) (\<lambda>digest.
           let a = new_supply_attestation env said q aa s publisher digest signer now in
           case find (\<lambda>a. sa_statement_id a = st_id s) (td_attestations db) of
             Some old \<Rightarrow>
               if sa_hash old \<noteq> sa_hash a
               then Inl (Invalid ''signed supply-chain statement id was already used with different content'')
               else Inr (db, old, False)
           | None \<Rightarrow> Inr (db\<lparr>td_attestations := td_attestations db @ [a]\<rparr>, a, True)))))"

definition revoke_model_supply_chain_attestation ::
  "trust_env \<Rightarrow> uuid \<Rightarrow> string \<Rightarrow> string option \<Rightarrow> signer_identity \<Rightarrow> uuid \<Rightarrow> instant \<Rightarrow> trust_db \<Rightarrow>
   registry_error + trust_db \<times> attestation_action" where
  "revoke_model_supply_chain_attestation env said reason ticket signer act clock db =
     bind_res (assert_supply_chain_operator signer) (\<lambda>_.
     case row_find sa_id said (td_attestations db) of
       None \<Rightarrow> Inl (Invalid ''model supply-chain attestation was not found'')
     | Some a \<Rightarrow>
         let verifier = text_claim (sa_verified_by a) ''subject_id''; now = whole_seconds clock in
         if attestation_revoked db (sa_id a)
         then Inl (Invalid ''model supply-chain attestation is already revoked'')
         else if verifier \<noteq> [] \<and> verifier = subject_id signer
         then Inl (Invalid ''supply-chain revocation requires separation from the attestation verifier'')
         else
           let x = \<lparr>at_id = act, at_attestation = sa_id a, at_reason = strip reason,
                    at_ticket = optional_note ticket, at_actor = identity_to_json signer, at_occurred_at = now,
                    at_hash = env_hash env (JObj
                      [(''schema_version'', JStr ''model-supply-chain-attestation-v1''),
                       (''supply_chain_attestation_id'', JStr (sa_id a)), (''action_type'', JStr ''revoked''),
                       (''reason'', JStr (strip reason)), (''ticket_reference'', opt_json JStr (optional_note ticket)),
                       (''actor'', identity_to_json signer), (''occurred_at'', iso now)])\<rparr>
           in Inr (db\<lparr>td_attestation_actions := td_attestation_actions db @ [x]\<rparr>, x))"

section \<open>Capture receipts\<close>

definition production_captured :: string where
  "production_captured = ''production_captured''"

definition run_results :: "trust_db \<Rightarrow> uuid \<Rightarrow> bench_result list" where
  "run_results db rid = filter (\<lambda>b. br_run_id b = rid) (e_results (td_evidence db))"

definition run_metrics :: "trust_db \<Rightarrow> uuid \<Rightarrow> inf_metric list" where
  "run_metrics db rid = filter (\<lambda>m. im_run_id m = rid) (e_metrics (td_evidence db))"

text \<open>The rows a receipt refers to.\<close>

definition receipt_chain ::
  "json \<Rightarrow> trust_db \<Rightarrow> registry_error + bench_run \<times> artifact_attestation \<times> supply_attestation" where
  "receipt_chain claims db =
     bind_res (uuid_claim claims ''benchmark_run_id'') (\<lambda>run_id.
     bind_res (uuid_claim claims ''model_artifact_attestation_id'') (\<lambda>aid.
     bind_res (uuid_claim claims ''supply_chain_attestation_id'') (\<lambda>said.
     case row_find rn_id run_id (e_runs (td_evidence db)) of
       None \<Rightarrow> Inl (Invalid ''production evidence benchmark run was not found'')
     | Some run \<Rightarrow>
         (case (row_find aa_id aid (td_artifacts db), row_find sa_id said (td_attestations db)) of
            (Some aa, Some a) \<Rightarrow>
              if sa_artifact_attestation a \<noteq> aa_id aa
              then Inl (Invalid ''production evidence attestation chain does not match'')
              else if attestation_revoked db (sa_id a)
              then Inl (Invalid ''production evidence supply-chain attestation is revoked'')
              else Inr (run, aa, a)
          | _ \<Rightarrow> Inl (Invalid ''production evidence attestation chain was not found'')))))"

definition check_receipt_scope ::
  "json \<Rightarrow> bench_run \<Rightarrow> artifact_attestation \<Rightarrow> supply_attestation \<Rightarrow> trust_db \<Rightarrow> registry_error + string" where
  "check_receipt_scope claims run aa a db =
     (if rn_status run \<noteq> ''completed'' \<or> rn_data_source run \<noteq> production_captured
      then Inl (Invalid ''production evidence requires a completed production_captured benchmark run'')
      else if td_run_artifact db (rn_id run) \<noteq> Some (aa_artifact_id aa)
      then Inl (Invalid ''production evidence model artifact does not match the run'')
      else if text_claim claims ''deployment_configuration_id'' \<noteq> text_or_empty (rn_config_id run)
      then Inl (Invalid ''production evidence deployment configuration does not match'')
      else
        bind_res (normalized_digest (jget claims ''subject_digest'')) (\<lambda>digest.
        if digest \<noteq> aa_digest aa then Inl (Invalid ''production evidence artifact digest does not match'')
        else if jget claims ''artifact_attestation_hash'' \<noteq> JStr (aa_hash aa)
        then Inl (Invalid ''production evidence runtime attestation hash does not match'')
        else if jget claims ''supply_chain_attestation_hash'' \<noteq> JStr (sa_hash a)
        then Inl (Invalid ''production evidence supply-chain hash does not match'')
        else if list_ex (\<lambda>b. br_data_source b \<noteq> production_captured) (run_results db (rn_id run))
        then Inl (Invalid ''production evidence run contains results without production provenance'')
        else Inr digest))"

definition check_receipt_counts :: "json \<Rightarrow> bench_run \<Rightarrow> trust_db \<Rightarrow> registry_error + int \<times> int" where
  "check_receipt_counts claims run db =
     (let results = int (length (run_results db (rn_id run)));
          metrics = int (length (run_metrics db (rn_id run))); what = ''production evidence '' in
      bind_res (integer_claim what 0 claims ''result_count'') (\<lambda>n.
      bind_res (require (Invalid ''production evidence result_count does not match'') (n = results)) (\<lambda>_.
      bind_res (integer_claim what 0 claims ''metric_count'') (\<lambda>m.
      bind_res (require (Invalid ''production evidence metric_count does not match'') (m = metrics)) (\<lambda>_.
      Inr (results, metrics))))))"

definition check_receipt_window :: "trust_env \<Rightarrow> json \<Rightarrow> instant \<Rightarrow> registry_error + instant \<times> instant" where
  "check_receipt_window env claims now =
     (let what = ''production evidence '' in
      bind_res (datetime_claim env what claims ''capture_started_at'') (\<lambda>t0.
      bind_res (datetime_claim env what claims ''capture_ended_at'') (\<lambda>t1.
      bind_res (require (Invalid ''production evidence capture window is invalid'') (t0 \<le> t1)) (\<lambda>_.
      bind_res (require (Invalid ''production evidence capture window ends in the future'')
        (t1 \<le> now + seconds 300)) (\<lambda>_.
      let place = jget claims ''source_environment'' in
      if \<not> is_dict place \<or> strip (text_claim place ''name'') = []
      then Inl (Invalid ''production evidence source_environment is invalid'')
      else Inr (t0, t1))))))"

definition receipt_hash :: "trust_env \<Rightarrow> signed_statement \<Rightarrow> string \<Rightarrow> string" where
  "receipt_hash env s jws =
     env_hash env (JObj
       [(''schema_version'', JStr ''model-atlas-production-capture-v1''), (''statement'', st_claims s),
        (''statement_header'', st_header s), (''statement_jws_hash'', JStr (env_hash env (JStr (strip jws)))),
        (''key_fingerprint'', JStr (st_fingerprint s))])"

definition new_receipt ::
  "trust_env \<Rightarrow> uuid \<Rightarrow> string \<Rightarrow> string option \<Rightarrow> signed_statement \<Rightarrow> trust_root option \<Rightarrow> bench_run \<Rightarrow>
   artifact_attestation \<Rightarrow> supply_attestation \<Rightarrow> string \<Rightarrow> int \<times> int \<Rightarrow> instant \<times> instant \<Rightarrow> signer_identity \<Rightarrow> instant \<Rightarrow>
   capture_receipt" where
  "new_receipt env cid jws notes s collector run aa a digest counts window signer now =
     \<lparr>cr_id = cid, cr_run_id = rn_id run, cr_artifact_attestation = aa_id aa, cr_attestation = sa_id a,
      cr_collector_root = map_option tr_id collector,
      cr_collector_tier = (case collector of None \<Rightarrow> Tier_Development | Some r \<Rightarrow> tr_tier r),
      cr_capture_id = st_id s, cr_issuer = st_issuer s, cr_key_id = st_key_id s, cr_algorithm = st_algorithm s,
      cr_fingerprint = st_fingerprint s, cr_subject_digest = digest,
      cr_environment = jget (st_claims s) ''source_environment'', cr_started_at = fst window,
      cr_ended_at = snd window, cr_result_count = fst counts, cr_metric_count = snd counts,
      cr_statement = st_claims s, cr_jws = strip jws, cr_signature_verified = True,
      cr_verified_at = whole_seconds now, cr_verified_by = identity_to_json signer, cr_identity_verified = True,
      cr_hash = receipt_hash env s jws, cr_notes = optional_note notes\<rparr>"

definition create_production_evidence_receipt ::
  "trust_env \<Rightarrow> jws_policy \<Rightarrow> string \<Rightarrow> string option \<Rightarrow> signer_identity \<Rightarrow> uuid \<Rightarrow> instant \<Rightarrow> trust_db \<Rightarrow>
   registry_error + trust_db \<times> capture_receipt \<times> bool" where
  "create_production_evidence_receipt env p jws notes signer cid now db =
     bind_res (assert_supply_chain_operator signer) (\<lambda>_.
     bind_res (verified_statement env jws Production_Collector p now db) (\<lambda>(s, collector).
     let claims = st_claims s in
     if jget claims ''schema_version'' \<noteq> JStr ''model-atlas-production-capture-v1''
     then Inl (Invalid ''production evidence schema_version is not supported'')
     else
       bind_res (receipt_chain claims db) (\<lambda>(run, aa, a).
       bind_res (check_receipt_scope claims run aa a db) (\<lambda>digest.
       bind_res (check_receipt_counts claims run db) (\<lambda>counts.
       bind_res (check_receipt_window env claims now) (\<lambda>window.
       let c = new_receipt env cid jws notes s collector run aa a digest counts window signer now in
       case find (\<lambda>c. cr_capture_id c = st_id s) (td_receipts db) of
         Some old \<Rightarrow>
           if cr_hash old \<noteq> cr_hash c
           then Inl (Invalid ''production evidence capture id was already used with different content'')
           else Inr (db, old, False)
       | None \<Rightarrow> Inr (db\<lparr>td_receipts := td_receipts db @ [c]\<rparr>, c, True)))))))"

end
