(* ===== verification/Trust_Sync.thy ===== *)
theory Trust_Sync
  imports Supply_Chain
begin

text \<open>
  \<^verbatim>\<open>services/trust_source_sync.py\<close>: the registration of trust sources and their synchronisation, which fetches the
  key set of a source, compares it with the registry and imports the new keys as trust roots. Every
  outcome after the guards, a failure too, is a row of \<^verbatim>\<open>evidence_trust_source_syncs\<close>.

  The HTTP client is the parameter \<open>sn_get\<close>; a response carries its status, its content type, the chunks read and
  whether the connection broke. \<open>conflict\<close> says that the database rejects the import, because another
  transaction registered one of the keys in the meantime.
\<close>

datatype key_response = Source_Unreachable | Source_Response int string "string list" bool

record sync_env =
  sn_trust :: trust_env
  sn_get :: "string \<Rightarrow> key_response"
  sn_hosts :: "string list"
  sn_insecure_http :: bool
  sn_max_bytes :: int

record sync_context =
  sx_trigger :: sync_trigger
  sx_schedule :: "uuid option"
  sx_job :: "uuid option"
  sx_attempt :: int
  sx_scheduled_for :: "instant option"

definition manual_context :: sync_context where
  "manual_context =
     \<lparr>sx_trigger = Manual_Sync, sx_schedule = None, sx_job = None, sx_attempt = 1, sx_scheduled_for = None\<rparr>"

section \<open>Sources\<close>

definition ends_with :: "string \<Rightarrow> string \<Rightarrow> bool" where
  "ends_with s t \<longleftrightarrow> prefix (rev t) (rev s)"

definition host_is_allowed :: "string \<Rightarrow> string list \<Rightarrow> bool" where
  "host_is_allowed host allowed =
     list_ex (\<lambda>raw. let v = lower (strip raw) in
       v \<noteq> [] \<and> (prefix ''*.'' v \<and> ends_with host (drop 1 v) \<and> host \<noteq> drop 2 v \<or> host = v)) allowed"

definition validate_trust_source_url ::
  "sync_env \<Rightarrow> string \<Rightarrow> trust_tier \<Rightarrow> bool \<Rightarrow> registry_error + unit" where
  "validate_trust_source_url env url tier insecure =
     (case te_urlsplit (sn_trust env) url of
        None \<Rightarrow> Inl Uncaught_Exception
      | Some u \<Rightarrow>
          let scheme = lower (ur_scheme u); host = lower (text_or_empty (ur_hostname u)) in
          if text_set (ur_username u) \<or> text_set (ur_password u)
          then Inl (Invalid ''trust source URLs cannot contain credentials'')
          else if ur_query u \<noteq> [] \<or> ur_fragment u \<noteq> []
          then Inl (Invalid ''trust source URLs cannot contain query strings or fragments'')
          else if host = [] \<or> \<not> host_is_allowed host (sn_hosts env)
          then Inl (Invalid ''trust source host is not in TRUST_SOURCE_ALLOWED_HOSTS'')
          else if scheme = ''https'' then Inr ()
          else if scheme = ''http'' \<and> tier = Tier_Development \<and> insecure \<and> sn_insecure_http env then Inr ()
          else Inl (Invalid ''trust sources require HTTPS''))"

record source_request =
  sq_name :: string
  sq_purpose :: trust_purpose
  sq_issuer :: string
  sq_tier :: trust_tier
  sq_endpoint :: string
  sq_algorithms :: "string list"
  sq_insecure_http :: bool
  sq_freshness :: int
  sq_enabled :: bool
  sq_notes :: "string option"

definition configuration_json :: "source_request \<Rightarrow> json" where
  "configuration_json q = JObj
     [(''schema_version'', JStr ''model-atlas-evidence-trust-source-v1''), (''name'', JStr (strip (sq_name q))),
      (''source_kind'', JStr ''jwks''), (''purpose'', JStr (purpose_value (sq_purpose q))),
      (''issuer'', JStr (strip (sq_issuer q))), (''trust_tier'', JStr (tier_value (sq_tier q))),
      (''endpoint_url'', JStr (strip (sq_endpoint q))),
      (''allowed_algorithms'', JArr (map JStr (sorted_set (sq_algorithms q)))),
      (''allow_insecure_http'', JBool (sq_insecure_http q)), (''freshness_seconds'', JInt (sq_freshness q)),
      (''enabled'', JBool (sq_enabled q))]"

definition new_trust_source ::
  "trust_env \<Rightarrow> uuid \<Rightarrow> source_request \<Rightarrow> signer_identity \<Rightarrow> instant \<Rightarrow> trust_source" where
  "new_trust_source env sid q signer now =
     \<lparr>ts_id = sid, ts_name = strip (sq_name q), ts_purpose = sq_purpose q, ts_issuer = strip (sq_issuer q),
      ts_tier = sq_tier q, ts_endpoint = strip (sq_endpoint q), ts_algorithms = sorted_set (sq_algorithms q),
      ts_insecure_http = sq_insecure_http q, ts_freshness = sq_freshness q, ts_enabled = sq_enabled q,
      ts_registered_at = now, ts_registered_by = identity_to_json signer,
      ts_hash = env_hash env (configuration_json q), ts_notes = optional_note (sq_notes q)\<rparr>"

definition create_evidence_trust_source ::
  "sync_env \<Rightarrow> source_request \<Rightarrow> signer_identity \<Rightarrow> uuid \<Rightarrow> instant \<Rightarrow> trust_db \<Rightarrow>
   registry_error + trust_db \<times> trust_source \<times> bool" where
  "create_evidence_trust_source env q signer sid clock db =
     bind_res (assert_governance_operator signer) (\<lambda>_.
     bind_res (validate_trust_source_url env (strip (sq_endpoint q)) (sq_tier q) (sq_insecure_http q)) (\<lambda>_.
     bind_res (require (Invalid ''insecure HTTP trust sources are limited to the development tier'')
       (sq_insecure_http q \<longrightarrow> sq_tier q = Tier_Development)) (\<lambda>_.
     let s = new_trust_source (sn_trust env) sid q signer (whole_seconds clock) in
     case find (\<lambda>x. ts_name x = ts_name s) (td_sources db) of
       Some old \<Rightarrow>
         if ts_hash old \<noteq> ts_hash s
         then Inl (Invalid ''trust source name was already registered with different configuration'')
         else Inr (db, old, False)
     | None \<Rightarrow>
         if list_ex (\<lambda>x. ts_purpose x = ts_purpose s \<and> ts_issuer x = ts_issuer s \<and> ts_endpoint x = ts_endpoint s)
           (td_sources db)
         then Inl (Invalid ''trust source purpose, issuer, and endpoint are already registered'')
         else Inr (db\<lparr>td_sources := td_sources db @ [s]\<rparr>, s, True))))"

section \<open>Fetching and reading the key set\<close>

text \<open>A \<^verbatim>\<open>TrustSourceFetchError\<close>: its code, its text and the HTTP status.\<close>

record fetch_error =
  fe_code :: string
  fe_message :: string
  fe_status :: "int option"

definition JWKS_CONTENT_TYPES :: "string list" where
  "JWKS_CONTENT_TYPES = [''application/json'', ''application/jwk-set+json'']"

definition MAX_JWKS_KEYS :: nat where
  "MAX_JWKS_KEYS = 100"

text \<open>The loop over the chunks; \<open>None\<close> when the size limit is passed.\<close>

fun collect_chunks :: "int \<Rightarrow> string list \<Rightarrow> string \<Rightarrow> string option" where
  "collect_chunks limit [] acc = Some acc"
| "collect_chunks limit (c # cs) acc =
     (if limit < int (length (acc @ c)) then None else collect_chunks limit cs (acc @ c))"

definition fetch_remote_jwks :: "sync_env \<Rightarrow> trust_source \<Rightarrow> fetch_error + json" where
  "fetch_remote_jwks env s =
     (let failed = (\<lambda>code msg status. Inl \<lparr>fe_code = code, fe_message = msg, fe_status = status\<rparr>) in
      case sn_get env (ts_endpoint s) of
        Source_Unreachable \<Rightarrow> failed ''transport_error'' ''trust source could not be reached'' None
      | Source_Response status ctype chunks broken \<Rightarrow>
          if status \<noteq> 200
          then failed ''http_status'' (''trust source returned HTTP '' @ show_int status) (Some status)
          else if lower (strip (takeWhile (\<lambda>c. c \<noteq> CHR '';'') ctype)) \<notin> set JWKS_CONTENT_TYPES
          then failed ''content_type'' ''trust source response is not a JWKS JSON content type'' (Some status)
          else case collect_chunks (sn_max_bytes env) chunks [] of
            None \<Rightarrow> failed ''payload_too_large'' ''trust source JWKS exceeds the configured size limit'' (Some status)
          | Some body \<Rightarrow>
              if broken then failed ''transport_error'' ''trust source could not be reached'' None
              else (case te_loads (sn_trust env) body of
                 None \<Rightarrow> failed ''invalid_json'' ''trust source response is not valid UTF-8 JSON'' (Some 200)
               | Some j \<Rightarrow>
                   if is_dict j then Inr j
                   else failed ''invalid_jwks'' ''trust source JWKS must be a JSON object'' (Some 200)))"

record remote_key =
  rk_key_id :: string
  rk_algorithm :: string
  rk_fingerprint :: string
  rk_jwk :: json

definition remote_key_of :: "trust_env \<Rightarrow> trust_source \<Rightarrow> string list \<Rightarrow> json \<Rightarrow> registry_error + remote_key" where
  "remote_key_of env s seen v =
     (if \<not> is_dict v then Inl (Invalid ''trust source JWKS keys must be JSON objects'')
      else
        let kid = strip (text_claim v ''kid''); alg = strip (text_claim v ''alg'') in
        if kid = [] \<or> 200 < length kid then Inl (Invalid ''trust source JWK kid is invalid'')
        else if kid \<in> set seen then Inl (Invalid ''trust source JWKS contains duplicate key ids'')
        else if alg \<notin> set (ts_algorithms s)
        then Inl (Invalid ''trust source JWK algorithm is not allowed by the source policy'')
        else bind_res (validated_public_jwk env v kid alg) (\<lambda>jwk.
          Inr \<lparr>rk_key_id = kid, rk_algorithm = alg, rk_fingerprint = env_hash env jwk, rk_jwk = jwk\<rparr>))"

fun remote_keys_of ::
  "trust_env \<Rightarrow> trust_source \<Rightarrow> string list \<Rightarrow> json list \<Rightarrow> registry_error + remote_key list" where
  "remote_keys_of env s seen [] = Inr []"
| "remote_keys_of env s seen (v # vs) =
     bind_res (remote_key_of env s seen v) (\<lambda>k.
     bind_res (remote_keys_of env s (rk_key_id k # seen) vs) (\<lambda>ks. Inr (k # ks)))"

definition validated_remote_keys :: "trust_env \<Rightarrow> trust_source \<Rightarrow> json \<Rightarrow> registry_error + remote_key list" where
  "validated_remote_keys env s payload =
     (case jget payload ''keys'' of
        JArr (v # vs) \<Rightarrow>
          if MAX_JWKS_KEYS < length (v # vs) then Inl (Invalid ''trust source JWKS contains too many keys'')
          else bind_res (remote_keys_of env s [] (v # vs)) (\<lambda>ks. Inr (sort_key rk_key_id ks))
      | _ \<Rightarrow> Inl (Invalid ''trust source JWKS must contain a non-empty keys list''))"

text \<open>The keys that are new to the registry, and those it has; a key with another fingerprint is an error.\<close>

fun classify_remote_keys ::
  "trust_source \<Rightarrow> trust_db \<Rightarrow> remote_key list \<Rightarrow> registry_error + remote_key list \<times> remote_key list" where
  "classify_remote_keys s db [] = Inr ([], [])"
| "classify_remote_keys s db (k # ks) =
     (case find_root db (ts_purpose s) (ts_issuer s) (rk_key_id k) of
        None \<Rightarrow> bind_res (classify_remote_keys s db ks) (\<lambda>(cs, us). Inr (k # cs, us))
      | Some r \<Rightarrow>
          if tr_fingerprint r \<noteq> rk_fingerprint k
          then Inl (Invalid (''trust source key '' @ rk_key_id k @ '' collides with a different fingerprint''))
          else bind_res (classify_remote_keys s db ks) (\<lambda>(cs, us). Inr (cs, k # us)))"

section \<open>One synchronisation\<close>

text \<open>What the fetch and the checks of its result established, and how they ended.\<close>

record source_observation =
  so_http :: "int option"
  so_payload_hash :: "string option"
  so_keys :: "remote_key list"
  so_result :: "(string \<times> string) + (remote_key list \<times> remote_key list)"

definition observe_source :: "sync_env \<Rightarrow> trust_source \<Rightarrow> trust_db \<Rightarrow> source_observation" where
  "observe_source env s db =
     (case fetch_remote_jwks env s of
        Inl e \<Rightarrow> \<lparr>so_http = fe_status e, so_payload_hash = None, so_keys = [], so_result = Inl (fe_code e, fe_message e)\<rparr>
      | Inr payload \<Rightarrow>
          let hash = Some (env_hash (sn_trust env) payload) in
          case validated_remote_keys (sn_trust env) s payload of
            Inr keys \<Rightarrow>
              \<lparr>so_http = Some 200, so_payload_hash = hash, so_keys = keys,
               so_result = (case classify_remote_keys s db keys of
                  Inl (Invalid msg) \<Rightarrow>
                    Inl (if contains ''different fingerprint'' msg then ''key_collision'' else ''invalid_jwks'', msg)
                | Inl _ \<Rightarrow> Inl (''invalid_jwks'', [])
                | Inr cu \<Rightarrow> Inr cu)\<rparr>
          | Inl (Invalid msg) \<Rightarrow>
              \<lparr>so_http = Some 200, so_payload_hash = hash, so_keys = [],
               so_result = Inl (if contains ''different fingerprint'' msg then ''key_collision'' else ''invalid_jwks'', msg)\<rparr>
          | Inl _ \<Rightarrow> \<lparr>so_http = Some 200, so_payload_hash = hash, so_keys = [], so_result = Inl (''invalid_jwks'', [])\<rparr>)"

definition sync_json ::
  "uuid \<Rightarrow> trust_source \<Rightarrow> sync_mode \<Rightarrow> sync_status \<Rightarrow> instant \<Rightarrow> string option \<Rightarrow> signer_identity \<Rightarrow> sync_context \<Rightarrow> json" where
  "sync_json yid s mode status now payload_hash signer cx = JObj
     [(''schema_version'', JStr ''model-atlas-evidence-trust-source-sync-v2''), (''sync_id'', JStr yid),
      (''trust_source_id'', JStr (ts_id s)), (''configuration_hash'', JStr (ts_hash s)),
      (''mode'', JStr (sync_mode_value mode)), (''status'', JStr (sync_status_value status)),
      (''observed_at'', iso now), (''payload_hash'', opt_json JStr payload_hash),
      (''trigger'', JStr (sync_trigger_value (sx_trigger cx))), (''schedule_id'', opt_json JStr (sx_schedule cx)),
      (''job_id'', opt_json JStr (sx_job cx)), (''attempt_number'', JInt (sx_attempt cx)),
      (''scheduled_for'', opt_json iso (map_option whole_seconds (sx_scheduled_for cx))),
      (''actor'', identity_to_json signer)]"

text \<open>The columns a failed and a successful row share.\<close>

definition sync_row ::
  "trust_env \<Rightarrow> uuid \<Rightarrow> trust_source \<Rightarrow> sync_mode \<Rightarrow> sync_status \<Rightarrow> string option \<Rightarrow> signer_identity \<Rightarrow> sync_context \<Rightarrow>
   instant \<Rightarrow> instant \<Rightarrow> source_observation \<Rightarrow> source_sync" where
  "sync_row env yid s mode status notes signer cx now created o1 =
     \<lparr>ss_id = yid, ss_source_id = ts_id s, ss_mode = mode, ss_status = status, ss_trigger = sx_trigger cx,
      ss_schedule_id = sx_schedule cx, ss_job_id = sx_job cx, ss_attempt = sx_attempt cx,
      ss_scheduled_for = map_option whole_seconds (sx_scheduled_for cx), ss_http_status = so_http o1,
      ss_fetched_at = now, ss_completed_at = now, ss_payload_hash = so_payload_hash o1,
      ss_key_count = int (length (so_keys o1)), ss_candidates = 0, ss_imported = 0, ss_unchanged = 0,
      ss_rejected = 0, ss_keys = map (\<lambda>k. \<lparr>ok_key_id = rk_key_id k, ok_algorithm = rk_algorithm k,
        ok_fingerprint = rk_fingerprint k\<rparr>) (so_keys o1),
      ss_error_code = None, ss_error_message = None, ss_actor = identity_to_json signer,
      ss_hash = env_hash env (sync_json yid s mode status now (so_payload_hash o1) signer cx),
      ss_notes = optional_note notes, ss_created_at = created\<rparr>"

definition failed_sync :: "string \<Rightarrow> string \<Rightarrow> source_sync \<Rightarrow> source_sync" where
  "failed_sync code message y =
     y\<lparr>ss_rejected := (if text_set (ss_payload_hash y) then max 1 (ss_key_count y) else 0),
       ss_error_code := Some code, ss_error_message := Some (take 4000 message)\<rparr>"

definition import_source_type :: "trust_source \<Rightarrow> root_source" where
  "import_source_type s =
     (if ts_tier s = Tier_Development then From_Development
      else if ts_tier s = Tier_Internal_Ca then From_Internal_Ca
      else if ts_purpose s = Transparency_Purpose then From_Transparency_Log
      else From_External_Registry)"

definition imported_root ::
  "trust_env \<Rightarrow> uuid \<Rightarrow> trust_source \<Rightarrow> uuid \<Rightarrow> remote_key \<Rightarrow> signer_identity \<Rightarrow> instant \<Rightarrow> trust_root" where
  "imported_root env rid s yid k signer now =
     (let name = take 180 (ts_name s @ '' / '' @ rk_key_id k);
          note = ''Imported from trust source '' @ ts_id s
      in \<lparr>tr_id = rid, tr_name = name, tr_purpose = ts_purpose s, tr_issuer = ts_issuer s,
          tr_key_id = rk_key_id k, tr_algorithm = rk_algorithm k, tr_fingerprint = rk_fingerprint k,
          tr_jwk = rk_jwk k, tr_tier = ts_tier s, tr_source_type = import_source_type s,
          tr_source_uri = Some (ts_endpoint s), tr_valid_from = now, tr_valid_until = None, tr_supersedes = None,
          tr_source_id = Some (ts_id s), tr_sync_id = Some yid, tr_registered_at = now,
          tr_registered_by = identity_to_json signer,
          tr_hash = env_hash env (JObj
            [(''schema_version'', JStr ''model-atlas-evidence-trust-source-sync-v2''),
             (''trust_source_id'', JStr (ts_id s)), (''trust_source_sync_id'', JStr yid), (''name'', JStr name),
             (''purpose'', JStr (purpose_value (ts_purpose s))), (''issuer'', JStr (ts_issuer s)),
             (''key_id'', JStr (rk_key_id k)), (''algorithm'', JStr (rk_algorithm k)), (''public_key_jwk'', rk_jwk k),
             (''trust_tier'', JStr (tier_value (ts_tier s))),
             (''source_type'', JStr (root_source_value (import_source_type s))),
             (''source_uri'', JStr (ts_endpoint s)), (''valid_from'', iso now)]),
          tr_notes = Some note\<rparr>)"

definition import_key :: "trust_root \<Rightarrow> trust_db \<Rightarrow> trust_db" where
  "import_key r db = reconcile_existing_evidence r (db\<lparr>td_roots := td_roots db @ [r]\<rparr>)"

definition sync_context_ok :: "sync_context \<Rightarrow> signer_identity \<Rightarrow> registry_error + unit" where
  "sync_context_ok cx signer =
     (if sx_attempt cx < 1 then Inl (Invalid ''trust source sync attempt_number must be positive'')
      else if sx_trigger cx = Scheduled_Sync \<and> (sx_schedule cx = None \<or> sx_job cx = None)
      then Inl (Invalid ''scheduled trust source sync requires schedule and job lineage'')
      else if sx_trigger cx = Scheduled_Sync
      then require (Invalid ''scheduled trust source sync requires a verified System Worker'')
        (identity_verified signer \<and> normalized_role signer = ''system worker'')
      else assert_governance_operator signer)"

text \<open>Identifiers and times one synchronisation draws: its row, the roots by key, and \<^verbatim>\<open>created_at\<close>.\<close>

record sync_draw =
  sd_sync :: uuid
  sd_root :: "string \<Rightarrow> uuid"
  sd_created :: instant
  sd_conflict :: bool

definition sync_evidence_trust_source ::
  "sync_env \<Rightarrow> sync_draw \<Rightarrow> uuid \<Rightarrow> sync_mode \<Rightarrow> string option \<Rightarrow> signer_identity \<Rightarrow> sync_context \<Rightarrow> instant \<Rightarrow> trust_db \<Rightarrow>
   registry_error + trust_db \<times> source_sync" where
  "sync_evidence_trust_source env dw sid mode notes signer cx clock db =
     bind_res (sync_context_ok cx signer) (\<lambda>_.
     case row_find ts_id sid (td_sources db) of
       None \<Rightarrow> Inl (Invalid ''evidence trust source was not found'')
     | Some s \<Rightarrow>
         if \<not> ts_enabled s then Inl (Invalid ''disabled trust sources cannot be synchronized'')
         else
           bind_res (validate_trust_source_url env (ts_endpoint s) (ts_tier s) (ts_insecure_http s)) (\<lambda>_.
           let now = whole_seconds clock; t = sn_trust env; o1 = observe_source env s db;
               row = (\<lambda>status. sync_row t (sd_sync dw) s mode status notes signer cx now (sd_created dw) o1);
               record_failed = (\<lambda>code msg.
                 let y = failed_sync code msg (row Sync_Failed) in (db\<lparr>td_syncs := td_syncs db @ [y]\<rparr>, y))
           in case so_result o1 of
                Inl (code, msg) \<Rightarrow> Inr (record_failed code msg)
              | Inr (candidates, unchanged) \<Rightarrow>
                  if mode = Sync_Apply \<and> sd_conflict dw
                  then Inr (record_failed ''database_conflict''
                    ''trust source apply conflicted with an existing registry record'')
                  else
                    let y = (row Sync_Succeeded)\<lparr>ss_candidates := int (length candidates),
                              ss_unchanged := int (length unchanged),
                              ss_imported := (if mode = Sync_Apply then int (length candidates) else 0)\<rparr>;
                        imported = map (\<lambda>k. imported_root t (sd_root dw (rk_key_id k)) s (sd_sync dw) k signer now) candidates;
                        db1 = db\<lparr>td_syncs := td_syncs db @ [y]\<rparr>
                    in Inr (if mode = Sync_Apply then fold import_key imported db1 else db1, y)))"

end
