(* ===== verification/Trust_Schedules.thy ===== *)
theory Trust_Schedules
  imports Trust_Sync
begin

text \<open>
  \<^verbatim>\<open>services/trust_source_scheduler.py\<close>: the schedules that synchronise the trust sources through the durable
  job queue. A due schedule is leased and enqueues a job that carries the fingerprint of the lease; the job
  synchronises only while the schedule still points at it, then plans the next run.

  The state is the registry beside the job queue. The handler of a job commits before it may raise, so it
  returns the new state beside its result. \<open>enqueue_draw\<close> holds the job identifier and the secret drawn for a schedule.
\<close>

record registry_db =
  rg_trust :: trust_db
  rg_queue :: queue_db

abbreviation schedules_of :: "registry_db \<Rightarrow> source_schedule list" where
  "schedules_of db \<equiv> td_schedules (rg_trust db)"

definition put_schedule :: "source_schedule \<Rightarrow> registry_db \<Rightarrow> registry_db" where
  "put_schedule s db = db\<lparr>rg_trust := (rg_trust db)\<lparr>td_schedules := row_put sc_id s (schedules_of db)\<rparr>\<rparr>"

definition put_queue_job :: "job \<Rightarrow> registry_db \<Rightarrow> registry_db" where
  "put_queue_job j db = db\<lparr>rg_queue := (rg_queue db)\<lparr>q_jobs := job_put j (q_jobs (rg_queue db))\<rparr>\<rparr>"

definition JOB_VERSION :: string where
  "JOB_VERSION = ''model-atlas-trust-source-schedule-job-v1''"

definition RESPONSE_VERSION :: string where
  "RESPONSE_VERSION = ''model-atlas-trust-source-schedule-response-v1''"

definition ACTIVE_JOB_STATUSES :: "job_status list" where
  "ACTIVE_JOB_STATUSES = [Queued, Leased, Running]"

definition RETRYABLE_SYNC_ERRORS :: "string list" where
  "RETRYABLE_SYNC_ERRORS = [''transport_error'', ''http_error'', ''database_conflict'']"

definition active_job :: "job \<Rightarrow> bool" where
  "active_job j \<longleftrightarrow> job_status j \<in> set ACTIVE_JOB_STATUSES"

text \<open>The first eight bytes of the digest, big endian.\<close>

definition digest_prefix :: "trust_env \<Rightarrow> string \<Rightarrow> nat" where
  "digest_prefix env key = foldl (\<lambda>n c. 256 * n + of_char c) 0 (take 8 (te_H env key))"

definition clear_schedule_lease :: "source_schedule \<Rightarrow> source_schedule" where
  "clear_schedule_lease s = s\<lparr>sc_lease_owner := None, sc_lease_token := None, sc_lease_expires := None\<rparr>"

section \<open>Configuration\<close>

record schedule_policy =
  sp_enabled :: bool
  sp_interval :: int
  sp_jitter :: int
  sp_max_attempts :: int
  sp_retry_base :: int
  sp_retry_max :: int
  sp_retry_jitter :: int
  sp_run_now :: bool

text \<open>What \<^verbatim>\<open>EvidenceTrustSourceScheduleUpsert\<close> admits.\<close>

definition policy_ok :: "schedule_policy \<Rightarrow> bool" where
  "policy_ok p \<longleftrightarrow>
     60 \<le> sp_interval p \<and> sp_interval p \<le> 604800 \<and> 0 \<le> sp_jitter p \<and> sp_jitter p \<le> 86400 \<and>
     1 \<le> sp_max_attempts p \<and> sp_max_attempts p \<le> 10 \<and> 1 \<le> sp_retry_base p \<and> sp_retry_base p \<le> 3600 \<and>
     1 \<le> sp_retry_max p \<and> sp_retry_max p \<le> 3600 \<and> 0 \<le> sp_retry_jitter p \<and> sp_retry_jitter p \<le> 3600 \<and>
     sp_jitter p < sp_interval p \<and> sp_retry_base p \<le> sp_retry_max p \<and> sp_retry_jitter p \<le> sp_retry_max p"

definition policy_hash_of :: "trust_env \<Rightarrow> schedule_policy \<Rightarrow> string" where
  "policy_hash_of env p = env_hash env (JObj
     [(''schema_version'', JStr ''model-atlas-trust-source-schedule-v1''), (''enabled'', JBool (sp_enabled p)),
      (''interval_seconds'', JInt (sp_interval p)), (''jitter_seconds'', JInt (sp_jitter p)),
      (''max_attempts'', JInt (sp_max_attempts p)), (''retry_base_seconds'', JInt (sp_retry_base p)),
      (''retry_max_seconds'', JInt (sp_retry_max p)), (''retry_jitter_seconds'', JInt (sp_retry_jitter p))])"

definition next_policy_run_at ::
  "trust_env \<Rightarrow> source_schedule option \<Rightarrow> schedule_policy \<Rightarrow> instant \<Rightarrow> uuid \<Rightarrow> instant" where
  "next_policy_run_at env old p now source =
     (let fresh = now + seconds (sp_interval p + deterministic_jitter (digest_prefix env)
            (source @ '':'' @ show_int (sp_interval p) @ '':initial'') (sp_jitter p))
      in if sp_run_now p \<and> sp_enabled p then now
         else case old of
           Some s \<Rightarrow> if sc_enabled s \<and> sp_enabled p then max (sc_next_run s) now else fresh
         | None \<Rightarrow> fresh)"

definition next_scheduled_at :: "trust_env \<Rightarrow> source_schedule \<Rightarrow> instant \<Rightarrow> instant" where
  "next_scheduled_at env s anchor =
     anchor + seconds (sc_interval s + deterministic_jitter (digest_prefix env)
       (sc_id s @ '':'' @ show_int (sc_sequence s + 1)) (sc_jitter s))"

definition cancelled_job :: "instant \<Rightarrow> job \<Rightarrow> job" where
  "cancelled_job now j =
     j\<lparr>job_status := Cancelled, job_completed_at := Some now,
       job_last_error := Some ''Cancelled because the trust-source schedule changed.''\<rparr>"

definition last_job_of :: "source_schedule \<Rightarrow> registry_db \<Rightarrow> job option" where
  "last_job_of s db = (case sc_last_job s of None \<Rightarrow> None | Some i \<Rightarrow> job_find i (q_jobs (rg_queue db)))"

definition cancel_or_reject_active_job :: "source_schedule \<Rightarrow> instant \<Rightarrow> registry_db \<Rightarrow> registry_error + registry_db" where
  "cancel_or_reject_active_job s now db =
     (case last_job_of s db of
        None \<Rightarrow> Inr db
      | Some j \<Rightarrow>
          if \<not> active_job j then Inr db
          else if job_status j \<in> {Leased, Running}
          then Inl (Invalid ''trust source schedule cannot change while a sync job is active'')
          else Inr (put_queue_job (cancelled_job now j) db))"

definition new_schedule ::
  "trust_env \<Rightarrow> uuid \<Rightarrow> uuid \<Rightarrow> schedule_policy \<Rightarrow> instant \<Rightarrow> signer_identity \<Rightarrow> instant \<Rightarrow> source_schedule" where
  "new_schedule env cid source p next signer created =
     \<lparr>sc_id = cid, sc_source_id = source, sc_enabled = sp_enabled p, sc_interval = sp_interval p,
      sc_jitter = sp_jitter p, sc_max_attempts = sp_max_attempts p, sc_retry_base = sp_retry_base p,
      sc_retry_max = sp_retry_max p, sc_retry_jitter = sp_retry_jitter p, sc_next_run = next,
      sc_last_enqueued = None, sc_last_completed = None, sc_last_job = None, sc_last_sync = None,
      sc_sequence = 0, sc_failures = 0, sc_lease_owner = None, sc_lease_token = None, sc_lease_expires = None,
      sc_policy_hash = policy_hash_of env p, sc_configured_by = identity_to_json signer, sc_created_at = created\<rparr>"

definition reconfigured ::
  "trust_env \<Rightarrow> schedule_policy \<Rightarrow> instant \<Rightarrow> signer_identity \<Rightarrow> source_schedule \<Rightarrow> source_schedule" where
  "reconfigured env p next signer s =
     clear_schedule_lease (s
       \<lparr>sc_enabled := sp_enabled p, sc_interval := sp_interval p, sc_jitter := sp_jitter p,
        sc_max_attempts := sp_max_attempts p, sc_retry_base := sp_retry_base p, sc_retry_max := sp_retry_max p,
        sc_retry_jitter := sp_retry_jitter p, sc_next_run := next, sc_policy_hash := policy_hash_of env p,
        sc_configured_by := identity_to_json signer\<rparr>)"

definition upsert_schedule ::
  "trust_env \<Rightarrow> uuid \<Rightarrow> schedule_policy \<Rightarrow> signer_identity \<Rightarrow> uuid \<Rightarrow> instant \<Rightarrow> registry_db \<Rightarrow>
   registry_error + registry_db" where
  "upsert_schedule env source p signer cid clock db =
     bind_res (assert_governance_operator signer) (\<lambda>_.
     let now = whole_seconds clock; t = rg_trust db in
     case row_find ts_id source (td_sources t) of
       None \<Rightarrow> Inl (Invalid ''evidence trust source was not found'')
     | Some src \<Rightarrow>
         if sp_enabled p \<and> \<not> ts_enabled src then Inl (Invalid ''disabled trust sources cannot be scheduled'')
         else case row_find sc_source_id source (td_schedules t) of
           None \<Rightarrow>
             let s = new_schedule env cid source p (next_policy_run_at env None p now source) signer clock
             in Inr (db\<lparr>rg_trust := t\<lparr>td_schedules := td_schedules t @ [s]\<rparr>\<rparr>)
         | Some s \<Rightarrow>
             bind_res (cancel_or_reject_active_job s now db) (\<lambda>db1.
               Inr (put_schedule (reconfigured env p (next_policy_run_at env (Some s) p now source) signer s) db1)))"

definition request_schedule_run ::
  "uuid \<Rightarrow> signer_identity \<Rightarrow> instant \<Rightarrow> registry_db \<Rightarrow> registry_error + registry_db" where
  "request_schedule_run source signer clock db =
     bind_res (assert_governance_operator signer) (\<lambda>_.
     let now = whole_seconds clock in
     case row_find sc_source_id source (schedules_of db) of
       None \<Rightarrow> Inl (Invalid ''trust source schedule was not found'')
     | Some s \<Rightarrow>
         if \<not> sc_enabled s then Inl (Invalid ''disabled trust source schedules cannot run'')
         else bind_res (cancel_or_reject_active_job s now db) (\<lambda>db1.
           Inr (put_schedule (clear_schedule_lease (s\<lparr>sc_next_run := now\<rparr>)) db1)))"

section \<open>Status\<close>

datatype schedule_status =
  Sched_Disabled | Sched_Scheduled | Sched_Due | Sched_Leased | Sched_Retrying | Sched_Failed

definition schedule_status_of :: "source_schedule \<Rightarrow> job option \<Rightarrow> instant \<Rightarrow> schedule_status" where
  "schedule_status_of s last_job now =
     (if \<not> sc_enabled s then Sched_Disabled
      else case last_job of
        Some j \<Rightarrow>
          if active_job j then (if job_status j = Queued \<and> 0 < job_attempt_count j then Sched_Retrying else Sched_Leased)
          else if sc_next_run s \<le> now then Sched_Due
          else if 0 < sc_failures s \<and> job_status j = Failed then Sched_Failed
          else Sched_Scheduled
      | None \<Rightarrow> if sc_next_run s \<le> now then Sched_Due else Sched_Scheduled)"

record schedule_counts =
  sv_total :: nat
  sv_enabled :: nat
  sv_due :: nat
  sv_leased :: nat
  sv_retrying :: nat
  sv_failed :: nat

text \<open>The listing behind it is cut at 10000 schedules, newest first.\<close>

definition trust_source_schedule_overview :: "registry_db \<Rightarrow> instant \<Rightarrow> schedule_counts" where
  "trust_source_schedule_overview db now =
     (let listed = take 10000 (rev (sort_key sc_created_at (schedules_of db)));
          with = (\<lambda>st. length (filter (\<lambda>s. schedule_status_of s (last_job_of s db) now = st) listed))
      in \<lparr>sv_total = length listed, sv_enabled = length (filter sc_enabled listed), sv_due = with Sched_Due,
          sv_leased = with Sched_Leased, sv_retrying = with Sched_Retrying, sv_failed = with Sched_Failed\<rparr>)"

section \<open>Enqueueing what is due\<close>

definition scheduler_identity :: "signer_identity \<Rightarrow> bool" where
  "scheduler_identity sg \<longleftrightarrow>
     identity_verified sg \<and> normalized_role sg \<in> {''system worker'', ''admin'', ''sre lead''}"

record enqueue_draw =
  ed_job :: "uuid \<Rightarrow> uuid"
  ed_secret :: "uuid \<Rightarrow> string"

definition due_schedule :: "instant \<Rightarrow> uuid list \<Rightarrow> source_schedule \<Rightarrow> bool" where
  "due_schedule now locked s \<longleftrightarrow>
     sc_enabled s \<and> sc_next_run s \<le> now \<and> (case sc_lease_expires s of None \<Rightarrow> True | Some t \<Rightarrow> t \<le> now) \<and>
     sc_id s \<notin> set locked"

definition sync_payload :: "source_schedule \<Rightarrow> string \<Rightarrow> int \<Rightarrow> json" where
  "sync_payload s token lease = JObj
     [(''schema_version'', JStr JOB_VERSION), (''schedule_id'', JStr (sc_id s)),
      (''trust_source_id'', JStr (sc_source_id s)), (''policy_hash'', JStr (sc_policy_hash s)),
      (''run_sequence'', JInt (sc_sequence s)), (''scheduled_for'', iso (whole_seconds (sc_next_run s))),
      (''schedule_lease_token_hash'', JStr token), (''schedule_lease_seconds'', JInt lease),
      (''retry_policy'', JObj [(''base_seconds'', JInt (sc_retry_base s)), (''max_seconds'', JInt (sc_retry_max s)),
         (''jitter_seconds'', JInt (sc_retry_jitter s))])]"

definition sync_request :: "source_schedule \<Rightarrow> string \<Rightarrow> int \<Rightarrow> signer_identity \<Rightarrow> job_request" where
  "sync_request s token lease signer =
     \<lparr>rq_kind = Trust_Source_Sync,
      rq_dedupe_key = ''trust-source-sync:'' @ sc_id s @ '':run:'' @ show_int (sc_sequence s),
      rq_payload = sync_payload s token lease, rq_signer = signer, rq_priority = 15, rq_benchmark_run_id = None,
      rq_benchmark_result_id = None, rq_checkpoint_record_id = None, rq_max_attempts = sc_max_attempts s\<rparr>"

text \<open>A schedule whose job is still active keeps that job and renews the lease it carries.\<close>

definition renewed_lease :: "job \<Rightarrow> string \<Rightarrow> int \<Rightarrow> instant \<Rightarrow> source_schedule \<Rightarrow> source_schedule" where
  "renewed_lease j scheduler lease now s =
     (let token = text_claim (job_payload j) ''schedule_lease_token_hash'' in
      if token = [] then s
      else s\<lparr>sc_lease_token := Some token,
             sc_lease_owner := Some (if text_set (job_lease_owner j) then text_or_empty (job_lease_owner j)
               else take 160 scheduler),
             sc_lease_expires := Some (now + seconds lease)\<rparr>)"

definition leased_schedule :: "uuid \<Rightarrow> string \<Rightarrow> string \<Rightarrow> int \<Rightarrow> instant \<Rightarrow> source_schedule \<Rightarrow> source_schedule" where
  "leased_schedule jid token scheduler lease now s =
     s\<lparr>sc_last_job := Some jid, sc_last_enqueued := Some now, sc_lease_owner := Some (take 160 scheduler),
       sc_lease_token := Some token, sc_lease_expires := Some (now + seconds lease)\<rparr>"

definition visit_schedule ::
  "trust_env \<Rightarrow> enqueue_draw \<Rightarrow> string \<Rightarrow> signer_identity \<Rightarrow> int \<Rightarrow> instant \<Rightarrow> source_schedule \<Rightarrow> registry_db \<Rightarrow>
   registry_error + registry_db \<times> job list" where
  "visit_schedule env dw scheduler signer lease now s db =
     (case row_find ts_id (sc_source_id s) (td_sources (rg_trust db)) of
        None \<Rightarrow> Inr (put_schedule (clear_schedule_lease (s\<lparr>sc_enabled := False\<rparr>)) db, [])
      | Some src \<Rightarrow>
          if \<not> ts_enabled src then Inr (put_schedule (clear_schedule_lease (s\<lparr>sc_enabled := False\<rparr>)) db, [])
          else
            let s1 = s\<lparr>sc_sequence := sc_sequence s + 1\<rparr>;
                token = to_hex (te_H env (ed_secret dw (sc_id s)));
                j = new_job (sync_request s1 token lease signer) now (ed_job dw (sc_id s));
                enqueue =
                  (if list_ex (\<lambda>k. job_id k = job_id j \<or> job_dedupe_key k = job_dedupe_key j) (q_jobs (rg_queue db))
                   then Inl Integrity_Failed
                   else Inr (put_schedule (leased_schedule (job_id j) token scheduler lease now s1)
                      (db\<lparr>rg_queue := (rg_queue db)\<lparr>q_jobs := q_jobs (rg_queue db) @ [j]\<rparr>\<rparr>), [j]))
            in case last_job_of s db of
                 Some k \<Rightarrow>
                   if active_job k then Inr (put_schedule (renewed_lease k scheduler lease now s) db, []) else enqueue
               | None \<Rightarrow> enqueue)"

fun visit_schedules ::
  "trust_env \<Rightarrow> enqueue_draw \<Rightarrow> string \<Rightarrow> signer_identity \<Rightarrow> int \<Rightarrow> instant \<Rightarrow> source_schedule list \<Rightarrow> registry_db \<Rightarrow>
   registry_error + registry_db \<times> job list" where
  "visit_schedules env dw scheduler signer lease now [] db = Inr (db, [])"
| "visit_schedules env dw scheduler signer lease now (s # ss) db =
     bind_res (visit_schedule env dw scheduler signer lease now s db) (\<lambda>(db1, js).
     bind_res (visit_schedules env dw scheduler signer lease now ss db1) (\<lambda>(db2, ks). Inr (db2, js @ ks)))"

definition schedule_order :: "source_schedule \<Rightarrow> instant \<times> instant" where
  "schedule_order s = (sc_next_run s, sc_created_at s)"

definition due_batch :: "instant \<Rightarrow> uuid list \<Rightarrow> int \<Rightarrow> registry_db \<Rightarrow> source_schedule list" where
  "due_batch now locked batch db =
     take (nat (clamp 1 100 batch)) (sort_key schedule_order (filter (due_schedule now locked) (schedules_of db)))"

definition enqueue_due_trust_source_sync_jobs ::
  "trust_env \<Rightarrow> enqueue_draw \<Rightarrow> string \<Rightarrow> signer_identity \<Rightarrow> int \<Rightarrow> int \<Rightarrow> uuid list \<Rightarrow> instant \<Rightarrow> registry_db \<Rightarrow>
   registry_error + registry_db \<times> job list" where
  "enqueue_due_trust_source_sync_jobs env dw scheduler_id signer lease batch locked clock db =
     bind_res (require (Invalid ''trust source scheduling requires a verified System Worker, Admin, or SRE Lead'')
       (scheduler_identity signer)) (\<lambda>_.
     let now = whole_seconds clock; scheduler = strip scheduler_id in
     if scheduler = [] then Inl (Invalid ''scheduler_id is required'')
     else visit_schedules env dw scheduler signer (clamp 30 3600 lease) now (due_batch now locked batch db) db)"

section \<open>Executing a job\<close>

definition payload_invalid :: "string \<Rightarrow> string \<Rightarrow> registry_error" where
  "payload_invalid key what = Invalid (''trust source schedule job '' @ key @ what)"

definition uuid_payload :: "json \<Rightarrow> string \<Rightarrow> registry_error + uuid" where
  "uuid_payload p key =
     (case map_of (dict_items p) key of
        None \<Rightarrow> Inl (payload_invalid key '' is invalid'')
      | Some v \<Rightarrow> of_option (payload_invalid key '' is invalid'') (parse_uuid (py_str v)))"

definition datetime_payload :: "trust_env \<Rightarrow> json \<Rightarrow> string \<Rightarrow> registry_error + instant" where
  "datetime_payload env p key =
     (case map_of (dict_items p) key of
        None \<Rightarrow> Inl (payload_invalid key '' is invalid'')
      | Some v \<Rightarrow>
          (case te_fromiso env (replace_zulu (py_str v)) of
             None \<Rightarrow> Inl (payload_invalid key '' is invalid'')
           | Some (t, zone) \<Rightarrow> if zone then Inr t else Inl (payload_invalid key '' requires timezone'')))"

text \<open>\<open>None\<close>: the conjunct \<^verbatim>\<open>int(payload.get("run_sequence") or -1)\<close> is reached and raises.\<close>

definition lineage_matches :: "source_schedule \<Rightarrow> uuid \<Rightarrow> job \<Rightarrow> bool option" where
  "lineage_matches s source j =
     (let p = job_payload j; token = text_claim p ''schedule_lease_token_hash'' in
      if \<not> (sc_enabled s \<and> sc_source_id s = source \<and> sc_last_job s = Some (job_id j) \<and>
             sc_policy_hash s = text_claim p ''policy_hash'')
      then Some False
      else map_option (\<lambda>n. sc_sequence s = n \<and> length token = 64 \<and> sc_lease_token s = Some token)
             (int_or (jget p ''run_sequence'') (-1)))"

definition skipped_result :: "source_schedule \<Rightarrow> job \<Rightarrow> json" where
  "skipped_result s j = JObj
     [(''schema_version'', JStr RESPONSE_VERSION), (''outcome'', JStr ''skipped''),
      (''reason'', JStr ''schedule policy or lease changed before execution''),
      (''schedule_id'', JStr (sc_id s)), (''job_id'', JStr (job_id j))]"

definition succeeded_result :: "source_schedule \<Rightarrow> source_sync \<Rightarrow> job \<Rightarrow> json" where
  "succeeded_result s y j = JObj
     [(''schema_version'', JStr RESPONSE_VERSION), (''outcome'', JStr ''succeeded''), (''schedule_id'', JStr (sc_id s)),
      (''trust_source_id'', JStr (sc_source_id s)), (''sync_id'', JStr (ss_id y)),
      (''attempt_number'', JInt (job_attempt_count j)), (''next_run_at'', iso (sc_next_run s)),
      (''imported_count'', JInt (ss_imported y)), (''unchanged_count'', JInt (ss_unchanged y))]"

definition retryable_sync :: "source_sync \<Rightarrow> bool" where
  "retryable_sync y \<longleftrightarrow> (case ss_error_code y of None \<Rightarrow> False | Some c \<Rightarrow> c \<in> set RETRYABLE_SYNC_ERRORS)"

definition sync_failure_message :: "source_sync \<Rightarrow> string" where
  "sync_failure_message y =
     ''scheduled trust source sync failed with '' @ (case ss_error_code y of None \<Rightarrow> ''None'' | Some c \<Rightarrow> c)"

text \<open>What the outcome of the synchronisation makes of the schedule, and of the job.\<close>

definition settle_schedule ::
  "trust_env \<Rightarrow> source_sync \<Rightarrow> job \<Rightarrow> source_schedule \<Rightarrow> source_schedule \<times> (registry_error + json)" where
  "settle_schedule env y j s0 =
     (let done_at = whole_seconds (ss_completed_at y);
          s = s0\<lparr>sc_last_sync := Some (ss_id y), sc_last_completed := Some done_at\<rparr>
      in if ss_status y = Sync_Succeeded
         then let s' = clear_schedule_lease (s\<lparr>sc_failures := 0, sc_next_run := next_scheduled_at env s done_at\<rparr>)
              in (s', Inr (succeeded_result s' y j))
         else
           let f = s\<lparr>sc_failures := sc_failures s + 1\<rparr> in
           if retryable_sync y \<and> job_attempt_count j < job_max_attempts j
           then (case int_or (jget (job_payload j) ''schedule_lease_seconds'') 900 of
                   None \<Rightarrow> (s0, Inl Uncaught_Exception)
                 | Some n \<Rightarrow>
                     (f\<lparr>sc_lease_expires := Some (done_at + seconds (clamp 30 3600 n + sc_retry_max s))\<rparr>,
                      Inl (Retryable (sync_failure_message y))))
           else (clear_schedule_lease (f\<lparr>sc_next_run := next_scheduled_at env f done_at\<rparr>),
                 Inl (if retryable_sync y then Retryable (sync_failure_message y) else Invalid (sync_failure_message y))))"

definition scheduled_context :: "source_schedule \<Rightarrow> job \<Rightarrow> instant \<Rightarrow> sync_context" where
  "scheduled_context s j planned =
     \<lparr>sx_trigger = Scheduled_Sync, sx_schedule = Some (sc_id s), sx_job = Some (job_id j),
      sx_attempt = job_attempt_count j, sx_scheduled_for = Some planned\<rparr>"

definition execute_trust_source_sync_job ::
  "sync_env \<Rightarrow> sync_draw \<Rightarrow> job \<Rightarrow> signer_identity \<Rightarrow> instant \<Rightarrow> registry_db \<Rightarrow> registry_db \<times> (registry_error + json)" where
  "execute_trust_source_sync_job env dw j executor clock db =
     (let now = whole_seconds clock; p = job_payload j; t = sn_trust env in
      if jget p ''schema_version'' \<noteq> JStr JOB_VERSION
      then (db, Inl (Invalid ''trust source schedule job schema_version is not supported''))
      else
        case bind_res (uuid_payload p ''schedule_id'') (\<lambda>c. bind_res (uuid_payload p ''trust_source_id'') (\<lambda>x.
               of_option (Invalid ''trust source schedule was not found'')
                 (map_option (Pair x) (row_find sc_id c (schedules_of db))))) of
          Inl e \<Rightarrow> (db, Inl e)
        | Inr (source, s) \<Rightarrow>
            (case datetime_payload t p ''scheduled_for'' of
               Inl e \<Rightarrow> (db, Inl e)
             | Inr planned \<Rightarrow>
                 (case lineage_matches s source j of
                    None \<Rightarrow> (db, Inl Uncaught_Exception)
                  | Some False \<Rightarrow>
                      (if sc_last_job s = Some (job_id j)
                       then put_schedule (clear_schedule_lease (s\<lparr>sc_next_run := now\<rparr>)) db else db,
                       Inr (skipped_result s j))
                  | Some True \<Rightarrow>
                      (case sync_evidence_trust_source env dw source Sync_Apply
                              (Some (''Scheduled trust-source sync run '' @ show_int (sc_sequence s))) executor
                              (scheduled_context s j planned) now (rg_trust db) of
                         Inl e \<Rightarrow> (db, Inl e)
                       | Inr (t', y) \<Rightarrow>
                           let (s', res) = settle_schedule t y j s
                           in (put_schedule s' (db\<lparr>rg_trust := t'\<rparr>), res)))))"

section \<open>Processing a job\<close>

text \<open>
  \<^verbatim>\<open>process_claimed_agent_job\<close> with this handler: the executor is the worker that holds the lease. (The text of
  an exception that is not one of the services' own is left empty.)
\<close>

definition sync_outcome :: "registry_error + json \<Rightarrow> job_outcome" where
  "sync_outcome res =
     (case res of
        Inr r \<Rightarrow> Outcome_Result r
      | Inl (Invalid msg) \<Rightarrow> Outcome_Domain_Error msg
      | Inl (Retryable msg) \<Rightarrow> Outcome_Error msg
      | Inl _ \<Rightarrow> Outcome_Error [])"

definition sync_executor :: "job \<Rightarrow> signer_identity" where
  "sync_executor j =
     system_worker_identity
       (if text_set (job_lease_owner j) then text_or_empty (job_lease_owner j)
        else subject_id (identity_from_json (job_requested_by j)))"

definition process_sync_job ::
  "sync_env \<Rightarrow> sync_draw \<Rightarrow> uuid \<Rightarrow> string \<Rightarrow> instant \<Rightarrow> instant \<Rightarrow> registry_db \<Rightarrow> registry_db \<times> (job_error + job)" where
  "process_sync_job env dw jid token clock done_at db =
     (case begin_agent_job jid token (rg_queue db) of
        Inl e \<Rightarrow> (db, Inl e)
      | Inr (q1, j) \<Rightarrow>
          let (db1, res) = execute_trust_source_sync_job env dw j (sync_executor j) clock (db\<lparr>rg_queue := q1\<rparr>) in
          (case finish_agent_job (digest_prefix (sn_trust env)) jid (sync_outcome res) done_at (rg_queue db1) of
             Inl e \<Rightarrow> (db1, Inl e)
           | Inr (q2, j2) \<Rightarrow> (db1\<lparr>rg_queue := q2\<rparr>, Inr j2)))"

end
