(* ===== verification/Trust_Chain.thy ===== *)
theory Trust_Chain
  imports Trust_Sync
begin

text \<open>
  The trust store as a system of commands: registrations and actions on roots, attestations and their revocations,
  transparency proofs, receipts, sources and their synchronisations, and whatever other components write into
  the evidence tables. Each command is a sequence of moves (\<open>trust_move\<close>), each of which keeps the
  invariant \<open>trust_inv\<close>: every row carries what was checked when it was written.
\<close>

section \<open>What the rows attest\<close>

text \<open>The token verifies under a key with this fingerprint and holds these claims.\<close>

definition signed_under :: "trust_env \<Rightarrow> string \<Rightarrow> string \<Rightarrow> json \<Rightarrow> bool" where
  "signed_under env fingerprint jws claims \<longleftrightarrow>
     (\<exists>jwk alg issuers. env_hash env jwk = fingerprint \<and> te_verify env jwk alg issuers jws = Jwt_Verified claims)"

definition root_ok :: "trust_env \<Rightarrow> trust_root \<Rightarrow> bool" where
  "root_ok env r \<longleftrightarrow>
     tr_fingerprint r = env_hash env (tr_jwk r) \<and>
     validated_public_jwk env (tr_jwk r) (tr_key_id r) (tr_algorithm r) = Inr (tr_jwk r) \<and>
     (\<exists>sg. tr_registered_by r = identity_to_json sg \<and>
       (governance_operator sg \<or> tr_source_id r \<noteq> None \<and> identity_verified sg \<and> normalized_role sg = ''system worker''))"

definition linked_root :: "trust_root list \<Rightarrow> trust_purpose \<Rightarrow> string \<Rightarrow> uuid option \<Rightarrow> bool" where
  "linked_root roots purpose fingerprint link \<longleftrightarrow>
     (\<forall>i. link = Some i \<longrightarrow> (\<exists>r \<in> set roots. tr_id r = i \<and> tr_purpose r = purpose \<and> tr_fingerprint r = fingerprint))"

definition attestation_ok :: "trust_env \<Rightarrow> trust_db \<Rightarrow> supply_attestation \<Rightarrow> bool" where
  "attestation_ok env db a \<longleftrightarrow>
     signed_under env (sa_fingerprint a) (sa_jws a) (sa_statement a) \<and>
     linked_root (td_roots db) Model_Publisher (sa_fingerprint a) (sa_publisher_root a) \<and>
     (\<exists>aa \<in> set (td_artifacts db). aa_id aa = sa_artifact_attestation a \<and> sa_subject_digest a = aa_digest aa \<and>
        validated_supply_chain_statement env (sa_statement a) aa (sa_sbom a) = Inr (aa_digest aa))"

definition proof_ok :: "trust_env \<Rightarrow> trust_db \<Rightarrow> log_proof \<Rightarrow> bool" where
  "proof_ok env db p \<longleftrightarrow>
     signed_under env (lp_fingerprint p) (lp_jws p) (lp_checkpoint p) \<and>
     linked_root (td_roots db) Transparency_Purpose (lp_fingerprint p) (Some (lp_root p)) \<and>
     normalized_hash (jget (lp_checkpoint p) ''root_hash'') = Inr (lp_root_hash p) \<and>
     integer_claim ''transparency checkpoint '' 1 (lp_checkpoint p) ''tree_size'' = Inr (lp_tree_size p) \<and>
     calculate_transparency_root (te_H env) (transparency_leaf_hash (te_H env) (lp_entry p)) (lp_index p)
       (lp_tree_size p) (lp_path p) = Inr (lp_root_hash p) \<and>
     (\<exists>a \<in> set (td_attestations db). sa_id a = lp_attestation p \<and>
        validated_transparency_entry (lp_entry p) a = Inr (lp_entry p))"

definition receipt_ok :: "trust_env \<Rightarrow> trust_db \<Rightarrow> capture_receipt \<Rightarrow> bool" where
  "receipt_ok env db c \<longleftrightarrow>
     signed_under env (cr_fingerprint c) (cr_jws c) (cr_statement c) \<and>
     linked_root (td_roots db) Production_Collector (cr_fingerprint c) (cr_collector_root c) \<and>
     uuid_claim (cr_statement c) ''benchmark_run_id'' = Inr (cr_run_id c) \<and>
     uuid_claim (cr_statement c) ''supply_chain_attestation_id'' = Inr (cr_attestation c) \<and>
     (\<exists>a \<in> set (td_attestations db). sa_id a = cr_attestation c \<and>
        jget (cr_statement c) ''supply_chain_attestation_hash'' = JStr (sa_hash a) \<and>
        sa_subject_digest a = cr_subject_digest c)"

definition trust_inv :: "trust_env \<Rightarrow> trust_db \<Rightarrow> bool" where
  "trust_inv env db \<longleftrightarrow>
     distinct (map tr_id (td_roots db)) \<and>
     distinct (map (\<lambda>r. (tr_purpose r, tr_issuer r, tr_key_id r)) (td_roots db)) \<and>
     distinct (map aa_id (td_artifacts db)) \<and>
     distinct (map sa_id (td_attestations db)) \<and> distinct (map sa_statement_id (td_attestations db)) \<and>
     distinct (map lp_proof_id (td_proofs db)) \<and> distinct (map cr_capture_id (td_receipts db)) \<and>
     (\<forall>r \<in> set (td_roots db). root_ok env r) \<and>
     (\<forall>a \<in> set (td_attestations db). attestation_ok env db a) \<and>
     (\<forall>p \<in> set (td_proofs db). proof_ok env db p) \<and>
     (\<forall>c \<in> set (td_receipts db). receipt_ok env db c)"

section \<open>Moves\<close>

text \<open>The rows of runtime attestations are written elsewhere: there only their status changes, and rows are added.\<close>

definition same_artifact :: "artifact_attestation \<Rightarrow> artifact_attestation \<Rightarrow> bool" where
  "same_artifact x y \<longleftrightarrow> y = x\<lparr>aa_status := aa_status y, aa_identity_verified := aa_identity_verified y\<rparr>"

inductive trust_move :: "trust_env \<Rightarrow> trust_db \<Rightarrow> trust_db \<Rightarrow> bool" for env where
  move_root: "root_ok env r \<Longrightarrow> tr_id r \<notin> tr_id ` set (td_roots db) \<Longrightarrow>
    find_root db (tr_purpose r) (tr_issuer r) (tr_key_id r) = None \<Longrightarrow>
    trust_move env db (db\<lparr>td_roots := td_roots db @ [r]\<rparr>)"
| move_link: "r \<in> set (td_roots db) \<Longrightarrow> trust_move env db (reconcile_existing_evidence r db)"
| move_action: "trust_move env db (db\<lparr>td_root_actions := td_root_actions db @ [x]\<rparr>)"
| move_attest: "attestation_ok env db a \<Longrightarrow> sa_id a \<notin> sa_id ` set (td_attestations db) \<Longrightarrow>
    sa_statement_id a \<notin> sa_statement_id ` set (td_attestations db) \<Longrightarrow>
    trust_move env db (db\<lparr>td_attestations := td_attestations db @ [a]\<rparr>)"
| move_revoke: "trust_move env db (db\<lparr>td_attestation_actions := td_attestation_actions db @ [y]\<rparr>)"
| move_proof: "proof_ok env db p \<Longrightarrow> lp_proof_id p \<notin> lp_proof_id ` set (td_proofs db) \<Longrightarrow>
    trust_move env db (db\<lparr>td_proofs := td_proofs db @ [p]\<rparr>)"
| move_receipt: "receipt_ok env db c \<Longrightarrow> cr_capture_id c \<notin> cr_capture_id ` set (td_receipts db) \<Longrightarrow>
    trust_move env db (db\<lparr>td_receipts := td_receipts db @ [c]\<rparr>)"
| move_source: "trust_move env db (db\<lparr>td_sources := td_sources db @ [s]\<rparr>)"
| move_sync: "trust_move env db (db\<lparr>td_syncs := td_syncs db @ [z]\<rparr>)"
| move_schedules: "trust_move env db (db\<lparr>td_schedules := scs\<rparr>)"
| move_artifacts: "extends same_artifact (td_artifacts db) aas \<Longrightarrow> distinct (map aa_id aas) \<Longrightarrow>
    trust_move env db (db\<lparr>td_artifacts := aas\<rparr>)"
| move_evidence: "trust_move env db (db\<lparr>td_evidence := ev, td_run_artifact := ra\<rparr>)"

lemma linked_root_mono: "linked_root roots p f i \<Longrightarrow> linked_root (roots @ rs) p f i"
  by (auto simp: linked_root_def)

lemma artifact_member:
  assumes "extends R xs ys" and "x \<in> set xs"
  shows "\<exists>y \<in> set ys. R x y"
proof -
  obtain xs' zs where y: "ys = xs' @ zs" "list_all2 R xs xs'" using assms(1) by (auto simp: extends_def)
  from assms(2) obtain i where "i < length xs" "xs ! i = x" by (auto simp: in_set_conv_nth)
  with y(2) have "R x (xs' ! i)" "xs' ! i \<in> set xs'" by (auto simp: list_all2_conv_all_nth)
  with y(1) show ?thesis by auto
qed

lemma same_artifact_fields:
  "same_artifact x y \<Longrightarrow> aa_id y = aa_id x \<and> aa_digest y = aa_digest x \<and> aa_hash y = aa_hash x \<and>
    aa_manifest_hash y = aa_manifest_hash x"
  unfolding same_artifact_def by (metis artifact_attestation.select_convs artifact_attestation.surjective
      artifact_attestation.update_convs(3,4))

lemma validated_statement_cong:
  assumes "aa_digest y = aa_digest x" and "aa_hash y = aa_hash x" and "aa_manifest_hash y = aa_manifest_hash x"
  shows "validated_supply_chain_statement env claims y sbom = validated_supply_chain_statement env claims x sbom"
  unfolding validated_supply_chain_statement_def assms ..

lemma row_ok_mono:
  assumes "td_roots db' = td_roots db @ rs" and "extends same_artifact (td_artifacts db) (td_artifacts db')"
    and "\<forall>a \<in> set (td_attestations db). \<exists>a' \<in> set (td_attestations db'). sa_id a' = sa_id a \<and>
      sa_hash a' = sa_hash a \<and> sa_statement_id a' = sa_statement_id a \<and> sa_subject_digest a' = sa_subject_digest a"
  shows "attestation_ok env db a \<Longrightarrow> attestation_ok env db' a"
    and "proof_ok env db p \<Longrightarrow> proof_ok env db' p"
    and "receipt_ok env db c \<Longrightarrow> receipt_ok env db' c"
proof -
  show "attestation_ok env db a \<Longrightarrow> attestation_ok env db' a"
  proof -
    assume a: "attestation_ok env db a"
    then obtain aa where aa: "aa \<in> set (td_artifacts db)" "aa_id aa = sa_artifact_attestation a"
      "sa_subject_digest a = aa_digest aa"
      "validated_supply_chain_statement env (sa_statement a) aa (sa_sbom a) = Inr (aa_digest aa)"
      by (auto simp: attestation_ok_def)
    from artifact_member [OF assms(2) aa(1)] obtain bb where bb: "bb \<in> set (td_artifacts db')" "same_artifact aa bb" by blast
    note same = same_artifact_fields [OF bb(2)]
    have "validated_supply_chain_statement env (sa_statement a) bb (sa_sbom a) = Inr (aa_digest bb)"
      using aa(4) same validated_statement_cong [of bb aa env] by simp
    with a aa bb(1) same assms(1) show ?thesis by (auto simp: attestation_ok_def linked_root_mono)
  qed
  show "proof_ok env db p \<Longrightarrow> proof_ok env db' p"
  proof -
    assume p: "proof_ok env db p"
    then obtain a where a: "a \<in> set (td_attestations db)" "sa_id a = lp_attestation p"
      "validated_transparency_entry (lp_entry p) a = Inr (lp_entry p)" by (auto simp: proof_ok_def)
    from bspec [OF assms(3) a(1)] obtain a' where a': "a' \<in> set (td_attestations db')" "sa_id a' = sa_id a" "sa_hash a' = sa_hash a"
      "sa_statement_id a' = sa_statement_id a" "sa_subject_digest a' = sa_subject_digest a" by blast
    then have "validated_transparency_entry (lp_entry p) a' = validated_transparency_entry (lp_entry p) a"
      by (simp add: validated_transparency_entry_def)
    with p a a' assms(1) show ?thesis by (auto simp: proof_ok_def linked_root_mono)
  qed
  show "receipt_ok env db c \<Longrightarrow> receipt_ok env db' c"
  proof -
    assume c: "receipt_ok env db c"
    then obtain a where a: "a \<in> set (td_attestations db)" "sa_id a = cr_attestation c"
      "jget (cr_statement c) ''supply_chain_attestation_hash'' = JStr (sa_hash a)"
      "sa_subject_digest a = cr_subject_digest c" by (auto simp: receipt_ok_def)
    from bspec [OF assms(3) a(1)] obtain a' where "a' \<in> set (td_attestations db')" "sa_id a' = sa_id a" "sa_hash a' = sa_hash a"
      "sa_subject_digest a' = sa_subject_digest a" by blast
    with c a assms(1) show ?thesis by (auto simp: receipt_ok_def linked_root_mono)
  qed
qed

text \<open>What the rows attest does not depend on the other tables.\<close>

lemma row_ok_update [simp]:
  "attestation_ok env (td_root_actions_update g0 db) = attestation_ok env db"
  "proof_ok env (td_root_actions_update g0 db) = proof_ok env db"
  "receipt_ok env (td_root_actions_update g0 db) = receipt_ok env db"
  "attestation_ok env (td_sources_update g1 db) = attestation_ok env db"
  "proof_ok env (td_sources_update g1 db) = proof_ok env db"
  "receipt_ok env (td_sources_update g1 db) = receipt_ok env db"
  "attestation_ok env (td_syncs_update g2 db) = attestation_ok env db"
  "proof_ok env (td_syncs_update g2 db) = proof_ok env db"
  "receipt_ok env (td_syncs_update g2 db) = receipt_ok env db"
  "attestation_ok env (td_schedules_update g3 db) = attestation_ok env db"
  "proof_ok env (td_schedules_update g3 db) = proof_ok env db"
  "receipt_ok env (td_schedules_update g3 db) = receipt_ok env db"
  "attestation_ok env (td_attestation_actions_update g4 db) = attestation_ok env db"
  "proof_ok env (td_attestation_actions_update g4 db) = proof_ok env db"
  "receipt_ok env (td_attestation_actions_update g4 db) = receipt_ok env db"
  "attestation_ok env (td_proofs_update g5 db) = attestation_ok env db"
  "proof_ok env (td_proofs_update g5 db) = proof_ok env db"
  "receipt_ok env (td_proofs_update g5 db) = receipt_ok env db"
  "attestation_ok env (td_receipts_update g6 db) = attestation_ok env db"
  "proof_ok env (td_receipts_update g6 db) = proof_ok env db"
  "receipt_ok env (td_receipts_update g6 db) = receipt_ok env db"
  "attestation_ok env (td_evidence_update g7 db) = attestation_ok env db"
  "proof_ok env (td_evidence_update g7 db) = proof_ok env db"
  "receipt_ok env (td_evidence_update g7 db) = receipt_ok env db"
  "attestation_ok env (td_run_artifact_update g8 db) = attestation_ok env db"
  "proof_ok env (td_run_artifact_update g8 db) = proof_ok env db"
  "receipt_ok env (td_run_artifact_update g8 db) = receipt_ok env db"
  by (auto simp: attestation_ok_def proof_ok_def receipt_ok_def fun_eq_iff)

lemma link_attestation_fields [simp]:
  "sa_id (link_attestation r a) = sa_id a" "sa_hash (link_attestation r a) = sa_hash a"
  "sa_statement_id (link_attestation r a) = sa_statement_id a" "sa_fingerprint (link_attestation r a) = sa_fingerprint a"
  "sa_subject_digest (link_attestation r a) = sa_subject_digest a" "sa_jws (link_attestation r a) = sa_jws a"
  "sa_statement (link_attestation r a) = sa_statement a" "sa_sbom (link_attestation r a) = sa_sbom a"
  "sa_artifact_attestation (link_attestation r a) = sa_artifact_attestation a"
  by (simp_all add: link_attestation_def)

lemma link_receipt_fields [simp]:
  "cr_id (link_receipt r c) = cr_id c" "cr_capture_id (link_receipt r c) = cr_capture_id c"
  "cr_fingerprint (link_receipt r c) = cr_fingerprint c" "cr_jws (link_receipt r c) = cr_jws c"
  "cr_statement (link_receipt r c) = cr_statement c" "cr_run_id (link_receipt r c) = cr_run_id c"
  "cr_attestation (link_receipt r c) = cr_attestation c" "cr_subject_digest (link_receipt r c) = cr_subject_digest c"
  by (simp_all add: link_receipt_def)

lemma reconcile_fields [simp]:
  "td_roots (reconcile_existing_evidence r db) = td_roots db"
  "td_root_actions (reconcile_existing_evidence r db) = td_root_actions db"
  "td_artifacts (reconcile_existing_evidence r db) = td_artifacts db"
  "td_attestation_actions (reconcile_existing_evidence r db) = td_attestation_actions db"
  "td_proofs (reconcile_existing_evidence r db) = td_proofs db"
  "td_sources (reconcile_existing_evidence r db) = td_sources db"
  "td_syncs (reconcile_existing_evidence r db) = td_syncs db"
  "td_schedules (reconcile_existing_evidence r db) = td_schedules db"
  "td_evidence (reconcile_existing_evidence r db) = td_evidence db"
  "td_run_artifact (reconcile_existing_evidence r db) = td_run_artifact db"
  by (simp_all add: reconcile_existing_evidence_def Let_def)

lemma reconciled_rows:
  "td_attestations (reconcile_existing_evidence r db) =
     (if tr_purpose r = Model_Publisher then map (link_attestation r) (td_attestations db) else td_attestations db)"
  "td_receipts (reconcile_existing_evidence r db) =
     (if tr_purpose r = Production_Collector then map (link_receipt r) (td_receipts db) else td_receipts db)"
  by (simp_all add: reconcile_existing_evidence_def Let_def)

lemma linked_attestation:
  "linked_root roots Model_Publisher (sa_fingerprint a) (sa_publisher_root a) \<Longrightarrow> r \<in> set roots \<Longrightarrow>
     tr_purpose r = Model_Publisher \<Longrightarrow>
     linked_root roots Model_Publisher (sa_fingerprint a) (sa_publisher_root (link_attestation r a))"
  by (auto simp: linked_root_def link_attestation_def)

lemma linked_receipt:
  "linked_root roots Production_Collector (cr_fingerprint c) (cr_collector_root c) \<Longrightarrow> r \<in> set roots \<Longrightarrow>
     tr_purpose r = Production_Collector \<Longrightarrow>
     linked_root roots Production_Collector (cr_fingerprint c) (cr_collector_root (link_receipt r c))"
  by (auto simp: linked_root_def link_receipt_def)

lemma reconcile_inv:
  assumes inv: "trust_inv env db" and r: "r \<in> set (td_roots db)"
  shows "trust_inv env (reconcile_existing_evidence r db)"
proof -
  let ?db = "reconcile_existing_evidence r db"
  have kept: "\<forall>a \<in> set (td_attestations db). \<exists>a' \<in> set (td_attestations ?db). sa_id a' = sa_id a \<and>
      sa_hash a' = sa_hash a \<and> sa_statement_id a' = sa_statement_id a \<and> sa_subject_digest a' = sa_subject_digest a"
    by (auto simp: reconciled_rows)
  have rs: "td_roots ?db = td_roots db @ []" and ar: "extends same_artifact (td_artifacts db) (td_artifacts ?db)"
    by (simp_all add: extends_refl same_artifact_def)
  note mono = row_ok_mono [OF rs ar kept]
  have "attestation_ok env ?db a'" if a': "a' \<in> set (td_attestations ?db)" for a'
  proof (cases "tr_purpose r = Model_Publisher")
    case True
    with a' obtain a where a: "a \<in> set (td_attestations db)" "a' = link_attestation r a" by (auto simp: reconciled_rows)
    then have "attestation_ok env db a" using inv by (simp add: trust_inv_def)
    then show ?thesis using linked_attestation [OF _ r True, of a] a(2) by (simp add: attestation_ok_def)
  next
    case False
    with a' inv show ?thesis by (auto simp: reconciled_rows trust_inv_def intro: mono(1))
  qed
  moreover have "receipt_ok env ?db c'" if c': "c' \<in> set (td_receipts ?db)" for c'
  proof (cases "tr_purpose r = Production_Collector")
    case True
    with c' obtain c where c: "c \<in> set (td_receipts db)" "c' = link_receipt r c" by (auto simp: reconciled_rows)
    then have "receipt_ok env db c" using inv by (simp add: trust_inv_def)
    then have "receipt_ok env ?db c" by (rule mono(3))
    then show ?thesis using linked_receipt [OF _ r True, of c] c(2) by (simp add: receipt_ok_def)
  next
    case False
    with c' inv show ?thesis by (auto simp: reconciled_rows trust_inv_def intro: mono(3))
  qed
  moreover have "proof_ok env ?db p" if "p \<in> set (td_proofs db)" for p
    using that inv by (auto simp: trust_inv_def intro: mono(2))
  ultimately show ?thesis using inv by (simp add: trust_inv_def reconciled_rows comp_def)
qed


lemma find_root_None:
  "find_root db p i k = None \<Longrightarrow> (p, i, k) \<notin> (\<lambda>r. (tr_purpose r, tr_issuer r, tr_key_id r)) ` set (td_roots db)"
  by (auto simp: find_root_def find_None_iff)

text \<open>A move that adds rows without changing attestations, artifacts or the roots there were keeps what the old rows attest.\<close>

lemma appended_ok:
  assumes "td_roots db' = td_roots db @ rs" and "extends same_artifact (td_artifacts db) (td_artifacts db')"
    and "td_attestations db' = td_attestations db @ as"
  shows "attestation_ok env db a \<Longrightarrow> attestation_ok env db' a"
    and "proof_ok env db p \<Longrightarrow> proof_ok env db' p"
    and "receipt_ok env db c \<Longrightarrow> receipt_ok env db' c"
proof -
  have kept: "\<forall>a \<in> set (td_attestations db). \<exists>a' \<in> set (td_attestations db'). sa_id a' = sa_id a \<and>
      sa_hash a' = sa_hash a \<and> sa_statement_id a' = sa_statement_id a \<and> sa_subject_digest a' = sa_subject_digest a"
    using assms(3) by auto
  note row_ok_mono [OF assms(1,2) kept, of env]
  then show "attestation_ok env db a \<Longrightarrow> attestation_ok env db' a" and "proof_ok env db p \<Longrightarrow> proof_ok env db' p"
    and "receipt_ok env db c \<Longrightarrow> receipt_ok env db' c" by blast+
qed

lemma trust_move_inv:
  assumes "trust_move env db db'" and "trust_inv env db"
  shows "trust_inv env db'"
  using assms
proof cases
  case (move_root r)
  then have old: "td_roots db' = td_roots db @ [r]" "extends same_artifact (td_artifacts db) (td_artifacts db')"
    "td_attestations db' = td_attestations db @ []" by (simp_all add: extends_refl same_artifact_def)
  show ?thesis using assms(2) move_root find_root_None [OF move_root(4)] appended_ok [OF old, of env]
    by (auto simp: trust_inv_def)
next
  case (move_attest a)
  then have old: "td_roots db' = td_roots db @ []" "extends same_artifact (td_artifacts db) (td_artifacts db')"
    "td_attestations db' = td_attestations db @ [a]" by (simp_all add: extends_refl same_artifact_def)
  show ?thesis using assms(2) move_attest appended_ok [OF old, of env] by (auto simp: trust_inv_def)
next
  case (move_artifacts aas)
  then have old: "td_roots db' = td_roots db @ []" "extends same_artifact (td_artifacts db) (td_artifacts db')"
    "td_attestations db' = td_attestations db @ []" by simp_all
  show ?thesis using assms(2) move_artifacts appended_ok [OF old, of env] by (auto simp: trust_inv_def)
next
  case (move_link r)
  then show ?thesis using assms(2) by (simp add: reconcile_inv)
qed (auto simp: trust_inv_def)

end
