(* ===== verification/Trust_System.thy ===== *)
theory Trust_System
  imports Trust_Chain Contracts
begin

text \<open>
  The commands of the trust registry, the supply chain and the trust sources as one system, with what other
  components write (benchmark runs, runtime attestations, schedules). Every command is a sequence of the moves
  of \<^theory_text>\<open>Trust_Chain\<close>, so the invariant holds after any run, the roots and the actions on
  roots and attestations are only appended to, and a verified production run rests on a full chain.
\<close>

section \<open>Commands\<close>

datatype trust_command =
  Register_Root root_request signer_identity uuid uuid instant
| Act_On_Root uuid root_verb string "string option" signer_identity uuid instant
| Attest_Supply jws_policy attestation_request signer_identity uuid instant
| Revoke_Supply uuid string "string option" signer_identity uuid instant
| Prove_Entry proof_request signer_identity int uuid instant
| Add_Receipt jws_policy string "string option" signer_identity uuid instant
| Add_Source source_request signer_identity uuid instant
| Sync_Source sync_draw uuid sync_mode "string option" signer_identity sync_context instant
| Write_Evidence evidence_db "uuid \<Rightarrow> uuid option"
| Write_Artifacts "artifact_attestation list"
| Write_Schedules "source_schedule list"

fun trust_step :: "sync_env \<Rightarrow> trust_command \<Rightarrow> trust_db \<Rightarrow> registry_error + trust_db" where
  "trust_step env (Register_Root q sg rid aid clock) db =
     bind_res (create_evidence_trust_root (sn_trust env) q sg rid aid clock db) (\<lambda>x. Inr (fst x))"
| "trust_step env (Act_On_Root rid verb reason ticket sg aid clock) db =
     bind_res (record_evidence_trust_root_action (sn_trust env) rid verb reason ticket sg aid clock db) (\<lambda>x. Inr (fst x))"
| "trust_step env (Attest_Supply p q sg said now) db =
     bind_res (create_model_supply_chain_attestation (sn_trust env) p q sg said now db) (\<lambda>x. Inr (fst x))"
| "trust_step env (Revoke_Supply said reason ticket sg act clock) db =
     bind_res (revoke_model_supply_chain_attestation (sn_trust env) said reason ticket sg act clock db) (\<lambda>x. Inr (fst x))"
| "trust_step env (Prove_Entry q sg age pid clock) db =
     bind_res (create_transparency_proof (sn_trust env) q sg age pid clock db) (\<lambda>x. Inr (fst x))"
| "trust_step env (Add_Receipt p jws notes sg cid now) db =
     bind_res (create_production_evidence_receipt (sn_trust env) p jws notes sg cid now db) (\<lambda>x. Inr (fst x))"
| "trust_step env (Add_Source q sg sid clock) db =
     bind_res (create_evidence_trust_source env q sg sid clock db) (\<lambda>x. Inr (fst x))"
| "trust_step env (Sync_Source dw sid mode notes sg cx clock) db =
     bind_res (sync_evidence_trust_source env dw sid mode notes sg cx clock db) (\<lambda>x. Inr (fst x))"
| "trust_step env (Write_Evidence ev ra) db = Inr (db\<lparr>td_evidence := ev, td_run_artifact := ra\<rparr>)"
| "trust_step env (Write_Artifacts aas) db = Inr (db\<lparr>td_artifacts := aas\<rparr>)"
| "trust_step env (Write_Schedules scs) db = Inr (db\<lparr>td_schedules := scs\<rparr>)"

text \<open>New identifiers are fresh, and the other components keep the identity of runtime attestations.\<close>

fun trust_adm :: "trust_command \<Rightarrow> trust_db \<Rightarrow> bool" where
  "trust_adm (Register_Root q sg rid aid clock) db = (rid \<notin> tr_id ` set (td_roots db))"
| "trust_adm (Attest_Supply p q sg said now) db = (said \<notin> sa_id ` set (td_attestations db))"
| "trust_adm (Sync_Source dw sid mode notes sg cx clock) db =
     (inj (sd_root dw) \<and> range (sd_root dw) \<inter> tr_id ` set (td_roots db) = {})"
| "trust_adm (Write_Artifacts aas) db = (extends same_artifact (td_artifacts db) aas \<and> distinct (map aa_id aas))"
| "trust_adm _ db = True"

section \<open>Every command is a sequence of moves\<close>

lemma validated_jwk: "validated_public_jwk env jwk k a = Inr j \<Longrightarrow> j = jwk"
  by (simp add: validated_public_jwk_def split: if_splits)

lemma validated_jwk_again: "validated_public_jwk env jwk k a = Inr j \<Longrightarrow> validated_public_jwk env j k a = Inr j"
  using validated_jwk by metis

lemma create_root_moves:
  assumes "create_evidence_trust_root env q sg rid aid clock db = Inr (db', r, b)"
    and "rid \<notin> tr_id ` set (td_roots db)"
  shows "(trust_move env)\<^sup>*\<^sup>* db db'"
proof (cases "find_root db (rr_purpose q) (strip (rr_issuer q)) (strip (rr_key_id q))")
  case (Some old)
  with assms(1) have "db' = reconcile_existing_evidence old db"
    by (auto simp: create_evidence_trust_root_def bind_res_eq_Inr Let_def split: if_splits)
  moreover from Some have "old \<in> set (td_roots db)" by (auto simp: find_root_def find_Some_iff)
  ultimately show ?thesis by (auto intro: move_link)
next
  case None
  let ?vf = "case rr_valid_from q of None \<Rightarrow> whole_seconds clock | Some t \<Rightarrow> whole_seconds t"
  let ?r = "\<lambda>jwk h. new_trust_root env rid q jwk ?vf (map_option whole_seconds (rr_valid_until q)) h sg (whole_seconds clock)"
  note run = assms(1) [unfolded create_evidence_trust_root_def Let_def None option.case]
  obtain jwk s where sg: "governance_operator sg"
    and jwk: "validated_public_jwk env (rr_jwk q) (strip (rr_key_id q)) (rr_algorithm q) = Inr jwk"
    and s: "rotation_target q (whole_seconds clock) db = Inr s"
    using run by (auto simp: assert_governance_operator_def bind_res_eq_Inr)
  obtain h where r: "r = ?r jwk h"
    and db': "db' = reconcile_existing_evidence r (case s of None \<Rightarrow> db\<lparr>td_roots := td_roots db @ [r]\<rparr>
        | Some x \<Rightarrow> db\<lparr>td_roots := td_roots db @ [r], td_root_actions := td_root_actions db @
            [new_root_action env aid x Root_Rotated (''Superseded by trust root '' @ rid) (ticket_reference sg) sg
              (whole_seconds clock)]\<rparr>)"
    using run s jwk by (cases s) (simp_all add: bind_res_eq_Inr, metis+)
  have "root_ok env r" using sg jwk validated_jwk [OF jwk]
    by (auto simp: root_ok_def r new_trust_root_def)
  with assms(2) None have one: "trust_move env db (db\<lparr>td_roots := td_roots db @ [r]\<rparr>)"
    by (intro move_root) (simp_all add: r new_trust_root_def)
  show ?thesis
  proof (cases s)
    case None
    have "trust_move env (db\<lparr>td_roots := td_roots db @ [r]\<rparr>) db'" unfolding db' None by (auto intro!: move_link)
    with one show ?thesis by auto
  next
    case (Some x)
    let ?a = "new_root_action env aid x Root_Rotated (''Superseded by trust root '' @ rid) (ticket_reference sg) sg
      (whole_seconds clock)"
    have "trust_move env (db\<lparr>td_roots := td_roots db @ [r]\<rparr>)
        (db\<lparr>td_roots := td_roots db @ [r], td_root_actions := td_root_actions db @ [?a]\<rparr>)"
      using move_action [of env "db\<lparr>td_roots := td_roots db @ [r]\<rparr>" ?a] by simp
    moreover have "trust_move env (db\<lparr>td_roots := td_roots db @ [r], td_root_actions := td_root_actions db @ [?a]\<rparr>) db'"
      unfolding db' Some by (auto intro!: move_link)
    ultimately show ?thesis using one by (meson converse_rtranclp_into_rtranclp r_into_rtranclp)
  qed
qed

text \<open>A statement accepted for a purpose was signed under a key, which is the root's when there is a root.\<close>

lemma verified_with_jwk:
  assumes "verify_signed_statement_with_jwk env jws jwk issuers algs age now = Inr s"
  shows "signed_under env (st_fingerprint s) (strip jws) (st_claims s)" and "st_fingerprint s = env_hash env jwk"
proof -
  obtain si where si: "inspect_signed_statement env (strip jws) = Inr si" "si_algorithm si \<in> set algs"
    "si_issuer si \<in> set issuers" "jwk_accepted jwk si = Inr ()"
    using assms by (auto simp: verify_signed_statement_with_jwk_def Let_def bind_res_eq_Inr)
  obtain claims where v: "te_verify env jwk (si_algorithm si) issuers (strip jws) = Jwt_Verified claims"
    using assms by (cases "te_verify env jwk (si_algorithm si) issuers (strip jws)")
      (simp_all add: verify_signed_statement_with_jwk_def Let_def si require_def)
  have "st_claims s = claims \<and> st_fingerprint s = env_hash env jwk"
    using assms by (auto simp: verify_signed_statement_with_jwk_def Let_def bind_res_eq_Inr si v split: option.splits)
  with v show "signed_under env (st_fingerprint s) (strip jws) (st_claims s)" and "st_fingerprint s = env_hash env jwk"
    by (auto simp: signed_under_def)
qed

lemma registered_statement:
  assumes "verify_registered_signed_statement env jws p age now db = Inr (Some (s, r))"
  shows "signed_under env (st_fingerprint s) (strip jws) (st_claims s)" and "r \<in> set (td_roots db)"
    and "tr_purpose r = p" and "tr_fingerprint r = st_fingerprint s" and "trust_root_status db r now = Rs_Active"
proof -
  obtain si where si: "inspect_signed_statement env jws = Inr si"
    using assms by (auto simp: verify_registered_signed_statement_def bind_res_eq_Inr)
  let ?mine = "filter (\<lambda>r. tr_purpose r = p)
    (filter (\<lambda>r. tr_issuer r = si_issuer si \<and> tr_key_id r = si_key_id si) (td_roots db))"
  note unfolded = assms [unfolded verify_registered_signed_statement_def si bind_res_Inr Let_def]
  obtain r' where r': "?mine = [r']"
    using unfolded by (cases ?mine rule: remdups_adj.cases) (simp_all split: if_splits)
  have *: "trust_root_status db r' now = Rs_Active" "st_fingerprint s = tr_fingerprint r'" "r' = r"
    "verify_signed_statement_with_jwk env jws (tr_jwk r') [tr_issuer r'] [tr_algorithm r'] age now = Inr s"
    using unfolded unfolding r' by (auto simp: bind_res_eq_Inr split: if_splits)
  have "r \<in> set ?mine" by (simp only: r' *(3)) simp
  with * verified_with_jwk [OF *(4)] show "signed_under env (st_fingerprint s) (strip jws) (st_claims s)"
    and "r \<in> set (td_roots db)" and "tr_purpose r = p" and "tr_fingerprint r = st_fingerprint s"
    and "trust_root_status db r now = Rs_Active" by auto
qed

lemma accepted_statement:
  assumes "verified_statement env jws p pol now db = Inr (s, r)"
  shows "signed_under env (st_fingerprint s) (strip jws) (st_claims s)"
    and "linked_root (td_roots db) p (st_fingerprint s) (map_option tr_id r)"
  using assms registered_statement verified_with_jwk(1)
  by (auto simp: verified_statement_def verify_signed_statement_def bind_res_eq_Inr linked_root_def
      split: option.splits if_splits)

lemma validated_sbom: "validated_cyclonedx_sbom b = Inr b' \<Longrightarrow> b' = b"
  by (auto simp: validated_cyclonedx_sbom_def split: if_splits json.splits list.splits)

lemma validated_statement_digest:
  "validated_supply_chain_statement env claims aa sbom = Inr d \<Longrightarrow> d = aa_digest aa"
  by (auto simp: validated_supply_chain_statement_def bind_res_eq_Inr Let_def split: json.splits list.splits if_splits)

lemma find_None_image: "find (\<lambda>x. f x = k) xs = None \<Longrightarrow> k \<notin> f ` set xs"
  by (auto simp: find_None_iff)

lemma attest_moves:
  assumes "create_model_supply_chain_attestation env p q sg said now db = Inr (db', a, b)"
    and "said \<notin> sa_id ` set (td_attestations db)"
  shows "(trust_move env)\<^sup>*\<^sup>* db db'"
proof -
  obtain aa where aa: "row_find aa_id (aq_artifact q) (td_artifacts db) = Some aa"
    using assms(1) by (cases "row_find aa_id (aq_artifact q) (td_artifacts db)")
      (auto simp: create_model_supply_chain_attestation_def bind_res_eq_Inr)
  note run = assms(1) [unfolded create_model_supply_chain_attestation_def aa option.case]
  obtain s r sbom d where s: "verified_statement env (aq_jws q) Model_Publisher p now db = Inr (s, r)"
    and sbom: "validated_cyclonedx_sbom (aq_sbom q) = Inr sbom"
    and d: "validated_supply_chain_statement env (st_claims s) aa sbom = Inr d"
    using run by (auto simp: bind_res_eq_Inr split: if_splits)
  have db': "db' = db \<or> find (\<lambda>a. sa_statement_id a = st_id s) (td_attestations db) = None \<and>
      db' = db\<lparr>td_attestations := td_attestations db @ [new_supply_attestation env said q aa s r d sg now]\<rparr>"
    using run s sbom d by (auto simp: bind_res_eq_Inr Let_def split: if_splits option.splits)
  let ?a = "new_supply_attestation env said q aa s r d sg now"
  from row_find_SomeD [OF aa] have "aa \<in> set (td_artifacts db)" by simp
  then have "attestation_ok env db ?a"
    using accepted_statement [OF s] d validated_statement_digest [OF d] validated_sbom [OF sbom]
    by (auto simp: attestation_ok_def new_supply_attestation_def)
  moreover have "sa_id ?a = said" "sa_statement_id ?a = st_id s" by (simp_all add: new_supply_attestation_def)
  ultimately have "trust_move env db (db\<lparr>td_attestations := td_attestations db @ [?a]\<rparr>)"
    if "find (\<lambda>a. sa_statement_id a = st_id s) (td_attestations db) = None"
    using that assms(2) find_None_image [OF that] by (intro move_attest) simp_all
  then show ?thesis using db' by auto
qed

lemma validated_entry: "validated_transparency_entry e a = Inr e' \<Longrightarrow> e' = e"
  by (auto simp: validated_transparency_entry_def Let_def split: if_splits)

lemma validated_entry_again:
  "validated_transparency_entry e a = Inr e' \<Longrightarrow> validated_transparency_entry e' a = Inr e'"
  using validated_entry by metis

lemma checked_proofD:
  assumes "check_transparency_proof env q claims a now = Inr ck"
  shows "normalized_hash (jget claims ''root_hash'') = Inr (ck_root_hash ck)"
    and "integer_claim ''transparency checkpoint '' 1 claims ''tree_size'' = Inr (ck_tree_size ck)"
    and "validated_transparency_entry (ck_entry ck) a = Inr (ck_entry ck)"
    and "calculate_transparency_root (te_H env) (transparency_leaf_hash (te_H env) (ck_entry ck)) (pq_index q)
           (ck_tree_size ck) (ck_path ck) = Inr (ck_root_hash ck)"
  using assms
  by (auto simp: check_transparency_proof_def bind_res_eq_Inr Let_def dest: validated_entry_again split: if_splits)

lemma proof_moves:
  assumes "create_transparency_proof env q sg age pid clock db = Inr (db', p, b)"
  shows "(trust_move env)\<^sup>*\<^sup>* db db'"
proof -
  let ?now = "whole_seconds clock"
  obtain a where a: "row_find sa_id (pq_attestation q) (td_attestations db) = Some a"
    using assms by (cases "row_find sa_id (pq_attestation q) (td_attestations db)")
      (auto simp: create_transparency_proof_def bind_res_eq_Inr)
  note run = assms(1) [unfolded create_transparency_proof_def a option.case Let_def]
  obtain w where w: "verify_registered_signed_statement env (pq_jws q) Transparency_Purpose age ?now db = Inr w"
    using run by (auto simp: bind_res_eq_Inr split: if_splits)
  obtain s r ck where s: "verify_registered_signed_statement env (pq_jws q) Transparency_Purpose age ?now db = Inr (Some (s, r))"
    and ck: "check_transparency_proof env q (st_claims s) a ?now = Inr ck"
    using run w by (cases w) (auto simp: bind_res_eq_Inr split: if_splits)
  have db': "db' = db \<or> find (\<lambda>p. lp_proof_id p = st_id s) (td_proofs db) = None \<and>
      db' = db\<lparr>td_proofs := td_proofs db @ [new_log_proof env pid q (sa_id a) r s ck sg ?now]\<rparr>"
    using run s ck by (auto simp: bind_res_eq_Inr split: if_splits option.splits)
  let ?p = "new_log_proof env pid q (sa_id a) r s ck sg ?now"
  from row_find_SomeD [OF a] have "a \<in> set (td_attestations db)" by simp
  then have "proof_ok env db ?p"
    using registered_statement [OF s] checked_proofD [OF ck]
    by (auto simp: proof_ok_def new_log_proof_def linked_root_def)
  moreover have "lp_proof_id ?p = st_id s" by (simp add: new_log_proof_def)
  ultimately have "trust_move env db (db\<lparr>td_proofs := td_proofs db @ [?p]\<rparr>)"
    if "find (\<lambda>p. lp_proof_id p = st_id s) (td_proofs db) = None"
    using that find_None_image [OF that] by (intro move_proof) simp_all
  then show ?thesis using db' by auto
qed

lemma receipt_chainD:
  assumes "receipt_chain claims db = Inr (run, aa, a)"
  shows "uuid_claim claims ''benchmark_run_id'' = Inr (rn_id run)"
    and "uuid_claim claims ''supply_chain_attestation_id'' = Inr (sa_id a)"
    and "a \<in> set (td_attestations db)" and "aa \<in> set (td_artifacts db)" and "sa_artifact_attestation a = aa_id aa"
    and "\<not> attestation_revoked db (sa_id a)"
proof -
  obtain run_id aid said where ids: "uuid_claim claims ''benchmark_run_id'' = Inr run_id"
    "uuid_claim claims ''model_artifact_attestation_id'' = Inr aid"
    "uuid_claim claims ''supply_chain_attestation_id'' = Inr said"
    using assms by (auto simp: receipt_chain_def bind_res_eq_Inr)
  note step = assms [unfolded receipt_chain_def ids bind_res_Inr]
  have found: "row_find rn_id run_id (e_runs (td_evidence db)) = Some run" "row_find aa_id aid (td_artifacts db) = Some aa"
    "row_find sa_id said (td_attestations db) = Some a" "sa_artifact_attestation a = aa_id aa"
    "\<not> attestation_revoked db (sa_id a)"
    using step by (auto split: option.splits if_splits)
  from row_find_SomeD [OF found(1)] row_find_SomeD [OF found(2)] row_find_SomeD [OF found(3)] ids found(4,5)
  show "uuid_claim claims ''benchmark_run_id'' = Inr (rn_id run)"
    and "uuid_claim claims ''supply_chain_attestation_id'' = Inr (sa_id a)"
    and "a \<in> set (td_attestations db)" and "aa \<in> set (td_artifacts db)" and "sa_artifact_attestation a = aa_id aa"
    and "\<not> attestation_revoked db (sa_id a)" by auto
qed

lemma check_receipt_scopeD:
  assumes "check_receipt_scope claims run aa a db = Inr d"
  shows "d = aa_digest aa" and "jget claims ''supply_chain_attestation_hash'' = JStr (sa_hash a)"
    and "rn_status run = ''completed''" and "rn_data_source run = production_captured"
    and "\<forall>b \<in> set (run_results db (rn_id run)). br_data_source b = production_captured"
  using assms by (auto simp: check_receipt_scope_def bind_res_eq_Inr list_ex_iff split: if_splits)

lemma receipt_moves:
  assumes "create_production_evidence_receipt env p jws notes sg cid now db = Inr (db', c, b)" and "trust_inv env db"
  shows "(trust_move env)\<^sup>*\<^sup>* db db'"
proof -
  note run = assms(1) [unfolded create_production_evidence_receipt_def Let_def]
  obtain s r where s: "verified_statement env jws Production_Collector p now db = Inr (s, r)"
    using run by (auto simp: bind_res_eq_Inr)
  obtain rn aa a d counts window where chain: "receipt_chain (st_claims s) db = Inr (rn, aa, a)"
    and d: "check_receipt_scope (st_claims s) rn aa a db = Inr d"
    and cw: "check_receipt_counts (st_claims s) rn db = Inr counts" "check_receipt_window env (st_claims s) now = Inr window"
    using run s by (auto simp: bind_res_eq_Inr split: if_splits)
  let ?c = "new_receipt env cid jws notes s r rn aa a d counts window sg now"
  have db': "db' = db \<or> find (\<lambda>c. cr_capture_id c = st_id s) (td_receipts db) = None \<and>
      db' = db\<lparr>td_receipts := td_receipts db @ [?c]\<rparr>"
    using run s chain d cw by (auto simp: bind_res_eq_Inr split: if_splits option.splits)
  note ch = receipt_chainD [OF chain]
  have "attestation_ok env db a" using ch(3) assms(2) by (simp add: trust_inv_def)
  then obtain bb where bb: "bb \<in> set (td_artifacts db)" "aa_id bb = aa_id aa" "sa_subject_digest a = aa_digest bb"
    using ch(5) by (auto simp: attestation_ok_def)
  have "bb = aa" using assms(2) distinct_key_eq [of aa_id "td_artifacts db" bb aa] bb(1,2) ch(4) by (simp add: trust_inv_def)
  then have "receipt_ok env db ?c"
    using accepted_statement [OF s] ch check_receipt_scopeD [OF d] bb(3)
    by (auto simp: receipt_ok_def new_receipt_def)
  moreover have "cr_capture_id ?c = st_id s" by (simp add: new_receipt_def)
  ultimately have "trust_move env db (db\<lparr>td_receipts := td_receipts db @ [?c]\<rparr>)"
    if "find (\<lambda>c. cr_capture_id c = st_id s) (td_receipts db) = None"
    using that find_None_image [OF that] by (intro move_receipt) simp_all
  then show ?thesis using db' by auto
qed

section \<open>A synchronisation is a sequence of moves\<close>

lemma remote_keys_of_ok:
  assumes "remote_keys_of env s seen vs = Inr ks"
  shows "distinct (map rk_key_id ks)" and "rk_key_id ` set ks \<inter> set seen = {}"
    and "\<forall>k \<in> set ks. rk_fingerprint k = env_hash env (rk_jwk k) \<and>
      validated_public_jwk env (rk_jwk k) (rk_key_id k) (rk_algorithm k) = Inr (rk_jwk k) \<and>
      rk_algorithm k \<in> set (ts_algorithms s)"
proof -
  have "distinct (map rk_key_id ks) \<and> rk_key_id ` set ks \<inter> set seen = {} \<and>
    (\<forall>k \<in> set ks. rk_fingerprint k = env_hash env (rk_jwk k) \<and>
      validated_public_jwk env (rk_jwk k) (rk_key_id k) (rk_algorithm k) = Inr (rk_jwk k) \<and>
      rk_algorithm k \<in> set (ts_algorithms s))"
    using assms
  proof (induction vs arbitrary: seen ks)
    case Nil
    then show ?case by simp
  next
    case (Cons v vs)
    from Cons.prems obtain k ks' where k: "remote_key_of env s seen v = Inr k" and ks: "ks = k # ks'"
      and rest: "remote_keys_of env s (rk_key_id k # seen) vs = Inr ks'" by (auto simp: bind_res_eq_Inr)
    from k have "rk_key_id k \<notin> set seen" "rk_fingerprint k = env_hash env (rk_jwk k)"
      "validated_public_jwk env (rk_jwk k) (rk_key_id k) (rk_algorithm k) = Inr (rk_jwk k)"
      "rk_algorithm k \<in> set (ts_algorithms s)"
      by (auto simp: remote_key_of_def Let_def bind_res_eq_Inr dest: validated_jwk_again split: if_splits)
    with Cons.IH [OF rest] show ?case by (auto simp: ks)
  qed
  then show "distinct (map rk_key_id ks)" and "rk_key_id ` set ks \<inter> set seen = {}"
    and "\<forall>k \<in> set ks. rk_fingerprint k = env_hash env (rk_jwk k) \<and>
      validated_public_jwk env (rk_jwk k) (rk_key_id k) (rk_algorithm k) = Inr (rk_jwk k) \<and>
      rk_algorithm k \<in> set (ts_algorithms s)" by auto
qed

lemma distinct_key_sort: "distinct (map f xs) \<Longrightarrow> distinct (map f (sort_key g xs))"
  by (simp add: distinct_map)

lemma validated_remote_keys_ok:
  assumes "validated_remote_keys env s payload = Inr ks"
  shows "distinct (map rk_key_id ks)"
    and "\<forall>k \<in> set ks. rk_fingerprint k = env_hash env (rk_jwk k) \<and>
      validated_public_jwk env (rk_jwk k) (rk_key_id k) (rk_algorithm k) = Inr (rk_jwk k) \<and>
      rk_algorithm k \<in> set (ts_algorithms s)"
proof -
  obtain vs ks' where ks': "remote_keys_of env s [] vs = Inr ks'" "ks = sort_key rk_key_id ks'"
    using assms by (auto simp: validated_remote_keys_def bind_res_eq_Inr simp del: remote_keys_of.simps
        split: json.splits list.splits if_splits)
  from remote_keys_of_ok [OF ks'(1)] ks'(2) show "distinct (map rk_key_id ks)"
    and "\<forall>k \<in> set ks. rk_fingerprint k = env_hash env (rk_jwk k) \<and>
      validated_public_jwk env (rk_jwk k) (rk_key_id k) (rk_algorithm k) = Inr (rk_jwk k) \<and>
      rk_algorithm k \<in> set (ts_algorithms s)" by (simp_all add: distinct_key_sort)
qed

text \<open>The registry has no root for a candidate and has one with the same fingerprint for the others.\<close>

lemma classify_filter:
  assumes "classify_remote_keys s db ks = Inr (cs, us)"
  shows "cs = filter (\<lambda>k. find_root db (ts_purpose s) (ts_issuer s) (rk_key_id k) = None) ks"
    and "us = filter (\<lambda>k. find_root db (ts_purpose s) (ts_issuer s) (rk_key_id k) \<noteq> None) ks"
    and "\<forall>k \<in> set us. \<exists>r. find_root db (ts_purpose s) (ts_issuer s) (rk_key_id k) = Some r \<and>
      tr_fingerprint r = rk_fingerprint k"
proof -
  have "cs = filter (\<lambda>k. find_root db (ts_purpose s) (ts_issuer s) (rk_key_id k) = None) ks \<and>
    us = filter (\<lambda>k. find_root db (ts_purpose s) (ts_issuer s) (rk_key_id k) \<noteq> None) ks \<and>
    (\<forall>k \<in> set us. \<exists>r. find_root db (ts_purpose s) (ts_issuer s) (rk_key_id k) = Some r \<and>
      tr_fingerprint r = rk_fingerprint k)"
    using assms
  proof (induction ks arbitrary: cs us)
    case Nil
    then show ?case by simp
  next
    case (Cons k ks)
    show ?case
    proof (cases "find_root db (ts_purpose s) (ts_issuer s) (rk_key_id k)")
      case None
      with Cons.prems obtain cs' where "classify_remote_keys s db ks = Inr (cs', us)" "cs = k # cs'"
        by (auto simp: bind_res_eq_Inr)
      with Cons.IH [of cs' us] None show ?thesis by auto
    next
      case (Some r)
      with Cons.prems obtain us' where "classify_remote_keys s db ks = Inr (cs, us')" "us = k # us'"
        "tr_fingerprint r = rk_fingerprint k" by (auto simp: bind_res_eq_Inr split: if_splits)
      with Cons.IH [of cs us'] Some show ?thesis by auto
    qed
  qed
  then show "cs = filter (\<lambda>k. find_root db (ts_purpose s) (ts_issuer s) (rk_key_id k) = None) ks"
    and "us = filter (\<lambda>k. find_root db (ts_purpose s) (ts_issuer s) (rk_key_id k) \<noteq> None) ks"
    and "\<forall>k \<in> set us. \<exists>r. find_root db (ts_purpose s) (ts_issuer s) (rk_key_id k) = Some r \<and>
      tr_fingerprint r = rk_fingerprint k" by blast+
qed

lemma observe_sourceD:
  assumes "so_result (observe_source env s db) = Inr (cs, us)"
  shows "distinct (map rk_key_id (so_keys (observe_source env s db)))"
    and "\<forall>k \<in> set (so_keys (observe_source env s db)). rk_fingerprint k = env_hash (sn_trust env) (rk_jwk k) \<and>
      validated_public_jwk (sn_trust env) (rk_jwk k) (rk_key_id k) (rk_algorithm k) = Inr (rk_jwk k) \<and>
      rk_algorithm k \<in> set (ts_algorithms s)"
    and "classify_remote_keys s db (so_keys (observe_source env s db)) = Inr (cs, us)"
proof -
  obtain payload where p: "fetch_remote_jwks env s = Inr payload"
    using assms by (cases "fetch_remote_jwks env s") (auto simp: observe_source_def)
  obtain keys where keys: "validated_remote_keys (sn_trust env) s payload = Inr keys"
    using assms by (cases "validated_remote_keys (sn_trust env) s payload")
      (auto simp: observe_source_def p Let_def split: registry_error.splits)
  have so: "so_keys (observe_source env s db) = keys" by (simp add: observe_source_def p keys)
  have "classify_remote_keys s db keys = Inr (cs, us)"
    using assms by (auto simp: observe_source_def p keys split: sum.splits registry_error.splits)
  with so validated_remote_keys_ok [OF keys]
  show "distinct (map rk_key_id (so_keys (observe_source env s db)))"
    and "\<forall>k \<in> set (so_keys (observe_source env s db)). rk_fingerprint k = env_hash (sn_trust env) (rk_jwk k) \<and>
      validated_public_jwk (sn_trust env) (rk_jwk k) (rk_key_id k) (rk_algorithm k) = Inr (rk_jwk k) \<and>
      rk_algorithm k \<in> set (ts_algorithms s)"
    and "classify_remote_keys s db (so_keys (observe_source env s db)) = Inr (cs, us)" by simp_all
qed

lemma imported_root_ok:
  assumes "rk_fingerprint k = env_hash env (rk_jwk k)"
    and "validated_public_jwk env (rk_jwk k) (rk_key_id k) (rk_algorithm k) = Inr (rk_jwk k)"
    and "governance_operator sg \<or> identity_verified sg \<and> normalized_role sg = ''system worker''"
  shows "root_ok env (imported_root env rid s yid k sg now)"
  unfolding root_ok_def using assms by (simp add: imported_root_def Let_def) blast

lemma imported_root_fields [simp]:
  "tr_id (imported_root env rid s yid k sg now) = rid" "tr_purpose (imported_root env rid s yid k sg now) = ts_purpose s"
  "tr_issuer (imported_root env rid s yid k sg now) = ts_issuer s"
  "tr_key_id (imported_root env rid s yid k sg now) = rk_key_id k"
  "tr_fingerprint (imported_root env rid s yid k sg now) = rk_fingerprint k"
  "tr_tier (imported_root env rid s yid k sg now) = ts_tier s"
  "tr_source_id (imported_root env rid s yid k sg now) = Some (ts_id s)"
  "tr_valid_from (imported_root env rid s yid k sg now) = now" "tr_valid_until (imported_root env rid s yid k sg now) = None"
  by (simp_all add: imported_root_def Let_def)

text \<open>The import of new keys, one root after the other.\<close>

lemma import_moves:
  assumes "\<forall>r \<in> set rs. root_ok env r" and "distinct (map tr_id rs)" and "tr_id ` set rs \<inter> tr_id ` set (td_roots db) = {}"
    and "distinct (map (\<lambda>r. (tr_purpose r, tr_issuer r, tr_key_id r)) rs)"
    and "\<forall>r \<in> set rs. find_root db (tr_purpose r) (tr_issuer r) (tr_key_id r) = None"
  shows "(trust_move env)\<^sup>*\<^sup>* db (fold import_key rs db)"
  using assms
proof (induction rs arbitrary: db)
  case Nil
  then show ?case by simp
next
  case (Cons r rs)
  let ?db = "db\<lparr>td_roots := td_roots db @ [r]\<rparr>"
  have one: "trust_move env db ?db" using Cons.prems by (intro move_root) auto
  have two: "trust_move env ?db (import_key r db)" unfolding import_key_def by (rule move_link) simp
  have roots: "td_roots (import_key r db) = td_roots db @ [r]" by (simp add: import_key_def)
  have "find_root (import_key r db) (tr_purpose x) (tr_issuer x) (tr_key_id x) = None" if "x \<in> set rs" for x
  proof -
    have "(tr_purpose x, tr_issuer x, tr_key_id x) \<noteq> (tr_purpose r, tr_issuer r, tr_key_id r)"
    proof
      assume eq: "(tr_purpose x, tr_issuer x, tr_key_id x) = (tr_purpose r, tr_issuer r, tr_key_id r)"
      from that have "(tr_purpose x, tr_issuer x, tr_key_id x) \<in> (\<lambda>r. (tr_purpose r, tr_issuer r, tr_key_id r)) ` set rs"
        by (rule imageI)
      with Cons.prems(4) show False by (simp add: eq)
    qed
    moreover have "find_root db (tr_purpose x) (tr_issuer x) (tr_key_id x) = None" using Cons.prems(5) that by simp
    ultimately show ?thesis by (auto simp: find_root_def roots find_None_iff)
  qed
  moreover have "tr_id ` set rs \<inter> tr_id ` set (td_roots (import_key r db)) = {}"
    using Cons.prems(2,3) by (auto simp: roots)
  ultimately have "(trust_move env)\<^sup>*\<^sup>* (import_key r db) (fold import_key rs (import_key r db))"
    using Cons.prems by (intro Cons.IH) auto
  with one two show ?case by (simp add: converse_rtranclp_into_rtranclp)
qed

text \<open>The roots an application imports.\<close>

definition imported_roots :: "sync_env \<Rightarrow> sync_draw \<Rightarrow> trust_source \<Rightarrow> signer_identity \<Rightarrow> instant \<Rightarrow> remote_key list \<Rightarrow> trust_root list" where
  "imported_roots env dw s sg now cs =
     map (\<lambda>k. imported_root (sn_trust env) (sd_root dw (rk_key_id k)) s (sd_sync dw) k sg now) cs"

definition succeeded_sync ::
  "sync_env \<Rightarrow> sync_draw \<Rightarrow> trust_source \<Rightarrow> sync_mode \<Rightarrow> string option \<Rightarrow> signer_identity \<Rightarrow> sync_context \<Rightarrow> instant \<Rightarrow>
   trust_db \<Rightarrow> remote_key list \<Rightarrow> remote_key list \<Rightarrow> source_sync" where
  "succeeded_sync env dw s mode notes sg cx now db cs us =
     (sync_row (sn_trust env) (sd_sync dw) s mode Sync_Succeeded notes sg cx now (sd_created dw) (observe_source env s db))
       \<lparr>ss_candidates := int (length cs), ss_unchanged := int (length us),
        ss_imported := (if mode = Sync_Apply then int (length cs) else 0)\<rparr>"

text \<open>What a committed synchronisation wrote.\<close>

lemma sync_outcome:
  assumes "sync_evidence_trust_source env dw sid mode notes sg cx clock db = Inr (db', y)"
  obtains (failed) s where "row_find ts_id sid (td_sources db) = Some s" and "sync_context_ok cx sg = Inr ()" and "ts_enabled s"
    and "ss_status y = Sync_Failed" and "ss_source_id y = ts_id s" and "db' = db\<lparr>td_syncs := td_syncs db @ [y]\<rparr>"
  | (succeeded) s cs us where "row_find ts_id sid (td_sources db) = Some s" and "sync_context_ok cx sg = Inr ()"
    and "ts_enabled s" and "so_result (observe_source env s db) = Inr (cs, us)"
    and "y = succeeded_sync env dw s mode notes sg cx (whole_seconds clock) db cs us"
    and "db' = (if mode = Sync_Apply
          then fold import_key (imported_roots env dw s sg (whole_seconds clock) cs) (db\<lparr>td_syncs := td_syncs db @ [y]\<rparr>)
          else db\<lparr>td_syncs := td_syncs db @ [y]\<rparr>)"
proof -
  obtain s where s: "row_find ts_id sid (td_sources db) = Some s"
    using assms by (cases "row_find ts_id sid (td_sources db)") (auto simp: sync_evidence_trust_source_def bind_res_eq_Inr)
  note run = assms [unfolded sync_evidence_trust_source_def s option.case Let_def]
  have guards: "sync_context_ok cx sg = Inr ()" "ts_enabled s"
    "validate_trust_source_url env (ts_endpoint s) (ts_tier s) (ts_insecure_http s) = Inr ()"
    using run by (auto simp: bind_res_eq_Inr split: if_splits)
  note run2 = run [unfolded guards(1,3) bind_res_Inr, simplified guards(2) not_True_eq_False if_False]
  show thesis
  proof (cases "so_result (observe_source env s db)")
    case (Inl e)
    then obtain code msg where o1: "so_result (observe_source env s db) = Inl (code, msg)" by (cases e) auto
    from run2 [unfolded o1 sum.case prod.case]
    have "ss_status y = Sync_Failed" "ss_source_id y = ts_id s" "db' = db\<lparr>td_syncs := td_syncs db @ [y]\<rparr>"
      by (auto simp: failed_sync_def sync_row_def)
    with s guards show thesis by (intro failed)
  next
    case (Inr w)
    then obtain cs us where o1: "so_result (observe_source env s db) = Inr (cs, us)" by (cases w) auto
    note run3 = run2 [unfolded o1 sum.case prod.case]
    show thesis
    proof (cases "mode = Sync_Apply \<and> sd_conflict dw")
      case True
      from run3 [unfolded if_P [OF True]]
      have "ss_status y = Sync_Failed" "ss_source_id y = ts_id s" "db' = db\<lparr>td_syncs := td_syncs db @ [y]\<rparr>"
        by (auto simp: failed_sync_def sync_row_def)
      with s guards show thesis by (intro failed)
    next
      case False
      have y: "succeeded_sync env dw s mode notes sg cx (whole_seconds clock) db cs us = y"
        and db': "(if mode = Sync_Apply
          then fold import_key (imported_roots env dw s sg (whole_seconds clock) cs)
            (db\<lparr>td_syncs := td_syncs db @ [succeeded_sync env dw s mode notes sg cx (whole_seconds clock) db cs us]\<rparr>)
          else db\<lparr>td_syncs := td_syncs db @ [succeeded_sync env dw s mode notes sg cx (whole_seconds clock) db cs us]\<rparr>) = db'"
        using run3 [unfolded if_not_P [OF False]]
        unfolding succeeded_sync_def imported_roots_def sum.inject prod.inject by blast+
      note committed = y [symmetric] db' [unfolded y, symmetric]
      from s guards(1,2) o1 committed show thesis by (rule succeeded)
    qed
  qed
qed

text \<open>The imported roots are new, distinct and checked.\<close>

lemma imported_roots_ok:
  assumes ctx: "sync_context_ok cx sg = Inr ()" and o1: "so_result (observe_source env s db) = Inr (cs, us)"
    and "inj (sd_root dw)" and "range (sd_root dw) \<inter> tr_id ` set (td_roots db) = {}"
  shows "\<forall>r \<in> set (imported_roots env dw s sg now cs). root_ok (sn_trust env) r"
    and "distinct (map tr_id (imported_roots env dw s sg now cs))"
    and "tr_id ` set (imported_roots env dw s sg now cs) \<inter> tr_id ` set (td_roots db) = {}"
    and "distinct (map (\<lambda>r. (tr_purpose r, tr_issuer r, tr_key_id r)) (imported_roots env dw s sg now cs))"
    and "\<forall>r \<in> set (imported_roots env dw s sg now cs). find_root db (tr_purpose r) (tr_issuer r) (tr_key_id r) = None"
proof -
  let ?f = "\<lambda>k. imported_root (sn_trust env) (sd_root dw (rk_key_id k)) s (sd_sync dw) k sg now"
  note o2 = observe_sourceD [OF o1]
  note cs = classify_filter(1) [OF o2(3)]
  have sub: "distinct (map rk_key_id cs)" "set cs \<subseteq> set (so_keys (observe_source env s db))"
    using o2(1) by (auto simp: cs distinct_map_filter)
  have "governance_operator sg \<or> identity_verified sg \<and> normalized_role sg = ''system worker''"
    using ctx by (auto simp: sync_context_ok_def assert_governance_operator_def split: if_splits)
  then have "root_ok (sn_trust env) (?f k)" if "k \<in> set cs" for k
    using o2(2) sub(2) that by (intro imported_root_ok) auto
  then show "\<forall>r \<in> set (imported_roots env dw s sg now cs). root_ok (sn_trust env) r" by (simp add: imported_roots_def)
  have "map tr_id (imported_roots env dw s sg now cs) = map (sd_root dw) (map rk_key_id cs)"
    by (simp add: imported_roots_def)
  then show "distinct (map tr_id (imported_roots env dw s sg now cs))"
    using sub(1) assms(3) by (simp only: distinct_map) (auto intro: inj_on_subset)
  show "tr_id ` set (imported_roots env dw s sg now cs) \<inter> tr_id ` set (td_roots db) = {}"
    using assms(4) by (force simp: imported_roots_def)
  show "distinct (map (\<lambda>r. (tr_purpose r, tr_issuer r, tr_key_id r)) (imported_roots env dw s sg now cs))"
    using sub(1) by (simp add: imported_roots_def distinct_map inj_on_def)
  show "\<forall>r \<in> set (imported_roots env dw s sg now cs). find_root db (tr_purpose r) (tr_issuer r) (tr_key_id r) = None"
    using cs by (simp add: imported_roots_def)
qed

lemma sync_moves:
  assumes "sync_evidence_trust_source env dw sid mode notes sg cx clock db = Inr (db', y)"
    and "inj (sd_root dw)" and "range (sd_root dw) \<inter> tr_id ` set (td_roots db) = {}"
  shows "(trust_move (sn_trust env))\<^sup>*\<^sup>* db db'"
proof -
  let ?db = "db\<lparr>td_syncs := td_syncs db @ [y]\<rparr>"
  have first: "trust_move (sn_trust env) db ?db" by (rule move_sync)
  from assms(1) show ?thesis
  proof (cases rule: sync_outcome)
    case (failed s)
    with first show ?thesis by auto
  next
    case (succeeded s cs us)
    let ?rs = "imported_roots env dw s sg (whole_seconds clock) cs"
    note ok = imported_roots_ok [OF succeeded(2,4) assms(2,3), of "whole_seconds clock"]
    have "(trust_move (sn_trust env))\<^sup>*\<^sup>* ?db (fold import_key ?rs ?db)"
      using ok by (intro import_moves) (simp_all add: find_root_def)
    with first have "(trust_move (sn_trust env))\<^sup>*\<^sup>* db (fold import_key ?rs ?db)"
      by (rule converse_rtranclp_into_rtranclp)
    with r_into_rtranclp [of "trust_move (sn_trust env)", OF first] show ?thesis by (simp add: succeeded(6))
  qed
qed

lemma trust_step_moves:
  assumes "trust_step env c db = Inr db'" and "trust_adm c db" and "trust_inv (sn_trust env) db"
  shows "(trust_move (sn_trust env))\<^sup>*\<^sup>* db db'"
  using assms
proof (cases c)
  case (Register_Root q sg rid aid clock)
  with assms show ?thesis by (auto simp: bind_res_eq_Inr intro: create_root_moves)
next
  case (Act_On_Root rid verb reason ticket sg aid clock)
  with assms show ?thesis
    by (auto simp: bind_res_eq_Inr record_evidence_trust_root_action_def Let_def intro: move_action
        split: if_splits option.splits)
next
  case (Attest_Supply p q sg said now)
  with assms show ?thesis by (auto simp: bind_res_eq_Inr intro: attest_moves)
next
  case (Revoke_Supply said reason ticket sg act clock)
  with assms show ?thesis
    by (auto simp: bind_res_eq_Inr revoke_model_supply_chain_attestation_def Let_def intro: move_revoke
        split: if_splits option.splits)
next
  case (Prove_Entry q sg age pid clock)
  with assms show ?thesis by (auto simp: bind_res_eq_Inr intro: proof_moves)
next
  case (Add_Receipt p jws nt sg cid now)
  with assms show ?thesis by (auto simp: bind_res_eq_Inr intro: receipt_moves)
next
  case (Add_Source q sg sid clock)
  with assms show ?thesis
    by (auto simp: bind_res_eq_Inr create_evidence_trust_source_def Let_def intro: move_source
        split: if_splits option.splits)
next
  case (Sync_Source dw sid mode nt sg cx clock)
  with assms show ?thesis by (auto simp: bind_res_eq_Inr intro: sync_moves)
next
  case (Write_Evidence ev ra)
  with assms show ?thesis by (auto intro: move_evidence)
next
  case (Write_Artifacts aas)
  with assms show ?thesis by (auto intro: move_artifacts)
next
  case (Write_Schedules scs)
  with assms show ?thesis by (auto intro: move_schedules)
qed

section \<open>The system\<close>

lemma trust_moves_inv: "(trust_move env)\<^sup>*\<^sup>* db db' \<Longrightarrow> trust_inv env db \<Longrightarrow> trust_inv env db'"
  by (induction rule: rtranclp_induct) (auto intro: trust_move_inv)

text \<open>Roots and the actions on roots and attestations are only added to.\<close>

lemma trust_move_appends:
  "trust_move env db db' \<Longrightarrow> prefix (td_roots db) (td_roots db') \<and> prefix (td_root_actions db) (td_root_actions db') \<and>
     prefix (td_attestation_actions db) (td_attestation_actions db')"
  by (erule trust_move.cases) simp_all

lemma trust_moves_append:
  "(trust_move env)\<^sup>*\<^sup>* db db' \<Longrightarrow> prefix (td_roots db) (td_roots db') \<and>
     prefix (td_root_actions db) (td_root_actions db') \<and>
     prefix (td_attestation_actions db) (td_attestation_actions db')"
proof (induction rule: rtranclp_induct)
  case base
  then show ?case by simp
next
  case (step db1 db2)
  from trust_move_appends [OF step.hyps(2)] step.IH show ?case by (meson prefix_order.trans)
qed

interpretation trust: guarded_system "trust_step env" trust_adm "trust_inv (sn_trust env)" for env
  by unfold_locales (blast intro: trust_moves_inv trust_step_moves)

interpretation root_log: audited_system "trust_step env" trust_adm "trust_inv (sn_trust env)" td_roots for env
  by unfold_locales (blast dest: trust_step_moves trust_moves_append)

interpretation root_action_log: audited_system "trust_step env" trust_adm "trust_inv (sn_trust env)" td_root_actions for env
  by unfold_locales (blast dest: trust_step_moves trust_moves_append)

interpretation revocation_log: audited_system "trust_step env" trust_adm "trust_inv (sn_trust env)"
  td_attestation_actions for env
  by unfold_locales (blast dest: trust_step_moves trust_moves_append)

section \<open>Eligible evidence\<close>

text \<open>An active root of a production tier, with this purpose and key.\<close>

definition production_root :: "trust_db \<Rightarrow> instant \<Rightarrow> trust_purpose \<Rightarrow> string \<Rightarrow> bool" where
  "production_root db now purpose fingerprint \<longleftrightarrow>
     (\<exists>r \<in> set (td_roots db). tr_purpose r = purpose \<and> tr_fingerprint r = fingerprint \<and> production_tier (tr_tier r) \<and>
        trust_root_status db r now = Rs_Active \<and> trust_source_key_is_current db r now)"

lemma eligible_linked_root:
  assumes "trust_root_is_production_eligible db (row_find tr_id i (td_roots db)) now"
    and "linked_root (td_roots db) p f (Some i)" and "distinct (map tr_id (td_roots db))"
  shows "production_root db now p f"
proof -
  obtain r where r: "row_find tr_id i (td_roots db) = Some r"
    using assms(1) by (auto simp: trust_root_is_production_eligible_def split: option.splits)
  from row_find_SomeD [OF r] have m: "r \<in> set (td_roots db)" "tr_id r = i" by simp_all
  obtain r' where r': "r' \<in> set (td_roots db)" "tr_id r' = i" "tr_purpose r' = p" "tr_fingerprint r' = f"
    using assms(2) by (auto simp: linked_root_def)
  have "r' = r" using assms(3) m r' distinct_key_eq [of tr_id "td_roots db" r' r] by simp
  with r' m assms(1) show ?thesis
    by (auto simp: production_root_def trust_root_is_production_eligible_def r trust_source_key_is_current_def
        split: option.splits)
qed

lemma eligible_attestation:
  assumes "supply_chain_is_production_eligible db a now" and "trust_inv env db" and "a \<in> set (td_attestations db)"
  shows "\<not> attestation_revoked db (sa_id a)" and "production_root db now Model_Publisher (sa_fingerprint a)"
    and "\<exists>p \<in> set (td_proofs db). lp_attestation p = sa_id a \<and> proof_ok env db p \<and>
      production_root db now Transparency_Purpose (lp_fingerprint p)"
proof -
  show "\<not> attestation_revoked db (sa_id a)" using assms(1) by (simp add: supply_chain_is_production_eligible_def)
  obtain i where i: "sa_publisher_root a = Some i" "trust_root_is_production_eligible db (row_find tr_id i (td_roots db)) now"
    using assms(1) by (auto simp: supply_chain_is_production_eligible_def trust_root_is_production_eligible_def
        split: option.splits)
  have "attestation_ok env db a" using assms(2,3) by (simp add: trust_inv_def)
  with i assms(2) show "production_root db now Model_Publisher (sa_fingerprint a)"
    by (intro eligible_linked_root [OF i(2)]) (simp_all add: attestation_ok_def trust_inv_def)
  have "supply_chain_transparency_status db a now = Log_Verified"
    using assms(1) by (simp add: supply_chain_is_production_eligible_def)
  then obtain p where p: "p \<in> set (td_proofs db)" "lp_attestation p = sa_id a" "proof_eligible db now p"
    by (auto simp: supply_chain_transparency_status_def Let_def list_ex_iff split: if_splits)
  have ok: "proof_ok env db p" using assms(2) p(1) by (simp add: trust_inv_def)
  have "production_root db now Transparency_Purpose (lp_fingerprint p)"
    using p(3) ok assms(2) by (intro eligible_linked_root [of db "lp_root p"])
      (simp_all add: proof_eligible_def proof_ok_def trust_inv_def)
  with p ok show "\<exists>p \<in> set (td_proofs db). lp_attestation p = sa_id a \<and> proof_ok env db p \<and>
      production_root db now Transparency_Purpose (lp_fingerprint p)" by blast
qed

lemma eligible_receipt:
  assumes "production_receipt_is_eligible db c now" and "trust_inv env db" and "c \<in> set (td_receipts db)"
  obtains a where "a \<in> set (td_attestations db)" and "sa_id a = cr_attestation c"
    and "supply_chain_is_production_eligible db a now" and "receipt_ok env db c" and "attestation_ok env db a"
    and "production_root db now Production_Collector (cr_fingerprint c)"
proof -
  obtain a where a: "row_find sa_id (cr_attestation c) (td_attestations db) = Some a"
    "supply_chain_is_production_eligible db a now"
    using assms(1) by (auto simp: production_receipt_is_eligible_def split: option.splits)
  from row_find_SomeD [OF a(1)] have m: "a \<in> set (td_attestations db)" "sa_id a = cr_attestation c" by simp_all
  have ok: "receipt_ok env db c" "attestation_ok env db a" using assms(2,3) m(1) by (simp_all add: trust_inv_def)
  obtain i where i: "cr_collector_root c = Some i" "trust_root_is_production_eligible db (row_find tr_id i (td_roots db)) now"
    using assms(1) by (auto simp: production_receipt_is_eligible_def trust_root_is_production_eligible_def
        split: option.splits)
  from ok(1) i assms(2) have "production_root db now Production_Collector (cr_fingerprint c)"
    by (intro eligible_linked_root [OF i(2)]) (simp_all add: receipt_ok_def trust_inv_def)
  from that [OF m a(2) ok this] show thesis .
qed

text \<open>A revoked root is revoked at every later time, and signs nothing eligible.\<close>

lemma revoked_root:
  assumes "Root_Revoked \<in> root_verbs db i"
  shows "tr_id r = i \<Longrightarrow> trust_root_status db r now = Rs_Revoked"
    and "\<not> trust_root_is_production_eligible db (row_find tr_id i (td_roots db)) now"
proof -
  show one: "tr_id r = i \<Longrightarrow> trust_root_status db r now = Rs_Revoked" for r
    using assms by (simp add: trust_root_status_def Let_def)
  show "\<not> trust_root_is_production_eligible db (row_find tr_id i (td_roots db)) now"
  proof (cases "row_find tr_id i (td_roots db)")
    case (Some r)
    from row_find_SomeD [OF Some] have "tr_id r = i" by simp
    with one [of r] Some show ?thesis by (simp add: trust_root_is_production_eligible_def)
  qed (simp add: trust_root_is_production_eligible_def)
qed

lemma root_verbs_mono: "prefix (td_root_actions db) (td_root_actions db') \<Longrightarrow> root_verbs db i \<subseteq> root_verbs db' i"
  by (auto simp: root_verbs_def prefix_def)

end
