(* ===== verification/Trust_Properties.thy ===== *)
theory Trust_Properties
  imports Trust_System
begin

text \<open>
  What the trust registry and the supply chain promise over any run of their commands: a verified production run
  rests on a full chain of signed evidence, a revocation is final, and an application of a trust source
  leaves the registry with the keys the source published.
\<close>

text \<open>
  C4. A benchmark run counts as verified production evidence only when the whole chain stands at that moment:
  a receipt names the run and was signed under an active production key of a collector; the attestation
  it names is not revoked, has the subject digest of the receipt and was signed under an active production
  key of a publisher; and an entry for this attestation is included in a log, by a path that leads from the hash
  of the entry to the root of a checkpoint signed under an active production key of a log. It holds after
  any run of registrations, actions, attestations, proofs, receipts and synchronisations.
\<close>

theorem verified_run_rests_on_chain:
  assumes "trust_inv (sn_trust env) db0" and "admissible_run (trust_step env) trust_adm cs db0"
    and "db = run_commands (trust_step env) cs db0" and "rid \<in> set (verified_production_run_ids db now run_ids)"
  shows "\<exists>c \<in> set (td_receipts db). \<exists>a \<in> set (td_attestations db). \<exists>p \<in> set (td_proofs db).
    uuid_claim (cr_statement c) ''benchmark_run_id'' = Inr rid \<and>
    signed_under (sn_trust env) (cr_fingerprint c) (cr_jws c) (cr_statement c) \<and>
    production_root db now Production_Collector (cr_fingerprint c) \<and>
    uuid_claim (cr_statement c) ''supply_chain_attestation_id'' = Inr (sa_id a) \<and>
    \<not> attestation_revoked db (sa_id a) \<and> sa_subject_digest a = cr_subject_digest c \<and>
    signed_under (sn_trust env) (sa_fingerprint a) (sa_jws a) (sa_statement a) \<and>
    production_root db now Model_Publisher (sa_fingerprint a) \<and>
    validated_transparency_entry (lp_entry p) a = Inr (lp_entry p) \<and>
    signed_under (sn_trust env) (lp_fingerprint p) (lp_jws p) (lp_checkpoint p) \<and>
    production_root db now Transparency_Purpose (lp_fingerprint p) \<and>
    calculate_transparency_root (te_H (sn_trust env)) (transparency_leaf_hash (te_H (sn_trust env)) (lp_entry p))
      (lp_index p) (lp_tree_size p) (lp_path p) = normalized_hash (jget (lp_checkpoint p) ''root_hash'')"
proof -
  let ?env = "sn_trust env"
  have inv: "trust_inv ?env db" unfolding assms(3) by (rule trust.run_inv [OF assms(1,2)])
  from assms(4) obtain c where c: "c \<in> set (td_receipts db)" "cr_run_id c = rid" "production_receipt_is_eligible db c now"
    by (auto simp: verified_production_run_ids_def set_fromkeys)
  from c(3) inv c(1) obtain a where a: "a \<in> set (td_attestations db)" "sa_id a = cr_attestation c"
    "supply_chain_is_production_eligible db a now" "receipt_ok ?env db c" "attestation_ok ?env db a"
    "production_root db now Production_Collector (cr_fingerprint c)" by (rule eligible_receipt)
  note chain = eligible_attestation [OF a(3) inv a(1)]
  from chain(3) obtain p where p: "p \<in> set (td_proofs db)" "lp_attestation p = sa_id a" "proof_ok ?env db p"
    "production_root db now Transparency_Purpose (lp_fingerprint p)" by blast
  have same: "b = a" if "b \<in> set (td_attestations db)" "sa_id b = sa_id a" for b
    using inv distinct_key_eq [of sa_id "td_attestations db" b a] that a(1) by (simp add: trust_inv_def)
  have digest: "sa_subject_digest a = cr_subject_digest c" using a(2,4) same by (auto simp: receipt_ok_def)
  have ent: "validated_transparency_entry (lp_entry p) a = Inr (lp_entry p)"
    using p(2,3) same by (auto simp: proof_ok_def)
  show ?thesis
    by (rule bexI [OF _ c(1)], rule bexI [OF _ a(1)], rule bexI [OF _ p(1)])
      (use a(2,4,5,6) c(2) chain(1,2) p(3,4) digest ent in
        \<open>simp add: receipt_ok_def attestation_ok_def proof_ok_def\<close>)
qed

text \<open>
  C12. A revocation is final and needs two people: a committed revocation of a trust root names a registered
  root and comes from somebody other than its registrar, and after any further run the root is still revoked at every
  time, and no attestation, proof or receipt linked to it is eligible for production.
\<close>

theorem root_revocation_is_final:
  assumes "trust_inv (sn_trust env) db"
    and "trust_step env (Act_On_Root rid Root_Revoked reason ticket sg aid clock) db = Inr db1"
    and "admissible_run (trust_step env) trust_adm cs db1" and "db2 = run_commands (trust_step env) cs db1"
  shows "governance_operator sg \<and>
    (\<exists>r \<in> set (td_roots db). tr_id r = rid \<and> text_claim (tr_registered_by r) ''subject_id'' \<noteq> subject_id sg) \<and>
    (\<forall>r \<in> set (td_roots db2). tr_id r = rid \<longrightarrow> trust_root_status db2 r now = Rs_Revoked) \<and>
    (\<forall>a. sa_publisher_root a = Some rid \<longrightarrow> \<not> supply_chain_is_production_eligible db2 a now) \<and>
    (\<forall>p. lp_root p = rid \<longrightarrow> \<not> proof_eligible db2 now p) \<and>
    (\<forall>c. cr_collector_root c = Some rid \<longrightarrow> \<not> production_receipt_is_eligible db2 c now)"
proof -
  from assms(2) obtain r where sg: "governance_operator sg" and r: "row_find tr_id rid (td_roots db) = Some r"
    and sep: "text_claim (tr_registered_by r) ''subject_id'' \<noteq> subject_id sg"
    and db1: "db1 = db\<lparr>td_root_actions := td_root_actions db @
      [new_root_action (sn_trust env) aid r Root_Revoked (strip reason) (optional_note ticket) sg (whole_seconds clock)]\<rparr>"
    by (auto simp: bind_res_eq_Inr record_evidence_trust_root_action_def assert_governance_operator_def Let_def
        split: option.splits if_splits)
  from row_find_SomeD [OF r] have m: "r \<in> set (td_roots db)" "tr_id r = rid" by simp_all
  have inv1: "trust_inv (sn_trust env) db1" by (rule trust.step_inv [OF assms(1) _ assms(2)]) simp
  have "Root_Revoked \<in> root_verbs db1 rid" using m(2) by (simp add: db1 root_verbs_def new_root_action_def)
  moreover have "prefix (td_root_actions db1) (td_root_actions db2)"
    unfolding assms(4) by (rule root_action_log.run_log [OF inv1 assms(3)])
  ultimately have revoked: "Root_Revoked \<in> root_verbs db2 rid" using root_verbs_mono by blast
  note dead = revoked_root [OF revoked]
  show ?thesis using sg m sep dead
    by (auto simp: supply_chain_is_production_eligible_def proof_eligible_def production_receipt_is_eligible_def)
qed

text \<open>
  The revocation of a supply-chain attestation is final too: it comes from somebody other than the recorded verifier,
  and after any further run neither the attestation nor any receipt for it is eligible, so no receipt for it verifies a
  production run.
\<close>

theorem attestation_revocation_is_final:
  assumes "trust_inv (sn_trust env) db" and "trust_step env (Revoke_Supply said reason ticket sg act clock) db = Inr db1"
    and "admissible_run (trust_step env) trust_adm cs db1" and "db2 = run_commands (trust_step env) cs db1"
  shows "maintenance_identity sg \<and>
    (\<exists>a \<in> set (td_attestations db). sa_id a = said \<and>
       (text_claim (sa_verified_by a) ''subject_id'' = [] \<or> text_claim (sa_verified_by a) ''subject_id'' \<noteq> subject_id sg)) \<and>
    attestation_revoked db2 said \<and>
    (\<forall>a. sa_id a = said \<longrightarrow> \<not> supply_chain_is_production_eligible db2 a now) \<and>
    (\<forall>c. cr_attestation c = said \<longrightarrow> \<not> production_receipt_is_eligible db2 c now)"
proof -
  from assms(2) obtain a where sg: "maintenance_identity sg" and a: "row_find sa_id said (td_attestations db) = Some a"
    and sep: "text_claim (sa_verified_by a) ''subject_id'' = [] \<or> text_claim (sa_verified_by a) ''subject_id'' \<noteq> subject_id sg"
    and rev1: "attestation_revoked db1 (sa_id a)"
    by (auto simp: bind_res_eq_Inr revoke_model_supply_chain_attestation_def assert_supply_chain_operator_def Let_def
        attestation_revoked_def split: option.splits if_splits)
  from row_find_SomeD [OF a] have m: "a \<in> set (td_attestations db)" "sa_id a = said" by simp_all
  have inv1: "trust_inv (sn_trust env) db1" by (rule trust.step_inv [OF assms(1) _ assms(2)]) simp
  have "prefix (td_attestation_actions db1) (td_attestation_actions db2)"
    unfolding assms(4) by (rule revocation_log.run_log [OF inv1 assms(3)])
  then have revoked: "attestation_revoked db2 said"
    using m(2) rev1 by (auto simp: attestation_revoked_def prefix_def)
  then have dead: "\<not> supply_chain_is_production_eligible db2 b t" if "sa_id b = said" for b t
    using that by (simp add: supply_chain_is_production_eligible_def)
  moreover have "\<not> production_receipt_is_eligible db2 c t" if c: "cr_attestation c = said" for c t
  proof (cases "row_find sa_id said (td_attestations db2)")
    case (Some b)
    from row_find_SomeD [OF Some] have "sa_id b = said" by simp
    with dead Some c show ?thesis by (simp add: production_receipt_is_eligible_def)
  qed (simp add: production_receipt_is_eligible_def c)
  ultimately show ?thesis using sg m sep revoked by blast
qed

section \<open>Synchronisation\<close>

lemma fold_import_roots: "td_roots (fold import_key rs db) = td_roots db @ rs"
  by (induction rs arbitrary: db) (simp_all add: import_key_def)

lemma fold_import_tables [simp]:
  "td_syncs (fold import_key rs db) = td_syncs db" "td_sources (fold import_key rs db) = td_sources db"
  "td_root_actions (fold import_key rs db) = td_root_actions db" "td_schedules (fold import_key rs db) = td_schedules db"
  by (induction rs arbitrary: db) (simp_all add: import_key_def)

lemma find_root_append:
  "find_root (db\<lparr>td_roots := rs @ qs\<rparr>) p i k =
     (case find_root (db\<lparr>td_roots := rs\<rparr>) p i k of None \<Rightarrow> find_root (db\<lparr>td_roots := qs\<rparr>) p i k | Some r \<Rightarrow> Some r)"
  by (induction rs) (auto simp: find_root_def)

lemma find_root_member:
  assumes "r \<in> set (td_roots db)"
  shows "\<exists>r'. find_root db (tr_purpose r) (tr_issuer r) (tr_key_id r) = Some r'"
proof (cases "find_root db (tr_purpose r) (tr_issuer r) (tr_key_id r)")
  case None
  from find_root_None [OF None] imageI [OF assms, of "\<lambda>r. (tr_purpose r, tr_issuer r, tr_key_id r)"]
  show ?thesis by simp
qed simp

lemma find_root_cong: "td_roots db = td_roots db' \<Longrightarrow> find_root db p i k = find_root db' p i k"
  by (simp add: find_root_def)


section \<open>Keys a source no longer publishes\<close>

lemma latest_by_append:
  "\<forall>x \<in> set xs. key x \<le> key y \<Longrightarrow> latest_by key (xs @ [y]) = Some y"
  by (induction xs) (auto simp: not_less)

lemma sync_appends:
  assumes "sync_evidence_trust_source env dw sid mode nt sg cx clock db = Inr (db', y)"
  shows "td_syncs db' = td_syncs db @ [y]" and "ss_source_id y = sid"
    and "ss_status y = Sync_Succeeded \<Longrightarrow> ss_mode y = mode"
  using assms
  by (auto elim!: sync_outcome dest!: row_find_SomeD simp: succeeded_sync_def sync_row_def split: if_splits)

text \<open>
  C22. A key that a source stopped publishing stops counting: when a successful application is the newest
  synchronisation of its source, no root that belongs to the source and whose key is not among the keys just
  observed is eligible for production, at any time until the source is synchronised again. The registry keeps the root:
  the key's actions are not needed to withdraw it.
\<close>

theorem withdrawn_key_is_ineligible:
  assumes "sync_evidence_trust_source env dw sid Sync_Apply nt sg cx clock db = Inr (db', y)"
    and "ss_status y = Sync_Succeeded" and "\<forall>z \<in> set (td_syncs db). ss_source_id z = sid \<longrightarrow> sync_key z \<le> sync_key y"
    and "tr_source_id r = Some sid" and "tr_fingerprint r \<notin> ok_fingerprint ` set (ss_keys y)"
  shows "\<not> trust_root_is_production_eligible db' (Some r) t"
proof -
  note y = sync_appends [OF assms(1)]
  have "latest_successful_source_apply db' sid = Some y"
    using latest_by_append [of "filter (\<lambda>s. ss_source_id s = sid \<and> ss_mode s = Sync_Apply \<and> ss_status s = Sync_Succeeded)
        (td_syncs db)" sync_key y] assms(2,3) y
    by (simp add: latest_successful_source_apply_def)
  moreover have "\<not> list_ex (\<lambda>k. ok_fingerprint k = tr_fingerprint r) (ss_keys y)"
    using assms(5) by (metis (mono_tags, lifting) image_eqI list_ex_iff)
  ultimately have "\<not> trust_source_key_is_current db' r t"
    using assms(4) by (auto simp: trust_source_key_is_current_def dest!: row_find_SomeD split: option.splits)
  with assms(4) show ?thesis by (simp add: trust_root_is_production_eligible_def)
qed

end
