(* ===== verification/Transparency_Log_Correct.thy ===== *)
theory Transparency_Log_Correct
  imports Transparency_Log
begin

text \<open>
  The inclusion proofs are right: the walk from a leaf to the root is that of the recursive definition of a
  Merkle tree, so an honest proof is accepted (completeness) and only entries of the tree have one (soundness,
  unless two inputs with the same hash are at hand). The walk is separated into the numeric part, the
  sides on which the siblings lie (\<open>sides\<close>), and the hashing (\<open>fold_path\<close>).
\<close>

section \<open>Hexadecimal text\<close>

lemma hex_value_digit: "n < 16 \<Longrightarrow> hex_value (hex_digit n) = n"
  by (auto simp: hex_value_def hex_digit_def Let_def of_char_of take_bit_eq_mod)

lemma nibble: "(of_char c :: nat) div 16 < 16"
  using nat_of_char_less_256 [of c] by (simp only: less_mult_imp_div_less)

lemma from_to_hex [simp]: "from_hex (to_hex s) = s"
proof (induction s)
  case (Cons c s)
  have "16 * hex_value (hex_digit (of_char c div 16)) + hex_value (hex_digit (of_char c mod 16)) = (of_char c :: nat)"
    using nibble [of c] by (simp add: hex_value_digit)
  with Cons show ?case by (simp add: to_hex_def byte_hex_def)
qed (simp add: to_hex_def)

lemma length_to_hex [simp]: "length (to_hex s) = 2 * length s"
  by (induction s) (simp_all add: to_hex_def byte_hex_def)

lemma length_from_hex: "length (from_hex s) = length s div 2"
  by (induction s rule: from_hex.induct) auto

lemma hex_digit_mem: "n < 16 \<Longrightarrow> hex_digit n \<in> set HEX_DIGITS"
proof -
  have "\<forall>n \<in> {0..<16}. hex_digit n \<in> set HEX_DIGITS" by code_simp
  then show "n < 16 \<Longrightarrow> hex_digit n \<in> set HEX_DIGITS" by simp
qed

lemma to_hex_digits: "c \<in> set (to_hex s) \<Longrightarrow> c \<in> set HEX_DIGITS"
  by (induction s) (auto simp: to_hex_def byte_hex_def hex_digit_mem nibble)

lemma hex_digit_chars: "c \<in> set HEX_DIGITS \<Longrightarrow> lower_char c = c \<and> \<not> is_space c \<and> c \<noteq> CHR ''s''"
proof -
  have "\<forall>c \<in> set HEX_DIGITS. lower_char c = c \<and> \<not> is_space c \<and> c \<noteq> CHR ''s''" by code_simp
  then show "c \<in> set HEX_DIGITS \<Longrightarrow> lower_char c = c \<and> \<not> is_space c \<and> c \<noteq> CHR ''s''" by blast
qed

lemma strip_no_space: "(\<And>c. c \<in> set s \<Longrightarrow> \<not> is_space c) \<Longrightarrow> strip s = s"
proof -
  assume a: "\<And>c. c \<in> set s \<Longrightarrow> \<not> is_space c"
  then have "dropWhile is_space s = s" by (cases s) auto
  moreover have "dropWhile is_space (rev s) = rev s" using a [of "last s"] last_in_set [of s] by (auto simp: dropWhile_eq_self_iff hd_rev)
  ultimately show ?thesis by (simp add: strip_def)
qed

lemma normalized_to_hex:
  assumes "length s = 32"
  shows "normalized_hash (JStr (to_hex s)) = Inr (to_hex s)"
proof -
  have digits: "list_all (\<lambda>c. c \<in> set HEX_DIGITS) (to_hex s)" by (auto simp: list_all_iff to_hex_digits)
  have "strip (to_hex s) = to_hex s" by (rule strip_no_space) (use to_hex_digits hex_digit_chars in blast)
  moreover have "lower (to_hex s) = to_hex s"
    using to_hex_digits hex_digit_chars by (auto simp: lower_def intro!: map_idI)
  moreover have "\<not> prefix ''sha256:'' (to_hex s)"
  proof
    assume "prefix ''sha256:'' (to_hex s)"
    then have "CHR ''s'' \<in> set (to_hex s)" by (auto simp: prefix_def)
    then show False using to_hex_digits hex_digit_chars by blast
  qed
  moreover have "to_hex s \<noteq> []" using assms length_to_hex [of s] by (metis list.size(3) mult_eq_0_iff zero_neq_numeral)
  ultimately show ?thesis using assms digits by (simp add: normalized_hash_def str_or_def)
qed

lemma normalized_hash_length: "normalized_hash v = Inr h \<Longrightarrow> length h = 64"
  by (auto simp: normalized_hash_def Let_def split: if_splits)

section \<open>The walk of the positions\<close>

definition sides :: "nat \<Rightarrow> position \<Rightarrow> bool list" where
  "sides m p = map (\<lambda>j. from_left ((ascend ^^ j) p)) [0..<m]"

lemma sides_0 [simp]: "sides 0 p = []"
  by (simp add: sides_def)

lemma sides_Suc: "sides (Suc m) p = from_left p # sides m (ascend p)"
  by (simp add: sides_def upt_conv_Cons map_Suc_upt [symmetric] funpow_swap1 del: upt_Suc)

lemma sides_snoc: "sides (Suc m) p = sides m p @ [from_left ((ascend ^^ m) p)]"
  by (simp add: sides_def)

lemma sides_add: "sides (a + b) p = sides a p @ sides b ((ascend ^^ a) p)"
proof (induction a arbitrary: p)
  case (Suc a)
  then show ?case by (simp add: sides_Suc funpow_swap1)
qed simp

lemma length_sides [simp]: "length (sides m p) = m"
  by (simp add: sides_def)

lemma skip_odd: "odd i \<Longrightarrow> skip_levels i n = (i, n)"
  by (simp add: skip_levels.simps)

lemma skip_levels_power: "odd c \<Longrightarrow> skip_levels (c * 2 ^ t) (c * 2 ^ t) = (c, c)"
proof (induction t)
  case 0
  then show ?case by (simp add: skip_levels.simps)
next
  case (Suc t)
  then show ?case by (subst skip_levels.simps) auto
qed

lemma ascend_apart:
  assumes "fst p \<noteq> snd p"
  shows "ascend p = (fst p div 2, snd p div 2)" and "from_left p = odd (fst p)"
  using assms by (cases p; auto simp: ascend_def from_left_def skip_odd)+

lemma ascend_joined:
  assumes "odd c"
  shows "ascend (c * 2 ^ t, c * 2 ^ t) = (c div 2, c div 2)" and "from_left (c * 2 ^ t, c * 2 ^ t)"
  using assms by (simp_all add: ascend_def from_left_def skip_levels_power)

lemma ascend_zero: "ascend (0, 0) = (0, 0)" and from_left_zero: "from_left (0, 0)"
  by (simp_all add: ascend_def from_left_def skip_levels.simps)

text \<open>The sides of the recursive definition, from the leaf upwards.\<close>

function path_sides :: "nat \<Rightarrow> nat \<Rightarrow> bool list" where
  "path_sides i n =
     (if n \<le> 1 then []
      else let k = split_size n in if i < k then path_sides i k @ [False] else path_sides (i - k) (n - k) @ [True])"
  by auto
termination
proof (relation "measure snd", goal_cases)
  case (2 i n k)
  then show ?case using split_size_bounds [of n] by simp
next
  case (3 i n k)
  then show ?case using split_size_pos [of n] by simp
qed simp

declare path_sides.simps [simp del]

lemma split_size_pow2: "split_size (2 ^ Suc d) = 2 ^ d"
proof (induction d)
  case (Suc d)
  have "(2 ^ Suc (Suc d) + 1) div 2 = (2::nat) ^ Suc d" by simp
  moreover have "(1::nat) \<le> 2 ^ d" by simp
  then have "\<not> (2::nat) ^ Suc (Suc d) \<le> 2" unfolding power_Suc by linarith
  ultimately show ?case using Suc by (subst split_size.simps) (simp del: power_Suc, simp)
qed (simp add: split_size.simps)

text \<open>
  In a full subtree of height \<open>d\<close> that does not hold the last node the walk reads off the bits of the index.
\<close>

lemma walk_full:
  assumes "i < 2 ^ d" and "L div 2 ^ d \<noteq> c"
  shows "sides d (c * 2 ^ d + i, L) = path_sides i (2 ^ d) \<and>
    (ascend ^^ d) (c * 2 ^ d + i, L) = (c, L div 2 ^ d)"
  using assms
proof (induction d arbitrary: i c)
  case 0
  then show ?case by (simp add: path_sides.simps)
next
  case (Suc d)
  let ?b = "i div 2 ^ d" and ?r = "i mod 2 ^ d"
  let ?c = "2 * c + ?b"
  have b: "?b = 0 \<or> ?b = 1" using less_mult_imp_div_less [of i 2 "2 ^ d"] Suc.prems(1) by (simp, linarith)
  have split: "c * 2 ^ Suc d + i = ?c * 2 ^ d + ?r" by (simp add: algebra_simps)
  have half: "L div 2 ^ Suc d = (L div 2 ^ d) div 2" by (simp only: power_Suc2 div_mult2_eq)
  have ne: "L div 2 ^ d \<noteq> ?c" using Suc.prems(2) b unfolding half by linarith
  from Suc.IH [OF _ ne, of ?r]
  have w: "sides d (c * 2 ^ Suc d + i, L) = path_sides ?r (2 ^ d)"
    "(ascend ^^ d) (c * 2 ^ Suc d + i, L) = (?c, L div 2 ^ d)" unfolding split by simp_all
  have up: "ascend (?c, L div 2 ^ d) = (c, L div 2 ^ Suc d)" "from_left (?c, L div 2 ^ d) = (?b = 1)"
    using ascend_apart [of "(?c, L div 2 ^ d)"] ne b unfolding half by auto
  have ps: "path_sides i (2 ^ Suc d) = path_sides ?r (2 ^ d) @ [?b = 1]"
  proof -
    have "(0::nat) < 2 ^ d" by simp
    then have "\<not> (2::nat) ^ Suc d \<le> 1" unfolding power_Suc by linarith
    then have "path_sides i (2 ^ Suc d) =
        (if i < 2 ^ d then path_sides i (2 ^ d) @ [False] else path_sides (i - 2 ^ d) (2 ^ Suc d - 2 ^ d) @ [True])"
      by (subst path_sides.simps) (simp add: split_size_pow2 Let_def del: power_Suc)
    moreover have "i - 2 ^ d = ?r \<and> ?b = 1" if "\<not> i < 2 ^ d"
    proof -
      have "i - 2 ^ d < 2 ^ d" using Suc.prems(1) by simp
      with that show ?thesis by (metis add_diff_inverse_nat div_add_self1 div_less mod_add_self1 mod_less
            One_nat_def add_0 power_not_zero zero_neq_numeral)
    qed
    ultimately show ?thesis by (cases "i < 2 ^ d") simp_all
  qed
  show ?case
    using w up unfolding ps by (simp add: sides_snoc del: power_Suc)
qed

lemma block_div: "r < b \<Longrightarrow> (a * b + r) div b = (a :: nat)"
  by simp

lemma walk_apart:
  assumes "L div 2 ^ d \<noteq> x div 2 ^ d" and "m \<le> d"
  shows "(ascend ^^ m) (x, L) = (x div 2 ^ m, L div 2 ^ m)"
proof -
  have deep: "a div 2 ^ d = (a div 2 ^ m) div 2 ^ (d - m)" for a :: nat
    using assms(2) by (simp add: div_mult2_eq [symmetric] flip: power_add)
  then have "L div 2 ^ m \<noteq> x div 2 ^ m" using assms(1) by metis
  from walk_full [OF _ this, of "x mod 2 ^ m"] show ?thesis by (simp add: div_mult_mod_eq)
qed

text \<open>
  The walk of a tree of \<open>n\<close> leaves that is the last part of a larger one: \<open>c\<close> counts the full subtrees of
  size \<open>2 ^ D\<close> before it. It ends on the level \<open>D - t\<close>, above which the node is again the last one, and it does
  not pass the last node before.
\<close>

lemma walk_last:
  assumes "i < n" and "n \<le> 2 ^ D"
  shows "sides (length (path_sides i n)) (c * 2 ^ D + i, c * 2 ^ D + (n - 1)) = path_sides i n \<and>
    (\<exists>t \<le> D. (ascend ^^ length (path_sides i n)) (c * 2 ^ D + i, c * 2 ^ D + (n - 1)) = (c * 2 ^ t, c * 2 ^ t)) \<and>
    (\<forall>m < length (path_sides i n). 0 < snd ((ascend ^^ m) (c * 2 ^ D + i, c * 2 ^ D + (n - 1))))"
  using assms
proof (induction i n arbitrary: c D rule: path_sides.induct)
  case (1 i n)
  show ?case
  proof (cases "n \<le> 1")
    case True
    with "1.prems" have "i = 0 \<and> n = 1" by simp
    then show ?thesis by (auto simp: path_sides.simps)
  next
    case False
    define k where "k = split_size n"
    from split_size_power obtain d where k: "k = 2 ^ d" unfolding k_def by blast
    have kn: "k < n" "n \<le> 2 * k" using split_size_bounds [of n] False by (simp_all add: k_def)
    have dD: "d < D"
    proof (rule ccontr)
      assume "\<not> d < D"
      then have "(2::nat) ^ D \<le> 2 ^ d" by simp
      with kn "1.prems"(2) k show False by linarith
    qed
    define e where "e = D - Suc d"
    have D: "2 ^ D = 2 * 2 ^ e * (2::nat) ^ d" using dD by (simp add: e_def flip: power_add power_Suc)
    let ?L = "c * 2 ^ D + (n - 1)"
    have L: "?L = (2 * (c * 2 ^ e) + 1) * 2 ^ d + (n - k - 1)" using kn by (simp add: D k algebra_simps)
    have small: "n - k - 1 < 2 ^ d" using kn k by linarith
    then have Ld: "?L div 2 ^ d = 2 * (c * 2 ^ e) + 1" unfolding L by (rule block_div)
    show ?thesis
    proof (cases "i < k")
      case True
      have i: "c * 2 ^ D + i = (2 * (c * 2 ^ e)) * 2 ^ d + i" by (simp add: D)
      from walk_full [of i d ?L "2 * (c * 2 ^ e)"] True k Ld
      have w: "sides d (c * 2 ^ D + i, ?L) = path_sides i k"
        "(ascend ^^ d) (c * 2 ^ D + i, ?L) = (2 * (c * 2 ^ e), 2 * (c * 2 ^ e) + 1)" unfolding i by simp_all
      then have len: "length (path_sides i k) = d" by (metis length_sides)
      have ps: "path_sides i n = path_sides i k @ [False]"
        using False True by (subst path_sides.simps) (simp add: k_def Let_def)
      have up: "ascend (2 * (c * 2 ^ e), 2 * (c * 2 ^ e) + 1) = (c * 2 ^ e, c * 2 ^ e)"
        "\<not> from_left (2 * (c * 2 ^ e), 2 * (c * 2 ^ e) + 1)"
        using ascend_apart [of "(2 * (c * 2 ^ e), 2 * (c * 2 ^ e) + 1)"] by simp_all
      have pos: "0 < snd ((ascend ^^ m) (c * 2 ^ D + i, ?L))" if "m \<le> d" for m
      proof -
        have "?L div 2 ^ d \<noteq> (c * 2 ^ D + i) div 2 ^ d" unfolding i Ld using True k by (simp add: block_div)
        from walk_apart [OF this that] have "snd ((ascend ^^ m) (c * 2 ^ D + i, ?L)) = ?L div 2 ^ m" by simp
        moreover have "2 ^ m \<le> (2::nat) ^ d" using that by simp
        then have "?L div 2 ^ d \<le> ?L div 2 ^ m" by (rule div_le_mono2 [rotated]) simp
        ultimately show ?thesis using Ld by simp
      qed
      show ?thesis unfolding ps using w up len pos e_def
        by (auto simp: sides_snoc less_Suc_eq_le intro!: exI [of _ e])
    next
      case F: False
      from F "1.prems"(1) have i': "i - k < n - k" and nk: "n - k \<le> 2 ^ d" using kn k by linarith+
      have i: "c * 2 ^ D + i = (2 * (c * 2 ^ e) + 1) * 2 ^ d + (i - k)" using F by (simp add: D k algebra_simps)
      note ih = "1.IH"(2) [OF False k_def F i' nk, of "2 * (c * 2 ^ e) + 1", folded i L]
      let ?c = "2 * (c * 2 ^ e) + 1"
      let ?m = "length (path_sides (i - k) (n - k))"
      have ps: "path_sides i n = path_sides (i - k) (n - k) @ [True]"
        using False F by (subst path_sides.simps) (simp add: k_def Let_def)
      from ih obtain t where w: "sides ?m (c * 2 ^ D + i, ?L) = path_sides (i - k) (n - k)"
        "(ascend ^^ ?m) (c * 2 ^ D + i, ?L) = (?c * 2 ^ t, ?c * 2 ^ t)"
        "\<forall>m < ?m. 0 < snd ((ascend ^^ m) (c * 2 ^ D + i, ?L))" by auto
      have up: "ascend (?c * 2 ^ t, ?c * 2 ^ t) = (c * 2 ^ e, c * 2 ^ e)" "from_left (?c * 2 ^ t, ?c * 2 ^ t)"
        using ascend_joined [of ?c t] by simp_all
      have "e \<le> D" by (simp add: e_def)
      then show ?thesis unfolding ps using w up by (auto simp: sides_snoc less_Suc_eq simp del: mult_Suc intro!: exI [of _ e])
    qed
  qed
qed

text \<open>The whole tree: the walk ends at the top exactly when the path has been used up.\<close>

lemma walk_tree:
  assumes "i < n"
  shows "sides (length (path_sides i n)) (i, n - 1) = path_sides i n"
    and "(ascend ^^ length (path_sides i n)) (i, n - 1) = (0, 0)"
    and "\<And>m. m < length (path_sides i n) \<Longrightarrow> 0 < snd ((ascend ^^ m) (i, n - 1))"
  using walk_last [of i n n 0] assms less_exp [of n] by auto

lemma zero_ascends: "(ascend ^^ m) (0, 0) = (0, 0)"
  by (induction m) (simp_all add: ascend_zero)

lemma sides_zero: "sides m (0, 0) = replicate m True"
  by (induction m) (simp_all add: sides_Suc ascend_zero from_left_zero)

section \<open>Hashing along a path\<close>

fun fold_path :: "(string \<Rightarrow> string) \<Rightarrow> string \<Rightarrow> (bool \<times> string) list \<Rightarrow> string" where
  "fold_path H current [] = current"
| "fold_path H current ((left, s) # path) =
     fold_path H (if left then hash_tree_node H s current else hash_tree_node H current s) path"

lemma fold_path_append: "fold_path H x (p @ q) = fold_path H (fold_path H x p) q"
  by (induction H x p rule: fold_path.induct) auto

lemma climb_fold:
  "climb H p current path = Inr (p', x) \<Longrightarrow>
     \<exists>sib. list_all2 (\<lambda>s h. normalized_hash (JStr s) = Inr h) path sib \<and>
       p' = (ascend ^^ length path) p \<and> x = fold_path H current (zip (sides (length path) p) (map from_hex sib))"
proof (induction H p current path rule: climb.induct)
  case (1 H p current)
  then show ?case by simp
next
  case (2 H p current s path)
  then obtain h where h: "normalized_hash (JStr s) = Inr h" by (auto simp: bind_res_eq_Inr)
  from 2(1) [of h] 2(2) h obtain sib where s:
    "list_all2 (\<lambda>s h. normalized_hash (JStr s) = Inr h) path sib" "p' = (ascend ^^ length path) (ascend p)"
    "x = fold_path H (if from_left p then hash_tree_node H (from_hex h) current else hash_tree_node H current (from_hex h))
       (zip (sides (length path) (ascend p)) (map from_hex sib))" by auto
  then show ?case using h by (intro exI [of _ "h # sib"]) (auto simp: sides_Suc funpow_swap1)
qed

lemma climb_complete:
  assumes "list_all2 (\<lambda>s h. normalized_hash (JStr s) = Inr h) path sib"
  shows "climb H p current path =
    Inr ((ascend ^^ length path) p, fold_path H current (zip (sides (length path) p) (map from_hex sib)))"
  using assms
  by (induction path sib arbitrary: p current rule: list_all2_induct) (auto simp: sides_Suc funpow_swap1)

section \<open>Completeness\<close>

lemma inclusion_path_sides: "length (inclusion_path H i xs) = length (path_sides i (length xs))"
proof (induction H i xs rule: inclusion_path.induct)
  case (1 H i xs)
  show ?case
  proof (cases "length xs \<le> 1")
    case False
    have "min (length xs) (split_size (length xs)) = split_size (length xs)"
      using split_size_bounds [of "length xs"] False by simp
    with 1 False show ?thesis
      by (subst inclusion_path.simps, subst path_sides.simps) (simp add: Let_def)
  qed (simp add: inclusion_path.simps path_sides.simps)
qed

lemma inclusion_path_root:
  "i < length xs \<Longrightarrow>
     fold_path H (xs ! i) (zip (path_sides i (length xs)) (inclusion_path H i xs)) = tree_root H xs"
proof (induction H i xs rule: inclusion_path.induct)
  case (1 H i xs)
  show ?case
  proof (cases "length xs \<le> 1")
    case True
    with 1 obtain x where "xs = [x]" "i = 0" by (cases xs) auto
    then show ?thesis by (simp add: inclusion_path.simps path_sides.simps tree_root.simps)
  next
    case False
    define k where "k = split_size (length xs)"
    have min: "min (length xs) k = k" and k: "k < length xs"
      using split_size_bounds [of "length xs"] False by (simp_all add: k_def)
    have root: "tree_root H xs = hash_tree_node H (tree_root H (take k xs)) (tree_root H (drop k xs))"
      using False by (subst tree_root.simps) (simp add: k_def Let_def)
    show ?thesis
    proof (cases "i < k")
      case True
      have "inclusion_path H i xs = inclusion_path H i (take k xs) @ [tree_root H (drop k xs)]"
        "path_sides i (length xs) = path_sides i k @ [False]"
        using False True by (subst inclusion_path.simps path_sides.simps; simp add: k_def Let_def)+
      moreover have "length (inclusion_path H i (take k xs)) = length (path_sides i k)"
        by (simp add: inclusion_path_sides min)
      ultimately show ?thesis
        using "1.IH"(1) [OF False k_def] True k by (simp add: min root fold_path_append)
    next
      case F: False
      have "inclusion_path H i xs = inclusion_path H (i - k) (drop k xs) @ [tree_root H (take k xs)]"
        "path_sides i (length xs) = path_sides (i - k) (length xs - k) @ [True]"
        using False F by (subst inclusion_path.simps path_sides.simps; simp add: k_def Let_def)+
      moreover have "length (inclusion_path H (i - k) (drop k xs)) = length (path_sides (i - k) (length xs - k))"
        by (simp add: inclusion_path_sides)
      moreover have "i - k < length xs - k" using F "1.prems" by linarith
      ultimately show ?thesis
        using "1.IH"(2) [OF False k_def] F k "1.prems" by (simp add: root fold_path_append)
    qed
  qed
qed


definition digest_function :: "(string \<Rightarrow> string) \<Rightarrow> bool" where
  "digest_function H \<longleftrightarrow> (\<forall>x. length (H x) = 32)"

lemma tree_root_length: "digest_function H \<Longrightarrow> \<forall>x \<in> set xs. length x = 32 \<Longrightarrow> length (tree_root H xs) = 32"
  by (subst tree_root.simps) (auto simp: digest_function_def hash_tree_node_def Let_def split: list.splits)

lemma inclusion_path_length:
  assumes "digest_function H" and "\<forall>x \<in> set xs. length x = 32"
  shows "\<forall>s \<in> set (inclusion_path H i xs). length s = 32"
  using assms
proof (induction H i xs rule: inclusion_path.induct)
  case (1 H i xs)
  let ?k = "split_size (length xs)"
  have sub: "\<forall>x \<in> set (take ?k xs). length x = 32" "\<forall>x \<in> set (drop ?k xs). length x = 32"
    using "1.prems"(2) by (blast dest: in_set_takeD in_set_dropD)+
  show ?case
  proof (cases "length xs \<le> 1")
    case True
    then show ?thesis by (simp add: inclusion_path.simps)
  next
    case False
    show ?thesis
      using "1.IH"(1) [OF False refl _ "1.prems"(1) sub(1)] "1.IH"(2) [OF False refl _ "1.prems"(1) sub(2)]
        tree_root_length [OF "1.prems"(1) sub(1)] tree_root_length [OF "1.prems"(1) sub(2)] False
      by (subst inclusion_path.simps) (simp add: Let_def ball_Un)
  qed
qed

lemma leaf_hashes_length: "digest_function H \<Longrightarrow> \<forall>x \<in> set (leaf_hashes H es). length x = 32"
  by (auto simp: leaf_hashes_def digest_function_def)

lemma normalized_hexes: "\<forall>s \<in> set xs. length s = 32 \<Longrightarrow> list_all2 (\<lambda>s h. normalized_hash (JStr s) = Inr h) (map to_hex xs) (map to_hex xs)"
  by (induction xs) (simp_all add: normalized_to_hex)

text \<open>
  C9. Honest inclusion proofs are accepted. For every entry of a log of any size, the inclusion path that
  RFC 6962 defines leads \<^verbatim>\<open>calculate_transparency_root\<close> from the hash of the entry to the root hash of the
  log: the iterative walk with its skipped levels computes the recursively defined Merkle tree root.
\<close>

theorem inclusion_proof_complete:
  assumes H: "digest_function H" and i: "i < length es"
  shows "calculate_transparency_root H (transparency_leaf_hash H (es ! i)) (int i) (int (length es))
      (map to_hex (inclusion_path H i (leaf_hashes H es))) = Inr (to_hex (tree_root H (leaf_hashes H es)))"
proof -
  let ?xs = "leaf_hashes H es"
  let ?path = "inclusion_path H i ?xs"
  have n: "length ?xs = length es" by (simp add: leaf_hashes_def)
  have leaf: "transparency_leaf_hash H (es ! i) = to_hex (?xs ! i)" "length (?xs ! i) = 32"
    using i H by (simp_all add: transparency_leaf_hash_def leaf_hashes_def digest_function_def)
  have sib: "list_all2 (\<lambda>s h. normalized_hash (JStr s) = Inr h) (map to_hex ?path) (map to_hex ?path)"
    by (rule normalized_hexes) (rule inclusion_path_length [OF H leaf_hashes_length [OF H]])
  have len: "length ?path = length (path_sides i (length es))" by (simp add: inclusion_path_sides n)
  have "map from_hex (map to_hex ?path) = ?path" by (simp add: map_idI)
  then have "climb H (i, length es - 1) (?xs ! i) (map to_hex ?path) = Inr ((0, 0), tree_root H ?xs)"
    using climb_complete [OF sib, of H "(i, length es - 1)" "?xs ! i"] walk_tree [OF i]
      inclusion_path_root [of i ?xs H] i by (simp add: len n)
  moreover have "es \<noteq> []" using i by auto
  ultimately show ?thesis
    using i leaf by (simp add: calculate_transparency_root_def normalized_to_hex)
qed

section \<open>Soundness\<close>

text \<open>What is hashed for a tree, and during the check of a proof.\<close>

function tree_inputs :: "(string \<Rightarrow> string) \<Rightarrow> string list \<Rightarrow> string list" where
  "tree_inputs H xs =
     (if length xs \<le> 1 then []
      else let k = split_size (length xs)
           in (char_of (1::nat) # tree_root H (take k xs) @ tree_root H (drop k xs))
              # tree_inputs H (take k xs) @ tree_inputs H (drop k xs))"
  by auto
termination
proof (relation "measure (\<lambda>(H, xs). length xs)", goal_cases)
  case (2 H xs k)
  then show ?case using split_part_less [of xs] by simp
next
  case (3 H xs k)
  then show ?case using split_part_less [of xs] by simp
qed simp

declare tree_inputs.simps [simp del]

fun fold_inputs :: "(string \<Rightarrow> string) \<Rightarrow> string \<Rightarrow> (bool \<times> string) list \<Rightarrow> string list" where
  "fold_inputs H current [] = []"
| "fold_inputs H current ((left, s) # path) =
     (let input = char_of (1::nat) # (if left then s @ current else current @ s)
      in input # fold_inputs H (H input) path)"

definition proof_inputs :: "(string \<Rightarrow> string) \<Rightarrow> string \<Rightarrow> position \<Rightarrow> string list \<Rightarrow> string list" where
  "proof_inputs H leaf p path =
     fold_inputs H leaf (zip (sides (length path) p)
       (map (\<lambda>s. case normalized_hash (JStr s) of Inl _ \<Rightarrow> [] | Inr h \<Rightarrow> from_hex h) path))"

lemma fold_inputs_append: "fold_inputs H x (p @ q) = fold_inputs H x p @ fold_inputs H (fold_path H x p) q"
  by (induction H x p rule: fold_inputs.induct) (auto simp: Let_def hash_tree_node_def)

text \<open>The descent in a tree of \<open>n\<close> leaves along the sides of a proof, read from the root.\<close>

function locate :: "nat \<Rightarrow> bool list \<Rightarrow> nat option" where
  "locate n w =
     (if n \<le> 1 then (if w = [] then Some 0 else None)
      else case w of [] \<Rightarrow> None
        | b # w' \<Rightarrow> let k = split_size n in if b then map_option ((+) k) (locate (n - k) w') else locate k w')"
  by auto
termination by (relation "measure (\<lambda>(n, w). length w)") auto

declare locate.simps [simp del]

lemma fold_path_length:
  "digest_function H \<Longrightarrow> length x = 32 \<Longrightarrow> length (fold_path H x p) = 32"
  by (induction H x p rule: fold_path.induct) (auto simp: digest_function_def hash_tree_node_def)

lemma descends:
  assumes "digest_function H" and "inj_on H S"
    and "set (tree_inputs H xs) \<subseteq> S" and "set (fold_inputs H x (zip w sib)) \<subseteq> S"
    and "xs \<noteq> []" and "\<forall>y \<in> insert x (set xs). \<exists>t. y = H (char_of (0::nat) # t) \<and> char_of (0::nat) # t \<in> S"
    and "length w = length sib" and "\<forall>s \<in> set sib. length s = 32"
    and "fold_path H x (zip w sib) = tree_root H xs"
  shows "\<exists>j. locate (length xs) (rev w) = Some j \<and> j < length xs \<and> xs ! j = x"
  using assms
proof (induction H xs arbitrary: w sib rule: tree_root.induct)
  case (1 H xs)
  note H = "1.prems"(1) and inj = "1.prems"(2)
  obtain t where t: "x = H (char_of (0::nat) # t)" "char_of (0::nat) # t \<in> S" using "1.prems"(6) by auto
  have tag: "char_of (0::nat) \<noteq> (char_of (1::nat) :: char)" by simp
  show ?case
  proof (cases w rule: rev_cases)
    case Nil
    then have x: "x = tree_root H xs" using "1.prems"(9) by simp
    show ?thesis
    proof (cases "length xs \<le> 1")
      case True
      then obtain y where "xs = [y]" using "1.prems"(5) by (cases xs) auto
      then show ?thesis using x Nil by (simp add: tree_root.simps locate.simps)
    next
      case False
      then have "x = H (char_of (1::nat) # tree_root H (take (split_size (length xs)) xs) @ tree_root H (drop (split_size (length xs)) xs))"
        using x by (subst (asm) tree_root.simps) (simp add: Let_def hash_tree_node_def)
      moreover have "char_of (1::nat) # tree_root H (take (split_size (length xs)) xs) @ tree_root H (drop (split_size (length xs)) xs) \<in> S"
        using "1.prems"(3) False by (subst (asm) tree_inputs.simps) (simp add: Let_def)
      ultimately show ?thesis using t inj_onD [OF inj] tag by (metis list.inject)
    qed
  next
    case (snoc w' b)
    then obtain sib' s where sib: "sib = sib' @ [s]" "length w' = length sib'"
      using "1.prems"(7) by (cases sib rule: rev_cases) auto
    let ?y = "fold_path H x (zip w' sib')"
    let ?in = "char_of (1::nat) # (if b then s @ ?y else ?y @ s)"
    have node: "tree_root H xs = H ?in" and node_in: "?in \<in> S"
      using "1.prems"(9,4) snoc sib by (auto simp: fold_path_append fold_inputs_append hash_tree_node_def Let_def)
    have sub: "set (fold_inputs H x (zip w' sib')) \<subseteq> S"
      using "1.prems"(4) snoc sib by (simp add: fold_inputs_append)
    have y: "length ?y = 32" by (rule fold_path_length [OF H]) (use t H in \<open>simp add: digest_function_def\<close>)
    have s: "length s = 32" using "1.prems"(8) sib by simp
    show ?thesis
    proof (cases "length xs \<le> 1")
      case True
      then obtain z where z: "xs = [z]" using "1.prems"(5) by (cases xs) auto
      with "1.prems"(6) obtain u where u: "z = H (char_of (0::nat) # u)" "char_of (0::nat) # u \<in> S" by auto
      from node z u(1) have "H ?in = H (char_of (0::nat) # u)" by (simp add: tree_root.simps)
      from inj_onD [OF inj this node_in u(2)] show ?thesis using tag by simp
    next
      case False
      define k where "k = split_size (length xs)"
      have k: "0 < k" "k < length xs" using split_size_pos split_size_bounds [of "length xs"] False by (simp_all add: k_def)
      let ?l = "tree_root H (take k xs)" and ?r = "tree_root H (drop k xs)"
      have leaf32: "\<forall>y \<in> set xs. length y = 32" using "1.prems"(6) H by (auto simp: digest_function_def)
      have "length ?l = 32" by (rule tree_root_length [OF H]) (use leaf32 in \<open>auto dest: in_set_takeD\<close>)
      have "length ?r = 32" by (rule tree_root_length [OF H]) (use leaf32 in \<open>auto dest: in_set_dropD\<close>)
      have root: "tree_root H xs = H (char_of (1::nat) # ?l @ ?r)"
        using False by (subst tree_root.simps) (simp add: k_def Let_def hash_tree_node_def)
      have ins: "set (tree_inputs H xs) =
          insert (char_of (1::nat) # ?l @ ?r) (set (tree_inputs H (take k xs)) \<union> set (tree_inputs H (drop k xs)))"
        using False by (subst tree_inputs.simps) (simp add: k_def Let_def)
      have "H ?in = H (char_of (1::nat) # ?l @ ?r)" using node root by simp
      from inj_onD [OF inj this node_in] have "?in = char_of (1::nat) # ?l @ ?r" using "1.prems"(3) ins by simp
      then have eq: "if b then ?y = ?r else ?y = ?l"
        using y s \<open>length ?l = 32\<close> by (auto split: if_splits)
      have loc: "locate (length xs) (rev w) =
          (if b then map_option ((+) k) (locate (length xs - k) (rev w')) else locate k (rev w'))"
        using False snoc by (subst locate.simps) (simp add: k_def Let_def)
      have leaves: "\<forall>y \<in> insert x (set (take k xs)). \<exists>t. y = H (char_of (0::nat) # t) \<and> char_of (0::nat) # t \<in> S"
        "\<forall>y \<in> insert x (set (drop k xs)). \<exists>t. y = H (char_of (0::nat) # t) \<and> char_of (0::nat) # t \<in> S"
        using "1.prems"(6) by (auto dest: in_set_takeD in_set_dropD)
      have sib32: "\<forall>s \<in> set sib'. length s = 32" using "1.prems"(8) sib by simp
      have subs: "set (tree_inputs H (take k xs)) \<subseteq> S" "set (tree_inputs H (drop k xs)) \<subseteq> S"
        using "1.prems"(3) ins by blast+
      have ne: "take k xs \<noteq> []" "drop k xs \<noteq> []" using k by auto
      show ?thesis
      proof (cases b)
        case True
        then have y: "?y = ?r" using eq by simp
        have "\<exists>j. locate (length (drop k xs)) (rev w') = Some j \<and> j < length (drop k xs) \<and> drop k xs ! j = x"
          by (rule "1.IH"(2) [OF False k_def H inj subs(2) sub ne(2) leaves(2) sib(2) sib32 y])
        then obtain j where "locate (length xs - k) (rev w') = Some j" "j < length xs - k" "xs ! (k + j) = x"
          using k by auto
        then show ?thesis using loc True k by (intro exI [of _ "k + j"]) auto
      next
        case b: False
        then have y: "?y = ?l" using eq by simp
        have "\<exists>j. locate (length (take k xs)) (rev w') = Some j \<and> j < length (take k xs) \<and> take k xs ! j = x"
          by (rule "1.IH"(1) [OF False k_def H inj subs(1) sub ne(1) leaves(1) sib(2) sib32 y])
        then obtain j where "locate k (rev w') = Some j" "j < k" "xs ! j = x" using k by (auto simp: min_def)
        then show ?thesis using loc b k by (intro exI [of _ j]) auto
      qed
    qed
  qed
qed


lemma locate_depth: "locate n w = Some j \<Longrightarrow> n \<le> 2 ^ D \<Longrightarrow> length w \<le> D"
proof (induction n w arbitrary: j D rule: locate.induct)
  case (1 n w)
  show ?case
  proof (cases "n \<le> 1")
    case True
    with "1.prems"(1) show ?thesis by (subst (asm) locate.simps) (simp split: if_splits)
  next
    case False
    define k where "k = split_size n"
    with "1.prems"(1) False obtain b w' where w: "w = b # w'"
      by (subst (asm) locate.simps) (auto split: list.splits)
    from split_size_power obtain d where d: "k = 2 ^ d" unfolding k_def by blast
    have k: "k < n" "n \<le> 2 * k" using split_size_bounds [of n] False by (simp_all add: k_def)
    with "1.prems"(2) d have "(2::nat) ^ d < 2 ^ D" by linarith
    then have "d < D" by simp
    then obtain D' where D: "D = Suc D'" "d \<le> D'" by (cases D) auto
    have "(2::nat) ^ d \<le> 2 ^ D'" using D(2) by (intro power_increasing) simp_all
    then have kD: "k \<le> 2 ^ D'" "n - k \<le> 2 ^ D'" using d k by linarith+
    show ?thesis
    proof (cases b)
      case True
      then obtain j' where "locate (n - k) w' = Some j'"
        using "1.prems"(1) False w by (subst (asm) locate.simps) (auto simp: k_def Let_def)
      from "1.IH"(1) [OF False w k_def True this kD(2)] show ?thesis by (simp add: w D)
    next
      case b: False
      then have "locate k w' = Some j" using "1.prems"(1) False w by (subst (asm) locate.simps) (auto simp: k_def Let_def)
      from "1.IH"(2) [OF False w k_def b this kD(1)] show ?thesis by (simp add: w D)
    qed
  qed
qed

lemma path_sides_full: "i < 2 ^ d \<Longrightarrow> length (path_sides i (2 ^ d)) = d"
  using walk_full [of i d "2 ^ d" 0] by (metis div_self length_sides power_not_zero zero_neq_numeral zero_neq_one)

text \<open>The sides of a position lead to that position, and with further left siblings nowhere.\<close>

lemma locate_path:
  "i < n \<Longrightarrow> locate n (replicate e True @ rev (path_sides i n)) = (if e = 0 then Some i else None)"
proof (induction i n arbitrary: e rule: path_sides.induct)
  case (1 i n)
  show ?case
  proof (cases "n \<le> 1")
    case True
    with 1 have "i = 0" "n = 1" by simp_all
    then show ?thesis by (simp add: path_sides.simps locate.simps)
  next
    case False
    define k where "k = split_size n"
    from split_size_power obtain d where d: "k = 2 ^ d" unfolding k_def by blast
    have k: "0 < k" "k < n" "n \<le> 2 * k" using split_size_pos split_size_bounds [of n] False by (simp_all add: k_def)
    have step: "locate n (b # w) = (if b then map_option ((+) k) (locate (n - k) w) else locate k w)" for b w
      using False by (subst locate.simps) (simp add: k_def Let_def)
    show ?thesis
    proof (cases "i < k")
      case True
      have ps: "path_sides i n = path_sides i k @ [False]"
        using False True by (subst path_sides.simps) (simp add: k_def Let_def)
      show ?thesis
      proof (cases e)
        case 0
        then show ?thesis using "1.IH"(1) [OF False k_def True True, of 0] by (simp add: ps step)
      next
        case (Suc e')
        let ?w = "replicate e' True @ False # rev (path_sides i k)"
        have "locate (n - k) ?w = None"
        proof (rule ccontr)
          assume "locate (n - k) ?w \<noteq> None"
          then obtain j where "locate (n - k) ?w = Some j" by blast
          from locate_depth [OF this, of d] k d have "length ?w \<le> d" by simp
          with path_sides_full [of i d] True d show False by simp
        qed
        then show ?thesis using Suc by (simp add: ps step)
      qed
    next
      case F: False
      have ps: "path_sides i n = path_sides (i - k) (n - k) @ [True]"
        using False F by (subst path_sides.simps) (simp add: k_def Let_def)
      have i: "i - k < n - k" using F "1.prems" by linarith
      have "replicate e True @ rev (path_sides i n) = True # replicate e True @ rev (path_sides (i - k) (n - k))"
        by (simp add: ps replicate_app_Cons_same)
      then show ?thesis using "1.IH"(2) [OF False k_def F i, of e] F by (auto simp: step)
    qed
  qed
qed

lemma climb_proof_inputs:
  "list_all2 (\<lambda>s h. normalized_hash (JStr s) = Inr h) path sib \<Longrightarrow>
     proof_inputs H leaf p path = fold_inputs H leaf (zip (sides (length path) p) (map from_hex sib))"
proof -
  assume "list_all2 (\<lambda>s h. normalized_hash (JStr s) = Inr h) path sib"
  then have "map (\<lambda>s. case normalized_hash (JStr s) of Inl _ \<Rightarrow> [] | Inr h \<Rightarrow> from_hex h) path = map from_hex sib"
    by (induction rule: list_all2_induct) auto
  then show ?thesis by (simp add: proof_inputs_def)
qed

lemma to_hex_inject: "to_hex s = to_hex t \<Longrightarrow> s = t"
  by (metis from_to_hex)

text \<open>
  C5. Only entries of the log have inclusion proofs. If a proof for an entry at an index leads to the root hash of a
  log of the stated size, the log has this entry at this index, however the path was made up, unless two
  of the inputs hashed in the log and in the check of the proof collide. (The code does not stop at a path
  that goes on above the root, as RFC 9162 asks; such a path is never accepted either.)
\<close>

theorem inclusion_proof_sound:
  assumes H: "digest_function H"
    and ok: "calculate_transparency_root H (transparency_leaf_hash H entry) i (int (length es)) path =
      Inr (to_hex (tree_root H (leaf_hashes H es)))"
    and inj: "inj_on H (set (tree_inputs H (leaf_hashes H es)) \<union>
      set (proof_inputs H (H (char_of (0::nat) # canonical_json entry)) (nat i, length es - 1) path) \<union>
      (\<lambda>e. char_of (0::nat) # canonical_json e) ` insert entry (set es))"
  shows "0 \<le> i \<and> nat i < length es \<and> canonical_json (es ! nat i) = canonical_json entry"
proof -
  let ?xs = "leaf_hashes H es" and ?x = "H (char_of (0::nat) # canonical_json entry)"
  let ?p = "(nat i, length es - 1)"
  let ?w = "sides (length path) ?p"
  have n: "length ?xs = length es" by (simp add: leaf_hashes_def)
  have i: "0 \<le> i" "nat i < length es" using ok by (auto simp: calculate_transparency_root_def split: if_splits)
  have "length ?x = 32" using H by (simp add: digest_function_def)
  then have "normalized_hash (JStr (transparency_leaf_hash H entry)) = Inr (to_hex ?x)"
    by (simp add: transparency_leaf_hash_def normalized_to_hex)
  then obtain q y where c: "climb H ?p ?x path = Inr (q, y)" "snd q = 0" "to_hex y = to_hex (tree_root H ?xs)"
    using ok i by (auto simp: calculate_transparency_root_def bind_res_eq_Inr split: if_splits)
  from climb_fold [OF c(1)] obtain sib where sib: "list_all2 (\<lambda>s h. normalized_hash (JStr s) = Inr h) path sib"
    "q = (ascend ^^ length path) ?p" "y = fold_path H ?x (zip ?w (map from_hex sib))" by blast
  have y: "fold_path H ?x (zip ?w (map from_hex sib)) = tree_root H ?xs"
    using to_hex_inject [OF c(3)] sib(3) by simp
  have len: "length sib = length path" using sib(1) by (simp add: list_all2_lengthD)
  have "\<forall>h \<in> set sib. length h = 64"
    using sib(1) by (induction rule: list_all2_induct) (auto dest: normalized_hash_length)
  then have sib32: "\<forall>s \<in> set (map from_hex sib). length s = 32" by (simp add: length_from_hex)
  have ne: "?xs \<noteq> []" using i n by auto
  obtain j where j: "locate (length es) (rev ?w) = Some j" "?xs ! j = ?x"
    using descends [OF H inj _ _ ne _ _ sib32 y] len
    by (auto simp: n climb_proof_inputs [OF sib(1)] leaf_hashes_def)
  let ?m = "length (path_sides (nat i) (length es))"
  have "?m \<le> length path"
  proof (rule ccontr)
    assume "\<not> ?m \<le> length path"
    then have "0 < snd ((ascend ^^ length path) ?p)" using walk_tree(3) [OF i(2)] by simp
    then show False using c(2) sib(2) by simp
  qed
  then obtain e where e: "length path = ?m + e" by (auto simp: le_iff_add)
  have "?w = path_sides (nat i) (length es) @ replicate e True"
    unfolding e sides_add using walk_tree [OF i(2)] by (simp add: sides_zero)
  then have "j = nat i" using j(1) locate_path [OF i(2), of e] by (simp split: if_splits)
  then have "H (char_of (0::nat) # canonical_json (es ! nat i)) = ?x" using j(2) i by (simp add: leaf_hashes_def)
  from inj_onD [OF inj this] i show ?thesis by simp
qed

end
