(* ===== verification/Trust_Schedules_Correct.thy ===== *)
theory Trust_Schedules_Correct
  imports Trust_Schedules Trust_Properties Transparency_Log_Correct Agent_Jobs_Correct
begin

text \<open>
  Schedules: every due schedule that can run gets a job that will be accepted, and a job that ran settles its
  schedule; which failures are tried again.
\<close>

section \<open>Failures and their codes\<close>

lemma fetch_codes:
  assumes "fetch_remote_jwks env s = Inl e"
  shows "fe_code e \<in> {''transport_error'', ''http_status'', ''content_type'', ''payload_too_large'', ''invalid_json'', ''invalid_jwks''}"
    and "sn_get env (ts_endpoint s) = Source_Response st ct cs b \<Longrightarrow> st \<noteq> 200 \<Longrightarrow> fe_code e = ''http_status''"
  using assms by (auto simp: fetch_remote_jwks_def Let_def split: key_response.splits option.splits if_splits)

lemma observe_codes:
  assumes "so_result (observe_source env s db) = Inl (code, msg)"
  shows "code \<in> {''transport_error'', ''http_status'', ''content_type'', ''payload_too_large'', ''invalid_json'', ''invalid_jwks'',
      ''key_collision''}"
    and "sn_get env (ts_endpoint s) = Source_Response st ct cs b \<Longrightarrow> st \<noteq> 200 \<Longrightarrow> code = ''http_status''"
proof -
  have *: "(\<exists>e. fetch_remote_jwks env s = Inl e \<and> code = fe_code e) \<or>
    (\<exists>p. fetch_remote_jwks env s = Inr p) \<and> code \<in> {''invalid_jwks'', ''key_collision''}"
    using assms by (cases "fetch_remote_jwks env s")
      (auto simp: observe_source_def Let_def split: sum.splits registry_error.splits if_splits)
  then show "code \<in> {''transport_error'', ''http_status'', ''content_type'', ''payload_too_large'', ''invalid_json'',
      ''invalid_jwks'', ''key_collision''}" using fetch_codes(1) by blast
  show "code = ''http_status''" if g: "sn_get env (ts_endpoint s) = Source_Response st ct cs b" "st \<noteq> 200"
  proof -
    have "\<exists>e. fetch_remote_jwks env s = Inl e" using g by (simp add: fetch_remote_jwks_def Let_def)
    with * fetch_codes(2) [OF _ g] show ?thesis by auto
  qed
qed

text \<open>A failed synchronisation records its code, and the only codes that are tried again are two.\<close>

lemma failed_sync_code:
  assumes "sync_evidence_trust_source env dw sid mode nt sg cx clock db = Inr (db', y)" and "ss_status y = Sync_Failed"
  obtains s code where "row_find ts_id sid (td_sources db) = Some s" and "ss_error_code y = Some code"
    and "retryable_sync y \<longleftrightarrow> code \<in> {''transport_error'', ''database_conflict''}"
    and "\<forall>st ct cs b. sn_get env (ts_endpoint s) = Source_Response st ct cs b \<and> st \<noteq> 200 \<longrightarrow> code = ''http_status''"
proof -
  obtain s where s: "row_find ts_id sid (td_sources db) = Some s"
    using assms(1) by (cases "row_find ts_id sid (td_sources db)") (auto simp: sync_evidence_trust_source_def bind_res_eq_Inr)
  note run = assms(1) [unfolded sync_evidence_trust_source_def s option.case Let_def]
  let ?o = "observe_source env s db"
  have failed: "(\<exists>msg. so_result ?o = Inl (code, msg) \<and> ss_error_code y = Some code) \<or>
      ((\<exists>w. so_result ?o = Inr w) \<and> ss_error_code y = Some ''database_conflict'' \<and> code = ''database_conflict'')"
    if "code = the (ss_error_code y)" for code
    using run assms(2) that
    by (cases "so_result ?o") (auto simp: bind_res_eq_Inr failed_sync_def sync_row_def split: if_splits)
  have http: "\<exists>msg. so_result ?o = Inl (''http_status'', msg)"
    if "sn_get env (ts_endpoint s) = Source_Response st ct cs b" "st \<noteq> 200" for st ct cs b
    using that by (simp add: observe_source_def fetch_remote_jwks_def Let_def)
  define code where "code = the (ss_error_code y)"
  from failed [OF code_def] show thesis
  proof
    assume "\<exists>msg. so_result ?o = Inl (code, msg) \<and> ss_error_code y = Some code"
    then obtain msg where c: "so_result ?o = Inl (code, msg)" "ss_error_code y = Some code" by blast
    have "code \<noteq> ''http_error''" using observe_codes(1) [OF c(1)] by auto
    then have "retryable_sync y \<longleftrightarrow> code \<in> {''transport_error'', ''database_conflict''}"
      using c(2) by (simp add: retryable_sync_def RETRYABLE_SYNC_ERRORS_def)
    moreover have "\<forall>st ct cs b. sn_get env (ts_endpoint s) = Source_Response st ct cs b \<and> st \<noteq> 200 \<longrightarrow> code = ''http_status''"
      using observe_codes(2) [OF c(1)] by blast
    ultimately show thesis using s c by (intro that)
  next
    assume c: "(\<exists>w. so_result ?o = Inr w) \<and> ss_error_code y = Some ''database_conflict'' \<and> code = ''database_conflict''"
    have r: "retryable_sync y \<longleftrightarrow> code \<in> {''transport_error'', ''database_conflict''}" and e: "ss_error_code y = Some code"
      using c by (simp_all add: retryable_sync_def RETRYABLE_SYNC_ERRORS_def)
    have h: "\<forall>st ct cs b. sn_get env (ts_endpoint s) = Source_Response st ct cs b \<and> st \<noteq> 200 \<longrightarrow> code = ''http_status''"
      using http c by fastforce
    from s e r h show thesis by (rule that)
  qed
qed

section \<open>What a job that ran leaves behind\<close>

lemma row_find_replaced: "row_find key i rows = Some r \<Longrightarrow> key r' = i \<Longrightarrow> row_find key i (row_put key r' rows) = Some r'"
  by (induction rows) (auto simp: row_find_def row_put_def split: if_splits)

lemma begin_held:
  assumes "begin_agent_job jid token db = Inr (q1, j)"
  shows "job_find jid (q_jobs q1) = Some j"
proof -
  obtain j0 where j0: "job_find jid (q_jobs db) = Some j0" "j = j0\<lparr>job_status := Running\<rparr>"
    "q1 = db\<lparr>q_jobs := job_put j (q_jobs db)\<rparr>"
    using assms by (auto simp: begin_agent_job_def Let_def split: option.splits if_splits)
  from row_find_SomeD [OF j0(1)] have "job_id j = jid" by (simp add: j0(2))
  from row_find_replaced [OF j0(1) this] show ?thesis by (simp add: j0(3))
qed

lemma execute_keeps_queue:
  "rg_queue (fst (execute_trust_source_sync_job env dw j sg clock db)) = rg_queue db"
  by (auto simp: execute_trust_source_sync_job_def Let_def put_schedule_def
      split: sum.splits option.splits bool.splits prod.splits)

text \<open>The job that synchronised: its schedule, and what became of both.\<close>

lemma execute_cases:
  assumes "execute_trust_source_sync_job env dw j sg clock db = (db', res)"
    and "td_syncs (rg_trust db') = td_syncs (rg_trust db) @ [y]"
  obtains s source planned s' t' where "row_find sc_id (sc_id s) (schedules_of db) = Some s"
    and "lineage_matches s source j = Some True"
    and "sync_evidence_trust_source env dw source Sync_Apply
      (Some (''Scheduled trust-source sync run '' @ show_int (sc_sequence s))) sg (scheduled_context s j planned)
      (whole_seconds clock) (rg_trust db) = Inr (t', y)"
    and "settle_schedule (sn_trust env) y j s = (s', res)" and "db' = put_schedule s' (db\<lparr>rg_trust := t'\<rparr>)"
proof -
  let ?p = "job_payload j"
  let ?found = "bind_res (uuid_payload ?p ''schedule_id'') (\<lambda>c. bind_res (uuid_payload ?p ''trust_source_id'') (\<lambda>x.
     of_option (Invalid ''trust source schedule was not found'') (map_option (Pair x) (row_find sc_id c (schedules_of db)))))"
  have grew: "td_syncs (rg_trust db') \<noteq> td_syncs (rg_trust db)" using assms(2) by simp
  have v: "jget ?p ''schema_version'' = JStr JOB_VERSION"
    using assms(1) grew by (auto simp: execute_trust_source_sync_job_def Let_def split: if_splits)
  note run = assms(1) [unfolded execute_trust_source_sync_job_def Let_def, simplified v]
  obtain source s where f: "?found = Inr (source, s)"
    using run grew by (cases ?found) auto
  have s: "row_find sc_id (sc_id s) (schedules_of db) = Some s"
    using f by (auto simp: bind_res_eq_Inr of_option_def dest: row_find_SomeD split: option.splits)
  note run = run [unfolded f sum.case prod.case]
  obtain planned where pl: "datetime_payload (sn_trust env) ?p ''scheduled_for'' = Inr planned"
    using run grew by (cases "datetime_payload (sn_trust env) ?p ''scheduled_for''") auto
  note run = run [unfolded pl sum.case]
  have lin: "lineage_matches s source j = Some True"
    using run grew by (auto simp: put_schedule_def split: option.splits bool.splits if_splits)
  note run = run [unfolded lin option.case bool.case]
  let ?sync = "sync_evidence_trust_source env dw source Sync_Apply
      (Some (''Scheduled trust-source sync run '' @ show_int (sc_sequence s))) sg (scheduled_context s j planned)
      (whole_seconds clock) (rg_trust db)"
  obtain t' y' where sy: "?sync = Inr (t', y')"
    using run grew by (cases ?sync) auto
  note run = run [unfolded sy sum.case prod.case]
  obtain s' r where st: "settle_schedule (sn_trust env) y' j s = (s', r)"
    by (cases "settle_schedule (sn_trust env) y' j s")
  from run have db': "db' = put_schedule s' (db\<lparr>rg_trust := t'\<rparr>)" "res = r" by (simp_all add: st)
  have "td_syncs t' = td_syncs (rg_trust db) @ [y']"
    using sy by (auto elim!: sync_outcome simp: fold_import_tables split: if_splits)
  with assms(2) db'(1) have "y' = y" by (simp add: put_schedule_def)
  with s lin sy st db' show thesis by (intro that) auto
qed

lemma finish_status:
  assumes "finish_agent_job dg jid out now db = Inr (db', j')" and "job_find jid (q_jobs db) = Some j"
  shows "job_id j' = job_id j" and "job_payload j' = job_payload j" and "job_attempt_count j' = job_attempt_count j"
    and "job_max_attempts j' = job_max_attempts j"
    and "job_status j' = (case out of Outcome_Result r \<Rightarrow> Completed | Outcome_Domain_Error m \<Rightarrow> Failed
          | Outcome_Error m \<Rightarrow> if job_attempt_count j < job_max_attempts j then Queued else Failed)"
proof -
  have *: "(case out of Outcome_Result result \<Rightarrow> Some (complete_job result now j)
      | Outcome_Domain_Error msg \<Rightarrow> fail_job dg True msg now j
      | Outcome_Error msg \<Rightarrow> fail_job dg False msg now j) = Some j'"
    using assms by (auto simp: finish_agent_job_def split: option.splits)
  show "job_id j' = job_id j" and "job_payload j' = job_payload j" and "job_attempt_count j' = job_attempt_count j"
    and "job_max_attempts j' = job_max_attempts j"
    and "job_status j' = (case out of Outcome_Result r \<Rightarrow> Completed | Outcome_Domain_Error m \<Rightarrow> Failed
          | Outcome_Error m \<Rightarrow> if job_attempt_count j < job_max_attempts j then Queued else Failed)"
    using * by (cases out; auto simp: complete_job_def fail_job_def mark_dead_letter_def Let_def split: if_splits)+
qed

text \<open>Everything one processed job did, when it synchronised.\<close>

lemma process_cases:
  assumes "process_sync_job env dw jid token clock done_at db = (db', Inr j2)"
    and "td_syncs (rg_trust db') = td_syncs (rg_trust db) @ [y]"
  obtains j s source planned s' res t' where "row_find sc_id (sc_id s) (schedules_of db) = Some s"
    and "lineage_matches s source j = Some True"
    and "sync_evidence_trust_source env dw source Sync_Apply
      (Some (''Scheduled trust-source sync run '' @ show_int (sc_sequence s))) (sync_executor j) (scheduled_context s j planned)
      (whole_seconds clock) (rg_trust db) = Inr (t', y)"
    and "settle_schedule (sn_trust env) y j s = (s', res)"
    and "schedules_of db' = row_put sc_id s' (schedules_of db)"
    and "job_id j2 = job_id j" and "job_payload j2 = job_payload j" and "job_attempt_count j2 = job_attempt_count j"
    and "job_max_attempts j2 = job_max_attempts j"
    and "job_status j2 = (case sync_outcome res of Outcome_Result r \<Rightarrow> Completed | Outcome_Domain_Error m \<Rightarrow> Failed
          | Outcome_Error m \<Rightarrow> if job_attempt_count j < job_max_attempts j then Queued else Failed)"
proof -
  obtain q1 j where b: "begin_agent_job jid token (rg_queue db) = Inr (q1, j)"
    using assms(1) by (cases "begin_agent_job jid token (rg_queue db)") (auto simp: process_sync_job_def)
  obtain db1 res where ex: "execute_trust_source_sync_job env dw j (sync_executor j) clock (db\<lparr>rg_queue := q1\<rparr>) = (db1, res)"
    by (cases "execute_trust_source_sync_job env dw j (sync_executor j) clock (db\<lparr>rg_queue := q1\<rparr>)")
  obtain q2 where f: "finish_agent_job (digest_prefix (sn_trust env)) jid (sync_outcome res) done_at (rg_queue db1) = Inr (q2, j2)"
    and db': "db' = db1\<lparr>rg_queue := q2\<rparr>"
    using assms(1) by (auto simp: process_sync_job_def b ex split: sum.splits)
  have q1: "rg_queue db1 = q1" using execute_keeps_queue [of env dw j "sync_executor j" clock "db\<lparr>rg_queue := q1\<rparr>"] ex by simp
  note held = begin_held [OF b]
  have "td_syncs (rg_trust db1) = td_syncs (rg_trust (db\<lparr>rg_queue := q1\<rparr>)) @ [y]" using assms(2) db' by simp
  with ex show thesis
  proof (cases rule: execute_cases)
    case (1 s source planned s' t')
    have "td_schedules t' = schedules_of db"
      using 1(3) by (auto elim!: sync_outcome simp: fold_import_tables split: if_splits)
    then have sch: "schedules_of db' = row_put sc_id s' (schedules_of db)" by (simp add: db' 1(5) put_schedule_def)
    note fin = finish_status [OF f, unfolded q1, OF held]
    show thesis using 1(1-4) sch fin by (intro that [of s source j planned t' s' res]) simp_all
  qed
qed

lemma settle_outcome:
  assumes "settle_schedule env y j s = (s', res)"
  shows "sc_id s' = sc_id s" and "sc_source_id s' = sc_source_id s"
    and "ss_status y = Sync_Failed \<Longrightarrow> sync_outcome res =
      (if retryable_sync y then Outcome_Error (case res of Inl (Retryable m) \<Rightarrow> m | _ \<Rightarrow> [])
       else Outcome_Domain_Error (sync_failure_message y))"
    and "ss_status y \<noteq> Sync_Failed \<Longrightarrow> \<exists>r. sync_outcome res = Outcome_Result r"
  using assms by (cases "ss_status y";
    auto simp: settle_schedule_def Let_def clear_schedule_lease_def sync_outcome_def split: if_splits option.splits)+

text \<open>
  C24. When the synchronisation of a scheduled job fails, the job goes back to the queue only if the failure was a
  lost connection or a conflict in the database and attempts remain; otherwise it becomes a dead letter at once. In particular an
  answer with an HTTP status other than 200 (an overloaded source, say) is never tried again: its code is
  \<^verbatim>\<open>http_status\<close>, while the list of codes to retry names \<^verbatim>\<open>http_error\<close>, which no failure has.
\<close>

theorem scheduled_failures_retried:
  assumes "process_sync_job env dw jid token clock done_at db = (db', Inr j2)"
    and "td_syncs (rg_trust db') = td_syncs (rg_trust db) @ [y]" and "ss_status y = Sync_Failed"
  shows "\<exists>src code. row_find ts_id (ss_source_id y) (td_sources (rg_trust db)) = Some src \<and> ss_error_code y = Some code \<and>
    job_status j2 = (if code \<in> {''transport_error'', ''database_conflict''} \<and> job_attempt_count j2 < job_max_attempts j2
      then Queued else Failed) \<and>
    (\<forall>status ctype chunks broken. sn_get env (ts_endpoint src) = Source_Response status ctype chunks broken \<and> status \<noteq> 200
      \<longrightarrow> code = ''http_status'' \<and> job_status j2 = Failed)"
  using assms(1,2)
proof (cases rule: process_cases)
  case (1 j s source planned s' res t')
  note src = sync_appends(2) [OF 1(3)]
  from 1(3) assms(3) obtain x code where x: "row_find ts_id source (td_sources (rg_trust db)) = Some x"
    and code: "ss_error_code y = Some code" and re: "retryable_sync y \<longleftrightarrow> code \<in> {''transport_error'', ''database_conflict''}"
    and http: "\<forall>st ct cs b. sn_get env (ts_endpoint x) = Source_Response st ct cs b \<and> st \<noteq> 200 \<longrightarrow> code = ''http_status''"
    by (rule failed_sync_code)
  have st: "job_status j2 = (if code \<in> {''transport_error'', ''database_conflict''} \<and> job_attempt_count j2 < job_max_attempts j2
      then Queued else Failed)"
    using 1(8-10) settle_outcome(3) [OF 1(4) assms(3)] re by auto
  have "code = ''http_status'' \<and> job_status j2 = Failed"
    if "sn_get env (ts_endpoint x) = Source_Response status ctype chunks broken" "status \<noteq> 200"
    for status ctype chunks broken
    using http that st by simp
  with x code st show ?thesis unfolding src by blast
qed

lemma lineage_cong:
  assumes "sc_enabled s' = sc_enabled s" and "sc_source_id s' = sc_source_id s" and "sc_last_job s' = sc_last_job s"
    and "sc_policy_hash s' = sc_policy_hash s" and "sc_sequence s' = sc_sequence s" and "sc_lease_token s' = sc_lease_token s"
    and "job_id j' = job_id j" and "job_payload j' = job_payload j"
  shows "lineage_matches s' x j' = lineage_matches s x j"
  unfolding lineage_matches_def assms ..

lemma jitter_range: "0 \<le> deterministic_jitter dg k m \<and> deterministic_jitter dg k m \<le> max 0 m"
proof (cases "m \<le> 0")
  case False
  then have "int (dg k) mod (m + 1) < m + 1" by (intro pos_mod_bound) simp
  with False show ?thesis by (simp add: deterministic_jitter_def)
qed (simp add: deterministic_jitter_def)

lemma next_run_range:
  "seconds (sc_interval s) \<le> next_scheduled_at env s t - t \<and> next_scheduled_at env s t - t \<le> seconds (sc_interval s + max 0 (sc_jitter s))"
  using jitter_range [of "digest_prefix env" "sc_id s @ '':'' @ show_int (sc_sequence s + 1)" "sc_jitter s"]
  by (simp add: next_scheduled_at_def seconds_def)


section \<open>Every due schedule gets a job\<close>

lemma put_schedule_fields [simp]:
  "rg_queue (put_schedule s db) = rg_queue db" "td_sources (rg_trust (put_schedule s db)) = td_sources (rg_trust db)"
  "schedules_of (put_schedule s db) = row_put sc_id s (schedules_of db)"
  by (simp_all add: put_schedule_def)

text \<open>One visit changes the row of its schedule only, keeps the jobs there were and adds the jobs it returns.\<close>

lemma schedule_ids [simp]:
  "sc_id (clear_schedule_lease s) = sc_id s" "sc_id (renewed_lease j scheduler lease now s) = sc_id s"
  "sc_id (leased_schedule jid token scheduler lease now s) = sc_id s"
  by (simp_all add: clear_schedule_lease_def renewed_lease_def leased_schedule_def Let_def)

definition enqueued :: "job list \<Rightarrow> registry_db \<Rightarrow> registry_db" where
  "enqueued js db = db\<lparr>rg_queue := (rg_queue db)\<lparr>q_jobs := q_jobs (rg_queue db) @ js\<rparr>\<rparr>"

lemma enqueued_fields [simp]:
  "enqueued [] db = db" "q_jobs (rg_queue (enqueued js db)) = q_jobs (rg_queue db) @ js" "rg_trust (enqueued js db) = rg_trust db"
  by (simp_all add: enqueued_def)

lemma visit_shape:
  assumes "visit_schedule env dw scheduler sg lease now s db = Inr (db', js)"
  obtains s2 where "sc_id s2 = sc_id s" and "db' = put_schedule s2 (enqueued js db)"
proof (cases "row_find ts_id (sc_source_id s) (td_sources (rg_trust db))")
  case None
  with assms show thesis by (intro that [of "clear_schedule_lease (s\<lparr>sc_enabled := False\<rparr>)"]) (auto simp: visit_schedule_def)
next
  case (Some src)
  note run = assms [unfolded visit_schedule_def Some option.case Let_def]
  show thesis
  proof (cases "ts_enabled src")
    case False
    with run show thesis by (intro that [of "clear_schedule_lease (s\<lparr>sc_enabled := False\<rparr>)"]) auto
  next
    case True
    show thesis
    proof (cases "\<exists>k. last_job_of s db = Some k \<and> active_job k")
      case active: True
      then obtain k where "last_job_of s db = Some k" "active_job k" by blast
      with run True show thesis by (intro that [of "renewed_lease k scheduler lease now s"]) auto
    next
      case False
      with run True obtain j token where "js = [j]" "db' = put_schedule
          (leased_schedule (job_id j) token scheduler lease now (s\<lparr>sc_sequence := sc_sequence s + 1\<rparr>)) (enqueued [j] db)"
        by (cases "last_job_of s db") (auto simp: enqueued_def split: if_splits)
      then show thesis by (intro that) auto
    qed
  qed
qed

lemma visit_frame:
  assumes "visit_schedule env dw scheduler sg lease now s db = Inr (db', js)"
  shows "q_jobs (rg_queue db') = q_jobs (rg_queue db) @ js"
    and "td_sources (rg_trust db') = td_sources (rg_trust db)"
    and "k \<noteq> sc_id s \<Longrightarrow> row_find sc_id k (schedules_of db') = row_find sc_id k (schedules_of db)"
    and "sc_id ` set (schedules_of db') = sc_id ` set (schedules_of db)"
  by (rule visit_shape [OF assms], simp add: row_find_put image_key_row_put)+

lemma visits_frame:
  assumes "visit_schedules env dw scheduler sg lease now ss db = Inr (db', js)"
  shows "q_jobs (rg_queue db') = q_jobs (rg_queue db) @ js"
    and "td_sources (rg_trust db') = td_sources (rg_trust db)"
    and "k \<notin> sc_id ` set ss \<Longrightarrow> row_find sc_id k (schedules_of db') = row_find sc_id k (schedules_of db)"
proof -
  have "q_jobs (rg_queue db') = q_jobs (rg_queue db) @ js \<and> td_sources (rg_trust db') = td_sources (rg_trust db) \<and>
    (k \<notin> sc_id ` set ss \<longrightarrow> row_find sc_id k (schedules_of db') = row_find sc_id k (schedules_of db))"
    using assms
  proof (induction ss arbitrary: db js)
    case Nil
    then show ?case by simp
  next
    case (Cons s ss)
    obtain db1 js1 js2 where v: "visit_schedule env dw scheduler sg lease now s db = Inr (db1, js1)"
      and vs: "visit_schedules env dw scheduler sg lease now ss db1 = Inr (db', js2)" and js: "js = js1 @ js2"
      using Cons.prems by (auto simp: bind_res_eq_Inr)
    from Cons.IH [OF vs] visit_frame(1,2) [OF v] visit_frame(3) [OF v, of k] js show ?case by auto
  qed
  then show "q_jobs (rg_queue db') = q_jobs (rg_queue db) @ js"
    and "td_sources (rg_trust db') = td_sources (rg_trust db)"
    and "k \<notin> sc_id ` set ss \<Longrightarrow> row_find sc_id k (schedules_of db') = row_find sc_id k (schedules_of db)" by auto
qed

text \<open>A visit of a schedule that can run enqueues a job that the schedule accepts.\<close>

lemma visit_enqueues:
  assumes "visit_schedule env dw scheduler sg lease now s db = Inr (db', js)"
    and "row_find ts_id (sc_source_id s) (td_sources (rg_trust db)) = Some src" and "ts_enabled src"
    and "case last_job_of s db of None \<Rightarrow> True | Some k \<Rightarrow> \<not> active_job k"
    and r: "row_find sc_id (sc_id s) (schedules_of db) = Some r" and "digest_function (te_H env)"
    and "sc_enabled s" and "0 \<le> sc_sequence s" and "sc_policy_hash s \<noteq> []"
  shows "\<exists>j s'. js = [j] \<and> row_find sc_id (sc_id s) (schedules_of db') = Some s' \<and>
    job_kind j = Trust_Source_Sync \<and> job_status j = Queued \<and> job_available_at j = now \<and>
    lineage_matches s' (sc_source_id s) j = Some True \<and> sc_lease_expires s' = Some (now + seconds lease)"
proof -
  let ?s1 = "s\<lparr>sc_sequence := sc_sequence s + 1\<rparr>"
  let ?token = "to_hex (te_H env (ed_secret dw (sc_id s)))"
  let ?j = "new_job (sync_request ?s1 ?token lease sg) now (ed_job dw (sc_id s))"
  let ?s' = "leased_schedule (job_id ?j) ?token scheduler lease now ?s1"
  have "(case last_job_of s db of Some k \<Rightarrow> if active_job k then A k else B | None \<Rightarrow> B) = B" for A and B :: "registry_error + registry_db \<times> job list"
    using assms(4) by (simp split: option.splits)
  note run = assms(1) [unfolded visit_schedule_def assms(2) option.case Let_def this]
  have res: "js = [?j] \<and> schedules_of db' = row_put sc_id ?s' (schedules_of db)"
    using run assms(3) by (simp split: if_splits) auto
  have found: "row_find sc_id (sc_id s) (schedules_of db') = Some ?s'"
    using row_find_replaced [OF r, of ?s'] res by (simp add: leased_schedule_def)
  have len: "length ?token = 64" using assms(6) by (simp add: digest_function_def length_to_hex)
  then have tok: "?token \<noteq> []" by (intro notI) simp
  have "lineage_matches ?s' (sc_source_id s) ?j = Some True"
  proof -
    have p: "job_payload ?j = sync_payload ?s1 ?token lease" by (simp add: new_job_def sync_request_def)
    have "text_claim (job_payload ?j) ''schedule_lease_token_hash'' = ?token"
      "text_claim (job_payload ?j) ''policy_hash'' = sc_policy_hash s"
      "int_or (jget (job_payload ?j) ''run_sequence'') (- 1) = Some (sc_sequence s + 1)"
      unfolding p using assms(8,9) tok by (simp_all add: sync_payload_def jget_def str_or_def int_or_def)
    then show ?thesis using assms(7) len unfolding lineage_matches_def by (simp add: leased_schedule_def)
  qed
  with res found show ?thesis
    by (intro exI [of _ ?j] exI [of _ ?s']) (simp add: new_job_def sync_request_def leased_schedule_def)
qed

lemma visits_split:
  assumes "visit_schedules env dw scheduler sg lease now (xs @ s # ys) db = Inr (db', js)"
  obtains db1 js1 db2 js2 js3 where "visit_schedules env dw scheduler sg lease now xs db = Inr (db1, js1)"
    and "visit_schedule env dw scheduler sg lease now s db1 = Inr (db2, js2)"
    and "visit_schedules env dw scheduler sg lease now ys db2 = Inr (db', js3)" and "js = js1 @ js2 @ js3"
proof -
  have "\<exists>db1 js1 db2 js2 js3. visit_schedules env dw scheduler sg lease now xs db = Inr (db1, js1) \<and>
    visit_schedule env dw scheduler sg lease now s db1 = Inr (db2, js2) \<and>
    visit_schedules env dw scheduler sg lease now ys db2 = Inr (db', js3) \<and> js = js1 @ js2 @ js3"
    using assms
  proof (induction xs arbitrary: db js)
    case Nil
    then show ?case by (fastforce simp: bind_res_eq_Inr)
  next
    case (Cons x xs)
    from Cons.prems obtain db1 a b where "visit_schedule env dw scheduler sg lease now x db = Inr (db1, a)"
      and rest: "visit_schedules env dw scheduler sg lease now (xs @ s # ys) db1 = Inr (db', b)" and "js = a @ b"
      by (auto simp: bind_res_eq_Inr)
    with Cons.IH [OF rest] show ?case by (fastforce simp: bind_res_eq_Inr)
  qed
  then show thesis using that by blast
qed

text \<open>The elements of a sorted list up to a key are a prefix of it.\<close>

lemma sorted_prefix_filter:
  "sorted (map f ys) \<Longrightarrow> filter (\<lambda>x. f x \<le> k) ys = takeWhile (\<lambda>x. f x \<le> k) ys"
proof (induction ys)
  case (Cons y ys)
  show ?case
  proof (cases "f y \<le> k")
    case False
    then have "\<not> f x \<le> k" if "x \<in> set ys" for x using Cons.prems that by (auto simp: not_le intro: order.strict_trans2)
    with False show ?thesis by (simp add: filter_empty_conv)
  qed (use Cons in simp)
qed simp

lemma in_take_sorted:
  assumes "s \<in> set xs" and "length (filter (\<lambda>x. f x \<le> f s) xs) \<le> n"
  shows "s \<in> set (take n (sort_key f xs))"
proof -
  let ?ys = "sort_key f xs" and ?P = "\<lambda>x. f x \<le> f s"
  have "length (filter ?P xs) = length (filter ?P ?ys)"
    by (metis mset_filter mset_sort size_mset)
  then have "length (takeWhile ?P ?ys) \<le> n" using assms(2) sorted_prefix_filter [of f ?ys "f s"] by simp
  then have "set (takeWhile ?P ?ys) \<subseteq> set (take n ?ys)"
    by (metis set_take_subset_set_take takeWhile_eq_take length_takeWhile_le nle_le take_all)
  moreover have "s \<in> set (takeWhile ?P ?ys)"
    using assms(1) sorted_prefix_filter [of f ?ys "f s", symmetric] by simp
  ultimately show ?thesis by blast
qed

text \<open>
  C16. Every due schedule that can run gets its job. When the scheduler commits a round, a schedule that is enabled,
  due, not under a running lease and not locked by another scheduler, that has fewer schedules before it than a batch
  holds, whose source is enabled and whose last job is over, has a new job in the queue, ready at once; and the schedule
  carries the lease, the job and the sequence that this job names, so the job will be accepted when a worker takes it.
\<close>

theorem due_schedules_get_jobs:
  assumes "enqueue_due_trust_source_sync_jobs env dw scheduler_id sg lease batch locked clock db = Inr (db', js)"
    and "s \<in> set (schedules_of db)" and "due_schedule (whole_seconds clock) locked s"
    and "length (filter (\<lambda>x. due_schedule (whole_seconds clock) locked x \<and> schedule_order x \<le> schedule_order s)
      (schedules_of db)) \<le> nat (clamp 1 100 batch)"
    and "row_find ts_id (sc_source_id s) (td_sources (rg_trust db)) = Some src" and "ts_enabled src"
    and "sc_last_job s = None \<or> (\<exists>k. last_job_of s db = Some k \<and> \<not> active_job k)"
    and "distinct (map sc_id (schedules_of db))" and "digest_function (te_H env)"
    and "0 \<le> sc_sequence s" and "sc_policy_hash s \<noteq> []"
  shows "\<exists>j s'. j \<in> set js \<and> j \<in> set (q_jobs (rg_queue db')) \<and> job_kind j = Trust_Source_Sync \<and> job_status j = Queued \<and>
    job_available_at j = whole_seconds clock \<and> row_find sc_id (sc_id s) (schedules_of db') = Some s' \<and>
    lineage_matches s' (sc_source_id s) j = Some True \<and>
    sc_lease_expires s' = Some (whole_seconds clock + seconds (clamp 30 3600 lease))"
proof -
  let ?now = "whole_seconds clock"
  let ?due = "filter (due_schedule ?now locked) (schedules_of db)"
  have "s \<in> set (due_batch ?now locked batch db)"
    unfolding due_batch_def using assms(2-4) by (intro in_take_sorted) (simp_all add: filter_filter conj_commute)
  then obtain xs ys where split: "due_batch ?now locked batch db = xs @ s # ys" by (meson split_list)
  have run: "visit_schedules env dw (strip scheduler_id) sg (clamp 30 3600 lease) ?now (xs @ s # ys) db = Inr (db', js)"
    using assms(1) by (auto simp: enqueue_due_trust_source_sync_jobs_def bind_res_eq_Inr Let_def split split: if_splits)
  have "distinct (map sc_id (due_batch ?now locked batch db))"
    unfolding due_batch_def using assms(8) by (simp add: take_map [symmetric] distinct_map_filter distinct_key_sort)
  then have apart: "sc_id s \<notin> sc_id ` set xs" "sc_id s \<notin> sc_id ` set ys" by (auto simp: split)
  from run show ?thesis
  proof (cases rule: visits_split)
    case (1 db1 js1 db2 js2 js3)
    note before = visits_frame [OF 1(1)] and after = visits_frame [OF 1(3)]
    have "\<exists>r. row_find sc_id (sc_id s) (schedules_of db) = Some r"
      using assms(2) by (cases "row_find sc_id (sc_id s) (schedules_of db)") (auto simp: row_find_def find_None_iff)
    then obtain r where r: "row_find sc_id (sc_id s) (schedules_of db1) = Some r" using before(3) apart(1) by auto
    have idle: "case last_job_of s db1 of None \<Rightarrow> True | Some k \<Rightarrow> \<not> active_job k"
      using assms(7) by (cases "sc_last_job s") (auto simp: last_job_of_def before(1) row_find_append)
    have src: "row_find ts_id (sc_source_id s) (td_sources (rg_trust db1)) = Some src" using assms(5) before(2) by simp
    have enabled: "sc_enabled s" using assms(3) by (simp add: due_schedule_def)
    obtain j s' where j: "js2 = [j]" "row_find sc_id (sc_id s) (schedules_of db2) = Some s'"
      "job_kind j = Trust_Source_Sync" "job_status j = Queued" "job_available_at j = ?now"
      "lineage_matches s' (sc_source_id s) j = Some True"
      "sc_lease_expires s' = Some (?now + seconds (clamp 30 3600 lease))"
      using visit_enqueues [OF 1(2) src assms(6) idle r assms(9) enabled assms(10,11)] by blast
    have "j \<in> set js" using 1(4) j(1) by simp
    moreover have "j \<in> set (q_jobs (rg_queue db'))" using visits_frame(1) [OF run] 1(4) j(1) by simp
    moreover have "row_find sc_id (sc_id s) (schedules_of db') = Some s'" using after(3) apart(2) j(2) by simp
    ultimately show ?thesis using j by blast
  qed
qed

end
