(* ===== verification/Trust_Witness.thy ===== *)
theory Trust_Witness
  imports Trust_Schedules_Correct
begin

text \<open>
  The properties of the transparency log, the trust registry, the trust sources and their schedules at concrete
  tables: a log of two entries, a production run with its full chain, revocations, a synchronisation
  that withdraws a key, and scheduled jobs that succeed and fail.
\<close>

section \<open>A log of two entries\<close>

definition pair_hash :: "string \<Rightarrow> string" where
  "pair_hash s =
     replicate 32 (if s = char_of (0::nat) # ''null'' then CHR ''n''
       else if s = char_of (0::nat) # ''true'' then CHR ''t'' else CHR ''x'')"

lemma pair_hash_digest: "digest_function pair_hash"
  by (simp add: digest_function_def pair_hash_def)

theorem inclusion_proof_complete_witness:
  "digest_function pair_hash \<and> calculate_transparency_root pair_hash (transparency_leaf_hash pair_hash (JBool True)) 1 2
     (map to_hex (inclusion_path pair_hash 1 (leaf_hashes pair_hash [JNull, JBool True]))) =
   Inr (to_hex (tree_root pair_hash (leaf_hashes pair_hash [JNull, JBool True])))"
  using inclusion_proof_complete [OF pair_hash_digest, of 1 "[JNull, JBool True]"] pair_hash_digest by simp

lemma pair_proof:
  "calculate_transparency_root pair_hash (transparency_leaf_hash pair_hash (JBool True)) 1 (int (length [JNull, JBool True]))
     [to_hex (replicate 32 (CHR ''n''))] = Inr (to_hex (tree_root pair_hash (leaf_hashes pair_hash [JNull, JBool True])))"
  by code_simp

lemma pair_inputs:
  "set (tree_inputs pair_hash (leaf_hashes pair_hash [JNull, JBool True])) =
     {char_of (1::nat) # replicate 32 (CHR ''n'') @ replicate 32 (CHR ''t'')}"
  "set (proof_inputs pair_hash (pair_hash (char_of (0::nat) # canonical_json (JBool True))) (nat 1, length [JNull, JBool True] - 1)
     [to_hex (replicate 32 (CHR ''n''))]) = {char_of (1::nat) # replicate 32 (CHR ''n'') @ replicate 32 (CHR ''t'')}"
  "(\<lambda>e. char_of (0::nat) # canonical_json e) ` insert (JBool True) (set [JNull, JBool True]) =
     {char_of (0::nat) # ''null'', char_of (0::nat) # ''true''}"
  by code_simp+

theorem inclusion_proof_sound_witness:
  "calculate_transparency_root pair_hash (transparency_leaf_hash pair_hash (JBool True)) 1 2
     [to_hex (replicate 32 (CHR ''n''))] = Inr (to_hex (tree_root pair_hash (leaf_hashes pair_hash [JNull, JBool True]))) \<and>
   canonical_json ([JNull, JBool True] ! nat 1) = canonical_json (JBool True)"
proof -
  have "inj_on pair_hash ({char_of (1::nat) # replicate 32 (CHR ''n'') @ replicate 32 (CHR ''t'')} \<union>
      {char_of (1::nat) # replicate 32 (CHR ''n'') @ replicate 32 (CHR ''t'')} \<union>
      {char_of (0::nat) # ''null'', char_of (0::nat) # ''true''})"
    by (simp add: pair_hash_def)
  then have inj: "inj_on pair_hash (set (tree_inputs pair_hash (leaf_hashes pair_hash [JNull, JBool True])) \<union>
      set (proof_inputs pair_hash (pair_hash (char_of (0::nat) # canonical_json (JBool True)))
        (nat 1, length [JNull, JBool True] - 1) [to_hex (replicate 32 (CHR ''n''))]) \<union>
      (\<lambda>e. char_of (0::nat) # canonical_json e) ` insert (JBool True) (set [JNull, JBool True]))"
    unfolding pair_inputs .
  from inclusion_proof_sound [OF pair_hash_digest pair_proof inj] pair_proof show ?thesis by simp
qed

section \<open>A production run with its chain\<close>

text \<open>A digest of 32 equal bytes, tokens that carry their statement, and times written as one digit.\<close>

definition digest_hex :: string where
  "digest_hex = concat (replicate 32 ''61'')"

definition public_key :: "string \<Rightarrow> json" where
  "public_key kid = JObj [(''kid'', JStr kid), (''alg'', JStr ''RS256''), (''kty'', JStr ''RSA'')]"

definition publisher_statement :: json where
  "publisher_statement = JObj
     [(''_type'', JStr IN_TOTO_STATEMENT_TYPE), (''predicateType'', JStr SUPPLY_CHAIN_PREDICATE_TYPE),
      (''subject'', JArr [JObj [(''digest'', JObj [(''sha256'', JStr digest_hex)])]]),
      (''predicate'', JObj [(''artifact_attestation_hash'', JStr ''ah''), (''runtime_manifest_hash'', JStr ''mh''),
         (''sbom'', JObj [(''format'', JStr ''CycloneDX''), (''spec_version'', JStr ''1.5''),
            (''digest'', JObj [(''sha256'', JStr digest_hex)])])])]"

definition sample_bom :: json where
  "sample_bom = JObj [(''bomFormat'', JStr ''CycloneDX''), (''specVersion'', JStr ''1.5'')]"

definition checkpoint_statement :: json where
  "checkpoint_statement = JObj [(''tree_size'', JInt 1), (''root_hash'', JStr digest_hex)]"

definition run_uuid :: uuid where
  "run_uuid = ''11111111-1111-1111-1111-111111111111''"

definition attestation_uuid :: uuid where
  "attestation_uuid = ''22222222-2222-2222-2222-222222222222''"

definition capture_statement :: json where
  "capture_statement = JObj [(''benchmark_run_id'', JStr run_uuid), (''supply_chain_attestation_id'', JStr attestation_uuid),
     (''supply_chain_attestation_hash'', JStr ''sh'')]"

definition sample_trust :: trust_env where
  "sample_trust = \<lparr>te_H = (\<lambda>_. replicate 32 (CHR ''a'')), te_header = (\<lambda>_. None), te_claims = (\<lambda>_. None),
     te_verify = (\<lambda>_ _ _ token.
       if token = ''publisher'' then Jwt_Verified publisher_statement
       else if token = ''checkpoint'' then Jwt_Verified checkpoint_statement
       else if token = ''capture'' then Jwt_Verified capture_statement else Jwt_Invalid),
     te_usable_key = (\<lambda>_ _. True),
     te_fromiso = (\<lambda>s. Some (0, True)), te_file = (\<lambda>_. None),
     te_loads = (\<lambda>s. Some (JObj [(''keys'', JArr [public_key ''k2''])])),
     te_urlsplit = (\<lambda>_. Some \<lparr>ur_scheme = ''https'', ur_username = None, ur_password = None,
       ur_hostname = Some ''keys.test'', ur_query = [], ur_fragment = [], ur_port = None\<rparr>)\<rparr>"

definition sample_sync :: sync_env where
  "sample_sync = \<lparr>sn_trust = sample_trust,
     sn_get = (\<lambda>url. if url = ''https://busy.test/jwks'' then Source_Response 503 [] [] False
       else Source_Response 200 ''application/json'' [''x''] False),
     sn_hosts = [''keys.test''], sn_insecure_http = False, sn_max_bytes = 1000\<rparr>"

definition governor :: signer_identity where
  "governor = \<lparr>subject_id = ''gov-1'', display_name = ''Gov'', role = Some ''Model Governance'',
     identity_provider = ''idp'', auth_source = ''jwt'', identity_verified = True, ticket_reference = None\<rparr>"

definition auditor :: signer_identity where
  "auditor = governor\<lparr>subject_id := ''gov-2'', role := Some ''SRE Lead''\<rparr>"

definition sample_root :: "uuid \<Rightarrow> trust_purpose \<Rightarrow> trust_root" where
  "sample_root i purpose =
     \<lparr>tr_id = i, tr_name = ''root'', tr_purpose = purpose, tr_issuer = ''ca'', tr_key_id = ''k1'',
      tr_algorithm = ''RS256'', tr_fingerprint = digest_hex, tr_jwk = public_key ''k1'', tr_tier = Tier_Internal_Ca,
      tr_source_type = From_Internal_Ca, tr_source_uri = Some ''https://ca.test'', tr_valid_from = 0,
      tr_valid_until = None, tr_supersedes = None, tr_source_id = None, tr_sync_id = None, tr_registered_at = 0,
      tr_registered_by = identity_to_json governor, tr_hash = ''rh'', tr_notes = None\<rparr>"

definition sample_artifact :: artifact_attestation where
  "sample_artifact = \<lparr>aa_id = ''aa'', aa_artifact_id = ''m'', aa_status = ''verified'', aa_identity_verified = True,
     aa_digest = ''sha256:'' @ digest_hex, aa_hash = ''ah'', aa_manifest_hash = ''mh''\<rparr>"

definition sample_attestation :: supply_attestation where
  "sample_attestation =
     \<lparr>sa_id = attestation_uuid, sa_artifact_attestation = ''aa'', sa_publisher_root = Some ''r1'',
      sa_publisher_tier = Tier_Internal_Ca, sa_statement_id = ''st'', sa_publisher = ''ca'', sa_key_id = ''k1'',
      sa_algorithm = ''RS256'', sa_fingerprint = digest_hex, sa_subject_digest = ''sha256:'' @ digest_hex,
      sa_sbom_version = ''1.5'', sa_sbom_digest = digest_hex, sa_sbom = sample_bom, sa_statement = publisher_statement,
      sa_jws = ''publisher'', sa_signature_verified = True, sa_verified_at = 0,
      sa_verified_by = identity_to_json governor, sa_identity_verified = True, sa_hash = ''sh'', sa_notes = None\<rparr>"

definition sample_entry :: json where
  "sample_entry = JObj [(''schema_version'', JStr ''model-atlas-transparency-entry-v1''),
     (''supply_chain_attestation_id'', JStr attestation_uuid), (''attestation_hash'', JStr ''sh''),
     (''statement_id'', JStr ''st''), (''subject_digest'', JStr (''sha256:'' @ digest_hex))]"

definition sample_proof :: log_proof where
  "sample_proof =
     \<lparr>lp_id = ''p'', lp_attestation = attestation_uuid, lp_root = ''r2'', lp_proof_id = ''pj'', lp_log_id = ''log'',
      lp_index = 0, lp_tree_size = 1, lp_integrated_at = 0, lp_leaf_hash = digest_hex, lp_root_hash = digest_hex,
      lp_entry = sample_entry, lp_path = [], lp_checkpoint = checkpoint_statement, lp_jws = ''checkpoint'',
      lp_algorithm = ''RS256'', lp_key_id = ''k1'', lp_fingerprint = digest_hex, lp_signature_verified = True,
      lp_verified_at = 0, lp_verified_by = identity_to_json governor, lp_identity_verified = True, lp_hash = ''ph'',
      lp_notes = None\<rparr>"

definition sample_receipt :: capture_receipt where
  "sample_receipt =
     \<lparr>cr_id = ''c'', cr_run_id = run_uuid, cr_artifact_attestation = ''aa'', cr_attestation = attestation_uuid,
      cr_collector_root = Some ''r3'', cr_collector_tier = Tier_Internal_Ca, cr_capture_id = ''cj'', cr_issuer = ''ca'',
      cr_key_id = ''k1'', cr_algorithm = ''RS256'', cr_fingerprint = digest_hex,
      cr_subject_digest = ''sha256:'' @ digest_hex, cr_environment = JObj [], cr_started_at = 0, cr_ended_at = 1,
      cr_result_count = 0, cr_metric_count = 0, cr_statement = capture_statement, cr_jws = ''capture'',
      cr_signature_verified = True, cr_verified_at = 0, cr_verified_by = identity_to_json governor,
      cr_identity_verified = True, cr_hash = ''ch'', cr_notes = None\<rparr>"

definition sample_source :: "uuid \<Rightarrow> string \<Rightarrow> trust_source" where
  "sample_source i url =
     \<lparr>ts_id = i, ts_name = i, ts_purpose = Model_Publisher, ts_issuer = ''ca'', ts_tier = Tier_Internal_Ca,
      ts_endpoint = url, ts_algorithms = [''RS256''], ts_insecure_http = False, ts_freshness = 3600, ts_enabled = True,
      ts_registered_at = 0, ts_registered_by = identity_to_json governor, ts_hash = ''sh'', ts_notes = None\<rparr>"

definition chain_db :: trust_db where
  "chain_db =
     \<lparr>td_roots = [sample_root ''r1'' Model_Publisher, sample_root ''r2'' Transparency_Purpose,
        sample_root ''r3'' Production_Collector],
      td_root_actions = [],
      td_sources = [sample_source ''33333333-3333-3333-3333-333333333333'' ''https://keys.test/jwks'',
        sample_source ''44444444-4444-4444-4444-444444444444'' ''https://busy.test/jwks''],
      td_syncs = [], td_schedules = [], td_artifacts = [sample_artifact],
      td_attestations = [sample_attestation], td_attestation_actions = [], td_proofs = [sample_proof],
      td_receipts = [sample_receipt],
      td_evidence = \<lparr>e_configs = [], e_suites = [], e_cases = [], e_runs = [], e_results = [], e_metrics = []\<rparr>,
      td_run_artifact = (\<lambda>_. None)\<rparr>"

lemma sample_hash [simp]: "env_hash sample_trust j = digest_hex"
  by (simp add: env_hash_def stable_hash_def sample_trust_def digest_hex_def) code_simp

lemma sample_root_ok: "root_ok sample_trust (sample_root i p)"
proof -
  have "validated_public_jwk sample_trust (public_key ''k1'') ''k1'' ''RS256'' = Inr (public_key ''k1'')" by code_simp
  moreover have "governance_operator governor" by code_simp
  ultimately show ?thesis by (auto simp: root_ok_def sample_root_def)
qed

lemma sample_statement:
  "validated_supply_chain_statement sample_trust publisher_statement sample_artifact sample_bom = Inr (''sha256:'' @ digest_hex)"
proof -
  have "sbom_reference_ok sample_trust (jget (jget publisher_statement ''predicate'') ''sbom'') sample_bom"
    unfolding sbom_reference_ok_def sample_hash by code_simp
  moreover have "normalized_digest (JStr digest_hex) = Inr (''sha256:'' @ digest_hex)" by code_simp
  ultimately show ?thesis
    by (simp add: validated_supply_chain_statement_def publisher_statement_def jget_def sample_artifact_def)
qed

lemma sample_chain_ok:
  "attestation_ok sample_trust chain_db sample_attestation" "proof_ok sample_trust chain_db sample_proof"
  "receipt_ok sample_trust chain_db sample_receipt"
proof -
  have signed: "signed_under sample_trust digest_hex ''publisher'' publisher_statement"
    "signed_under sample_trust digest_hex ''checkpoint'' checkpoint_statement"
    "signed_under sample_trust digest_hex ''capture'' capture_statement"
    by (simp_all add: signed_under_def) (simp_all add: sample_trust_def)
  show "attestation_ok sample_trust chain_db sample_attestation"
    using signed(1) sample_statement
    by (simp add: attestation_ok_def sample_attestation_def chain_db_def linked_root_def sample_root_def sample_artifact_def)
  have "length (canonical_json sample_entry) < 1000" by code_simp
  then have "\<not> 262144 < length (canonical_json sample_entry)" by linarith
  moreover have "jget sample_entry ''schema_version'' = JStr ''model-atlas-transparency-entry-v1''"
    "text_claim sample_entry ''supply_chain_attestation_id'' = sa_id sample_attestation"
    "text_claim sample_entry ''attestation_hash'' = sa_hash sample_attestation"
    "text_claim sample_entry ''statement_id'' = sa_statement_id sample_attestation"
    "text_claim sample_entry ''subject_digest'' = sa_subject_digest sample_attestation" by code_simp+
  ultimately have "validated_transparency_entry sample_entry sample_attestation = Inr sample_entry"
    by (simp add: validated_transparency_entry_def)
  moreover have "calculate_transparency_root (te_H sample_trust) (transparency_leaf_hash (te_H sample_trust) sample_entry) 0 1 [] = Inr digest_hex"
    "normalized_hash (jget checkpoint_statement ''root_hash'') = Inr digest_hex"
    "integer_claim ''transparency checkpoint '' 1 checkpoint_statement ''tree_size'' = Inr 1" by code_simp+
  ultimately show "proof_ok sample_trust chain_db sample_proof"
    using signed(2) by (simp add: proof_ok_def sample_proof_def chain_db_def linked_root_def sample_root_def sample_attestation_def)
  have "uuid_claim capture_statement ''benchmark_run_id'' = Inr run_uuid"
    "uuid_claim capture_statement ''supply_chain_attestation_id'' = Inr attestation_uuid"
    "jget capture_statement ''supply_chain_attestation_hash'' = JStr ''sh''" by code_simp+
  with signed(3) show "receipt_ok sample_trust chain_db sample_receipt"
    by (simp add: receipt_ok_def sample_receipt_def chain_db_def linked_root_def sample_root_def sample_attestation_def)
qed

lemma chain_db_inv: "trust_inv sample_trust chain_db"
  using sample_chain_ok sample_root_ok
  by (simp add: trust_inv_def) (simp add: chain_db_def sample_root_def)

text \<open>With no actions recorded, every root is active and every attestation stands.\<close>

lemma sample_root_eligible:
  "i \<in> {''r1'', ''r2'', ''r3''} \<Longrightarrow> trust_root_is_production_eligible chain_db (row_find tr_id i (td_roots chain_db)) 10"
  by (auto simp: trust_root_is_production_eligible_def chain_db_def row_find_def sample_root_def trust_root_status_def
      root_verbs_def production_tier_def Let_def)

lemma chain_run_verified: "run_uuid \<in> set (verified_production_run_ids chain_db 10 [run_uuid])"
proof -
  have unrevoked: "\<not> attestation_revoked chain_db attestation_uuid" by (simp add: attestation_revoked_def chain_db_def)
  have "proof_eligible chain_db 10 sample_proof"
    using sample_root_eligible [of "''r2''"] by (simp add: proof_eligible_def sample_proof_def)
  then have "supply_chain_transparency_status chain_db sample_attestation 10 = Log_Verified"
    by (simp add: supply_chain_transparency_status_def chain_db_def sample_proof_def sample_attestation_def)
  then have "supply_chain_is_production_eligible chain_db sample_attestation 10"
    using unrevoked sample_root_eligible [of "''r1''"]
    by (simp add: supply_chain_is_production_eligible_def sample_attestation_def)
  moreover have "row_find sa_id attestation_uuid (td_attestations chain_db) = Some sample_attestation"
    by (simp add: chain_db_def row_find_def sample_attestation_def)
  ultimately have "production_receipt_is_eligible chain_db sample_receipt 10"
    using sample_root_eligible [of "''r3''"] by (simp add: production_receipt_is_eligible_def sample_receipt_def)
  then show ?thesis
    using unrevoked by (simp add: verified_production_run_ids_def set_fromkeys chain_db_def sample_receipt_def)
qed

theorem verified_run_rests_on_chain_witness:
  "run_uuid \<in> set (verified_production_run_ids chain_db 10 [run_uuid]) \<and>
   (\<exists>c \<in> set (td_receipts chain_db). production_root chain_db 10 Production_Collector (cr_fingerprint c))"
  using verified_run_rests_on_chain [of sample_sync chain_db "[]" chain_db run_uuid 10 "[run_uuid]"] chain_db_inv
    chain_run_verified by (auto simp: sample_sync_def)

section \<open>Revocations\<close>

definition revoke_root_command :: trust_command where
  "revoke_root_command = Act_On_Root ''r1'' Root_Revoked ''compromised'' None (governor\<lparr>subject_id := ''gov-2''\<rparr>) ''act'' 20"

definition revoked_db :: trust_db where
  "revoked_db = (case trust_step sample_sync revoke_root_command chain_db of Inl _ \<Rightarrow> chain_db | Inr db \<Rightarrow> db)"

lemma revoke_root_commits: "trust_step sample_sync revoke_root_command chain_db = Inr revoked_db"
proof -
  have "governance_operator (governor\<lparr>subject_id := ''gov-2''\<rparr>)" by code_simp
  moreover have "row_find tr_id ''r1'' (td_roots chain_db) = Some (sample_root ''r1'' Model_Publisher)"
    by (simp add: chain_db_def row_find_def sample_root_def)
  moreover have "text_claim (tr_registered_by (sample_root ''r1'' Model_Publisher)) ''subject_id'' \<noteq> ''gov-2''" by code_simp
  moreover have "root_verbs chain_db (tr_id (sample_root ''r1'' Model_Publisher)) = {}" by (simp add: root_verbs_def chain_db_def)
  ultimately have "\<exists>db. trust_step sample_sync revoke_root_command chain_db = Inr db"
    by (simp add: revoke_root_command_def record_evidence_trust_root_action_def assert_governance_operator_def Let_def
        trust_root_status_def require_def)
  then show ?thesis by (auto simp: revoked_db_def)
qed

theorem root_revocation_is_final_witness:
  "trust_step sample_sync revoke_root_command chain_db = Inr revoked_db \<and>
   \<not> supply_chain_is_production_eligible revoked_db sample_attestation 10"
  using root_revocation_is_final [of sample_sync chain_db "''r1''" "''compromised''" None
      "governor\<lparr>subject_id := ''gov-2''\<rparr>" "''act''" 20 revoked_db "[]" revoked_db 10]
    chain_db_inv revoke_root_commits
  by (auto simp: sample_sync_def revoke_root_command_def sample_attestation_def)

definition revoke_attestation_command :: trust_command where
  "revoke_attestation_command = Revoke_Supply attestation_uuid ''withdrawn'' None auditor ''act'' 20"

definition withdrawn_db :: trust_db where
  "withdrawn_db = (case trust_step sample_sync revoke_attestation_command chain_db of Inl _ \<Rightarrow> chain_db | Inr db \<Rightarrow> db)"

lemma revoke_attestation_commits: "trust_step sample_sync revoke_attestation_command chain_db = Inr withdrawn_db"
proof -
  have "maintenance_identity auditor" by code_simp
  moreover have "row_find sa_id attestation_uuid (td_attestations chain_db) = Some sample_attestation"
    by (simp add: chain_db_def row_find_def sample_attestation_def)
  moreover have "text_claim (sa_verified_by sample_attestation) ''subject_id'' \<noteq> subject_id auditor" by code_simp
  moreover have "\<not> attestation_revoked chain_db (sa_id sample_attestation)" by (simp add: attestation_revoked_def chain_db_def)
  ultimately have "\<exists>db. trust_step sample_sync revoke_attestation_command chain_db = Inr db"
    by (simp add: revoke_attestation_command_def revoke_model_supply_chain_attestation_def
        assert_supply_chain_operator_def Let_def require_def)
  then show ?thesis by (auto simp: withdrawn_db_def)
qed

theorem attestation_revocation_is_final_witness:
  "trust_step sample_sync revoke_attestation_command chain_db = Inr withdrawn_db \<and>
   attestation_revoked withdrawn_db attestation_uuid \<and> \<not> production_receipt_is_eligible withdrawn_db sample_receipt 10"
  using attestation_revocation_is_final [of sample_sync chain_db attestation_uuid "''withdrawn''" None auditor "''act''" 20
      withdrawn_db "[]" withdrawn_db 10] chain_db_inv revoke_attestation_commits
  by (auto simp: sample_sync_def revoke_attestation_command_def sample_receipt_def)

end
