(* ===== verification/Trust_Sync_Witness.thy ===== *)
theory Trust_Sync_Witness
  imports Trust_Witness
begin

text \<open>
  The properties of trust sources and their schedules at concrete tables: a source that publishes one new key,
  and one that answers with HTTP 503.
\<close>

section \<open>A synchronisation\<close>

definition good_source :: uuid where
  "good_source = ''33333333-3333-3333-3333-333333333333''"

definition busy_source :: uuid where
  "busy_source = ''44444444-4444-4444-4444-444444444444''"

definition second_key :: remote_key where
  "second_key = \<lparr>rk_key_id = ''k2'', rk_algorithm = ''RS256'', rk_fingerprint = digest_hex, rk_jwk = public_key ''k2''\<rparr>"

definition sample_draws :: sync_draw where
  "sample_draws = \<lparr>sd_sync = ''sync-1'', sd_root = (\<lambda>k. ''root-'' @ k), sd_created = 5, sd_conflict = False\<rparr>"

lemma fresh_draws: "inj (sd_root sample_draws)" "range (sd_root sample_draws) \<inter> tr_id ` set (td_roots chain_db) = {}"
  by (auto simp: sample_draws_def inj_def chain_db_def sample_root_def)

abbreviation good_row :: trust_source where
  "good_row \<equiv> sample_source good_source ''https://keys.test/jwks''"

abbreviation busy_row :: trust_source where
  "busy_row \<equiv> sample_source busy_source ''https://busy.test/jwks''"

lemma sample_sources:
  "td_sources chain_db = [good_row, busy_row]"
  "row_find ts_id good_source [good_row, busy_row] = Some good_row"
  "row_find ts_id busy_source [good_row, busy_row] = Some busy_row"
  by (simp_all add: chain_db_def good_source_def busy_source_def row_find_def sample_source_def)

lemma sample_urls:
  "validate_trust_source_url sample_sync (ts_endpoint (sample_source i url)) (ts_tier (sample_source i url))
     (ts_insecure_http (sample_source i url)) = Inr ()"
  by (simp add: validate_trust_source_url_def sample_sync_def sample_trust_def sample_source_def Let_def text_set_def
      text_or_empty_def host_is_allowed_def) code_simp

lemma sample_env_trust [simp]: "sn_trust sample_sync = sample_trust"
  by (simp add: sample_sync_def)

lemma good_fetch: "fetch_remote_jwks sample_sync good_row = Inr (JObj [(''keys'', JArr [public_key ''k2''])])"
  by code_simp

lemma good_observation:
  assumes "td_roots db = td_roots chain_db"
  shows "so_result (observe_source sample_sync good_row db) = Inr ([second_key], [])"
    and "so_keys (observe_source sample_sync good_row db) = [second_key]"
proof -
  have "validated_public_jwk sample_trust (public_key ''k2'') ''k2'' ''RS256'' = Inr (public_key ''k2'')" by code_simp
  moreover have "strip (text_claim (public_key ''k2'') ''kid'') = ''k2''" "strip (text_claim (public_key ''k2'') ''alg'') = ''RS256''"
    "is_dict (public_key ''k2'')" by code_simp+
  ultimately have "remote_key_of sample_trust good_row [] (public_key ''k2'') = Inr second_key"
    by (simp add: remote_key_of_def second_key_def sample_source_def Let_def)
  then have keys: "validated_remote_keys sample_trust good_row (JObj [(''keys'', JArr [public_key ''k2''])]) = Inr [second_key]"
    by (simp add: validated_remote_keys_def jget_def MAX_JWKS_KEYS_def)
  have "find_root db (ts_purpose good_row) (ts_issuer good_row) (rk_key_id second_key) = None"
    by (simp add: find_root_def assms) (simp add: chain_db_def sample_root_def second_key_def sample_source_def)
  with keys show "so_result (observe_source sample_sync good_row db) = Inr ([second_key], [])"
    and "so_keys (observe_source sample_sync good_row db) = [second_key]"
    by (simp_all add: observe_source_def good_fetch)
qed

lemma busy_observation: "so_result (observe_source sample_sync busy_row db) = Inl (''http_status'', ''trust source returned HTTP 503'')"
proof -
  have "''trust source returned HTTP '' @ show_int 503 = ''trust source returned HTTP 503''" by code_simp
  then show ?thesis by (simp add: observe_source_def fetch_remote_jwks_def sample_sync_def sample_source_def)
qed

lemma good_sync:
  assumes "sync_context_ok cx sg = Inr ()" and "td_roots db = td_roots chain_db" and "td_sources db = td_sources chain_db"
  shows "\<exists>db' y. sync_evidence_trust_source sample_sync sample_draws good_source Sync_Apply nt sg cx clock db = Inr (db', y) \<and>
    ss_status y = Sync_Succeeded \<and>
    ss_keys y = [\<lparr>ok_key_id = ''k2'', ok_algorithm = ''RS256'', ok_fingerprint = digest_hex\<rparr>]"
  using assms good_observation [OF assms(2)] sample_urls [of good_source "''https://keys.test/jwks''"]
  by (simp add: sync_evidence_trust_source_def sample_sources Let_def sample_draws_def)
    (simp add: sample_source_def sync_row_def second_key_def)

definition sync_result :: "trust_db \<times> source_sync" where
  "sync_result = (case sync_evidence_trust_source sample_sync sample_draws good_source Sync_Apply None governor manual_context 20
     chain_db of Inl _ \<Rightarrow> undefined | Inr r \<Rightarrow> r)"

lemma sync_committed:
  "sync_evidence_trust_source sample_sync sample_draws good_source Sync_Apply None governor manual_context 20 chain_db =
     Inr (fst sync_result, snd sync_result)"
  "ss_status (snd sync_result) = Sync_Succeeded"
  "ss_keys (snd sync_result) = [\<lparr>ok_key_id = ''k2'', ok_algorithm = ''RS256'', ok_fingerprint = digest_hex\<rparr>]"
proof -
  have "sync_context_ok manual_context governor = Inr ()" by code_simp
  from good_sync [OF this, of chain_db None 20]
  show "sync_evidence_trust_source sample_sync sample_draws good_source Sync_Apply None governor manual_context 20 chain_db =
     Inr (fst sync_result, snd sync_result)" "ss_status (snd sync_result) = Sync_Succeeded"
    "ss_keys (snd sync_result) = [\<lparr>ok_key_id = ''k2'', ok_algorithm = ''RS256'', ok_fingerprint = digest_hex\<rparr>]"
    by (auto simp: sync_result_def)
qed


theorem withdrawn_key_is_ineligible_witness:
  "\<not> trust_root_is_production_eligible (fst sync_result)
     (Some ((sample_root ''r4'' Model_Publisher)\<lparr>tr_source_id := Some good_source, tr_fingerprint := ''old''\<rparr>)) 30"
proof -
  have "\<forall>z \<in> set (td_syncs chain_db). ss_source_id z = good_source \<longrightarrow> sync_key z \<le> sync_key (snd sync_result)"
    by (simp add: chain_db_def)
  moreover have "''old'' \<notin> ok_fingerprint ` set (ss_keys (snd sync_result))"
    by (simp add: sync_committed(3) digest_hex_def numeral_eq_Suc)
  ultimately show ?thesis
    using withdrawn_key_is_ineligible [OF sync_committed(1,2), of "(sample_root ''r4'' Model_Publisher)
      \<lparr>tr_source_id := Some good_source, tr_fingerprint := ''old''\<rparr>" 30] by simp
qed

section \<open>Scheduled jobs\<close>

definition sample_schedule :: "uuid \<Rightarrow> source_schedule" where
  "sample_schedule source =
     \<lparr>sc_id = ''55555555-5555-5555-5555-555555555555'', sc_source_id = source, sc_enabled = True, sc_interval = 3600,
      sc_jitter = 60, sc_max_attempts = 3, sc_retry_base = 5, sc_retry_max = 60, sc_retry_jitter = 5, sc_next_run = 0,
      sc_last_enqueued = Some 0, sc_last_completed = None, sc_last_job = Some ''job-1'', sc_last_sync = None,
      sc_sequence = 1, sc_failures = 0, sc_lease_owner = Some ''s'', sc_lease_token = Some digest_hex,
      sc_lease_expires = Some 0, sc_policy_hash = ''ph'', sc_configured_by = identity_to_json governor,
      sc_created_at = 0\<rparr>"

definition sample_job :: "uuid \<Rightarrow> job" where
  "sample_job source =
     (new_job (sync_request (sample_schedule source) digest_hex 900 governor) 0 ''job-1'')
       \<lparr>job_status := Leased, job_lease_owner := Some ''w1'', job_lease_token := Some ''tk'', job_attempt_count := 1\<rparr>"

definition schedule_db :: "uuid \<Rightarrow> job list \<Rightarrow> registry_db" where
  "schedule_db source jobs =
     \<lparr>rg_trust = chain_db\<lparr>td_schedules := [sample_schedule source]\<rparr>,
      rg_queue = \<lparr>q_jobs = jobs, q_workers = []\<rparr>\<rparr>"

lemma sample_payload:
  "job_payload (sample_job source) = sync_payload (sample_schedule source) digest_hex 900"
  "job_id (sample_job source) = ''job-1''" "job_attempt_count (sample_job source) = 1"
  "job_max_attempts (sample_job source) = 3"
  by (simp_all add: sample_job_def new_job_def sync_request_def sample_schedule_def)

lemma digest_hex_text: "digest_hex \<noteq> []" "length digest_hex = 64"
  by code_simp+

lemma sample_lineage:
  assumes "job_payload j = sync_payload (sample_schedule source) digest_hex 900" and "job_id j = ''job-1''"
  shows "lineage_matches (sample_schedule source) source j = Some True"
proof -
  have "text_claim (job_payload j) ''schedule_lease_token_hash'' = digest_hex" "text_claim (job_payload j) ''policy_hash'' = ''ph''"
    "int_or (jget (job_payload j) ''run_sequence'') (- 1) = Some 1"
    using digest_hex_text by (simp_all add: assms(1) sync_payload_def jget_def str_or_def int_or_def sample_schedule_def)
  with digest_hex_text assms(2) show ?thesis by (simp add: lineage_matches_def sample_schedule_def)
qed

text \<open>A job for one of the two sources reaches its synchronisation.\<close>

lemma sample_execution:
  assumes "source \<in> {good_source, busy_source}" and "job_payload j = sync_payload (sample_schedule source) digest_hex 900"
    and "job_id j = ''job-1''"
    and "sync_evidence_trust_source sample_sync dw source Sync_Apply
      (Some (''Scheduled trust-source sync run '' @ show_int 1)) sg (scheduled_context (sample_schedule source) j 0)
      (whole_seconds clock) (rg_trust (schedule_db source jobs)) = Inr (t', y)"
  shows "execute_trust_source_sync_job sample_sync dw j sg clock (schedule_db source jobs) =
    (case settle_schedule sample_trust y j (sample_schedule source) of
       (s', res) \<Rightarrow> (put_schedule s' ((schedule_db source jobs)\<lparr>rg_trust := t'\<rparr>), res))"
proof -
  have parse: "parse_uuid ''55555555-5555-5555-5555-555555555555'' = Some ''55555555-5555-5555-5555-555555555555''"
    "parse_uuid source = Some source"
    using assms(1) by (auto simp: good_source_def busy_source_def) code_simp+
  have p: "jget (job_payload j) ''schema_version'' = JStr JOB_VERSION"
    "uuid_payload (job_payload j) ''schedule_id'' = Inr ''55555555-5555-5555-5555-555555555555''"
    "uuid_payload (job_payload j) ''trust_source_id'' = Inr source"
    "datetime_payload sample_trust (job_payload j) ''scheduled_for'' = Inr 0"
    using parse by (simp_all add: assms(2) sync_payload_def jget_def uuid_payload_def datetime_payload_def of_option_def
        sample_schedule_def) (simp add: sample_trust_def)
  have s: "row_find sc_id ''55555555-5555-5555-5555-555555555555'' (schedules_of (schedule_db source jobs)) = Some (sample_schedule source)"
    by (simp add: schedule_db_def row_find_def sample_schedule_def)
  have n: "sc_sequence (sample_schedule source) = 1" by (simp add: sample_schedule_def)
  note lin = sample_lineage [OF assms(2,3)]
  show ?thesis
    by (simp add: execute_trust_source_sync_job_def p s of_option_def lin n Let_def
        assms(4) [unfolded append_Cons append_Nil])
qed

definition running :: "uuid \<Rightarrow> job" where
  "running source = (sample_job source)\<lparr>job_status := Running\<rparr>"

lemma sample_begin:
  "begin_agent_job ''job-1'' ''tk'' (rg_queue (schedule_db source [sample_job source])) =
     Inr (rg_queue (schedule_db source [running source]), running source)"
  by (simp add: begin_agent_job_def schedule_db_def row_find_def row_put_def sample_payload running_def)
    (simp add: sample_job_def Let_def)

lemma worker_context:
  "sync_context_ok (scheduled_context (sample_schedule source) (running source) t) (sync_executor (running source)) = Inr ()"
proof -
  have "sync_executor (running source) = system_worker_identity ''w1''"
    by (simp add: sync_executor_def running_def sample_job_def text_set_def text_or_empty_def)
  moreover have "identity_verified (system_worker_identity ''w1'')" "normalized_role (system_worker_identity ''w1'') = ''system worker''"
    by code_simp+
  ultimately show ?thesis
    by (simp add: sync_context_ok_def scheduled_context_def running_def sample_payload)
qed

text \<open>A committed synchronisation and a settled schedule make a processed job.\<close>

lemma sample_process:
  assumes "source \<in> {good_source, busy_source}"
    and "sync_evidence_trust_source sample_sync dw source Sync_Apply
      (Some (''Scheduled trust-source sync run '' @ show_int 1)) (sync_executor (running source))
      (scheduled_context (sample_schedule source) (running source) 0) (whole_seconds clock)
      (rg_trust (schedule_db source [running source])) = Inr (t', y)"
    and "\<not> retryable_sync y"
  shows "\<exists>db' j2. process_sync_job sample_sync dw ''job-1'' ''tk'' clock done_at (schedule_db source [sample_job source]) =
    (db', Inr j2) \<and> td_syncs (rg_trust db') = td_syncs t'"
proof -
  obtain s' res where settle: "settle_schedule sample_trust y (running source) (sample_schedule source) = (s', res)"
    by (cases "settle_schedule sample_trust y (running source) (sample_schedule source)")
  have "(schedule_db source [sample_job source])\<lparr>rg_queue := rg_queue (schedule_db source [running source])\<rparr> =
      schedule_db source [running source]" by (simp add: schedule_db_def)
  moreover have "job_payload (running source) = sync_payload (sample_schedule source) digest_hex 900" "job_id (running source) = ''job-1''"
    by (simp_all add: running_def sample_payload)
  note exec = sample_execution [OF assms(1) this assms(2)]
  have "sync_outcome res \<in> range Outcome_Result \<union> range Outcome_Domain_Error"
    using settle assms(3) by (auto simp: settle_schedule_def Let_def sync_outcome_def split: if_splits)
  then have fin: "\<exists>q2 j2. finish_agent_job dg ''job-1'' (sync_outcome res) done_at (rg_queue (schedule_db source [running source])) = Inr (q2, j2)"
    for dg by (auto simp: finish_agent_job_def schedule_db_def row_find_def running_def sample_payload fail_job_def Let_def)
  then obtain q2 j2 where "finish_agent_job (digest_prefix sample_trust) ''job-1'' (sync_outcome res) done_at
      (rg_queue (schedule_db source [running source])) = Inr (q2, j2)" by blast
  ultimately show ?thesis
    by (simp add: process_sync_job_def sample_begin exec settle) (simp add: put_schedule_def)
qed

lemma schedule_tables [simp]:
  "td_roots (rg_trust (schedule_db source jobs)) = td_roots chain_db"
  "td_sources (rg_trust (schedule_db source jobs)) = td_sources chain_db"
  "td_syncs (rg_trust (schedule_db source jobs)) = []" "schedules_of (schedule_db source jobs) = [sample_schedule source]"
  by (simp_all add: schedule_db_def) (simp add: chain_db_def)

lemma busy_sync:
  assumes "sync_context_ok cx sg = Inr ()" and "td_sources db = td_sources chain_db"
  shows "\<exists>y. sync_evidence_trust_source sample_sync dw busy_source Sync_Apply nt sg cx clock db =
      Inr (db\<lparr>td_syncs := td_syncs db @ [y]\<rparr>, y) \<and> ss_status y = Sync_Failed \<and> ss_source_id y = busy_source \<and>
    ss_error_code y = Some ''http_status''"
proof -
  have "ts_enabled busy_row" by (simp add: sample_source_def)
  with assms busy_observation [of db] sample_urls [of busy_source "''https://busy.test/jwks''"] show ?thesis
    by (simp add: sync_evidence_trust_source_def sample_sources Let_def)
      (simp add: failed_sync_def sync_row_def, simp add: sample_source_def)
qed

text \<open>The job for the busy source becomes a dead letter; the job for the good one completes.\<close>

lemma busy_process:
  "\<exists>db' j2 y. process_sync_job sample_sync sample_draws ''job-1'' ''tk'' 100 101 (schedule_db busy_source [sample_job busy_source]) =
     (db', Inr j2) \<and> td_syncs (rg_trust db') = td_syncs (rg_trust (schedule_db busy_source [sample_job busy_source])) @ [y] \<and>
     ss_status y = Sync_Failed \<and> ss_source_id y = busy_source"
proof -
  obtain y where y: "sync_evidence_trust_source sample_sync sample_draws busy_source Sync_Apply
      (Some (''Scheduled trust-source sync run '' @ show_int 1)) (sync_executor (running busy_source))
      (scheduled_context (sample_schedule busy_source) (running busy_source) 0) (whole_seconds 100)
      (rg_trust (schedule_db busy_source [running busy_source])) =
      Inr ((rg_trust (schedule_db busy_source [running busy_source]))\<lparr>td_syncs := td_syncs (rg_trust (schedule_db busy_source [running busy_source])) @ [y]\<rparr>, y)"
    "ss_status y = Sync_Failed" "ss_source_id y = busy_source" "ss_error_code y = Some ''http_status''"
    using busy_sync [OF worker_context] by (metis schedule_tables(2))
  have "\<not> retryable_sync y" by (simp add: retryable_sync_def y(4) RETRYABLE_SYNC_ERRORS_def)
  from sample_process [OF _ y(1) this, of 101] y(2,3) show ?thesis by fastforce
qed

lemma good_process:
  "\<exists>db' j2 y. process_sync_job sample_sync sample_draws ''job-1'' ''tk'' 100 101 (schedule_db good_source [sample_job good_source]) =
     (db', Inr j2) \<and> td_syncs (rg_trust db') = td_syncs (rg_trust (schedule_db good_source [sample_job good_source])) @ [y] \<and>
     ss_status y = Sync_Succeeded"
proof -
  obtain t' y where y: "sync_evidence_trust_source sample_sync sample_draws good_source Sync_Apply
      (Some (''Scheduled trust-source sync run '' @ show_int 1)) (sync_executor (running good_source))
      (scheduled_context (sample_schedule good_source) (running good_source) 0) (whole_seconds 100)
      (rg_trust (schedule_db good_source [running good_source])) = Inr (t', y)" "ss_status y = Sync_Succeeded"
    using good_sync [OF worker_context, of "rg_trust (schedule_db good_source [running good_source])"]
    by (metis schedule_tables(1,2))
  have "ss_error_code y = None"
    using y by (auto elim!: sync_outcome simp: succeeded_sync_def sync_row_def)
  then have "\<not> retryable_sync y" by (simp add: retryable_sync_def)
  from sample_process [OF _ y(1) this, of 101] y(2) sync_appends(1) [OF y(1)] show ?thesis by fastforce
qed

theorem scheduled_failures_retried_witness:
  "\<exists>db' j2. process_sync_job sample_sync sample_draws ''job-1'' ''tk'' 100 101
     (schedule_db busy_source [sample_job busy_source]) = (db', Inr j2) \<and> job_status j2 = Failed"
proof -
  obtain db' j2 y where p: "process_sync_job sample_sync sample_draws ''job-1'' ''tk'' 100 101
      (schedule_db busy_source [sample_job busy_source]) = (db', Inr j2)"
    "td_syncs (rg_trust db') = td_syncs (rg_trust (schedule_db busy_source [sample_job busy_source])) @ [y]"
    "ss_status y = Sync_Failed" "ss_source_id y = busy_source" using busy_process by blast
  have "sn_get sample_sync (ts_endpoint busy_row) = Source_Response 503 [] [] False"
    by (simp add: sample_sync_def sample_source_def)
  with scheduled_failures_retried [OF p(1-3)] p(4) have "job_status j2 = Failed"
    by (fastforce simp: sample_sources)
  with p(1) show ?thesis by blast
qed


section \<open>A round of the scheduler\<close>

definition idle_db :: registry_db where
  "idle_db = (schedule_db good_source [])\<lparr>rg_trust := (rg_trust (schedule_db good_source []))
     \<lparr>td_schedules := [(sample_schedule good_source)\<lparr>sc_last_job := None\<rparr>]\<rparr>\<rparr>"

definition sample_enqueue :: enqueue_draw where
  "sample_enqueue = \<lparr>ed_job = (\<lambda>i. ''job-'' @ i), ed_secret = (\<lambda>_. ''secret'')\<rparr>"

lemma sample_round:
  "\<exists>r. enqueue_due_trust_source_sync_jobs sample_trust sample_enqueue ''scheduler'' (system_worker_identity ''w1'') 900 10 [] 100
     idle_db = Inr r"
proof -
  have "scheduler_identity (system_worker_identity ''w1'')" "strip ''scheduler'' = ''scheduler''" by code_simp+
  moreover have "due_batch (whole_seconds 100) [] 10 idle_db = [(sample_schedule good_source)\<lparr>sc_last_job := None\<rparr>]"
    by (simp add: due_batch_def idle_db_def due_schedule_def sample_schedule_def whole_seconds_def clamp_def)
  moreover have "td_sources (rg_trust idle_db) = [good_row, busy_row]" by (simp add: idle_db_def sample_sources)
  moreover have "ts_enabled good_row" "sc_source_id (sample_schedule good_source) = good_source" "q_jobs (rg_queue idle_db) = []"
    by (simp_all add: sample_source_def sample_schedule_def idle_db_def schedule_db_def)
  ultimately show ?thesis
    by (simp add: enqueue_due_trust_source_sync_jobs_def visit_schedule_def sample_sources last_job_of_def Let_def require_def)
qed

theorem due_schedules_get_jobs_witness:
  "\<exists>db' js j. enqueue_due_trust_source_sync_jobs sample_trust sample_enqueue ''scheduler'' (system_worker_identity ''w1'') 900 10
     [] 100 idle_db = Inr (db', js) \<and> j \<in> set js \<and> job_status j = Queued"
proof -
  let ?s = "(sample_schedule good_source)\<lparr>sc_last_job := None\<rparr>"
  obtain db' js where r: "enqueue_due_trust_source_sync_jobs sample_trust sample_enqueue ''scheduler''
      (system_worker_identity ''w1'') 900 10 [] 100 idle_db = Inr (db', js)" using sample_round by auto
  have rows: "schedules_of idle_db = [?s]" by (simp add: idle_db_def)
  have due: "due_schedule (whole_seconds 100) [] ?s"
    by (simp add: due_schedule_def sample_schedule_def whole_seconds_def)
  have "length (filter (\<lambda>x. due_schedule (whole_seconds 100) [] x \<and> schedule_order x \<le> schedule_order ?s) (schedules_of idle_db))
      \<le> nat (clamp 1 100 10)" by (simp add: rows clamp_def)
  moreover have "row_find ts_id (sc_source_id ?s) (td_sources (rg_trust idle_db)) = Some good_row"
    by (simp add: idle_db_def sample_sources) (simp add: sample_schedule_def sample_sources)
  moreover have "ts_enabled good_row" by (simp add: sample_source_def)
  moreover have "digest_function (te_H sample_trust)" by (simp add: digest_function_def sample_trust_def)
  moreover have "0 \<le> sc_sequence ?s" "sc_policy_hash ?s \<noteq> []" by (simp_all add: sample_schedule_def)
  ultimately have "\<exists>j s'. j \<in> set js \<and> j \<in> set (q_jobs (rg_queue db')) \<and> job_kind j = Trust_Source_Sync \<and> job_status j = Queued \<and>
    job_available_at j = whole_seconds 100 \<and> row_find sc_id (sc_id ?s) (schedules_of db') = Some s' \<and>
    lineage_matches s' (sc_source_id ?s) j = Some True \<and>
    sc_lease_expires s' = Some (whole_seconds 100 + seconds (clamp 30 3600 900))"
    by (intro due_schedules_get_jobs [OF r _ due]) (simp_all add: rows)
  with r show ?thesis by blast
qed

end
