(* ===== verification/Json_Text.thy ===== *)
theory Json_Text
  imports Canonical_Json
begin

text \<open>
  \<^verbatim>\<open>json.loads\<close> and \<^verbatim>\<open>json.dumps(value, separators=(",", ":"))\<close> of the standard library, as the backend uses
  them to read what a model answered and to write a compiled plan. The reader follows
  \<^verbatim>\<open>json.decoder\<close>: white space, string escapes, numbers by the regular expression of \<^verbatim>\<open>json.scanner\<close>, and the last of
  several members with one name. Text is ASCII, so \<open>\u\<close> escapes beyond one byte, and the literals
  \<^verbatim>\<open>NaN\<close> and \<^verbatim>\<open>Infinity\<close> that have no counterpart among the values, are refused here. The reader recurses
  over fuel; \<open>json_loads\<close> gives it twice the length of the text, which is always enough
  (\<open>json_fuel_is_enough\<close>), and reads back what \<open>json_dumps\<close> wrote (\<open>json_loads_dumps\<close>).
\<close>

section \<open>Reading\<close>

definition json_space :: "char \<Rightarrow> bool" where
  "json_space c \<longleftrightarrow> (of_char c :: nat) \<in> {9, 10, 13, 32}"

abbreviation skip_space :: "string \<Rightarrow> string" where
  "skip_space \<equiv> dropWhile json_space"

definition starts :: "char \<Rightarrow> string \<Rightarrow> bool" where
  "starts c s \<longleftrightarrow> s \<noteq> [] \<and> hd s = c"

definition simple_escape :: "char \<Rightarrow> char option" where
  "simple_escape c = map_of
     [(CHR 0x22, CHR 0x22), (CHR 0x5C, CHR 0x5C), (CHR ''/'', CHR ''/''), (CHR ''b'', CHR 0x08),
      (CHR ''f'', CHR 0x0C), (CHR ''n'', CHR 0x0A), (CHR ''r'', CHR 0x0D), (CHR ''t'', CHR 0x09)] c"

definition hex_code :: "char \<Rightarrow> nat option" where
  "hex_code c = (let n = (of_char c :: nat) in
     if 48 \<le> n \<and> n \<le> 57 then Some (n - 48)
     else if 97 \<le> n \<and> n \<le> 102 then Some (n - 87)
     else if 65 \<le> n \<and> n \<le> 70 then Some (n - 55) else None)"

definition unicode_escape :: "string \<Rightarrow> char option" where
  "unicode_escape ds = (case map hex_code ds of
     [Some a, Some b, Some c, Some d] \<Rightarrow>
       (if a = 0 \<and> b = 0 then Some (char_of (16 * c + d)) else None)
   | _ \<Rightarrow> None)"

text \<open>The rest of a string after its opening quote, and what follows its closing quote.\<close>

fun scan_chars :: "string \<Rightarrow> (string \<times> string) option" where
  "scan_chars [] = None"
| "scan_chars (c # s) =
     (if c = CHR 0x22 then Some ([], s)
      else if c = CHR 0x5C then
        (case s of [] \<Rightarrow> None
         | e # t \<Rightarrow>
           if e = CHR ''u'' then
             (case unicode_escape (take 4 t) of None \<Rightarrow> None
              | Some x \<Rightarrow> map_option (apfst (Cons x)) (scan_chars (drop 4 t)))
           else (case simple_escape e of None \<Rightarrow> None
                 | Some x \<Rightarrow> map_option (apfst (Cons x)) (scan_chars t)))
      else if (of_char c :: nat) < 32 then None
      else map_option (apfst (Cons c)) (scan_chars s))"

text \<open>A number: \<^verbatim>\<open>(-?(?:0|[1-9]\d*))(\.\d+)?([eE][-+]?\d+)?\<close>.\<close>

definition scan_digits :: "string \<Rightarrow> string \<times> string" where
  "scan_digits s = (takeWhile is_digit s, dropWhile is_digit s)"

definition scan_integer :: "string \<Rightarrow> string \<times> string" where
  "scan_integer s = (if starts (CHR ''0'') s then (''0'', tl s) else scan_digits s)"

definition scan_fraction :: "string \<Rightarrow> string \<times> string" where
  "scan_fraction s =
     (if starts (CHR ''.'') s \<and> fst (scan_digits (tl s)) \<noteq> [] then scan_digits (tl s) else ([], s))"

definition scan_exponent :: "string \<Rightarrow> int option \<times> string" where
  "scan_exponent s =
     (if starts (CHR ''e'') s \<or> starts (CHR ''E'') s then
        let t = tl s; u = (if starts (CHR ''-'') t \<or> starts (CHR ''+'') t then tl t else t);
            (ds, r) = scan_digits u
        in if ds = [] then (None, s)
           else (Some ((if starts (CHR ''-'') t then - 1 else 1) * int (read_nat 0 ds)), r)
      else (None, s))"

definition scan_number :: "string \<Rightarrow> (json \<times> string) option" where
  "scan_number s =
     (let neg = starts (CHR ''-'') s;
          (ds, r) = scan_integer (if neg then tl s else s);
          (fr, u) = scan_fraction r;
          (ex, v) = scan_exponent u;
          sign = (if neg then - 1 else 1)
      in if ds = [] then None
         else if fr = [] \<and> ex = None then Some (JInt (sign * int (read_nat 0 ds)), v)
         else Some (JFloat (of_int sign * of_nat (read_nat 0 (ds @ fr)) / 10 ^ length fr *
                (case ex of None \<Rightarrow> 1
                 | Some k \<Rightarrow> if 0 \<le> k then 10 ^ nat k else 1 / 10 ^ nat (- k))), v))"

definition after :: "string \<Rightarrow> string \<Rightarrow> string option" where
  "after w s = (if take (length w) s = w then Some (drop (length w) s) else None)"

definition scan_atom :: "string \<Rightarrow> (json \<times> string) option" where
  "scan_atom s =
     (case after ''null'' s of Some r \<Rightarrow> Some (JNull, r) | None \<Rightarrow>
      case after ''true'' s of Some r \<Rightarrow> Some (JBool True, r) | None \<Rightarrow>
      case after ''false'' s of Some r \<Rightarrow> Some (JBool False, r) | None \<Rightarrow> scan_number s)"

text \<open>The members of an object become a dict: the last of several members with one name counts.\<close>

definition dict_of :: "(string \<times> json) list \<Rightarrow> json" where
  "dict_of kvs = fold (\<lambda>(k, v). dict_set k v) kvs (JObj [])"

fun scan_value :: "nat \<Rightarrow> string \<Rightarrow> (json \<times> string) option"
and scan_items :: "nat \<Rightarrow> string \<Rightarrow> (json list \<times> string) option"
and scan_members :: "nat \<Rightarrow> string \<Rightarrow> ((string \<times> json) list \<times> string) option" where
  "scan_value 0 s = None"
| "scan_value (Suc n) s =
     (if starts (CHR 0x22) s then map_option (apfst JStr) (scan_chars (tl s))
      else if starts (CHR ''{'') s then
        (let t = skip_space (tl s) in
         if starts (CHR ''}'') t then Some (JObj [], tl t)
         else map_option (apfst dict_of) (scan_members n t))
      else if starts (CHR ''['') s then
        (let t = skip_space (tl s) in
         if starts (CHR '']'') t then Some (JArr [], tl t)
         else map_option (apfst JArr) (scan_items n t))
      else scan_atom s)"
| "scan_items 0 s = None"
| "scan_items (Suc n) s =
     (case scan_value n s of None \<Rightarrow> None
      | Some (v, r) \<Rightarrow>
        let t = skip_space r in
        if starts (CHR '']'') t then Some ([v], tl t)
        else if starts (CHR '','') t then map_option (apfst (Cons v)) (scan_items n (skip_space (tl t)))
        else None)"
| "scan_members 0 s = None"
| "scan_members (Suc n) s =
     (if \<not> starts (CHR 0x22) s then None
      else case scan_chars (tl s) of None \<Rightarrow> None
      | Some (k, r) \<Rightarrow>
        let t = skip_space r in
        if \<not> starts (CHR '':'') t then None
        else case scan_value n (skip_space (tl t)) of None \<Rightarrow> None
        | Some (v, w) \<Rightarrow>
          let u = skip_space w in
          if starts (CHR ''}'') u then Some ([(k, v)], tl u)
          else if starts (CHR '','') u then map_option (apfst (Cons (k, v))) (scan_members n (skip_space (tl u)))
          else None)"

definition json_loads :: "string \<Rightarrow> json option" where
  "json_loads s =
     (case scan_value (2 * length s + 2) (skip_space s) of None \<Rightarrow> None
      | Some (v, r) \<Rightarrow> if skip_space r = [] then Some v else None)"

section \<open>Writing\<close>

fun json_dumps :: "json \<Rightarrow> string" where
  "json_dumps (JArr xs) = ''['' @ join '','' (map json_dumps xs) @ '']''"
| "json_dumps (JObj kvs) = ''{'' @ join '','' (map (\<lambda>(k, v). json_member (k, json_dumps v)) kvs) @ ''}''"
| "json_dumps j = canonical_json j"

section \<open>The fuel is enough\<close>

lemma starts_Cons [simp]: "starts c (d # s) \<longleftrightarrow> d = c"
  and starts_Nil [simp]: "\<not> starts c []"
  by (auto simp: starts_def)

lemma startsD: "starts c s \<Longrightarrow> s = c # tl s"
  by (cases s) auto

lemma skip_space_length: "length (skip_space s) \<le> length s"
  by (rule length_dropWhile_le)

lemma scan_chars_shorter: "scan_chars s = Some (x, r) \<Longrightarrow> length r < length s"
proof (induction s arbitrary: x r rule: scan_chars.induct)
  case (2 c s)
  show ?case
  proof (cases "c = CHR 0x5C")
    case True
    with 2(4) obtain e t where s: "s = e # t" by (cases s) auto
    have q: "c \<noteq> CHR 0x22" using True by simp
    show ?thesis
    proof (cases "e = CHR ''u''")
      case True
      with 2(4) s \<open>c = CHR 0x5C\<close> obtain y z where "scan_chars (drop 4 t) = Some (z, r)" "unicode_escape (take 4 t) = Some y"
        by (auto split: option.splits)
      from 2(1) [OF q \<open>c = CHR 0x5C\<close> s True this(2) this(1)] show ?thesis by (simp add: s)
    next
      case False
      with 2(4) s \<open>c = CHR 0x5C\<close> obtain y z where "scan_chars t = Some (z, r)" "simple_escape e = Some y"
        by (auto split: option.splits)
      from 2(2) [OF q \<open>c = CHR 0x5C\<close> s False this(2) this(1)] show ?thesis by (simp add: s)
    qed
  next
    case False
    with 2(3,4) show ?thesis by (auto split: if_splits dest: less_SucI)
  qed
qed simp

lemma after_shorter: "after w s = Some r \<Longrightarrow> w \<noteq> [] \<Longrightarrow> length r < length s"
proof -
  assume r: "after w s = Some r" "w \<noteq> []"
  then have "take (length w) s = w" "r = drop (length w) s" by (auto simp: after_def split: if_splits)
  moreover from this(1) r(2) have "s \<noteq> []" by auto
  ultimately show ?thesis using r(2) by (cases w) auto
qed

lemma scan_digits_append: "scan_digits s = (ds, r) \<Longrightarrow> s = ds @ r"
  by (auto simp: scan_digits_def)

lemma scan_fraction_length: "length (snd (scan_fraction s)) \<le> length s"
  by (auto simp: scan_fraction_def scan_digits_def intro: le_trans [OF length_dropWhile_le])

lemma scan_exponent_length: "length (snd (scan_exponent s)) \<le> length s"
  by (auto simp: scan_exponent_def scan_digits_def Let_def intro: le_trans [OF length_dropWhile_le])

lemma scan_integer_shorter: "scan_integer s = (ds, r) \<Longrightarrow> ds \<noteq> [] \<Longrightarrow> length r < length s"
  using scan_digits_append [of s ds r] by (auto simp: scan_integer_def starts_def split: if_splits)

lemma scan_number_shorter: "scan_number s = Some (v, r) \<Longrightarrow> length r < length s"
proof -
  assume a: "scan_number s = Some (v, r)"
  let ?s = "if starts (CHR ''-'') s then tl s else s"
  obtain ds t fr u ex w where p: "scan_integer ?s = (ds, t)" "scan_fraction t = (fr, u)" "scan_exponent u = (ex, w)"
    by (metis prod.exhaust)
  from a p have r: "r = w" "ds \<noteq> []" by (auto simp: scan_number_def Let_def split: if_splits)
  from scan_integer_shorter [OF p(1) r(2)] have "length t < length ?s" .
  moreover have "length u \<le> length t" using scan_fraction_length [of t] p(2) by simp
  moreover have "length w \<le> length u" using scan_exponent_length [of u] p(3) by simp
  ultimately show ?thesis using r(1) by (simp split: if_splits)
qed

lemma scan_atom_shorter: "scan_atom s = Some (v, r) \<Longrightarrow> length r < length s"
  by (auto simp: scan_atom_def split: option.splits dest: after_shorter scan_number_shorter)

lemma scan_shorter:
  "scan_value n s = Some (v, r) \<Longrightarrow> length r < length s"
  "scan_items n s = Some (vs, r) \<Longrightarrow> length r < length s"
  "scan_members n s = Some (kvs, r) \<Longrightarrow> length r < length s"
proof (induction n s and n s and n s arbitrary: v r and vs r and kvs r
    rule: scan_value_scan_items_scan_members.induct)
  case (2 n s)
  let ?t = "skip_space (tl s)"
  have t: "length ?t < length s" if "s \<noteq> []"
    using skip_space_length [of "tl s"] that by (cases s) auto
  consider "starts (CHR 0x22) s" | "\<not> starts (CHR 0x22) s" "starts (CHR ''{'') s"
    | "\<not> starts (CHR 0x22) s" "\<not> starts (CHR ''{'') s" "starts (CHR ''['') s"
    | "\<not> starts (CHR 0x22) s" "\<not> starts (CHR ''{'') s" "\<not> starts (CHR ''['') s" by blast
  then show ?case
  proof cases
    case 1
    with 2(3) show ?thesis by (auto dest!: scan_chars_shorter simp: starts_def)
  next
    case b: 2
    with 2(3) have "starts (CHR ''}'') ?t \<and> r = tl ?t \<or>
        \<not> starts (CHR ''}'') ?t \<and> (\<exists>kvs. scan_members n ?t = Some (kvs, r))"
      by (auto simp: Let_def split: if_splits)
    with t b 2(1) [OF b refl] show ?thesis by (fastforce simp: starts_def)
  next
    case b: 3
    with 2(3) have "starts (CHR '']'') ?t \<and> r = tl ?t \<or>
        \<not> starts (CHR '']'') ?t \<and> (\<exists>vs. scan_items n ?t = Some (vs, r))"
      by (auto simp: Let_def split: if_splits)
    with t b 2(2) [OF b refl] show ?thesis by (fastforce simp: starts_def)
  next
    case 4
    with 2(3) show ?thesis by (simp add: scan_atom_shorter)
  qed
next
  case (4 n s)
  from 4(3) obtain x w where x: "scan_value n s = Some (x, w)" by (cases "scan_value n s") auto
  let ?t = "skip_space w"
  have t: "length ?t \<le> length w" "length (skip_space (tl ?t)) \<le> length ?t"
    using skip_space_length [of w] skip_space_length [of "tl ?t"] by simp_all
  from 4(3) x have "r = tl ?t \<or> (\<exists>us. \<not> starts (CHR '']'') ?t \<and> starts (CHR '','') ?t \<and>
      scan_items n (skip_space (tl ?t)) = Some (us, r))"
    by (auto simp: Let_def split: if_splits)
  with t 4(1) [OF x] 4(2) [OF x refl refl] show ?case by (fastforce)
next
  case (6 n s)
  from 6(3) obtain k w where k: "starts (CHR 0x22) s" "scan_chars (tl s) = Some (k, w)"
    by (auto split: if_splits option.splits)
  let ?t = "skip_space w"
  from 6(3) k obtain x u where x: "starts (CHR '':'') ?t" "scan_value n (skip_space (tl ?t)) = Some (x, u)"
    by (auto simp: Let_def split: if_splits option.splits)
  let ?u = "skip_space u"
  have l: "length w < length s" using scan_chars_shorter [OF k(2)] by simp
  have t: "length ?t \<le> length w" "length (skip_space (tl ?t)) \<le> length ?t" "length ?u \<le> length u"
    "length (skip_space (tl ?u)) \<le> length ?u"
    using skip_space_length [of w] skip_space_length [of "tl ?t"] skip_space_length [of u] skip_space_length [of "tl ?u"]
    by simp_all
  from 6(3) k x have "r = tl ?u \<or> (\<exists>us. \<not> starts (CHR ''}'') ?u \<and> starts (CHR '','') ?u \<and>
      scan_members n (skip_space (tl ?u)) = Some (us, r))"
    by (auto simp: Let_def split: if_splits)
  with l t 6(1) 6(2) k x show ?case by (fastforce)
qed simp_all

text \<open>More fuel than twice the length of the text never changes what is read.\<close>

lemma scan_fuel:
  "2 * length s + 1 \<le> n \<Longrightarrow> 2 * length s + 1 \<le> m \<Longrightarrow> scan_value n s = scan_value m s"
  "2 * length s + 2 \<le> n \<Longrightarrow> 2 * length s + 2 \<le> m \<Longrightarrow> scan_items n s = scan_items m s"
  "2 * length s + 1 \<le> n \<Longrightarrow> 2 * length s + 1 \<le> m \<Longrightarrow> scan_members n s = scan_members m s"
proof (induction n s and n s and n s arbitrary: m and m and m rule: scan_value_scan_items_scan_members.induct)
  case (2 n s)
  from 2(4) obtain k where m: "m = Suc k" by (cases m) auto
  let ?t = "skip_space (tl s)"
  have t: "length ?t < length s" if "starts c s" for c
    using skip_space_length [of "tl s"] that by (cases s) auto
  show ?case
  proof (cases "starts (CHR 0x22) s")
    case q: False
    show ?thesis
    proof (cases "starts (CHR ''{'') s")
      case True
      with t [OF True] 2(1) [OF q True refl, of k] 2(3,4) m q show ?thesis by (auto simp: Let_def)
    next
      case b: False
      show ?thesis
      proof (cases "starts (CHR ''['') s")
        case True
        with t [OF True] 2(2) [OF q b True refl, of k] 2(3,4) m q b show ?thesis by (auto simp: Let_def)
      qed (use m q b in simp)
    qed
  qed (use m in simp)
next
  case (4 n s)
  from 4(4) obtain k where m: "m = Suc k" by (cases m) auto
  have v: "scan_value n s = scan_value k s" using 4(1) [of k] 4(3,4) m by simp
  show ?case
  proof (cases "scan_value k s")
    case (Some vr)
    then obtain v r where x: "scan_value n s = Some (v, r)" "scan_value k s = Some (v, r)" using v by (cases vr) auto
    let ?t = "skip_space r"
    have "length r < length s" using scan_shorter(1) [OF x(1)] .
    moreover have "length ?t \<le> length r" "length (skip_space (tl ?t)) \<le> length ?t"
      using skip_space_length [of r] skip_space_length [of "tl ?t"] by simp_all
    ultimately have "starts (CHR '','') ?t \<Longrightarrow> \<not> starts (CHR '']'') ?t \<Longrightarrow>
        scan_items n (skip_space (tl ?t)) = scan_items k (skip_space (tl ?t))"
      using 4(2) [OF x(1) refl refl, of k] 4(3,4) m by simp
    then show ?thesis by (simp add: m x Let_def)
  qed (simp add: m v)
next
  case (6 n s)
  from 6(4) obtain k where m: "m = Suc k" by (cases m) auto
  show ?case
  proof (cases "\<not> starts (CHR 0x22) s \<or> scan_chars (tl s) = None")
    case False
    then obtain x w where x: "starts (CHR 0x22) s" "scan_chars (tl s) = Some (x, w)" by auto
    let ?t = "skip_space w"
    have l: "length w < length s - 1" "length ?t \<le> length w" "length (skip_space (tl ?t)) \<le> length ?t"
      using scan_chars_shorter [OF x(2)] skip_space_length [of w] skip_space_length [of "tl ?t"] by simp_all
    show ?thesis
    proof (cases "starts (CHR '':'') ?t")
      case c: True
      have v: "scan_value n (skip_space (tl ?t)) = scan_value k (skip_space (tl ?t))"
        using 6(1) [of "(x, w)" x w ?t k] x c l 6(3,4) m by simp
      show ?thesis
      proof (cases "scan_value k (skip_space (tl ?t))")
        case (Some vr)
        then obtain z u where z: "scan_value n (skip_space (tl ?t)) = Some (z, u)" "scan_value k (skip_space (tl ?t)) = Some (z, u)"
          using v by (cases vr) auto
        let ?u = "skip_space u"
        have "length u < length s" using scan_shorter(1) [OF z(1)] l by simp
        moreover have "length ?u \<le> length u" "length (skip_space (tl ?u)) \<le> length ?u"
          using skip_space_length [of u] skip_space_length [of "tl ?u"] by simp_all
        ultimately have "starts (CHR '','') ?u \<Longrightarrow> \<not> starts (CHR ''}'') ?u \<Longrightarrow>
            scan_members n (skip_space (tl ?u)) = scan_members k (skip_space (tl ?u))"
          using 6(2) [of "(x, w)" x w ?t "(z, u)" z u ?u k] x c z 6(3,4) m by simp
        then show ?thesis by (simp add: m x c z Let_def)
      qed (simp add: m x c v Let_def)
    qed (simp add: m x Let_def)
  qed (auto simp: m)
qed simp_all

theorem json_fuel_is_enough:
  "2 * length s + 2 \<le> n \<Longrightarrow> scan_value n (skip_space s) = scan_value (2 * length s + 2) (skip_space s)"
  using skip_space_length [of s] by (intro scan_fuel(1)) simp_all

section \<open>Reading what was written\<close>

lemma hex_code_digit: "k < 16 \<Longrightarrow> hex_code (hex_digit k) = Some k"
proof -
  assume "k < 16"
  then have "k \<in> set [0 ..< 16]" by simp
  then show ?thesis by (simp add: upt_rec) (elim disjE; simp add: hex_code_def hex_digit_def)
qed

lemma code_eq: "k < 256 \<Longrightarrow> (of_char c :: nat) = k \<longleftrightarrow> c = char_of k"
  by (auto simp: of_char_of take_bit_eq_mod)

lemma char_codes:
  "char_of (34 :: nat) = CHR 0x22" "char_of (92 :: nat) = CHR 0x5C" "char_of (10 :: nat) = CHR 0x0A"
  "char_of (13 :: nat) = CHR 0x0D" "char_of (9 :: nat) = CHR 0x09" "char_of (12 :: nat) = CHR 0x0C"
  "char_of (8 :: nat) = CHR 0x08" "char_of (48 :: nat) = CHR ''0''"
  by (simp_all add: char_of_def bit_Suc_0_iff)

lemma scan_escape: "scan_chars (json_escape c @ t) = map_option (apfst (Cons c)) (scan_chars t)"
proof -
  let ?n = "of_char c :: nat"
  consider "?n \<in> {34, 92, 10, 13, 9, 12, 8}" | "?n \<notin> {34, 92, 10, 13, 9, 12, 8}" "?n < 32"
    | "?n \<notin> {34, 92, 10, 13, 9, 12, 8}" "32 \<le> ?n" by linarith
  then show ?thesis
  proof cases
    case 1
    then show ?thesis
      by (elim insertE emptyE) (simp_all add: json_escape_def Let_def simple_escape_def code_eq char_codes)
  next
    case 2
    have m: "?n div 16 < 16" "?n mod 16 < 16" using 2(2) by simp_all
    have "?n = 16 * (?n div 16) + ?n mod 16" by simp
    then have "char_of (16 * (?n div 16) + ?n mod 16) = c" by simp
    moreover have "hex_code (CHR ''0'') = Some 0" by (simp add: hex_code_def)
    ultimately have "unicode_escape [CHR ''0'', CHR ''0'', hex_digit (?n div 16), hex_digit (?n mod 16)] = Some c"
      by (simp add: unicode_escape_def hex_code_digit [OF m(1)] hex_code_digit [OF m(2)])
    with 2 show ?thesis by (simp add: json_escape_def Let_def)
  next
    case 3
    then have "c \<noteq> CHR 0x22" "c \<noteq> CHR 0x5C" by auto
    with 3 show ?thesis by (simp add: json_escape_def Let_def)
  qed
qed

lemma scan_escaped: "scan_chars (concat (map json_escape s) @ CHR 0x22 # r) = Some (s, r)"
  by (induction s) (simp_all add: scan_escape)

lemma scan_json_string: "starts (CHR 0x22) (json_string s @ r)" "scan_chars (tl (json_string s @ r)) = Some (s, r)"
  by (simp_all add: json_string_def scan_escaped)

text \<open>Numbers: the digits of a natural number, and where they end.\<close>

lemma show_nat_digits: "list_all is_digit (show_nat n) \<and> show_nat n \<noteq> [] \<and> (hd (show_nat n) = CHR ''0'' \<longleftrightarrow> n = 0)"
proof (induction n rule: show_nat.induct)
  case (1 n)
  have d: "is_digit (char_of (48 + k))" "(char_of (48 + k) = CHR ''0'') \<longleftrightarrow> k = 0" if "k < 10" for k :: nat
    using that by (auto simp: is_digit_def of_char_of take_bit_eq_mod char_codes dest: arg_cong [where f = "of_char :: char \<Rightarrow> nat"])
  show ?case
  proof (cases "n < 10")
    case True
    then show ?thesis by (subst (1 2 3) show_nat.simps) (simp add: d)
  next
    case False
    with 1 [OF False] d(1) [of "n mod 10"] show ?thesis by (subst (1 2 3) show_nat.simps) simp
  qed
qed

definition ends_number :: "string \<Rightarrow> bool" where
  "ends_number r \<longleftrightarrow> r = [] \<or> \<not> is_digit (hd r) \<and> hd r \<notin> {CHR ''.'', CHR ''e'', CHR ''E''}"

lemma scan_digits_show: "list_all is_digit ds \<Longrightarrow> ends_number r \<Longrightarrow> scan_digits (ds @ r) = (ds, r)"
  unfolding scan_digits_def ends_number_def
  by (induction ds) (auto, (cases r; simp)+)

lemma scan_show_nat: "ends_number r \<Longrightarrow> scan_integer (show_nat n @ r) = (show_nat n, r)"
proof -
  assume r: "ends_number r"
  show ?thesis
  proof (cases "n = 0")
    case True
    then show ?thesis by (simp add: show_nat.simps scan_integer_def char_codes)
  next
    case False
    with show_nat_digits [of n] have "\<not> starts (CHR ''0'') (show_nat n @ r)" by (simp add: starts_def)
    with scan_digits_show [OF _ r] show_nat_digits [of n] show ?thesis by (simp add: scan_integer_def)
  qed
qed

lemma no_fraction: "ends_number r \<Longrightarrow> scan_fraction r = ([], r)" "ends_number r \<Longrightarrow> scan_exponent r = (None, r)"
  by (auto simp: ends_number_def scan_fraction_def scan_exponent_def starts_def)

lemma scan_show_int: "ends_number r \<Longrightarrow> scan_number (show_int k @ r) = Some (JInt k, r)"
proof -
  assume r: "ends_number r"
  have "hd (show_nat n) \<noteq> CHR ''-''" for n using show_nat_digits [of n] by (cases "show_nat n") (auto simp: is_digit_def)
  then have "\<not> starts (CHR ''-'') (show_nat n @ r)" for n using show_nat_digits [of n] by (auto simp: starts_def)
  then show ?thesis using show_nat_digits r
    by (simp add: scan_number_def show_int_def scan_show_nat no_fraction read_show_nat)
qed

text \<open>Values without fractional numbers whose dicts have distinct keys: those whose text is exact.\<close>

fun plain_json :: "json \<Rightarrow> bool" where
  "plain_json (JFloat q) = False"
| "plain_json (JArr xs) = (\<forall>x \<in> set xs. plain_json x)"
| "plain_json (JObj kvs) = (distinct (map fst kvs) \<and> (\<forall>(k, v) \<in> set kvs. plain_json v))"
| "plain_json j = True"

lemma dumps_head:
  "plain_json j \<Longrightarrow> \<exists>c s. json_dumps j = c # s \<and> \<not> json_space c \<and> c \<notin> {CHR '']'', CHR ''}''}"
proof (cases j)
  case (JInt k)
  obtain c s where n: "show_nat (nat \<bar>k\<bar>) = c # s" "is_digit c"
    using show_nat_digits [of "nat \<bar>k\<bar>"] by (cases "show_nat (nat \<bar>k\<bar>)") auto
  then have "\<not> json_space c \<and> c \<notin> {CHR '']'', CHR ''}''}" by (auto simp: is_digit_def json_space_def)
  with n JInt show ?thesis by (auto simp: show_int_def json_space_def abs_if split: if_splits)
qed (auto simp: json_string_def json_space_def)

lemma dict_of_distinct:
  assumes "distinct (map fst kvs)"
  shows "dict_of kvs = JObj kvs"
proof -
  have "fold (\<lambda>(k, v). dict_set k v) ys (JObj xs) = JObj (xs @ ys)" if "distinct (map fst (xs @ ys))" for xs ys
    using that
  proof (induction ys arbitrary: xs)
    case (Cons y ys)
    obtain k v where y: "y = (k, v)" by (cases y)
    have "dict_set k v (JObj xs) = JObj (xs @ [(k, v)])"
    proof -
      have k: "k \<notin> fst ` set xs" using Cons.prems y by auto
      then have "map (\<lambda>(a, b). (a, case if a = k then Some v else None of None \<Rightarrow> b | Some w \<Rightarrow> w)) xs = xs"
        by (induction xs) auto
      with k show ?thesis by (simp add: dict_set_def dict_merge_def)
    qed
    with Cons.IH [of "xs @ [(k, v)]"] Cons.prems y show ?case by simp
  qed simp
  from this [of "[]" kvs] assms show ?thesis by (simp add: dict_of_def)
qed

lemma skip_dumps: "plain_json j \<Longrightarrow> skip_space (json_dumps j @ r) = json_dumps j @ r"
  using dumps_head [of j] by auto

lemma scan_items_dumps:
  assumes "\<And>x n r. x \<in> set xs \<Longrightarrow> 2 * length (json_dumps x) + 1 \<le> n \<Longrightarrow> ends_number r \<Longrightarrow>
      scan_value n (json_dumps x @ r) = Some (x, r)"
    and "\<forall>x \<in> set xs. plain_json x" and "xs \<noteq> []"
    and "2 * length (join '','' (map json_dumps xs)) + 2 \<le> n"
  shows "scan_items n (join '','' (map json_dumps xs) @ CHR '']'' # r) = Some (xs, r)"
  using assms
proof (induction xs arbitrary: n)
  case (Cons x xs)
  from Cons.prems(4) obtain k where n: "n = Suc k" by (cases n) auto
  have b: "ends_number (CHR '']'' # t)" "ends_number (CHR '','' # t)" for t by (simp_all add: ends_number_def is_digit_def)
  have sp: "\<not> json_space (CHR '']'')" "\<not> json_space (CHR '','')" by (simp_all add: json_space_def)
  show ?case
  proof (cases xs)
    case Nil
    with Cons.prems(1) [of x k, OF _ _ b(1)] Cons.prems(4) n sp show ?thesis by (simp add: Let_def)
  next
    case (Cons y ys)
    let ?rest = "join '','' (map json_dumps xs) @ CHR '']'' # r"
    have "scan_value k (json_dumps x @ CHR '','' # ?rest) = Some (x, CHR '','' # ?rest)"
      using Cons.prems(1) [of x k, OF _ _ b(2)] Cons.prems(4) n Cons by simp
    moreover have "skip_space ?rest = ?rest"
    proof -
      obtain u where "?rest = json_dumps y @ u" using Cons by (cases ys) auto
      then show ?thesis using skip_dumps [of y u] Cons.prems(2) Cons by simp
    qed
    moreover have "scan_items k ?rest = Some (xs, r)"
      using Cons.IH [of k] Cons.prems n Cons by simp
    moreover have "join '','' (map json_dumps (x # xs)) @ CHR '']'' # r = json_dumps x @ CHR '','' # ?rest"
      using Cons by simp
    ultimately show ?thesis using sp n by (simp add: Let_def)
  qed
qed simp

lemma scan_members_dumps:
  assumes "\<And>k x n r. (k, x) \<in> set kvs \<Longrightarrow> 2 * length (json_dumps x) + 1 \<le> n \<Longrightarrow> ends_number r \<Longrightarrow>
      scan_value n (json_dumps x @ r) = Some (x, r)"
    and "\<forall>(k, x) \<in> set kvs. plain_json x" and "kvs \<noteq> []"
    and "2 * length (join '','' (map (\<lambda>(k, v). json_member (k, json_dumps v)) kvs)) + 1 \<le> n"
  shows "scan_members n (join '','' (map (\<lambda>(k, v). json_member (k, json_dumps v)) kvs) @ CHR ''}'' # r) = Some (kvs, r)"
  using assms
proof (induction kvs arbitrary: n)
  case (Cons kv kvs)
  obtain key x where kv: "kv = (key, x)" by (cases kv)
  let ?f = "\<lambda>(k, v). json_member (k, json_dumps v)"
  from Cons.prems(4) obtain k where n: "n = Suc k" by (cases n) auto
  have b: "ends_number (CHR ''}'' # t)" "ends_number (CHR '','' # t)" for t by (simp_all add: ends_number_def is_digit_def)
  have sp: "\<not> json_space (CHR ''}'')" "\<not> json_space (CHR '','')" "\<not> json_space (CHR '':'')" "\<not> json_space (CHR 0x22)"
    by (simp_all add: json_space_def)
  have m: "json_member (key, json_dumps x) @ t = json_string key @ CHR '':'' # json_dumps x @ t" for t
    by (simp add: json_member_def)
  have px: "plain_json x" using Cons.prems(2) kv by simp
  have l: "2 * length (json_dumps x) + 1 \<le> k"
    using Cons.prems(4) n kv by (cases kvs) (simp_all add: json_member_def json_string_def)
  show ?case
  proof (cases kvs)
    case Nil
    have "scan_value k (json_dumps x @ CHR ''}'' # r) = Some (x, CHR ''}'' # r)"
      using Cons.prems(1) [of key x k, OF _ l b(1)] kv by simp
    then show ?thesis
      using Nil n kv sp skip_dumps [OF px] by (simp add: m scan_json_string Let_def)
  next
    case (Cons kw ks)
    let ?rest = "join '','' (map ?f kvs) @ CHR ''}'' # r"
    have "scan_value k (json_dumps x @ CHR '','' # ?rest) = Some (x, CHR '','' # ?rest)"
      using Cons.prems(1) [of key x k, OF _ l b(2)] kv by simp
    moreover have "skip_space ?rest = ?rest"
    proof -
      obtain kx y where "kw = (kx, y)" by (cases kw)
      then obtain u where "?rest = json_string kx @ u" using Cons by (cases ks) (auto simp: json_member_def)
      then show ?thesis using sp by (simp add: json_string_def)
    qed
    moreover have "scan_members k ?rest = Some (kvs, r)"
    proof (rule Cons.IH)
      show "scan_value i (json_dumps x @ u) = Some (x, u)"
        if "(key, x) \<in> set kvs" "2 * length (json_dumps x) + 1 \<le> i" "ends_number u" for key x i u
        using Cons.prems(1) [of key x i u] that by simp
      show "\<forall>(k, x) \<in> set kvs. plain_json x" using Cons.prems(2) by simp
      show "kvs \<noteq> []" using Cons by simp
      show "2 * length (join '','' (map ?f kvs)) + 1 \<le> k" using Cons.prems(4) n Cons by simp
    qed
    moreover have "join '','' (map ?f (kv # kvs)) @ CHR ''}'' # r =
        json_string key @ CHR '':'' # json_dumps x @ CHR '','' # ?rest"
      using Cons kv by (simp add: m)
    ultimately show ?thesis using sp n kv skip_dumps [OF px] by (simp add: scan_json_string Let_def)
  qed
qed simp

lemma scan_value_dumps:
  "plain_json j \<Longrightarrow> 2 * length (json_dumps j) + 1 \<le> n \<Longrightarrow> ends_number r \<Longrightarrow>
     scan_value n (json_dumps j @ r) = Some (j, r)"
proof (induction j arbitrary: n r)
  case (JInt k)
  from JInt(2) obtain m where n: "n = Suc m" by (cases n) auto
  obtain c s where d: "show_nat (nat \<bar>k\<bar>) = c # s" "is_digit c"
    using show_nat_digits [of "nat \<bar>k\<bar>"] by (cases "show_nat (nat \<bar>k\<bar>)") auto
  then obtain e t where i: "show_int k = e # t" "is_digit e \<or> e = CHR ''-''"
    by (auto simp: show_int_def abs_if split: if_splits)
  then have "e \<notin> {CHR 0x22, CHR ''{'', CHR ''['', CHR ''n'', CHR ''t'', CHR ''f''}" by (auto simp: is_digit_def)
  then show ?case using n i scan_show_int [OF JInt(3), of k] by (simp add: scan_atom_def after_def)
next
  case (JStr x)
  then obtain m where "n = Suc m" by (cases n) auto
  then show ?case using scan_json_string [of x r] by simp
next
  case (JArr xs)
  then obtain m where n: "n = Suc m" by (cases n) auto
  show ?case
  proof (cases "xs = []")
    case False
    then obtain x ys where xs: "xs = x # ys" by (cases xs) auto
    obtain c s where c: "json_dumps x = c # s" "\<not> json_space c \<and> c \<notin> {CHR '']'', CHR ''}''}"
      using dumps_head [of x] JArr(2) xs by auto
    obtain u where u: "join '','' (map json_dumps xs) = c # u" using xs c by (cases ys) auto
    have "scan_items m (join '','' (map json_dumps xs) @ CHR '']'' # r) = Some (xs, r)"
      using JArr n False by (intro scan_items_dumps) auto
    then show ?thesis using n u c by (simp add: Let_def)
  qed (simp add: n json_space_def)
next
  case (JObj kvs)
  then obtain m where n: "n = Suc m" by (cases n) auto
  show ?case
  proof (cases "kvs = []")
    case False
    then obtain k x ys where kvs: "kvs = (k, x) # ys" by (cases kvs) auto
    let ?t = "join '','' (map (\<lambda>(k, v). json_member (k, json_dumps v)) kvs)"
    obtain u where u: "?t = CHR 0x22 # u" using kvs by (cases ys) (auto simp: json_member_def json_string_def)
    have "scan_members m (?t @ CHR ''}'' # r) = Some (kvs, r)"
    proof (rule scan_members_dumps)
      show "scan_value i (json_dumps x @ u) = Some (x, u)"
        if "(key, x) \<in> set kvs" "2 * length (json_dumps x) + 1 \<le> i" "ends_number u" for key x i u
        using JObj.IH [of "(key, x)" x i u] JObj.prems(1) that by fastforce
      show "\<forall>(k, x) \<in> set kvs. plain_json x" using JObj.prems(1) by simp
      show "kvs \<noteq> []" by (rule False)
      show "2 * length ?t + 1 \<le> m" using JObj.prems(2) n by simp
    qed
    then show ?thesis using n u JObj(2) by (simp add: Let_def json_space_def dict_of_distinct)
  qed (simp add: n json_space_def)
next
  case JNull
  then obtain m where "n = Suc m" by (cases n) auto
  then show ?case by (simp add: scan_atom_def after_def)
next
  case (JBool b)
  then obtain m where "n = Suc m" by (cases n) auto
  then show ?case by (simp add: scan_atom_def after_def)
qed simp

theorem json_loads_dumps: "plain_json j \<Longrightarrow> json_loads (json_dumps j) = Some j"
  using scan_value_dumps [of j "2 * length (json_dumps j) + 2" "[]"] skip_dumps [of j "[]"]
  by (simp add: json_loads_def ends_number_def)

end
