(* ===== verification/Tool_Schema.thy ===== *)
theory Tool_Schema
  imports Json_Text Agent_Control Release_Decisions
begin

text \<open>
  \<^verbatim>\<open>validate_json_schema\<close> of \<^verbatim>\<open>services/tool_execution.py\<close>, the check of tool arguments and tool outputs
  against the subset of JSON schema the backend supports, with the Python operations on JSON values it uses.
  A Python exception is the left side of a sum and carries its message; the only one is a required
  key that cannot be hashed.
\<close>

section \<open>Values\<close>

text \<open>\<^verbatim>\<open>a == b\<close> on JSON values, and \<^verbatim>\<open>v in xs\<close>.\<close>

fun json_equal :: "json \<Rightarrow> json \<Rightarrow> bool" where
  "json_equal (JArr xs) (JArr ys) = list_all2 json_equal xs ys"
| "json_equal (JObj kvs) (JObj kws) =
     (fst ` set kvs = fst ` set kws \<and>
      list_all (\<lambda>(k, v). case map_of kws k of None \<Rightarrow> False | Some w \<Rightarrow> json_equal v w) kvs)"
| "json_equal a b = py_equal a b"

definition json_in :: "json \<Rightarrow> json list \<Rightarrow> bool" where
  "json_in v xs \<longleftrightarrow> list_ex (\<lambda>x. json_equal x v) xs"

definition has_key :: "string \<Rightarrow> json \<Rightarrow> bool" where
  "has_key k d \<longleftrightarrow> k \<in> fst ` set (dict_items d)"

text \<open>\<^verbatim>\<open>isinstance(v, int)\<close>, which holds of a Boolean.\<close>

fun int_value :: "json \<Rightarrow> int option" where
  "int_value (JInt k) = Some k"
| "int_value (JBool b) = Some (if b then 1 else 0)"
| "int_value _ = None"

fun is_arr :: "json \<Rightarrow> bool" where
  "is_arr (JArr _) = True"
| "is_arr _ = False"

fun is_text :: "json \<Rightarrow> bool" where
  "is_text (JStr _) = True"
| "is_text _ = False"

section \<open>Schemas\<close>

definition matches_type :: "json \<Rightarrow> string \<Rightarrow> bool" where
  "matches_type v t =
     (if t = ''object'' then is_dict v
      else if t = ''array'' then is_arr v
      else if t = ''string'' then is_text v
      else if t = ''integer'' then (case v of JInt _ \<Rightarrow> True | _ \<Rightarrow> False)
      else if t = ''number'' then number v \<noteq> None
      else if t = ''boolean'' then (case v of JBool _ \<Rightarrow> True | _ \<Rightarrow> False)
      else if t = ''null'' then v = JNull
      else True)"

text \<open>\<^verbatim>\<open>key in val\<close> on a dict with text keys: an unhashable key raises.\<close>

fun key_present :: "json \<Rightarrow> json \<Rightarrow> string + bool" where
  "key_present (JArr _) d = Inl (''unhashable type: '' @ repr_str ''list'')"
| "key_present (JObj _) d = Inl (''unhashable type: '' @ repr_str ''dict'')"
| "key_present (JStr k) d = Inr (has_key k d)"
| "key_present _ d = Inr False"

fun required_errors :: "json \<Rightarrow> string \<Rightarrow> json list \<Rightarrow> string + string list" where
  "required_errors val path [] = Inr []"
| "required_errors val path (k # ks) =
     bind_res (key_present k val) (\<lambda>present.
     bind_res (required_errors val path ks) (\<lambda>es.
     Inr (if present then es else (path @ ''.'' @ py_str k @ '' is required'') # es)))"

definition length_errors :: "json \<Rightarrow> json \<Rightarrow> string \<Rightarrow> string list" where
  "length_errors val schema path = (case val of JStr t \<Rightarrow>
     (let lo = jget schema ''minLength''; hi = jget schema ''maxLength'' in
      (case int_value lo of Some k \<Rightarrow> if int (length t) < k then [path @ '' is shorter than '' @ py_str lo] else []
       | None \<Rightarrow> []) @
      (case int_value hi of Some k \<Rightarrow> if k < int (length t) then [path @ '' is longer than '' @ py_str hi] else []
       | None \<Rightarrow> []))
   | _ \<Rightarrow> [])"

definition enum_errors :: "json \<Rightarrow> json \<Rightarrow> string \<Rightarrow> string list" where
  "enum_errors val schema path = (case jget schema ''enum'' of
     JArr xs \<Rightarrow> if json_in val xs then [] else [path @ '' must be one of '' @ py_repr (JArr xs)]
   | _ \<Rightarrow> [])"

definition unknown_errors :: "json \<Rightarrow> json \<Rightarrow> json \<Rightarrow> string \<Rightarrow> string list" where
  "unknown_errors val schema properties path =
     (if jget schema ''additionalProperties'' = JBool False
      then map (\<lambda>k. path @ ''.'' @ k @ '' is not allowed'')
             (sort (filter (\<lambda>k. \<not> has_key k properties) (map fst (dict_items val))))
      else [])"

fun concat_res :: "('e + 'a list) list \<Rightarrow> 'e + 'a list" where
  "concat_res [] = Inr []"
| "concat_res (r # rs) = bind_res r (\<lambda>x. bind_res (concat_res rs) (\<lambda>y. Inr (x @ y)))"

lemma concat_res_cong [fundef_cong]: "rs = ss \<Longrightarrow> concat_res rs = concat_res ss"
  by simp

lemma size_dict_items: "(k, v) \<in> set (dict_items d) \<Longrightarrow> size v < size d"
proof (cases d)
  case (JObj kvs)
  assume "(k, v) \<in> set (dict_items d)"
  with JObj have "(k, v) \<in> set kvs" by simp
  then have "size_prod (\<lambda>_. 0) size (k, v) \<le> size_list (size_prod (\<lambda>_. 0) size) kvs"
    by (rule size_list_estimation') simp
  with JObj show ?thesis by simp
qed auto

lemma size_jget: "jget d k \<noteq> JNull \<Longrightarrow> size (jget d k) < size d"
  by (auto simp: jget_def split: option.splits dest: map_of_SomeD size_dict_items)

lemma size_jget_or: "jget_or d k e \<noteq> e \<Longrightarrow> size (jget_or d k e) < size d"
  by (auto simp: jget_or_def split: option.splits dest: map_of_SomeD size_dict_items)

function validate_json_schema :: "json \<Rightarrow> json \<Rightarrow> string \<Rightarrow> string + string list" where
  "validate_json_schema val schema path =
     (let expected = jget schema ''type''; properties = jget_or schema ''properties'' (JObj []) in
      if truthy expected \<and> \<not> matches_type val (py_str expected)
      then Inr [path @ '' must be '' @ py_str expected]
      else
        let base = enum_errors val schema path @ length_errors val schema path in
        if is_dict val then
          bind_res (case jget_or schema ''required'' (JArr []) of
                      JArr ks \<Rightarrow> required_errors val path ks | _ \<Rightarrow> Inr []) (\<lambda>missing.
          if is_dict properties then
            bind_res (concat_res (map (\<lambda>(k, child).
                if has_key k val \<and> is_dict child
                then validate_json_schema (jget val k) child (path @ ''.'' @ k) else Inr [])
              (dict_items properties))) (\<lambda>nested.
            Inr (base @ missing @ nested @ unknown_errors val schema properties path))
          else Inr (base @ missing))
        else (case val of JArr xs \<Rightarrow>
            let items = jget schema ''items'' in
            if is_dict items then
              bind_res (concat_res (map (\<lambda>(i, x).
                  validate_json_schema x items (path @ ''['' @ show_nat i @ '']'')) (enumerate 0 xs)))
                (\<lambda>nested. Inr (base @ nested))
            else Inr base
          | _ \<Rightarrow> Inr base))"
  by pat_completeness auto
termination
proof (relation "measure (\<lambda>(val, schema, path). size schema)")
  fix val' schema path expected properties base missing kc k child
  assume a: "properties = jget_or schema ''properties'' (JObj [])" "kc \<in> set (dict_items properties)" "(k, child) = kc"
  then have "size child < size properties" by (auto dest: size_dict_items)
  moreover have "properties \<noteq> JObj []" using a by auto
  ultimately have "size child < size schema" using size_jget_or [of schema "''properties''" "JObj []"] a(1) by simp
  then show "((jget val' k, child, path @ ''.'' @ k), val', schema, path) \<in> measure (\<lambda>(val, schema, path). size schema)"
    by simp
next
  fix val' schema path expected properties base xs items ix i x
  assume "items = jget schema ''items''" "is_dict items"
  then show "((x, items, path @ ''['' @ show_nat i @ '']''), val', schema, path) \<in> measure (\<lambda>(val, schema, path). size schema)"
    using size_jget [of schema "''items''"] by (cases "jget schema ''items''") auto
qed simp

declare validate_json_schema.simps [simp del]

end
