(* ===== verification/Tool_Execution.thy ===== *)
theory Tool_Execution
  imports Tool_Schema
begin

text \<open>
  \<^verbatim>\<open>services/tool_execution.py\<close> and \<^verbatim>\<open>services/tool_fault_scenarios.py\<close>: the registry of local tools, the
  parsing of the calls a model wrote, their execution with bounded retries and, in diagnostic runs, faults
  injected by the environment, and the summaries of the traces.

  Parameters (\<open>tool_env\<close>): the hex digest of SHA-256 and the milliseconds measured for each
  attempt of each step. A tool handler is a function of its arguments and context; what it raises
  is the left side of its result. A Python exception that leaves the executor is the left side of a sum.
\<close>

section \<open>Tools\<close>

record tool_env =
  tl_sha :: "string \<Rightarrow> string"
  tl_ms :: "nat \<Rightarrow> nat \<Rightarrow> rat"

definition elapsed_ms :: "tool_env \<Rightarrow> nat \<Rightarrow> nat \<Rightarrow> rat" where
  "elapsed_ms env step attempt = py_round 3 (max 0 (tl_ms env step attempt))"

record tool_descriptor =
  td_tool_id :: string
  td_version :: string
  td_display_name :: string
  td_description :: string
  td_argument_schema :: json
  td_output_schema :: json
  td_capabilities :: "string list"
  td_side_effect :: string
  td_max_attempts :: int

definition tool_descriptor_json :: "tool_descriptor \<Rightarrow> json" where
  "tool_descriptor_json d = JObj
     [(''tool_id'', JStr (td_tool_id d)), (''tool_version'', JStr (td_version d)),
      (''display_name'', JStr (td_display_name d)), (''description'', JStr (td_description d)),
      (''argument_schema'', td_argument_schema d), (''output_schema'', td_output_schema d),
      (''capabilities'', JArr (map JStr (sort (td_capabilities d)))),
      (''side_effect_mode'', JStr (td_side_effect d)),
      (''default_max_attempts'', JInt (td_max_attempts d))]"

record tool_context =
  tx_case_id :: string
  tx_step_index :: nat
  tx_attempt :: nat
  tx_prior_outputs :: "json list"

text \<open>What an attempt may raise: \<^verbatim>\<open>ToolExecutionError\<close> (message, type, retryable) or any other exception.\<close>

datatype tool_failure = Tool_Failure string string bool | Other_Failure string

record registered_tool =
  rt_descriptor :: tool_descriptor
  rt_handler :: "json \<Rightarrow> tool_context \<Rightarrow> tool_failure + json"

record tool_registry =
  tr_tools :: "(string \<times> registered_tool) list"
  tr_registry_id :: string
  tr_version :: string

definition registry_get :: "tool_registry \<Rightarrow> string \<Rightarrow> registered_tool option" where
  "registry_get reg name = map_of (tr_tools reg) name"

definition registry_descriptor :: "tool_registry \<Rightarrow> json" where
  "registry_descriptor reg = JObj
     [(''registry_id'', JStr (tr_registry_id reg)), (''registry_version'', JStr (tr_version reg)),
      (''tool_count'', JInt (int (length (tr_tools reg)))),
      (''tools'', JArr (map (\<lambda>(_, t). tool_descriptor_json (rt_descriptor t)) (sort_key fst (tr_tools reg))))]"

section \<open>The default registry\<close>

definition failure_schema :: json where
  "failure_schema = JObj [(''type'', JStr ''string''), (''enum'', JArr [JStr ''transient_once'', JStr ''permanent''])]"

definition text_schema :: "int \<Rightarrow> json" where
  "text_schema longest = JObj [(''type'', JStr ''string''), (''minLength'', JInt 1), (''maxLength'', JInt longest)]"

definition query_schema :: "(string \<times> json) list \<Rightarrow> json" where
  "query_schema extra_properties = JObj
     [(''type'', JStr ''object''), (''required'', JArr [JStr ''query'']),
      (''properties'', JObj ([(''query'', text_schema 500), (''simulate_failure'', failure_schema)] @ extra_properties)),
      (''additionalProperties'', JBool False)]"

definition output_schema :: json where
  "output_schema = JObj
     [(''type'', JStr ''object''), (''required'', JArr [JStr ''tool'', JStr ''status'', JStr ''data'']),
      (''properties'', JObj [(''tool'', JObj [(''type'', JStr ''string'')]), (''status'', JObj [(''type'', JStr ''string'')]),
         (''data'', JObj [(''type'', JStr ''object'')])])]"

definition document_schema :: json where
  "document_schema = JObj
     [(''type'', JStr ''object''), (''required'', JArr [JStr ''document_id'']),
      (''properties'', JObj [(''document_id'', text_schema 160), (''simulate_failure'', failure_schema)]),
      (''additionalProperties'', JBool False)]"

definition tool_result :: "string \<Rightarrow> (string \<times> json) list \<Rightarrow> json" where
  "tool_result tool data = JObj [(''tool'', JStr tool), (''status'', JStr ''ok''), (''data'', JObj data)]"

text \<open>\<^verbatim>\<open>arguments[key]\<close>: a missing key is a \<^verbatim>\<open>KeyError\<close>, whose text is the quoted key.\<close>

definition argument :: "json \<Rightarrow> string \<Rightarrow> tool_failure + json" where
  "argument arguments k =
     (if has_key k arguments then Inr (jget arguments k) else Inl (Other_Failure (repr_str k)))"

definition lookup_internal_document :: "json \<Rightarrow> tool_context \<Rightarrow> tool_failure + json" where
  "lookup_internal_document arguments cx =
     bind_res (argument arguments ''document_id'') (\<lambda>d.
     Inr (tool_result ''lookup_internal_document''
       [(''document_id'', d), (''title'', JStr ''Deterministic local document fixture''),
        (''case_id'', JStr (tx_case_id cx))]))"

definition lookup_policy :: "json \<Rightarrow> tool_context \<Rightarrow> tool_failure + json" where
  "lookup_policy arguments cx =
     bind_res (argument arguments ''query'') (\<lambda>q.
     Inr (tool_result ''lookup_policy''
       [(''query'', q), (''policy_id'', JStr ''POL-LOCAL-001''), (''release_requires_gate'', JBool True),
        (''case_id'', JStr (tx_case_id cx))]))"

definition search_incidents :: "json \<Rightarrow> tool_context \<Rightarrow> tool_failure + json" where
  "search_incidents arguments cx =
     bind_res (argument arguments ''query'') (\<lambda>q.
     Inr (tool_result ''search_incidents''
       [(''query'', q), (''incident_ids'', JArr [JStr ''INC-1042'', JStr ''INC-1088'']), (''count'', JInt 2),
        (''case_id'', JStr (tx_case_id cx))]))"

definition upper_char :: "char \<Rightarrow> char" where
  "upper_char c = (let n = (of_char c :: nat) in if 97 \<le> n \<and> n \<le> 122 then char_of (n - 32) else c)"

definition create_ticket :: "tool_env \<Rightarrow> json \<Rightarrow> tool_context \<Rightarrow> tool_failure + json" where
  "create_ticket env arguments cx =
     bind_res (argument arguments ''query'') (\<lambda>q.
     let digest = take 8 (tl_sha env (tx_case_id cx @ '':'' @ py_str q)) in
     Inr (tool_result ''create_ticket''
       [(''ticket_id'', JStr (''SIM-'' @ map upper_char digest)),
        (''priority'', jget_or arguments ''priority'' (JStr ''normal'')), (''simulated'', JBool True)]))"

definition lookup_customer :: "json \<Rightarrow> tool_context \<Rightarrow> tool_failure + json" where
  "lookup_customer arguments cx =
     bind_res (argument arguments ''query'') (\<lambda>q.
     Inr (tool_result ''lookup_customer''
       [(''query'', q), (''contract_status'', JStr ''active''), (''support_tier'', JStr ''standard''),
        (''case_id'', JStr (tx_case_id cx))]))"

definition summarize_thread :: "json \<Rightarrow> tool_context \<Rightarrow> tool_failure + json" where
  "summarize_thread arguments cx =
     bind_res (argument arguments ''query'') (\<lambda>q.
     Inr (tool_result ''summarize_thread''
       [(''summary'', JStr (take 160 (py_str q))), (''source_step_count'', JInt (int (length (tx_prior_outputs cx)))),
        (''case_id'', JStr (tx_case_id cx))]))"

definition tool_spec ::
  "string \<Rightarrow> string \<Rightarrow> string \<Rightarrow> json \<Rightarrow> (json \<Rightarrow> tool_context \<Rightarrow> tool_failure + json) \<Rightarrow> string list \<Rightarrow>
   string \<Rightarrow> int \<Rightarrow> string \<times> registered_tool" where
  "tool_spec tool_id label description schema handler capabilities mode attempts =
     (tool_id,
      \<lparr>rt_descriptor =
         \<lparr>td_tool_id = tool_id, td_version = tool_id @ ''-v1'', td_display_name = label,
          td_description = description, td_argument_schema = schema, td_output_schema = output_schema,
          td_capabilities = capabilities, td_side_effect = mode, td_max_attempts = attempts\<rparr>,
       rt_handler = handler\<rparr>)"

definition TOOL_REGISTRY_VERSION :: string where
  "TOOL_REGISTRY_VERSION = ''local-tool-registry-v1''"

definition build_default_tool_registry :: "tool_env \<Rightarrow> tool_registry" where
  "build_default_tool_registry env =
     \<lparr>tr_tools =
        [tool_spec ''lookup_internal_document'' ''Lookup Internal Document''
           ''Returns a deterministic in-memory document fixture.'' document_schema lookup_internal_document
           [''read'', ''document'', ''legacy_compatible''] ''none'' 2,
         tool_spec ''lookup_policy'' ''Lookup Policy'' ''Returns a deterministic local policy record.''
           (query_schema []) lookup_policy [''read'', ''policy''] ''none'' 2,
         tool_spec ''search_incidents'' ''Search Incidents'' ''Searches an in-memory incident fixture.''
           (query_schema []) search_incidents [''read'', ''incident''] ''none'' 2,
         tool_spec ''create_ticket'' ''Create Ticket''
           ''Creates a deterministic simulated ticket without external side effects.''
           (query_schema [(''priority'', JObj [(''type'', JStr ''string''),
              (''enum'', JArr [JStr ''low'', JStr ''normal'', JStr ''high''])])])
           (create_ticket env) [''write'', ''ticket'', ''simulated''] ''simulated'' 1,
         tool_spec ''lookup_customer'' ''Lookup Customer'' ''Returns a deterministic local customer fixture.''
           (query_schema []) lookup_customer [''read'', ''customer''] ''none'' 2,
         tool_spec ''summarize_thread'' ''Summarize Thread''
           ''Summarizes local text and can consume prior tool outputs.''
           (query_schema []) summarize_thread [''read'', ''summary'', ''multi_step''] ''none'' 1],
      tr_registry_id = ''model_atlas_local_tools'', tr_version = TOOL_REGISTRY_VERSION\<rparr>"

section \<open>Fault scenarios\<close>

datatype fault_mode = Normal_Run | Transient_Once | Permanent_Fault

fun fault_value :: "fault_mode \<Rightarrow> string" where
  "fault_value Normal_Run = ''normal''"
| "fault_value Transient_Once = ''transient_once''"
| "fault_value Permanent_Fault = ''permanent''"

record fault_scenario =
  fs_mode :: fault_mode
  fs_max_attempts :: int

definition TOOL_FAULT_SCENARIO_VERSION :: string where
  "TOOL_FAULT_SCENARIO_VERSION = ''tool-fault-scenario-v1''"

definition TOOL_FAULT_TRACE_VERSION :: string where
  "TOOL_FAULT_TRACE_VERSION = ''tool-execution-trace-v2''"

definition TOOL_FAULT_REGISTRY_VERSION :: string where
  "TOOL_FAULT_REGISTRY_VERSION = ''local-tool-fault-fixture-registry-v1''"

text \<open>The checks of \<^verbatim>\<open>__post_init__\<close>, on the values a request carries.\<close>

definition checked_scenario :: "json \<Rightarrow> json \<Rightarrow> json \<Rightarrow> string + fault_scenario" where
  "checked_scenario version mode attempts =
     (if version \<noteq> JStr TOOL_FAULT_SCENARIO_VERSION then Inl ''unsupported Tool fault scenario version''
      else bind_res (of_option ''Tool fault mode must be normal, transient_once, or permanent''
        (find (\<lambda>m. JStr (fault_value m) = mode) [Normal_Run, Transient_Once, Permanent_Fault])) (\<lambda>m.
      case attempts of
        JInt n \<Rightarrow>
          if n < 1 \<or> 3 < n then Inl ''Tool fault max_attempts must be an integer from 1 to 3''
          else if m = Transient_Once \<and> n < 2 then Inl ''transient_once requires a retry budget of at least two attempts''
          else Inr \<lparr>fs_mode = m, fs_max_attempts = n\<rparr>
      | _ \<Rightarrow> Inl ''Tool fault max_attempts must be an integer from 1 to 3''))"

definition parse_tool_fault_scenario :: "json \<Rightarrow> string + fault_scenario option" where
  "parse_tool_fault_scenario v =
     (if v = JNull then Inr None
      else if \<not> is_dict v \<or> fst ` set (dict_items v) \<noteq> {''schema_version'', ''mode'', ''max_attempts''}
      then Inl ''Tool fault scenario requires only schema_version, mode, and max_attempts''
      else bind_res (checked_scenario (jget v ''schema_version'') (jget v ''mode'') (jget v ''max_attempts''))
             (\<lambda>s. Inr (Some s)))"

definition scenario_json :: "fault_scenario \<Rightarrow> json" where
  "scenario_json s = JObj
     [(''mode'', JStr (fault_value (fs_mode s))), (''max_attempts'', JInt (fs_max_attempts s)),
      (''schema_version'', JStr TOOL_FAULT_SCENARIO_VERSION)]"

definition scenario_hash :: "tool_env \<Rightarrow> fault_scenario \<Rightarrow> string" where
  "scenario_hash env s = stable_hash (tl_sha env) (scenario_json s)"

definition fault_at :: "fault_scenario \<Rightarrow> nat \<Rightarrow> fault_mode option" where
  "fault_at s attempt =
     (if fs_mode s = Permanent_Fault \<or> (fs_mode s = Transient_Once \<and> attempt = 1) then Some (fs_mode s) else None)"

fun legacy_failure_contract :: "json \<Rightarrow> bool" where
  "legacy_failure_contract (JObj kvs) =
     (''simulate_failure'' \<in> fst ` set kvs \<or>
      list_ex (\<lambda>(k, child).
        (k \<in> {''required'', ''required_arguments''} \<and>
         (case child of JArr xs \<Rightarrow> JStr ''simulate_failure'' \<in> set xs | _ \<Rightarrow> False)) \<or>
        legacy_failure_contract child) kvs)"
| "legacy_failure_contract (JArr xs) = list_ex legacy_failure_contract xs"
| "legacy_failure_contract _ = False"

definition validate_fault_case :: "eval_case \<Rightarrow> string + unit" where
  "validate_fault_case c =
     (let payload = or_empty_dict (ec_input_payload c); schema = ec_expected_tool_schema c in
      if ec_category c \<notin> {''tool_single_step'', ''tool_failure_recovery''} \<or> \<not> is_dict schema \<or>
         \<not> truthy (jget schema ''tool_name'') \<or> has_key ''expected_sequence'' schema \<or>
         is_dict (jget payload ''agent_context'') \<or> is_dict (jget payload ''rag_context'')
      then Inl ''Tool fault scenarios support standalone, single-call Tool cases only''
      else if legacy_failure_contract schema
      then Inl (''legacy simulate_failure evaluation contract is incompatible with environment faults; '' @
                ''create a separate versioned case instead of rewriting historical labels'')
      else Inr ())"

text \<open>The registry of a diagnostic run: no argument may ask for a failure.\<close>

definition fault_argument_schema :: "json \<Rightarrow> json" where
  "fault_argument_schema schema =
     dict_set ''required'' (JArr (filter (\<lambda>k. k \<noteq> JStr ''simulate_failure'') (list_items (jget schema ''required''))))
       (JObj (map (\<lambda>(k, v). (k, if k = ''properties''
          then JObj (filter (\<lambda>(p, _). p \<noteq> ''simulate_failure'') (dict_items v)) else v)) (dict_items schema)))"

definition build_fault_tool_registry :: "tool_registry \<Rightarrow> tool_registry" where
  "build_fault_tool_registry reg =
     \<lparr>tr_tools = map (\<lambda>(name, t). (name, t\<lparr>rt_descriptor := (rt_descriptor t)
        \<lparr>td_argument_schema := fault_argument_schema (td_argument_schema (rt_descriptor t)),
         td_version := td_tool_id (rt_descriptor t) @ ''-fault-fixture-v1''\<rparr>\<rparr>)) (tr_tools reg),
      tr_registry_id = tr_registry_id reg, tr_version = TOOL_FAULT_REGISTRY_VERSION\<rparr>"

section \<open>Execution of one call\<close>

text \<open>\<open>ta_fault\<close> is present in diagnostic runs: whether a fault was injected and whether the handler ran.\<close>

record tool_attempt =
  ta_number :: nat
  ta_status :: string
  ta_retryable :: bool
  ta_duration :: rat
  ta_error_type :: "string option"
  ta_message :: "string option"
  ta_fault :: "(bool \<times> bool) option"

record tool_step =
  tp_index :: nat
  tp_call_id :: string
  tp_expected_name :: "string option"
  tp_name :: string
  tp_arguments :: json
  tp_selection_valid :: bool
  tp_arguments_valid :: bool
  tp_validation_errors :: "string list"
  tp_status :: string
  tp_attempt_count :: nat
  tp_retry_count :: nat
  tp_recovered :: bool
  tp_output_valid :: bool
  tp_output_errors :: "string list"
  tp_output :: "json option"
  tp_error_type :: "string option"
  tp_error_message :: "string option"
  tp_duration :: rat
  tp_attempts :: "tool_attempt list"

definition MAX_TOOL_CALLS_PER_CASE :: nat where
  "MAX_TOOL_CALLS_PER_CASE = 8"

definition MAX_TOOL_ATTEMPTS :: int where
  "MAX_TOOL_ATTEMPTS = 3"

definition max_attempts :: "json option \<Rightarrow> int \<Rightarrow> int" where
  "max_attempts expected fallback =
     (let configured = (case expected of None \<Rightarrow> JNull | Some e \<Rightarrow> jget e ''max_attempts'');
          v = (case int_value configured of None \<Rightarrow> fallback | Some k \<Rightarrow> k)
      in max 1 (min MAX_TOOL_ATTEMPTS v))"

definition simulated_failure :: "json \<Rightarrow> nat \<Rightarrow> tool_failure option" where
  "simulated_failure arguments attempt =
     (let mode = jget arguments ''simulate_failure'' in
      if mode = JStr ''transient_once'' \<and> attempt = 1
      then Some (Tool_Failure ''The deterministic fixture produced one transient failure.'' ''transient_tool_error'' True)
      else if mode = JStr ''permanent''
      then Some (Tool_Failure ''The deterministic fixture produced a permanent failure.'' ''permanent_tool_error'' False)
      else None)"

definition injected_failure :: "fault_mode \<Rightarrow> tool_failure" where
  "injected_failure mode =
     Tool_Failure ''The test environment injected a failure before the handler.''
       (if mode = Transient_Once then ''transient_tool_error'' else ''permanent_tool_error'') (mode = Transient_Once)"

text \<open>
  One attempt: what stops it before the handler, what the handler returns and whether that matches
  the descriptor. The result is the failure or the output, with the output errors and whether
  the handler was reached.
\<close>

definition failure_before_handler :: "fault_scenario option \<Rightarrow> json \<Rightarrow> nat \<Rightarrow> tool_failure option" where
  "failure_before_handler fault arguments attempt = (case fault of
     Some s \<Rightarrow> map_option injected_failure (fault_at s attempt)
   | None \<Rightarrow> simulated_failure arguments attempt)"

definition run_attempt ::
  "registered_tool \<Rightarrow> fault_scenario option \<Rightarrow> json \<Rightarrow> tool_context \<Rightarrow> (tool_failure + json) \<times> string list \<times> bool" where
  "run_attempt tool fault arguments cx =
     (case failure_before_handler fault arguments (tx_attempt cx) of
        Some f \<Rightarrow> (Inl f, [], False)
      | None \<Rightarrow> (case rt_handler tool arguments cx of
          Inl f \<Rightarrow> (Inl f, [], True)
        | Inr output \<Rightarrow> (case validate_json_schema output (td_output_schema (rt_descriptor tool)) ''$'' of
            Inl e \<Rightarrow> (Inl (Other_Failure e), [], True)
          | Inr [] \<Rightarrow> (Inr output, [], True)
          | Inr es \<Rightarrow> (Inl (Tool_Failure ''Tool output did not match its descriptor.'' ''invalid_tool_output'' False), es, True))))"

fun failure_type :: "tool_failure \<Rightarrow> string" where
  "failure_type (Tool_Failure _ t _) = t"
| "failure_type (Other_Failure _) = ''tool_internal_error''"

fun failure_text :: "tool_failure \<Rightarrow> string" where
  "failure_text (Tool_Failure m _ _) = m"
| "failure_text (Other_Failure m) = m"

fun failure_retryable :: "tool_failure \<Rightarrow> bool" where
  "failure_retryable (Tool_Failure _ _ r) = r"
| "failure_retryable (Other_Failure _) = False"

definition attempt_row ::
  "tool_env \<Rightarrow> nat \<Rightarrow> nat \<Rightarrow> fault_scenario option \<Rightarrow> bool \<Rightarrow> tool_failure option \<Rightarrow> tool_attempt" where
  "attempt_row env step n fault reached failure =
     \<lparr>ta_number = n, ta_status = (if failure = None then ''success'' else ''failed''),
      ta_retryable = (case failure of None \<Rightarrow> False | Some f \<Rightarrow> failure_retryable f),
      ta_duration = elapsed_ms env step n,
      ta_error_type = map_option failure_type failure, ta_message = map_option failure_text failure,
      ta_fault = map_option (\<lambda>s. (fault_at s n \<noteq> None, reached)) fault\<rparr>"

text \<open>The attempts from number \<open>n\<close> on, with \<open>k\<close> of them left: rows, output, output errors and last failure.\<close>

fun run_attempts ::
  "tool_env \<Rightarrow> registered_tool \<Rightarrow> fault_scenario option \<Rightarrow> json \<Rightarrow> tool_context \<Rightarrow> nat \<Rightarrow>
   tool_attempt list \<times> json option \<times> string list \<times> tool_failure option" where
  "run_attempts env tool fault arguments cx 0 = ([], None, [], None)"
| "run_attempts env tool fault arguments cx (Suc k) =
     (case run_attempt tool fault arguments cx of
        (Inr output, _, reached) \<Rightarrow>
          ([attempt_row env (tx_step_index cx) (tx_attempt cx) fault reached None], Some output, [], None)
      | (Inl f, es, reached) \<Rightarrow>
          let row = attempt_row env (tx_step_index cx) (tx_attempt cx) fault reached (Some f) in
          if failure_retryable f \<and> k > 0 then
            (case run_attempts env tool fault arguments (cx\<lparr>tx_attempt := Suc (tx_attempt cx)\<rparr>) k of
               (rows, output, es', f') \<Rightarrow> (row # rows, output, es', f'))
          else ([row], None, es, Some f))"

end
