(* ===== verification/Tool_Calls.thy ===== *)
theory Tool_Calls
  imports Tool_Execution
begin

text \<open>
  The calls a model wrote and their execution: \<^verbatim>\<open>_execute_step\<close>, \<^verbatim>\<open>execute_registered_tool_call\<close>,
  \<^verbatim>\<open>execute_tool_calls\<close> and \<^verbatim>\<open>attach_tool_execution\<close> of \<^verbatim>\<open>services/tool_execution.py\<close> with their traces, and the
  audit record of a fault scenario.
\<close>

section \<open>One call\<close>

record tool_call =
  tc_call_id :: json
  tc_name :: string
  tc_arguments :: json

definition expected_text :: "json option \<Rightarrow> string \<Rightarrow> string option" where
  "expected_text expected k =
     (case expected of None \<Rightarrow> None | Some e \<Rightarrow> if truthy (jget e k) then Some (py_str (jget e k)) else None)"

definition fault_errors :: "fault_scenario option \<Rightarrow> json \<Rightarrow> registered_tool option \<Rightarrow> string list" where
  "fault_errors fault arguments registered =
     (if fault = None then []
      else (if has_key ''simulate_failure'' arguments
            then [''model-authored failure simulation is forbidden in fault fixtures''] else []) @
           (case registered of None \<Rightarrow> []
            | Some t \<Rightarrow> if td_side_effect (rt_descriptor t) \<notin> {''none'', ''simulated''}
                then [''environment faults are limited to local read/simulated fixtures''] else []))"

definition call_errors ::
  "tool_registry \<Rightarrow> json option \<Rightarrow> string option \<Rightarrow> fault_scenario option \<Rightarrow> string \<Rightarrow> json \<Rightarrow> string + string list" where
  "call_errors reg expected block fault name arguments =
     bind_res (case registry_get reg name of
         None \<Rightarrow> Inr [''tool '' @ name @ '' is not registered'']
       | Some t \<Rightarrow> validate_json_schema arguments (td_argument_schema (rt_descriptor t)) ''$'') (\<lambda>registered.
     let wanted = (case expected of None \<Rightarrow> JNull | Some e \<Rightarrow> jget e ''arguments'') in
     bind_res (if is_dict wanted then validate_json_schema arguments wanted ''$'' else Inr []) (\<lambda>contract.
     Inr (registered @ contract @ (if text_set block then [text_or_empty block] else []) @
          fault_errors fault arguments (registry_get reg name))))"

definition skipped_step ::
  "nat \<Rightarrow> string \<Rightarrow> string option \<Rightarrow> string \<Rightarrow> json \<Rightarrow> bool \<Rightarrow> string list \<Rightarrow> tool_step" where
  "skipped_step i call_id wanted name arguments selected errors =
     \<lparr>tp_index = i, tp_call_id = call_id, tp_expected_name = wanted, tp_name = name, tp_arguments = arguments,
      tp_selection_valid = selected, tp_arguments_valid = (errors = []), tp_validation_errors = errors,
      tp_status = ''skipped'', tp_attempt_count = 0, tp_retry_count = 0, tp_recovered = False,
      tp_output_valid = False, tp_output_errors = [], tp_output = None,
      tp_error_type = Some (if selected then ''invalid_arguments'' else ''invalid_tool_selection''),
      tp_error_message = Some ''Tool execution was skipped because the call contract was invalid.'',
      tp_duration = 0, tp_attempts = []\<rparr>"

definition executed_step ::
  "nat \<Rightarrow> string \<Rightarrow> string option \<Rightarrow> string \<Rightarrow> json \<Rightarrow>
   tool_attempt list \<times> json option \<times> string list \<times> tool_failure option \<Rightarrow> tool_step" where
  "executed_step i call_id wanted name arguments r =
     (case r of (rows, output, errors, failure) \<Rightarrow>
      let success = (output \<noteq> None \<and> errors = []) in
      \<lparr>tp_index = i, tp_call_id = call_id, tp_expected_name = wanted, tp_name = name, tp_arguments = arguments,
       tp_selection_valid = True, tp_arguments_valid = True, tp_validation_errors = [],
       tp_status = (if success then ''success'' else ''failed''), tp_attempt_count = length rows,
       tp_retry_count = length rows - 1, tp_recovered = (success \<and> 1 < length rows),
       tp_output_valid = success, tp_output_errors = errors, tp_output = output,
       tp_error_type = (if success then None else map_option failure_type failure),
       tp_error_message = (if success then None else map_option failure_text failure),
       tp_duration = py_round 3 (sum_list (map ta_duration rows)), tp_attempts = rows\<rparr>)"

definition attempt_limit :: "fault_scenario option \<Rightarrow> json option \<Rightarrow> registered_tool \<Rightarrow> int" where
  "attempt_limit fault expected tool = (case fault of
     Some s \<Rightarrow> fs_max_attempts s
   | None \<Rightarrow> max_attempts expected (td_max_attempts (rt_descriptor tool)))"

definition execute_step ::
  "tool_env \<Rightarrow> tool_registry \<Rightarrow> string \<Rightarrow> nat \<Rightarrow> tool_call \<Rightarrow> json option \<Rightarrow> json list \<Rightarrow> string option \<Rightarrow>
   fault_scenario option \<Rightarrow> string + tool_step" where
  "execute_step env reg case_id i call expected prior block fault =
     (let name = tc_name call;
          call_id = str_or (tc_call_id call) (''call-'' @ show_nat (i + 1));
          arguments = as_dict (tc_arguments call);
          wanted = expected_text expected ''tool_name'';
          selected = (registry_get reg name \<noteq> None \<and> (wanted = None \<or> wanted = Some name))
      in bind_res (call_errors reg expected block fault name arguments) (\<lambda>errors.
         case registry_get reg name of
           None \<Rightarrow> Inr (skipped_step i call_id wanted name arguments selected errors)
         | Some tool \<Rightarrow>
             if \<not> selected \<or> errors \<noteq> [] then Inr (skipped_step i call_id wanted name arguments selected errors)
             else Inr (executed_step i call_id wanted name arguments
               (run_attempts env tool fault arguments
                 \<lparr>tx_case_id = case_id, tx_step_index = i, tx_attempt = 1, tx_prior_outputs = prior\<rparr>
                 (nat (attempt_limit fault expected tool))))))"

definition execute_registered_tool_call ::
  "tool_env \<Rightarrow> tool_registry \<Rightarrow> string \<Rightarrow> nat \<Rightarrow> string \<Rightarrow> json \<Rightarrow> json option \<Rightarrow> json list \<Rightarrow> string option \<Rightarrow>
   string + tool_step" where
  "execute_registered_tool_call env reg case_id i name arguments expected prior call_id =
     execute_step env reg case_id i
       \<lparr>tc_call_id = JStr (if text_set call_id then text_or_empty call_id else ''agent-call-'' @ show_nat (i + 1)),
        tc_name = name, tc_arguments = arguments\<rparr> expected prior None None"

section \<open>The calls in a model output\<close>

definition expected_tool_steps :: "json \<Rightarrow> json list" where
  "expected_tool_steps schema =
     (if \<not> is_dict schema then []
      else case jget schema ''expected_sequence'' of
        JArr items \<Rightarrow> concat (map (\<lambda>x.
          if is_text x then [JObj [(''tool_name'', x)]]
          else if is_dict x \<and> truthy (jget x ''tool_name'') then [x] else []) items)
      | _ \<Rightarrow>
        if \<not> truthy (jget schema ''tool_name'') then []
        else
          let arguments = jget schema ''arguments'';
              inferred = (case jget schema ''required_arguments'' of
                JArr ks \<Rightarrow> if is_dict arguments then arguments else JObj
                  [(''type'', JStr ''object''), (''required'', JArr (map (\<lambda>k. JStr (py_str k)) ks)),
                   (''properties'', dict_of (map (\<lambda>k. (py_str k, JObj [(''type'', JStr ''string'')])) ks))]
              | _ \<Rightarrow> arguments)
          in [JObj [(''tool_name'', JStr (py_str (jget schema ''tool_name''))), (''arguments'', inferred),
                    (''example_arguments'', jget schema ''example_arguments''),
                    (''max_attempts'', jget schema ''max_attempts'')]])"

definition normalize_call :: "json \<Rightarrow> nat \<Rightarrow> string + tool_call" where
  "normalize_call raw index =
     (let label = ''tool call '' @ show_nat (index + 1) in
      if \<not> is_dict raw then Inl (label @ '' must be an object'')
      else
        let source = (if is_dict (jget raw ''function'') then jget raw ''function'' else raw);
            name = py_or (jget source ''tool_name'') (jget source ''name'')
        in if \<not> truthy name then Inl (label @ '' is missing tool_name'')
        else bind_res (case jget_or source ''arguments'' (JObj []) of
              JStr text \<Rightarrow> of_option (label @ '' arguments are not valid JSON'') (json_loads text)
            | v \<Rightarrow> Inr v) (\<lambda>arguments.
          if \<not> is_dict arguments then Inl (label @ '' arguments must be an object'')
          else Inr \<lparr>tc_call_id = py_or (py_or (jget raw ''id'') (jget raw ''call_id'')) (JStr (''call-'' @ show_nat (index + 1))),
                    tc_name = py_str name, tc_arguments = arguments\<rparr>))"

fun normalize_calls :: "json list \<Rightarrow> nat \<Rightarrow> string + tool_call list" where
  "normalize_calls [] i = Inr []"
| "normalize_calls (x # xs) i =
     bind_res (normalize_call x i) (\<lambda>c. bind_res (normalize_calls xs (Suc i)) (\<lambda>cs. Inr (c # cs)))"

definition parse_tool_calls :: "string \<Rightarrow> string + tool_call list" where
  "parse_tool_calls output =
     (case json_loads output of
        None \<Rightarrow> Inl ''output is not valid JSON''
      | Some parsed \<Rightarrow>
        if is_dict parsed \<and> is_arr (jget parsed ''tool_calls'')
        then normalize_calls (list_items (jget parsed ''tool_calls'')) 0
        else if is_dict parsed \<and> jget parsed ''tool_call'' \<noteq> JNull
        then normalize_calls [jget parsed ''tool_call''] 0
        else if is_dict parsed \<and> (truthy (jget parsed ''tool_name'') \<or> truthy (jget parsed ''name''))
        then normalize_calls [parsed] 0
        else Inl ''output does not contain a tool call'')"

section \<open>Traces\<close>

record tool_trace =
  tt_schema_version :: string
  tt_registry_id :: string
  tt_registry_version :: string
  tt_case_id :: string
  tt_parse_valid :: bool
  tt_parse_error :: "string option"
  tt_call_valid :: bool
  tt_status :: string
  tt_successful :: bool
  tt_sequence_match :: bool
  tt_expected :: "string list"
  tt_actual :: "string list"
  tt_selection :: "rat option"
  tt_validity :: "rat option"
  tt_success_rate :: "rat option"
  tt_recovery :: "rat option"
  tt_duration :: rat
  tt_steps :: "tool_step list"
  tt_fault :: "json option"

definition TOOL_EXECUTION_SCHEMA_VERSION :: string where
  "TOOL_EXECUTION_SCHEMA_VERSION = ''tool-execution-trace-v1''"

definition rate_of :: "bool list \<Rightarrow> rat option" where
  "rate_of bs = (if bs = [] then None else Some (of_nat (length (filter id bs)) / of_nat (length bs)))"

definition expected_names :: "json list \<Rightarrow> string list" where
  "expected_names steps = map (\<lambda>s. py_str (jget s ''tool_name'')) steps"

definition empty_trace :: "eval_case \<Rightarrow> tool_registry \<Rightarrow> json list \<Rightarrow> string \<Rightarrow> tool_trace" where
  "empty_trace c reg expected problem =
     \<lparr>tt_schema_version = TOOL_EXECUTION_SCHEMA_VERSION, tt_registry_id = tr_registry_id reg,
      tt_registry_version = tr_version reg, tt_case_id = ec_external_id c, tt_parse_valid = False,
      tt_parse_error = Some problem, tt_call_valid = False, tt_status = ''invalid_call'', tt_successful = False,
      tt_sequence_match = False, tt_expected = expected_names expected, tt_actual = [],
      tt_selection = None, tt_validity = None, tt_success_rate = None, tt_recovery = None, tt_duration = 0,
      tt_steps = [], tt_fault = None\<rparr>"

text \<open>The audit record of a scenario: did the attempts happen exactly as the scenario prescribes?\<close>

definition attempt_signature :: "tool_attempt \<Rightarrow> bool \<times> bool \<times> (bool \<times> bool) option" where
  "attempt_signature a = (ta_status a = ''success'', ta_retryable a, ta_fault a)"

fun expected_signatures :: "fault_mode \<Rightarrow> (bool \<times> bool \<times> (bool \<times> bool) option) list" where
  "expected_signatures Normal_Run = [(True, False, Some (False, True))]"
| "expected_signatures Transient_Once = [(False, True, Some (True, False)), (True, False, Some (False, True))]"
| "expected_signatures Permanent_Fault = [(False, False, Some (True, False))]"

definition exercised_attempts :: "tool_trace \<Rightarrow> tool_attempt list" where
  "exercised_attempts t =
     (case tt_steps t of [s] \<Rightarrow> if tt_call_valid t then tp_attempts s else [] | _ \<Rightarrow> [])"

definition scenario_passed :: "fault_scenario \<Rightarrow> tool_trace \<Rightarrow> bool" where
  "scenario_passed s t \<longleftrightarrow> exercised_attempts t \<noteq> [] \<and>
     map attempt_signature (exercised_attempts t) = expected_signatures (fs_mode s)"

definition audit_record :: "tool_env \<Rightarrow> fault_scenario \<Rightarrow> tool_trace \<Rightarrow> json" where
  "audit_record env s t =
     (let attempts = exercised_attempts t; passed = scenario_passed s t;
          counted = (\<lambda>P. JInt (int (length (filter (\<lambda>a. case ta_fault a of None \<Rightarrow> False | Some f \<Rightarrow> P f) attempts))))
      in JObj (dict_items (scenario_json s) @
       [(''scenario_hash'', JStr (scenario_hash env s)), (''authority'', JStr ''test_environment''),
        (''gate_evidence'', JBool False), (''injection_point'', JStr ''before_handler''),
        (''model_arguments_modified'', JBool False),
        (''status'', JStr (if passed then ''passed'' else if attempts \<noteq> [] then ''failed'' else ''not_exercised'')),
        (''passed'', JBool passed), (''injected_failure_count'', counted fst),
        (''handler_invocation_count'', counted snd),
        (''measurement'', JStr ''executor_fixture_behavior_not_model_recovery_ability'')]))"

definition attach_fault_scenario :: "tool_env \<Rightarrow> tool_trace \<Rightarrow> fault_scenario option \<Rightarrow> tool_trace" where
  "attach_fault_scenario env t fault = (case fault of None \<Rightarrow> t
     | Some s \<Rightarrow> t\<lparr>tt_schema_version := TOOL_FAULT_TRACE_VERSION, tt_fault := Some (audit_record env s t)\<rparr>)"

section \<open>All calls of an output\<close>

definition expected_at :: "json list \<Rightarrow> nat \<Rightarrow> json option" where
  "expected_at expected i = (if i < length expected then Some (expected ! i) else None)"

fun execute_calls ::
  "tool_env \<Rightarrow> tool_registry \<Rightarrow> string \<Rightarrow> json list \<Rightarrow> string option \<Rightarrow> fault_scenario option \<Rightarrow>
   nat \<Rightarrow> json list \<Rightarrow> tool_call list \<Rightarrow> string + tool_step list" where
  "execute_calls env reg case_id expected block fault i prior [] = Inr []"
| "execute_calls env reg case_id expected block fault i prior (c # cs) =
     bind_res (execute_step env reg case_id i c (expected_at expected i) prior block fault) (\<lambda>s.
     bind_res (execute_calls env reg case_id expected block fault (Suc i)
                 (prior @ (case tp_output s of None \<Rightarrow> [] | Some x \<Rightarrow> [x])) cs) (\<lambda>ss.
     Inr (s # ss)))"

definition trace_of_steps :: "eval_case \<Rightarrow> tool_registry \<Rightarrow> string list \<Rightarrow> string list \<Rightarrow> tool_step list \<Rightarrow> tool_trace" where
  "trace_of_steps c reg expected actual steps =
     (let sequence = (expected = [] \<or> actual = expected);
          won = map (\<lambda>s. tp_status s = ''success'') steps;
          chosen = map tp_selection_valid steps; valid = map tp_arguments_valid steps;
          retried = filter (\<lambda>s. 0 < tp_retry_count s) steps;
          successful = (steps \<noteq> [] \<and> list_all id won)
      in \<lparr>tt_schema_version = TOOL_EXECUTION_SCHEMA_VERSION, tt_registry_id = tr_registry_id reg,
          tt_registry_version = tr_version reg, tt_case_id = ec_external_id c, tt_parse_valid = True,
          tt_parse_error = None,
          tt_call_valid = (steps \<noteq> [] \<and> sequence \<and> list_all id chosen \<and> list_all id valid),
          tt_status = (if successful then ''success'' else if list_ex id won then ''partial_failure''
                       else if steps \<noteq> [] then ''failed'' else ''invalid_call''),
          tt_successful = successful, tt_sequence_match = sequence, tt_expected = expected, tt_actual = actual,
          tt_selection = rate_of chosen, tt_validity = rate_of valid, tt_success_rate = rate_of won,
          tt_recovery = rate_of (map tp_recovered retried),
          tt_duration = py_round 3 (sum_list (map tp_duration steps)), tt_steps = steps, tt_fault = None\<rparr>)"

definition bounded_calls :: "fault_scenario option \<Rightarrow> string + tool_call list \<Rightarrow> string + tool_call list" where
  "bounded_calls fault parsed =
     bind_res parsed (\<lambda>calls.
       if fault \<noteq> None \<and> length calls \<noteq> 1
       then Inl ''environment fault scenarios require exactly one generated Tool call''
       else if MAX_TOOL_CALLS_PER_CASE < length calls
       then Inl (''tool call count exceeds limit '' @ show_nat MAX_TOOL_CALLS_PER_CASE)
       else Inr calls)"

definition execute_tool_calls ::
  "tool_env \<Rightarrow> eval_case \<Rightarrow> string \<Rightarrow> tool_registry \<Rightarrow> string option \<Rightarrow> fault_scenario option \<Rightarrow> string + tool_trace" where
  "execute_tool_calls env c output registry block fault =
     bind_res (if fault = None then Inr () else validate_fault_case c) (\<lambda>_.
     let reg = (if fault = None then registry else build_fault_tool_registry registry);
         expected = expected_tool_steps (ec_expected_tool_schema c)
     in case bounded_calls fault (parse_tool_calls output) of
          Inl problem \<Rightarrow> Inr (attach_fault_scenario env (empty_trace c reg expected problem) fault)
        | Inr calls \<Rightarrow>
            bind_res (execute_calls env reg (ec_external_id c) expected block fault 0 [] calls) (\<lambda>steps.
            Inr (attach_fault_scenario env
              (trace_of_steps c reg (expected_names expected) (map tc_name calls) steps) fault)))"

section \<open>Traces as JSON, and the result of a benchmark case\<close>

definition opt_rat :: "rat option \<Rightarrow> json" where
  "opt_rat x = opt_json JFloat x"

definition texts :: "string list \<Rightarrow> json" where
  "texts xs = JArr (map JStr xs)"

definition attempt_json :: "tool_attempt \<Rightarrow> json" where
  "attempt_json a = JObj
     ([(''attempt_number'', JInt (int (ta_number a))), (''status'', JStr (ta_status a)),
       (''retryable'', JBool (ta_retryable a)), (''duration_ms'', JFloat (ta_duration a)),
       (''error_type'', opt_str (ta_error_type a)), (''message'', opt_str (ta_message a))] @
      (case ta_fault a of None \<Rightarrow> []
       | Some (injected, invoked) \<Rightarrow> [(''fault_injected'', JBool injected), (''handler_invoked'', JBool invoked)]))"

definition tool_step_json :: "tool_step \<Rightarrow> json" where
  "tool_step_json s = JObj
     [(''step_index'', JInt (int (tp_index s))), (''call_id'', JStr (tp_call_id s)),
      (''expected_tool_name'', opt_str (tp_expected_name s)), (''tool_name'', JStr (tp_name s)),
      (''arguments'', tp_arguments s), (''selection_valid'', JBool (tp_selection_valid s)),
      (''arguments_valid'', JBool (tp_arguments_valid s)), (''validation_errors'', texts (tp_validation_errors s)),
      (''execution_status'', JStr (tp_status s)), (''attempt_count'', JInt (int (tp_attempt_count s))),
      (''retry_count'', JInt (int (tp_retry_count s))), (''recovered'', JBool (tp_recovered s)),
      (''output_valid'', JBool (tp_output_valid s)), (''output_validation_errors'', texts (tp_output_errors s)),
      (''output'', opt_json (\<lambda>x. x) (tp_output s)), (''error_type'', opt_str (tp_error_type s)),
      (''error_message'', opt_str (tp_error_message s)), (''duration_ms'', JFloat (tp_duration s)),
      (''attempts'', JArr (map attempt_json (tp_attempts s)))]"

definition tool_trace_json :: "tool_trace \<Rightarrow> json" where
  "tool_trace_json t = JObj
     ([(''schema_version'', JStr (tt_schema_version t)), (''registry_id'', JStr (tt_registry_id t)),
       (''registry_version'', JStr (tt_registry_version t)), (''external_case_id'', JStr (tt_case_id t)),
       (''parse_valid'', JBool (tt_parse_valid t)), (''parse_error'', opt_str (tt_parse_error t)),
       (''call_valid'', JBool (tt_call_valid t)), (''status'', JStr (tt_status t)),
       (''successful'', JBool (tt_successful t)), (''sequence_match'', JBool (tt_sequence_match t)),
       (''expected_tool_sequence'', texts (tt_expected t)), (''actual_tool_sequence'', texts (tt_actual t)),
       (''selection_accuracy'', opt_rat (tt_selection t)), (''argument_validity_rate'', opt_rat (tt_validity t)),
       (''execution_success_rate'', opt_rat (tt_success_rate t)), (''retry_recovery_rate'', opt_rat (tt_recovery t)),
       (''total_duration_ms'', JFloat (tt_duration t)), (''steps'', JArr (map tool_step_json (tt_steps t)))] @
      (case tt_fault t of None \<Rightarrow> [] | Some f \<Rightarrow> [(''fault_scenario'', f)]))"

text \<open>\<^verbatim>\<open>[*value]\<close>: the items of a list, the characters of a text, the keys of a dict; other values raise.\<close>

fun iterate :: "json \<Rightarrow> json list option" where
  "iterate (JArr xs) = Some xs"
| "iterate (JStr s) = Some (map (\<lambda>c. JStr [c]) s)"
| "iterate (JObj kvs) = Some (map (\<lambda>(k, _). JStr k) kvs)"
| "iterate _ = None"

definition tool_argument_block_reason :: "json \<Rightarrow> string + string option" where
  "tool_argument_block_reason metadata =
     (let guard = jget metadata ''tool_call_contract'' in
      if is_dict guard \<and> jget guard ''execution_allowed'' = JBool False then
        (case (iterate (jget_or guard ''schema_errors'' (JArr [])), iterate (jget_or guard ''boundary_errors'' (JArr []))) of
           (Some a, Some b) \<Rightarrow>
             Inr (Some (''Tool argument guard rejected the call: '' @ join ''; '' (map py_str (a @ b))))
         | _ \<Rightarrow> Inl ''value is not iterable'')
      else Inr None)"

definition is_tool_case :: "eval_case \<Rightarrow> bool" where
  "is_tool_case c \<longleftrightarrow> ec_expected_tool_schema c \<noteq> JNull \<or> contains ''tool'' (lower (ec_category c))"

definition step_log :: "tool_step \<Rightarrow> json" where
  "step_log s = JObj
     [(''event_type'', JStr ''tool_execution_step''),
      (''level'', JStr (if tp_status s = ''success'' then ''info'' else ''error'')),
      (''message'', JStr (''Tool step '' @ show_nat (tp_index s + 1) @ '' '' @ tp_name s @ '': '' @ tp_status s @ ''.'')),
      (''payload_json'', JObj
        [(''tool_name'', JStr (tp_name s)), (''expected_tool_name'', opt_str (tp_expected_name s)),
         (''execution_status'', JStr (tp_status s)), (''attempt_count'', JInt (int (tp_attempt_count s))),
         (''recovered'', JBool (tp_recovered s)), (''error_type'', opt_str (tp_error_type s))])]"

definition completed_log :: "tool_trace \<Rightarrow> nat \<Rightarrow> json" where
  "completed_log t retries = JObj
     [(''event_type'', JStr ''tool_execution_completed''),
      (''level'', JStr (if tt_successful t then ''info'' else ''error'')),
      (''message'', JStr (''Tool execution finished with status '' @ tt_status t @ ''.'')),
      (''payload_json'', JObj
        [(''schema_version'', JStr (tt_schema_version t)), (''registry_version'', JStr (tt_registry_version t)),
         (''status'', JStr (tt_status t)), (''call_count'', JInt (int (length (tt_steps t)))),
         (''sequence_match'', JBool (tt_sequence_match t)), (''retry_count'', JInt (int retries))])]"

definition attached_result :: "case_result \<Rightarrow> tool_registry \<Rightarrow> tool_trace \<Rightarrow> case_result" where
  "attached_result r reg t =
     (let retries = sum_list (map tp_retry_count (tt_steps t)) in
      r\<lparr>cr_exact_match := Some (tt_call_valid t \<and> tt_successful t), cr_tool_call_valid := tt_call_valid t,
        cr_error_type := (if text_set (cr_error_type r) then cr_error_type r
                          else if tt_successful t then None else Some ''tool_execution_failed''),
        cr_latency_ms := cr_latency_ms r + tt_duration t, cr_retry_count := cr_retry_count r + int retries,
        cr_logs := cr_logs r @ map step_log (tt_steps t) @ [completed_log t retries],
        cr_metadata := dict_merge (cr_metadata r)
          (JObj [(''tool_execution'', tool_trace_json t), (''tool_registry'', registry_descriptor reg)])\<rparr>)"

definition attach_tool_execution ::
  "tool_env \<Rightarrow> eval_case \<Rightarrow> case_result \<Rightarrow> tool_registry \<Rightarrow> fault_scenario option \<Rightarrow> string + case_result" where
  "attach_tool_execution env c r registry fault =
     (if is_dict (jget (cr_metadata r) ''agent_execution'') \<or> \<not> is_tool_case c then Inr r
      else
        let reg = (if fault = None then registry else build_fault_tool_registry registry) in
        bind_res (tool_argument_block_reason (cr_metadata r)) (\<lambda>block.
        bind_res (execute_tool_calls env c (cr_normalized_output r) reg block fault) (\<lambda>t.
        Inr (attached_result r reg t))))"

section \<open>Summary of traces\<close>

definition tool_rate :: "nat \<Rightarrow> nat \<Rightarrow> json" where
  "tool_rate n d = (if d = 0 then JNull else JFloat (of_nat n / of_nat d))"

definition how_many :: "('a \<Rightarrow> bool) \<Rightarrow> 'a list \<Rightarrow> nat" where
  "how_many P xs = length (filter P xs)"

text \<open>\<^verbatim>\<open>sum(f[key] for f in fixtures)\<close>; \<open>None\<close> is a missing key or a value that cannot be added.\<close>

definition sum_of :: "string \<Rightarrow> json list \<Rightarrow> json option" where
  "sum_of k fs = map_option (\<lambda>ns. JInt (sum_list ns)) (those (map (\<lambda>f. int_value (jget f k)) fs))"

definition fault_summary :: "json list \<Rightarrow> json option" where
  "fault_summary fixtures =
     (case (sum_of ''passed'' fixtures, sum_of ''injected_failure_count'' fixtures, sum_of ''handler_invocation_count'' fixtures) of
        (Some passed, Some injected, Some invoked) \<Rightarrow>
          if list_all (has_key ''status'') fixtures then Some (JObj
            [(''schema_version'', JStr ''tool-fault-scenario-summary-v1''), (''case_count'', JInt (int (length fixtures))),
             (''passed_count'', passed),
             (''not_exercised_count'', JInt (int (how_many (\<lambda>f. jget f ''status'' = JStr ''not_exercised'') fixtures))),
             (''injected_failure_count'', injected), (''handler_invocation_count'', invoked), (''gate_evidence'', JBool False)])
          else None
      | _ \<Rightarrow> None)"

definition summarize_tool_traces :: "json list \<Rightarrow> json option" where
  "summarize_tool_traces traces =
     (case those (map (\<lambda>t. iterate (jget_or t ''steps'' (JArr []))) traces) of None \<Rightarrow> None
      | Some groups \<Rightarrow>
        let steps = filter is_dict (concat groups) in
        (case those (map (\<lambda>s. int_or (jget s ''retry_count'') 0) steps) of None \<Rightarrow> None
         | Some retries \<Rightarrow>
           let retried = map fst (filter (\<lambda>(_, n). 0 < n) (zip steps retries));
               recovered = how_many (\<lambda>s. truthy (jget s ''recovered'')) retried;
               won = how_many (\<lambda>s. jget s ''execution_status'' = JStr ''success'') steps;
               fixtures = filter is_dict (map (\<lambda>t. jget t ''fault_scenario'') traces);
               base = [(''schema_version'', JStr ''tool-execution-summary-v1''),
                 (''tool_case_count'', JInt (int (length traces))), (''call_count'', JInt (int (length steps))),
                 (''successful_call_count'', JInt (int won)), (''failed_call_count'', JInt (int (length steps) - int won)),
                 (''retried_call_count'', JInt (int (length retried))), (''recovered_call_count'', JInt (int recovered)),
                 (''multi_step_case_count'', JInt (int (how_many (\<lambda>l. 1 < length l) groups))),
                 (''invalid_call_case_count'', JInt (int (how_many (\<lambda>t. \<not> truthy (jget t ''call_valid'')) traces))),
                 (''selection_accuracy'', opt_rat (rate_of (map (\<lambda>s. truthy (jget s ''selection_valid'')) steps))),
                 (''argument_validity_rate'', opt_rat (rate_of (map (\<lambda>s. truthy (jget s ''arguments_valid'')) steps))),
                 (''execution_success_rate'', tool_rate won (length steps)),
                 (''sequence_success_rate'', tool_rate (how_many (\<lambda>t. truthy (jget t ''sequence_match'')) traces) (length traces)),
                 (''retry_recovery_rate'', tool_rate recovered (length retried))]
           in if fixtures = [] then Some (JObj base)
              else map_option (\<lambda>f. JObj (base @ [(''fault_scenario_summary'', f)])) (fault_summary fixtures)))"

end
