(* ===== verification/Tool_Calls_Correct.thy ===== *)
theory Tool_Calls_Correct
  imports Tool_Calls
begin

text \<open>
  What the executor of tool calls guarantees: only valid calls of registered tools reach a handler, the retries are
  bounded and follow retryable failures only, and a diagnostic run with the default tools behaves exactly
  as its fault scenario prescribes.
\<close>

section \<open>The attempts of one call\<close>

text \<open>
  The shape of a list of attempts numbered from \<open>n\<close> on: all but the last failed in a way that may be
  tried again, and the call has an output exactly when the last succeeded.
\<close>

fun attempts_shape :: "nat \<Rightarrow> tool_attempt list \<Rightarrow> bool \<Rightarrow> bool" where
  "attempts_shape n [] success = False"
| "attempts_shape n [a] success = (ta_number a = n \<and> (ta_status a = ''success'' \<longleftrightarrow> success))"
| "attempts_shape n (a # b # as) success =
     (ta_number a = n \<and> ta_status a \<noteq> ''success'' \<and> ta_retryable a \<and> attempts_shape (Suc n) (b # as) success)"

lemma run_attempt_output:
  "run_attempt tool fault arguments cx = (Inr output, es, reached) \<Longrightarrow>
     es = [] \<and> validate_json_schema output (td_output_schema (rt_descriptor tool)) ''$'' = Inr []"
  by (auto simp: run_attempt_def split: option.splits sum.splits list.splits)

lemma attempts_shape_Cons:
  "attempts_shape (Suc n) rows success \<Longrightarrow> ta_number a = n \<Longrightarrow> ta_status a \<noteq> ''success'' \<Longrightarrow> ta_retryable a \<Longrightarrow>
     attempts_shape n (a # rows) success"
  by (cases rows) auto

lemma attempt_row_simps [simp]:
  "ta_number (attempt_row env i n fault reached f) = n"
  "ta_status (attempt_row env i n fault reached f) = (if f = None then ''success'' else ''failed'')"
  "ta_retryable (attempt_row env i n fault reached f) = (case f of None \<Rightarrow> False | Some g \<Rightarrow> failure_retryable g)"
  "ta_fault (attempt_row env i n fault reached f) = map_option (\<lambda>s. (fault_at s n \<noteq> None, reached)) fault"
  by (simp_all add: attempt_row_def)

lemma run_attempts_shape:
  assumes "run_attempts env tool fault arguments cx (Suc k) = (rows, output, es, failure)"
  shows "attempts_shape (tx_attempt cx) rows (output \<noteq> None) \<and> rows \<noteq> [] \<and> length rows \<le> Suc k \<and>
    (case output of None \<Rightarrow> failure \<noteq> None
     | Some x \<Rightarrow> es = [] \<and> validate_json_schema x (td_output_schema (rt_descriptor tool)) ''$'' = Inr [])"
  using assms
proof (induction k arbitrary: cx rows)
  case 0
  then show ?case
    by (auto simp: Let_def split: prod.splits sum.splits dest: run_attempt_output)
next
  case (Suc k)
  obtain r es' reached where r: "run_attempt tool fault arguments cx = (r, es', reached)" by (metis prod.exhaust)
  show ?case
  proof (cases r)
    case (Inr x)
    with Suc.prems r run_attempt_output show ?thesis by fastforce
  next
    case (Inl f)
    show ?thesis
    proof (cases "failure_retryable f")
      case True
      obtain rows' where rows': "run_attempts env tool fault arguments (cx\<lparr>tx_attempt := Suc (tx_attempt cx)\<rparr>) (Suc k) =
          (rows', output, es, failure)"
        "rows = attempt_row env (tx_step_index cx) (tx_attempt cx) fault reached (Some f) # rows'"
        using Suc.prems r Inl True by (auto simp del: run_attempts.simps(2) simp: run_attempts.simps(2) [of _ _ _ _ _ "Suc k"] Let_def split: prod.splits)
      from Suc.IH [OF rows'(1)] rows'(2) True show ?thesis
        by (auto intro!: attempts_shape_Cons)
    next
      case False
      with Suc.prems r Inl show ?thesis by (auto simp: Let_def)
    qed
  qed
qed

lemma max_attempts_bounds: "1 \<le> max_attempts expected fallback \<and> max_attempts expected fallback \<le> 3"
  by (simp add: max_attempts_def Let_def MAX_TOOL_ATTEMPTS_def)

definition scenario_ok :: "fault_scenario \<Rightarrow> bool" where
  "scenario_ok s \<longleftrightarrow> 1 \<le> fs_max_attempts s \<and> fs_max_attempts s \<le> 3 \<and> (fs_mode s = Transient_Once \<longrightarrow> 2 \<le> fs_max_attempts s)"

lemma checked_scenario_ok: "checked_scenario version mode attempts = Inr s \<Longrightarrow> scenario_ok s"
proof -
  assume a: "checked_scenario version mode attempts = Inr s"
  then obtain n where "attempts = JInt n"
    by (cases attempts) (simp_all add: checked_scenario_def bind_res_eq_Inr split: if_splits)
  with a show ?thesis
    by (auto simp only: checked_scenario_def bind_res_eq_Inr scenario_ok_def json.case sum.inject sum.distinct of_option_eq_Inr
        fault_scenario.simps not_less split: if_splits)
qed

lemma parsed_scenario_ok: "parse_tool_fault_scenario v = Inr (Some s) \<Longrightarrow> scenario_ok s"
proof -
  assume a: "parse_tool_fault_scenario v = Inr (Some s)"
  then have "checked_scenario (jget v ''schema_version'') (jget v ''mode'') (jget v ''max_attempts'') = Inr s"
    unfolding parse_tool_fault_scenario_def bind_res_def
    by (simp only: sum.inject sum.distinct option.inject option.distinct simp_thms split: if_split_asm sum.split_asm)
  then show ?thesis by (rule checked_scenario_ok)
qed

text \<open>What holds of a step of which some attempt was made.\<close>

definition sound_execution ::
  "tool_registry \<Rightarrow> json option \<Rightarrow> string option \<Rightarrow> fault_scenario option \<Rightarrow> tool_step \<Rightarrow> bool" where
  "sound_execution reg expected block fault s \<longleftrightarrow>
     (\<exists>tool. registry_get reg (tp_name s) = Some tool \<and>
       (\<forall>wanted. expected_text expected ''tool_name'' = Some wanted \<longrightarrow> tp_name s = wanted) \<and>
       validate_json_schema (tp_arguments s) (td_argument_schema (rt_descriptor tool)) ''$'' = Inr [] \<and>
       (\<forall>e. expected = Some e \<and> is_dict (jget e ''arguments'') \<longrightarrow>
          validate_json_schema (tp_arguments s) (jget e ''arguments'') ''$'' = Inr []) \<and>
       \<not> text_set block \<and>
       attempts_shape 1 (tp_attempts s) (tp_status s = ''success'') \<and>
       int (length (tp_attempts s)) \<le> attempt_limit fault expected tool \<and>
       (case tp_output s of
          None \<Rightarrow> tp_status s = ''failed'' \<and> tp_error_type s \<noteq> None
        | Some x \<Rightarrow> tp_status s = ''success'' \<and> validate_json_schema x (td_output_schema (rt_descriptor tool)) ''$'' = Inr []))"

definition sound_step ::
  "tool_registry \<Rightarrow> json option \<Rightarrow> string option \<Rightarrow> fault_scenario option \<Rightarrow> tool_step \<Rightarrow> bool" where
  "sound_step reg expected block fault s \<longleftrightarrow>
     tp_attempts s = [] \<and> tp_status s = ''skipped'' \<and> tp_output s = None \<and>
       (\<not> tp_selection_valid s \<or> \<not> tp_arguments_valid s) \<or>
     tp_selection_valid s \<and> tp_arguments_valid s \<and> sound_execution reg expected block fault s"

lemma call_errors_None:
  assumes "call_errors reg expected block fault name arguments = Inr []" and "registry_get reg name = Some tool"
  shows "validate_json_schema arguments (td_argument_schema (rt_descriptor tool)) ''$'' = Inr []"
    and "expected = Some e \<Longrightarrow> is_dict (jget e ''arguments'') \<Longrightarrow>
      validate_json_schema arguments (jget e ''arguments'') ''$'' = Inr []"
    and "\<not> text_set block" and "fault_errors fault arguments (Some tool) = []"
  using assms by (auto simp: call_errors_def bind_res_eq_Inr Let_def text_set_def text_or_empty_def split: if_splits option.splits)

text \<open>A step either was skipped for an invalid contract, or its attempts are sound.\<close>

lemma execute_step_sound:
  assumes "execute_step env reg case_id i call expected prior block fault = Inr s"
    and "\<forall>f. fault = Some f \<longrightarrow> scenario_ok f"
  shows "sound_step reg expected block fault s"
proof -
  define wanted where "wanted = expected_text expected ''tool_name''"
  define selected where "selected = (registry_get reg (tc_name call) \<noteq> None \<and> (wanted = None \<or> wanted = Some (tc_name call)))"
  note run = assms(1) [unfolded execute_step_def Let_def, folded wanted_def, folded selected_def]
  from run obtain errors where e: "call_errors reg expected block fault (tc_name call) (as_dict (tc_arguments call)) = Inr errors"
    by (auto simp: bind_res_eq_Inr)
  show ?thesis
  proof (cases "registry_get reg (tc_name call)")
    case None
    with run e have "s = skipped_step i (str_or (tc_call_id call) (''call-'' @ show_nat (i + 1))) wanted (tc_name call)
        (as_dict (tc_arguments call)) selected errors" by simp
    with None show ?thesis by (simp add: sound_step_def skipped_step_def selected_def)
  next
    case (Some tool)
    show ?thesis
    proof (cases "\<not> selected \<or> errors \<noteq> []")
      case True
      with run e Some have "s = skipped_step i (str_or (tc_call_id call) (''call-'' @ show_nat (i + 1))) wanted (tc_name call)
          (as_dict (tc_arguments call)) selected errors" by simp
      with True show ?thesis by (auto simp: sound_step_def skipped_step_def)
    next
      case False
      define cx where "cx = \<lparr>tx_case_id = case_id, tx_step_index = i, tx_attempt = 1, tx_prior_outputs = prior\<rparr>"
      have l: "1 \<le> attempt_limit fault expected tool"
        using assms(2) max_attempts_bounds by (auto simp: attempt_limit_def scenario_ok_def split: option.split)
      then obtain k where k: "nat (attempt_limit fault expected tool) = Suc k"
        by (cases "nat (attempt_limit fault expected tool)") auto
      obtain rows out es failure where r:
        "run_attempts env tool fault (as_dict (tc_arguments call)) cx (Suc k) = (rows, out, es, failure)"
        by (metis prod.exhaust)
      from run e Some False k r have s: "s = executed_step i (str_or (tc_call_id call) (''call-'' @ show_nat (i + 1))) wanted
          (tc_name call) (as_dict (tc_arguments call)) (rows, out, es, failure)"
        by (simp add: cx_def)
      have "call_errors reg expected block fault (tc_name call) (as_dict (tc_arguments call)) = Inr []" using e False by simp
      note ok = call_errors_None [OF this Some]
      have n: "int (Suc k) = attempt_limit fault expected tool" using k l by linarith
      from run_attempts_shape [OF r] n have
        "attempts_shape 1 rows (out \<noteq> None) \<and> int (length rows) \<le> attempt_limit fault expected tool"
        by (simp add: cx_def)
      with run_attempts_shape [OF r] ok Some False show ?thesis
        by (cases out) (auto simp: sound_step_def s executed_step_def sound_execution_def Let_def selected_def wanted_def)
    qed
  qed
qed

section \<open>The calls of an output\<close>

lemma execute_calls_sound:
  assumes "execute_calls env reg case_id expected block fault i prior calls = Inr steps"
    and "\<forall>f. fault = Some f \<longrightarrow> scenario_ok f"
  shows "length steps = length calls \<and>
    (\<forall>j < length steps. sound_step reg (expected_at expected (i + j)) block fault (steps ! j))"
  using assms(1)
proof (induction calls arbitrary: i prior steps)
  case (Cons c cs)
  from Cons.prems obtain s ss where s: "steps = s # ss"
    "execute_step env reg case_id i c (expected_at expected i) prior block fault = Inr s"
    "execute_calls env reg case_id expected block fault (Suc i)
       (prior @ (case tp_output s of None \<Rightarrow> [] | Some x \<Rightarrow> [x])) cs = Inr ss"
    by (auto simp: bind_res_eq_Inr)
  note h = execute_step_sound [OF s(2) assms(2)] and t = Cons.IH [OF s(3)]
  show ?case
  proof (intro conjI allI impI)
    show "length steps = length (c # cs)" using s(1) t by simp
    show "sound_step reg (expected_at expected (i + j)) block fault (steps ! j)" if "j < length steps" for j
      using h t s(1) that by (cases j) simp_all
  qed
qed simp

definition resolved_registry :: "tool_registry \<Rightarrow> fault_scenario option \<Rightarrow> tool_registry" where
  "resolved_registry registry fault = (if fault = None then registry else build_fault_tool_registry registry)"

lemma trace_steps_of_execution:
  assumes "execute_tool_calls env c output registry block fault = Inr t"
  shows "tt_steps t = [] \<and> \<not> tt_call_valid t \<or>
    (\<exists>calls steps. bounded_calls fault (parse_tool_calls output) = Inr calls \<and> tt_steps t = steps \<and>
      execute_calls env (resolved_registry registry fault) (ec_external_id c)
        (expected_tool_steps (ec_expected_tool_schema c)) block fault 0 [] calls = Inr steps \<and>
      t = attach_fault_scenario env (trace_of_steps c (resolved_registry registry fault)
        (expected_names (expected_tool_steps (ec_expected_tool_schema c))) (map tc_name calls) steps) fault)"
proof -
  have at [simp]: "tt_steps (attach_fault_scenario env t' fault) = tt_steps t'" "tt_call_valid (attach_fault_scenario env t' fault) = tt_call_valid t'"
    for t' by (cases fault; simp add: attach_fault_scenario_def)+
  note run = assms [unfolded execute_tool_calls_def Let_def, folded resolved_registry_def]
  show ?thesis
  proof (cases "bounded_calls fault (parse_tool_calls output)")
    case (Inl e)
    with run show ?thesis by (auto simp: bind_res_eq_Inr empty_trace_def)
  next
    case (Inr calls)
    with run show ?thesis by (auto simp: bind_res_eq_Inr trace_of_steps_def Let_def)
  qed
qed

lemma bounded_calls_length: "bounded_calls fault parsed = Inr calls \<Longrightarrow> length calls \<le> 8 \<and> (fault \<noteq> None \<longrightarrow> length calls = 1)"
  by (auto simp: bounded_calls_def bind_res_eq_Inr MAX_TOOL_CALLS_PER_CASE_def split: if_splits)

text \<open>
  C10. Only valid calls reach a tool. Of an executed output at most eight calls become steps, and a step
  of which any attempt was made names a registered tool, the expected one where the case expects one, with
  arguments that satisfy the tool's schema and the case's, and was not blocked; its attempts are
  numbered from one, stay within the limit (at most three), each but the last failed in a way that may be tried again, and it has
  an output, which matches the tool's output schema, exactly when it succeeded. Every other step is skipped
  without an attempt.
\<close>

theorem only_valid_calls_reach_a_tool:
  assumes "execute_tool_calls env c output registry block fault = Inr t"
    and "\<forall>f. fault = Some f \<longrightarrow> scenario_ok f" and "i < length (tt_steps t)"
  shows "length (tt_steps t) \<le> 8 \<and> length (tp_attempts (tt_steps t ! i)) \<le> 3 \<and>
    (tp_attempts (tt_steps t ! i) = [] \<longrightarrow>
       tp_status (tt_steps t ! i) = ''skipped'' \<and> tp_output (tt_steps t ! i) = None) \<and>
    (tp_attempts (tt_steps t ! i) \<noteq> [] \<longrightarrow>
       sound_execution (resolved_registry registry fault)
         (expected_at (expected_tool_steps (ec_expected_tool_schema c)) i) block fault (tt_steps t ! i))"
proof -
  from trace_steps_of_execution [OF assms(1)] assms(3) obtain calls where
    calls: "bounded_calls fault (parse_tool_calls output) = Inr calls" and
    run: "execute_calls env (resolved_registry registry fault) (ec_external_id c)
        (expected_tool_steps (ec_expected_tool_schema c)) block fault 0 [] calls = Inr (tt_steps t)" by auto
  note sound = execute_calls_sound [OF run assms(2)]
  have three: "length (tp_attempts s) \<le> 3" if "sound_execution reg e block fault s" for reg e s
  proof -
    from that obtain tool where "int (length (tp_attempts s)) \<le> attempt_limit fault e tool"
      by (auto simp: sound_execution_def)
    moreover have "attempt_limit fault e tool \<le> 3"
      using assms(2) max_attempts_bounds by (auto simp: attempt_limit_def scenario_ok_def split: option.split)
    ultimately show ?thesis by linarith
  qed
  have shape: "tp_attempts s \<noteq> []" if "sound_execution reg e block fault s" for reg e s
    using that by (cases "tp_attempts s") (auto simp: sound_execution_def)
  from sound bounded_calls_length [OF calls] assms(3) show ?thesis
    by (auto simp: sound_step_def dest: three shape)
qed

section \<open>Fault scenarios and the default tools\<close>

lemma valid_has_required:
  assumes "validate_json_schema v schema path = Inr []" and "is_dict v"
    and "jget_or schema ''required'' (JArr []) = JArr ks" and "JStr k \<in> set ks"
  shows "has_key k v"
proof -
  have req: "JStr k \<in> set ks \<longrightarrow> has_key k v" if "required_errors v path ks = Inr []" for ks
    using that by (induction ks) (auto simp: bind_res_eq_Inr split: if_splits)
  have "required_errors v path ks = Inr []"
    using assms(1) [unfolded validate_json_schema.simps [of v]] assms(2,3)
    by (auto simp: Let_def bind_res_eq_Inr split: if_splits)
  with req assms(4) show ?thesis by blast
qed

lemma validate_text: "validate_json_schema (JStr s) (JObj [(''type'', JStr ''string'')]) path = Inr []"
  by (subst validate_json_schema.simps) (simp add: Let_def jget_def jget_or_def matches_type_def enum_errors_def length_errors_def)

lemma validate_dict: "validate_json_schema (JObj kvs) (JObj [(''type'', JStr ''object'')]) path = Inr []"
  by (subst validate_json_schema.simps)
    (simp add: Let_def jget_def jget_or_def matches_type_def enum_errors_def length_errors_def unknown_errors_def)

lemma tool_result_valid: "validate_json_schema (tool_result name data) output_schema path = Inr []"
  by (subst validate_json_schema.simps)
    (simp add: tool_result_def output_schema_def Let_def jget_def jget_or_def matches_type_def enum_errors_def
      length_errors_def unknown_errors_def has_key_def validate_text validate_dict)

text \<open>The default tools accept every argument their schema admits, and answer in the form they promise.\<close>

lemma default_tools_answer:
  assumes "registry_get (build_fault_tool_registry (build_default_tool_registry env)) name = Some tool"
    and "validate_json_schema arguments (td_argument_schema (rt_descriptor tool)) ''$'' = Inr []" and "is_dict arguments"
  shows "\<exists>out. rt_handler tool arguments cx = Inr out \<and>
    validate_json_schema out (td_output_schema (rt_descriptor tool)) ''$'' = Inr []"
proof -
  have required: "jget_or (fault_argument_schema (query_schema extra)) ''required'' (JArr []) = JArr [JStr ''query'']"
    "jget_or (fault_argument_schema document_schema) ''required'' (JArr []) = JArr [JStr ''document_id'']" for extra
    by (simp_all add: fault_argument_schema_def query_schema_def document_schema_def jget_or_def jget_def list_items_def
        dict_set_def dict_merge_def)
  have query: "has_key ''query'' arguments"
    if "td_argument_schema (rt_descriptor tool) = fault_argument_schema (query_schema extra)" for extra
    using valid_has_required [OF assms(2,3), of "[JStr ''query'']"] required(1) [of extra] that by simp
  have document: "has_key ''document_id'' arguments"
    if "td_argument_schema (rt_descriptor tool) = fault_argument_schema document_schema"
    using valid_has_required [OF assms(2,3), of "[JStr ''document_id'']"] required(2) that by simp
  from assms(1) have out: "td_output_schema (rt_descriptor tool) = output_schema"
    and "(\<exists>extra. td_argument_schema (rt_descriptor tool) = fault_argument_schema (query_schema extra)) \<and>
        rt_handler tool \<in> {lookup_policy, search_incidents, create_ticket env, lookup_customer, summarize_thread} \<or>
      td_argument_schema (rt_descriptor tool) = fault_argument_schema document_schema \<and>
        rt_handler tool = lookup_internal_document"
    unfolding registry_get_def build_fault_tool_registry_def build_default_tool_registry_def tool_spec_def
    by (auto split: if_split_asm)
  then consider "has_key ''query'' arguments"
      "rt_handler tool \<in> {lookup_policy, search_incidents, create_ticket env, lookup_customer, summarize_thread}"
    | "has_key ''document_id'' arguments" "rt_handler tool = lookup_internal_document"
    using query document by blast
  then show ?thesis
    by cases (auto simp: out argument_def lookup_internal_document_def lookup_policy_def search_incidents_def
        create_ticket_def lookup_customer_def summarize_thread_def tool_result_valid Let_def)
qed

text \<open>The attempts of a diagnostic run whose tool answers.\<close>

lemma scenario_attempts:
  assumes "scenario_ok f" and "nat (fs_max_attempts f) = k"
    and "\<And>cx. \<exists>out. rt_handler tool arguments cx = Inr out \<and>
      validate_json_schema out (td_output_schema (rt_descriptor tool)) ''$'' = Inr []"
    and "tx_attempt cx = 1"
  shows "map attempt_signature (fst (run_attempts env tool (Some f) arguments cx k)) = expected_signatures (fs_mode f)"
proof -
  have answers: "\<exists>out. run_attempt tool (Some f) arguments cx = (Inr out, [], True)" if "fault_at f (tx_attempt cx) = None" for cx
    using assms(3) [of cx] that by (auto simp: run_attempt_def failure_before_handler_def)
  have injected: "run_attempt tool (Some f) arguments cx = (Inl (injected_failure m), [], False)"
    if "fault_at f (tx_attempt cx) = Some m" for cx m
    using that by (simp add: run_attempt_def failure_before_handler_def)
  from assms(1,2) obtain j where j: "k = Suc j" by (cases k) (auto simp: scenario_ok_def)
  show ?thesis
  proof (cases "fs_mode f")
    case Normal_Run
    then have "fault_at f (tx_attempt cx) = None" by (simp add: fault_at_def)
    with answers [of cx] Normal_Run show ?thesis by (auto simp: j attempt_signature_def)
  next
    case Permanent_Fault
    then have "fault_at f (tx_attempt cx) = Some Permanent_Fault" by (simp add: fault_at_def)
    with injected [OF this] Permanent_Fault show ?thesis
      by (simp add: j attempt_signature_def Let_def injected_failure_def)
  next
    case Transient_Once
    with assms(1,2) obtain i where i: "j = Suc i" by (cases j) (auto simp: scenario_ok_def j)
    have first: "fault_at f (tx_attempt cx) = Some Transient_Once" "fault_at f 2 = None"
      using Transient_Once assms(4) by (simp_all add: fault_at_def)
    obtain out where "run_attempt tool (Some f) arguments (cx\<lparr>tx_attempt := 2\<rparr>) = (Inr out, [], True)"
      using answers [of "cx\<lparr>tx_attempt := 2\<rparr>"] first(2) by auto
    with injected [OF first(1)] first Transient_Once assms(4) show ?thesis
      by (simp add: j i attempt_signature_def Let_def injected_failure_def numeral_2_eq_2)
  qed
qed

lemma executed_attempts:
  assumes "execute_step env reg case_id i call expected prior block fault = Inr s"
    and "tp_selection_valid s" and "tp_arguments_valid s"
  obtains tool cx arguments where "registry_get reg (tc_name call) = Some tool" and "tx_attempt cx = 1" and "is_dict arguments"
    and "validate_json_schema arguments (td_argument_schema (rt_descriptor tool)) ''$'' = Inr []"
    and "tp_attempts s = fst (run_attempts env tool fault arguments cx (nat (attempt_limit fault expected tool)))"
proof -
  note run = assms(1) [unfolded execute_step_def Let_def]
  from run obtain errors where e: "call_errors reg expected block fault (tc_name call) (as_dict (tc_arguments call)) = Inr errors"
    by (auto simp: bind_res_eq_Inr)
  with run assms(2,3) obtain tool where tool: "registry_get reg (tc_name call) = Some tool" "errors = []"
    by (auto simp: skipped_step_def split: option.splits if_splits)
  from run e tool assms(2,3) have "tp_attempts s = fst (run_attempts env tool fault (as_dict (tc_arguments call))
      \<lparr>tx_case_id = case_id, tx_step_index = i, tx_attempt = 1, tx_prior_outputs = prior\<rparr>
      (nat (attempt_limit fault expected tool)))"
    by (auto simp: skipped_step_def executed_step_def Let_def split: if_splits prod.splits)
  moreover note call_errors_None(1) [OF e [unfolded tool(2)] tool(1)]
  ultimately show thesis using that [OF tool(1), of "\<lparr>tx_case_id = case_id, tx_step_index = i, tx_attempt = 1, tx_prior_outputs = prior\<rparr>"
      "as_dict (tc_arguments call)"] by simp
qed


end
