(* ===== verification/Tool_Witness.thy ===== *)
theory Tool_Witness
  imports Tool_Calls_Correct
begin

text \<open>Concrete instances of the properties of tool calls: a diagnostic run of \<open>lookup_policy\<close> with a transient fault.\<close>

definition sample_tools :: tool_env where
  "sample_tools = \<lparr>tl_sha = (\<lambda>s. take 16 (s @ replicate 16 (CHR ''0''))), tl_ms = (\<lambda>_ n. of_nat n / 8)\<rparr>"

definition policy_case :: eval_case where
  "policy_case = \<lparr>ec_id = ''case'', ec_suite_id = ''suite'', ec_external_id = ''tool-1'', ec_category = ''tool_single_step'',
     ec_title = ''Policy'', ec_input_payload = JObj [], ec_expected_output = JNull, ec_reference_context = JNull,
     ec_expected_tool_schema = JObj [(''tool_name'', JStr ''lookup_policy'')], ec_criticality = Standard,
     ec_is_active = True, ec_data_source = ''fixture''\<rparr>"

definition policy_call :: json where
  "policy_call = JObj [(''tool_name'', JStr ''lookup_policy''), (''arguments'', JObj [(''query'', JStr ''gate'')])]"

definition transient_fault :: fault_scenario where
  "transient_fault = \<lparr>fs_mode = Transient_Once, fs_max_attempts = 2\<rparr>"

definition policy_run :: "string + tool_trace" where
  "policy_run = execute_tool_calls sample_tools policy_case (json_dumps policy_call)
     (build_default_tool_registry sample_tools) None (Some transient_fault)"

lemma policy_run_valid: "case policy_run of Inl _ \<Rightarrow> False
    | Inr t \<Rightarrow> tt_call_valid t \<and> length (tt_steps t) = 1 \<and> map ta_number (tp_attempts (hd (tt_steps t))) = [1, 2]"
  by code_simp

lemma policy_run_trace:
  obtains t where "policy_run = Inr t" and "tt_call_valid t" and "length (tt_steps t) = 1" and "tp_attempts (tt_steps t ! 0) \<noteq> []"
proof -
  define r where "r = policy_run"
  note v = policy_run_valid [folded r_def]
  from v obtain t where t: "r = Inr t" by (cases r) simp_all
  from v have h: "tt_call_valid t" "length (tt_steps t) = 1" "map ta_number (tp_attempts (hd (tt_steps t))) = [1, 2]"
    by (simp_all add: t)
  from h(2) obtain s where "tt_steps t = [s]" by (cases "tt_steps t") simp_all
  with h(3) have "tp_attempts (tt_steps t ! 0) \<noteq> []" by (cases "tp_attempts s") simp_all
  with that t h(1,2) show thesis unfolding r_def by simp
qed

lemma transient_fault_ok: "scenario_ok transient_fault"
  by (simp add: scenario_ok_def transient_fault_def)

theorem only_valid_calls_reach_a_tool_witness:
  "\<exists>t. policy_run = Inr t \<and> tp_attempts (tt_steps t ! 0) \<noteq> [] \<and>
     sound_execution (build_fault_tool_registry (build_default_tool_registry sample_tools))
       (Some (JObj [(''tool_name'', JStr ''lookup_policy''), (''arguments'', JNull), (''example_arguments'', JNull), (''max_attempts'', JNull)]))
       None (Some transient_fault) (tt_steps t ! 0)"
proof -
  obtain t where t: "policy_run = Inr t" "length (tt_steps t) = 1" "tp_attempts (tt_steps t ! 0) \<noteq> []"
    by (rule policy_run_trace)
  have "expected_at (expected_tool_steps (ec_expected_tool_schema policy_case)) 0 =
      Some (JObj [(''tool_name'', JStr ''lookup_policy''), (''arguments'', JNull), (''example_arguments'', JNull), (''max_attempts'', JNull)])"
    by code_simp
  with only_valid_calls_reach_a_tool [OF t(1) [unfolded policy_run_def], of 0] t(2,3) transient_fault_ok t(1)
  show ?thesis by (auto simp: resolved_registry_def)
qed


end
